(* ===== verification/Prelude.thy ===== *)
theory Prelude
  imports Complex_Main "HOL-Library.List_Lexorder" "HOL-Library.Char_ord"
begin

text \<open>
  Shared vocabulary of the development: the type of clock readings, the Python
  string helpers the components use on identifiers (\<open>str\<close> and \<open>int\<close> of an integer,
  \<open>strip\<close>, \<open>lower\<close>), the exception monad that stands for raised exceptions, and the
  collections of rewrite rules the component theories add to.
\<close>

named_theorems table_simps \<open>how the table operations act on a lookup\<close>
named_theorems dict_simps \<open>how the dictionary operations act on a lookup\<close>
named_theorems step_simps \<open>what one operation of a component does to its state\<close>

section \<open>Clock readings\<close>

text \<open>
  The program stores UTC instants as ISO-8601 text (\<open>datetime.now(timezone.utc).isoformat()\<close>)
  and compares them as text in SQL. Instants of one time zone in this format have the same
  order as text and as instants, so the model keeps the number of microseconds since the
  epoch.
\<close>

datatype timestamp = Timestamp (micros: int)

instantiation timestamp :: linorder
begin

definition less_eq_timestamp :: "timestamp \<Rightarrow> timestamp \<Rightarrow> bool" where
  "less_eq_timestamp a b \<longleftrightarrow> micros a \<le> micros b"

definition less_timestamp :: "timestamp \<Rightarrow> timestamp \<Rightarrow> bool" where
  "less_timestamp a b \<longleftrightarrow> micros a < micros b"

instance
  by intro_classes
    (auto simp: less_eq_timestamp_def less_timestamp_def timestamp.expand)

end

lemmas timestamp_order = less_eq_timestamp_def less_timestamp_def

definition plus_seconds :: "timestamp \<Rightarrow> int \<Rightarrow> timestamp" where
  "plus_seconds t s = Timestamp (micros t + 1000000 * s)"

lemma micros_plus_seconds [simp]: "micros (plus_seconds t s) = micros t + 1000000 * s"
  by (simp add: plus_seconds_def)

text \<open>\<open>datetime.max\<close> in UTC: the last instant of the year 9999.\<close>

definition datetime_max :: int where
  "datetime_max = 253402300799999999"

section \<open>Python exceptions\<close>

datatype py_exc =
    TypeError
  | ValueError
  | KeyError
  | IndexError
  | AttributeError
  | OverflowError
  | ZeroDivisionError
  | IntegrityError
  | Raised string

type_synonym 'a result = "py_exc + 'a"

definition rbind :: "'a result \<Rightarrow> ('a \<Rightarrow> 'b result) \<Rightarrow> 'b result" where
  "rbind m f = (case m of Inl e \<Rightarrow> Inl e | Inr x \<Rightarrow> f x)"

lemma rbind_simps [simp]:
  "rbind (Inl e) f = Inl e"
  "rbind (Inr x) f = f x"
  by (simp_all add: rbind_def)

lemma rbind_eq_InrD: "rbind m f = Inr y \<Longrightarrow> \<exists>x. m = Inr x \<and> f x = Inr y"
  by (cases m) auto

section \<open>Decimal text of a natural number\<close>

definition digit_char :: "nat \<Rightarrow> char" where
  "digit_char d = char_of (48 + d)"

fun str_of_nat :: "nat \<Rightarrow> string" where
  "str_of_nat n =
     (if n < 10 then [digit_char n] else str_of_nat (n div 10) @ [digit_char (n mod 10)])"

declare str_of_nat.simps [simp del]

definition char_digit :: "char \<Rightarrow> nat option" where
  "char_digit c =
     (let n = of_char c :: nat in if 48 \<le> n \<and> n \<le> 57 then Some (n - 48) else None)"

fun read_digits :: "nat \<Rightarrow> string \<Rightarrow> nat option" where
  "read_digits acc [] = Some acc"
| "read_digits acc (c # cs) =
     (case char_digit c of None \<Rightarrow> None | Some d \<Rightarrow> read_digits (10 * acc + d) cs)"

text \<open>\<open>int(text)\<close> on unsigned decimal digits, the only text the program converts back.\<close>

definition nat_of_str :: "string \<Rightarrow> nat option" where
  "nat_of_str s = (if s = [] then None else read_digits 0 s)"

lemma char_digit_digit_char [simp]: "d < 10 \<Longrightarrow> char_digit (digit_char d) = Some d"
  by (simp add: char_digit_def digit_char_def)

lemma read_digits_append:
  "read_digits acc (xs @ ys) =
     (case read_digits acc xs of None \<Rightarrow> None | Some n \<Rightarrow> read_digits n ys)"
  by (induction xs arbitrary: acc) (auto split: option.splits)

lemma read_digits_str_of_nat: "read_digits 0 (str_of_nat n) = Some n"
proof (induction n rule: str_of_nat.induct)
  case (1 n)
  show ?case
  proof (cases "n < 10")
    case True
    then show ?thesis by (simp add: str_of_nat.simps)
  next
    case False
    with "1.IH" show ?thesis
      by (subst str_of_nat.simps) (simp add: read_digits_append)
  qed
qed

lemma str_of_nat_nonempty [simp]: "str_of_nat n \<noteq> []"
  by (subst str_of_nat.simps) simp

lemma nat_of_str_of_nat [simp]: "nat_of_str (str_of_nat n) = Some n"
  by (simp add: nat_of_str_def read_digits_str_of_nat)

lemma read_digits_all: "read_digits acc s = Some n \<Longrightarrow> c \<in> set s \<Longrightarrow> char_digit c \<noteq> None"
  by (induction s arbitrary: acc) (auto split: option.splits)

lemma str_of_nat_digits: "c \<in> set (str_of_nat n) \<Longrightarrow> char_digit c \<noteq> None"
  using read_digits_all [OF read_digits_str_of_nat] .

lemma str_of_nat_inj [simp]: "str_of_nat m = str_of_nat n \<longleftrightarrow> m = n"
  by (metis nat_of_str_of_nat option.inject)

section \<open>Text helpers\<close>

text \<open>
  Text is ASCII in this model: \<open>lower\<close> maps the letters A to Z, and the characters
  \<open>strip\<close> removes are the ASCII ones of \<open>str.isspace\<close>.
\<close>

definition is_space :: "char \<Rightarrow> bool" where
  "is_space c =
     (let n = of_char c :: nat in n = 32 \<or> (9 \<le> n \<and> n \<le> 13) \<or> (28 \<le> n \<and> n \<le> 31))"

definition strip :: "string \<Rightarrow> string" where
  "strip s = rev (dropWhile is_space (rev (dropWhile is_space s)))"

definition lower_char :: "char \<Rightarrow> char" where
  "lower_char c =
     (let n = of_char c :: nat in if 65 \<le> n \<and> n \<le> 90 then char_of (n + 32) else c)"

definition lower :: "string \<Rightarrow> string" where
  "lower s = map lower_char s"

end
