(* ===== verification/Tables.thy ===== *)
theory Tables
  imports Prelude
begin

text \<open>
  SQLite tables with an \<open>INTEGER PRIMARY KEY\<close>: rows with their id in insertion order, and
  the largest id handed out. The operations are those the program's statements use:
  \<open>INSERT\<close> returning \<open>lastrowid\<close>, \<open>SELECT ... WHERE id = ?\<close>, \<open>UPDATE ... WHERE\<close> and
  \<open>SELECT ... WHERE\<close>. The locale \<open>row_store\<close> is the interface the components rely on;
  the tables of this theory interpret it.
\<close>

record 'r table =
  trows :: "(nat \<times> 'r) list"
  tlast :: nat

definition empty_table :: "'r table" where
  "empty_table = \<lparr>trows = [], tlast = 0\<rparr>"

definition lookup_row :: "'r table \<Rightarrow> nat \<Rightarrow> 'r option" where
  "lookup_row t i = map_of (trows t) i"

definition insert_row :: "'r \<Rightarrow> 'r table \<Rightarrow> 'r table \<times> nat" where
  "insert_row r t =
     (let i = Suc (tlast t) in (\<lparr>trows = trows t @ [(i, r)], tlast = i\<rparr>, i))"

definition update_where :: "('r \<Rightarrow> bool) \<Rightarrow> ('r \<Rightarrow> 'r) \<Rightarrow> 'r table \<Rightarrow> 'r table" where
  "update_where P f t =
     t\<lparr>trows := map (\<lambda>(i, r). (i, if P r then f r else r)) (trows t)\<rparr>"

definition update_row :: "nat \<Rightarrow> ('r \<Rightarrow> 'r) \<Rightarrow> 'r table \<Rightarrow> 'r table" where
  "update_row j f t =
     t\<lparr>trows := map (\<lambda>(i, r). (i, if i = j then f r else r)) (trows t)\<rparr>"

definition select_rows :: "('r \<Rightarrow> bool) \<Rightarrow> 'r table \<Rightarrow> (nat \<times> 'r) list" where
  "select_rows P t = filter (\<lambda>(i, r). P r) (trows t)"

definition find_row :: "('r \<Rightarrow> bool) \<Rightarrow> 'r table \<Rightarrow> (nat \<times> 'r) option" where
  "find_row P t = find (\<lambda>(i, r). P r) (trows t)"

definition wf_table :: "'r table \<Rightarrow> bool" where
  "wf_table t \<longleftrightarrow> distinct (map fst (trows t)) \<and> (\<forall>i \<in> fst ` set (trows t). 0 < i \<and> i \<le> tlast t)"

section \<open>Facts of the tables\<close>

lemma map_of_map_snd:
  "map_of (map (\<lambda>(i, r). (i, g i r)) xs) j = map_option (g j) (map_of xs j)"
  by (induction xs) auto

lemma lookup_empty_table [simp]: "lookup_row empty_table i = None"
  by (simp add: lookup_row_def empty_table_def)

lemma lookup_update_row [table_simps]:
  "lookup_row (update_row j f t) i =
     (if i = j then map_option f (lookup_row t i) else lookup_row t i)"
  by (simp add: lookup_row_def update_row_def map_of_map_snd option.map_ident)

lemma lookup_update_where [table_simps]:
  "lookup_row (update_where P f t) i = map_option (\<lambda>r. if P r then f r else r) (lookup_row t i)"
  by (simp add: lookup_row_def update_where_def map_of_map_snd)

lemma wf_table_lookup_fresh: "wf_table t \<Longrightarrow> tlast t < i \<Longrightarrow> lookup_row t i = None"
  by (force simp: wf_table_def lookup_row_def map_of_eq_None_iff)

lemma lookup_insert_row [table_simps]:
  "wf_table t \<Longrightarrow>
     lookup_row (fst (insert_row r t)) i =
       (if i = snd (insert_row r t) then Some r else lookup_row t i)"
  using wf_table_lookup_fresh [of t "Suc (tlast t)"]
  by (auto simp: insert_row_def Let_def lookup_row_def map_add_def split: option.split)

lemma insert_row_fresh: "wf_table t \<Longrightarrow> lookup_row t (snd (insert_row r t)) = None"
  by (simp add: insert_row_def Let_def wf_table_lookup_fresh)

lemma wf_empty_table [simp]: "wf_table empty_table"
  by (simp add: wf_table_def empty_table_def)

lemma ids_map_snd:
  "map fst (trows (t\<lparr>trows := map (\<lambda>(i, r). (i, g i r)) (trows t)\<rparr>)) = map fst (trows t)"
  by (simp add: case_prod_beta comp_def)

lemma wf_table_cong:
  assumes "map fst (trows t') = map fst (trows t)" and "tlast t' = tlast t"
  shows "wf_table t' \<longleftrightarrow> wf_table t"
  using assms unfolding wf_table_def by (metis set_map)

lemma wf_update_row [simp]: "wf_table (update_row j f t) \<longleftrightarrow> wf_table t"
  unfolding update_row_def by (rule wf_table_cong [OF ids_map_snd]) simp

lemma wf_update_where [simp]: "wf_table (update_where P f t) \<longleftrightarrow> wf_table t"
  unfolding update_where_def by (rule wf_table_cong [OF ids_map_snd]) simp

lemma wf_insert_row [simp]: "wf_table t \<Longrightarrow> wf_table (fst (insert_row r t))"
  by (auto simp: wf_table_def insert_row_def Let_def)

lemma tlast_update [simp]:
  "tlast (update_row j f t) = tlast t"
  "tlast (update_where P f t) = tlast t"
  by (simp_all add: update_row_def update_where_def)

lemma find_row_Some:
  assumes "find_row P t = Some (i, r)" and "wf_table t"
  shows "lookup_row t i = Some r" and "P r"
  using assms
  by (auto simp: find_row_def find_Some_iff lookup_row_def wf_table_def in_set_conv_nth
      intro!: map_of_is_SomeI)

lemma find_row_None: "find_row P t = None \<Longrightarrow> lookup_row t i = Some r \<Longrightarrow> \<not> P r"
  by (force simp: find_row_def find_None_iff lookup_row_def dest: map_of_SomeD)

lemma select_rows_lookup:
  "wf_table t \<Longrightarrow> (i, r) \<in> set (select_rows P t) \<longleftrightarrow> lookup_row t i = Some r \<and> P r"
  by (auto simp: select_rows_def lookup_row_def wf_table_def map_of_eq_Some_iff)

section \<open>The interface of a row store\<close>

locale row_store =
  fixes lookup :: "'t \<Rightarrow> nat \<Rightarrow> 'r option"
    and insert :: "'r \<Rightarrow> 't \<Rightarrow> 't \<times> nat"
    and update :: "nat \<Rightarrow> ('r \<Rightarrow> 'r) \<Rightarrow> 't \<Rightarrow> 't"
    and invar :: "'t \<Rightarrow> bool"
  assumes law_insert: "invar t \<Longrightarrow>
        lookup (fst (insert r t)) i = (if i = snd (insert r t) then Some r else lookup t i)"
    and law_fresh: "invar t \<Longrightarrow> lookup t (snd (insert r t)) = None"
    and law_update: "lookup (update j f t) i = (if i = j then map_option f (lookup t i) else lookup t i)"
    and law_invar_insert: "invar t \<Longrightarrow> invar (fst (insert r t))"
    and law_invar_update: "invar t \<Longrightarrow> invar (update j f t)"
begin

text \<open>A row is never lost: every operation keeps each id that was present.\<close>

lemma ids_kept_by_insert: "invar t \<Longrightarrow> lookup t i \<noteq> None \<Longrightarrow> lookup (fst (insert r t)) i = lookup t i"
  using law_fresh [of t r] law_insert [of t r i] by (cases "i = snd (insert r t)") auto

lemma update_twice: "lookup (update j g (update j f t)) i = lookup (update j (g \<circ> f) t) i"
  by (simp add: law_update option.map_comp)

lemma update_other: "i \<noteq> j \<Longrightarrow> lookup (update j f t) i = lookup t i"
  by (simp add: law_update)

text \<open>
  A field that an update function never changes is the same afterwards in every row: the
  frame rule the components use for the columns an operation does not write.
\<close>

lemma update_keeps_field:
  assumes "\<And>r. g (f r) = g r"
  shows "map_option g (lookup (update j f t) i) = map_option g (lookup t i)"
  using assms by (simp add: law_update option.map_comp comp_def)

end

interpretation tbl: row_store lookup_row insert_row update_row wf_table
  by unfold_locales (simp_all add: lookup_insert_row insert_row_fresh lookup_update_row)

end
