(* ===== verification/Doc_States.thy ===== *)
theory Doc_States
  imports Prelude
begin

text \<open>
  \<open>DocumentStateMachine\<close> of src/workflow/state_machine.py: the states of a document, the
  transition table, and the three class methods. A state name outside the table is
  \<open>Other_state\<close>; \<open>TRANSITIONS.get\<close> gives it no successor. Reachability over the table is
  the relation \<open>doc_step\<close> and its closure.
\<close>

datatype doc_state =
    Received | Stored | Ocr_pending | Ocr_completed | Ocr_failed
  | Extraction_pending | Extraction_completed | Extraction_low_confidence
  | Vendor_matching_pending | Vendor_matched | Vendor_uncertain
  | Categorization_pending | Categorized | Category_uncertain
  | Duplicate_check_pending | Duplicate_clear | Suspected_duplicate | Duplicate_confirmed
  | Validation_pending | Validated | Validation_failed
  | Routing_pending | Routed | Dry_run_pending | Dry_run_completed
  | Approved_for_posting | Posting_pending | Doc_posting_failed | Doc_posted
  | Reconciliation_pending | Reconciled | Reconciliation_conflict | Missing_receipt
  | Exception_approved | Manual_review_required | Doc_failed | Reversed | Archived
  | Other_state string

fun state_name :: "doc_state \<Rightarrow> string" where
  "state_name Received = ''received''"
| "state_name Stored = ''stored''"
| "state_name Ocr_pending = ''ocr_pending''"
| "state_name Ocr_completed = ''ocr_completed''"
| "state_name Ocr_failed = ''ocr_failed''"
| "state_name Extraction_pending = ''extraction_pending''"
| "state_name Extraction_completed = ''extraction_completed''"
| "state_name Extraction_low_confidence = ''extraction_low_confidence''"
| "state_name Vendor_matching_pending = ''vendor_matching_pending''"
| "state_name Vendor_matched = ''vendor_matched''"
| "state_name Vendor_uncertain = ''vendor_uncertain''"
| "state_name Categorization_pending = ''categorization_pending''"
| "state_name Categorized = ''categorized''"
| "state_name Category_uncertain = ''category_uncertain''"
| "state_name Duplicate_check_pending = ''duplicate_check_pending''"
| "state_name Duplicate_clear = ''duplicate_clear''"
| "state_name Suspected_duplicate = ''suspected_duplicate''"
| "state_name Duplicate_confirmed = ''duplicate_confirmed''"
| "state_name Validation_pending = ''validation_pending''"
| "state_name Validated = ''validated''"
| "state_name Validation_failed = ''validation_failed''"
| "state_name Routing_pending = ''routing_pending''"
| "state_name Routed = ''routed''"
| "state_name Dry_run_pending = ''dry_run_pending''"
| "state_name Dry_run_completed = ''dry_run_completed''"
| "state_name Approved_for_posting = ''approved_for_posting''"
| "state_name Posting_pending = ''posting_pending''"
| "state_name Doc_posting_failed = ''posting_failed''"
| "state_name Doc_posted = ''posted''"
| "state_name Reconciliation_pending = ''reconciliation_pending''"
| "state_name Reconciled = ''reconciled''"
| "state_name Reconciliation_conflict = ''reconciliation_conflict''"
| "state_name Missing_receipt = ''missing_receipt''"
| "state_name Exception_approved = ''exception_approved''"
| "state_name Manual_review_required = ''manual_review_required''"
| "state_name Doc_failed = ''failed''"
| "state_name Reversed = ''reversed''"
| "state_name Archived = ''archived''"
| "state_name (Other_state s) = s"

definition INITIAL_STATE :: doc_state where
  "INITIAL_STATE = Received"

definition TERMINAL_STATES :: "doc_state list" where
  "TERMINAL_STATES = [Doc_posted, Duplicate_confirmed, Reversed, Archived]"

fun TRANSITIONS :: "doc_state \<Rightarrow> doc_state list" where
  "TRANSITIONS Received = [Stored, Manual_review_required, Doc_failed]"
| "TRANSITIONS Stored = [Ocr_pending, Manual_review_required, Doc_failed]"
| "TRANSITIONS Ocr_pending = [Ocr_completed, Ocr_failed, Manual_review_required]"
| "TRANSITIONS Ocr_completed = [Extraction_pending, Manual_review_required]"
| "TRANSITIONS Ocr_failed = [Manual_review_required, Ocr_pending, Doc_failed]"
| "TRANSITIONS Extraction_pending =
     [Extraction_completed, Extraction_low_confidence, Manual_review_required, Doc_failed]"
| "TRANSITIONS Extraction_completed = [Vendor_matching_pending, Manual_review_required]"
| "TRANSITIONS Extraction_low_confidence = [Manual_review_required]"
| "TRANSITIONS Vendor_matching_pending = [Vendor_matched, Vendor_uncertain, Manual_review_required]"
| "TRANSITIONS Vendor_matched = [Categorization_pending, Manual_review_required]"
| "TRANSITIONS Vendor_uncertain = [Manual_review_required]"
| "TRANSITIONS Categorization_pending = [Categorized, Category_uncertain, Manual_review_required]"
| "TRANSITIONS Categorized = [Duplicate_check_pending, Manual_review_required]"
| "TRANSITIONS Category_uncertain = [Manual_review_required]"
| "TRANSITIONS Duplicate_check_pending = [Duplicate_clear, Suspected_duplicate, Duplicate_confirmed]"
| "TRANSITIONS Duplicate_clear = [Validation_pending, Manual_review_required]"
| "TRANSITIONS Suspected_duplicate = [Manual_review_required, Duplicate_confirmed, Duplicate_clear]"
| "TRANSITIONS Validation_pending = [Validated, Validation_failed, Manual_review_required]"
| "TRANSITIONS Validated = [Routing_pending, Manual_review_required]"
| "TRANSITIONS Validation_failed = [Manual_review_required]"
| "TRANSITIONS Routing_pending = [Routed, Manual_review_required]"
| "TRANSITIONS Routed = [Dry_run_pending, Manual_review_required]"
| "TRANSITIONS Dry_run_pending = [Dry_run_completed, Doc_posting_failed, Manual_review_required]"
| "TRANSITIONS Dry_run_completed = [Approved_for_posting, Manual_review_required]"
| "TRANSITIONS Approved_for_posting = [Posting_pending, Manual_review_required]"
| "TRANSITIONS Posting_pending = [Doc_posted, Doc_posting_failed, Manual_review_required]"
| "TRANSITIONS Doc_posting_failed = [Manual_review_required, Dry_run_pending]"
| "TRANSITIONS Doc_posted = [Reconciliation_pending, Reversed, Archived]"
| "TRANSITIONS Reconciliation_pending =
     [Reconciled, Reconciliation_conflict, Missing_receipt, Manual_review_required]"
| "TRANSITIONS Reconciled = [Archived, Reversed]"
| "TRANSITIONS Reconciliation_conflict = [Manual_review_required, Exception_approved]"
| "TRANSITIONS Missing_receipt = [Manual_review_required, Exception_approved]"
| "TRANSITIONS Exception_approved = [Reconciled, Archived]"
| "TRANSITIONS Manual_review_required =
     [Approved_for_posting, Ocr_pending, Duplicate_clear, Exception_approved, Doc_failed, Archived]"
| "TRANSITIONS Doc_failed = [Manual_review_required, Archived]"
| "TRANSITIONS Duplicate_confirmed = [Archived]"
| "TRANSITIONS Reversed = [Archived]"
| "TRANSITIONS Archived = []"
| "TRANSITIONS (Other_state _) = []"

definition can_transition :: "doc_state \<Rightarrow> doc_state \<Rightarrow> bool" where
  "can_transition current_state next_state \<longleftrightarrow> next_state \<in> set (TRANSITIONS current_state)"

datatype transition_error = InvalidStateTransition doc_state doc_state

definition validate_transition :: "doc_state \<Rightarrow> doc_state \<Rightarrow> transition_error + unit" where
  "validate_transition current_state next_state =
     (if \<not> can_transition current_state next_state
      then Inl (InvalidStateTransition current_state next_state) else Inr ())"

definition allowed_next_states :: "doc_state \<Rightarrow> string list" where
  "allowed_next_states current_state = sort (map state_name (TRANSITIONS current_state))"

section \<open>Paths through the table\<close>

inductive doc_step :: "doc_state \<Rightarrow> doc_state \<Rightarrow> bool" where
  move: "validate_transition s t = Inr () \<Longrightarrow> doc_step s t"

inductive_simps doc_step_iff: "doc_step s t"

lemma doc_step_can: "doc_step s t \<longleftrightarrow> can_transition s t"
  by (simp add: doc_step_iff validate_transition_def)

text \<open>A path: the states visited after the first one.\<close>

fun doc_path :: "doc_state \<Rightarrow> doc_state list \<Rightarrow> bool" where
  "doc_path s [] \<longleftrightarrow> True"
| "doc_path s (t # ts) \<longleftrightarrow> doc_step s t \<and> doc_path t ts"

text \<open>
  A gate: when every step into \<open>region\<close> from outside goes to the gate (on paths that stay
  clear of \<open>avoid\<close>), a path that starts outside and visits the region has visited the gate,
  no later than its first visit to any given state of the region.
\<close>

lemma path_through_gate:
  assumes into: "\<And>s t. can_transition s t \<Longrightarrow> t \<in> region \<Longrightarrow> s \<notin> avoid \<Longrightarrow> s \<in> region \<or> t = gate"
    and "doc_path s ts" and "s \<notin> region" and "t \<in> set ts" and "t \<in> region"
    and "s \<notin> avoid" and "set ts \<inter> avoid = {}"
  shows "gate \<in> set (takeWhile (\<lambda>u. u \<noteq> t) ts @ [t])"
  using assms(2-7)
proof (induction ts arbitrary: s)
  case Nil
  then show ?case by simp
next
  case (Cons u us)
  show ?case
  proof (cases "u \<in> region")
    case True
    then have "u = gate" using into Cons.prems(1,2,5) by (auto simp: doc_step_can)
    then show ?thesis by auto
  next
    case False
    with Cons.prems have "u \<noteq> t" "t \<in> set us" "doc_path u us" "u \<notin> avoid" "set us \<inter> avoid = {}"
      by auto
    then show ?thesis using Cons.IH [of u] False Cons.prems(4) by auto
  qed
qed

lemma into_posted: "can_transition s Doc_posted \<longleftrightarrow> s = Posting_pending"
  by (cases s) (simp_all add: can_transition_def)

lemma into_posting_pending: "can_transition s Posting_pending \<longleftrightarrow> s = Approved_for_posting"
  by (cases s) (simp_all add: can_transition_def)

lemma into_approved:
  "can_transition s Approved_for_posting \<longleftrightarrow> s = Dry_run_completed \<or> s = Manual_review_required"
  by (cases s) (simp_all add: can_transition_def)

text \<open>
  A rank that some transition decreases from every state of the table but \<open>Archived\<close>:
  the distance to the archive.
\<close>

fun archive_hop :: "doc_state \<Rightarrow> doc_state" where
  "archive_hop Duplicate_check_pending = Duplicate_confirmed"
| "archive_hop Doc_posted = Archived"
| "archive_hop Reconciled = Archived"
| "archive_hop Exception_approved = Archived"
| "archive_hop Manual_review_required = Archived"
| "archive_hop Doc_failed = Archived"
| "archive_hop Duplicate_confirmed = Archived"
| "archive_hop Reversed = Archived"
| "archive_hop _ = Manual_review_required"

lemma archive_hop_step:
  "s \<noteq> Archived \<Longrightarrow> \<forall>n. s \<noteq> Other_state n \<Longrightarrow>
     can_transition s (archive_hop s) \<and>
     (archive_hop s = Archived \<or> can_transition (archive_hop s) Archived)"
  by (cases s) (simp_all add: can_transition_def)

section \<open>Properties\<close>

text \<open>
  a document reaches \<open>posted\<close> only after \<open>approved_for_posting\<close>: on every path of the
  transition table from \<open>received\<close>, the approval comes before the first posting.
\<close>

theorem posted_only_through_approval:
  assumes "doc_path INITIAL_STATE ts" and "Doc_posted \<in> set ts"
  shows "Approved_for_posting \<in> set (takeWhile (\<lambda>u. u \<noteq> Doc_posted) ts)"
proof -
  have "Approved_for_posting \<in> set (takeWhile (\<lambda>u. u \<noteq> Doc_posted) ts @ [Doc_posted])"
  proof (rule path_through_gate
      [where region = "{Approved_for_posting, Posting_pending, Doc_posted}" and avoid = "{}"])
    show "doc_path INITIAL_STATE ts" by (rule assms(1))
  qed (auto simp: assms INITIAL_STATE_def into_posted into_posting_pending)
  then show ?thesis by simp
qed

theorem posted_only_through_approval_witness:
  "Approved_for_posting \<in> set (takeWhile (\<lambda>u. u \<noteq> Doc_posted)
     [Manual_review_required, Approved_for_posting, Posting_pending, Doc_posted])"
  by (rule posted_only_through_approval)
    (simp_all add: INITIAL_STATE_def doc_step_can can_transition_def)

text \<open>
  The states from the cleared duplicate check to the posting, and the tail of them from the
  completed dry run: the regions of the unattended path.
\<close>

definition after_duplicate_check :: "doc_state set" where
  "after_duplicate_check =
     {Duplicate_clear, Validation_pending, Validated, Validation_failed, Routing_pending, Routed,
      Dry_run_pending, Dry_run_completed, Approved_for_posting, Posting_pending,
      Doc_posting_failed, Doc_posted}"

definition after_validation :: "doc_state set" where
  "after_validation =
     {Validated, Routing_pending, Routed, Dry_run_pending, Dry_run_completed,
      Approved_for_posting, Posting_pending, Doc_posting_failed, Doc_posted}"

lemma into_after_duplicate_check:
  "can_transition s t \<Longrightarrow> t \<in> after_duplicate_check \<Longrightarrow> s \<notin> {Manual_review_required} \<Longrightarrow>
     s \<in> after_duplicate_check \<or> t = Duplicate_clear"
  by (cases s) (auto simp: can_transition_def after_duplicate_check_def)

lemma into_after_validation:
  "can_transition s t \<Longrightarrow> t \<in> after_validation \<Longrightarrow> s \<notin> {Manual_review_required} \<Longrightarrow>
     s \<in> after_validation \<or> t = Validated"
  by (cases s) (auto simp: can_transition_def after_validation_def)

lemma into_dry_run_region:
  "can_transition s t \<Longrightarrow> t \<in> {Dry_run_completed, Approved_for_posting, Posting_pending, Doc_posted} \<Longrightarrow>
     s \<notin> {Manual_review_required} \<Longrightarrow>
     s \<in> {Dry_run_completed, Approved_for_posting, Posting_pending, Doc_posted} \<or> t = Dry_run_completed"
  by (cases s) (auto simp: can_transition_def)

text \<open>
  a document that is posted without ever entering manual review has passed, before its
  posting, the cleared duplicate check, the validation and the completed dry run.
\<close>

theorem unattended_posting_gates:
  assumes "doc_path INITIAL_STATE ts" and "Doc_posted \<in> set ts"
    and "Manual_review_required \<notin> set ts"
  shows "{Duplicate_clear, Validated, Dry_run_completed} \<subseteq> set (takeWhile (\<lambda>u. u \<noteq> Doc_posted) ts)"
proof -
  have gate: "g \<in> set (takeWhile (\<lambda>u. u \<noteq> Doc_posted) ts @ [Doc_posted])"
    if "Doc_posted \<in> R" "INITIAL_STATE \<notin> R"
      and "\<And>s t. can_transition s t \<Longrightarrow> t \<in> R \<Longrightarrow> s \<notin> {Manual_review_required} \<Longrightarrow> s \<in> R \<or> t = g"
    for R g
    by (rule path_through_gate [OF that(3) assms(1) that(2) assms(2) that(1)])
      (use assms(3) in \<open>auto simp: INITIAL_STATE_def\<close>)
  show ?thesis
    using gate [OF _ _ into_after_duplicate_check] gate [OF _ _ into_after_validation]
      gate [OF _ _ into_dry_run_region]
    by (simp add: after_duplicate_check_def after_validation_def INITIAL_STATE_def)
qed

theorem unattended_posting_gates_witness:
  "{Duplicate_clear, Validated, Dry_run_completed} \<subseteq> set (takeWhile (\<lambda>u. u \<noteq> Doc_posted)
     [Stored, Ocr_pending, Ocr_completed, Extraction_pending, Extraction_completed,
      Vendor_matching_pending, Vendor_matched, Categorization_pending, Categorized,
      Duplicate_check_pending, Duplicate_clear, Validation_pending, Validated, Routing_pending,
      Routed, Dry_run_pending, Dry_run_completed, Approved_for_posting, Posting_pending, Doc_posted])"
  by (rule unattended_posting_gates)
    (simp_all add: INITIAL_STATE_def doc_step_can can_transition_def)

text \<open>
  no state of the table is a dead end: from every state the archive is at most two
  transitions away.
\<close>

theorem archive_always_reachable:
  "(\<forall>n. s \<noteq> Other_state n) \<Longrightarrow> \<exists>ts. length ts \<le> 2 \<and> doc_path s ts \<and> last (s # ts) = Archived"
proof (cases "s = Archived")
  case True
  then show ?thesis by (intro exI [of _ "[]"]) simp
next
  case False
  assume "\<forall>n. s \<noteq> Other_state n"
  with False archive_hop_step have hop: "can_transition s (archive_hop s)"
    and onward: "archive_hop s = Archived \<or> can_transition (archive_hop s) Archived" by blast+
  from onward show ?thesis
  proof
    assume "archive_hop s = Archived"
    with hop show ?thesis by (intro exI [of _ "[Archived]"]) (simp add: doc_step_can)
  next
    assume "can_transition (archive_hop s) Archived"
    with hop show ?thesis
      by (intro exI [of _ "[archive_hop s, Archived]"]) (simp add: doc_step_can)
  qed
qed

lemma distinct_state_names: "distinct (map state_name (TRANSITIONS s))"
  by (cases s) simp_all

text \<open>
  \<open>allowed_next_states\<close> lists exactly the names of the states that
  \<open>validate_transition\<close> accepts, sorted and without repetition.
\<close>

theorem allowed_next_states_exact:
  "sorted (allowed_next_states s) \<and> distinct (allowed_next_states s) \<and>
   set (allowed_next_states s) = state_name ` {t. validate_transition s t = Inr ()}"
  using distinct_state_names [of s] by (auto simp: allowed_next_states_def validate_transition_def can_transition_def)

text \<open>
  of the four states the code lists as terminal, only \<open>archived\<close> has no successor: the
  table still moves a posted, reversed or confirmed-duplicate document.
\<close>

theorem terminal_states_with_successors:
  "filter (\<lambda>s. TRANSITIONS s \<noteq> []) TERMINAL_STATES = [Doc_posted, Duplicate_confirmed, Reversed]"
  by (simp add: TERMINAL_STATES_def)

text \<open>A witness of the two-step bound: a received document.\<close>

theorem archive_always_reachable_witness:
  "\<exists>ts. length ts \<le> 2 \<and> doc_path Received ts \<and> last (Received # ts) = Archived"
  by (rule archive_always_reachable) simp

end
