(* ===== verification/Py_Values.thy ===== *)
theory Py_Values
  imports Prelude
begin

text \<open>
  Python values as the program's dictionaries hold them (configuration, extracted fields,
  provider results, JSON columns), with the operations the code applies to values whose type
  it does not know: truth, \<open>or\<close>, \<open>dict.get\<close>, item assignment, \<open>float\<close> and \<open>int\<close>.
  A float is an exact rational, an infinity or NaN: comparisons are those of IEEE numbers, the
  rounding of a literal to binary64 is not modelled.
\<close>

section \<open>Floats\<close>

datatype pyfloat = Num rat | Infty bool | NaN

fun flt_less :: "pyfloat \<Rightarrow> pyfloat \<Rightarrow> bool" where
  "flt_less (Num a) (Num b) \<longleftrightarrow> a < b"
| "flt_less (Infty a) (Infty b) \<longleftrightarrow> \<not> a \<and> b"
| "flt_less (Infty a) (Num _) \<longleftrightarrow> \<not> a"
| "flt_less (Num _) (Infty b) \<longleftrightarrow> b"
| "flt_less NaN _ \<longleftrightarrow> False"
| "flt_less _ NaN \<longleftrightarrow> False"

fun flt_eq :: "pyfloat \<Rightarrow> pyfloat \<Rightarrow> bool" where
  "flt_eq (Num a) (Num b) \<longleftrightarrow> a = b"
| "flt_eq (Infty a) (Infty b) \<longleftrightarrow> a = b"
| "flt_eq _ _ \<longleftrightarrow> False"

definition flt_le :: "pyfloat \<Rightarrow> pyfloat \<Rightarrow> bool" where
  "flt_le x y \<longleftrightarrow> flt_less x y \<or> flt_eq x y"

lemma flt_le_Num [simp]: "flt_le (Num a) (Num b) \<longleftrightarrow> a \<le> b"
  by (auto simp: flt_le_def)

lemma flt_le_NaN [simp]: "\<not> flt_le NaN x" "\<not> flt_le x NaN"
  by (cases x; simp add: flt_le_def)+

lemma flt_le_trans: "flt_le x y \<Longrightarrow> flt_le y z \<Longrightarrow> flt_le x z"
  by (cases x; cases y; cases z) (auto simp: flt_le_def)

text \<open>\<open>min(a, b)\<close> keeps the first argument unless the second is smaller.\<close>

definition flt_min2 :: "pyfloat \<Rightarrow> pyfloat \<Rightarrow> pyfloat" where
  "flt_min2 a b = (if flt_less b a then b else a)"

text \<open>\<open>min(values)\<close> of a non-empty list, left to right.\<close>

definition flt_min :: "pyfloat \<Rightarrow> pyfloat list \<Rightarrow> pyfloat" where
  "flt_min x xs = foldl flt_min2 x xs"

lemma flt_min2_cases: "flt_min2 a b = a \<or> flt_min2 a b = b"
  by (simp add: flt_min2_def)

lemma flt_min2_le: "a \<noteq> NaN \<Longrightarrow> b \<noteq> NaN \<Longrightarrow> flt_le (flt_min2 a b) a \<and> flt_le (flt_min2 a b) b"
  by (cases a; cases b) (auto simp: flt_min2_def flt_le_def)

lemma flt_min_mem: "flt_min x xs \<in> insert x (set xs)"
proof (induction xs arbitrary: x)
  case Nil
  then show ?case by (simp add: flt_min_def)
next
  case (Cons y ys)
  from Cons [of "flt_min2 x y"] show ?case
    using flt_min2_cases [of x y] by (auto simp: flt_min_def)
qed

text \<open>The minimum of numbers none of which is NaN is below each of them.\<close>

lemma flt_le_refl: "a \<noteq> NaN \<Longrightarrow> flt_le a a"
  by (cases a) (auto simp: flt_le_def)

lemma flt_min_le:
  "NaN \<notin> insert x (set xs) \<Longrightarrow> y \<in> insert x (set xs) \<Longrightarrow> flt_le (flt_min x xs) y"
proof (induction xs arbitrary: x y)
  case Nil
  then show ?case by (simp add: flt_min_def flt_le_refl)
next
  case (Cons z zs)
  let ?m = "flt_min2 x z"
  have m: "NaN \<notin> insert ?m (set zs)" using Cons.prems(1) flt_min2_cases [of x z] by auto
  have low: "flt_le ?m x" "flt_le ?m z" using flt_min2_le [of x z] Cons.prems(1) by auto
  have "flt_le (flt_min ?m zs) ?m" by (rule Cons.IH [OF m]) simp
  then have "flt_le (flt_min ?m zs) y"
    using Cons.IH [OF m, of y] Cons.prems(2) flt_le_trans [OF _ low(1)] flt_le_trans [OF _ low(2)]
    by auto
  then show ?case by (simp add: flt_min_def)
qed

text \<open>\<open>round(x, 4)\<close>: to four decimals, a tie to the even neighbour.\<close>

definition round_half_even :: "rat \<Rightarrow> int" where
  "round_half_even r =
     (let f = \<lfloor>r\<rfloor>; d = r - of_int f
      in if d < 1 / 2 then f else if 1 / 2 < d then f + 1 else if even f then f else f + 1)"

fun round4 :: "pyfloat \<Rightarrow> pyfloat" where
  "round4 (Num r) = Num (of_int (round_half_even (r * 10000)) / 10000)"
| "round4 x = x"

section \<open>Values\<close>

datatype pyval =
    PNone
  | PBool bool
  | PInt int
  | PFloat pyfloat
  | PStr string
  | PList "pyval list"
  | PDict "(string \<times> pyval) list"

type_synonym pydict = "(string \<times> pyval) list"

fun truthy :: "pyval \<Rightarrow> bool" where
  "truthy PNone = False"
| "truthy (PBool b) = b"
| "truthy (PInt i) = (i \<noteq> 0)"
| "truthy (PFloat f) = (\<not> flt_eq f (Num 0))"
| "truthy (PStr s) = (s \<noteq> [])"
| "truthy (PList xs) = (xs \<noteq> [])"
| "truthy (PDict d) = (d \<noteq> [])"

definition py_or :: "pyval \<Rightarrow> pyval \<Rightarrow> pyval" where
  "py_or a b = (if truthy a then a else b)"

lemma py_or_simps [simp]:
  "truthy a \<Longrightarrow> py_or a b = a"
  "\<not> truthy a \<Longrightarrow> py_or a b = b"
  by (simp_all add: py_or_def)

definition dget_or :: "pydict \<Rightarrow> string \<Rightarrow> pyval \<Rightarrow> pyval" where
  "dget_or d k dflt = (case map_of d k of None \<Rightarrow> dflt | Some v \<Rightarrow> v)"

abbreviation dget :: "pydict \<Rightarrow> string \<Rightarrow> pyval" where
  "dget d k \<equiv> dget_or d k PNone"

text \<open>\<open>d[k] = v\<close>: an existing key keeps its position, a new one goes to the end.\<close>

fun dset :: "string \<Rightarrow> 'v \<Rightarrow> (string \<times> 'v) list \<Rightarrow> (string \<times> 'v) list" where
  "dset k v [] = [(k, v)]"
| "dset k v ((k', v') # d) = (if k' = k then (k, v) # d else (k', v') # dset k v d)"

text \<open>\<open>d.update(e)\<close>\<close>

definition dupdate :: "(string \<times> 'v) list \<Rightarrow> (string \<times> 'v) list \<Rightarrow> (string \<times> 'v) list" where
  "dupdate d e = foldl (\<lambda>acc (k, v). dset k v acc) d e"

lemma map_of_dset [dict_simps]: "map_of (dset k v d) k' = (if k' = k then Some v else map_of d k')"
  by (induction d) auto

lemma map_of_dupdate [dict_simps]:
  "map_of (dupdate d e) k = (case map_of (rev e) k of None \<Rightarrow> map_of d k | Some v \<Rightarrow> Some v)"
proof (induction e arbitrary: d)
  case Nil
  then show ?case by (simp add: dupdate_def)
next
  case (Cons kv e)
  obtain k' v' where kv: "kv = (k', v')" by (cases kv)
  have "dupdate d (kv # e) = dupdate (dset k' v' d) e" by (simp add: dupdate_def kv)
  then show ?case using Cons [of "dset k' v' d"]
    by (auto simp: kv map_of_dset map_add_def split: option.splits)
qed

lemma keys_dset: "fst ` set (dset k v d) = insert k (fst ` set d)"
proof (induction d)
  case (Cons a d)
  then show ?case by (cases a) (simp add: insert_commute)
qed simp

lemma distinct_dset: "distinct (map fst d) \<Longrightarrow> distinct (map fst (dset k v d))"
proof (induction d)
  case (Cons a d)
  then show ?case using keys_dset [of k v d] by (cases a) auto
qed simp

lemma dget_dset [dict_simps]: "dget_or (dset k v d) k' dflt = (if k' = k then v else dget_or d k' dflt)"
  by (simp add: dget_or_def map_of_dset)

lemma dget_Nil [simp]: "dget_or [] k dflt = dflt"
  by (simp add: dget_or_def)

lemma dget_Cons [simp]: "dget_or ((k', v) # d) k dflt = (if k = k' then v else dget_or d k dflt)"
  by (simp add: dget_or_def)

text \<open>
  \<open>v.get(k, dflt)\<close> on a value of unknown type: only a dictionary has the method.
\<close>

fun attr_get :: "pyval \<Rightarrow> string \<Rightarrow> pyval \<Rightarrow> pyval result" where
  "attr_get (PDict d) k dflt = Inr (dget_or d k dflt)"
| "attr_get _ _ _ = Inl AttributeError"

definition is_blank :: "pyval \<Rightarrow> bool" where
  \<comment> \<open>\<open>value in (None, "")\<close>\<close>
  "is_blank v \<longleftrightarrow> v = PNone \<or> v = PStr []"

fun as_dict :: "pyval \<Rightarrow> pydict" where
  \<comment> \<open>\<open>v if isinstance(v, dict) else {}\<close>\<close>
  "as_dict (PDict d) = d"
| "as_dict _ = []"

section \<open>Numbers from text\<close>

definition is_digit :: "char \<Rightarrow> bool" where
  "is_digit c \<longleftrightarrow> char_digit c \<noteq> None"

text \<open>
  The longest run of digits, with single underscores between digits as Python's literals
  allow; \<open>prev\<close> says whether the character before was a digit.
\<close>

fun digit_run :: "bool \<Rightarrow> string \<Rightarrow> nat list \<times> string" where
  "digit_run prev [] = ([], [])"
| "digit_run prev (c # cs) =
     (case char_digit c of
        Some d \<Rightarrow> (let (ds, rest) = digit_run True cs in (d # ds, rest))
      | None \<Rightarrow>
          (if c = CHR ''_'' \<and> prev \<and> (\<exists>e \<in> set (take 1 cs). is_digit e)
           then digit_run False cs else ([], c # cs)))"

definition digits_value :: "nat list \<Rightarrow> nat" where
  "digits_value ds = foldl (\<lambda>a d. 10 * a + d) 0 ds"

definition read_sign :: "string \<Rightarrow> bool \<times> string" where
  "read_sign s =
     (case s of [] \<Rightarrow> (False, [])
      | c # cs \<Rightarrow> if c = CHR ''-'' then (True, cs) else if c = CHR ''+'' then (False, cs) else (False, s))"

definition read_exponent :: "string \<Rightarrow> (int \<times> string) option" where
  "read_exponent s =
     (case s of [] \<Rightarrow> Some (0, [])
      | c # cs \<Rightarrow>
          if c = CHR ''e'' \<or> c = CHR ''E'' then
            (let (neg, body) = read_sign cs; (ds, rest) = digit_run False body
             in if ds = [] then None
                else Some (if neg then - int (digits_value ds) else int (digits_value ds), rest))
          else Some (0, s))"

definition scale10 :: "rat \<Rightarrow> int \<Rightarrow> rat" where
  "scale10 r e = (if 0 \<le> e then r * 10 ^ nat e else r / 10 ^ nat (- e))"

definition parse_float :: "string \<Rightarrow> pyfloat option" where
  "parse_float text =
     (let (neg, body) = read_sign (strip text); word = lower body
      in if word = ''inf'' \<or> word = ''infinity'' then Some (Infty (\<not> neg))
         else if word = ''nan'' then Some NaN
         else
           (let (ip, r1) = digit_run False body;
                (fp, r2) = (case r1 of [] \<Rightarrow> ([], [])
                            | c # cs \<Rightarrow> if c = CHR ''.'' then digit_run False cs else ([], r1))
            in if ip = [] \<and> fp = [] then None
               else case read_exponent r2 of
                      Some (e, []) \<Rightarrow>
                        (let m = scale10 (of_nat (digits_value (ip @ fp))) (e - int (length fp))
                         in Some (Num (if neg then - m else m)))
                    | _ \<Rightarrow> None))"

definition parse_int :: "string \<Rightarrow> int option" where
  "parse_int text =
     (let (neg, body) = read_sign (strip text); (ds, rest) = digit_run False body
      in if ds = [] \<or> rest \<noteq> [] then None
         else Some (if neg then - int (digits_value ds) else int (digits_value ds)))"

text \<open>\<open>float(v)\<close> and \<open>int(v)\<close>\<close>

fun to_float :: "pyval \<Rightarrow> pyfloat result" where
  "to_float (PBool b) = Inr (Num (if b then 1 else 0))"
| "to_float (PInt i) = Inr (Num (of_int i))"
| "to_float (PFloat f) = Inr f"
| "to_float (PStr s) = (case parse_float s of None \<Rightarrow> Inl ValueError | Some f \<Rightarrow> Inr f)"
| "to_float _ = Inl TypeError"

definition trunc_rat :: "rat \<Rightarrow> int" where
  "trunc_rat r = (if 0 \<le> r then \<lfloor>r\<rfloor> else - \<lfloor>- r\<rfloor>)"

fun float_to_int :: "pyfloat \<Rightarrow> int result" where
  "float_to_int (Num r) = Inr (trunc_rat r)"
| "float_to_int (Infty _) = Inl OverflowError"
| "float_to_int NaN = Inl ValueError"

fun to_int :: "pyval \<Rightarrow> int result" where
  "to_int (PBool b) = Inr (if b then 1 else 0)"
| "to_int (PInt i) = Inr i"
| "to_int (PFloat f) = float_to_int f"
| "to_int (PStr s) = (case parse_int s of None \<Rightarrow> Inl ValueError | Some i \<Rightarrow> Inr i)"
| "to_int _ = Inl TypeError"

end
