(* ===== verification/Safety_Engine.thy ===== *)
theory Safety_Engine
  imports Py_Values
begin

text \<open>
  \<open>SafetyEngine\<close> of src/workflow/safety_engine.py: the thresholds and required fields an
  instance holds, the extraction and posting evaluations with the exceptions their dictionary
  accesses and conversions raise, and the decision both end in. Scores are floats with the
  IEEE comparisons of theory \<open>Py_Values\<close>.
\<close>

datatype decision = Auto_process | Approval_needed | Manual_review

record safety_config =
  sc_thresholds :: "(string \<times> pyfloat) list"
  sc_required :: "string list option"

record safety_engine =
  se_auto :: pyfloat
  se_approval :: pyfloat
  se_required :: "string list"

record safety_result =
  sr_context :: string
  sr_decision :: decision
  sr_score :: pyfloat
  sr_warnings :: "string list"
  sr_reason :: string
  sr_may_post :: bool

definition DEFAULT_THRESHOLDS :: "(string \<times> pyfloat) list" where
  "DEFAULT_THRESHOLDS =
     [(''auto_process'', Num (95 / 100)), (''approval_required'', Num (85 / 100)),
      (''manual_review'', Num (70 / 100)), (''posting'', Num (95 / 100))]"

definition REQUIRED_POSTING_FIELDS :: "string list" where
  "REQUIRED_POSTING_FIELDS =
     [''vendor_name'', ''transaction_date'', ''total_amount'', ''currency'']"

definition engine_thresholds :: "safety_config \<Rightarrow> (string \<times> pyfloat) list" where
  "engine_thresholds cfg = dupdate DEFAULT_THRESHOLDS (sc_thresholds cfg)"

definition threshold :: "safety_config \<Rightarrow> string \<Rightarrow> pyfloat" where
  "threshold cfg k = (case map_of (engine_thresholds cfg) k of None \<Rightarrow> NaN | Some f \<Rightarrow> f)"

definition init_safety_engine :: "safety_config \<Rightarrow> safety_engine" where
  "init_safety_engine cfg =
     \<lparr>se_auto = threshold cfg ''auto_process'',
      se_approval = threshold cfg ''approval_required'',
      se_required = (case sc_required cfg of None \<Rightarrow> REQUIRED_POSTING_FIELDS | Some fs \<Rightarrow> fs)\<rparr>"

text \<open>\<open>for field_name in required: if not extracted.get(field_name): warnings.append(...)\<close>\<close>

fun missing_fields :: "string \<Rightarrow> pyval \<Rightarrow> string list \<Rightarrow> string list result" where
  "missing_fields prefix extracted [] = Inr []"
| "missing_fields prefix extracted (f # fs) =
     rbind (attr_get extracted f PNone) (\<lambda>v.
     rbind (missing_fields prefix extracted fs) (\<lambda>ws.
     Inr (if truthy v then ws else (prefix @ f) # ws)))"

text \<open>\<open>[float(value) for value in d.values()]\<close>\<close>

fun floats :: "pyval list \<Rightarrow> pyfloat list result" where
  "floats [] = Inr []"
| "floats (v # vs) = rbind (to_float v) (\<lambda>f. rbind (floats vs) (\<lambda>fs. Inr (f # fs)))"

definition decide :: "safety_engine \<Rightarrow> pyfloat \<Rightarrow> string list \<Rightarrow> string \<Rightarrow> safety_result" where
  "decide e score warnings ctx =
     (if warnings \<noteq> [] then
        \<lparr>sr_context = ctx, sr_decision = Manual_review, sr_score = round4 score,
         sr_warnings = warnings, sr_reason = ''warnings_present'', sr_may_post = False\<rparr>
      else
        \<lparr>sr_context = ctx,
         sr_decision =
           (if flt_le (se_auto e) score then Auto_process
            else if flt_le (se_approval e) score then Approval_needed
            else Manual_review),
         sr_score = round4 score, sr_warnings = warnings,
         sr_reason = ''confidence_threshold'', sr_may_post = False\<rparr>)"

definition confidence_values :: "pyval \<Rightarrow> pyfloat list result" where
  "confidence_values fc =
     (if \<not> truthy fc then Inr []
      else case fc of PDict d \<Rightarrow> floats (map snd d) | _ \<Rightarrow> Inl AttributeError)"

definition extraction_score :: "pyfloat list \<Rightarrow> string list \<Rightarrow> pyfloat" where
  "extraction_score vals warnings =
     (case vals of
        [] \<Rightarrow> (if warnings = [] then Num (95 / 100) else Num (4 / 10))
      | x # xs \<Rightarrow> flt_min x xs)"

definition evaluate_extraction :: "safety_engine \<Rightarrow> pydict \<Rightarrow> safety_result result" where
  "evaluate_extraction e processed =
     rbind (missing_fields ''Missing required field: ''
              (dget_or processed ''extracted_data'' (PDict [])) (se_required e)) (\<lambda>warnings.
     rbind (confidence_values (dget_or processed ''field_confidences'' (PDict []))) (\<lambda>vals.
     Inr (decide e (extraction_score vals warnings) warnings ''extraction'')))"

definition duplicate_flag :: "pydict \<Rightarrow> bool result" where
  "duplicate_flag doc =
     (if truthy (dget doc ''is_duplicate'') then Inr True
      else rbind (attr_get (dget_or doc ''duplicate_result'' (PDict [])) ''is_duplicate'' PNone)
             (\<lambda>v. Inr (truthy v)))"

definition float_or :: "pydict \<Rightarrow> string \<Rightarrow> rat \<Rightarrow> pyfloat result" where
  "float_or doc k dflt =
     to_float (py_or (dget_or doc k (PFloat (Num dflt))) (PFloat (Num dflt)))"

definition posting_score :: "pyfloat \<Rightarrow> pyfloat \<Rightarrow> string list \<Rightarrow> pyfloat" where
  "posting_score c r warnings =
     (let s = flt_min2 c r in if warnings = [] \<and> flt_eq s (Num 0) then Num (85 / 100) else s)"

definition posting_warnings :: "safety_engine \<Rightarrow> pydict \<Rightarrow> string list result" where
  "posting_warnings e doc =
     rbind (missing_fields ''Missing required posting field: ''
              (dget_or doc ''extracted_data'' (PDict [])) (se_required e)) (\<lambda>ws.
     rbind (duplicate_flag doc) (\<lambda>dup.
     Inr (ws
       @ (if dup then [''Duplicate or suspected duplicate document''] else [])
       @ (if truthy (dget doc ''requires_manual_review'')
          then [''Document is already marked for manual review''] else [])
       @ (if dget doc ''target_system'' = PNone
          then [''No target bookkeeping system resolved''] else []))))"

definition evaluate_posting_readiness :: "safety_engine \<Rightarrow> pydict \<Rightarrow> safety_result result" where
  "evaluate_posting_readiness e doc =
     rbind (posting_warnings e doc) (\<lambda>warnings.
     rbind (float_or doc ''confidence_score'' 0) (\<lambda>c.
     rbind (float_or doc ''routing_confidence'' 1) (\<lambda>r.
     let d = decide e (posting_score c r warnings) warnings ''posting''
     in Inr (d\<lparr>sr_may_post := (sr_decision d = Auto_process \<and> warnings = [])\<rparr>))))"

section \<open>Facts\<close>

lemma threshold_default:
  "k \<in> fst ` set DEFAULT_THRESHOLDS \<Longrightarrow> map_of (engine_thresholds cfg) k \<noteq> None"
  by (auto simp: engine_thresholds_def map_of_dupdate DEFAULT_THRESHOLDS_def
      split: option.splits)

lemma missing_fields_Inr_Nil:
  "missing_fields p (PDict d) fs = Inr [] \<longleftrightarrow> (\<forall>f \<in> set fs. truthy (dget d f))"
proof (induction fs)
  case Nil
  then show ?case by simp
next
  case (Cons f fs)
  then show ?case by (cases "missing_fields p (PDict d) fs") auto
qed

lemma missing_fields_total: "\<exists>ws. missing_fields p (PDict d) fs = Inr ws"
  by (induction fs) auto

lemma decide_auto:
  "sr_decision (decide e s ws ctx) = Auto_process \<longleftrightarrow> ws = [] \<and> flt_le (se_auto e) s"
  by (simp add: decide_def)

lemma decide_manual_on_warning: "ws \<noteq> [] \<Longrightarrow> sr_decision (decide e s ws ctx) = Manual_review"
  by (simp add: decide_def)

lemma posting_readiness_Inr:
  "evaluate_posting_readiness e doc = Inr res \<longleftrightarrow>
     (\<exists>ws c r. posting_warnings e doc = Inr ws \<and> float_or doc ''confidence_score'' 0 = Inr c \<and>
        float_or doc ''routing_confidence'' 1 = Inr r \<and>
        res = (let d = decide e (posting_score c r ws) ws ''posting''
               in d\<lparr>sr_may_post := (sr_decision d = Auto_process \<and> ws = [])\<rparr>))"
  by (auto simp: evaluate_posting_readiness_def rbind_def Let_def split: sum.splits)

lemma may_post_iff:
  assumes "evaluate_posting_readiness e doc = Inr res"
  shows "sr_may_post res \<longleftrightarrow>
    posting_warnings e doc = Inr [] \<and>
    (\<exists>c r. float_or doc ''confidence_score'' 0 = Inr c \<and> float_or doc ''routing_confidence'' 1 = Inr r \<and>
       flt_le (se_auto e) (posting_score c r []))"
  using assms by (auto simp: posting_readiness_Inr Let_def decide_auto)

lemma posting_warnings_Nil:
  assumes "posting_warnings e doc = Inr []"
  shows "missing_fields ''Missing required posting field: ''
           (dget_or doc ''extracted_data'' (PDict [])) (se_required e) = Inr []"
    and "duplicate_flag doc = Inr False"
    and "\<not> truthy (dget doc ''requires_manual_review'')"
    and "dget doc ''target_system'' \<noteq> PNone"
  using assms by (auto simp: posting_warnings_def rbind_def split: sum.splits if_splits)

section \<open>Properties\<close>

text \<open>
  a document may be posted automatically only if every required field is present, it is
  not flagged as a duplicate or for manual review, a target system is resolved, and the score
  reaches the automatic threshold.
\<close>

theorem may_post_sound:
  assumes "evaluate_posting_readiness e doc = Inr res" and "sr_may_post res"
    and "dget_or doc ''extracted_data'' (PDict []) = PDict flds"
  shows "(\<forall>f \<in> set (se_required e). truthy (dget flds f)) \<and>
    \<not> truthy (dget doc ''is_duplicate'') \<and>
    \<not> truthy (dget doc ''requires_manual_review'') \<and>
    dget doc ''target_system'' \<noteq> PNone \<and>
    (\<exists>c r. float_or doc ''confidence_score'' 0 = Inr c \<and> float_or doc ''routing_confidence'' 1 = Inr r \<and>
       flt_le (se_auto e) (posting_score c r []))"
proof -
  from assms(1,2) have w: "posting_warnings e doc = Inr []"
    and s: "\<exists>c r. float_or doc ''confidence_score'' 0 = Inr c \<and>
       float_or doc ''routing_confidence'' 1 = Inr r \<and> flt_le (se_auto e) (posting_score c r [])"
    by (simp_all add: may_post_iff)
  note nil = posting_warnings_Nil [OF w]
  from nil(1) have "\<forall>f \<in> set (se_required e). truthy (dget flds f)"
    by (simp add: assms(3) missing_fields_Inr_Nil)
  moreover from nil(2) have "\<not> truthy (dget doc ''is_duplicate'')"
    by (simp add: duplicate_flag_def split: if_splits)
  ultimately show ?thesis using nil(3,4) s by blast
qed

definition sample_document :: pydict where
  "sample_document =
     [(''document_id'', PStr ''doc-1''), (''target_system'', PStr ''waveapps_business''),
      (''category'', PStr ''B''),
      (''confidence_score'', PFloat (Num (97 / 100))),
      (''extracted_data'', PDict
         [(''vendor_name'', PStr ''Acme''), (''transaction_date'', PStr ''2026-01-02''),
          (''total_amount'', PFloat (Num 12)), (''currency'', PStr ''EUR'')])]"

definition default_engine :: safety_engine where
  "default_engine = init_safety_engine \<lparr>sc_thresholds = [], sc_required = None\<rparr>"

lemma default_engine_simps [simp]:
  "se_auto default_engine = Num (95 / 100)"
  "se_approval default_engine = Num (85 / 100)"
  "se_required default_engine = REQUIRED_POSTING_FIELDS"
  by (simp_all add: default_engine_def init_safety_engine_def threshold_def engine_thresholds_def
      DEFAULT_THRESHOLDS_def dupdate_def)

lemmas safety_evals =
  evaluate_posting_readiness_def posting_warnings_def duplicate_flag_def float_or_def
  posting_score_def decide_def REQUIRED_POSTING_FIELDS_def Let_def flt_min2_def

theorem may_post_sound_witness:
  "\<exists>res. evaluate_posting_readiness default_engine sample_document = Inr res \<and> sr_may_post res \<and>
     (\<forall>f \<in> set (se_required default_engine).
        truthy (dget (as_dict (dget sample_document ''extracted_data'')) f))"
proof -
  have "\<exists>res. evaluate_posting_readiness default_engine sample_document = Inr res \<and> sr_may_post res"
    by (simp add: safety_evals sample_document_def)
  then obtain res where r: "evaluate_posting_readiness default_engine sample_document = Inr res"
    and p: "sr_may_post res" by blast
  have f: "dget_or sample_document ''extracted_data'' (PDict []) =
      PDict (as_dict (dget sample_document ''extracted_data''))"
    by (simp add: sample_document_def)
  show ?thesis using may_post_sound [OF r p f] r p by blast
qed

text \<open>
  the posting decision is not monotone in the confidence: a document whose confidence
  score is missing or exactly zero is held for approval only, one with any score strictly
  between zero and the approval threshold goes to manual review.
\<close>

theorem zero_confidence_outranks_low_confidence:
  assumes "posting_warnings e doc = Inr []"
    and "float_or doc ''confidence_score'' 0 = Inr (Num 0)"
    and "float_or doc ''routing_confidence'' 1 = Inr (Num 1)"
    and "se_auto e = Num (95 / 100)" and "se_approval e = Num (85 / 100)"
    and "posting_warnings e doc2 = Inr []"
    and "float_or doc2 ''confidence_score'' 0 = Inr (Num c)" and "0 < c" and "c < 85 / 100"
    and "float_or doc2 ''routing_confidence'' 1 = Inr (Num 1)"
  shows "\<exists>r1 r2. evaluate_posting_readiness e doc = Inr r1 \<and> sr_decision r1 = Approval_needed \<and>
    evaluate_posting_readiness e doc2 = Inr r2 \<and> sr_decision r2 = Manual_review"
  using assms
  by (simp add: evaluate_posting_readiness_def Let_def decide_def posting_score_def flt_min2_def)

theorem zero_confidence_outranks_low_confidence_witness:
  "\<exists>r1 r2. evaluate_posting_readiness default_engine
       (dset ''confidence_score'' (PFloat (Num 0)) sample_document) = Inr r1 \<and>
     sr_decision r1 = Approval_needed \<and>
     evaluate_posting_readiness default_engine
       (dset ''confidence_score'' (PFloat (Num (1 / 2))) sample_document) = Inr r2 \<and>
     sr_decision r2 = Manual_review"
  by (rule zero_confidence_outranks_low_confidence [where c = "1 / 2"])
    (simp_all add: safety_evals sample_document_def)

text \<open>
  extraction evidence below the automatic threshold in any field keeps a document out of
  automatic processing, provided no confidence is NaN.
\<close>

theorem low_field_blocks_auto_process:
  assumes "evaluate_extraction e processed = Inr res"
    and "dget_or processed ''field_confidences'' (PDict []) = PDict fc" and "fc \<noteq> []"
    and "floats (map snd fc) = Inr vals" and "NaN \<notin> set vals"
    and "v \<in> set vals" and "\<not> flt_le (se_auto e) v"
  shows "sr_decision res \<noteq> Auto_process"
proof -
  from assms(6) obtain x xs where vs: "vals = x # xs" by (cases vals) auto
  have low: "flt_le (flt_min x xs) v" using flt_min_le [of x xs v] assms(5,6) by (simp add: vs)
  have "confidence_values (PDict fc) = Inr vals" using assms(3,4) by (simp add: confidence_values_def)
  with assms(1,2) obtain ws where res: "res = decide e (extraction_score vals ws) ws ''extraction''"
    by (auto simp: evaluate_extraction_def rbind_def split: sum.splits)
  show ?thesis
  proof
    assume "sr_decision res = Auto_process"
    then have "flt_le (se_auto e) (flt_min x xs)"
      by (simp add: res decide_auto extraction_score_def vs)
    with low have "flt_le (se_auto e) v" using flt_le_trans by blast
    with assms(7) show False by simp
  qed
qed

definition sample_processed :: "pyval list \<Rightarrow> pydict" where
  "sample_processed confs =
     [(''extracted_data'', dget sample_document ''extracted_data''),
      (''field_confidences'', PDict (zip [''vendor_name'', ''total_amount''] confs))]"

theorem low_field_blocks_auto_process_witness:
  "\<exists>res. evaluate_extraction default_engine
       (sample_processed [PFloat (Num (99 / 100)), PFloat (Num (1 / 2))]) = Inr res \<and>
     sr_decision res \<noteq> Auto_process"
proof -
  let ?p = "sample_processed [PFloat (Num (99 / 100)), PFloat (Num (1 / 2))]"
  have "\<exists>res. evaluate_extraction default_engine ?p = Inr res"
    by (simp add: evaluate_extraction_def sample_processed_def sample_document_def
        REQUIRED_POSTING_FIELDS_def confidence_values_def)
  then obtain res where r: "evaluate_extraction default_engine ?p = Inr res" by blast
  have "sr_decision res \<noteq> Auto_process"
    by (rule low_field_blocks_auto_process [OF r, where v = "Num (1 / 2)"
          and vals = "[Num (99 / 100), Num (1 / 2)]"
          and fc = "[(''vendor_name'', PFloat (Num (99 / 100))), (''total_amount'', PFloat (Num (1 / 2)))]"])
      (simp_all add: sample_processed_def)
  with r show ?thesis by blast
qed

text \<open>
  the proviso is needed: Python's \<open>min\<close> skips a NaN that is not first, and the document
  is processed automatically on the strength of the other field alone.
\<close>

theorem nan_confidence_is_skipped:
  "\<exists>res. evaluate_extraction default_engine
       (sample_processed [PFloat (Num (99 / 100)), PStr ''nan'']) = Inr res \<and>
     sr_decision res = Auto_process"
proof -
  have "parse_float ''nan'' = Some NaN" by code_simp
  then show ?thesis
    by (simp add: evaluate_extraction_def sample_processed_def sample_document_def decide_def
        REQUIRED_POSTING_FIELDS_def confidence_values_def extraction_score_def flt_min_def flt_min2_def)
qed

end
