(* ===== verification/Py_Text.thy ===== *)
theory Py_Text
  imports Py_Values
begin

text \<open>
  Text of Python values: \<open>str(v)\<close>, the text bound to a column, JSON as \<open>json.dumps(v,
  sort_keys=True)\<close> writes it, substring tests, and the redaction of sensitive keys. What the
  standard library prints of floats and containers, its hash function, its ISO format of
  instants and the regular expressions the redaction applies to strings are fields of an
  environment.
\<close>

record py_env =
  sha256_hex :: "string \<Rightarrow> string" \<comment> \<open>\<open>hashlib.sha256(text).hexdigest()\<close>\<close>
  py_repr :: "pyval \<Rightarrow> string" \<comment> \<open>\<open>repr\<close>: text of a float, list or dictionary, quoted text of a string\<close>

definition str_of_int :: "int \<Rightarrow> string" where
  "str_of_int i = (if i < 0 then CHR ''-'' # str_of_nat (nat (- i)) else str_of_nat (nat i))"

fun py_str :: "py_env \<Rightarrow> pyval \<Rightarrow> string" where
  "py_str env PNone = ''None''"
| "py_str env (PBool b) = (if b then ''True'' else ''False'')"
| "py_str env (PInt i) = str_of_int i"
| "py_str env (PStr s) = s"
| "py_str env v = py_repr env v"

text \<open>A value bound to a TEXT column: \<open>None\<close> is NULL, numbers become their text.\<close>

fun sql_text :: "py_env \<Rightarrow> pyval \<Rightarrow> string option" where
  "sql_text env PNone = None"
| "sql_text env (PBool b) = Some (if b then ''1'' else ''0'')"
| "sql_text env v = Some (py_str env v)"

definition plain_env :: py_env where
  "plain_env = \<lparr>sha256_hex = (\<lambda>s. s), py_repr = (\<lambda>_. ''?'')\<rparr>"

section \<open>Substrings\<close>

text \<open>\<open>needle in text\<close>\<close>

fun contains :: "string \<Rightarrow> string \<Rightarrow> bool" where
  "contains needle [] = (needle = [])"
| "contains needle (c # cs) = (take (length needle) (c # cs) = needle \<or> contains needle cs)"

lemma contains_append: "contains needle (pre @ needle @ post)"
proof (induction pre)
  case Nil
  have "take (length needle) (needle @ post) = needle" by simp
  then show ?case by (cases "needle @ post") (auto simp del: take_append)
next
  case (Cons c pre)
  then show ?case by simp
qed

lemma contains_prefix: "contains (needle @ tail) s \<Longrightarrow> contains needle s"
proof (induction s)
  case (Cons c s)
  then show ?case
  proof (cases "take (length (needle @ tail)) (c # s) = needle @ tail")
    case True
    then have "take (length needle) (c # s) = needle"
      by (metis append_eq_conv_conj take_append take_take length_append min.absorb1 le_add1)
    then show ?thesis by simp
  next
    case False
    with Cons show ?thesis by simp
  qed
qed simp

section \<open>JSON text\<close>

definition hex_char :: "nat \<Rightarrow> char" where
  "hex_char n = (if n < 10 then char_of (48 + n) else char_of (87 + n))"

definition json_char :: "char \<Rightarrow> string" where
  "json_char c =
     (let n = of_char c :: nat in
      if n = 34 then [char_of (92::nat), char_of (34::nat)]
      else if n = 92 then [char_of (92::nat), char_of (92::nat)]
      else if n = 10 then [char_of (92::nat), CHR ''n'']
      else if n = 13 then [char_of (92::nat), CHR ''r'']
      else if n = 9 then [char_of (92::nat), CHR ''t'']
      else if n = 8 then [char_of (92::nat), CHR ''b'']
      else if n = 12 then [char_of (92::nat), CHR ''f'']
      else if n < 32 \<or> 126 < n then
        [char_of (92::nat), CHR ''u'', CHR ''0'', CHR ''0'', hex_char (n div 16), hex_char (n mod 16)]
      else [c])"

definition json_string :: "string \<Rightarrow> string" where
  "json_string s = CHR 0x22 # concat (map json_char s) @ [CHR 0x22]"

fun join_with :: "string \<Rightarrow> string list \<Rightarrow> string" where
  "join_with sep [] = []"
| "join_with sep [x] = x"
| "join_with sep (x # y # xs) = x @ sep @ join_with sep (y # xs)"

lemma size_dict_value: "kv \<in> set d \<Longrightarrow> size (snd kv) < size (PDict d)"
proof (induction d)
  case (Cons a d)
  then show ?case by (cases a) auto
qed simp

function json_text :: "py_env \<Rightarrow> pyval \<Rightarrow> string" where
  "json_text env PNone = ''null''"
| "json_text env (PBool b) = (if b then ''true'' else ''false'')"
| "json_text env (PInt i) = str_of_int i"
| "json_text env (PFloat f) = py_repr env (PFloat f)"
| "json_text env (PStr s) = json_string s"
| "json_text env (PList xs) = ''['' @ join_with '', '' (map (json_text env) xs) @ '']''"
| "json_text env (PDict d) =
     ''{'' @ join_with '', '' (map (\<lambda>(k, t). json_string k @ '': '' @ t)
        (sort_key fst (map (\<lambda>kv. (fst kv, json_text env (snd kv))) d))) @ ''}''"
  by pat_completeness auto

termination
  by (relation "measure (\<lambda>(_, v). size v)") (auto simp: size_dict_value less_Suc_eq_le size_list_estimation'
    dest: size_dict_value)

section \<open>Redaction\<close>

record ledger_env =
  le_py :: py_env
  le_iso :: "timestamp \<Rightarrow> string" \<comment> \<open>\<open>datetime.isoformat()\<close> in UTC\<close>
  le_parse_iso :: "string \<Rightarrow> timestamp option" \<comment> \<open>\<open>datetime.fromisoformat\<close>, converted to UTC\<close>
  le_redact_text :: "string \<Rightarrow> string" \<comment> \<open>the substitutions of \<open>_redact_sensitive\<close> on a string\<close>

definition SECRET_MARKERS :: "string list" where
  "SECRET_MARKERS =
     [''token'', ''password'', ''passwd'', ''secret'', ''credential'', ''authorization'', ''api_key'',
      ''apikey'', ''cookie'', ''database_url'', ''connection_string'', ''dsn'']"

definition sensitive_key :: "string \<Rightarrow> bool" where
  "sensitive_key k \<longleftrightarrow> (\<exists>m \<in> set SECRET_MARKERS. contains m (lower k))"

function redact_sensitive :: "ledger_env \<Rightarrow> pyval \<Rightarrow> pyval" where
  "redact_sensitive env (PDict d) =
     PDict (map (\<lambda>kv. (fst kv, if sensitive_key (fst kv) then PStr ''<redacted>''
                               else redact_sensitive env (snd kv))) d)"
| "redact_sensitive env (PList xs) = PList (map (redact_sensitive env) xs)"
| "redact_sensitive env (PStr s) = PStr (le_redact_text env s)"
| "redact_sensitive env PNone = PNone"
| "redact_sensitive env (PBool b) = PBool b"
| "redact_sensitive env (PInt i) = PInt i"
| "redact_sensitive env (PFloat f) = PFloat f"
  by pat_completeness auto

termination
  by (relation "measure (\<lambda>(_, v). size v)") (auto simp: size_dict_value less_Suc_eq_le size_list_estimation'
    dest: size_dict_value)

definition redact_dict :: "ledger_env \<Rightarrow> pydict \<Rightarrow> pydict" where
  "redact_dict env d = as_dict (redact_sensitive env (PDict d))"

lemma redact_dict_Nil [simp]: "redact_dict env [] = []"
  by (simp add: redact_dict_def)

lemma redact_dict_Cons [simp]:
  "redact_dict env ((k, v) # d) =
     (k, if sensitive_key k then PStr ''<redacted>'' else redact_sensitive env v) # redact_dict env d"
  by (simp add: redact_dict_def)

lemma dget_redact [dict_simps]:
  "\<not> sensitive_key k \<Longrightarrow> dget (redact_dict env d) k = redact_sensitive env (dget d k)"
  by (induction d) (auto simp: dget_or_def redact_dict_def)

text \<open>No value under a sensitive key is stored, at any depth.\<close>

function secrets_in :: "pyval \<Rightarrow> pyval set" where
  "secrets_in (PDict d) =
     (\<Union>kv \<in> set d. if sensitive_key (fst kv) then {snd kv} else secrets_in (snd kv))"
| "secrets_in (PList xs) = (\<Union>x \<in> set xs. secrets_in x)"
| "secrets_in PNone = {}"
| "secrets_in (PBool b) = {}"
| "secrets_in (PInt i) = {}"
| "secrets_in (PFloat f) = {}"
| "secrets_in (PStr s) = {}"
  by pat_completeness auto

termination
  by (relation "measure size") (auto simp: size_dict_value less_Suc_eq_le size_list_estimation'
    dest: size_dict_value)

lemma secrets_after_redaction: "secrets_in (redact_sensitive env v) \<subseteq> {PStr ''<redacted>''}"
  by (induction env v rule: redact_sensitive.induct) fastforce+

text \<open>
  An environment that satisfies the laws of the standard library the development relies on,
  for the concrete examples.
\<close>

definition iso_roundtrip :: "ledger_env \<Rightarrow> bool" where
  "iso_roundtrip env \<longleftrightarrow> (\<forall>t. le_parse_iso env (le_iso env t) = Some t \<and> le_redact_text env (le_iso env t) = le_iso env t)"

definition plain_ledger_env :: ledger_env where
  "plain_ledger_env =
     \<lparr>le_py = plain_env, le_iso = (\<lambda>t. str_of_int (micros t)),
      le_parse_iso = (\<lambda>s. map_option Timestamp
         (case s of [] \<Rightarrow> None
          | c # cs \<Rightarrow> if c = CHR ''-'' then map_option (\<lambda>n. - int n) (nat_of_str cs)
                      else map_option int (nat_of_str s))),
      le_redact_text = (\<lambda>s. s)\<rparr>"

end
