(* ===== verification/Posting_Store.thy ===== *)
theory Posting_Store
  imports Tables Doc_States Safety_Engine Py_Text
begin

text \<open>
  The SQLite store of the posting pipeline: src/storage/database.py with the
  tables the pipeline writes (documents, posting attempts, manual review items, audit log, and
  the retry and dead-letter queues of src/queue/retry_manager.py), and the request log
  \<open>db_sent\<close>: every call of a bookkeeping handler, the effect outside the program.
  One operation is one transaction of the code; its clock reading is an argument. JSON columns
  hold the value the text encodes.
\<close>

datatype posting_status =
    Pending_status | Dry_run_created | Approval_required | Approved | Rejected
  | Posting_in_progress | Posting_deferred | Supervision_required | Posting_failed | Posted

fun posting_status_name :: "posting_status \<Rightarrow> string" where
  "posting_status_name Pending_status = ''pending''"
| "posting_status_name Dry_run_created = ''dry_run_created''"
| "posting_status_name Approval_required = ''approval_required''"
| "posting_status_name Approved = ''approved''"
| "posting_status_name Rejected = ''rejected''"
| "posting_status_name Posting_in_progress = ''posting_in_progress''"
| "posting_status_name Posting_deferred = ''posting_deferred''"
| "posting_status_name Supervision_required = ''supervision_required''"
| "posting_status_name Posting_failed = ''posting_failed''"
| "posting_status_name Posted = ''posted''"

record doc_row =
  dr_source :: string
  dr_source_external_id :: string
  dr_original_filename :: pyval
  dr_local_path :: pyval
  dr_mime_type :: pyval
  dr_content_hash :: pyval
  dr_state :: doc_state
  dr_metadata :: pyval
  dr_created :: timestamp
  dr_updated :: timestamp

record posting_attempt =
  pa_document_id :: string
  pa_target_system :: string
  pa_target_account :: pyval
  pa_dry_run :: bool
  pa_payload :: pydict
  pa_status :: posting_status
  pa_external_id :: pyval
  pa_key :: string
  pa_created :: timestamp
  pa_updated :: timestamp

record review_row =
  rv_document_id :: "string option"
  rv_reason :: string
  rv_details :: pyval
  rv_severity :: string
  rv_pending :: bool
  rv_resolution :: pyval
  rv_created :: timestamp
  rv_resolved_at :: "timestamp option"

record audit_row =
  au_entity_type :: string
  au_entity_id :: string
  au_action :: string
  au_before :: pyval
  au_after :: pyval
  au_reason :: pyval
  au_actor :: string
  au_at :: timestamp

datatype retry_status = Retry_pending | Retry_dead_letter | Retry_completed

record retry_row =
  rq_entity_type :: string
  rq_entity_id :: string
  rq_operation :: string
  rq_status :: retry_status
  rq_attempts :: int
  rq_max :: int
  rq_error :: pyval
  rq_next :: "timestamp option"
  rq_payload :: pydict
  rq_created :: timestamp
  rq_updated :: timestamp

record dead_row =
  dl_entity_type :: string
  dl_entity_id :: string
  dl_operation :: string
  dl_error :: pyval
  dl_payload :: pydict
  dl_created :: timestamp

record posting_db =
  db_documents :: "(string \<times> doc_row) list"
  db_attempts :: "posting_attempt table"
  db_reviews :: "review_row table"
  db_retries :: "retry_row table"
  db_dead :: "dead_row table"
  db_audit :: "audit_row list"
  db_sent :: "(nat \<times> pydict) list"

definition empty_posting_db :: posting_db where
  "empty_posting_db =
     \<lparr>db_documents = [], db_attempts = empty_table, db_reviews = empty_table,
      db_retries = empty_table, db_dead = empty_table, db_audit = [], db_sent = []\<rparr>"

text \<open>\<open>json_dumps(value if value is not None else {})\<close>\<close>

definition json_value :: "pyval \<Rightarrow> pyval" where
  "json_value v = (if v = PNone then PDict [] else v)"

definition add_audit_log ::
  "string \<Rightarrow> string \<Rightarrow> string \<Rightarrow> pyval \<Rightarrow> pyval \<Rightarrow> pyval \<Rightarrow> string \<Rightarrow> timestamp \<Rightarrow> posting_db \<Rightarrow> posting_db" where
  "add_audit_log etype eid action before after reason actor now db =
     db\<lparr>db_audit := db_audit db @
       [\<lparr>au_entity_type = etype, au_entity_id = eid, au_action = action,
         au_before = json_value before, au_after = json_value after, au_reason = reason,
         au_actor = actor, au_at = now\<rparr>]\<rparr>"

definition add_manual_review_item ::
  "string \<Rightarrow> string \<Rightarrow> pyval \<Rightarrow> string \<Rightarrow> timestamp \<Rightarrow> posting_db \<Rightarrow> posting_db" where
  "add_manual_review_item document_id reason details severity now db =
     add_audit_log ''document'' document_id ''manual_review_required'' PNone
       (PDict [(''reason'', PStr reason), (''details'', details)]) (PStr reason) ''system'' now
       (db\<lparr>db_reviews := fst (insert_row
          \<lparr>rv_document_id = Some document_id, rv_reason = reason, rv_details = details,
           rv_severity = severity, rv_pending = True, rv_resolution = PNone, rv_created = now,
           rv_resolved_at = None\<rparr> (db_reviews db))\<rparr>)"

text \<open>\<open>UPDATE documents SET current_state = ?, updated_at = ? WHERE id = ?\<close>\<close>

definition put_doc_state :: "string \<Rightarrow> doc_state \<Rightarrow> timestamp \<Rightarrow> posting_db \<Rightarrow> posting_db" where
  "put_doc_state did new_state now db =
     db\<lparr>db_documents := map (\<lambda>(i, r). (i, if i = did then r\<lparr>dr_state := new_state, dr_updated := now\<rparr> else r))
          (db_documents db)\<rparr>"

definition document_state :: "posting_db \<Rightarrow> string \<Rightarrow> doc_state option" where
  "document_state db did = map_option dr_state (map_of (db_documents db) did)"

definition set_document_state ::
  "string \<Rightarrow> doc_state \<Rightarrow> string \<Rightarrow> string \<Rightarrow> timestamp \<Rightarrow> posting_db \<Rightarrow> posting_db" where
  "set_document_state did new_state reason actor now db =
     (let previous = (case document_state db did of None \<Rightarrow> PNone | Some s \<Rightarrow> PStr (state_name s))
      in add_audit_log ''document'' did ''state_transition'' (PDict [(''state'', previous)])
           (PDict [(''state'', PStr (state_name new_state))]) (PStr reason) actor now
           (put_doc_state did new_state now db))"

definition upsert_document ::
  "py_env \<Rightarrow> pydict \<Rightarrow> doc_state \<Rightarrow> timestamp \<Rightarrow> posting_db \<Rightarrow> posting_db result" where
  "upsert_document env document state now db =
     (let did = py_str env (py_or (dget document ''id'') (dget document ''document_id'')) in
      if did = [] \<or> did = ''None'' then Inl ValueError
      else
        (let metadata = dget_or document ''metadata'' (PDict []) in
         rbind (attr_get metadata ''mime_type'' PNone) (\<lambda>mime.
         case sql_text env (dget_or document ''source'' (PStr ''unknown'')) of
           None \<Rightarrow> Inl IntegrityError
         | Some source \<Rightarrow>
             (let row = \<lparr>dr_source = source,
                  dr_source_external_id =
                    (case sql_text env (py_or (dget document ''source_external_id'') (PStr did)) of
                       None \<Rightarrow> did | Some ext \<Rightarrow> ext),
                  dr_original_filename = dget document ''original_filename'',
                  dr_local_path = dget document ''local_path'',
                  dr_mime_type = mime, dr_content_hash = dget document ''content_hash'',
                  dr_state = state, dr_metadata = json_value metadata,
                  dr_created = now, dr_updated = now\<rparr>
              in Inr (db\<lparr>db_documents :=
                (case map_of (db_documents db) did of
                   None \<Rightarrow> db_documents db @ [(did, row)]
                 | Some old \<Rightarrow>
                     map (\<lambda>(i, r). (i, if i = did then row\<lparr>dr_state := dr_state r, dr_created := dr_created r\<rparr> else r))
                       (db_documents db))\<rparr>)))))"

section \<open>Attempt rows\<close>

definition attempt_status :: "posting_db \<Rightarrow> nat \<Rightarrow> posting_status option" where
  "attempt_status db i = map_option pa_status (lookup_row (db_attempts db) i)"

definition put_attempt :: "nat \<Rightarrow> (posting_attempt \<Rightarrow> posting_attempt) \<Rightarrow> posting_db \<Rightarrow> posting_db" where
  "put_attempt i f db = db\<lparr>db_attempts := update_row i f (db_attempts db)\<rparr>"

text \<open>\<open>dict(row)\<close> of an attempt, as the audit log stores it.\<close>

definition attempt_json :: "nat \<Rightarrow> posting_attempt \<Rightarrow> pyval" where
  "attempt_json i a = PDict
     [(''id'', PInt (int i)), (''document_id'', PStr (pa_document_id a)),
      (''target_system'', PStr (pa_target_system a)), (''target_account'', pa_target_account a),
      (''dry_run'', PInt (if pa_dry_run a then 1 else 0)), (''payload_json'', PDict (pa_payload a)),
      (''status'', PStr (posting_status_name (pa_status a))), (''external_id'', pa_external_id a),
      (''idempotency_key'', PStr (pa_key a)), (''created_at'', PInt (micros (pa_created a))),
      (''updated_at'', PInt (micros (pa_updated a)))]"

section \<open>What the store operations leave alone\<close>

lemma add_audit_log_frame [step_simps]:
  "db_documents (add_audit_log a b c d e f g t db) = db_documents db"
  "db_attempts (add_audit_log a b c d e f g t db) = db_attempts db"
  "db_reviews (add_audit_log a b c d e f g t db) = db_reviews db"
  "db_retries (add_audit_log a b c d e f g t db) = db_retries db"
  "db_dead (add_audit_log a b c d e f g t db) = db_dead db"
  "db_sent (add_audit_log a b c d e f g t db) = db_sent db"
  by (simp_all add: add_audit_log_def)

lemma add_manual_review_item_frame [step_simps]:
  "db_documents (add_manual_review_item a b c d t db) = db_documents db"
  "db_attempts (add_manual_review_item a b c d t db) = db_attempts db"
  "db_retries (add_manual_review_item a b c d t db) = db_retries db"
  "db_dead (add_manual_review_item a b c d t db) = db_dead db"
  "db_sent (add_manual_review_item a b c d t db) = db_sent db"
  by (simp_all add: add_manual_review_item_def step_simps)

lemma put_doc_state_frame [step_simps]:
  "db_attempts (put_doc_state a b t db) = db_attempts db"
  "db_reviews (put_doc_state a b t db) = db_reviews db"
  "db_retries (put_doc_state a b t db) = db_retries db"
  "db_dead (put_doc_state a b t db) = db_dead db"
  "db_audit (put_doc_state a b t db) = db_audit db"
  "db_sent (put_doc_state a b t db) = db_sent db"
  by (simp_all add: put_doc_state_def)

lemma put_attempt_frame [step_simps]:
  "db_documents (put_attempt i f db) = db_documents db"
  "db_reviews (put_attempt i f db) = db_reviews db"
  "db_retries (put_attempt i f db) = db_retries db"
  "db_dead (put_attempt i f db) = db_dead db"
  "db_audit (put_attempt i f db) = db_audit db"
  "db_sent (put_attempt i f db) = db_sent db"
  by (simp_all add: put_attempt_def)

lemma audit_grows [step_simps]:
  "set (db_audit (add_audit_log a b c d e f g t db)) =
     insert \<lparr>au_entity_type = a, au_entity_id = b, au_action = c, au_before = json_value d,
       au_after = json_value e, au_reason = f, au_actor = g, au_at = t\<rparr> (set (db_audit db))"
  by (simp add: add_audit_log_def)

lemma review_audit_grows: "set (db_audit db) \<subseteq> set (db_audit (add_manual_review_item a b c d t db))"
  by (auto simp: add_manual_review_item_def step_simps)

lemma document_state_put [step_simps]:
  "document_state (put_doc_state did s t db) d =
     (if d = did then map_option (\<lambda>_. s) (document_state db d) else document_state db d)"
  by (simp add: document_state_def put_doc_state_def map_of_map_snd option.map_comp comp_def
      option.map_ident)

lemma attempt_status_put [step_simps]:
  "attempt_status (put_attempt i f db) j =
     (if j = i then map_option (\<lambda>a. pa_status (f a)) (lookup_row (db_attempts db) j)
      else attempt_status db j)"
  by (simp add: attempt_status_def put_attempt_def lookup_update_row option.map_comp comp_def)

section \<open>Properties\<close>

text \<open>
  importing a document again refreshes its evidence and never its workflow state: the
  state it had is kept, whatever state the import passes, and no other document changes.
\<close>

theorem reimport_keeps_state:
  assumes "upsert_document env document st now db = Inr db'"
    and "document_state db did = Some old"
  shows "document_state db' did = Some old"
proof -
  let ?key = "py_str env (py_or (dget document ''id'') (dget document ''document_id''))"
  obtain mime source where m: "attr_get (dget_or document ''metadata'' (PDict [])) ''mime_type'' PNone = Inr mime"
    and s: "sql_text env (dget_or document ''source'' (PStr ''unknown'')) = Some source"
    using assms(1)
    by (cases "attr_get (dget_or document ''metadata'' (PDict [])) ''mime_type'' PNone";
        cases "sql_text env (dget_or document ''source'' (PStr ''unknown''))")
      (auto simp: upsert_document_def Let_def split: if_splits)
  from assms(2) obtain r where r: "map_of (db_documents db) did = Some r" "dr_state r = old"
    by (auto simp: document_state_def)
  show ?thesis
  proof (cases "map_of (db_documents db) ?key")
    case None
    with r have "?key \<noteq> did" by auto
    with assms(1) m s None r show ?thesis
      by (auto simp: upsert_document_def Let_def document_state_def split: if_splits)
  next
    case (Some row)
    with assms(1) m s r show ?thesis
      by (auto simp: upsert_document_def Let_def document_state_def map_of_map_snd split: if_splits)
  qed
qed

definition posted_document_db :: posting_db where
  "posted_document_db = empty_posting_db\<lparr>db_documents :=
     [(''doc-1'', \<lparr>dr_source = ''gmail'', dr_source_external_id = ''m-1'',
        dr_original_filename = PNone, dr_local_path = PNone, dr_mime_type = PNone,
        dr_content_hash = PNone, dr_state = Doc_posted, dr_metadata = PDict [],
        dr_created = Timestamp 0, dr_updated = Timestamp 0\<rparr>)]\<rparr>"

theorem reimport_keeps_state_witness:
  "\<exists>db'. upsert_document plain_env [(''id'', PStr ''doc-1'')] Received (Timestamp 5) posted_document_db
       = Inr db' \<and> document_state db' ''doc-1'' = Some Doc_posted"
proof -
  have "\<exists>db'. upsert_document plain_env [(''id'', PStr ''doc-1'')] Received (Timestamp 5) posted_document_db
       = Inr db'"
    by (simp add: upsert_document_def posted_document_db_def plain_env_def Let_def)
  then obtain db' where u: "upsert_document plain_env [(''id'', PStr ''doc-1'')] Received (Timestamp 5)
       posted_document_db = Inr db'" by blast
  have "document_state posted_document_db ''doc-1'' = Some Doc_posted"
    by (simp add: posted_document_db_def document_state_def)
  from reimport_keeps_state [OF u this] u show ?thesis by blast
qed

end
