(* ===== verification/Retry_Queue.thy ===== *)
theory Retry_Queue
  imports Posting_Store
begin

text \<open>
  \<open>RetryManager\<close> of src/queue/retry_manager.py: the retry rows, unique per entity and
  operation, with exponential back-off, deferral that spends no attempt, and the dead-letter
  queue. Scheduling an instant after the year 9999 raises \<open>OverflowError\<close> before anything is
  written, as the datetime addition does.
\<close>

record retry_config =
  rc_max_attempts :: int
  rc_base_delay :: int

definition default_retry_config :: retry_config where
  "default_retry_config = \<lparr>rc_max_attempts = 3, rc_base_delay = 300\<rparr>"

datatype retry_result =
    Retry_scheduled int timestamp
  | Retry_deferred int timestamp
  | Dead_lettered

definition retry_key :: "string \<Rightarrow> string \<Rightarrow> string \<Rightarrow> retry_row \<Rightarrow> bool" where
  "retry_key et eid op r \<longleftrightarrow> rq_entity_type r = et \<and> rq_entity_id r = eid \<and> rq_operation r = op"

definition find_retry :: "string \<Rightarrow> string \<Rightarrow> string \<Rightarrow> posting_db \<Rightarrow> retry_row option" where
  "find_retry et eid op db = map_option snd (find_row (retry_key et eid op) (db_retries db))"

text \<open>\<open>INSERT ... ON CONFLICT(entity_type, entity_id, operation) DO UPDATE\<close>\<close>

definition upsert_retry ::
  "string \<Rightarrow> string \<Rightarrow> string \<Rightarrow> (retry_row \<Rightarrow> retry_row) \<Rightarrow> retry_row \<Rightarrow> posting_db \<Rightarrow> posting_db" where
  "upsert_retry et eid op f new db =
     db\<lparr>db_retries :=
       (case find_retry et eid op db of
          None \<Rightarrow> fst (insert_row new (db_retries db))
        | Some _ \<Rightarrow> update_where (retry_key et eid op) f (db_retries db))\<rparr>"

definition add_delay :: "timestamp \<Rightarrow> int \<Rightarrow> timestamp result" where
  "add_delay now s =
     (let t = plus_seconds now s in if datetime_max < micros t then Inl OverflowError else Inr t)"

definition move_to_dead_letter ::
  "timestamp \<Rightarrow> string \<Rightarrow> string \<Rightarrow> string \<Rightarrow> pyval \<Rightarrow> pydict \<Rightarrow> posting_db \<Rightarrow> posting_db \<times> retry_result" where
  "move_to_dead_letter now et eid op err payload db =
     (add_audit_log et eid ''dead_lettered'' PNone (PDict [(''operation'', PStr op)]) err ''system'' now
        (db\<lparr>db_dead := fst (insert_row
              \<lparr>dl_entity_type = et, dl_entity_id = eid, dl_operation = op, dl_error = err,
               dl_payload = payload, dl_created = now\<rparr> (db_dead db)),
            db_retries := update_where (retry_key et eid op)
              (\<lambda>r. r\<lparr>rq_status := Retry_dead_letter, rq_updated := now\<rparr>) (db_retries db)\<rparr>),
      Dead_lettered)"

definition next_attempt_count :: "string \<Rightarrow> string \<Rightarrow> string \<Rightarrow> posting_db \<Rightarrow> int" where
  "next_attempt_count et eid op db =
     (case find_retry et eid op db of None \<Rightarrow> 1 | Some r \<Rightarrow> rq_attempts r + 1)"

definition retry_delay :: "retry_config \<Rightarrow> int \<Rightarrow> int" where
  "retry_delay cfg n = rc_base_delay cfg * 2 ^ nat (max 0 (n - 1))"

definition schedule_retry ::
  "retry_config \<Rightarrow> timestamp \<Rightarrow> string \<Rightarrow> string \<Rightarrow> string \<Rightarrow> pyval \<Rightarrow> pydict \<Rightarrow> int option \<Rightarrow>
   posting_db \<Rightarrow> posting_db \<times> retry_result result" where
  "schedule_retry cfg now et eid op err payload max_attempts db =
     (let maxa = (case max_attempts of None \<Rightarrow> rc_max_attempts cfg
                  | Some m \<Rightarrow> if m = 0 then rc_max_attempts cfg else m);
          n = next_attempt_count et eid op db
      in if maxa \<le> n then
           (let (db', r) = move_to_dead_letter now et eid op err payload db in (db', Inr r))
         else
           (case add_delay now (retry_delay cfg n) of
              Inl e \<Rightarrow> (db, Inl e)
            | Inr next_at \<Rightarrow>
                (add_audit_log et eid ''retry_scheduled'' PNone
                   (PDict [(''operation'', PStr op), (''attempt_count'', PInt n),
                           (''next_retry_at'', PInt (micros next_at))]) err ''system'' now
                   (upsert_retry et eid op
                      (\<lambda>r. r\<lparr>rq_status := Retry_pending, rq_attempts := n, rq_max := maxa,
                            rq_error := err, rq_next := Some next_at, rq_payload := payload,
                            rq_updated := now\<rparr>)
                      \<lparr>rq_entity_type = et, rq_entity_id = eid, rq_operation = op,
                       rq_status = Retry_pending, rq_attempts = n, rq_max = maxa, rq_error = err,
                       rq_next = Some next_at, rq_payload = payload, rq_created = now,
                       rq_updated = now\<rparr> db),
                 Inr (Retry_scheduled n next_at))))"

definition defer_retry ::
  "retry_config \<Rightarrow> timestamp \<Rightarrow> string \<Rightarrow> string \<Rightarrow> string \<Rightarrow> pyval \<Rightarrow> pydict \<Rightarrow> int \<Rightarrow>
   posting_db \<Rightarrow> posting_db \<times> retry_result result" where
  "defer_retry cfg now et eid op reason payload delay_seconds db =
     (case add_delay now (max delay_seconds 1) of
        Inl e \<Rightarrow> (db, Inl e)
      | Inr next_at \<Rightarrow>
          (let existing = find_retry et eid op db;
               n = (case existing of None \<Rightarrow> 0 | Some r \<Rightarrow> rq_attempts r);
               maxa = (case existing of None \<Rightarrow> rc_max_attempts cfg | Some r \<Rightarrow> rq_max r)
           in (add_audit_log et eid ''retry_deferred'' PNone
                 (PDict [(''operation'', PStr op), (''attempt_count'', PInt n),
                         (''next_retry_at'', PInt (micros next_at)), (''reason'', reason)])
                 reason ''system'' now
                 (upsert_retry et eid op
                    (\<lambda>r. r\<lparr>rq_status := Retry_pending, rq_error := reason, rq_next := Some next_at,
                          rq_payload := payload, rq_updated := now\<rparr>)
                    \<lparr>rq_entity_type = et, rq_entity_id = eid, rq_operation = op,
                     rq_status = Retry_pending, rq_attempts = n, rq_max = maxa, rq_error = reason,
                     rq_next = Some next_at, rq_payload = payload, rq_created = now,
                     rq_updated = now\<rparr> db),
               Inr (Retry_deferred n next_at))))"

definition mark_complete :: "timestamp \<Rightarrow> string \<Rightarrow> string \<Rightarrow> string \<Rightarrow> posting_db \<Rightarrow> posting_db" where
  "mark_complete now et eid op db =
     db\<lparr>db_retries := update_where (retry_key et eid op)
          (\<lambda>r. r\<lparr>rq_status := Retry_completed, rq_updated := now\<rparr>) (db_retries db)\<rparr>"

definition is_due :: "timestamp \<Rightarrow> retry_row \<Rightarrow> bool" where
  "is_due now r \<longleftrightarrow>
     rq_status r = Retry_pending \<and> (case rq_next r of None \<Rightarrow> False | Some t \<Rightarrow> t \<le> now)"

definition due_items :: "timestamp \<Rightarrow> posting_db \<Rightarrow> retry_row list" where
  "due_items now db =
     sort_key (\<lambda>r. case rq_next r of None \<Rightarrow> now | Some t \<Rightarrow> t)
       (map snd (select_rows (is_due now) (db_retries db)))"

section \<open>Facts\<close>

definition retries_unique :: "posting_db \<Rightarrow> bool" where
  "retries_unique db \<longleftrightarrow>
     distinct (map (\<lambda>(i, r). (rq_entity_type r, rq_entity_id r, rq_operation r)) (trows (db_retries db)))"

lemma retry_key_updates [simp]:
  "retry_key et eid op (r\<lparr>rq_status := a\<rparr>) = retry_key et eid op r"
  "retry_key et eid op (r\<lparr>rq_attempts := n\<rparr>) = retry_key et eid op r"
  "retry_key et eid op (r\<lparr>rq_max := n\<rparr>) = retry_key et eid op r"
  "retry_key et eid op (r\<lparr>rq_error := e\<rparr>) = retry_key et eid op r"
  "retry_key et eid op (r\<lparr>rq_next := t\<rparr>) = retry_key et eid op r"
  "retry_key et eid op (r\<lparr>rq_payload := p\<rparr>) = retry_key et eid op r"
  "retry_key et eid op (r\<lparr>rq_updated := u\<rparr>) = retry_key et eid op r"
  by (simp_all add: retry_key_def)

lemma retry_key_row [simp]:
  "retry_key et eid op
     \<lparr>rq_entity_type = et, rq_entity_id = eid, rq_operation = op, rq_status = a, rq_attempts = n,
      rq_max = m, rq_error = e, rq_next = t, rq_payload = p, rq_created = c, rq_updated = u\<rparr>"
  by (simp add: retry_key_def)

lemma find_retry_None:
  "find_retry et eid op db = None \<longleftrightarrow> (\<forall>(i, r) \<in> set (trows (db_retries db)). \<not> retry_key et eid op r)"
  by (auto simp: find_retry_def find_row_def find_None_iff)

lemma find_retry_key: "find_retry et eid op db = Some r \<Longrightarrow> retry_key et eid op r"
  by (auto simp: find_retry_def find_row_def find_Some_iff in_set_conv_nth)

lemma find_map_snd:
  assumes "\<And>i r. P (g r) \<longleftrightarrow> P r"
  shows "find (\<lambda>(i, r). P r) (map (\<lambda>(i, r). (i, g r)) xs) =
         map_option (\<lambda>(i, r). (i, g r)) (find (\<lambda>(i, r). P r) xs)"
  using assms by (induction xs) auto

lemma find_map_fixed:
  assumes "\<And>r. P r \<Longrightarrow> Q (f r)" and "\<And>r. \<not> P r \<Longrightarrow> \<not> Q r" and "\<And>r. P r \<Longrightarrow> Q r"
  shows "find (\<lambda>(i, r). Q r) (map (\<lambda>(i, r). (i, if P r then f r else r)) xs) =
         map_option (\<lambda>(i, r). (i, f r)) (find (\<lambda>(i, r). P r) xs)"
  using assms by (induction xs) auto

lemma find_retry_after_update:
  assumes "\<And>r. retry_key et eid op r \<Longrightarrow> retry_key et eid op (f r)"
    and "db_retries db' = update_where (retry_key et eid op) f (db_retries db)"
  shows "find_retry et eid op db' = map_option f (find_retry et eid op db)"
  using assms(1) find_map_fixed [of "retry_key et eid op" "retry_key et eid op" f "trows (db_retries db)"]
  by (simp add: find_retry_def find_row_def assms(2) update_where_def option.map_comp comp_def
      case_prod_beta)

lemma find_snoc: "find P xs = None \<Longrightarrow> find P (xs @ [x]) = (if P x then Some x else None)"
  by (induction xs) (auto split: if_splits)

lemma find_retry_upsert:
  assumes "\<And>r. retry_key et eid op r \<Longrightarrow> retry_key et eid op (f r)" and "retry_key et eid op new"
  shows "find_retry et eid op (upsert_retry et eid op f new db) =
    Some (case find_retry et eid op db of None \<Rightarrow> new | Some r \<Rightarrow> f r)"
proof (cases "find_retry et eid op db")
  case None
  then have "find (\<lambda>(i, r). retry_key et eid op r) (trows (db_retries db)) = None"
    by (auto simp: find_retry_def find_row_def)
  then show ?thesis using None assms(2)
    by (simp add: upsert_retry_def find_retry_def find_row_def insert_row_def Let_def find_snoc)
next
  case (Some r)
  then have "find_retry et eid op (upsert_retry et eid op f new db) = map_option f (find_retry et eid op db)"
    by (intro find_retry_after_update assms(1)) (simp_all add: upsert_retry_def)
  with Some show ?thesis by simp
qed

lemma find_retry_audit [step_simps]:
  "find_retry et eid op (add_audit_log a b c d e f g t db) = find_retry et eid op db"
  by (simp add: find_retry_def step_simps)

lemma upsert_retry_frame [step_simps]:
  "db_attempts (upsert_retry et eid op f new db) = db_attempts db"
  "db_documents (upsert_retry et eid op f new db) = db_documents db"
  "db_reviews (upsert_retry et eid op f new db) = db_reviews db"
  "db_dead (upsert_retry et eid op f new db) = db_dead db"
  "db_audit (upsert_retry et eid op f new db) = db_audit db"
  "db_sent (upsert_retry et eid op f new db) = db_sent db"
  by (simp_all add: upsert_retry_def)

lemma schedule_retry_frame [step_simps]:
  "db_attempts (fst (schedule_retry cfg now et eid op err p m db)) = db_attempts db"
  "db_documents (fst (schedule_retry cfg now et eid op err p m db)) = db_documents db"
  "db_reviews (fst (schedule_retry cfg now et eid op err p m db)) = db_reviews db"
  "db_sent (fst (schedule_retry cfg now et eid op err p m db)) = db_sent db"
  by (auto simp: schedule_retry_def move_to_dead_letter_def Let_def step_simps split: sum.split)

lemma schedule_retry_audit_grows:
  "set (db_audit db) \<subseteq> set (db_audit (fst (schedule_retry cfg now et eid op err p m db)))"
  by (auto simp: schedule_retry_def move_to_dead_letter_def Let_def step_simps split: sum.split)

lemma defer_retry_frame [step_simps]:
  "db_attempts (fst (defer_retry cfg now et eid op err p d db)) = db_attempts db"
  "db_documents (fst (defer_retry cfg now et eid op err p d db)) = db_documents db"
  "db_reviews (fst (defer_retry cfg now et eid op err p d db)) = db_reviews db"
  "db_sent (fst (defer_retry cfg now et eid op err p d db)) = db_sent db"
  by (auto simp: defer_retry_def Let_def step_simps split: sum.split)

lemma defer_retry_audit_grows:
  "set (db_audit db) \<subseteq> set (db_audit (fst (defer_retry cfg now et eid op err p d db)))"
  by (auto simp: defer_retry_def Let_def step_simps split: sum.split)

lemma mark_complete_frame [step_simps]:
  "db_attempts (mark_complete now et eid op db) = db_attempts db"
  "db_documents (mark_complete now et eid op db) = db_documents db"
  "db_reviews (mark_complete now et eid op db) = db_reviews db"
  "db_audit (mark_complete now et eid op db) = db_audit db"
  "db_sent (mark_complete now et eid op db) = db_sent db"
  by (simp_all add: mark_complete_def)

lemma unique_keys_upsert:
  "retries_unique db \<Longrightarrow> (\<And>r. (rq_entity_type (f r), rq_entity_id (f r), rq_operation (f r)) =
      (rq_entity_type r, rq_entity_id r, rq_operation r)) \<Longrightarrow> retry_key et eid op new \<Longrightarrow>
     retries_unique (upsert_retry et eid op f new db)"
proof -
  let ?key = "\<lambda>(i, r). (rq_entity_type r, rq_entity_id r, rq_operation r)"
  assume u: "retries_unique db" and f: "\<And>r. (rq_entity_type (f r), rq_entity_id (f r), rq_operation (f r)) =
      (rq_entity_type r, rq_entity_id r, rq_operation r)" and n: "retry_key et eid op new"
  show ?thesis
  proof (cases "find_retry et eid op db")
    case None
    then have "(et, eid, op) \<notin> set (map ?key (trows (db_retries db)))"
      by (fastforce simp: find_retry_None retry_key_def)
    with u n None show ?thesis
      by (simp add: retries_unique_def upsert_retry_def insert_row_def Let_def retry_key_def)
  next
    case (Some r)
    have "map ?key (trows (update_where P f t)) = map ?key (trows t)" for P and t :: "retry_row table"
      using f by (simp add: update_where_def case_prod_beta comp_def)
    with u Some show ?thesis by (simp add: retries_unique_def upsert_retry_def)
  qed
qed

section \<open>Properties\<close>

text \<open>
  The outcome of one failure report: the count goes up by one, and either the row is pending
  again at the doubled delay or the operation is dead-lettered.
\<close>

lemma schedule_retry_spec:
  assumes "schedule_retry cfg now et eid op err p None db = (db', Inr res)"
  shows "(res = Dead_lettered \<longleftrightarrow> rc_max_attempts cfg \<le> next_attempt_count et eid op db) \<and>
    (res \<noteq> Dead_lettered \<longrightarrow>
       (\<exists>r. find_retry et eid op db' = Some r \<and> rq_status r = Retry_pending \<and>
          rq_attempts r = next_attempt_count et eid op db \<and>
          rq_next r = Some (plus_seconds now (retry_delay cfg (next_attempt_count et eid op db)))))"
proof -
  let ?n = "next_attempt_count et eid op db"
  show ?thesis
  proof (cases "rc_max_attempts cfg \<le> ?n")
    case True
    with assms show ?thesis by (auto simp: schedule_retry_def Let_def move_to_dead_letter_def)
  next
    case False
    with assms have a: "add_delay now (retry_delay cfg ?n) = Inr (plus_seconds now (retry_delay cfg ?n))"
      by (auto simp: schedule_retry_def Let_def add_delay_def split: sum.splits if_splits)
    with False assms show ?thesis
      by (auto simp: schedule_retry_def Let_def step_simps find_retry_upsert
          split: option.split)
  qed
qed

text \<open>Consecutive failures of one operation, each reported at its own time.\<close>

fun fail_repeatedly ::
  "retry_config \<Rightarrow> string \<Rightarrow> string \<Rightarrow> string \<Rightarrow> timestamp list \<Rightarrow> posting_db \<Rightarrow> posting_db \<times> retry_result result list" where
  "fail_repeatedly cfg et eid op [] db = (db, [])"
| "fail_repeatedly cfg et eid op (t # ts) db =
     (let (db', r) = schedule_retry cfg t et eid op PNone [] None db;
          (db'', rs) = fail_repeatedly cfg et eid op ts db'
      in (db'', r # rs))"

lemma next_count_after_schedule:
  assumes "schedule_retry cfg now et eid op err p None db = (db', Inr (Retry_scheduled n t))"
  shows "n = next_attempt_count et eid op db" and "next_attempt_count et eid op db' = n + 1"
    and "t = plus_seconds now (retry_delay cfg n)"
proof -
  have n: "n = next_attempt_count et eid op db" and "\<not> rc_max_attempts cfg \<le> next_attempt_count et eid op db"
    using assms by (auto simp: schedule_retry_def Let_def move_to_dead_letter_def split: if_splits sum.splits)
  then show "n = next_attempt_count et eid op db" by simp
  from schedule_retry_spec [OF assms] show "next_attempt_count et eid op db' = n + 1"
    by (auto simp: next_attempt_count_def [of et eid op db'] n)
  show "t = plus_seconds now (retry_delay cfg n)"
    using assms by (auto simp: schedule_retry_def Let_def move_to_dead_letter_def add_delay_def split: if_splits sum.splits)
qed

lemma fail_repeatedly_counts:
  assumes "fail_repeatedly cfg et eid op ts db = (db', rs)" and "k < length ts"
    and "next_attempt_count et eid op db + int k < rc_max_attempts cfg"
    and "\<forall>j \<le> k. \<exists>r. rs ! j = Inr r"
  shows "rs ! k = Inr (Retry_scheduled (next_attempt_count et eid op db + int k)
           (plus_seconds (ts ! k) (retry_delay cfg (next_attempt_count et eid op db + int k))))"
  using assms
proof (induction ts arbitrary: db rs k)
  case Nil
  then show ?case by simp
next
  case (Cons t ts)
  obtain db1 r1 where s: "schedule_retry cfg t et eid op PNone [] None db = (db1, r1)" by force
  obtain rs1 where f: "fail_repeatedly cfg et eid op ts db1 = (db', rs1)" and rs: "rs = r1 # rs1"
    using Cons.prems(1) s by (auto split: prod.splits)
  from Cons.prems(4) rs obtain r where r1: "r1 = Inr r" by fastforce
  have notdead: "\<not> rc_max_attempts cfg \<le> next_attempt_count et eid op db" using Cons.prems(3) by linarith
  with s r1 obtain n u where r: "r = Retry_scheduled n u"
    by (auto simp: schedule_retry_def Let_def split: sum.splits)
  note nc = next_count_after_schedule [OF s [unfolded r1 r]]
  show ?case
  proof (cases k)
    case 0
    then show ?thesis using nc r1 r rs by simp
  next
    case (Suc j)
    have "rs1 ! j = Inr (Retry_scheduled (next_attempt_count et eid op db1 + int j)
           (plus_seconds (ts ! j) (retry_delay cfg (next_attempt_count et eid op db1 + int j))))"
    proof (rule Cons.IH [OF f])
      show "j < length ts" using Cons.prems(2) Suc by simp
      show "next_attempt_count et eid op db1 + int j < rc_max_attempts cfg" using Cons.prems(3) nc Suc by simp
      show "\<forall>i\<le>j. \<exists>r. rs1 ! i = Inr r"
      proof (intro allI impI)
        fix i assume "i \<le> j"
        then have "\<exists>r. rs ! Suc i = Inr r" using Cons.prems(4) Suc by (metis Suc_le_mono)
        then show "\<exists>r. rs1 ! i = Inr r" by (simp add: rs)
      qed
    qed
    then show ?thesis using nc Suc rs by (simp add: algebra_simps)
  qed
qed

text \<open>
  with the default settings, the first and second failure of an operation schedule a retry
  after 300 and 600 seconds, and the third is dead-lettered.
\<close>

theorem third_failure_is_dead_lettered:
  assumes "find_retry et eid op db = None"
    and "micros t1 \<le> 253402300000000000" and "micros t2 \<le> 253402300000000000"
  shows "snd (fail_repeatedly default_retry_config et eid op [t1, t2, t3] db) =
    [Inr (Retry_scheduled 1 (plus_seconds t1 300)), Inr (Retry_scheduled 2 (plus_seconds t2 600)),
     Inr Dead_lettered]"
proof -
  obtain db1 r1 where s1: "schedule_retry default_retry_config t1 et eid op PNone [] None db = (db1, r1)" by force
  from assms(1) have c1: "next_attempt_count et eid op db = 1" by (simp add: next_attempt_count_def)
  with s1 assms(2) have r1: "r1 = Inr (Retry_scheduled 1 (plus_seconds t1 300))"
    by (auto simp: schedule_retry_def default_retry_config_def retry_delay_def add_delay_def datetime_max_def Let_def)
  have c2: "next_attempt_count et eid op db1 = 2"
    using next_count_after_schedule(2) [OF s1 [unfolded r1]] by simp
  obtain db2 r2 where s2: "schedule_retry default_retry_config t2 et eid op PNone [] None db1 = (db2, r2)" by force
  with c2 assms(3) have r2: "r2 = Inr (Retry_scheduled 2 (plus_seconds t2 600))"
    by (auto simp: schedule_retry_def default_retry_config_def retry_delay_def add_delay_def datetime_max_def Let_def)
  have c3: "next_attempt_count et eid op db2 = 3"
    using next_count_after_schedule(2) [OF s2 [unfolded r2]] by simp
  then have "snd (schedule_retry default_retry_config t3 et eid op PNone [] None db2) = Inr Dead_lettered"
    by (simp add: schedule_retry_def default_retry_config_def move_to_dead_letter_def Let_def)
  with s1 s2 r1 r2 show ?thesis by (simp add: case_prod_beta)
qed

theorem third_failure_is_dead_lettered_witness:
  "snd (fail_repeatedly default_retry_config ''posting_attempt'' ''1'' ''execute_posting''
     [Timestamp 0, Timestamp 400000000, Timestamp 2000000000] empty_posting_db) =
    [Inr (Retry_scheduled 1 (Timestamp 300000000)), Inr (Retry_scheduled 2 (Timestamp 1000000000)),
     Inr Dead_lettered]"
proof -
  have "find_retry ''posting_attempt'' ''1'' ''execute_posting'' empty_posting_db = None"
    by (simp add: find_retry_None empty_posting_db_def empty_table_def)
  from third_failure_is_dead_lettered [OF this, of "Timestamp 0" "Timestamp 400000000" "Timestamp 2000000000"]
  show ?thesis by (simp add: plus_seconds_def)
qed

text \<open>
  a deferral (provider quota) spends no attempt: the row is pending again, its attempt
  count and limit are those it had (zero and the default for a new row), and the delay is at
  least one second.
\<close>

theorem deferral_spends_no_attempt:
  assumes "defer_retry cfg now et eid op reason p delay db = (db', Inr res)"
  shows "\<exists>r n. find_retry et eid op db' = Some r \<and> rq_status r = Retry_pending \<and>
    rq_next r = Some (plus_seconds now (max delay 1)) \<and>
    res = Retry_deferred n (plus_seconds now (max delay 1)) \<and> rq_attempts r = n \<and>
    n = (case find_retry et eid op db of None \<Rightarrow> 0 | Some q \<Rightarrow> rq_attempts q) \<and>
    rq_max r = (case find_retry et eid op db of None \<Rightarrow> rc_max_attempts cfg | Some q \<Rightarrow> rq_max q)"
proof -
  from assms have a: "add_delay now (max delay 1) = Inr (plus_seconds now (max delay 1))"
    by (auto simp: defer_retry_def add_delay_def Let_def split: sum.splits if_splits)
  show ?thesis
    using assms
    by (auto simp: defer_retry_def a Let_def step_simps find_retry_upsert split: option.splits)
qed

theorem deferral_spends_no_attempt_witness:
  "\<exists>db' res r. defer_retry default_retry_config (Timestamp 0) ''posting_attempt'' ''1'' ''execute_posting''
      (PStr ''quota'') [] 60 empty_posting_db = (db', Inr res) \<and>
     find_retry ''posting_attempt'' ''1'' ''execute_posting'' db' = Some r \<and> rq_attempts r = 0"
proof -
  have "\<exists>db' res. defer_retry default_retry_config (Timestamp 0) ''posting_attempt'' ''1'' ''execute_posting''
      (PStr ''quota'') [] 60 empty_posting_db = (db', Inr res)"
    by (simp add: defer_retry_def add_delay_def datetime_max_def Let_def)
  then obtain db' res where d: "defer_retry default_retry_config (Timestamp 0) ''posting_attempt'' ''1''
      ''execute_posting'' (PStr ''quota'') [] 60 empty_posting_db = (db', Inr res)" by blast
  have "find_retry ''posting_attempt'' ''1'' ''execute_posting'' empty_posting_db = None"
    by (simp add: find_retry_None empty_posting_db_def empty_table_def)
  with deferral_spends_no_attempt [OF d] d show ?thesis by auto
qed

end
