(* ===== verification/Claims.thy ===== *)
theory Claims
  imports Prelude
begin

text \<open>
  The claim protocol both executors use: read the status of a row, decide whether it may be
  claimed, then \<open>UPDATE ... SET status = busy WHERE id = ? AND status = ?\<close> with the status
  read, and look at the row count. The locale states what the guarded update promises; the
  lemmas about races between workers are proved once and hold for every store that keeps the
  promise.
\<close>

text \<open>
  Workers that all read before any of them writes: each then issues the guarded update with
  the status it saw. The result is the number of updates that hit the row.
\<close>

fun race :: "('st \<Rightarrow> 's \<Rightarrow> 's \<times> bool) \<Rightarrow> 'st list \<Rightarrow> 's \<Rightarrow> nat" where
  "race cas [] s = 0"
| "race cas (st # sts) s = (let (s', won) = cas st s in (if won then 1 else 0) + race cas sts s')"

locale claim_protocol =
  fixes status :: "'s \<Rightarrow> nat \<Rightarrow> 'st option"
    and cas :: "nat \<Rightarrow> 'st \<Rightarrow> 's \<Rightarrow> 's \<times> bool"
    and busy :: 'st
  assumes cas_hit: "status s i = Some st \<Longrightarrow> snd (cas i st s)"
    and cas_miss: "status s i \<noteq> Some st \<Longrightarrow> cas i st s = (s, False)"
    and cas_sets: "status s i = Some st \<Longrightarrow>
      status (fst (cas i st s)) j = (if j = i then Some busy else status s j)"
begin

lemma race_busy: "status s i = Some busy \<Longrightarrow> busy \<notin> set seen \<Longrightarrow> race (cas i) seen s = 0"
proof (induction seen)
  case Nil
  then show ?case by simp
next
  case (Cons st seen)
  then have "cas i st s = (s, False)" by (intro cas_miss) auto
  with Cons show ?case by simp
qed

lemma single_winner: "busy \<notin> set seen \<Longrightarrow> race (cas i) seen s \<le> 1"
proof (induction seen arbitrary: s)
  case Nil
  then show ?case by simp
next
  case (Cons st seen)
  show ?case
  proof (cases "status s i = Some st")
    case True
    obtain s' where c: "cas i st s = (s', True)" using cas_hit [OF True] by (cases "cas i st s") auto
    then have "status s' i = Some busy" using cas_sets [OF True, of i] by simp
    with Cons.prems have "race (cas i) seen s' = 0" by (simp add: race_busy)
    with c show ?thesis by simp
  next
    case False
    then have "cas i st s = (s, False)" by (rule cas_miss)
    with Cons show ?thesis by simp
  qed
qed

lemma some_winner:
  "busy \<notin> set seen \<Longrightarrow> status s i = Some st \<Longrightarrow> st \<in> set seen \<Longrightarrow> race (cas i) seen s = 1"
proof (induction seen)
  case Nil
  then show ?case by simp
next
  case (Cons st' seen)
  show ?case
  proof (cases "st' = st")
    case True
    obtain s' where c: "cas i st s = (s', True)" using cas_hit [OF Cons.prems(2)] by (cases "cas i st s") auto
    then have "status s' i = Some busy" using cas_sets [OF Cons.prems(2), of i] by simp
    with Cons.prems have "race (cas i) seen s' = 0" by (simp add: race_busy)
    with c True show ?thesis by simp
  next
    case False
    with Cons.prems have "cas i st' s = (s, False)" by (intro cas_miss) auto
    with Cons False show ?thesis by simp
  qed
qed

text \<open>
  A protocol that lets a worker claim a row that is already busy has no winner at all: every
  update hits.
\<close>

lemma busy_is_reclaimed: "status s i = Some busy \<Longrightarrow> race (cas i) (replicate n busy) s = n"
proof (induction n arbitrary: s)
  case 0
  then show ?case by simp
next
  case (Suc n)
  obtain s' where c: "cas i busy s = (s', True)" using cas_hit [OF Suc.prems] by (cases "cas i busy s") auto
  then have "status s' i = Some busy" using cas_sets [OF Suc.prems, of i] by simp
  with c Suc.IH show ?case by simp
qed

lemma other_rows_kept: "j \<noteq> i \<Longrightarrow> status (fst (cas i st s)) j = status s j"
  by (cases "status s i = Some st") (simp_all add: cas_sets cas_miss)

end

end
