(* ===== verification/Posting.thy ===== *)
theory Posting
  imports Retry_Queue Claims
begin

text \<open>
  The approval-gated posting of one document: dry runs (src/data_entry/safe_posting.py), human
  approval and supervised completion (src/data_entry/posting_approval.py), and execution against
  the bookkeeping handlers (src/data_entry/posting_executor.py). A handler is a function from
  the request to its result dictionary or to the message of the exception it raised; calling it
  appends the request to \<open>db_sent\<close>. An operation returns the store it leaves, also when it ends
  in an exception, because every write it made before is committed.
\<close>

section \<open>Dry runs\<close>

definition join_bar :: "string list \<Rightarrow> string" where
  "join_bar parts = (case parts of [] \<Rightarrow> [] | p # ps \<Rightarrow> p @ concat (map (\<lambda>q. CHR ''|'' # q) ps))"

definition key_payload :: "py_env \<Rightarrow> pydict \<Rightarrow> string \<Rightarrow> string result" where
  "key_payload env doc target_system =
     (let document_id = py_str env (dget doc ''document_id'') in
      rbind (attr_get (dget_or doc ''source_document'' (PDict [])) ''source_external_id'' PNone) (\<lambda>ext.
      Inr (join_bar [document_id, py_str env (py_or ext (PStr document_id)),
                     py_str env (dget_or doc ''category'' (PStr [])), target_system])))"

definition build_idempotency_key :: "py_env \<Rightarrow> pydict \<Rightarrow> string \<Rightarrow> string result" where
  "build_idempotency_key env doc target_system =
     rbind (key_payload env doc target_system) (\<lambda>p. Inr (sha256_hex env p))"

fun decision_name :: "decision \<Rightarrow> string" where
  "decision_name Auto_process = ''auto_process''"
| "decision_name Approval_needed = ''approval_required''"
| "decision_name Manual_review = ''manual_review''"

definition safety_json :: "safety_result \<Rightarrow> pyval" where
  "safety_json r = PDict
     [(''context'', PStr (sr_context r)), (''decision'', PStr (decision_name (sr_decision r))),
      (''confidence_score'', PFloat (sr_score r)),
      (''warnings'', PList (map PStr (sr_warnings r))), (''reason'', PStr (sr_reason r)),
      (''may_post'', PBool (sr_may_post r))]"

datatype dry_run_result =
    Existing_attempt nat string safety_result
  | New_attempt nat string safety_result pydict

definition dry_run_payload :: "pydict \<Rightarrow> string \<Rightarrow> pyval \<Rightarrow> safety_result \<Rightarrow> pydict" where
  "dry_run_payload doc target_system target_account safety =
     [(''document_id'', dget doc ''document_id''), (''target_system'', PStr target_system),
      (''target_account'', target_account), (''category'', dget doc ''category''),
      (''extracted_data'', dget_or doc ''extracted_data'' (PDict [])),
      (''safety_result'', safety_json safety)]"

definition create_dry_run ::
  "py_env \<Rightarrow> safety_engine \<Rightarrow> pydict \<Rightarrow> string \<Rightarrow> pyval \<Rightarrow> timestamp \<Rightarrow> posting_db \<Rightarrow>
   posting_db \<times> dry_run_result result" where
  "create_dry_run env engine doc target_system target_account now db =
     (case rbind (evaluate_posting_readiness engine doc) (\<lambda>safety.
           rbind (build_idempotency_key env doc target_system) (\<lambda>key. Inr (safety, key))) of
        Inl e \<Rightarrow> (db, Inl e)
      | Inr (safety, key) \<Rightarrow>
          (case find_row (\<lambda>a. pa_key a = key) (db_attempts db) of
             Some (i, _) \<Rightarrow> (db, Inr (Existing_attempt i key safety))
           | None \<Rightarrow>
               (case sql_text env (dget doc ''document_id'') of
                  None \<Rightarrow> (db, Inl IntegrityError)
                | Some did \<Rightarrow>
                    (let payload = dry_run_payload doc target_system target_account safety;
                         (t, i) = insert_row
                           \<lparr>pa_document_id = did, pa_target_system = target_system,
                            pa_target_account = target_account, pa_dry_run = True,
                            pa_payload = payload, pa_status = Dry_run_created,
                            pa_external_id = PNone, pa_key = key, pa_created = now,
                            pa_updated = now\<rparr> (db_attempts db)
                     in (db\<lparr>db_attempts := t\<rparr>, Inr (New_attempt i key safety payload))))))"

section \<open>Approval\<close>

datatype approval_result =
    Approval_not_found
  | Not_approvable posting_status
  | Attempt_approved
  | Attempt_rejected

definition set_status :: "nat \<Rightarrow> posting_status \<Rightarrow> timestamp \<Rightarrow> posting_db \<Rightarrow> posting_db" where
  "set_status i st now db = put_attempt i (\<lambda>a. a\<lparr>pa_status := st, pa_updated := now\<rparr>) db"

definition approvable :: "posting_status \<Rightarrow> bool" where
  "approvable st \<longleftrightarrow> st \<in> {Dry_run_created, Approval_required, Rejected}"

text \<open>
  \<open>approve_attempt\<close> reads the row in one connection and writes it in another; the write carries
  no condition on the status.
\<close>

definition approve_write ::
  "nat \<Rightarrow> posting_attempt \<Rightarrow> string \<Rightarrow> pyval \<Rightarrow> timestamp \<Rightarrow> posting_db \<Rightarrow> posting_db" where
  "approve_write i a approved_by reason now db =
     add_audit_log ''posting_attempt'' (str_of_nat i) ''approved'' (attempt_json i a)
       (PDict [(''status'', PStr ''approved'')]) reason approved_by now (set_status i Approved now db)"

definition approve_attempt ::
  "nat \<Rightarrow> string \<Rightarrow> pyval \<Rightarrow> timestamp \<Rightarrow> posting_db \<Rightarrow> posting_db \<times> approval_result" where
  "approve_attempt i approved_by reason now db =
     (case lookup_row (db_attempts db) i of
        None \<Rightarrow> (db, Approval_not_found)
      | Some a \<Rightarrow>
          if \<not> approvable (pa_status a) then (db, Not_approvable (pa_status a))
          else (approve_write i a approved_by reason now db, Attempt_approved))"

definition reject_attempt ::
  "nat \<Rightarrow> string \<Rightarrow> pyval \<Rightarrow> timestamp \<Rightarrow> posting_db \<Rightarrow> posting_db \<times> approval_result" where
  "reject_attempt i rejected_by reason now db =
     (case lookup_row (db_attempts db) i of
        None \<Rightarrow> (db, Approval_not_found)
      | Some a \<Rightarrow>
          (add_audit_log ''posting_attempt'' (str_of_nat i) ''rejected'' (attempt_json i a)
             (PDict [(''status'', PStr ''rejected'')]) reason rejected_by now
             (set_status i Rejected now db),
           Attempt_rejected))"

definition mark_executed ::
  "nat \<Rightarrow> pyval \<Rightarrow> pydict \<Rightarrow> timestamp \<Rightarrow> posting_db \<Rightarrow> posting_db" where
  "mark_executed i external_id res now db =
     (case lookup_row (db_attempts db) i of
        None \<Rightarrow> db
      | Some a \<Rightarrow>
          add_audit_log ''posting_attempt'' (str_of_nat i) ''posted'' (attempt_json i a) (PDict res)
            (PStr ''Posting executed'') ''system'' now
            (put_attempt i (\<lambda>r. r\<lparr>pa_status := Posted, pa_external_id := external_id, pa_updated := now\<rparr>) db))"

definition mark_failed :: "nat \<Rightarrow> pydict \<Rightarrow> timestamp \<Rightarrow> posting_db \<Rightarrow> posting_db" where
  "mark_failed i res now db =
     add_audit_log ''posting_attempt'' (str_of_nat i) ''posting_failed'' PNone (PDict res)
       (dget_or res ''message'' (PStr ''Posting failed'')) ''system'' now
       (set_status i Posting_failed now db)"

definition SUPERVISED_COMPLETION_PHRASE :: string where
  "SUPERVISED_COMPLETION_PHRASE = ''CONFIRM EXTERNAL SUBMISSION''"

definition safe_supervised_evidence :: "pydict \<Rightarrow> pydict" where
  "safe_supervised_evidence evidence =
     map (\<lambda>k. (k, dget evidence k))
       (filter (\<lambda>k. \<not> is_blank (dget evidence k))
          [''submitted_at'', ''receipt_reference'', ''note'', ''artifact_sha256''])"

datatype completion_result =
    Confirmation_required
  | Completion_not_found
  | Not_completable posting_status
  | Completed_posted pyval

definition supervision_reason :: string where
  "supervision_reason = ''mijngeldzaken_supervision_required''"

definition complete_supervised_attempt ::
  "nat \<Rightarrow> string \<Rightarrow> string \<Rightarrow> pyval \<Rightarrow> pydict \<Rightarrow> string \<Rightarrow> timestamp \<Rightarrow> posting_db \<Rightarrow>
   posting_db \<times> completion_result" where
  "complete_supervised_attempt i confirmation completed_by external_id evidence reason now db =
     (if confirmation \<noteq> SUPERVISED_COMPLETION_PHRASE then (db, Confirmation_required)
      else case lookup_row (db_attempts db) i of
        None \<Rightarrow> (db, Completion_not_found)
      | Some a \<Rightarrow>
          if pa_status a \<noteq> Supervision_required then (db, Not_completable (pa_status a))
          else
            (let db1 = put_attempt i
                   (\<lambda>r. r\<lparr>pa_status := Posted, pa_external_id := external_id, pa_updated := now\<rparr>) db;
                 db2 = db1\<lparr>db_reviews := update_where
                   (\<lambda>r. rv_document_id r = Some (pa_document_id a) \<and> rv_reason r = supervision_reason \<and> rv_pending r)
                   (\<lambda>r. r\<lparr>rv_pending := False, rv_resolution := PStr reason, rv_resolved_at := Some now\<rparr>)
                   (db_reviews db1)\<rparr>;
                 db3 = put_doc_state (pa_document_id a) Doc_posted now db2
             in (add_audit_log ''posting_attempt'' (str_of_nat i) ''supervised_submission_completed''
                   (attempt_json i a)
                   (PDict [(''status'', PStr ''posted''), (''mode'', PStr ''supervised_external_submission''),
                           (''external_id'', external_id),
                           (''evidence'', PDict (safe_supervised_evidence evidence))])
                   (PStr reason) completed_by now db3,
                 Completed_posted external_id)))"

definition payload_for_attempt :: "nat \<Rightarrow> posting_db \<Rightarrow> pydict option" where
  "payload_for_attempt i db = map_option pa_payload (lookup_row (db_attempts db) i)"

end
