(* ===== verification/Posting_Executor.thy ===== *)
theory Posting_Executor
  imports Posting
begin

text \<open>
  \<open>PostingExecutor\<close> of src/data_entry/posting_executor.py: the claim, the handler call with its
  four outcomes (posted, deferred, supervised, failed), the batch over approved attempts and the
  batch over due retries. The claim is split into the read and the guarded update, the two
  database statements other workers can run between.
\<close>

type_synonym handler = "pydict \<Rightarrow> string + pydict"

record exec_config =
  ec_env :: py_env
  ec_retry :: retry_config
  ec_execute_approved :: bool
  ec_rate_delay :: pyval \<comment> \<open>\<open>rate_limit_retry_delay_seconds\<close>\<close>

section \<open>Claiming\<close>

definition allowed_statuses :: "bool \<Rightarrow> posting_status list" where
  "allowed_statuses force =
     (if force then [Approved, Posting_failed, Posting_in_progress, Posting_deferred, Supervision_required]
      else [Approved])"

text \<open>\<open>UPDATE posting_attempts SET status = 'posting_in_progress' WHERE id = ? AND status = ?\<close>\<close>

definition claim_update :: "timestamp \<Rightarrow> nat \<Rightarrow> posting_status \<Rightarrow> posting_db \<Rightarrow> posting_db \<times> bool" where
  "claim_update now i seen db =
     (if attempt_status db i = Some seen then (set_status i Posting_in_progress now db, True)
      else (db, False))"

datatype claim_result =
    Claim_not_found
  | Claim_not_approved posting_status
  | Claim_already_claimed
  | Claimed posting_attempt

definition claim_attempt :: "nat \<Rightarrow> bool \<Rightarrow> timestamp \<Rightarrow> posting_db \<Rightarrow> posting_db \<times> claim_result" where
  "claim_attempt i force now db =
     (case lookup_row (db_attempts db) i of
        None \<Rightarrow> (db, Claim_not_found)
      | Some a \<Rightarrow>
          if pa_status a \<notin> set (allowed_statuses force) then (db, Claim_not_approved (pa_status a))
          else (case claim_update now i (pa_status a) db of
                  (db', True) \<Rightarrow> (db', Claimed a)
                | (db', False) \<Rightarrow> (db', Claim_already_claimed)))"

section \<open>After the handler\<close>

definition positive_int :: "pyval \<Rightarrow> int \<Rightarrow> int result" where
  "positive_int v dflt =
     (case rbind (to_float v) float_to_int of
        Inr n \<Rightarrow> Inr (max n 1)
      | Inl e \<Rightarrow> if e = TypeError \<or> e = ValueError then Inr dflt else Inl e)"

datatype exec_result =
    Skipped_disabled
  | Claim_refused claim_result
  | Executed_posted pydict
  | Execution_deferred pyval pydict
  | Execution_supervised pydict
  | Execution_no_handler pydict
  | Execution_failed pydict

definition handle_failure ::
  "exec_config \<Rightarrow> nat \<Rightarrow> pydict \<Rightarrow> pydict \<Rightarrow> timestamp \<Rightarrow> posting_db \<Rightarrow> posting_db \<times> unit result" where
  "handle_failure cfg i payload res now db =
     (case schedule_retry (ec_retry cfg) now ''posting_attempt'' (str_of_nat i) ''execute_posting''
             (dget_or res ''message'' (PStr ''Posting failed'')) payload None (mark_failed i res now db) of
        (db', Inl e) \<Rightarrow> (db', Inl e)
      | (db', Inr r) \<Rightarrow>
          ((if r = Dead_lettered
            then add_manual_review_item (str_of_nat i) ''posting_dead_lettered''
                   (PStr (py_str (ec_env cfg) (PDict res))) ''high'' now db'
            else db'), Inr ()))"

definition defer_attempt ::
  "exec_config \<Rightarrow> nat \<Rightarrow> pydict \<Rightarrow> pydict \<Rightarrow> pydict \<Rightarrow> timestamp \<Rightarrow> posting_db \<Rightarrow>
   posting_db \<times> exec_result result" where
  "defer_attempt cfg i payload categorized res now db =
     (let reason = PStr (py_str (ec_env cfg)
            (py_or (dget res ''message'') (PStr ''Downstream rate limit is temporarily unavailable.'')))
      in case rbind (positive_int (ec_rate_delay cfg) 60)
                (\<lambda>d. positive_int (dget res ''retry_after_seconds'') d) of
           Inl e \<Rightarrow> (db, Inl e)
         | Inr secs \<Rightarrow>
             (case defer_retry (ec_retry cfg) now ''posting_attempt'' (str_of_nat i) ''execute_posting''
                     reason payload secs (set_status i Posting_deferred now db) of
                (db', Inl e) \<Rightarrow> (db', Inl e)
              | (db', Inr r) \<Rightarrow>
                  (add_audit_log ''posting_attempt'' (str_of_nat i) ''execution_deferred_rate_limit'' PNone
                     (PDict [(''target_system'', dget categorized ''target_system''),
                             (''document_id'', dget categorized ''document_id''),
                             (''provider_status'', dget res ''status''),
                             (''retry_after_seconds'', PInt secs),
                             (''next_retry_at'',
                                case r of Retry_deferred _ t \<Rightarrow> PInt (micros t) | _ \<Rightarrow> PNone),
                             (''rate_limit'', dget res ''rate_limit'')])
                     reason ''system'' now db',
                   Inr (Execution_deferred (dget res ''status'') res))))"

definition supervision_result :: "pydict \<Rightarrow> pydict" where
  "supervision_result res =
     map (\<lambda>k. (k, dget res k))
       (filter (\<lambda>k. dget res k \<noteq> PNone)
          [''status'', ''message'', ''artifact'', ''external_submission'', ''requires_supervision'',
           ''credentials_used''])"

definition pause_for_supervision ::
  "exec_config \<Rightarrow> nat \<Rightarrow> pydict \<Rightarrow> pydict \<Rightarrow> timestamp \<Rightarrow> posting_db \<Rightarrow> posting_db \<times> exec_result" where
  "pause_for_supervision cfg i categorized res now db =
     (let reason = PStr (py_str (ec_env cfg)
            (py_or (dget res ''message'') (PStr ''External submission requires a supervised user session.'')));
          public = supervision_result res;
          docv = dget categorized ''document_id'';
          did = (case sql_text (ec_env cfg) docv of None \<Rightarrow> [] | Some d \<Rightarrow> d);
          db1 = set_status i Supervision_required now db;
          db2 = (if truthy docv
                 then put_doc_state did (Other_state ''awaiting_supervised_submission'') now db1 else db1);
          details = PDict [(''target_system'', dget categorized ''target_system''),
                           (''document_id'', docv), (''result'', PDict public)];
          db3 = add_audit_log ''posting_attempt'' (str_of_nat i) ''execution_paused_for_supervision''
                  PNone details reason ''system'' now db2;
          db4 = (if truthy docv \<and>
                    find_row (\<lambda>r. rv_document_id r = Some did \<and> rv_reason r = supervision_reason \<and> rv_pending r)
                      (db_reviews db3) = None
                 then add_manual_review_item did supervision_reason details ''normal'' now db3 else db3)
      in (db4, Execution_supervised public))"

definition mark_document_posted ::
  "py_env \<Rightarrow> pyval \<Rightarrow> pydict \<Rightarrow> timestamp \<Rightarrow> posting_db \<Rightarrow> posting_db" where
  "mark_document_posted env docv res now db =
     (if \<not> truthy docv then db
      else (let did = (case sql_text env docv of None \<Rightarrow> [] | Some d \<Rightarrow> d)
            in add_audit_log ''document'' did ''posted'' PNone (PDict res)
                 (PStr ''Posting attempt executed successfully'') ''system'' now
                 (put_doc_state did Doc_posted now db)))"

definition payload_to_categorized_data :: "pydict \<Rightarrow> nat \<Rightarrow> posting_attempt \<Rightarrow> pydict" where
  "payload_to_categorized_data payload i a =
     [(''document_id'', py_or (dget payload ''document_id'') (PStr (pa_document_id a))),
      (''target_system'', py_or (dget payload ''target_system'') (PStr (pa_target_system a))),
      (''target_account'', py_or (dget payload ''target_account'') (pa_target_account a)),
      (''category'', dget payload ''category''),
      (''extracted_data'', dget_or payload ''extracted_data'' (PDict [])),
      (''safety_result'', dget_or payload ''safety_result'' (PDict [])),
      (''posting_attempt_id'', PInt (int i)),
      (''idempotency_key'', PStr (pa_key a))]"

definition DEFERRED_HANDLER_STATUSES :: "pyval list" where
  "DEFERRED_HANDLER_STATUSES = [PStr ''rate_limited'', PStr ''quota_exhausted'']"

definition SUPERVISED_HANDLER_STATUSES :: "pyval list" where
  "SUPERVISED_HANDLER_STATUSES = [PStr ''supervised_action_required'']"

definition record_outcome ::
  "exec_config \<Rightarrow> nat \<Rightarrow> pydict \<Rightarrow> pydict \<Rightarrow> pydict \<Rightarrow> timestamp \<Rightarrow> posting_db \<Rightarrow>
   posting_db \<times> exec_result result" where
  "record_outcome cfg i payload categorized res now db =
     (let status = dget res ''status''; docv = dget categorized ''document_id'' in
      if status = PStr ''success'' then
        (mark_document_posted (ec_env cfg) docv res now
           (mark_complete now ''posting_attempt'' (str_of_nat i) ''execute_posting''
             (mark_executed i (py_or (dget res ''external_id'') (dget res ''id'')) res now db)),
         Inr (Executed_posted res))
      else if status \<in> set DEFERRED_HANDLER_STATUSES then
        defer_attempt cfg i payload categorized res now db
      else if status \<in> set SUPERVISED_HANDLER_STATUSES then
        (let (db', r) = pause_for_supervision cfg i categorized res now db in (db', Inr r))
      else
        (case handle_failure cfg i payload res now db of
           (db', Inl e) \<Rightarrow> (db', Inl e)
         | (db', Inr _) \<Rightarrow>
             ((if truthy docv then
                 add_manual_review_item
                   (case sql_text (ec_env cfg) docv of None \<Rightarrow> [] | Some d \<Rightarrow> d)
                   ''posting_execution_failed'' (PStr (py_str (ec_env cfg) (PDict res))) ''high'' now db'
               else db'),
              Inr (Execution_failed res))))"

definition call_handler :: "nat \<Rightarrow> handler \<Rightarrow> pydict \<Rightarrow> posting_db \<Rightarrow> posting_db \<times> pydict" where
  "call_handler i h request db =
     (db\<lparr>db_sent := db_sent db @ [(i, request)]\<rparr>,
      (case h request of
         Inl msg \<Rightarrow> [(''status'', PStr ''failure''), (''message'', PStr msg),
                     (''requires_manual_review'', PBool True)]
       | Inr res \<Rightarrow> res))"

definition run_claimed ::
  "exec_config \<Rightarrow> (string \<Rightarrow> handler option) \<Rightarrow> nat \<Rightarrow> posting_attempt \<Rightarrow> timestamp \<Rightarrow> posting_db \<Rightarrow>
   posting_db \<times> exec_result result" where
  "run_claimed cfg handlers i a now db =
     (let payload = (case payload_for_attempt i db of None \<Rightarrow> [] | Some p \<Rightarrow> p);
          target = py_or (dget payload ''target_system'') (PStr (pa_target_system a))
      in case (case target of PStr t \<Rightarrow> handlers t | _ \<Rightarrow> None) of
           None \<Rightarrow>
             (let res = [(''status'', PStr ''failure''),
                (''message'', PStr (''No handler configured for target system: '' @ py_str (ec_env cfg) target))]
              in case handle_failure cfg i payload res now db of
                   (db', Inl e) \<Rightarrow> (db', Inl e)
                 | (db', Inr _) \<Rightarrow> (db', Inr (Execution_no_handler res)))
         | Some h \<Rightarrow>
             (let categorized = payload_to_categorized_data payload i a;
                  db1 = add_audit_log ''posting_attempt'' (str_of_nat i) ''execution_started'' (attempt_json i a)
                    (PDict [(''target_system'', target),
                            (''document_id'', dget categorized ''document_id'')])
                    (PStr ''Approved posting execution started'') ''system'' now db;
                  (db2, res) = call_handler i h categorized db1
              in record_outcome cfg i payload categorized res now db2))"

definition execute_attempt ::
  "exec_config \<Rightarrow> (string \<Rightarrow> handler option) \<Rightarrow> nat \<Rightarrow> bool \<Rightarrow> timestamp \<Rightarrow> posting_db \<Rightarrow>
   posting_db \<times> exec_result result" where
  "execute_attempt cfg handlers i force now db =
     (if \<not> ec_execute_approved cfg \<and> \<not> force then (db, Inr Skipped_disabled)
      else case claim_attempt i force now db of
             (db', Claimed a) \<Rightarrow> run_claimed cfg handlers i a now db'
           | (db', refused) \<Rightarrow> (db', Inr (Claim_refused refused)))"

section \<open>Batches\<close>

fun execute_all ::
  "exec_config \<Rightarrow> (string \<Rightarrow> handler option) \<Rightarrow> nat list \<Rightarrow> timestamp \<Rightarrow> posting_db \<Rightarrow>
   posting_db \<times> exec_result list result" where
  "execute_all cfg handlers [] now db = (db, Inr [])"
| "execute_all cfg handlers (i # is) now db =
     (case execute_attempt cfg handlers i True now db of
        (db', Inl e) \<Rightarrow> (db', Inl e)
      | (db', Inr r) \<Rightarrow>
          (case execute_all cfg handlers is now db' of
             (db'', Inl e) \<Rightarrow> (db'', Inl e)
           | (db'', Inr rs) \<Rightarrow> (db'', Inr (r # rs))))"

definition approved_ids :: "nat \<Rightarrow> posting_db \<Rightarrow> nat list" where
  "approved_ids limit db =
     take limit (map fst (sort_key (\<lambda>(i, a). pa_updated a)
       (select_rows (\<lambda>a. pa_status a = Approved) (db_attempts db))))"

datatype batch_result = Batch_skipped | Batch_completed "exec_result list result"

definition process_approved_attempts ::
  "exec_config \<Rightarrow> (string \<Rightarrow> handler option) \<Rightarrow> bool \<Rightarrow> nat \<Rightarrow> timestamp \<Rightarrow> posting_db \<Rightarrow>
   posting_db \<times> batch_result" where
  "process_approved_attempts cfg handlers force limit now db =
     (if \<not> ec_execute_approved cfg \<and> \<not> force then (db, Batch_skipped)
      else (let (db', rs) = execute_all cfg handlers (approved_ids limit db) now db
            in (db', Batch_completed rs)))"

definition due_posting_ids :: "nat \<Rightarrow> timestamp \<Rightarrow> posting_db \<Rightarrow> nat option list" where
  "due_posting_ids limit now db =
     map (\<lambda>r. nat_of_str (rq_entity_id r))
       (filter (\<lambda>r. rq_entity_type r = ''posting_attempt'' \<and> rq_operation r = ''execute_posting'')
         (take limit (due_items now db)))"

fun execute_due ::
  "exec_config \<Rightarrow> (string \<Rightarrow> handler option) \<Rightarrow> nat option list \<Rightarrow> timestamp \<Rightarrow> posting_db \<Rightarrow>
   posting_db \<times> exec_result list result" where
  "execute_due cfg handlers [] now db = (db, Inr [])"
| "execute_due cfg handlers (None # is) now db = (db, Inl ValueError)"
| "execute_due cfg handlers (Some i # is) now db =
     (case execute_attempt cfg handlers i True now db of
        (db', Inl e) \<Rightarrow> (db', Inl e)
      | (db', Inr r) \<Rightarrow>
          (case execute_due cfg handlers is now db' of
             (db'', Inl e) \<Rightarrow> (db'', Inl e)
           | (db'', Inr rs) \<Rightarrow> (db'', Inr (r # rs))))"

definition process_due_retries ::
  "exec_config \<Rightarrow> (string \<Rightarrow> handler option) \<Rightarrow> nat \<Rightarrow> timestamp \<Rightarrow> posting_db \<Rightarrow>
   posting_db \<times> exec_result list result" where
  "process_due_retries cfg handlers limit now db =
     execute_due cfg handlers (due_posting_ids limit now db) now db"

section \<open>The claim protocol\<close>

lemma attempt_status_set_status [step_simps]:
  "attempt_status (set_status i st now db) j =
     (if j = i then map_option (\<lambda>_. st) (attempt_status db j) else attempt_status db j)"
  unfolding set_status_def attempt_status_put
  by (simp add: attempt_status_def option.map_comp comp_def)

interpretation posting_claim: claim_protocol attempt_status "claim_update now" Posting_in_progress
  for now
  by unfold_locales (auto simp: claim_update_def step_simps)

end
