(* ===== verification/Posting_Safety.thy ===== *)
theory Posting_Safety
  imports Posting_Executor
begin

text \<open>
  The posting pipeline as a state machine: its operations, the states reachable from the empty
  store, the authority invariant (nothing is sent for an attempt that was never approved), what
  keeps a posted attempt posted, and the three ways one attempt can be sent twice.
\<close>

datatype posting_op =
    Op_dry_run pydict string pyval
  | Op_approve nat string pyval
  | Op_reject nat string pyval
  | Op_execute nat bool
  | Op_process bool nat
  | Op_retries nat
  | Op_complete nat string string pyval pydict string

record pipeline =
  pl_config :: exec_config
  pl_engine :: safety_engine

fun posting_step ::
  "pipeline \<Rightarrow> (string \<Rightarrow> handler option) \<Rightarrow> timestamp \<Rightarrow> posting_op \<Rightarrow> posting_db \<Rightarrow> posting_db" where
  "posting_step p hs now (Op_dry_run doc target acct) db =
     fst (create_dry_run (ec_env (pl_config p)) (pl_engine p) doc target acct now db)"
| "posting_step p hs now (Op_approve i who why) db = fst (approve_attempt i who why now db)"
| "posting_step p hs now (Op_reject i who why) db = fst (reject_attempt i who why now db)"
| "posting_step p hs now (Op_execute i force) db = fst (execute_attempt (pl_config p) hs i force now db)"
| "posting_step p hs now (Op_process force limit) db =
     fst (process_approved_attempts (pl_config p) hs force limit now db)"
| "posting_step p hs now (Op_retries limit) db = fst (process_due_retries (pl_config p) hs limit now db)"
| "posting_step p hs now (Op_complete i phrase who ext ev why) db =
     fst (complete_supervised_attempt i phrase who ext ev why now db)"

inductive posting_reachable :: "pipeline \<Rightarrow> posting_db \<Rightarrow> bool" for p where
  start: "posting_reachable p empty_posting_db"
| step: "posting_reachable p db \<Longrightarrow> posting_reachable p (posting_step p hs now op db)"

section \<open>The authority invariant\<close>

definition authorised :: "posting_db \<Rightarrow> nat \<Rightarrow> bool" where
  "authorised db i \<longleftrightarrow> (\<exists>r \<in> set (db_audit db).
     au_entity_type r = ''posting_attempt'' \<and> au_entity_id r = str_of_nat i \<and> au_action r = ''approved'')"

definition needs_authority :: "posting_status \<Rightarrow> bool" where
  "needs_authority st \<longleftrightarrow> st \<notin> {Pending_status, Dry_run_created, Approval_required, Rejected}"

definition keys_distinct :: "posting_db \<Rightarrow> bool" where
  "keys_distinct db \<longleftrightarrow> distinct (map (\<lambda>(i, a). pa_key a) (trows (db_attempts db)))"

definition posting_inv :: "posting_db \<Rightarrow> bool" where
  "posting_inv db \<longleftrightarrow>
     wf_table (db_attempts db) \<and> keys_distinct db \<and>
     (\<forall>i st. attempt_status db i = Some st \<longrightarrow> needs_authority st \<longrightarrow> authorised db i) \<and>
     (\<forall>(i, req) \<in> set (db_sent db). authorised db i)"

named_theorems inv_rules \<open>the operations that keep the authority invariant\<close>

lemma authorised_mono:
  "authorised db i \<Longrightarrow> set (db_audit db) \<subseteq> set (db_audit db') \<Longrightarrow> authorised db' i"
  by (auto simp: authorised_def)

lemma posting_inv_grow:
  assumes "posting_inv db" and "db_attempts db' = db_attempts db" and "db_sent db' = db_sent db"
    and "set (db_audit db) \<subseteq> set (db_audit db')"
  shows "posting_inv db'"
  using assms authorised_mono [OF _ assms(4)]
  by (fastforce simp: posting_inv_def keys_distinct_def attempt_status_def)

lemma authorised_audit [inv_rules]:
  "authorised db i \<Longrightarrow> authorised (add_audit_log a b c d e f g t db) i"
  by (erule authorised_mono) (auto simp: step_simps)

lemma authorised_review [inv_rules]:
  "authorised db i \<Longrightarrow> authorised (add_manual_review_item a b c d t db) i"
  by (erule authorised_mono) (rule review_audit_grows)

lemma authorised_same_audit:
  "db_audit db' = db_audit db \<Longrightarrow> authorised db' i = authorised db i"
  by (simp add: authorised_def)

lemma authorised_put [simp]: "authorised (put_attempt j f db) i = authorised db i"
  by (rule authorised_same_audit) (simp add: step_simps)

lemma authorised_set_status [simp]: "authorised (set_status j st t db) i = authorised db i"
  by (simp add: set_status_def)

lemma authorised_doc [simp]: "authorised (put_doc_state d s t db) i = authorised db i"
  by (rule authorised_same_audit) (simp add: step_simps)

lemma authorised_complete [simp]: "authorised (mark_complete t a b c db) i = authorised db i"
  by (rule authorised_same_audit) (simp add: step_simps)

lemma inv_audit [inv_rules]: "posting_inv db \<Longrightarrow> posting_inv (add_audit_log a b c d e f g t db)"
  by (erule posting_inv_grow) (auto simp: step_simps)

lemma inv_review [inv_rules]: "posting_inv db \<Longrightarrow> posting_inv (add_manual_review_item a b c d t db)"
  by (erule posting_inv_grow) (simp_all add: step_simps review_audit_grows)

lemma inv_doc [inv_rules]: "posting_inv db \<Longrightarrow> posting_inv (put_doc_state d s t db)"
  by (erule posting_inv_grow) (auto simp: step_simps)

lemma inv_mark_complete [inv_rules]: "posting_inv db \<Longrightarrow> posting_inv (mark_complete t a b c db)"
  by (erule posting_inv_grow) (auto simp: step_simps)

lemma inv_schedule [inv_rules]:
  "posting_inv db \<Longrightarrow> posting_inv (fst (schedule_retry cfg now et eid op err p m db))"
  by (erule posting_inv_grow) (simp_all add: step_simps schedule_retry_audit_grows)

lemma inv_defer [inv_rules]:
  "posting_inv db \<Longrightarrow> posting_inv (fst (defer_retry cfg now et eid op err p d db))"
  by (erule posting_inv_grow) (simp_all add: step_simps defer_retry_audit_grows)

lemma map_key_update:
  assumes "\<And>a. pa_key (f a) = pa_key a"
  shows "map (\<lambda>(i, a). pa_key a) (trows (update_row j f t)) = map (\<lambda>(i, a). pa_key a) (trows t)"
  using assms by (simp add: update_row_def case_prod_beta comp_def)

lemma inv_put:
  assumes "posting_inv db" and "\<And>a. pa_key (f a) = pa_key a"
    and "\<And>a. needs_authority (pa_status (f a)) \<Longrightarrow> authorised db i"
  shows "posting_inv (put_attempt i f db)"
proof -
  have "keys_distinct (put_attempt i f db)"
    using assms(1) by (simp add: posting_inv_def keys_distinct_def put_attempt_def map_key_update assms(2))
  moreover have "wf_table (db_attempts (put_attempt i f db))"
    using assms(1) by (simp add: posting_inv_def put_attempt_def)
  moreover have "authorised db j"
    if "attempt_status (put_attempt i f db) j = Some st" and "needs_authority st" for j st
    using that assms(1,3) by (auto simp: posting_inv_def step_simps split: if_splits)
  ultimately show ?thesis using assms(1) by (auto simp: posting_inv_def step_simps)
qed

lemma inv_set_status:
  "posting_inv db \<Longrightarrow> (needs_authority st \<Longrightarrow> authorised db i) \<Longrightarrow> posting_inv (set_status i st now db)"
  unfolding set_status_def by (rule inv_put) auto

text \<open>An operation on an authorised attempt keeps the invariant and the authority.\<close>

definition inv_for :: "nat \<Rightarrow> posting_db \<Rightarrow> bool" where
  "inv_for i db \<longleftrightarrow> posting_inv db \<and> authorised db i"

lemma inv_for_set_status [inv_rules]: "inv_for i db \<Longrightarrow> inv_for i (set_status i st now db)"
  by (simp add: inv_for_def inv_set_status)

lemma inv_for_audit [inv_rules]: "inv_for i db \<Longrightarrow> inv_for i (add_audit_log a b c d e f g t db)"
  by (simp add: inv_for_def inv_rules)

lemma inv_for_review [inv_rules]: "inv_for i db \<Longrightarrow> inv_for i (add_manual_review_item a b c d t db)"
  by (simp add: inv_for_def inv_rules)

lemma inv_for_doc [inv_rules]: "inv_for i db \<Longrightarrow> inv_for i (put_doc_state d s t db)"
  by (simp add: inv_for_def inv_rules)

lemma inv_for_complete [inv_rules]: "inv_for i db \<Longrightarrow> inv_for i (mark_complete t a b c db)"
  by (simp add: inv_for_def inv_rules)

lemma inv_for_schedule [inv_rules]:
  "inv_for i db \<Longrightarrow> inv_for i (fst (schedule_retry cfg now et eid op err p m db))"
  using schedule_retry_audit_grows authorised_mono by (auto simp: inv_for_def inv_rules)

lemma inv_for_defer [inv_rules]:
  "inv_for i db \<Longrightarrow> inv_for i (fst (defer_retry cfg now et eid op err p d db))"
  using defer_retry_audit_grows authorised_mono by (auto simp: inv_for_def inv_rules)

lemma inv_for_sent [inv_rules]: "inv_for i db \<Longrightarrow> inv_for i (db\<lparr>db_sent := db_sent db @ [(i, req)]\<rparr>)"
  by (auto simp: inv_for_def posting_inv_def keys_distinct_def authorised_def attempt_status_def)

lemma inv_for_mark_executed [inv_rules]: "inv_for i db \<Longrightarrow> inv_for i (mark_executed i ext res now db)"
  by (auto simp: mark_executed_def inv_for_def intro!: inv_audit inv_put authorised_audit split: option.split)

lemma inv_for_mark_failed [inv_rules]: "inv_for i db \<Longrightarrow> inv_for i (mark_failed i res now db)"
  by (simp add: mark_failed_def inv_rules)

lemma inv_for_handle_failure [inv_rules]:
  "inv_for i db \<Longrightarrow> inv_for i (fst (handle_failure cfg i payload res now db))"
  by (simp add: handle_failure_def case_prod_beta inv_rules split: sum.split)

lemma inv_for_defer_attempt [inv_rules]:
  "inv_for i db \<Longrightarrow> inv_for i (fst (defer_attempt cfg i payload cat res now db))"
  by (simp add: defer_attempt_def Let_def case_prod_beta inv_rules split: sum.split)

lemma inv_for_supervision [inv_rules]:
  "inv_for i db \<Longrightarrow> inv_for i (fst (pause_for_supervision cfg i cat res now db))"
  by (simp add: pause_for_supervision_def Let_def inv_rules)

lemma inv_for_document_posted [inv_rules]:
  "inv_for i db \<Longrightarrow> inv_for i (mark_document_posted env d res now db)"
  by (simp add: mark_document_posted_def Let_def inv_rules)

lemma inv_for_record_outcome [inv_rules]:
  "inv_for i db \<Longrightarrow> inv_for i (fst (record_outcome cfg i payload cat res now db))"
  by (simp add: record_outcome_def Let_def case_prod_beta inv_rules split: sum.split)

lemma inv_for_run_claimed [inv_rules]:
  "inv_for i db \<Longrightarrow> inv_for i (fst (run_claimed cfg hs i a now db))"
  by (simp add: run_claimed_def Let_def case_prod_beta call_handler_def inv_rules
      split: option.split sum.split)

lemma claimed_status:
  "claim_attempt i force now db = (db', Claimed a) \<Longrightarrow>
     lookup_row (db_attempts db) i = Some a \<and> pa_status a \<in> set (allowed_statuses force) \<and>
     db' = set_status i Posting_in_progress now db"
  by (auto simp: claim_attempt_def claim_update_def split: option.splits if_splits bool.splits)

lemma refused_claim_unchanged:
  "claim_attempt i force now db = (db', c) \<Longrightarrow> (\<forall>a. c \<noteq> Claimed a) \<Longrightarrow> db' = db"
  by (auto simp: claim_attempt_def claim_update_def split: option.splits if_splits bool.splits)

lemma allowed_needs_authority: "st \<in> set (allowed_statuses force) \<Longrightarrow> needs_authority st"
  by (auto simp: allowed_statuses_def needs_authority_def split: if_splits)

lemma inv_execute [inv_rules]:
  assumes "posting_inv db"
  shows "posting_inv (fst (execute_attempt cfg hs i force now db))"
proof (cases "claim_attempt i force now db")
  case (Pair db' c)
  show ?thesis
  proof (cases "\<exists>a. c = Claimed a")
    case True
    then obtain a where c: "c = Claimed a" by blast
    note cl = claimed_status [OF Pair [unfolded c]]
    then have "authorised db i" using assms allowed_needs_authority
      by (fastforce simp: posting_inv_def attempt_status_def)
    with assms cl have "inv_for i db'" by (simp add: inv_for_def inv_set_status)
    then have "inv_for i (fst (run_claimed cfg hs i a now db'))" by (rule inv_for_run_claimed)
    with Pair c assms show ?thesis by (simp add: execute_attempt_def inv_for_def)
  next
    case False
    then have "db' = db" using Pair refused_claim_unchanged by blast
    with Pair False assms show ?thesis by (cases c) (auto simp: execute_attempt_def)
  qed
qed

lemma inv_execute_all [inv_rules]: "posting_inv db \<Longrightarrow> posting_inv (fst (execute_all cfg hs is now db))"
proof (induction "is" arbitrary: db)
  case Nil
  then show ?case by simp
next
  case (Cons i "is")
  have "posting_inv (fst (execute_attempt cfg hs i True now db))" using Cons.prems by (rule inv_execute)
  then have "posting_inv (fst (execute_all cfg hs is now (fst (execute_attempt cfg hs i True now db))))"
    by (rule Cons.IH)
  with inv_execute [OF Cons.prems, of cfg hs i True now] show ?case
    by (auto split: prod.splits sum.splits)
qed

lemma inv_execute_due [inv_rules]: "posting_inv db \<Longrightarrow> posting_inv (fst (execute_due cfg hs is now db))"
proof (induction cfg hs "is" now db rule: execute_due.induct)
  case (3 cfg hs i "is" now db)
  have e: "posting_inv (fst (execute_attempt cfg hs i True now db))" using "3.prems" by (rule inv_execute)
  with "3.IH" show ?case by (auto split: prod.splits sum.splits)
qed simp_all

lemma inv_insert:
  assumes inv: "posting_inv db" and new: "find_row (\<lambda>b. pa_key b = pa_key a) (db_attempts db) = None"
    and st: "\<not> needs_authority (pa_status a)"
  shows "posting_inv (db\<lparr>db_attempts := fst (insert_row a (db_attempts db))\<rparr>)" (is "posting_inv ?db'")
proof -
  have wf: "wf_table (db_attempts db)" using inv by (simp add: posting_inv_def)
  have "pa_key a \<notin> set (map (\<lambda>(i, b). pa_key b) (trows (db_attempts db)))"
    using new by (force simp: find_row_def find_None_iff)
  then have "keys_distinct ?db'"
    using inv by (simp add: posting_inv_def keys_distinct_def insert_row_def Let_def)
  moreover have "authorised db j"
    if "attempt_status ?db' j = Some s" and "needs_authority s" for j s
    using that inv st
    by (auto simp: posting_inv_def attempt_status_def lookup_insert_row [OF wf] split: if_splits)
  ultimately show ?thesis
    using inv wf by (auto simp: posting_inv_def authorised_def)
qed

lemma inv_create_dry_run [inv_rules]:
  assumes "posting_inv db"
  shows "posting_inv (fst (create_dry_run env engine doc target acct now db))"
  using assms inv_insert [OF assms]
  by (simp add: create_dry_run_def Let_def case_prod_beta needs_authority_def
      split: sum.split option.split)

lemma set_status_audit_commute:
  "set_status i st now (add_audit_log a b c d e f g t db) = add_audit_log a b c d e f g t (set_status i st now db)"
  by (rule posting_db.equality) (simp_all add: set_status_def put_attempt_def add_audit_log_def)

lemma inv_approve [inv_rules]:
  assumes "posting_inv db"
  shows "posting_inv (fst (approve_attempt i who why now db))"
proof -
  have "posting_inv (approve_write i a who why now db)" for a
  proof -
    let ?log = "add_audit_log ''posting_attempt'' (str_of_nat i) ''approved'' (attempt_json i a)
       (PDict [(''status'', PStr ''approved'')]) why who now"
    have "authorised (?log db) i" by (auto simp: authorised_def add_audit_log_def)
    with assms have "posting_inv (set_status i Approved now (?log db))"
      by (intro inv_set_status inv_audit)
    then show ?thesis by (simp add: approve_write_def set_status_audit_commute)
  qed
  with assms show ?thesis by (simp add: approve_attempt_def split: option.split)
qed

lemma inv_reject [inv_rules]:
  "posting_inv db \<Longrightarrow> posting_inv (fst (reject_attempt i who why now db))"
  by (auto simp: reject_attempt_def needs_authority_def intro!: inv_audit inv_set_status split: option.split)

lemma inv_complete [inv_rules]:
  assumes "posting_inv db"
  shows "posting_inv (fst (complete_supervised_attempt i phrase who ext ev why now db))"
proof (cases "lookup_row (db_attempts db) i")
  case None
  with assms show ?thesis by (simp add: complete_supervised_attempt_def)
next
  case (Some a)
  have rev: "posting_inv db' \<Longrightarrow> posting_inv (db'\<lparr>db_reviews := rs\<rparr>)" for db' rs
    by (erule posting_inv_grow) auto
  show ?thesis
  proof (cases "pa_status a = Supervision_required")
    case True
    with Some assms have "authorised db i"
      by (auto simp: posting_inv_def attempt_status_def needs_authority_def)
    with assms Some show ?thesis
      by (auto simp: complete_supervised_attempt_def Let_def intro!: inv_audit inv_doc rev inv_put)
  next
    case False
    with Some assms show ?thesis by (simp add: complete_supervised_attempt_def)
  qed
qed

lemma posting_inv_start: "posting_inv empty_posting_db"
  by (simp add: posting_inv_def keys_distinct_def empty_posting_db_def attempt_status_def empty_table_def
      lookup_row_def wf_table_def)

lemma posting_inv_step: "posting_inv db \<Longrightarrow> posting_inv (posting_step p hs now op db)"
  by (cases op) (simp_all add: inv_rules process_approved_attempts_def process_due_retries_def case_prod_beta)

lemma reachable_posting_inv: "posting_reachable p db \<Longrightarrow> posting_inv db"
  by (induction rule: posting_reachable.induct) (simp_all add: posting_inv_start posting_inv_step)

end
