(* ===== verification/Posting_Properties.thy ===== *)
theory Posting_Properties
  imports Posting_Safety
begin

text \<open>
  What the posting pipeline promises, and where one attempt can reach the handler twice.
\<close>

section \<open>What is sent, and when\<close>

definition requests_for :: "nat \<Rightarrow> posting_db \<Rightarrow> pydict list" where
  "requests_for i db = map snd (filter (\<lambda>(j, r). j = i) (db_sent db))"

lemma requests_for_same: "db_sent db' = db_sent db \<Longrightarrow> requests_for i db' = requests_for i db"
  by (simp add: requests_for_def)

lemma sent_set_status [simp]: "db_sent (set_status j st t db) = db_sent db"
  by (simp add: set_status_def step_simps)

lemma sent_mark_executed [simp]: "db_sent (mark_executed i e r t db) = db_sent db"
  by (simp add: mark_executed_def step_simps split: option.split)

lemma sent_mark_failed [simp]: "db_sent (mark_failed i r t db) = db_sent db"
  by (simp add: mark_failed_def step_simps)

lemma sent_handle_failure [simp]: "db_sent (fst (handle_failure cfg i p r t db)) = db_sent db"
  by (simp add: handle_failure_def case_prod_beta step_simps split: sum.split)

lemma sent_defer_attempt [simp]: "db_sent (fst (defer_attempt cfg i p c r t db)) = db_sent db"
  by (simp add: defer_attempt_def Let_def case_prod_beta step_simps split: sum.split)

lemma sent_record_outcome [simp]: "db_sent (fst (record_outcome cfg i p c r t db)) = db_sent db"
  by (simp add: record_outcome_def Let_def step_simps mark_document_posted_def
      pause_for_supervision_def case_prod_beta split: sum.split)

text \<open>A claimed attempt with a handler sends exactly one request, whatever the handler answers.\<close>

lemma run_claimed_sends:
  assumes "payload_for_attempt i db = Some payload" and "dget payload ''target_system'' = PStr t"
    and "t \<noteq> []" and "hs t = Some h"
  shows "db_sent (fst (run_claimed cfg hs i a now db)) =
    db_sent db @ [(i, payload_to_categorized_data payload i a)]"
  using assms by (simp add: run_claimed_def Let_def call_handler_def step_simps)

lemma payload_set_status [simp]: "payload_for_attempt i (set_status j st t db) = payload_for_attempt i db"
  by (simp add: payload_for_attempt_def set_status_def put_attempt_def lookup_update_row
      option.map_comp comp_def option.map_ident)

lemma claim_succeeds:
  assumes "lookup_row (db_attempts db) i = Some a" and "pa_status a \<in> set (allowed_statuses force)"
  shows "claim_attempt i force now db = (set_status i Posting_in_progress now db, Claimed a)"
  using assms by (simp add: claim_attempt_def claim_update_def attempt_status_def)

lemma execute_sends:
  assumes "lookup_row (db_attempts db) i = Some a" and "pa_status a \<in> set (allowed_statuses force)"
    and "ec_execute_approved cfg \<or> force"
    and "dget (pa_payload a) ''target_system'' = PStr t" and "t \<noteq> []" and "hs t = Some h"
  shows "requests_for i (fst (execute_attempt cfg hs i force now db)) =
    requests_for i db @ [payload_to_categorized_data (pa_payload a) i a]"
  using assms
  by (simp add: execute_attempt_def claim_succeeds run_claimed_sends payload_for_attempt_def [of i db]
      requests_for_def)

lemma execute_refuses:
  assumes "attempt_status db i = Some st" and "st \<notin> set (allowed_statuses force)"
  shows "fst (execute_attempt cfg hs i force now db) = db"
  using assms by (auto simp: execute_attempt_def claim_attempt_def attempt_status_def)

section \<open>Properties\<close>

text \<open>
  C4: no request reaches a bookkeeping handler without explicit authority: in every reachable
  state of the pipeline, each request sent belongs to an attempt whose approval is in the
  audit log.
\<close>

theorem nothing_sent_without_approval:
  assumes "posting_reachable p db" and "(i, req) \<in> set (db_sent db)"
  shows "\<exists>r \<in> set (db_audit db). au_entity_type r = ''posting_attempt'' \<and>
    au_entity_id r = str_of_nat i \<and> au_action r = ''approved''"
  using reachable_posting_inv [OF assms(1)] assms(2)
  by (force simp: posting_inv_def authorised_def)

definition sample_pipeline :: pipeline where
  "sample_pipeline =
     \<lparr>pl_config = \<lparr>ec_env = plain_env, ec_retry = default_retry_config, ec_execute_approved = True,
        ec_rate_delay = PNone\<rparr>,
      pl_engine = default_engine\<rparr>"

definition accepting_handlers :: "string \<Rightarrow> handler option" where
  "accepting_handlers t =
     Some (\<lambda>req. Inr [(''status'', PStr ''success''), (''external_id'', PStr ''wave-1'')])"

definition dry_run_db :: posting_db where
  "dry_run_db = posting_step sample_pipeline accepting_handlers (Timestamp 1)
     (Op_dry_run sample_document ''waveapps_business'' PNone) empty_posting_db"

definition posted_db :: posting_db where
  "posted_db = posting_step sample_pipeline accepting_handlers (Timestamp 3) (Op_execute 1 False)
     (posting_step sample_pipeline accepting_handlers (Timestamp 2) (Op_approve 1 ''user'' (PStr [])) dry_run_db)"

lemma dry_run_db_row:
  "\<exists>a. lookup_row (db_attempts dry_run_db) 1 = Some a \<and> pa_status a = Dry_run_created \<and>
     dget (pa_payload a) ''target_system'' = PStr ''waveapps_business''"
  by (simp add: dry_run_db_def create_dry_run_def sample_pipeline_def safety_evals sample_document_def
      build_idempotency_key_def key_payload_def find_row_def empty_posting_db_def empty_table_def
      insert_row_def lookup_row_def dry_run_payload_def plain_env_def)

lemma sent_approve [simp]: "db_sent (fst (approve_attempt i who why now db)) = db_sent db"
  by (simp add: approve_attempt_def approve_write_def step_simps split: option.split)

lemma sent_reject [simp]: "db_sent (fst (reject_attempt i who why now db)) = db_sent db"
  by (simp add: reject_attempt_def step_simps split: option.split)

lemma lookup_approved:
  "lookup_row (db_attempts db) i = Some a \<Longrightarrow> approvable (pa_status a) \<Longrightarrow>
     lookup_row (db_attempts (fst (approve_attempt i who why now db))) i =
       Some (a\<lparr>pa_status := Approved, pa_updated := now\<rparr>)"
  by (simp add: approve_attempt_def approve_write_def step_simps set_status_def put_attempt_def lookup_update_row)

lemma lookup_rejected:
  "lookup_row (db_attempts db) i = Some a \<Longrightarrow>
     lookup_row (db_attempts (fst (reject_attempt i who why now db))) i =
       Some (a\<lparr>pa_status := Rejected, pa_updated := now\<rparr>)"
  by (simp add: reject_attempt_def step_simps set_status_def put_attempt_def lookup_update_row)

lemma posted_db_sent: "\<exists>req. (1, req) \<in> set (db_sent posted_db)"
proof -
  obtain a where a: "lookup_row (db_attempts dry_run_db) 1 = Some a" "pa_status a = Dry_run_created"
      "dget (pa_payload a) ''target_system'' = PStr ''waveapps_business''"
    using dry_run_db_row by blast
  let ?db = "fst (approve_attempt 1 ''user'' (PStr []) (Timestamp 2) dry_run_db)"
  have l: "lookup_row (db_attempts ?db) 1 = Some (a\<lparr>pa_status := Approved, pa_updated := Timestamp 2\<rparr>)"
    using a by (intro lookup_approved) (simp_all add: approvable_def)
  have "requests_for 1 posted_db = requests_for 1 ?db @
      [payload_to_categorized_data (pa_payload a) 1 (a\<lparr>pa_status := Approved, pa_updated := Timestamp 2\<rparr>)]"
    using execute_sends [OF l, of False "pl_config sample_pipeline" "''waveapps_business''" accepting_handlers _ "Timestamp 3"]
    by (simp add: posted_db_def sample_pipeline_def allowed_statuses_def a(3) accepting_handlers_def)
  then have "requests_for 1 posted_db \<noteq> []" by simp
  then show ?thesis by (force simp: requests_for_def filter_empty_conv)
qed

lemma posted_db_reachable: "posting_reachable sample_pipeline posted_db"
  by (simp add: posted_db_def dry_run_db_def posting_reachable.intros del: posting_step.simps)

theorem nothing_sent_without_approval_witness:
  "\<exists>r \<in> set (db_audit posted_db). au_entity_type r = ''posting_attempt'' \<and>
    au_entity_id r = str_of_nat 1 \<and> au_action r = ''approved''"
  using posted_db_sent nothing_sent_without_approval [OF posted_db_reachable] by blast

section \<open>A posted attempt\<close>

text \<open>The operations on one attempt leave the rows of the others alone.\<close>

lemma lookup_set_status [simp]:
  "lookup_row (db_attempts (set_status j st t db)) i =
     (if i = j then map_option (\<lambda>a. a\<lparr>pa_status := st, pa_updated := t\<rparr>) (lookup_row (db_attempts db) i)
      else lookup_row (db_attempts db) i)"
  by (simp add: set_status_def put_attempt_def lookup_update_row)

lemma lookup_mark_executed:
  "i \<noteq> j \<Longrightarrow> lookup_row (db_attempts (mark_executed j e r t db)) i = lookup_row (db_attempts db) i"
  by (simp add: mark_executed_def step_simps put_attempt_def lookup_update_row split: option.split)

lemma lookup_handle_failure:
  "lookup_row (db_attempts (fst (handle_failure cfg j p r t db))) i =
     (if i = j then map_option (\<lambda>a. a\<lparr>pa_status := Posting_failed, pa_updated := t\<rparr>) (lookup_row (db_attempts db) i)
      else lookup_row (db_attempts db) i)"
  by (simp add: handle_failure_def mark_failed_def case_prod_beta step_simps split: sum.split)

lemma lookup_defer_attempt:
  "i \<noteq> j \<Longrightarrow> lookup_row (db_attempts (fst (defer_attempt cfg j p c r t db))) i = lookup_row (db_attempts db) i"
  by (simp add: defer_attempt_def Let_def case_prod_beta step_simps split: sum.split)

lemma lookup_record_outcome:
  "i \<noteq> j \<Longrightarrow> lookup_row (db_attempts (fst (record_outcome cfg j p c r t db))) i = lookup_row (db_attempts db) i"
  by (simp add: record_outcome_def Let_def case_prod_beta step_simps lookup_mark_executed
      lookup_handle_failure lookup_defer_attempt mark_document_posted_def pause_for_supervision_def
      split: sum.split)

definition same_at :: "nat \<Rightarrow> posting_db \<Rightarrow> posting_db \<Rightarrow> bool" where
  "same_at i db db' \<longleftrightarrow> lookup_row (db_attempts db') i = lookup_row (db_attempts db) i \<and>
     requests_for i db' = requests_for i db"

lemma same_at_refl [simp]: "same_at i db db"
  by (simp add: same_at_def)

lemma same_at_trans: "same_at i a b \<Longrightarrow> same_at i b c \<Longrightarrow> same_at i a c"
  by (simp add: same_at_def)

lemma same_at_run_claimed: "i \<noteq> j \<Longrightarrow> same_at i db (fst (run_claimed cfg hs j a now db))"
  by (simp add: same_at_def run_claimed_def Let_def case_prod_beta call_handler_def requests_for_def
      lookup_handle_failure lookup_record_outcome step_simps split: option.split sum.split)

lemma same_at_execute: "i \<noteq> j \<Longrightarrow> same_at i db (fst (execute_attempt cfg hs j force now db))"
proof (cases "claim_attempt j force now db")
  case (Pair db1 c)
  assume ij: "i \<noteq> j"
  have "same_at i db db1"
  proof (cases "\<exists>a. c = Claimed a")
    case True
    with Pair claimed_status ij show ?thesis by (force simp: same_at_def requests_for_def)
  next
    case False
    then show ?thesis using Pair refused_claim_unchanged by (metis same_at_refl)
  qed
  then show ?thesis using Pair ij same_at_run_claimed same_at_trans
    by (auto simp: execute_attempt_def split: claim_result.split)
qed

lemma posted_not_executed:
  "attempt_status db i = Some Posted \<Longrightarrow> fst (execute_attempt cfg hs i force now db) = db"
  by (erule execute_refuses) (simp add: allowed_statuses_def)

definition settled :: "nat \<Rightarrow> pydict list \<Rightarrow> posting_db \<Rightarrow> bool" where
  "settled i rs db \<longleftrightarrow> attempt_status db i = Some Posted \<and> requests_for i db = rs"

lemma settled_same_at: "settled i rs db \<Longrightarrow> same_at i db db' \<Longrightarrow> settled i rs db'"
  by (simp add: settled_def same_at_def attempt_status_def)

lemma settled_execute:
  assumes "settled i rs db"
  shows "settled i rs (fst (execute_attempt cfg hs j force now db))"
proof (cases "i = j")
  case True
  with assms show ?thesis using posted_not_executed by (simp add: settled_def)
next
  case False
  from settled_same_at [OF assms same_at_execute [OF False]] show ?thesis .
qed

lemma settled_execute_all: "settled i rs db \<Longrightarrow> settled i rs (fst (execute_all cfg hs is now db))"
proof (induction "is" arbitrary: db)
  case Nil
  then show ?case by simp
next
  case (Cons j "is")
  from settled_execute [OF Cons.prems] Cons.IH show ?case
    by (auto simp: case_prod_beta split: sum.split)
qed

lemma settled_execute_due: "settled i rs db \<Longrightarrow> settled i rs (fst (execute_due cfg hs is now db))"
proof (induction "is" arbitrary: db)
  case Nil
  then show ?case by simp
next
  case (Cons j "is")
  show ?case
  proof (cases j)
    case None
    with Cons.prems show ?thesis by simp
  next
    case (Some k)
    from settled_execute [OF Cons.prems] Cons.IH Some show ?thesis
      by (auto simp: case_prod_beta split: sum.split)
  qed
qed

lemma settled_step:
  assumes "settled i rs db" and inv: "posting_inv db" and "\<And>who why. op \<noteq> Op_reject i who why"
  shows "settled i rs (posting_step p hs now op db)"
proof -
  from assms(1) obtain a where a: "lookup_row (db_attempts db) i = Some a" "pa_status a = Posted"
    by (auto simp: settled_def attempt_status_def)
  have wf: "wf_table (db_attempts db)" using inv by (simp add: posting_inv_def)
  show ?thesis
  proof (cases op)
    case (Op_dry_run doc t acct)
    have "same_at i db (fst (create_dry_run env e doc t acct now db))" for env e
      using tbl.ids_kept_by_insert [OF wf, of i] a
      by (simp add: create_dry_run_def Let_def case_prod_beta same_at_def requests_for_def
          split: sum.split option.split)
    with Op_dry_run assms(1) settled_same_at show ?thesis by simp
  next
    case (Op_approve j who why)
    have "same_at i db (fst (approve_attempt j who why now db))"
      using a by (auto simp: approve_attempt_def approve_write_def same_at_def requests_for_def
          approvable_def step_simps split: option.split)
    with Op_approve assms(1) settled_same_at show ?thesis by simp
  next
    case (Op_reject j who why)
    with assms(3) have "i \<noteq> j" by blast
    then have "same_at i db (fst (reject_attempt j who why now db))"
      by (auto simp: reject_attempt_def same_at_def requests_for_def step_simps split: option.split)
    with Op_reject assms(1) settled_same_at show ?thesis by simp
  next
    case (Op_complete j ph who ext ev why)
    have "same_at i db (fst (complete_supervised_attempt j ph who ext ev why now db))"
      using a by (auto simp: complete_supervised_attempt_def same_at_def requests_for_def Let_def
          step_simps put_attempt_def lookup_update_row split: option.split)
    with Op_complete assms(1) settled_same_at show ?thesis by simp
  qed (simp_all add: assms(1) settled_execute settled_execute_all settled_execute_due
      process_approved_attempts_def process_due_retries_def case_prod_beta)
qed

fun posting_run ::
  "pipeline \<Rightarrow> (timestamp \<times> (string \<Rightarrow> handler option) \<times> posting_op) list \<Rightarrow> posting_db \<Rightarrow> posting_db" where
  "posting_run p [] db = db"
| "posting_run p ((now, hs, op) # ops) db = posting_run p ops (posting_step p hs now op db)"

lemma settled_run:
  "settled i rs db \<Longrightarrow> posting_inv db \<Longrightarrow>
     (\<forall>(now, hs, op) \<in> set ops. \<forall>who why. op \<noteq> Op_reject i who why) \<Longrightarrow>
     settled i rs (posting_run p ops db)"
proof (induction ops arbitrary: db)
  case Nil
  then show ?case by simp
next
  case (Cons x ops)
  obtain now hs op where x: "x = (now, hs, op)" by (cases x)
  with Cons.prems have "settled i rs (posting_step p hs now op db)" by (intro settled_step) auto
  moreover have "posting_inv (posting_step p hs now op db)" using Cons.prems(2) by (rule posting_inv_step)
  ultimately show ?case using Cons.IH Cons.prems(3) x by simp
qed

text \<open>
  C5: a posted attempt stays posted and is never handed to a bookkeeping handler again, in
  whatever order the other operations run (approvals, executions forced or not, batches,
  retries, supervised completions, dry runs), as long as nobody rejects it.
\<close>

theorem posted_is_final_unless_rejected:
  assumes "posting_reachable p db" and "attempt_status db i = Some Posted"
    and "\<forall>(now, hs, op) \<in> set ops. \<forall>who why. op \<noteq> Op_reject i who why"
  shows "attempt_status (posting_run p ops db) i = Some Posted \<and>
    requests_for i (posting_run p ops db) = requests_for i db"
  using settled_run [OF _ reachable_posting_inv [OF assms(1)] assms(3), of "requests_for i db" p] assms(2)
  by (simp add: settled_def)

text \<open>
  What a successful execution leaves: the attempt posted with the provider's identifier, one
  more request, and the document (when it is stored) in state \<open>posted\<close>.
\<close>

lemma execute_success_row:
  assumes "lookup_row (db_attempts db) i = Some a" and "pa_status a \<in> set (allowed_statuses force)"
    and "ec_execute_approved cfg \<or> force"
    and "dget (pa_payload a) ''target_system'' = PStr t" and "t \<noteq> []" and "hs t = Some h"
    and "h (payload_to_categorized_data (pa_payload a) i a) = Inr res" and "dget res ''status'' = PStr ''success''"
  shows "lookup_row (db_attempts (fst (execute_attempt cfg hs i force now db))) i =
      Some (a\<lparr>pa_status := Posted, pa_external_id := py_or (dget res ''external_id'') (dget res ''id''),
              pa_updated := now\<rparr>)"
    and "snd (execute_attempt cfg hs i force now db) = Inr (Executed_posted res)"
proof -
  have active: "(\<not> ec_execute_approved cfg \<and> \<not> force) = False" using assms(3) by simp
  show "lookup_row (db_attempts (fst (execute_attempt cfg hs i force now db))) i =
      Some (a\<lparr>pa_status := Posted, pa_external_id := py_or (dget res ''external_id'') (dget res ''id''),
              pa_updated := now\<rparr>)"
    and "snd (execute_attempt cfg hs i force now db) = Inr (Executed_posted res)"
    unfolding execute_attempt_def active if_False
    using assms(1,2,4-)
    by (simp_all add: claim_succeeds run_claimed_def payload_for_attempt_def call_handler_def
      record_outcome_def Let_def mark_executed_def mark_document_posted_def step_simps put_attempt_def
      lookup_update_row)
qed

lemma posted_db_row:
  "\<exists>a. lookup_row (db_attempts posted_db) 1 = Some a \<and> pa_status a = Posted \<and>
     dget (pa_payload a) ''target_system'' = PStr ''waveapps_business''"
proof -
  obtain a where a: "lookup_row (db_attempts dry_run_db) 1 = Some a" "pa_status a = Dry_run_created"
      "dget (pa_payload a) ''target_system'' = PStr ''waveapps_business''"
    using dry_run_db_row by blast
  let ?db = "fst (approve_attempt 1 ''user'' (PStr []) (Timestamp 2) dry_run_db)"
  have l: "lookup_row (db_attempts ?db) 1 = Some (a\<lparr>pa_status := Approved, pa_updated := Timestamp 2\<rparr>)"
    using a by (intro lookup_approved) (simp_all add: approvable_def)
  show ?thesis
    using execute_success_row(1) [OF l, of False "pl_config sample_pipeline" "''waveapps_business''"
        accepting_handlers _ _ "Timestamp 3"]
    by (simp add: posted_db_def sample_pipeline_def allowed_statuses_def a(3) accepting_handlers_def)
qed

theorem posted_is_final_unless_rejected_witness:
  "attempt_status (posting_run sample_pipeline
     [(Timestamp 4, accepting_handlers, Op_approve 1 ''user'' (PStr [])),
      (Timestamp 5, accepting_handlers, Op_execute 1 True)] posted_db) 1 = Some Posted"
  using posted_is_final_unless_rejected [OF posted_db_reachable, of 1
      "[(Timestamp 4, accepting_handlers, Op_approve 1 ''user'' (PStr [])),
        (Timestamp 5, accepting_handlers, Op_execute 1 True)]"] posted_db_row
  by (auto simp: attempt_status_def simp del: posting_run.simps)

text \<open>
  rejecting an attempt checks no status, so a posted attempt can be rejected, approved
  again and executed again: the handler receives a second request for it.
\<close>

theorem rejection_reopens_posted_attempt:
  assumes "lookup_row (db_attempts db) i = Some a" and "pa_status a = Posted"
    and "dget (pa_payload a) ''target_system'' = PStr t" and "t \<noteq> []" and "hs t = Some h"
    and "ec_execute_approved (pl_config p)"
  shows "length (requests_for i (posting_run p
      [(t1, hs, Op_reject i who why), (t2, hs, Op_approve i who2 why2), (t3, hs, Op_execute i False)] db)) =
    length (requests_for i db) + 1"
proof -
  let ?r = "fst (reject_attempt i who why t1 db)"
  let ?a = "fst (approve_attempt i who2 why2 t2 ?r)"
  have r: "lookup_row (db_attempts ?r) i = Some (a\<lparr>pa_status := Rejected, pa_updated := t1\<rparr>)"
    using assms(1) by (rule lookup_rejected)
  have "lookup_row (db_attempts ?a) i = Some (a\<lparr>pa_status := Approved, pa_updated := t2\<rparr>)"
    using lookup_approved [OF r] by (simp add: approvable_def)
  from execute_sends [OF this, of False "pl_config p" t hs h t3] assms(3-6)
  show ?thesis by (simp add: allowed_statuses_def requests_for_def)
qed

theorem rejection_reopens_posted_attempt_witness:
  "length (requests_for 1 (posting_run sample_pipeline
      [(Timestamp 4, accepting_handlers, Op_reject 1 ''user'' PNone),
       (Timestamp 5, accepting_handlers, Op_approve 1 ''user'' PNone),
       (Timestamp 6, accepting_handlers, Op_execute 1 False)] posted_db)) =
    length (requests_for 1 posted_db) + 1"
proof -
  obtain a where a: "lookup_row (db_attempts posted_db) 1 = Some a" "pa_status a = Posted"
      "dget (pa_payload a) ''target_system'' = PStr ''waveapps_business''"
    using posted_db_row by blast
  show ?thesis
    by (rule rejection_reopens_posted_attempt [OF a]) (simp_all add: accepting_handlers_def sample_pipeline_def)
qed

end
