(* ===== verification/Posting_Races.thy ===== *)
theory Posting_Races
  imports Posting_Properties
begin

text \<open>
  Dry runs, supervised completion, and workers that act on a row read earlier: what the guarded
  update of \<open>_claim_attempt\<close> protects and what it does not.
\<close>

section \<open>Stale readers\<close>

text \<open>
  The second half of \<open>execute_attempt\<close>, for a worker that has read row \<open>a\<close> some time ago and
  now issues its guarded update.
\<close>

definition execute_after_read ::
  "exec_config \<Rightarrow> (string \<Rightarrow> handler option) \<Rightarrow> nat \<Rightarrow> posting_attempt \<Rightarrow> timestamp \<Rightarrow> posting_db \<Rightarrow> posting_db" where
  "execute_after_read cfg hs i a now db =
     (case claim_update now i (pa_status a) db of
        (db', True) \<Rightarrow> fst (run_claimed cfg hs i a now db')
      | (db', False) \<Rightarrow> db')"

lemma execute_attempt_reads_then_claims:
  assumes "lookup_row (db_attempts db) i = Some a" and "pa_status a \<in> set (allowed_statuses force)"
    and "ec_execute_approved cfg \<or> force"
  shows "fst (execute_attempt cfg hs i force now db) = execute_after_read cfg hs i a now db"
  using assms
  by (auto simp: execute_attempt_def claim_succeeds execute_after_read_def claim_update_def attempt_status_def)

fun workers ::
  "exec_config \<Rightarrow> (string \<Rightarrow> handler option) \<Rightarrow> nat \<Rightarrow> (timestamp \<times> posting_attempt) list \<Rightarrow> posting_db \<Rightarrow> posting_db" where
  "workers cfg hs i [] db = db"
| "workers cfg hs i ((now, a) # ws) db = workers cfg hs i ws (execute_after_read cfg hs i a now db)"

definition not_approved :: "nat \<Rightarrow> posting_db \<Rightarrow> bool" where
  "not_approved i db \<longleftrightarrow> attempt_status db i \<noteq> Some Approved"

lemma not_approved_set [inv_rules]: "st \<noteq> Approved \<Longrightarrow> not_approved i (set_status i st t db)"
  by (auto simp: not_approved_def attempt_status_set_status)

lemma not_approved_same: "not_approved i db \<Longrightarrow> db_attempts db' = db_attempts db \<Longrightarrow> not_approved i db'"
  by (simp add: not_approved_def attempt_status_def)

lemma not_approved_audit [simp]: "not_approved i (add_audit_log a b c d e f g t db) = not_approved i db"
  by (simp add: not_approved_def attempt_status_def step_simps)

lemma not_approved_review [simp]: "not_approved i (add_manual_review_item a b c d t db) = not_approved i db"
  by (simp add: not_approved_def attempt_status_def step_simps)

lemma not_approved_doc [simp]: "not_approved i (put_doc_state d s t db) = not_approved i db"
  by (simp add: not_approved_def attempt_status_def step_simps)

lemma not_approved_complete [simp]: "not_approved i (mark_complete t a b c db) = not_approved i db"
  by (simp add: not_approved_def attempt_status_def step_simps)

lemma not_approved_schedule [simp]:
  "not_approved i (fst (schedule_retry cfg now et eid op err p m db)) = not_approved i db"
  by (simp add: not_approved_def attempt_status_def step_simps)

lemma not_approved_defer [simp]:
  "not_approved i (fst (defer_retry cfg now et eid op err p d db)) = not_approved i db"
  by (simp add: not_approved_def attempt_status_def step_simps)

lemma not_approved_sent [simp]: "not_approved i (db\<lparr>db_sent := s\<rparr>) = not_approved i db"
  by (simp add: not_approved_def attempt_status_def)

lemma not_approved_mark_executed [simp]:
  "not_approved i db \<Longrightarrow> not_approved i (mark_executed i ext res now db)"
  by (auto simp: mark_executed_def split: option.split) (auto simp: not_approved_def attempt_status_put)

lemma not_approved_failure:
  "not_approved i (fst (handle_failure cfg i p res now db))"
  by (simp add: handle_failure_def mark_failed_def case_prod_beta inv_rules split: sum.split)

lemma not_approved_outcome:
  "not_approved i db \<Longrightarrow> not_approved i (fst (record_outcome cfg i p c res now db))"
  by (simp add: record_outcome_def Let_def case_prod_beta defer_attempt_def pause_for_supervision_def
      mark_document_posted_def not_approved_failure inv_rules split: sum.split)

lemma not_approved_run: "not_approved i db \<Longrightarrow> not_approved i (fst (run_claimed cfg hs i a now db))"
  by (simp add: run_claimed_def Let_def case_prod_beta call_handler_def not_approved_failure
      not_approved_outcome split: option.split sum.split)

lemma after_read_not_approved:
  "not_approved i (execute_after_read cfg hs i a now db) \<or> execute_after_read cfg hs i a now db = db"
  by (simp add: execute_after_read_def claim_update_def not_approved_run inv_rules)

lemma stale_worker_refused:
  "not_approved i db \<Longrightarrow> pa_status a = Approved \<Longrightarrow> execute_after_read cfg hs i a now db = db"
  by (simp add: execute_after_read_def claim_update_def not_approved_def)

lemma all_refused:
  "not_approved i db \<Longrightarrow> \<forall>(t, a) \<in> set ws. pa_status a = Approved \<Longrightarrow> workers cfg hs i ws db = db"
  by (induction ws) (auto simp: stale_worker_refused)

lemma run_claimed_sends_at_most_one:
  "\<exists>reqs. length reqs \<le> 1 \<and> requests_for i (fst (run_claimed cfg hs i a now db)) = requests_for i db @ reqs"
proof -
  have "\<exists>reqs. length reqs \<le> 1 \<and> db_sent (fst (run_claimed cfg hs i a now db)) = db_sent db @ map (Pair i) reqs"
    by (auto simp: run_claimed_def Let_def case_prod_beta call_handler_def step_simps
        intro: exI [of _ "[]"] exI [of _ "[x]" for x] split: option.split sum.split)
  then obtain reqs where "length reqs \<le> 1"
      "db_sent (fst (run_claimed cfg hs i a now db)) = db_sent db @ map (Pair i) reqs"
    by blast
  then show ?thesis by (auto simp: requests_for_def filter_map comp_def)
qed

lemma after_read_sends_at_most_one:
  "length (requests_for i (execute_after_read cfg hs i a now db)) \<le> length (requests_for i db) + 1"
proof -
  obtain reqs where "length reqs \<le> 1"
    "requests_for i (fst (run_claimed cfg hs i a now (set_status i Posting_in_progress now db))) =
       requests_for i (set_status i Posting_in_progress now db) @ reqs"
    using run_claimed_sends_at_most_one by blast
  moreover have "requests_for i (set_status i Posting_in_progress now db) = requests_for i db"
    by (rule requests_for_same) simp
  ultimately show ?thesis by (simp add: execute_after_read_def claim_update_def)
qed

text \<open>
  C30: however many workers have read an attempt as approved before any of them claims it, and
  in whatever order they then claim and run, at most one request for it reaches a handler.
\<close>

theorem approved_readers_send_once:
  assumes "\<forall>(now, a) \<in> set ws. pa_status a = Approved"
  shows "length (requests_for i (workers cfg hs i ws db)) \<le> length (requests_for i db) + 1"
  using assms
proof (induction ws)
  case Nil
  then show ?case by simp
next
  case (Cons w ws)
  obtain now a where w: "w = (now, a)" by (cases w)
  let ?db = "execute_after_read cfg hs i a now db"
  show ?case
  proof (cases "?db = db")
    case True
    with Cons w show ?thesis by simp
  next
    case False
    then have "workers cfg hs i ws ?db = ?db"
      using after_read_not_approved all_refused Cons.prems by fastforce
    with after_read_sends_at_most_one w show ?thesis by simp
  qed
qed

definition approved_row :: posting_attempt where
  "approved_row = \<lparr>pa_document_id = ''doc-1'', pa_target_system = ''waveapps_business'', pa_target_account = PNone,
     pa_dry_run = True, pa_payload = [(''document_id'', PStr ''doc-1''), (''target_system'', PStr ''waveapps_business'')], pa_status = Approved,
     pa_external_id = PNone, pa_key = ''k'', pa_created = Timestamp 1, pa_updated = Timestamp 1\<rparr>"

definition approved_db :: posting_db where
  "approved_db = empty_posting_db\<lparr>db_attempts := fst (insert_row approved_row empty_table)\<rparr>"

theorem approved_readers_send_once_witness:
  "length (requests_for 1 (workers (pl_config sample_pipeline) accepting_handlers 1
     [(Timestamp 2, approved_row), (Timestamp 3, approved_row)] approved_db)) \<le>
   length (requests_for 1 approved_db) + 1"
  by (rule approved_readers_send_once) (simp add: approved_row_def)

text \<open>
  of any number of unforced claims issued after reading an approved attempt exactly one
  wins; forced claims, which the batches and the retries use, also accept an attempt whose
  posting is in progress, and then every one of them wins.
\<close>

theorem claim_races:
  "(attempt_status db i = Some Approved \<longrightarrow>
      race (claim_update now i) (replicate (Suc n) Approved) db = 1) \<and>
   (attempt_status db i = Some Posting_in_progress \<longrightarrow>
      Posting_in_progress \<in> set (allowed_statuses True) \<and>
      race (claim_update now i) (replicate n Posting_in_progress) db = n)"
  using posting_claim.some_winner [of "replicate (Suc n) Approved" db i Approved now]
    posting_claim.busy_is_reclaimed [of db i now n]
  by (auto simp: allowed_statuses_def)

lemma lookup_approved_db: "lookup_row (db_attempts approved_db) 1 = Some approved_row"
  by (simp add: approved_db_def insert_row_def empty_table_def lookup_row_def)

theorem claim_races_witness:
  "race (claim_update (Timestamp 2) 1) (replicate 3 Approved) approved_db = 1 \<and>
   race (claim_update (Timestamp 2) 1) (replicate 3 Posting_in_progress)
     (set_status 1 Posting_in_progress (Timestamp 2) approved_db) = 3"
  using claim_races [of approved_db 1 "Timestamp 2" 2]
    claim_races [of "set_status 1 Posting_in_progress (Timestamp 2) approved_db" 1 "Timestamp 2" 3]
  by (simp add: attempt_status_def lookup_approved_db [simplified] approved_row_def)

end
