(* ===== verification/Posting_Flows.thy ===== *)
theory Posting_Flows
  imports Posting_Races
begin

text \<open>
  What single operations promise: idempotent dry runs and the collisions of their key,
  recorded successes, supervised completion, and approvals that act on a stale read.
\<close>

section \<open>Dry runs\<close>

lemma find_after_insert:
  assumes "find_row P t = None" and "P a"
  shows "find_row P (fst (insert_row a t)) = Some (snd (insert_row a t), a)"
  using assms find_snoc [of "\<lambda>(i, r). P r" "trows t" "(Suc (tlast t), a)"]
  by (simp add: find_row_def insert_row_def Let_def)

lemma create_dry_run_key:
  assumes "snd (create_dry_run env engine doc target acct now db) = Inr r"
  obtains safety key where "evaluate_posting_readiness engine doc = Inr safety"
    and "build_idempotency_key env doc target = Inr key"
    and "\<exists>i a. find_row (\<lambda>b. pa_key b = key) (db_attempts (fst (create_dry_run env engine doc target acct now db))) =
      Some (i, a) \<and> (r = Existing_attempt i key safety \<or> (\<exists>p. r = New_attempt i key safety p))"
proof -
  from assms obtain safety where s: "evaluate_posting_readiness engine doc = Inr safety"
    by (cases "evaluate_posting_readiness engine doc") (auto simp: create_dry_run_def)
  with assms obtain key where k: "build_idempotency_key env doc target = Inr key"
    by (cases "build_idempotency_key env doc target") (auto simp: create_dry_run_def)
  show thesis
  proof (rule that [OF s k])
    show "\<exists>i a. find_row (\<lambda>b. pa_key b = key) (db_attempts (fst (create_dry_run env engine doc target acct now db))) =
      Some (i, a) \<and> (r = Existing_attempt i key safety \<or> (\<exists>p. r = New_attempt i key safety p))"
      using assms s k
      by (auto simp: create_dry_run_def Let_def case_prod_beta find_after_insert split: option.splits)
  qed
qed

definition result_attempt :: "dry_run_result \<Rightarrow> nat" where
  "result_attempt r = (case r of Existing_attempt i _ _ \<Rightarrow> i | New_attempt i _ _ _ \<Rightarrow> i)"

text \<open>
  repeating a dry run, at any later time and for any account, creates nothing: it returns
  the attempt the first one returned and leaves the store as it is.
\<close>

theorem dry_run_is_idempotent:
  assumes "create_dry_run env engine doc target acct now db = (db', Inr r)"
  shows "\<exists>key safety. create_dry_run env engine doc target acct2 later db' =
    (db', Inr (Existing_attempt (result_attempt r) key safety))"
proof -
  from assms have r: "snd (create_dry_run env engine doc target acct now db) = Inr r" by simp
  obtain safety key i a where s: "evaluate_posting_readiness engine doc = Inr safety"
    and k: "build_idempotency_key env doc target = Inr key"
    and f: "find_row (\<lambda>b. pa_key b = key) (db_attempts db') = Some (i, a)"
    and i: "r = Existing_attempt i key safety \<or> (\<exists>p. r = New_attempt i key safety p)"
    using create_dry_run_key [OF r] assms by (metis fst_conv)
  have "create_dry_run env engine doc target acct2 later db' = (db', Inr (Existing_attempt i key safety))"
    by (simp add: create_dry_run_def s k f)
  with i show ?thesis by (auto simp: result_attempt_def)
qed

theorem dry_run_is_idempotent_witness:
  "\<exists>key safety. create_dry_run plain_env default_engine sample_document ''waveapps_business'' PNone (Timestamp 9)
    (fst (create_dry_run plain_env default_engine sample_document ''waveapps_business'' PNone (Timestamp 1) empty_posting_db)) =
    (fst (create_dry_run plain_env default_engine sample_document ''waveapps_business'' PNone (Timestamp 1) empty_posting_db),
     Inr (Existing_attempt 1 key safety))"
proof -
  obtain db' r where c: "create_dry_run plain_env default_engine sample_document ''waveapps_business'' PNone
      (Timestamp 1) empty_posting_db = (db', Inr r)" and i: "result_attempt r = 1"
    by (simp add: create_dry_run_def safety_evals sample_document_def build_idempotency_key_def key_payload_def
        find_row_def empty_posting_db_def empty_table_def insert_row_def plain_env_def result_attempt_def)
  from dry_run_is_idempotent [OF c, of PNone "Timestamp 9"] i c show ?thesis by simp
qed

definition keyed_document :: "string \<Rightarrow> string \<Rightarrow> string \<Rightarrow> pydict" where
  "keyed_document document_id external_id category =
     [(''document_id'', PStr document_id),
      (''source_document'', PDict [(''source_external_id'', PStr external_id)]),
      (''category'', PStr category)]"

text \<open>
  the idempotency key joins its parts with a bar and does not escape it, so two documents
  can share a key: document \<open>d\<close> with external id \<open>x|e\<close> and document \<open>d|x\<close> with external id \<open>e\<close>
  (same category and target); the second then gets the first one's attempt and no dry run of
  its own.
\<close>

theorem idempotency_key_collision:
  assumes "e \<noteq> []" and "c \<noteq> []"
  shows "build_idempotency_key env (keyed_document d (x @ ''|'' @ e) c) target =
    build_idempotency_key env (keyed_document (d @ ''|'' @ x) e c) target \<and> d \<noteq> d @ ''|'' @ x"
  using assms by (simp add: build_idempotency_key_def key_payload_def keyed_document_def join_bar_def)

theorem idempotency_key_collision_witness:
  "build_idempotency_key plain_env (keyed_document ''a'' (''b'' @ ''|'' @ ''c'') ''food'') ''wave'' =
   build_idempotency_key plain_env (keyed_document (''a'' @ ''|'' @ ''b'') ''c'' ''food'') ''wave'' \<and>
   ''a'' \<noteq> ''a'' @ ''|'' @ ''b''"
  by (rule idempotency_key_collision) simp_all

section \<open>A recorded success\<close>

lemma document_state_frame: "db_documents db' = db_documents db \<Longrightarrow> document_state db' d = document_state db d"
  by (simp add: document_state_def)

lemma document_state_mark_executed [simp]: "document_state (mark_executed i e r t db) d = document_state db d"
  by (rule document_state_frame) (simp add: mark_executed_def step_simps split: option.split)

lemma mark_complete_not_due:
  "r \<in> set (due_items later (mark_complete now et eid op db)) \<Longrightarrow> \<not> retry_key et eid op r"
  by (auto simp: due_items_def mark_complete_def select_rows_def update_where_def is_due_def retry_key_def
      split: if_splits)

lemma due_items_frame: "db_retries db' = db_retries db \<Longrightarrow> due_items later db' = due_items later db"
  by (simp add: due_items_def)

lemma documents_claimed:
  "db_documents (add_audit_log a b c d e f g t (set_status i st now db)\<lparr>db_sent := s\<rparr>) = db_documents db"
  by (simp add: set_status_def step_simps)

lemma execute_success_frame:
  assumes "lookup_row (db_attempts db) i = Some a" and "pa_status a \<in> set (allowed_statuses force)"
    and "ec_execute_approved cfg \<or> force"
    and "dget (pa_payload a) ''target_system'' = PStr t" and "t \<noteq> []" and "hs t = Some h"
    and "h (payload_to_categorized_data (pa_payload a) i a) = Inr res" and "dget res ''status'' = PStr ''success''"
    and "dget (pa_payload a) ''document_id'' = PStr d" and "d \<noteq> []"
  shows "document_state (fst (execute_attempt cfg hs i force now db)) d =
      map_option (\<lambda>_. Doc_posted) (document_state db d)"
    and "r \<in> set (due_items later (fst (execute_attempt cfg hs i force now db))) \<Longrightarrow>
      \<not> retry_key ''posting_attempt'' (str_of_nat i) ''execute_posting'' r"
proof -
  have active: "(\<not> ec_execute_approved cfg \<and> \<not> force) = False" using assms(3) by simp
  have docv: "dget (payload_to_categorized_data (pa_payload a) i a) ''document_id'' = PStr d"
    using assms(9,10) by (simp add: payload_to_categorized_data_def)
  let ?F = "\<lambda>dby. mark_document_posted (ec_env cfg) (PStr d) res now
      (mark_complete now ''posting_attempt'' (str_of_nat i) ''execute_posting''
        (mark_executed i (py_or (dget res ''external_id'') (dget res ''id'')) res now dby))"
  have "\<exists>dby. fst (execute_attempt cfg hs i force now db) = ?F dby \<and> db_documents dby = db_documents db"
    unfolding execute_attempt_def active if_False
    using assms(1,2,4-8)
    apply (simp add: claim_succeeds run_claimed_def payload_for_attempt_def call_handler_def
        record_outcome_def Let_def docv)
    apply (rule exI, rule conjI, rule refl, rule documents_claimed)
    done
  then obtain dby where "fst (execute_attempt cfg hs i force now db) = ?F dby"
    and dby: "db_documents dby = db_documents db" by blast
  moreover define dbx where "dbx = mark_executed i (py_or (dget res ''external_id'') (dget res ''id'')) res now dby"
  ultimately have x: "fst (execute_attempt cfg hs i force now db) =
      add_audit_log ''document'' d ''posted'' PNone (PDict res)
        (PStr ''Posting attempt executed successfully'') ''system'' now
        (put_doc_state d Doc_posted now (mark_complete now ''posting_attempt'' (str_of_nat i) ''execute_posting'' dbx))"
    using assms(10) by (simp add: mark_document_posted_def)
  from dby have "document_state dby d = document_state db d" by (rule document_state_frame)
  then have "document_state dbx d = document_state db d"
    by (simp add: dbx_def)
  with x show "document_state (fst (execute_attempt cfg hs i force now db)) d =
      map_option (\<lambda>_. Doc_posted) (document_state db d)"
    by (simp add: document_state_frame [of "add_audit_log _ _ _ _ _ _ _ _ _"] document_state_frame [of "mark_complete _ _ _ _ _"]
        step_simps)
  assume "r \<in> set (due_items later (fst (execute_attempt cfg hs i force now db)))"
  then have "r \<in> set (due_items later (mark_complete now ''posting_attempt'' (str_of_nat i) ''execute_posting'' dbx))"
    unfolding x by (simp add: due_items_frame [of "add_audit_log _ _ _ _ _ _ _ _ _"]
      due_items_frame [of "put_doc_state _ _ _ _"] step_simps)
  then show "\<not> retry_key ''posting_attempt'' (str_of_nat i) ''execute_posting'' r" by (rule mark_complete_not_due)
qed

text \<open>
  when the handler reports success, the attempt is posted under the provider's identifier
  (the field \<open>external_id\<close>, else \<open>id\<close>), exactly one request was sent, the document, when it is
  stored, is in state posted, no retry of the attempt is ever due, and the caller gets the
  provider's answer.
\<close>

theorem successful_execution_is_recorded:
  assumes "lookup_row (db_attempts db) i = Some a" and "pa_status a \<in> set (allowed_statuses force)"
    and "ec_execute_approved cfg \<or> force"
    and "dget (pa_payload a) ''target_system'' = PStr t" and "t \<noteq> []" and "hs t = Some h"
    and "h (payload_to_categorized_data (pa_payload a) i a) = Inr res" and "dget res ''status'' = PStr ''success''"
    and "dget (pa_payload a) ''document_id'' = PStr d" and "d \<noteq> []"
  shows "let (db', r) = execute_attempt cfg hs i force now db in
    r = Inr (Executed_posted res) \<and>
    lookup_row (db_attempts db') i =
      Some (a\<lparr>pa_status := Posted, pa_external_id := py_or (dget res ''external_id'') (dget res ''id''),
              pa_updated := now\<rparr>) \<and>
    requests_for i db' = requests_for i db @ [payload_to_categorized_data (pa_payload a) i a] \<and>
    document_state db' d = map_option (\<lambda>_. Doc_posted) (document_state db d) \<and>
    (\<forall>later. \<forall>r \<in> set (due_items later db').
      \<not> retry_key ''posting_attempt'' (str_of_nat i) ''execute_posting'' r)"
  using execute_success_row [of db i a force cfg t hs h res now] execute_sends [of db i a force cfg t hs h now]
    execute_success_frame(1) [of db i a force cfg t hs h res d now]
    execute_success_frame(2) [where db = db and i = i and a = a and force = force and cfg = cfg
      and t = t and hs = hs and h = h and res = res and d = d and now = now] assms
  by (simp add: case_prod_beta)

theorem successful_execution_is_recorded_witness:
  "let (db', r) = execute_attempt (pl_config sample_pipeline) accepting_handlers 1 False (Timestamp 2) approved_db in
    r = Inr (Executed_posted [(''status'', PStr ''success''), (''external_id'', PStr ''wave-1'')]) \<and>
    lookup_row (db_attempts db') 1 =
      Some (approved_row\<lparr>pa_status := Posted, pa_external_id := PStr ''wave-1'', pa_updated := Timestamp 2\<rparr>)"
  using successful_execution_is_recorded [OF lookup_approved_db, of False "pl_config sample_pipeline"
      "''waveapps_business''" accepting_handlers _ "[(''status'', PStr ''success''), (''external_id'', PStr ''wave-1'')]"
      "''doc-1''" "Timestamp 2"]
  by (simp add: approved_row_def allowed_statuses_def sample_pipeline_def accepting_handlers_def case_prod_beta)

section \<open>Supervised completion\<close>

text \<open>
  an externally submitted attempt is recorded as posted exactly when the confirmation is the
  fixed phrase and the attempt is waiting for supervision; every other call changes nothing, and
  no call contacts a handler.
\<close>

theorem supervised_completion_is_gated:
  "let (db', r) = complete_supervised_attempt i phrase who ext ev why now db in
     (r = Completed_posted ext \<longleftrightarrow>
        phrase = ''CONFIRM EXTERNAL SUBMISSION'' \<and> attempt_status db i = Some Supervision_required) \<and>
     (r = Completed_posted ext \<or> db' = db) \<and>
     (r = Completed_posted ext \<longrightarrow> attempt_status db' i = Some Posted) \<and>
     db_sent db' = db_sent db"
  by (auto simp: complete_supervised_attempt_def attempt_status_def Let_def SUPERVISED_COMPLETION_PHRASE_def
      step_simps put_attempt_def lookup_update_row split: option.split)

definition supervised_db :: posting_db where
  "supervised_db = set_status 1 Supervision_required (Timestamp 2) approved_db"

theorem supervised_completion_is_gated_witness:
  "snd (complete_supervised_attempt 1 ''CONFIRM EXTERNAL SUBMISSION'' ''user'' (PStr ''mg-7'') [] ''done''
     (Timestamp 3) supervised_db) = Completed_posted (PStr ''mg-7'') \<and>
   attempt_status (fst (complete_supervised_attempt 1 ''CONFIRM EXTERNAL SUBMISSION'' ''user'' (PStr ''mg-7'') [] ''done''
     (Timestamp 3) supervised_db)) 1 = Some Posted"
  using supervised_completion_is_gated [of 1 "''CONFIRM EXTERNAL SUBMISSION''" "''user''" "PStr ''mg-7''" "[]"
      "''done''" "Timestamp 3" supervised_db]
  by (simp add: case_prod_beta supervised_db_def attempt_status_def lookup_approved_db [simplified])

section \<open>Second requests\<close>

text \<open>
  an attempt whose posting is in progress (its worker still runs, or died after the handler
  call) is refused to an unforced execution, and handed to the handler again by a forced one.
\<close>

theorem forced_execution_sends_running_attempt_again:
  assumes "lookup_row (db_attempts db) i = Some a" and "pa_status a = Posting_in_progress"
    and "dget (pa_payload a) ''target_system'' = PStr t" and "t \<noteq> []" and "hs t = Some h"
  shows "fst (execute_attempt cfg hs i False now db) = db \<and>
    length (requests_for i (fst (execute_attempt cfg hs i True now db))) = length (requests_for i db) + 1"
proof -
  have "fst (execute_attempt cfg hs i False now db) = db"
    using assms(1,2) by (intro execute_refuses [of _ _ Posting_in_progress])
      (simp_all add: attempt_status_def allowed_statuses_def)
  moreover have "requests_for i (fst (execute_attempt cfg hs i True now db)) =
      requests_for i db @ [payload_to_categorized_data (pa_payload a) i a]"
    by (rule execute_sends [where t = t and hs = hs and h = h, OF assms(1)]) (simp_all add: assms(2-5) allowed_statuses_def)
  ultimately show ?thesis by simp
qed

definition running_db :: posting_db where
  "running_db = set_status 1 Posting_in_progress (Timestamp 2) approved_db"

lemma lookup_running_db:
  "lookup_row (db_attempts running_db) 1 = Some (approved_row\<lparr>pa_status := Posting_in_progress, pa_updated := Timestamp 2\<rparr>)"
  by (simp add: running_db_def lookup_approved_db [simplified])

theorem forced_execution_sends_running_attempt_again_witness:
  "fst (execute_attempt (pl_config sample_pipeline) accepting_handlers 1 False (Timestamp 3) running_db) = running_db \<and>
   length (requests_for 1 (fst (execute_attempt (pl_config sample_pipeline) accepting_handlers 1 True (Timestamp 3) running_db))) =
     length (requests_for 1 running_db) + 1"
  by (rule forced_execution_sends_running_attempt_again
      [where t = "''waveapps_business''" and hs = accepting_handlers, OF lookup_running_db])
    (simp_all add: approved_row_def accepting_handlers_def)

text \<open>
  approving writes without looking at the status again, so an approver that read the attempt
  before it was approved, executed and posted makes it executable once more, and the next
  execution sends a second request.
\<close>

theorem stale_approval_reopens_posted_attempt:
  assumes "approvable (pa_status seen)" and "pa_status a = Posted"
    and "lookup_row (db_attempts db) i = Some a"
    and "dget (pa_payload a) ''target_system'' = PStr t" and "t \<noteq> []" and "hs t = Some h"
    and "ec_execute_approved cfg"
  shows "length (requests_for i (fst (execute_attempt cfg hs i False later (approve_write i seen who why now db)))) =
    length (requests_for i db) + 1"
proof -
  let ?db = "approve_write i seen who why now db"
  have l: "lookup_row (db_attempts ?db) i = Some (a\<lparr>pa_status := Approved, pa_updated := now\<rparr>)"
    using assms(3) by (simp add: approve_write_def step_simps)
  have "requests_for i ?db = requests_for i db"
    by (rule requests_for_same) (simp add: approve_write_def step_simps)
  with execute_sends [OF l, of False cfg t hs h later] assms(4-7) show ?thesis
    by (simp add: allowed_statuses_def)
qed

theorem stale_approval_reopens_posted_attempt_witness:
  "length (requests_for 1 (fst (execute_attempt (pl_config sample_pipeline) accepting_handlers 1 False (Timestamp 9)
      (approve_write 1 (approved_row\<lparr>pa_status := Dry_run_created\<rparr>) ''user'' PNone (Timestamp 8) posted_db)))) =
    length (requests_for 1 posted_db) + 1"
proof -
  obtain a where a: "lookup_row (db_attempts posted_db) 1 = Some a" "pa_status a = Posted"
      "dget (pa_payload a) ''target_system'' = PStr ''waveapps_business''"
    using posted_db_row by blast
  show ?thesis
    by (rule stale_approval_reopens_posted_attempt [OF _ a(2,1,3)])
      (simp_all add: approvable_def accepting_handlers_def sample_pipeline_def)
qed

end
