(* ===== verification/Rate_Limiter.thy ===== *)
theory Rate_Limiter
  imports Py_Values
begin

text \<open>
  The per-service quota guard of src/utils/rate_limiter.py. Clock readings and limits are exact
  rationals in place of floats. One iteration of the loop of \<open>acquire\<close> runs under the lock and is
  one atomic step here; a run of the limiter is any sequence of such iterations and of reads,
  from any number of threads, each with the clock and the calendar reading it made.
\<close>

section \<open>State\<close>

record limiter_config =
  lc_per_second :: "rat option"
  lc_per_minute :: "int option"
  lc_per_day :: "int option"
  lc_name :: string

record limiter =
  rl_second :: "rat list"
  rl_minute :: "rat list"
  rl_day :: int
  rl_daily :: int
  rl_total :: int
  rl_blocked :: int

definition init_limiter :: "int \<Rightarrow> limiter" where
  "init_limiter today =
     \<lparr>rl_second = [], rl_minute = [], rl_day = today, rl_daily = 0, rl_total = 0, rl_blocked = 0\<rparr>"

section \<open>Operations\<close>

definition record_call :: "rat \<Rightarrow> limiter \<Rightarrow> limiter" where
  "record_call now s =
     s\<lparr>rl_second := rl_second s @ [now], rl_minute := rl_minute s @ [now],
       rl_daily := rl_daily s + 1, rl_total := rl_total s + 1\<rparr>"

text \<open>
  \<open>_required_wait_seconds\<close>: an empty minute window is indexed when the limit is zero, and a
  limit of zero calls per second divides by zero once the second window is not empty.
\<close>

definition second_waits :: "limiter_config \<Rightarrow> rat \<Rightarrow> limiter \<Rightarrow> rat list result" where
  "second_waits cfg now s =
     (case lc_per_second cfg of
        None \<Rightarrow> Inr []
      | Some cps \<Rightarrow>
          if 1 \<le> cps then
            (if \<lfloor>cps\<rfloor> \<le> int (length (rl_second s))
             then Inr [1 - (now - hd (rl_second s))] else Inr [])
          else if rl_second s \<noteq> [] then
            (if cps = 0 then Inl ZeroDivisionError
             else Inr [1 / cps - (now - last (rl_second s))])
          else Inr [])"

definition minute_waits :: "limiter_config \<Rightarrow> rat \<Rightarrow> limiter \<Rightarrow> rat list result" where
  "minute_waits cfg now s =
     (case lc_per_minute cfg of
        None \<Rightarrow> Inr []
      | Some cpm \<Rightarrow>
          if cpm \<le> int (length (rl_minute s)) then
            (if rl_minute s = [] then Inl IndexError
             else Inr [60 - (now - hd (rl_minute s))])
          else Inr [])"

definition required_wait_seconds :: "limiter_config \<Rightarrow> rat \<Rightarrow> limiter \<Rightarrow> rat result" where
  "required_wait_seconds cfg now s =
     rbind (second_waits cfg now s) (\<lambda>ws.
     rbind (minute_waits cfg now s) (\<lambda>ms.
     Inr (case ws @ ms of [] \<Rightarrow> 0 | w # rest \<Rightarrow> fold max rest w)))"

definition second_window_seconds :: "limiter_config \<Rightarrow> rat" where
  "second_window_seconds cfg =
     (case lc_per_second cfg of
        None \<Rightarrow> 1
      | Some cps \<Rightarrow> if 0 < cps \<and> cps < 1 then 1 / cps else 1)"

definition trim_windows :: "limiter_config \<Rightarrow> rat \<Rightarrow> limiter \<Rightarrow> limiter" where
  "trim_windows cfg now s =
     s\<lparr>rl_second := dropWhile (\<lambda>t. second_window_seconds cfg \<le> now - t) (rl_second s),
       rl_minute := dropWhile (\<lambda>t. 60 \<le> now - t) (rl_minute s)\<rparr>"

definition rollover_day :: "int \<Rightarrow> limiter \<Rightarrow> limiter" where
  "rollover_day today s = (if today \<noteq> rl_day s then s\<lparr>rl_day := today, rl_daily := 0\<rparr> else s)"

definition daily_quota_exhausted :: "limiter_config \<Rightarrow> limiter \<Rightarrow> bool" where
  "daily_quota_exhausted cfg s =
     (case lc_per_day cfg of None \<Rightarrow> False | Some cpd \<Rightarrow> cpd \<le> rl_daily s)"

definition refresh :: "limiter_config \<Rightarrow> rat \<Rightarrow> int \<Rightarrow> limiter \<Rightarrow> limiter" where
  "refresh cfg now today s = trim_windows cfg now (rollover_day today s)"

datatype admission = Admit | No_quota | Wait rat | Fault py_exc

text \<open>The locked body of the loop in \<open>acquire\<close>.\<close>

definition try_admit :: "limiter_config \<Rightarrow> rat \<Rightarrow> int \<Rightarrow> limiter \<Rightarrow> limiter \<times> admission" where
  "try_admit cfg now today s =
     (let s1 = refresh cfg now today s in
      if daily_quota_exhausted cfg s1 then (s1\<lparr>rl_blocked := rl_blocked s1 + 1\<rparr>, No_quota)
      else case required_wait_seconds cfg now s1 of
             Inl e \<Rightarrow> (s1, Fault e)
           | Inr w \<Rightarrow>
               if w \<le> 0 then (record_call now s1, Admit)
               else (s1\<lparr>rl_blocked := rl_blocked s1 + 1\<rparr>, Wait w))"

text \<open>
  \<open>acquire\<close>: the readings of one iteration are the locked one, the date, and the reading that
  computes the remaining budget. The loop consumes one tick per iteration; when the ticks run
  out the call is still waiting.
\<close>

record tick =
  tk_now :: rat
  tk_today :: int
  tk_after :: rat

datatype acquired =
    Acquired
  | Refused
  | Quota_exhausted_error
  | Wait_budget_error
  | Acquire_fault py_exc
  | Still_waiting

fun acquire_loop ::
  "limiter_config \<Rightarrow> bool \<Rightarrow> rat option \<Rightarrow> tick list \<Rightarrow> limiter \<Rightarrow> limiter \<times> acquired \<times> rat list" where
  "acquire_loop cfg block deadline [] s = (s, Still_waiting, [])"
| "acquire_loop cfg block deadline (t # ts) s =
     (case try_admit cfg (tk_now t) (tk_today t) s of
        (s', Admit) \<Rightarrow> (s', Acquired, [])
      | (s', No_quota) \<Rightarrow> (s', if block then Quota_exhausted_error else Refused, [])
      | (s', Fault e) \<Rightarrow> (s', Acquire_fault e, [])
      | (s', Wait w) \<Rightarrow>
          if \<not> block then (s', Refused, [])
          else (case deadline of
                  None \<Rightarrow>
                    (let (s'', r, sleeps) = acquire_loop cfg block deadline ts s'
                     in (s'', r, max w (1 / 1000) # sleeps))
                | Some d \<Rightarrow>
                    let remaining = d - tk_after t in
                    if remaining \<le> 0 then (s', Wait_budget_error, [])
                    else (let (s'', r, sleeps) = acquire_loop cfg block deadline ts s'
                          in (s'', r, max (min w remaining) (1 / 1000) # sleeps))))"

definition acquire ::
  "limiter_config \<Rightarrow> bool \<Rightarrow> rat option \<Rightarrow> rat \<Rightarrow> tick list \<Rightarrow> limiter \<Rightarrow> limiter \<times> acquired \<times> rat list" where
  "acquire cfg block max_wait start ts s =
     acquire_loop cfg block (map_option (\<lambda>m. start + m) max_wait) ts s"

record rate_report =
  rr_second :: int
  rr_minute :: int
  rr_daily :: int
  rr_remaining :: "int option"
  rr_total :: int
  rr_blocked :: int
  rr_exhausted :: bool

definition get_current_rate :: "limiter_config \<Rightarrow> rat \<Rightarrow> int \<Rightarrow> limiter \<Rightarrow> limiter \<times> rate_report" where
  "get_current_rate cfg now today s =
     (let s1 = refresh cfg now today s in
      (s1, \<lparr>rr_second = int (length (rl_second s1)), rr_minute = int (length (rl_minute s1)),
            rr_daily = rl_daily s1,
            rr_remaining = map_option (\<lambda>cpd. max (cpd - rl_daily s1) 0) (lc_per_day cfg),
            rr_total = rl_total s1, rr_blocked = rl_blocked s1,
            rr_exhausted = daily_quota_exhausted cfg s1\<rparr>))"

record quota =
  q_second :: "int option"
  q_minute :: "int option"
  q_day :: "int option"

definition second_capacity :: "rat \<Rightarrow> int" where
  "second_capacity cps = max (if 0 \<le> cps then \<lfloor>cps\<rfloor> else \<lceil>cps\<rceil>) 1"

definition get_remaining_quota :: "limiter_config \<Rightarrow> rat \<Rightarrow> int \<Rightarrow> limiter \<Rightarrow> limiter \<times> quota" where
  "get_remaining_quota cfg now today s =
     (let (s1, r) = get_current_rate cfg now today s in
      (s1, \<lparr>q_second = map_option (\<lambda>cps. max (second_capacity cps - rr_second r) 0) (lc_per_second cfg),
            q_minute = map_option (\<lambda>cpm. max (cpm - rr_minute r) 0) (lc_per_minute cfg),
            q_day = rr_remaining r\<rparr>))"

definition reset_limiter :: "int \<Rightarrow> limiter \<Rightarrow> limiter" where
  "reset_limiter today s = init_limiter today"

end
