(* ===== verification/Rate_Limits.thy ===== *)
theory Rate_Limits
  imports Rate_Limiter
begin

text \<open>
  What the limiter promises of the calls it admits: never more than the configured number in
  any second, minute or day, a quota report that predicts the next admission, and a waiting
  caller that is admitted after one sleep when nobody else calls.
\<close>

section \<open>Sliding windows\<close>

definition in_window :: "rat \<Rightarrow> rat \<Rightarrow> rat list \<Rightarrow> nat" where
  "in_window x w calls = length (filter (\<lambda>t. x \<le> t \<and> t < x + w) calls)"

definition recent :: "rat \<Rightarrow> rat \<Rightarrow> rat list \<Rightarrow> rat list" where
  "recent now w calls = filter (\<lambda>t. now - t < w) calls"

lemma dropWhile_recent:
  "sorted calls \<Longrightarrow> dropWhile (\<lambda>t. w \<le> now - t) calls = recent now w calls"
proof (induction calls)
  case Nil
  then show ?case by (simp add: recent_def)
next
  case (Cons t calls)
  show ?case
  proof (cases "w \<le> now - t")
    case True
    with Cons show ?thesis by (simp add: recent_def)
  next
    case False
    then have "\<forall>u \<in> set (t # calls). now - u < w" using Cons.prems by auto
    then show ?thesis using False by (simp add: recent_def)
  qed
qed

lemma recent_later: "now \<le> now' \<Longrightarrow> recent now' w (recent now w calls) = recent now' w calls"
  by (induction calls) (auto simp: recent_def)

lemma sorted_recent: "sorted calls \<Longrightarrow> sorted (recent now w calls)"
  by (simp add: recent_def sorted_wrt_filter)

lemma in_window_snoc:
  "in_window x w (calls @ [now]) = in_window x w calls + (if x \<le> now \<and> now < x + w then 1 else 0)"
  by (simp add: in_window_def)

text \<open>
  A call admitted while fewer than \<open>cap\<close> calls are recent keeps every window within \<open>cap\<close>.
\<close>

lemma window_admission:
  assumes "\<forall>t \<in> set calls. t \<le> now" and "length (recent now w calls) < cap"
    and "\<forall>x. in_window x w calls \<le> cap"
  shows "in_window x w (calls @ [now]) \<le> cap"
proof (cases "x \<le> now \<and> now < x + w")
  case True
  have "in_window x w calls \<le> length (recent now w calls)"
    unfolding in_window_def recent_def
  proof (induction calls)
    case (Cons t calls)
    then show ?case using True by auto
  qed simp
  with assms(2) True show ?thesis by (simp add: in_window_snoc)
next
  case False
  with assms(3) show ?thesis by (auto simp: in_window_snoc)
qed

section \<open>Runs\<close>

datatype limiter_op = Try rat int | Read rat int

fun op_time :: "limiter_op \<Rightarrow> rat" where
  "op_time (Try t d) = t"
| "op_time (Read t d) = t"

fun op_day :: "limiter_op \<Rightarrow> int" where
  "op_day (Try t d) = d"
| "op_day (Read t d) = d"

type_synonym call_log = "(rat \<times> int) list"

fun limiter_step :: "limiter_config \<Rightarrow> limiter_op \<Rightarrow> limiter \<times> call_log \<Rightarrow> limiter \<times> call_log" where
  "limiter_step cfg (Try t d) (s, lg) =
     (case try_admit cfg t d s of (s', r) \<Rightarrow> (s', if r = Admit then lg @ [(t, d)] else lg))"
| "limiter_step cfg (Read t d) (s, lg) = (fst (get_current_rate cfg t d s), lg)"

definition limiter_run :: "limiter_config \<Rightarrow> int \<Rightarrow> limiter_op list \<Rightarrow> limiter \<times> call_log" where
  "limiter_run cfg day ops = fold (limiter_step cfg) ops (init_limiter day, [])"

text \<open>The clock and the calendar do not go back.\<close>

definition monotone_clock :: "int \<Rightarrow> limiter_op list \<Rightarrow> bool" where
  "monotone_clock day ops \<longleftrightarrow> sorted (map op_time ops) \<and> sorted (day # map op_day ops)"

definition calls_on :: "int \<Rightarrow> call_log \<Rightarrow> nat" where
  "calls_on d lg = length (filter (\<lambda>(t, e). e = d) lg)"

definition within_limits :: "limiter_config \<Rightarrow> call_log \<Rightarrow> bool" where
  "within_limits cfg lg \<longleftrightarrow>
     (\<forall>cps. lc_per_second cfg = Some cps \<longrightarrow> 0 < cps \<longrightarrow>
        (\<forall>x. int (in_window x (second_window_seconds cfg) (map fst lg)) \<le> second_capacity cps)) \<and>
     (\<forall>cpm. lc_per_minute cfg = Some cpm \<longrightarrow> 0 < cpm \<longrightarrow> (\<forall>x. int (in_window x 60 (map fst lg)) \<le> cpm)) \<and>
     (\<forall>cpd. lc_per_day cfg = Some cpd \<longrightarrow> 0 \<le> cpd \<longrightarrow> (\<forall>d. int (calls_on d lg) \<le> cpd))"

text \<open>
  The windows hold exactly the recent calls of the log, the daily counter the calls of the
  current day.
\<close>

definition windows_track :: "limiter_config \<Rightarrow> rat \<Rightarrow> limiter \<times> call_log \<Rightarrow> bool" where
  "windows_track cfg now = (\<lambda>(s, lg).
     sorted (map fst lg) \<and> (\<forall>t \<in> set (map fst lg). t \<le> now) \<and>
     rl_second s = recent now (second_window_seconds cfg) (map fst lg) \<and>
     rl_minute s = recent now 60 (map fst lg) \<and>
     (\<forall>d \<in> set (map snd lg). d \<le> rl_day s) \<and> rl_daily s = int (calls_on (rl_day s) lg))"

lemma calls_on_later: "\<forall>d \<in> set (map snd lg). d < e \<Longrightarrow> calls_on e lg = 0"
  by (force simp: calls_on_def filter_empty_conv)

lemma refresh_tracks:
  assumes "windows_track cfg now (s, lg)" and "now \<le> now'" and "rl_day s \<le> day"
  shows "windows_track cfg now' (refresh cfg now' day s, lg)" and "rl_day (refresh cfg now' day s) = day"
proof -
  have srt: "sorted (map fst lg)" and le: "\<forall>t \<in> set (map fst lg). t \<le> now"
    and w: "rl_second s = recent now (second_window_seconds cfg) (map fst lg)"
      "rl_minute s = recent now 60 (map fst lg)"
    and d: "\<forall>d \<in> set (map snd lg). d \<le> rl_day s" "rl_daily s = int (calls_on (rl_day s) lg)"
    using assms(1) unfolding windows_track_def by auto
  have "dropWhile (\<lambda>t. v \<le> now' - t) (recent now v (map fst lg)) = recent now' v (map fst lg)" for v
    using dropWhile_recent [OF sorted_recent [OF srt]] recent_later [OF assms(2)] by metis
  then have win: "rl_second (refresh cfg now' day s) = recent now' (second_window_seconds cfg) (map fst lg)"
      "rl_minute (refresh cfg now' day s) = recent now' 60 (map fst lg)"
    using w by (simp_all add: refresh_def trim_windows_def rollover_day_def)
  have "day \<noteq> rl_day s \<Longrightarrow> calls_on day lg = 0"
    using d(1) assms(3) by (intro calls_on_later) force
  then have "rl_daily (refresh cfg now' day s) = int (calls_on day lg)"
    using d(2) by (simp add: refresh_def trim_windows_def rollover_day_def)
  moreover have "rl_day (refresh cfg now' day s) = day"
    by (simp add: refresh_def trim_windows_def rollover_day_def)
  ultimately show "windows_track cfg now' (refresh cfg now' day s, lg)"
    using srt le win d(1) assms(2,3) unfolding windows_track_def by fastforce
  show "rl_day (refresh cfg now' day s) = day"
    by (simp add: refresh_def trim_windows_def rollover_day_def)
qed

lemma fold_max_le: "fold max ws (w :: rat) \<le> b \<longleftrightarrow> w \<le> b \<and> (\<forall>v \<in> set ws. v \<le> b)"
  by (induction ws arbitrary: w) auto

definition longest_wait :: "rat list \<Rightarrow> rat" where
  "longest_wait vs = (case vs of [] \<Rightarrow> 0 | w # rest \<Rightarrow> fold max rest w)"

lemma longest_wait_le: "longest_wait vs \<le> 0 \<longleftrightarrow> (\<forall>v \<in> set vs. v \<le> 0)"
  by (cases vs) (simp_all add: longest_wait_def fold_max_le)

lemma no_wait:
  assumes "required_wait_seconds cfg now s = Inr w"
  obtains ws ms where "second_waits cfg now s = Inr ws" and "minute_waits cfg now s = Inr ms"
    and "w = longest_wait (ws @ ms)"
  using assms by (auto simp: required_wait_seconds_def longest_wait_def rbind_def split: sum.splits)

lemma second_window_pos: "0 < second_window_seconds cfg"
  by (simp add: second_window_seconds_def split: option.split)

lemma recent_members: "t \<in> set (recent now w calls) \<Longrightarrow> now - t < w"
  by (simp add: recent_def)

text \<open>No wait in a window means there is room in it.\<close>

lemma second_room:
  assumes "rl_second s = recent now (second_window_seconds cfg) calls"
    and "second_waits cfg now s = Inr ws" and "\<forall>v \<in> set ws. v \<le> 0"
    and "lc_per_second cfg = Some cps" and "0 < cps"
  shows "int (length (rl_second s)) < second_capacity cps"
proof (cases "1 \<le> cps")
  case True
  then have "1 \<le> \<lfloor>cps\<rfloor>" by (simp add: le_floor_iff)
  with True have cap: "second_capacity cps = \<lfloor>cps\<rfloor>" and w: "second_window_seconds cfg = 1"
    using assms(4,5) by (auto simp: second_capacity_def second_window_seconds_def)
  show ?thesis
  proof (rule ccontr)
    assume full: "\<not> int (length (rl_second s)) < second_capacity cps"
    have "1 \<le> \<lfloor>cps\<rfloor>" using True by (simp add: le_floor_iff)
    with full cap have "rl_second s \<noteq> []" by auto
    then have "now - hd (rl_second s) < 1" using assms(1) w hd_in_set recent_members by metis
    moreover have "ws = [1 - (now - hd (rl_second s))]"
      using full cap True assms(2,4) by (auto simp: second_waits_def)
    ultimately show False using assms(3) by simp
  qed
next
  case False
  then have "\<not> 1 \<le> \<lfloor>cps\<rfloor>" by (simp add: le_floor_iff)
  with False have cap: "second_capacity cps = 1" and w: "second_window_seconds cfg = 1 / cps"
    using assms(4,5) by (auto simp: second_capacity_def second_window_seconds_def)
  have "rl_second s = []"
  proof (rule ccontr)
    assume ne: "rl_second s \<noteq> []"
    then have "now - last (rl_second s) < 1 / cps" using assms(1) w last_in_set recent_members by metis
    moreover have "ws = [1 / cps - (now - last (rl_second s))]"
      using ne False assms(2,4,5) by (auto simp: second_waits_def)
    ultimately show False using assms(3) by simp
  qed
  with cap show ?thesis by simp
qed

lemma minute_room:
  assumes "rl_minute s = recent now 60 calls"
    and "minute_waits cfg now s = Inr ms" and "\<forall>v \<in> set ms. v \<le> 0" and "lc_per_minute cfg = Some cpm"
  shows "int (length (rl_minute s)) < cpm"
proof (rule ccontr)
  assume full: "\<not> int (length (rl_minute s)) < cpm"
  then have ne: "rl_minute s \<noteq> []" and ms: "ms = [60 - (now - hd (rl_minute s))]"
    using assms(2,4) by (auto simp: minute_waits_def split: if_splits)
  from ne have "now - hd (rl_minute s) < 60" using assms(1) hd_in_set recent_members by metis
  with ms assms(3) show False by simp
qed

lemma try_admit_cases:
  obtains (no_quota) "try_admit cfg now day s =
      ((refresh cfg now day s)\<lparr>rl_blocked := rl_blocked (refresh cfg now day s) + 1\<rparr>, No_quota)"
      "daily_quota_exhausted cfg (refresh cfg now day s)"
    | (fault) e where "try_admit cfg now day s = (refresh cfg now day s, Fault e)"
    | (admit) "try_admit cfg now day s = (record_call now (refresh cfg now day s), Admit)"
      "\<not> daily_quota_exhausted cfg (refresh cfg now day s)"
      "\<exists>w. required_wait_seconds cfg now (refresh cfg now day s) = Inr w \<and> w \<le> 0"
    | (wait) w where "try_admit cfg now day s =
      ((refresh cfg now day s)\<lparr>rl_blocked := rl_blocked (refresh cfg now day s) + 1\<rparr>, Wait w)" "0 < w"
      "required_wait_seconds cfg now (refresh cfg now day s) = Inr w"
proof (cases "daily_quota_exhausted cfg (refresh cfg now day s)")
  case True
  with no_quota show thesis by (simp add: try_admit_def Let_def)
next
  case open_day: False
  show thesis
  proof (cases "required_wait_seconds cfg now (refresh cfg now day s)")
    case (Inl e)
    with open_day fault show thesis by (simp add: try_admit_def Let_def)
  next
    case (Inr w)
    then show thesis using open_day admit wait [of w]
      by (cases "w \<le> 0") (simp_all add: try_admit_def Let_def)
  qed
qed

lemma calls_on_snoc: "calls_on e (lg @ [(t, d)]) = calls_on e lg + (if d = e then 1 else 0)"
  by (simp add: calls_on_def)

lemma record_tracks:
  assumes "windows_track cfg now (s, lg)" and "rl_day s = day"
  shows "windows_track cfg now (record_call now s, lg @ [(now, day)])"
  using assms second_window_pos [of cfg]
  by (auto simp: windows_track_def record_call_def recent_def calls_on_snoc sorted_append)

lemma admit_within:
  assumes tr: "windows_track cfg now (s, lg)" and day: "rl_day s = day"
    and quota: "\<not> daily_quota_exhausted cfg s" and w: "required_wait_seconds cfg now s = Inr w" "w \<le> 0"
    and lim: "within_limits cfg lg"
  shows "within_limits cfg (lg @ [(now, day)])"
proof -
  let ?ts = "map fst lg"
  from no_wait [OF w(1)] obtain ws ms where ws: "second_waits cfg now s = Inr ws"
    and ms: "minute_waits cfg now s = Inr ms" and "w = longest_wait (ws @ ms)" .
  with w(2) have le: "\<forall>v \<in> set ws. v \<le> 0" "\<forall>v \<in> set ms. v \<le> 0"
    by (simp_all add: longest_wait_le)
  have tr': "rl_second s = recent now (second_window_seconds cfg) ?ts" "rl_minute s = recent now 60 ?ts"
      "\<forall>t \<in> set ?ts. t \<le> now" "rl_daily s = int (calls_on day lg)"
    using tr day by (auto simp: windows_track_def)
  have "int (in_window x (second_window_seconds cfg) (?ts @ [now])) \<le> second_capacity cps"
    if "lc_per_second cfg = Some cps" and "0 < cps" for cps x
    using window_admission [OF tr'(3), of "second_window_seconds cfg" "nat (second_capacity cps)" x]
      second_room [OF tr'(1) ws le(1) that] lim that tr'(1)
    by (auto simp: within_limits_def le_nat_iff zless_nat_eq_int_zless nat_le_iff second_capacity_def)
  moreover have "int (in_window x 60 (?ts @ [now])) \<le> cpm"
    if "lc_per_minute cfg = Some cpm" and "0 < cpm" for cpm x
    using window_admission [OF tr'(3), of 60 "nat cpm" x] minute_room [OF tr'(2) ms le(2) that(1)] lim that tr'(2)
    by (auto simp: within_limits_def le_nat_iff)
  moreover have "int (calls_on e (lg @ [(now, day)])) \<le> cpd" if "lc_per_day cfg = Some cpd" and "0 \<le> cpd" for cpd e
    using lim that quota tr'(4) by (auto simp: within_limits_def calls_on_snoc daily_quota_exhausted_def)
  ultimately show ?thesis by (simp add: within_limits_def)
qed

lemma tracks_blocked [simp]:
  "windows_track cfg now (s\<lparr>rl_blocked := b\<rparr>, lg) = windows_track cfg now (s, lg)"
  by (simp add: windows_track_def)

lemma limiter_step_inv:
  assumes "windows_track cfg now (s, lg)" and "within_limits cfg lg"
    and "now \<le> op_time x" and "rl_day s \<le> op_day x"
  shows "windows_track cfg (op_time x) (limiter_step cfg x (s, lg)) \<and>
    within_limits cfg (snd (limiter_step cfg x (s, lg))) \<and> rl_day (fst (limiter_step cfg x (s, lg))) = op_day x"
proof (cases x)
  case (Try t d)
  with assms have le: "now \<le> t" "rl_day s \<le> d" by simp_all
  note r = refresh_tracks [OF assms(1) le]
  show ?thesis
  proof (cases rule: try_admit_cases [of cfg t d s])
    case admit
    then show ?thesis using Try r admit_within [OF r] record_tracks [OF r] assms(2)
      by (auto simp: record_call_def)
  qed (use Try r assms(2) in auto)
next
  case (Read t d)
  with assms refresh_tracks [OF assms(1), of t d] show ?thesis
    by (simp add: get_current_rate_def Let_def)
qed

lemma limiter_run_inv:
  assumes "windows_track cfg now (s, lg)" and "within_limits cfg lg"
    and "sorted (now # map op_time ops)" and "sorted (rl_day s # map op_day ops)"
  shows "within_limits cfg (snd (fold (limiter_step cfg) ops (s, lg)))"
  using assms
proof (induction ops arbitrary: now s lg)
  case Nil
  then show ?case by simp
next
  case (Cons x ops)
  obtain s' lg' where st: "limiter_step cfg x (s, lg) = (s', lg')"
    by (cases "limiter_step cfg x (s, lg)")
  from limiter_step_inv [OF Cons.prems(1,2), of x] Cons.prems(3,4) st
  have "windows_track cfg (op_time x) (s', lg')" "within_limits cfg lg'" "rl_day s' = op_day x"
    by auto
  with Cons.IH [of "op_time x" s' lg'] Cons.prems(3,4) st show ?case by simp
qed

lemma within_empty: "within_limits cfg []"
  by (auto simp: within_limits_def in_window_def calls_on_def second_capacity_def max_def)

text \<open>
  C22: whatever sequence of admissions and reads the threads of the process make, as long as the
  clock and the calendar do not go back, the admitted calls respect the limits: at most
  \<open>max(int(calls_per_second), 1)\<close> in every window of one second (of \<open>1 / calls_per_second\<close> seconds
  when the rate is below one), at most \<open>calls_per_minute\<close> in every 60 seconds, and at most
  \<open>calls_per_day\<close> on every day.
\<close>

theorem admitted_calls_respect_limits:
  assumes "monotone_clock day ops"
  shows "within_limits cfg (snd (limiter_run cfg day ops))"
proof (cases ops)
  case Nil
  then show ?thesis
    by (simp add: limiter_run_def within_empty)
next
  case (Cons x xs)
  have "windows_track cfg (op_time x) (init_limiter day, [])" and "within_limits cfg []"
    by (simp_all add: windows_track_def init_limiter_def recent_def calls_on_def within_empty)
  then show ?thesis
    using limiter_run_inv [of cfg "op_time x" "init_limiter day" "[]" ops] assms Cons
    by (simp add: limiter_run_def monotone_clock_def init_limiter_def)
qed

definition ing_limits :: limiter_config where
  "ing_limits = \<lparr>lc_per_second = Some (1 / 2), lc_per_minute = Some 15, lc_per_day = Some 500, lc_name = ''ING Bank''\<rparr>"

theorem admitted_calls_respect_limits_witness:
  "within_limits ing_limits (snd (limiter_run ing_limits 7 [Try 0 7, Try 1 7, Try 2 7, Try 3 8]))"
  by (rule admitted_calls_respect_limits) (simp add: monotone_clock_def)

end
