(* ===== verification/Rate_Waiting.thy ===== *)
theory Rate_Waiting
  imports Rate_Limits
begin

text \<open>
  Reports and waiting: the remaining quota predicts the next admission, one sleep is enough for
  a caller that waits alone, and what limits of zero do.
\<close>

definition positive_limits :: "limiter_config \<Rightarrow> bool" where
  "positive_limits cfg \<longleftrightarrow>
     (\<forall>cps. lc_per_second cfg = Some cps \<longrightarrow> 0 < cps) \<and> (\<forall>cpm. lc_per_minute cfg = Some cpm \<longrightarrow> 0 < cpm)"

definition window_room :: "limiter_config \<Rightarrow> limiter \<Rightarrow> bool" where
  "window_room cfg s \<longleftrightarrow>
     (\<forall>cps. lc_per_second cfg = Some cps \<longrightarrow> int (length (rl_second s)) < second_capacity cps) \<and>
     (\<forall>cpm. lc_per_minute cfg = Some cpm \<longrightarrow> int (length (rl_minute s)) < cpm)"

lemma room_no_wait:
  assumes "window_room cfg s"
  shows "required_wait_seconds cfg now s = Inr 0"
proof -
  have "second_waits cfg now s = Inr []"
  proof (cases "lc_per_second cfg")
    case (Some cps)
    then have r: "int (length (rl_second s)) < second_capacity cps" using assms by (simp add: window_room_def)
    show ?thesis
    proof (cases "1 \<le> cps")
      case True
      then have "1 \<le> \<lfloor>cps\<rfloor>" by (simp add: le_floor_iff)
      with True r have "\<not> \<lfloor>cps\<rfloor> \<le> int (length (rl_second s))" by (simp add: second_capacity_def)
      with True Some show ?thesis by (simp add: second_waits_def)
    next
      case False
      then have "\<not> 1 \<le> (if 0 \<le> cps then \<lfloor>cps\<rfloor> else \<lceil>cps\<rceil>)"
        by (auto simp: le_floor_iff ceiling_le_iff not_le less_ceiling_iff)
      with r have "rl_second s = []" by (simp add: second_capacity_def)
      with False Some show ?thesis by (simp add: second_waits_def)
    qed
  qed (simp add: second_waits_def)
  moreover have "minute_waits cfg now s = Inr []"
    using assms by (auto simp: minute_waits_def window_room_def split: option.split)
  ultimately show ?thesis by (simp add: required_wait_seconds_def)
qed

lemma no_wait_room:
  assumes "windows_track cfg now (s, lg)" and "positive_limits cfg"
    and "required_wait_seconds cfg now s = Inr w" and "w \<le> 0"
  shows "window_room cfg s"
proof -
  from no_wait [OF assms(3)] obtain ws ms where ws: "second_waits cfg now s = Inr ws"
    and ms: "minute_waits cfg now s = Inr ms" and "w = longest_wait (ws @ ms)" .
  with assms(4) have le: "\<forall>v \<in> set ws. v \<le> 0" "\<forall>v \<in> set ms. v \<le> 0"
    by (simp_all add: longest_wait_le)
  show ?thesis
    using second_room [OF _ ws le(1)] minute_room [OF _ ms le(2)] assms(1,2)
    unfolding window_room_def windows_track_def positive_limits_def by fastforce
qed

lemma refresh_twice: "refresh cfg now day (refresh cfg now day s) = refresh cfg now day s"
proof -
  have "dropWhile P (dropWhile P xs) = dropWhile P xs" for P :: "rat \<Rightarrow> bool" and xs
    by (induction xs) auto
  then show ?thesis by (simp add: refresh_def trim_windows_def rollover_day_def)
qed

lemma admit_iff_room:
  assumes "windows_track cfg now (refresh cfg now day s, lg)" and "positive_limits cfg"
  shows "snd (try_admit cfg now day s) = Admit \<longleftrightarrow>
    \<not> daily_quota_exhausted cfg (refresh cfg now day s) \<and> window_room cfg (refresh cfg now day s)"
proof (cases "window_room cfg (refresh cfg now day s)")
  case True
  then show ?thesis by (simp add: try_admit_def Let_def room_no_wait)
next
  case False
  then have "\<not> w \<le> 0" if "required_wait_seconds cfg now (refresh cfg now day s) = Inr w" for w
    using no_wait_room [OF assms that] by blast
  with False show ?thesis by (auto simp: try_admit_def Let_def split: sum.split)
qed

lemma run_then_refresh:
  assumes "monotone_clock day (ops @ [Read now today])" and "limiter_run cfg day ops = (s, lg)"
  shows "windows_track cfg now (refresh cfg now today s, lg) \<and> within_limits cfg lg"
proof -
  have inv: "windows_track cfg t0 (s0, lg0) \<Longrightarrow> within_limits cfg lg0 \<Longrightarrow>
      sorted (t0 # map op_time ops) \<Longrightarrow> sorted (rl_day s0 # map op_day ops) \<Longrightarrow>
      fold (limiter_step cfg) ops (s0, lg0) = (s1, lg1) \<Longrightarrow>
      (\<forall>u \<in> set (map op_time ops). u \<le> n) \<and> t0 \<le> n \<and> (\<forall>u \<in> set (map op_day ops). u \<le> d) \<and> rl_day s0 \<le> d \<Longrightarrow>
      windows_track cfg n (refresh cfg n d s1, lg1) \<and> within_limits cfg lg1" for t0 s0 lg0 s1 lg1 n d
  proof (induction ops arbitrary: t0 s0 lg0)
    case Nil
    then show ?case using refresh_tracks(1) [of cfg t0 s0 lg0 n d] by simp
  next
    case (Cons x ops)
    obtain s' lg' where st: "limiter_step cfg x (s0, lg0) = (s', lg')"
      by (cases "limiter_step cfg x (s0, lg0)")
    from limiter_step_inv [OF Cons.prems(1,2), of x] Cons.prems(3,4) st
    have "windows_track cfg (op_time x) (s', lg')" "within_limits cfg lg'" "rl_day s' = op_day x" by auto
    with Cons.IH [of "op_time x" s' lg'] Cons.prems(3-6) st show ?case by simp
  qed
  let ?t0 = "case ops of [] \<Rightarrow> now | x # xs \<Rightarrow> op_time x"
  have "windows_track cfg ?t0 (init_limiter day, [])"
    by (simp add: windows_track_def init_limiter_def recent_def calls_on_def)
  moreover have "sorted (?t0 # map op_time ops)" "?t0 \<le> now" "\<forall>u \<in> set (map op_time ops). u \<le> now"
    using assms(1) by (cases ops; auto simp: monotone_clock_def sorted_append)+
  moreover have "sorted (day # map op_day ops)" "day \<le> today" "\<forall>u \<in> set (map op_day ops). u \<le> today"
    using assms(1) by (auto simp: monotone_clock_def sorted_append)
  ultimately show ?thesis
    using inv [of ?t0 "init_limiter day" "[]" s lg now today] assms(2) within_empty
    by (simp add: limiter_run_def init_limiter_def)
qed

text \<open>
  the quota report predicts the next admission: after any run, a non-blocking \<open>acquire\<close> at
  the instant of the report succeeds exactly when none of the three remaining counts is zero.
\<close>

theorem quota_report_predicts_admission:
  assumes "positive_limits cfg" and "monotone_clock day (ops @ [Read now today])"
    and "get_remaining_quota cfg now today (fst (limiter_run cfg day ops)) = (s, q)"
  shows "fst (snd (acquire cfg False max_wait start [\<lparr>tk_now = now, tk_today = today, tk_after = after\<rparr>] s)) = Acquired
    \<longleftrightarrow> q_second q \<noteq> Some 0 \<and> q_minute q \<noteq> Some 0 \<and> q_day q \<noteq> Some 0"
proof -
  obtain s0 lg where run: "limiter_run cfg day ops = (s0, lg)" by (cases "limiter_run cfg day ops")
  from run_then_refresh [OF assms(2) run] have tr: "windows_track cfg now (refresh cfg now today s0, lg)" by simp
  have s: "s = refresh cfg now today s0" and q: "q = snd (get_remaining_quota cfg now today s0)"
    using assms(3) run by (auto simp: get_remaining_quota_def get_current_rate_def Let_def)
  have "fst (snd (acquire cfg False max_wait start [\<lparr>tk_now = now, tk_today = today, tk_after = after\<rparr>] s)) = Acquired
    \<longleftrightarrow> snd (try_admit cfg now today s) = Admit"
    by (auto simp: acquire_def split: prod.split admission.split)
  also have "\<dots> \<longleftrightarrow> \<not> daily_quota_exhausted cfg s \<and> window_room cfg s"
    using admit_iff_room [of cfg now today s lg] tr assms(1) s by (simp add: refresh_twice)
  also have "\<dots> \<longleftrightarrow> q_second q \<noteq> Some 0 \<and> q_minute q \<noteq> Some 0 \<and> q_day q \<noteq> Some 0"
    unfolding q s
    by (cases "lc_per_second cfg"; cases "lc_per_minute cfg"; cases "lc_per_day cfg")
      (auto simp: get_remaining_quota_def get_current_rate_def Let_def daily_quota_exhausted_def
        window_room_def)
  finally show ?thesis .
qed

theorem quota_report_predicts_admission_witness:
  "fst (snd (acquire ing_limits False None 5
     [\<lparr>tk_now = 5, tk_today = 7, tk_after = 5\<rparr>]
     (fst (get_remaining_quota ing_limits 5 7 (fst (limiter_run ing_limits 7 [Try 0 7])))))) = Acquired
   \<longleftrightarrow> q_second (snd (get_remaining_quota ing_limits 5 7 (fst (limiter_run ing_limits 7 [Try 0 7])))) \<noteq> Some 0 \<and>
     q_minute (snd (get_remaining_quota ing_limits 5 7 (fst (limiter_run ing_limits 7 [Try 0 7])))) \<noteq> Some 0 \<and>
     q_day (snd (get_remaining_quota ing_limits 5 7 (fst (limiter_run ing_limits 7 [Try 0 7])))) \<noteq> Some 0"
  by (rule quota_report_predicts_admission [where ops = "[Try 0 7]" and day = 7])
    (simp_all add: positive_limits_def ing_limits_def monotone_clock_def)

section \<open>Waiting\<close>

lemma recent_head_expires:
  assumes "recent now w calls \<noteq> []" and "w \<le> now' - hd (recent now w calls)" and "now \<le> now'"
  shows "length (recent now' w calls) < length (recent now w calls)"
proof -
  obtain x xs where xs: "recent now w calls = x # xs" using assms(1) by (cases "recent now w calls") auto
  have "recent now' w calls = recent now' w (x # xs)" using recent_later [OF assms(3)] xs by metis
  also have "\<dots> = recent now' w xs" using assms(2) xs by (simp add: recent_def)
  finally show ?thesis using xs by (simp add: recent_def less_Suc_eq_le)
qed

lemma recent_last_expires:
  assumes "sorted calls" and "recent now w calls \<noteq> []" and "w \<le> now' - last (recent now w calls)" and "now \<le> now'"
  shows "recent now' w calls = []"
proof -
  have "\<forall>t \<in> set (recent now w calls). t \<le> last (recent now w calls)"
    using sorted_recent [OF assms(1)] assms(2)
    by (metis append_butlast_last_id sorted_append list.set_intros(1) Un_iff set_append set_ConsD empty_iff
        list.set(1) order_refl)
  then have "recent now' w (recent now w calls) = []" using assms(3) by (fastforce simp: recent_def filter_empty_conv)
  then show ?thesis using recent_later [OF assms(4)] by metis
qed

lemma recent_le_window:
  assumes "sorted calls" and "\<forall>t \<in> set calls. t \<le> now"
  shows "\<exists>x. length (recent now w calls) \<le> in_window x w calls"
proof (cases "recent now w calls")
  case Nil
  then show ?thesis by simp
next
  case (Cons x xs)
  have "\<forall>t \<in> set (recent now w calls). x \<le> t" and "now - x < w"
    using sorted_recent [OF assms(1), of now w] Cons recent_members [of x now w calls] by auto
  then have "recent now w calls = filter (\<lambda>t. x \<le> t \<and> t < x + w) (recent now w calls)"
    using assms(2) by (subst filter_True) (fastforce simp: recent_def)+
  also have "length \<dots> \<le> in_window x w calls"
    unfolding in_window_def recent_def
    by (induction calls) auto
  finally show ?thesis by blast
qed

lemma longest_wait_ge: "v \<in> set vs \<Longrightarrow> v \<le> longest_wait vs"
  using fold_max_le [of "tl vs" "hd vs" "longest_wait vs"] by (cases vs) (auto simp: longest_wait_def)

lemma room_after_wait:
  assumes tr: "windows_track cfg now (s, lg)" and lim: "within_limits cfg lg" and pos: "positive_limits cfg"
    and w: "required_wait_seconds cfg now s = Inr w" and later: "now + w \<le> now'" "now \<le> now'"
    and s': "rl_second s' = recent now' (second_window_seconds cfg) (map fst lg)"
      "rl_minute s' = recent now' 60 (map fst lg)"
  shows "window_room cfg s'"
proof -
  let ?ts = "map fst lg"
  have srt: "sorted ?ts" and le: "\<forall>t \<in> set ?ts. t \<le> now"
    and win: "rl_second s = recent now (second_window_seconds cfg) ?ts" "rl_minute s = recent now 60 ?ts"
    using tr unfolding windows_track_def by auto
  from no_wait [OF w] obtain ws ms where ws: "second_waits cfg now s = Inr ws"
    and ms: "minute_waits cfg now s = Inr ms" and wl: "w = longest_wait (ws @ ms)" .
  have shrink: "length (recent now' v ?ts) \<le> length (recent now v ?ts)" for v
    using recent_later [OF later(2), of v ?ts] length_filter_le [of "\<lambda>t. now' - t < v" "recent now v ?ts"]
    by (metis recent_def)
  have "int (length (rl_second s')) < second_capacity cps" if c: "lc_per_second cfg = Some cps" for cps
  proof -
    have cps: "0 < cps" using pos c by (simp add: positive_limits_def)
    then have cap: "int (length (rl_second s)) \<le> second_capacity cps"
      using recent_le_window [OF srt le, of "second_window_seconds cfg"] lim c win(1)
      unfolding within_limits_def by (metis of_nat_mono order_trans)
    show ?thesis
    proof (cases "ws = []")
      case True
      then have "int (length (rl_second s)) < second_capacity cps"
        using second_room [OF win(1) ws _ c cps] by simp
      with shrink [of "second_window_seconds cfg"] win(1) s'(1) show ?thesis by simp
    next
      case False
      show ?thesis
      proof (cases "1 \<le> cps")
        case True
        then have v: "second_window_seconds cfg = 1" using c by (simp add: second_window_seconds_def)
        have "1 \<le> \<lfloor>cps\<rfloor>" using True by (simp add: le_floor_iff)
        then have ne: "rl_second s \<noteq> []" and "ws = [1 - (now - hd (rl_second s))]"
          using True False ws c by (auto simp: second_waits_def split: if_splits)
        then have "1 - (now - hd (rl_second s)) \<le> w" using wl longest_wait_ge by simp
        then have "length (rl_second s') < length (rl_second s)"
          using recent_head_expires [of now 1 ?ts now'] ne win(1) s'(1) v later by simp
        with cap show ?thesis by simp
      next
        case small: False
        then have v: "second_window_seconds cfg = 1 / cps" using c cps by (simp add: second_window_seconds_def)
        have ne: "rl_second s \<noteq> []" and "ws = [1 / cps - (now - last (rl_second s))]"
          using small False ws c cps by (auto simp: second_waits_def split: if_splits)
        then have "1 / cps - (now - last (rl_second s)) \<le> w" using wl longest_wait_ge by simp
        then have "rl_second s' = []"
          using recent_last_expires [OF srt, of now "1 / cps" now'] ne win(1) s'(1) v later by simp
        then show ?thesis by (simp add: second_capacity_def)
      qed
    qed
  qed
  moreover have "int (length (rl_minute s')) < cpm" if c: "lc_per_minute cfg = Some cpm" for cpm
  proof -
    have "0 < cpm" using pos c by (simp add: positive_limits_def)
    then have cap: "int (length (rl_minute s)) \<le> cpm"
      using recent_le_window [OF srt le, of 60] lim c win(2)
      unfolding within_limits_def by (metis of_nat_mono order_trans)
    show ?thesis
    proof (cases "ms = []")
      case True
      then have "int (length (rl_minute s)) < cpm" using minute_room [OF win(2) ms _ c] by simp
      with shrink [of 60] win(2) s'(2) show ?thesis by simp
    next
      case False
      then have ne: "rl_minute s \<noteq> []" and "ms = [60 - (now - hd (rl_minute s))]"
        using ms c by (auto simp: minute_waits_def split: if_splits)
      then have "60 - (now - hd (rl_minute s)) \<le> w" using wl longest_wait_ge by simp
      then have "length (rl_minute s') < length (rl_minute s)"
        using recent_head_expires [of now 60 ?ts now'] ne win(2) s'(2) later by simp
      with cap show ?thesis by simp
    qed
  qed
  ultimately show ?thesis by (simp add: window_room_def)
qed

text \<open>
  C35: a caller that waits alone is admitted after one sleep: if the first look asks for a wait
  the remaining budget covers, the sleep lasts at least that long and the calendar does not go
  back, then the second look admits the call.
\<close>

theorem one_sleep_admits:
  assumes "positive_limits cfg" and "monotone_clock day (ops @ [Read now today])"
    and "limiter_run cfg day ops = (s, lg)"
    and "snd (try_admit cfg now today s) = Wait w"
    and "deadline = None \<or> (\<exists>d. deadline = Some d \<and> w \<le> d - after)"
    and "now + max w (1 / 1000) \<le> tk_now t2" and "today \<le> tk_today t2"
  shows "\<exists>s'. acquire_loop cfg True deadline (\<lparr>tk_now = now, tk_today = today, tk_after = after\<rparr> # t2 # ts) s =
    (s', Acquired, [max w (1 / 1000)])"
proof -
  let ?s1 = "refresh cfg now today s"
  let ?s2 = "?s1\<lparr>rl_blocked := rl_blocked ?s1 + 1\<rparr>"
  let ?s3 = "refresh cfg (tk_now t2) (tk_today t2) ?s2"
  have first: "try_admit cfg now today s = (?s2, Wait w)" and wpos: "0 < w"
    and req: "required_wait_seconds cfg now ?s1 = Inr w" and open1: "\<not> daily_quota_exhausted cfg ?s1"
    using assms(4) by (cases rule: try_admit_cases [of cfg now today s]; auto simp: try_admit_def Let_def
        split: if_splits sum.splits)+
  from run_then_refresh [OF assms(2,3)] have tr: "windows_track cfg now (?s1, lg)"
    and lim: "within_limits cfg lg" by simp_all
  have later: "now + w \<le> tk_now t2" "now \<le> tk_now t2" using assms(6) wpos by linarith+
  have d1: "rl_day ?s2 = today" by (simp add: refresh_def trim_windows_def rollover_day_def)
  have tr3: "windows_track cfg (tk_now t2) (?s3, lg)" and day3: "rl_day ?s3 = tk_today t2"
    using refresh_tracks [of cfg now ?s2 lg "tk_now t2" "tk_today t2"] tr later(2) assms(7) d1 by simp_all
  have room: "window_room cfg ?s3"
    using room_after_wait [OF tr lim assms(1) req later] tr3 by (simp add: windows_track_def)
  have "\<not> daily_quota_exhausted cfg ?s3"
    using open1 tr by (auto simp: daily_quota_exhausted_def refresh_def trim_windows_def rollover_day_def
        windows_track_def split: option.splits if_splits)
  with room have "snd (try_admit cfg (tk_now t2) (tk_today t2) ?s2) = Admit"
    by (simp add: try_admit_def Let_def room_no_wait)
  then obtain s' where second: "try_admit cfg (tk_now t2) (tk_today t2) ?s2 = (s', Admit)"
    by (cases "try_admit cfg (tk_now t2) (tk_today t2) ?s2") auto
  from assms(5) show ?thesis using first second wpos by (auto simp: min_def)
qed

text \<open>The first of two calls in one half second, for a service limited to one call per second.\<close>

definition one_per_second :: limiter_config where
  "one_per_second = \<lparr>lc_per_second = Some 1, lc_per_minute = Some 30, lc_per_day = None, lc_name = ''default''\<rparr>"

lemmas limiter_evals = limiter_run_def init_limiter_def try_admit_def refresh_def trim_windows_def
  rollover_day_def daily_quota_exhausted_def required_wait_seconds_def second_waits_def minute_waits_def
  second_window_seconds_def record_call_def Let_def

theorem one_sleep_admits_witness:
  "\<exists>s'. acquire_loop one_per_second True (Some 31)
     [\<lparr>tk_now = 1 / 2, tk_today = 0, tk_after = 1 / 2\<rparr>, \<lparr>tk_now = 1, tk_today = 0, tk_after = 1\<rparr>]
     (fst (limiter_run one_per_second 0 [Try 0 0])) = (s', Acquired, [max (1 / 2) (1 / 1000)])"
proof -
  have w: "snd (try_admit one_per_second (1 / 2) 0 (fst (limiter_run one_per_second 0 [Try 0 0]))) = Wait (1 / 2)"
    by (simp add: limiter_evals one_per_second_def)
  obtain s lg where r: "limiter_run one_per_second 0 [Try 0 0] = (s, lg)"
    by (cases "limiter_run one_per_second 0 [Try 0 0]")
  with w have w': "snd (try_admit one_per_second (1 / 2) 0 s) = Wait (1 / 2)" by simp
  show ?thesis unfolding r fst_conv
    by (rule one_sleep_admits [where ops = "[Try 0 0]" and day = 0, OF _ _ r w'])
      (simp_all add: positive_limits_def one_per_second_def monotone_clock_def)
qed

text \<open>
  a limit of zero calls per minute does not deny: the first \<open>acquire\<close> indexes the empty
  window and raises an IndexError, with and without blocking, and the call is not counted as
  blocked.
\<close>

theorem zero_per_minute_raises:
  assumes "lc_per_minute cfg = Some 0" and "lc_per_second cfg = None" and "lc_per_day cfg = None"
  shows "acquire cfg block max_wait start (t # ts) (init_limiter (tk_today t)) =
    (init_limiter (tk_today t), Acquire_fault IndexError, [])"
  using assms by (simp add: acquire_def limiter_evals)

theorem zero_per_minute_raises_witness:
  "acquire \<lparr>lc_per_second = None, lc_per_minute = Some 0, lc_per_day = None, lc_name = ''off''\<rparr> False None 0
     [\<lparr>tk_now = 0, tk_today = 3, tk_after = 0\<rparr>] (init_limiter 3) = (init_limiter 3, Acquire_fault IndexError, [])"
  using zero_per_minute_raises [of "\<lparr>lc_per_second = None, lc_per_minute = Some 0, lc_per_day = None, lc_name = ''off''\<rparr>"
      False None 0 "\<lparr>tk_now = 0, tk_today = 3, tk_after = 0\<rparr>" "[]"]
  by simp

end
