(* ===== verification/Rate_Service.thy ===== *)
theory Rate_Service
  imports Rate_Waiting Py_Text
begin

text \<open>
  The registry of limiters, the dashboard over it and the retry wrapper of
  src/utils/rate_limiter.py. A limiter object is its configuration and its state; the registry
  is a dictionary from the lower-cased service name.
\<close>

type_synonym limiter_object = "limiter_config \<times> limiter"
type_synonym limiter_registry = "(string \<times> limiter_object) list"

definition limits :: "rat \<Rightarrow> int \<Rightarrow> int option \<Rightarrow> string \<Rightarrow> limiter_config" where
  "limits cps cpm cpd name =
     \<lparr>lc_per_second = Some cps, lc_per_minute = Some cpm, lc_per_day = cpd, lc_name = name\<rparr>"

definition DEFAULT_SERVICE_LIMITS :: "(string \<times> limiter_config) list" where
  "DEFAULT_SERVICE_LIMITS =
     [(''gmail'', limits 10 250 (Some 15000) ''Gmail API''),
      (''drive'', limits 10 600 (Some 12000) ''Google Drive API''),
      (''vision'', limits 20 1800 (Some 50000) ''Cloud Vision API''),
      (''waveapps'', limits 2 60 (Some 5000) ''WaveApps''),
      (''mijngeldzaken'', limits 1 30 (Some 2000) ''MijnGeldzaken''),
      (''hunyuan'', limits 5 100 (Some 10000) ''Hunyuan OCR''),
      (''ing_bank'', limits (1 / 2) 15 (Some 500) ''ING Bank''),
      (''wise'', limits 2 60 (Some 3000) ''Wise''),
      (''svb'', limits (1 / 2) 15 (Some 500) ''SVB'')]"

definition service_settings :: "string \<Rightarrow> limiter_config" where
  "service_settings key =
     (case map_of DEFAULT_SERVICE_LIMITS key of None \<Rightarrow> limits 1 30 None key | Some c \<Rightarrow> c)"

definition get_rate_limiter :: "string \<Rightarrow> int \<Rightarrow> limiter_registry \<Rightarrow> limiter_registry \<times> limiter_object" where
  "get_rate_limiter service today reg =
     (let key = lower service in
      case map_of reg key of
        Some l \<Rightarrow> (reg, l)
      | None \<Rightarrow> (let l = (service_settings key, init_limiter today) in (dset key l reg, l)))"

definition set_rate_limiter ::
  "string \<Rightarrow> rat option \<Rightarrow> int option \<Rightarrow> int option \<Rightarrow> string option \<Rightarrow> limiter_object option \<Rightarrow> int \<Rightarrow>
   limiter_registry \<Rightarrow> limiter_registry \<times> limiter_object" where
  "set_rate_limiter service cps cpm cpd name given today reg =
     (let l = (case given of
                 Some l \<Rightarrow> l
               | None \<Rightarrow>
                   (\<lparr>lc_per_second = cps, lc_per_minute = cpm, lc_per_day = cpd,
                     lc_name = (case name of None \<Rightarrow> service | Some n \<Rightarrow> if n = [] then service else n)\<rparr>,
                    init_limiter today))
      in (dset (lower service) l reg, l))"

definition reset_all_limiters :: "limiter_registry \<Rightarrow> limiter_registry" where
  "reset_all_limiters reg = []"

fun ensure_services :: "string list \<Rightarrow> int \<Rightarrow> limiter_registry \<Rightarrow> limiter_registry" where
  "ensure_services [] today reg = reg"
| "ensure_services (k # ks) today reg = ensure_services ks today (fst (get_rate_limiter k today reg))"

definition get_all_rates ::
  "(string \<Rightarrow> rat \<times> int) \<Rightarrow> int \<Rightarrow> limiter_registry \<Rightarrow> limiter_registry \<times> (string \<times> rate_report) list" where
  "get_all_rates clock today reg =
     (let reg1 = ensure_services (map fst DEFAULT_SERVICE_LIMITS) today reg;
          ask = (\<lambda>k (cfg, s). get_current_rate cfg (fst (clock k)) (snd (clock k)) s)
      in (map (\<lambda>(k, cfg, s). (k, cfg, fst (ask k (cfg, s)))) reg1,
          map (\<lambda>(k, l). (k, snd (ask k l))) (sort_key fst reg1)))"

definition get_rate_limit_dashboard ::
  "(string \<Rightarrow> rat \<times> int) \<Rightarrow> int \<Rightarrow> limiter_registry \<Rightarrow> limiter_registry \<times> string list" where
  "get_rate_limit_dashboard clock today reg =
     (let (reg1, rates) = get_all_rates clock today reg in
      (reg1,
       [''FAB Rate Limiter Dashboard'', ''Service | Used today | Remaining today | Blocked''] @
       map (\<lambda>(k, r). k @ '' | '' @ str_of_int (rr_daily r) @ '' | '' @
              (case rr_remaining r of None \<Rightarrow> ''unlimited'' | Some n \<Rightarrow> str_of_int n) @ '' | '' @
              str_of_int (rr_blocked r)) rates))"

section \<open>Retrying\<close>

text \<open>
  One round of \<open>rate_limit_with_retry\<close>: the acquisition (an exception there propagates), the call,
  and the random addition to the delay. The loop returns the outcome, the number of calls made
  and the delays slept.
\<close>

datatype 'a call_outcome = Returned 'a | Retryable py_exc | Unexpected py_exc

record 'a round =
  rd_acquire :: "py_exc option"
  rd_call :: "'a call_outcome"
  rd_draw :: rat

datatype 'a retried = Result 'a | Gave_up py_exc | Pending

definition retry_pause :: "rat \<Rightarrow> rat \<Rightarrow> rat \<Rightarrow> nat \<Rightarrow> rat \<Rightarrow> rat" where
  "retry_pause base_delay max_delay jitter attempt draw =
     min max_delay (base_delay * 2 ^ (attempt - 1)) + (if jitter \<noteq> 0 then draw else 0)"

fun rate_limit_with_retry ::
  "nat \<Rightarrow> rat \<Rightarrow> rat \<Rightarrow> rat \<Rightarrow> nat \<Rightarrow> 'a round list \<Rightarrow> 'a retried \<times> nat \<times> rat list" where
  "rate_limit_with_retry max_retries base mx jitter attempt [] = (Pending, 0, [])"
| "rate_limit_with_retry max_retries base mx jitter attempt (r # rs) =
     (case rd_acquire r of
        Some e \<Rightarrow> (Gave_up e, 0, [])
      | None \<Rightarrow>
          (case rd_call r of
             Returned v \<Rightarrow> (Result v, 1, [])
           | Unexpected e \<Rightarrow> (Gave_up e, 1, [])
           | Retryable e \<Rightarrow>
               if max_retries < attempt + 1 then (Gave_up e, 1, [])
               else (let (res, n, ds) = rate_limit_with_retry max_retries base mx jitter (attempt + 1) rs
                     in (res, Suc n, retry_pause base mx jitter (attempt + 1) (rd_draw r) # ds))))"

section \<open>Facts\<close>

lemma lower_lower [simp]: "lower (lower s) = lower s"
proof -
  have small: "of_char (lower_char c) < (65 :: nat) \<or> (90 :: nat) < of_char (lower_char c)" for c
    by (auto simp: lower_char_def Let_def)
  have "lower_char (lower_char c) = lower_char c" for c
    using small [of c] unfolding lower_char_def [of "lower_char c"] by (auto simp: Let_def)
  then show ?thesis by (simp add: lower_def)
qed

lemma get_after_get:
  "get_rate_limiter service2 later (fst (get_rate_limiter service today reg)) =
     (if lower service2 = lower service then get_rate_limiter service today reg
      else get_rate_limiter service2 later (fst (get_rate_limiter service today reg)))"
  by (auto simp: get_rate_limiter_def Let_def map_of_dset split: option.split)

lemma ensure_keeps: "map_of reg k = Some l \<Longrightarrow> map_of (ensure_services ks today reg) k = Some l"
proof (induction ks arbitrary: reg)
  case (Cons s ks)
  then have "map_of (fst (get_rate_limiter s today reg)) k = Some l"
    by (auto simp: get_rate_limiter_def Let_def map_of_dset split: option.split)
  with Cons.IH show ?case by simp
qed simp

lemma ensure_all: "k \<in> set ks \<Longrightarrow> map_of (ensure_services ks today reg) (lower k) \<noteq> None"
proof (induction ks arbitrary: reg)
  case (Cons s ks)
  show ?case
  proof (cases "k = s")
    case True
    have "map_of (fst (get_rate_limiter s today reg)) (lower s) \<noteq> None"
      by (auto simp: get_rate_limiter_def Let_def map_of_dset split: option.split)
    then show ?thesis using True ensure_keeps by fastforce
  next
    case False
    with Cons show ?thesis by simp
  qed
qed simp

text \<open>
  C39: a retried call is made at most \<open>max_retries + 1\<close> times, every pause between two calls is
  at most \<open>max_delay\<close> plus the random part, and the wrapper ends: after \<open>max_retries + 1\<close> rounds
  it has returned the result of a call or raised an exception.
\<close>

theorem retries_are_bounded:
  assumes "rate_limit_with_retry max_retries base mx jitter 0 rounds = (res, n, pauses)"
  shows "n \<le> max_retries + 1 \<and> length pauses \<le> max_retries \<and> (max_retries < length rounds \<longrightarrow> res \<noteq> Pending) \<and>
    (0 \<le> jitter \<and> (\<forall>r \<in> set rounds. rd_draw r \<le> jitter) \<longrightarrow> (\<forall>p \<in> set pauses. p \<le> mx + jitter))"
proof -
  have "attempt \<le> max_retries \<Longrightarrow>
      rate_limit_with_retry max_retries base mx jitter attempt rs = (res', n', ps) \<Longrightarrow>
      n' + attempt \<le> max_retries + 1 \<and> length ps + attempt \<le> max_retries \<and>
      (max_retries < attempt + length rs \<longrightarrow> res' \<noteq> Pending) \<and>
      (0 \<le> jitter \<and> (\<forall>r \<in> set rs. rd_draw r \<le> jitter) \<longrightarrow> (\<forall>p \<in> set ps. p \<le> mx + jitter))"
    for attempt rs res' n' ps
  proof (induction max_retries base mx jitter attempt rs arbitrary: n' ps rule: rate_limit_with_retry.induct)
    case (2 max_retries base mx jitter attempt r rs)
    have "0 \<le> jitter \<Longrightarrow> rd_draw r \<le> jitter \<Longrightarrow> retry_pause base mx jitter (attempt + 1) (rd_draw r) \<le> mx + jitter"
      by (auto simp: retry_pause_def min_def intro: add_mono)
    with 2 show ?case by (fastforce split: option.splits call_outcome.splits if_splits prod.splits)
  qed simp
  from this [of 0 rounds res n pauses] assms show ?thesis by simp
qed

theorem retries_are_bounded_witness:
  "let (res, n, pauses) = rate_limit_with_retry 1 1 30 (1 / 10) 0
     [\<lparr>rd_acquire = None, rd_call = Retryable (Raised ''timeout''), rd_draw = 1 / 20\<rparr>,
      \<lparr>rd_acquire = None, rd_call = Returned (7 :: nat), rd_draw = 0\<rparr>]
   in res = Result 7 \<and> res \<noteq> Pending \<and> n \<le> 1 + 1 \<and> length pauses \<le> 1 \<and> (\<forall>p \<in> set pauses. p \<le> 30 + 1 / 10)"
proof -
  let ?rs = "[\<lparr>rd_acquire = None, rd_call = Retryable (Raised ''timeout''), rd_draw = 1 / 20\<rparr>,
      \<lparr>rd_acquire = None, rd_call = Returned (7 :: nat), rd_draw = 0\<rparr>]"
  obtain res n ps where r: "rate_limit_with_retry 1 1 30 (1 / 10) 0 ?rs = (res, n, ps)"
    by (cases "rate_limit_with_retry 1 1 30 (1 / 10) 0 ?rs")
  have "res = Result 7" using r by auto
  with retries_are_bounded [OF r] show ?thesis
    unfolding r Let_def prod.case by simp
qed

text \<open>
  a service name has one limiter object, whatever the letter case of the name and whatever
  other services are asked for in between, until the registry is reset or the limiter replaced.
\<close>

theorem one_limiter_per_service:
  assumes "lower service2 = lower service"
  shows "let (reg1, l) = get_rate_limiter service today reg;
      reg2 = ensure_services others later reg1
    in get_rate_limiter service2 later2 reg2 = (reg2, l)"
proof -
  obtain reg1 l where g: "get_rate_limiter service today reg = (reg1, l)"
    by (cases "get_rate_limiter service today reg")
  then have "map_of reg1 (lower service) = Some l"
    by (auto simp: get_rate_limiter_def Let_def map_of_dset split: option.splits)
  then have "map_of (ensure_services others later reg1) (lower service2) = Some l"
    using ensure_keeps assms by simp
  with g show ?thesis by (simp add: get_rate_limiter_def)
qed

theorem one_limiter_per_service_witness:
  "let (reg1, l) = get_rate_limiter ''WaveApps'' 0 [];
      reg2 = ensure_services [''gmail'', ''svb''] 1 reg1
    in get_rate_limiter ''waveapps'' 2 reg2 = (reg2, l)"
  by (rule one_limiter_per_service) code_simp

end
