(* ===== verification/Rate_Refinement.thy ===== *)
theory Rate_Refinement
  imports Rate_Limits
begin

text \<open>
  The limiter of src/utils/rate_limiter.py keeps two pruned windows and a counter of the day. Its
  specification keeps every call that was ever admitted and decides from that history alone; the
  limiter gives the same answers as the specification as long as the clock does not go back.
\<close>

section \<open>Machines that answer\<close>

fun answers :: "('o \<Rightarrow> 's \<Rightarrow> 's \<times> 'r) \<Rightarrow> 'o list \<Rightarrow> 's \<Rightarrow> 'r list" where
  "answers step [] s = []"
| "answers step (x # xs) s = (case step x s of (s', r) \<Rightarrow> r # answers step xs s')"

text \<open>
  A concrete machine simulates an abstract one along a relation that is indexed by the moment of
  the last operation, for operations that may follow that moment.
\<close>

locale simulation =
  fixes abs_step :: "'o \<Rightarrow> 'a \<Rightarrow> 'a \<times> 'r" and conc_step :: "'o \<Rightarrow> 'c \<Rightarrow> 'c \<times> 'r"
    and sim :: "'t \<Rightarrow> 'c \<Rightarrow> 'a \<Rightarrow> bool" and follows :: "'t \<Rightarrow> 'o \<Rightarrow> bool" and moment :: "'o \<Rightarrow> 't"
  assumes same_answer: "sim t c a \<Longrightarrow> follows t x \<Longrightarrow> snd (conc_step x c) = snd (abs_step x a)"
    and sim_step: "sim t c a \<Longrightarrow> follows t x \<Longrightarrow> sim (moment x) (fst (conc_step x c)) (fst (abs_step x a))"
begin

fun in_order :: "'t \<Rightarrow> 'o list \<Rightarrow> bool" where
  "in_order t [] \<longleftrightarrow> True"
| "in_order t (x # xs) \<longleftrightarrow> follows t x \<and> in_order (moment x) xs"

lemma same_answers: "sim t c a \<Longrightarrow> in_order t xs \<Longrightarrow> answers conc_step xs c = answers abs_step xs a"
proof (induction xs arbitrary: t c a)
  case (Cons x xs)
  then show ?case
    using same_answer [of t c a x] sim_step [of t c a x] Cons.IH [of "moment x" "fst (conc_step x c)" "fst (abs_step x a)"]
    by (simp add: case_prod_beta)
qed simp

end

section \<open>The specification\<close>

record call_history =
  ch_calls :: call_log
  ch_blocked :: int

definition empty_history :: call_history where
  "empty_history = \<lparr>ch_calls = [], ch_blocked = 0\<rparr>"

text \<open>
  What a limit still asks a caller to wait, given all calls so far: until the oldest of the recent
  calls leaves the full window, or, below one call per second, until the interval since the last call
  has passed. A limit of zero per minute, or per second after a call of the last second, has no
  waiting time and raises.
\<close>

definition window_wait :: "rat \<Rightarrow> int \<Rightarrow> rat \<Rightarrow> rat list \<Rightarrow> rat" where
  "window_wait w cap now calls =
     (if cap \<le> int (length (recent now w calls)) then w - (now - hd (recent now w calls)) else 0)"

definition interval_wait :: "rat \<Rightarrow> rat \<Rightarrow> rat list \<Rightarrow> rat" where
  "interval_wait w now calls = (if calls = [] then 0 else max 0 (w - (now - last calls)))"

definition per_second_wait :: "limiter_config \<Rightarrow> rat \<Rightarrow> rat list \<Rightarrow> rat result" where
  "per_second_wait cfg now calls =
     (case lc_per_second cfg of
        None \<Rightarrow> Inr 0
      | Some cps \<Rightarrow>
          if 1 \<le> cps then Inr (window_wait 1 \<lfloor>cps\<rfloor> now calls)
          else if 0 < cps then Inr (interval_wait (1 / cps) now calls)
          else if cps = 0 \<and> recent now 1 calls \<noteq> [] then Inl ZeroDivisionError
          else Inr 0)"

definition per_minute_wait :: "limiter_config \<Rightarrow> rat \<Rightarrow> rat list \<Rightarrow> rat result" where
  "per_minute_wait cfg now calls =
     (case lc_per_minute cfg of
        None \<Rightarrow> Inr 0
      | Some cpm \<Rightarrow> if cpm \<le> 0 \<and> recent now 60 calls = [] then Inl IndexError else Inr (window_wait 60 cpm now calls))"

definition day_full :: "limiter_config \<Rightarrow> int \<Rightarrow> call_log \<Rightarrow> bool" where
  "day_full cfg day lg = (case lc_per_day cfg of None \<Rightarrow> False | Some cpd \<Rightarrow> cpd \<le> int (calls_on day lg))"

definition decide_call :: "limiter_config \<Rightarrow> rat \<Rightarrow> int \<Rightarrow> call_log \<Rightarrow> admission" where
  "decide_call cfg now day lg =
     (if day_full cfg day lg then No_quota
      else case per_second_wait cfg now (map fst lg) of
             Inl e \<Rightarrow> Fault e
           | Inr a \<Rightarrow>
               (case per_minute_wait cfg now (map fst lg) of
                  Inl e \<Rightarrow> Fault e
                | Inr b \<Rightarrow> if max a b = 0 then Admit else Wait (max a b)))"

definition history_after :: "rat \<Rightarrow> int \<Rightarrow> admission \<Rightarrow> call_history \<Rightarrow> call_history" where
  "history_after now day r h =
     (case r of
        Admit \<Rightarrow> h\<lparr>ch_calls := ch_calls h @ [(now, day)]\<rparr>
      | Fault e \<Rightarrow> h
      | _ \<Rightarrow> h\<lparr>ch_blocked := ch_blocked h + 1\<rparr>)"

definition history_report :: "limiter_config \<Rightarrow> rat \<Rightarrow> int \<Rightarrow> call_history \<Rightarrow> rate_report" where
  "history_report cfg now day h =
     (let calls = map fst (ch_calls h); today = int (calls_on day (ch_calls h)) in
      \<lparr>rr_second = int (length (recent now (second_window_seconds cfg) calls)), rr_minute = int (length (recent now 60 calls)),
       rr_daily = today, rr_remaining = map_option (\<lambda>cpd. max (cpd - today) 0) (lc_per_day cfg),
       rr_total = int (length calls), rr_blocked = ch_blocked h, rr_exhausted = day_full cfg day (ch_calls h)\<rparr>)"

datatype limiter_answer = Decided admission | Reported rate_report

fun history_step :: "limiter_config \<Rightarrow> limiter_op \<Rightarrow> call_history \<Rightarrow> call_history \<times> limiter_answer" where
  "history_step cfg (Try t d) h = (history_after t d (decide_call cfg t d (ch_calls h)) h, Decided (decide_call cfg t d (ch_calls h)))"
| "history_step cfg (Read t d) h = (h, Reported (history_report cfg t d h))"

section \<open>The limiter\<close>

fun window_step :: "limiter_config \<Rightarrow> limiter_op \<Rightarrow> limiter \<Rightarrow> limiter \<times> limiter_answer" where
  "window_step cfg (Try t d) s = (case try_admit cfg t d s of (s', r) \<Rightarrow> (s', Decided r))"
| "window_step cfg (Read t d) s = (case get_current_rate cfg t d s of (s', r) \<Rightarrow> (s', Reported r))"

definition refines_history :: "limiter_config \<Rightarrow> rat \<times> int \<Rightarrow> limiter \<Rightarrow> call_history \<Rightarrow> bool" where
  "refines_history cfg = (\<lambda>(now, day) s h.
     windows_track cfg now (s, ch_calls h) \<and> rl_day s = day \<and>
     rl_total s = int (length (ch_calls h)) \<and> rl_blocked s = ch_blocked h)"

definition clock_allows :: "rat \<times> int \<Rightarrow> limiter_op \<Rightarrow> bool" where
  "clock_allows = (\<lambda>(now, day) x. now \<le> op_time x \<and> day \<le> op_day x)"

lemma clock_allows_iff: "clock_allows (now, day) x \<longleftrightarrow> now \<le> op_time x \<and> day \<le> op_day x"
  by (simp add: clock_allows_def)

section \<open>The windows answer like the history\<close>

lemma recent_last: "recent now w (us @ [t]) \<noteq> [] \<Longrightarrow> sorted (us @ [t]) \<Longrightarrow> last (recent now w (us @ [t])) = t \<and> now - t < w"
  by (cases "now - t < w") (fastforce simp: recent_def sorted_append filter_empty_conv)+

lemma interval_wait_recent:
  assumes "sorted calls" and "0 < w"
  shows "interval_wait w now calls =
    (if recent now w calls = [] then 0 else w - (now - last (recent now w calls)))"
proof (cases calls rule: rev_cases)
  case Nil
  then show ?thesis by (simp add: interval_wait_def recent_def)
next
  case (snoc us t)
  show ?thesis
  proof (cases "recent now w calls = []")
    case True
    then show ?thesis using snoc by (simp add: interval_wait_def recent_def split: if_splits)
  next
    case False
    then show ?thesis using snoc recent_last [of now w us t] assms(1) by (simp add: interval_wait_def)
  qed
qed

lemma window_wait_pos:
  assumes "cap \<le> int (length (recent now w calls))" and "recent now w calls \<noteq> []"
  shows "0 < window_wait w cap now calls"
  using assms recent_members [of "hd (recent now w calls)" now w calls] by (simp add: window_wait_def)

lemma second_waits_history:
  assumes "rl_second s = recent now (second_window_seconds cfg) calls" and "sorted calls" and "\<forall>t \<in> set calls. t \<le> now"
  shows "per_second_wait cfg now calls = map_sum id (\<lambda>ws. fold max ws 0) (second_waits cfg now s)"
proof (cases "lc_per_second cfg")
  case None
  then show ?thesis by (simp add: per_second_wait_def second_waits_def)
next
  case (Some cps)
  consider "1 \<le> cps" | "0 < cps" "cps < 1" | "cps \<le> 0" by linarith
  then show ?thesis
  proof cases
    case 1
    then have w: "rl_second s = recent now 1 calls" using assms(1) Some by (simp add: second_window_seconds_def)
    have "recent now 1 calls \<noteq> []" if "\<lfloor>cps\<rfloor> \<le> int (length (recent now 1 calls))"
    proof
      assume "recent now 1 calls = []"
      with that have "\<lfloor>cps\<rfloor> \<le> 0" by simp
      with 1 show False by linarith
    qed
    then show ?thesis using Some 1 w window_wait_pos [of "\<lfloor>cps\<rfloor>" now 1 calls]
      by (auto simp: per_second_wait_def second_waits_def window_wait_def)
  next
    case 2
    then have w: "rl_second s = recent now (1 / cps) calls" using assms(1) Some by (simp add: second_window_seconds_def)
    show ?thesis using Some 2 w interval_wait_recent [OF assms(2), of "1 / cps" now]
        recent_members [of "last (recent now (1 / cps) calls)" now "1 / cps" calls]
      by (auto simp: per_second_wait_def second_waits_def)
  next
    case 3
    then have w: "rl_second s = recent now 1 calls" using assms(1) Some by (simp add: second_window_seconds_def)
    have neg: "1 / cps \<le> 0" using 3 by (simp add: divide_nonneg_nonpos)
    have "1 / cps - (now - t) \<le> 0" if "t \<in> set (recent now 1 calls)" for t
    proof -
      have "t \<le> now" using that assms(3) by (simp add: recent_def)
      with neg show ?thesis by linarith
    qed
    then show ?thesis using Some 3 w by (auto simp: per_second_wait_def second_waits_def)
  qed
qed

lemma minute_waits_history:
  assumes "rl_minute s = recent now 60 calls"
  shows "per_minute_wait cfg now calls = map_sum id (\<lambda>ws. fold max ws 0) (minute_waits cfg now s)"
proof (cases "lc_per_minute cfg")
  case None
  then show ?thesis by (simp add: per_minute_wait_def minute_waits_def)
next
  case (Some cpm)
  then show ?thesis using assms window_wait_pos [of cpm now 60 calls]
    by (auto simp: per_minute_wait_def minute_waits_def window_wait_def)
qed

lemma fold_max_pull: "fold max vs (max a b) = max (a :: rat) (fold max vs b)"
  by (induction vs arbitrary: b) (simp_all, metis max.left_commute)

lemma fold_max_longest: "fold max vs 0 = max 0 (longest_wait vs)"
  by (cases vs) (simp_all add: longest_wait_def fold_max_pull max.commute [of _ 0])

lemma fold_max_append: "fold max (ws @ ms) 0 = max (fold max ws 0) (fold max ms (0 :: rat))"
proof -
  have "0 \<le> fold max ws (0 :: rat)" by (simp add: fold_max_longest)
  then show ?thesis using fold_max_pull [of ms "fold max ws 0" 0] by (simp add: max.absorb1)
qed

lemma decide_history:
  assumes "windows_track cfg now (s, lg)" and "rl_day s = day"
  shows "decide_call cfg now day lg =
    (if daily_quota_exhausted cfg s then No_quota
     else case required_wait_seconds cfg now s of Inl e \<Rightarrow> Fault e | Inr w \<Rightarrow> if w \<le> 0 then Admit else Wait w)"
proof -
  have tr: "sorted (map fst lg)" "\<forall>t \<in> set (map fst lg). t \<le> now"
      "rl_second s = recent now (second_window_seconds cfg) (map fst lg)" "rl_minute s = recent now 60 (map fst lg)"
      "rl_daily s = int (calls_on day lg)"
    using assms by (auto simp: windows_track_def)
  have quota: "day_full cfg day lg = daily_quota_exhausted cfg s"
    using tr(5) by (simp add: day_full_def daily_quota_exhausted_def split: option.split)
  note sec = second_waits_history [OF tr(3,1,2)] and mnt = minute_waits_history [OF tr(4), of cfg]
  show ?thesis
  proof (cases "second_waits cfg now s")
    case (Inl e)
    then show ?thesis using quota sec by (simp add: decide_call_def required_wait_seconds_def)
  next
    case ws: (Inr ws)
    show ?thesis
    proof (cases "minute_waits cfg now s")
      case (Inl e)
      then show ?thesis using quota sec mnt ws by (simp add: decide_call_def required_wait_seconds_def)
    next
      case ms: (Inr ms)
      have "required_wait_seconds cfg now s = Inr (longest_wait (ws @ ms))"
        using ws ms by (simp add: required_wait_seconds_def longest_wait_def)
      moreover have "max (fold max ws 0) (fold max ms 0) = max 0 (longest_wait (ws @ ms))"
        using fold_max_append [of ws ms] fold_max_longest [of "ws @ ms"] by simp
      ultimately show ?thesis using quota sec mnt ws ms by (simp add: decide_call_def max_def)
    qed
  qed
qed

section \<open>Refinement\<close>

lemma try_admit_history:
  assumes "refines_history cfg (now, day) s h" and "now \<le> t" and "day \<le> d" and "try_admit cfg t d s = (s', r)"
  shows "r = decide_call cfg t d (ch_calls h)" and "refines_history cfg (t, d) s' (history_after t d r h)"
proof -
  have tr: "windows_track cfg now (s, ch_calls h)" "rl_day s \<le> d"
    using assms(1,3) by (simp_all add: refines_history_def)
  note tr1 = refresh_tracks [OF tr(1) assms(2) tr(2)]
  have keep: "rl_total (refresh cfg t d s) = int (length (ch_calls h))" "rl_blocked (refresh cfg t d s) = ch_blocked h"
    using assms(1) by (simp_all add: refines_history_def refresh_def trim_windows_def rollover_day_def)
  show r: "r = decide_call cfg t d (ch_calls h)"
    using assms(4) unfolding decide_history [OF tr1]
    by (auto simp: try_admit_def Let_def split: if_splits sum.splits)
  show "refines_history cfg (t, d) s' (history_after t d r h)"
    using assms(4) tr1 keep record_tracks [OF tr1]
    by (auto simp: try_admit_def Let_def refines_history_def history_after_def split: if_splits sum.splits)
      (simp_all add: record_call_def)
qed

lemma rate_report_history:
  assumes "refines_history cfg (now, day) s h" and "now \<le> t" and "day \<le> d" and "get_current_rate cfg t d s = (s', r)"
  shows "r = history_report cfg t d h" and "refines_history cfg (t, d) s' h"
proof -
  have tr: "windows_track cfg now (s, ch_calls h)" "rl_day s \<le> d"
    using assms(1,3) by (simp_all add: refines_history_def)
  note tr1 = refresh_tracks [OF tr(1) assms(2) tr(2)]
  have keep: "rl_total (refresh cfg t d s) = int (length (ch_calls h))" "rl_blocked (refresh cfg t d s) = ch_blocked h"
    using assms(1) by (simp_all add: refines_history_def refresh_def trim_windows_def rollover_day_def)
  have "rl_daily (refresh cfg t d s) = int (calls_on d (ch_calls h))"
      "rl_second (refresh cfg t d s) = recent t (second_window_seconds cfg) (map fst (ch_calls h))"
      "rl_minute (refresh cfg t d s) = recent t 60 (map fst (ch_calls h))"
    using tr1 by (auto simp: windows_track_def)
  then show "r = history_report cfg t d h"
    using assms(4) keep
    by (auto simp: get_current_rate_def Let_def history_report_def day_full_def daily_quota_exhausted_def
        split: option.split)
  show "refines_history cfg (t, d) s' h"
    using assms(4) keep tr1 by (auto simp: get_current_rate_def Let_def refines_history_def)
qed

interpretation window_limiter: simulation "history_step cfg" "window_step cfg" "refines_history cfg" clock_allows
    "\<lambda>x. (op_time x, op_day x)" for cfg
proof unfold_locales
  fix m s h x
  assume sim: "refines_history cfg m s h" and clock: "clock_allows m x"
  obtain now day where m: "m = (now, day)" by (cases m)
  have "snd (window_step cfg x s) = snd (history_step cfg x h) \<and>
      refines_history cfg (op_time x, op_day x) (fst (window_step cfg x s)) (fst (history_step cfg x h))"
  proof (cases x)
    case (Try t d)
    obtain s' r where st: "try_admit cfg t d s = (s', r)" by (cases "try_admit cfg t d s")
    show ?thesis using try_admit_history [OF sim [unfolded m] _ _ st] clock Try st m by (simp add: clock_allows_def)
  next
    case (Read t d)
    obtain s' r where st: "get_current_rate cfg t d s = (s', r)" by (cases "get_current_rate cfg t d s")
    show ?thesis using rate_report_history [OF sim [unfolded m] _ _ st] clock Read st m by (simp add: clock_allows_def)
  qed
  then show "snd (window_step cfg x s) = snd (history_step cfg x h)"
    "refines_history cfg (op_time x, op_day x) (fst (window_step cfg x s)) (fst (history_step cfg x h))"
    by simp_all
qed

lemma monotone_in_order:
  "sorted (now # map op_time ops) \<Longrightarrow> sorted (day # map op_day ops) \<Longrightarrow> window_limiter.in_order (now, day) ops"
  by (induction ops arbitrary: now day) (simp_all add: clock_allows_iff)

text \<open>
  C8: The limiter, which forgets the calls that left its windows, gives the same answers as a limiter
  that keeps the whole history: the same admissions, refusals, waiting times, faults and quota
  reports, for any sequence of operations while the clock and the calendar do not go back.
\<close>

theorem limiter_refines_call_history:
  assumes "monotone_clock day ops"
  shows "answers (window_step cfg) ops (init_limiter day) = answers (history_step cfg) ops empty_history"
proof (cases ops)
  case (Cons x xs)
  have "refines_history cfg (op_time x, day) (init_limiter day) empty_history"
    by (simp add: refines_history_def windows_track_def init_limiter_def empty_history_def recent_def calls_on_def)
  then show ?thesis
    by (rule window_limiter.same_answers)
      (use assms Cons in \<open>auto intro!: monotone_in_order simp: monotone_clock_def clock_allows_iff\<close>)
qed simp

theorem limiter_refines_call_history_witness:
  "answers (window_step ing_limits) [Try 0 7, Try 1 7, Read 1 7, Try 2 7, Try 3 8] (init_limiter 7) =
   answers (history_step ing_limits) [Try 0 7, Try 1 7, Read 1 7, Try 2 7, Try 3 8] empty_history"
  by (rule limiter_refines_call_history) (simp add: monotone_clock_def)

end
