(* ===== verification/Runtime_Control.thy ===== *)
theory Runtime_Control
  imports Py_Text
begin

text \<open>
  Runtime leases and controls of the local operations ledger (src/operations/local_ledger.py)
  and the operator's emergency stop (src/operations/local_autonomy_control.py). A lease row names
  its owner's token and its expiry; acquiring runs in one immediate transaction. Audit events
  are appended to the ledger's event list.
\<close>

section \<open>State\<close>

record ledger_event =
  ev_action :: string
  ev_entity_type :: string
  ev_entity_id :: pyval
  ev_details :: pydict
  ev_at :: timestamp

record lease_row =
  ls_owner :: string
  ls_acquired :: timestamp
  ls_heartbeat :: timestamp
  ls_expires :: "timestamp option" \<comment> \<open>\<open>None\<close>: the stored text does not parse\<close>
  ls_metadata :: pydict
  ls_created :: timestamp
  ls_updated :: timestamp

record control_row =
  ct_active :: bool
  ct_reason :: string
  ct_updated_by :: string
  ct_metadata :: pydict
  ct_created :: timestamp
  ct_updated :: timestamp

record runtime_db =
  rt_leases :: "(string \<times> lease_row) list"
  rt_controls :: "(string \<times> control_row) list"
  rt_events :: "ledger_event list"

definition empty_runtime_db :: runtime_db where
  "empty_runtime_db = \<lparr>rt_leases = [], rt_controls = [], rt_events = []\<rparr>"

text \<open>\<open>_now()\<close> of the ledger drops the microseconds.\<close>

definition whole_second :: "timestamp \<Rightarrow> timestamp" where
  "whole_second t = Timestamp (1000000 * (micros t div 1000000))"

definition audit_event ::
  "ledger_env \<Rightarrow> string \<Rightarrow> string \<Rightarrow> pyval \<Rightarrow> pydict \<Rightarrow> timestamp \<Rightarrow> ledger_event" where
  "audit_event env action etype eid details now =
     \<lparr>ev_action = action, ev_entity_type = etype, ev_entity_id = eid,
      ev_details = redact_dict env details, ev_at = whole_second now\<rparr>"

definition record_runtime_event ::
  "ledger_env \<Rightarrow> string \<Rightarrow> string \<Rightarrow> pyval \<Rightarrow> pydict \<Rightarrow> timestamp \<Rightarrow> runtime_db \<Rightarrow> runtime_db" where
  "record_runtime_event env action etype eid details now db =
     db\<lparr>rt_events := rt_events db @ [audit_event env action etype eid details now]\<rparr>"

section \<open>Leases\<close>

record public_lease =
  pl_name :: string
  pl_active :: bool
  pl_acquired_at :: timestamp
  pl_heartbeat_at :: timestamp
  pl_expires_at :: "timestamp option"
  pl_metadata :: pydict

definition public_runtime_lease :: "string \<Rightarrow> lease_row \<Rightarrow> timestamp \<Rightarrow> public_lease" where
  "public_runtime_lease name r now =
     \<lparr>pl_name = name,
      pl_active = (case ls_expires r of None \<Rightarrow> False | Some t \<Rightarrow> now < t),
      pl_acquired_at = ls_acquired r, pl_heartbeat_at = ls_heartbeat r,
      pl_expires_at = ls_expires r, pl_metadata = ls_metadata r\<rparr>"

text \<open>
  \<open>max(float(ttl_seconds), 1.0)\<close>, six hours when the value is no number; an infinite value
  overflows and NaN (which \<open>max\<close> keeps) is refused when the expiry is computed.
\<close>

definition lease_ttl :: "pyval \<Rightarrow> pyfloat" where
  "lease_ttl v =
     (case to_float v of
        Inl _ \<Rightarrow> Num 21600
      | Inr f \<Rightarrow> if flt_less f (Num 1) then Num 1 else f)"

definition lease_expiry :: "timestamp \<Rightarrow> pyfloat \<Rightarrow> timestamp result" where
  "lease_expiry now ttl =
     (case ttl of
        Num r \<Rightarrow>
          (let t = round_half_even (of_int (micros now) + r * 1000000)
           in if datetime_max < t then Inl ValueError else Inr (Timestamp t))
      | Infty _ \<Rightarrow> Inl OverflowError
      | NaN \<Rightarrow> Inl ValueError)"

datatype lease_status = Lease_acquired | Already_held | Invalid_lease

definition blocks :: "string \<Rightarrow> timestamp \<Rightarrow> lease_row \<Rightarrow> bool" where
  "blocks owner now r \<longleftrightarrow>
     ls_owner r \<noteq> owner \<and> (case ls_expires r of None \<Rightarrow> True | Some t \<Rightarrow> now < t)"

definition acquire_runtime_lease ::
  "ledger_env \<Rightarrow> string \<Rightarrow> string \<Rightarrow> pyval \<Rightarrow> pydict \<Rightarrow> timestamp \<Rightarrow> runtime_db \<Rightarrow>
   runtime_db \<times> (lease_status \<times> public_lease) result" where
  "acquire_runtime_lease env lease_name owner_token ttl metadata now db =
     (let name = strip lease_name; owner = strip owner_token in
      if name = [] \<or> owner = [] then (db, Inl ValueError)
      else case lease_expiry now (lease_ttl ttl) of
        Inl e \<Rightarrow> (db, Inl e)
      | Inr expires \<Rightarrow>
          (let fresh = \<lparr>ls_owner = owner, ls_acquired = now, ls_heartbeat = now,
                 ls_expires = Some expires, ls_metadata = redact_dict env metadata,
                 ls_created = now, ls_updated = now\<rparr>
           in case map_of (rt_leases db) name of
                None \<Rightarrow>
                  (db\<lparr>rt_leases := dset name fresh (rt_leases db)\<rparr>,
                   Inr (Lease_acquired, public_runtime_lease name fresh now))
              | Some r \<Rightarrow>
                  if blocks owner now r then
                    (db, Inr (if ls_expires r = None then Invalid_lease else Already_held,
                              public_runtime_lease name r now))
                  else
                    (let new = fresh\<lparr>ls_created := ls_created r\<rparr>
                     in (db\<lparr>rt_leases := dset name new (rt_leases db)\<rparr>,
                         Inr (Lease_acquired, public_runtime_lease name new now)))))"

definition release_runtime_lease :: "string \<Rightarrow> string \<Rightarrow> runtime_db \<Rightarrow> runtime_db \<times> bool" where
  "release_runtime_lease lease_name owner_token db =
     (let name = strip lease_name; owner = strip owner_token;
          kept = filter (\<lambda>(k, r). \<not> (k = name \<and> ls_owner r = owner)) (rt_leases db)
      in (db\<lparr>rt_leases := kept\<rparr>, length kept + 1 = length (rt_leases db)))"

definition force_release_runtime_lease ::
  "ledger_env \<Rightarrow> string \<Rightarrow> string \<Rightarrow> string \<Rightarrow> timestamp \<Rightarrow> runtime_db \<Rightarrow> runtime_db \<times> bool result" where
  "force_release_runtime_lease env lease_name actor reason now db =
     (let name = strip lease_name; who = strip actor; why = strip reason in
      if name = [] \<or> who = [] \<or> why = [] then (db, Inl ValueError)
      else case map_of (rt_leases db) name of
        None \<Rightarrow> (db, Inr False)
      | Some r \<Rightarrow>
          if strip (ls_owner r) = [] then (db, Inr False)
          else (case release_runtime_lease name (strip (ls_owner r)) db of
                  (db', False) \<Rightarrow> (db', Inr False)
                | (db', True) \<Rightarrow>
                    (record_runtime_event env ''runtime_lease.force_released'' ''runtime_lease'' (PStr name)
                       [(''actor'', PStr who), (''reason'', PStr why),
                        (''externalSubmission'', PStr ''not_executed'')] now db',
                     Inr True)))"

definition get_runtime_lease :: "string \<Rightarrow> timestamp \<Rightarrow> runtime_db \<Rightarrow> public_lease option" where
  "get_runtime_lease lease_name now db =
     map_option (\<lambda>r. public_runtime_lease (strip lease_name) r now)
       (map_of (rt_leases db) (strip lease_name))"

definition lease_order :: "string \<times> lease_row \<Rightarrow> int \<times> string" where
  "lease_order kr = (- micros (ls_updated (snd kr)), fst kr)"

definition lease_page_limit :: "pyval \<Rightarrow> nat" where
  "lease_page_limit v =
     nat (max 1 (min (case to_int v of Inr n \<Rightarrow> n | Inl _ \<Rightarrow> 100) 500))"

text \<open>
  \<open>ORDER BY updated_at DESC, lease_name ASC LIMIT ?\<close>: sorting by the second key first keeps its
  order within equal first keys.
\<close>

definition list_runtime_leases :: "string \<Rightarrow> pyval \<Rightarrow> timestamp \<Rightarrow> runtime_db \<Rightarrow> public_lease list" where
  "list_runtime_leases prefix limit now db =
     (let p = strip prefix;
          rows = filter (\<lambda>(k, r). take (length p) k = p) (rt_leases db);
          sorted_rows = sort_key (\<lambda>kr. fst (lease_order kr)) (sort_key fst rows)
      in map (\<lambda>(k, r). public_runtime_lease k r now) (take (lease_page_limit limit) sorted_rows))"

section \<open>Controls\<close>

record control_view =
  cv_name :: string
  cv_active :: bool
  cv_reason :: "string option"
  cv_updated_by :: "string option"
  cv_updated_at :: "timestamp option"
  cv_metadata :: pydict

definition get_runtime_control :: "string \<Rightarrow> runtime_db \<Rightarrow> control_view" where
  "get_runtime_control control_name db =
     (let name = strip control_name in
      case map_of (rt_controls db) name of
        None \<Rightarrow>
          \<lparr>cv_name = name, cv_active = False, cv_reason = None, cv_updated_by = None,
           cv_updated_at = None, cv_metadata = []\<rparr>
      | Some r \<Rightarrow>
          \<lparr>cv_name = name, cv_active = ct_active r, cv_reason = Some (ct_reason r),
           cv_updated_by = Some (ct_updated_by r), cv_updated_at = Some (ct_updated r),
           cv_metadata = ct_metadata r\<rparr>)"

definition set_runtime_control ::
  "ledger_env \<Rightarrow> string \<Rightarrow> bool \<Rightarrow> string \<Rightarrow> string \<Rightarrow> pydict \<Rightarrow> timestamp \<Rightarrow> runtime_db \<Rightarrow>
   runtime_db \<times> control_view result" where
  "set_runtime_control env control_name active actor reason metadata now db =
     (let name = strip control_name; who = take 200 (strip actor); why = take 1000 (strip reason) in
      if name = [] \<or> who = [] \<or> why = [] then (db, Inl ValueError)
      else
        (let stamp = whole_second now;
             created = (case map_of (rt_controls db) name of None \<Rightarrow> stamp | Some r \<Rightarrow> ct_created r);
             row = \<lparr>ct_active = active, ct_reason = why, ct_updated_by = who,
                    ct_metadata = redact_dict env metadata, ct_created = created, ct_updated = stamp\<rparr>;
             db1 = db\<lparr>rt_controls := dset name row (rt_controls db)\<rparr>
         in (record_runtime_event env
               (if active then ''runtime_control.engaged'' else ''runtime_control.cleared'')
               ''runtime_control'' (PStr name)
               [(''actor'', PStr who), (''reason'', PStr why), (''active'', PBool active),
                (''externalSubmission'', PStr ''not_executed'')] now db1,
             Inr (get_runtime_control name db1))))"

section \<open>The emergency stop\<close>

definition AUTONOMY_EMERGENCY_STOP :: string where
  "AUTONOMY_EMERGENCY_STOP = ''autonomy_emergency_stop''"

definition AUTONOMY_RESUME_CONFIRMATION :: string where
  "AUTONOMY_RESUME_CONFIRMATION = ''RESUME FAB AUTONOMY''"

definition AUTONOMY_LEASE_NAME :: string where
  "AUTONOMY_LEASE_NAME = ''local_autonomous_cycle''"

record autonomy_status =
  as_control :: control_view
  as_stopped :: bool
  as_cycle_active :: bool
  as_lease :: "public_lease option"

definition autonomy_control_status :: "timestamp \<Rightarrow> runtime_db \<Rightarrow> autonomy_status" where
  "autonomy_control_status now db =
     (let c = get_runtime_control AUTONOMY_EMERGENCY_STOP db;
          l = get_runtime_lease AUTONOMY_LEASE_NAME now db
      in \<lparr>as_control = c, as_stopped = cv_active c,
          as_cycle_active = (case l of None \<Rightarrow> False | Some p \<Rightarrow> pl_active p), as_lease = l\<rparr>)"

datatype clear_result =
    Clear_confirmation_required
  | Cycle_still_active public_lease
  | Stop_cleared control_view

definition engage_stop ::
  "ledger_env \<Rightarrow> string \<Rightarrow> string \<Rightarrow> pydict \<Rightarrow> timestamp \<Rightarrow> runtime_db \<Rightarrow> runtime_db \<times> control_view result" where
  "engage_stop env actor reason metadata now db =
     set_runtime_control env AUTONOMY_EMERGENCY_STOP True actor reason metadata now db"

definition clear_stop ::
  "ledger_env \<Rightarrow> string \<Rightarrow> string \<Rightarrow> string \<Rightarrow> timestamp \<Rightarrow> runtime_db \<Rightarrow> runtime_db \<times> clear_result result" where
  "clear_stop env actor reason confirmation now db =
     (if strip confirmation \<noteq> AUTONOMY_RESUME_CONFIRMATION then (db, Inr Clear_confirmation_required)
      else case get_runtime_lease AUTONOMY_LEASE_NAME now db of
             Some l \<Rightarrow>
               if pl_active l then (db, Inr (Cycle_still_active l))
               else (case set_runtime_control env AUTONOMY_EMERGENCY_STOP False actor reason [] now db of
                       (db', Inl e) \<Rightarrow> (db', Inl e)
                     | (db', Inr c) \<Rightarrow> (db', Inr (Stop_cleared c)))
           | None \<Rightarrow>
               (case set_runtime_control env AUTONOMY_EMERGENCY_STOP False actor reason [] now db of
                  (db', Inl e) \<Rightarrow> (db', Inl e)
                | (db', Inr c) \<Rightarrow> (db', Inr (Stop_cleared c))))"

end
