(* ===== verification/Runtime_Safety.thy ===== *)
theory Runtime_Safety
  imports Prelude Runtime_Control
begin

text \<open>
  Clients of a lease: processes that acquire it under a token, believe they hold it until the
  expiry they were granted, and release it. The locale states what the store promises; the
  exclusion of two believers is proved from it once.
\<close>

datatype 'a lease_event = Acquire string 'a timestamp | Release string

text \<open>The beliefs: the expiry each token was last granted and has not released.\<close>

fun lease_step ::
  "(string \<Rightarrow> string) \<Rightarrow> (string \<Rightarrow> 'a \<Rightarrow> timestamp \<Rightarrow> 's \<Rightarrow> 's \<times> 'e option) \<Rightarrow> (string \<Rightarrow> 's \<Rightarrow> 's) \<Rightarrow>
   'a lease_event \<Rightarrow> 's \<times> (string \<Rightarrow> 'e option) \<Rightarrow> 's \<times> (string \<Rightarrow> 'e option)" where
  "lease_step clean acquire release (Acquire tok a now) (s, held) =
     (case acquire tok a now s of
        (s', Some e) \<Rightarrow> (s', held(clean tok := Some e))
      | (s', None) \<Rightarrow> (s', held))"
| "lease_step clean acquire release (Release tok) (s, held) = (release tok s, held(clean tok := None))"

fun event_times :: "'a lease_event list \<Rightarrow> timestamp list" where
  "event_times [] = []"
| "event_times (Acquire tok a now # es) = now # event_times es"
| "event_times (Release tok # es) = event_times es"

definition lease_run where
  "lease_run clean acquire release es st = fold (lease_step clean acquire release) es st"

locale lease_store =
  fixes clean :: "string \<Rightarrow> string"
    and acquire :: "string \<Rightarrow> 'a \<Rightarrow> timestamp \<Rightarrow> 's \<Rightarrow> 's \<times> 'e option"
    and release :: "string \<Rightarrow> 's \<Rightarrow> 's"
    and holder :: "'s \<Rightarrow> (string \<times> 'e) option"
    and expired :: "'e \<Rightarrow> timestamp \<Rightarrow> bool"
    and invar :: "'s \<Rightarrow> bool"
  assumes granted: "acquire tok a now s = (s', Some e) \<Longrightarrow>
        holder s' = Some (clean tok, e) \<and> (\<forall>other f. holder s = Some (other, f) \<longrightarrow> other = clean tok \<or> expired f now)"
    and refused: "acquire tok a now s = (s', None) \<Longrightarrow> holder s' = holder s"
    and released: "invar s \<Longrightarrow> holder (release tok s) =
        (case holder s of Some (other, f) \<Rightarrow> if other = clean tok then None else Some (other, f) | None \<Rightarrow> None)"
    and invar_acquire: "invar s \<Longrightarrow> invar (fst (acquire tok a now s))"
    and invar_release: "invar s \<Longrightarrow> invar (release tok s)"
    and expired_mono: "expired e t \<Longrightarrow> t \<le> t' \<Longrightarrow> expired e t'"
begin

definition believers_hold :: "timestamp \<Rightarrow> 's \<times> (string \<Rightarrow> 'e option) \<Rightarrow> bool" where
  "believers_hold now st \<longleftrightarrow> invar (fst st) \<and>
     (\<forall>tok e. snd st tok = Some e \<longrightarrow> holder (fst st) = Some (tok, e) \<or> expired e now)"

lemma believers_later: "believers_hold t st \<Longrightarrow> t \<le> t' \<Longrightarrow> believers_hold t' st"
  unfolding believers_hold_def using expired_mono by blast

lemma believers_acquire:
  assumes "believers_hold now (s, held)"
  shows "believers_hold now (lease_step clean acquire release (Acquire tok a now) (s, held))"
proof (cases "acquire tok a now s")
  case (Pair s' g)
  show ?thesis
  proof (cases g)
    case None
    with Pair refused [of tok a now s s'] invar_acquire [of s tok a now] assms show ?thesis
      by (simp add: believers_hold_def)
  next
    case (Some e)
    with Pair granted [of tok a now s s' e] invar_acquire [of s tok a now] assms show ?thesis
      by (fastforce simp: believers_hold_def)
  qed
qed

lemma believers_release:
  "believers_hold now (s, held) \<Longrightarrow> believers_hold now (lease_step clean acquire release (Release tok) (s, held))"
  using released [of s tok] invar_release [of s tok] by (fastforce simp: believers_hold_def split: if_splits)

lemma believers_run:
  "believers_hold t (s, held) \<Longrightarrow> sorted (t # event_times es) \<Longrightarrow> \<forall>u \<in> set (t # event_times es). u \<le> now \<Longrightarrow>
     believers_hold now (lease_run clean acquire release es (s, held))"
proof (induction es arbitrary: t s held)
  case Nil
  then show ?case using believers_later by (simp add: lease_run_def)
next
  case (Cons e es)
  show ?case
  proof (cases e)
    case (Acquire tok a u)
    obtain s' held' where st: "lease_step clean acquire release e (s, held) = (s', held')"
      by (cases "lease_step clean acquire release e (s, held)")
    have "believers_hold u (s', held')"
      using believers_acquire [of u s held tok a] believers_later [OF Cons.prems(1), of u] Cons.prems(2) Acquire st
      by auto
    with Cons.IH [of u s' held'] Cons.prems(2,3) Acquire st show ?thesis by (simp add: lease_run_def)
  next
    case (Release tok)
    obtain s' held' where st: "lease_step clean acquire release e (s, held) = (s', held')"
      by (cases "lease_step clean acquire release e (s, held)")
    have "believers_hold t (s', held')"
      using believers_release [OF Cons.prems(1), of tok] Release st by simp
    with Cons.IH [of t s' held'] Cons.prems(2,3) Release st show ?thesis by (simp add: lease_run_def)
  qed
qed

text \<open>Two processes never both hold an unexpired grant.\<close>

lemma exclusion:
  assumes "invar s" and "sorted (event_times es)" and "\<forall>u \<in> set (event_times es). u \<le> now"
    and "lease_run clean acquire release es (s, \<lambda>_. None) = (s', held)"
    and "held t1 = Some e1" and "\<not> expired e1 now" and "held t2 = Some e2" and "\<not> expired e2 now"
  shows "t1 = t2"
proof -
  let ?t = "case event_times es of [] \<Rightarrow> now | t # ts \<Rightarrow> t"
  have "believers_hold ?t (s, \<lambda>_. None)" using assms(1) by (simp add: believers_hold_def)
  moreover have "sorted (?t # event_times es)" and "\<forall>u \<in> set (?t # event_times es). u \<le> now"
    using assms(2,3) by (cases "event_times es"; auto)+
  ultimately have "believers_hold now (s', held)"
    using believers_run [of ?t s "\<lambda>_. None" es now] assms(4) by simp
  then have "holder s' = Some (t1, e1)" and "holder s' = Some (t2, e2)"
    using assms(5-8) by (auto simp: believers_hold_def)
  then show ?thesis by simp
qed

end

text \<open>
  What leases and the emergency stop guarantee: two processes never both hold an unexpired
  lease, an expired lease can be taken over, and the stop is cleared only by the phrase while
  no cycle holds its lease.
\<close>

section \<open>Leases as a lock\<close>

definition lease_holder :: "string \<Rightarrow> runtime_db \<Rightarrow> (string \<times> timestamp option) option" where
  "lease_holder name db = map_option (\<lambda>r. (ls_owner r, ls_expires r)) (map_of (rt_leases db) (strip name))"

definition lease_expired :: "timestamp option \<Rightarrow> timestamp \<Rightarrow> bool" where
  "lease_expired e now = (case e of None \<Rightarrow> False | Some t \<Rightarrow> t \<le> now)"

definition try_lease ::
  "ledger_env \<Rightarrow> string \<Rightarrow> string \<Rightarrow> pyval \<Rightarrow> timestamp \<Rightarrow> runtime_db \<Rightarrow> runtime_db \<times> timestamp option option" where
  "try_lease env name tok ttl now db =
     (case acquire_runtime_lease env name tok ttl [] now db of
        (db', Inr (Lease_acquired, p)) \<Rightarrow> (db', Some (pl_expires_at p))
      | (db', _) \<Rightarrow> (db', None))"

lemma strip_strip [simp]: "strip (strip s) = strip s"
proof -
  let ?x = "dropWhile is_space s"
  let ?y = "rev (dropWhile is_space (rev ?x))"
  have x: "?x = ?y @ rev (takeWhile is_space (rev ?x))"
    by (metis rev_append rev_rev_ident takeWhile_dropWhile_id)
  have "dropWhile is_space ?y = ?y"
  proof (cases "?y = []")
    case False
    then have "hd ?x = hd ?y" and "?x \<noteq> []" using x by (metis hd_append2, metis append_is_Nil_conv)
    then have "\<not> is_space (hd ?y)" using hd_dropWhile [of is_space s] by simp
    then show ?thesis by (simp add: dropWhile_eq_self_iff)
  next
    case True
    show ?thesis unfolding True by simp
  qed
  moreover have "dropWhile is_space (rev ?y) = rev ?y"
    using hd_dropWhile [of is_space "rev ?x"] by (auto simp: dropWhile_eq_self_iff)
  ultimately show ?thesis by (simp add: strip_def)
qed

definition named_owners :: "runtime_db \<Rightarrow> bool" where
  "named_owners db \<longleftrightarrow> distinct (map fst (rt_leases db))"

lemma acquire_grants:
  assumes "acquire_runtime_lease env name tok ttl md now db = (db', Inr (Lease_acquired, p))"
  obtains r where "rt_leases db' = dset (strip name) r (rt_leases db)" and "ls_owner r = strip tok"
    and "ls_expires r = pl_expires_at p" and "pl_expires_at p \<noteq> None" and "rt_controls db' = rt_controls db"
    and "\<forall>q. map_of (rt_leases db) (strip name) = Some q \<longrightarrow> \<not> blocks (strip tok) now q"
  using assms
  by (auto simp: acquire_runtime_lease_def Let_def public_runtime_lease_def split: if_splits sum.splits option.splits)

lemma acquire_refuses:
  assumes "acquire_runtime_lease env name tok ttl md now db = (db', res)" and "\<And>p. res \<noteq> Inr (Lease_acquired, p)"
  shows "db' = db"
  using assms
  by (auto simp: acquire_runtime_lease_def Let_def split: if_splits sum.splits option.splits)

lemma map_of_filter_owner:
  assumes "distinct (map fst xs)"
  shows "map_of (filter (\<lambda>(k, r). k = n \<longrightarrow> ls_owner r \<noteq> t) xs) n =
    (case map_of xs n of Some r \<Rightarrow> if ls_owner r = t then None else Some r | None \<Rightarrow> None)"
  using assms by (induction xs) (force simp: map_of_eq_None_iff dest: map_of_SomeD split: option.split if_splits)+

lemma release_leases [simp]:
  "rt_leases (fst (release_runtime_lease name tok db)) =
     filter (\<lambda>(k, r). k = strip name \<longrightarrow> ls_owner r \<noteq> strip tok) (rt_leases db)"
  by (simp add: release_runtime_lease_def Let_def)

lemma lease_holder_try:
  "try_lease env name tok ttl now db = (db', Some e) \<Longrightarrow>
     lease_holder name db' = Some (strip tok, e) \<and>
     (\<forall>other f. lease_holder name db = Some (other, f) \<longrightarrow> other = strip tok \<or> lease_expired f now)"
proof -
  assume "try_lease env name tok ttl now db = (db', Some e)"
  then obtain p where a: "acquire_runtime_lease env name tok ttl [] now db = (db', Inr (Lease_acquired, p))"
      and e: "e = pl_expires_at p"
    unfolding try_lease_def by (auto split: prod.split_asm sum.split_asm lease_status.split_asm)
  from acquire_grants [OF a] obtain r where r: "rt_leases db' = dset (strip name) r (rt_leases db)"
    "ls_owner r = strip tok" "ls_expires r = pl_expires_at p"
    "\<forall>q. map_of (rt_leases db) (strip name) = Some q \<longrightarrow> \<not> blocks (strip tok) now q" by blast
  have "lease_holder name db' = Some (strip tok, e)"
    using r e by (simp add: lease_holder_def map_of_dset)
  moreover have "other = strip tok \<or> lease_expired f now" if "lease_holder name db = Some (other, f)" for other f
    using that r(4) by (auto simp: lease_holder_def blocks_def lease_expired_def split: option.split)
  ultimately show ?thesis by blast
qed

lemma lease_holder_refused:
  assumes "try_lease env name tok ttl now db = (db', None)"
  shows "db' = db"
proof -
  obtain res where a: "acquire_runtime_lease env name tok ttl [] now db = (db', res)"
      and "\<And>p. res \<noteq> Inr (Lease_acquired, p)"
    using assms unfolding try_lease_def by (auto split: prod.split_asm sum.split_asm lease_status.split_asm)
  then show ?thesis by (rule acquire_refuses)
qed

interpretation runtime_lease: lease_store strip "try_lease env name" "\<lambda>tok db. fst (release_runtime_lease name tok db)"
    "lease_holder name" lease_expired named_owners
  for env name
proof unfold_locales
  fix tok :: string and a :: pyval and now :: timestamp and s s' :: runtime_db and e
  assume "try_lease env name tok a now s = (s', Some e)"
  then show "lease_holder name s' = Some (strip tok, e) \<and>
      (\<forall>other f. lease_holder name s = Some (other, f) \<longrightarrow> other = strip tok \<or> lease_expired f now)"
    by (rule lease_holder_try)
next
  fix tok :: string and a :: pyval and now :: timestamp and s s' :: runtime_db
  assume "try_lease env name tok a now s = (s', None)"
  from lease_holder_refused [OF this] show "lease_holder name s' = lease_holder name s" by simp
next
  fix tok :: string and s :: runtime_db
  assume "named_owners s"
  then show "lease_holder name (fst (release_runtime_lease name tok s)) =
      (case lease_holder name s of Some (other, f) \<Rightarrow> if other = strip tok then None else Some (other, f) | None \<Rightarrow> None)"
    by (simp add: lease_holder_def named_owners_def map_of_filter_owner split: option.split)
next
  fix tok :: string and a :: pyval and now :: timestamp and s :: runtime_db
  assume inv: "named_owners s"
  show "named_owners (fst (try_lease env name tok a now s))"
  proof (cases "try_lease env name tok a now s")
    case (Pair s' g)
    show ?thesis
    proof (cases g)
      case None
      with Pair have "s' = s" by (metis lease_holder_refused)
      with Pair inv show ?thesis by simp
    next
      case (Some e)
      with Pair obtain p where "acquire_runtime_lease env name tok a [] now s = (s', Inr (Lease_acquired, p))"
        unfolding try_lease_def by (auto split: prod.split_asm sum.split_asm lease_status.split_asm)
      then obtain r where "rt_leases s' = dset (strip name) r (rt_leases s)" by (rule acquire_grants)
      with Pair inv show ?thesis by (simp add: named_owners_def distinct_dset)
    qed
  qed
next
  fix tok :: string and s :: runtime_db
  assume "named_owners s"
  then show "named_owners (fst (release_runtime_lease name tok s))"
    by (simp add: named_owners_def distinct_map_filter)
next
  fix e :: "timestamp option" and t t' :: timestamp
  assume "lease_expired e t" "t \<le> t'"
  then show "lease_expired e t'" by (auto simp: lease_expired_def split: option.splits)
qed

text \<open>
  C11: processes that acquire and release one runtime lease under tokens of their own, with any
  lengths of lease and in any interleaving on a clock that does not go back, never have two
  unexpired grants at the same time.
\<close>

theorem lease_is_exclusive:
  assumes "named_owners db" and "sorted (event_times es)" and "\<forall>u \<in> set (event_times es). u \<le> now"
    and "lease_run strip (try_lease env name) (\<lambda>tok s. fst (release_runtime_lease name tok s)) es
      (db, \<lambda>_. None) = (db', held)"
    and "held t1 = Some e1" and "\<not> lease_expired e1 now" and "held t2 = Some e2" and "\<not> lease_expired e2 now"
  shows "t1 = t2"
  using assms by (rule runtime_lease.exclusion)

lemmas lease_evals = try_lease_def acquire_runtime_lease_def lease_expiry_def lease_ttl_def datetime_max_def
  public_runtime_lease_def blocks_def round_half_even_def empty_runtime_db_def strip_def is_space_def Let_def

theorem lease_is_exclusive_witness:
  "snd (lease_run strip (try_lease plain_ledger_env ''job'') (\<lambda>tok s. fst (release_runtime_lease ''job'' tok s))
     [Acquire ''a'' (PInt 60) (Timestamp 0), Acquire ''b'' (PInt 60) (Timestamp 5)]
     (empty_runtime_db, \<lambda>_. None)) ''b'' \<noteq> Some (Some (Timestamp 60000005))"
proof
  let ?es = "[Acquire ''a'' (PInt 60) (Timestamp 0), Acquire ''b'' (PInt 60) (Timestamp 5)]"
  let ?run = "lease_run strip (try_lease plain_ledger_env ''job'')
    (\<lambda>tok s. fst (release_runtime_lease ''job'' tok s)) ?es (empty_runtime_db, \<lambda>_. None)"
  obtain db' held where run: "?run = (db', held)" by (cases ?run)
  assume "snd ?run ''b'' = Some (Some (Timestamp 60000005))"
  then have b: "held ''b'' = Some (Some (Timestamp 60000005))" by (simp add: run)
  have "snd ?run ''a'' = Some (Some (Timestamp 60000000))"
    by (simp add: lease_run_def lease_evals)
  then have a: "held ''a'' = Some (Some (Timestamp 60000000))" by (simp add: run)
  have "''a'' = ''b''"
    by (rule lease_is_exclusive [OF _ _ _ run a _ b, of "Timestamp 5"])
      (simp_all add: named_owners_def empty_runtime_db_def lease_expired_def timestamp_order)
  then show False by simp
qed

text \<open>
  a lease whose expiry has passed does not block: any other token acquires it, unless the
  requested length of the lease is no finite time within the calendar.
\<close>

theorem expired_lease_is_taken_over:
  assumes "strip tok \<noteq> []" and "strip name \<noteq> []" and "lease_expiry now (lease_ttl ttl) = Inr until"
    and "lease_holder name db = Some (other, Some e)" and "e \<le> now"
  shows "lease_holder name (fst (acquire_runtime_lease env name tok ttl md now db)) = Some (strip tok, Some until)"
  using assms
  by (auto simp: acquire_runtime_lease_def lease_holder_def blocks_def Let_def map_of_dset)

theorem expired_lease_is_taken_over_witness:
  "lease_holder ''job'' (fst (acquire_runtime_lease plain_ledger_env ''job'' ''b'' (PInt 60) [] (Timestamp 70000000)
     (fst (acquire_runtime_lease plain_ledger_env ''job'' ''a'' (PInt 60) [] (Timestamp 0) empty_runtime_db)))) =
   Some (strip ''b'', Some (Timestamp 130000000))"
proof (rule expired_lease_is_taken_over)
  show "lease_holder ''job'' (fst (acquire_runtime_lease plain_ledger_env ''job'' ''a'' (PInt 60) [] (Timestamp 0)
      empty_runtime_db)) = Some (''a'', Some (Timestamp 60000000))"
    by (simp add: lease_holder_def lease_evals)
qed (simp_all add: lease_evals timestamp_order)

section \<open>The emergency stop\<close>

lemma stop_name [simp]: "strip AUTONOMY_EMERGENCY_STOP = AUTONOMY_EMERGENCY_STOP" "AUTONOMY_EMERGENCY_STOP \<noteq> []"
  by code_simp+

lemma set_control_active:
  assumes "set_runtime_control env name act actor reason md now db = (db', res)" and "strip name \<noteq> []"
  shows "cv_active (get_runtime_control name db') =
    (if strip actor \<noteq> [] \<and> strip reason \<noteq> [] then act else cv_active (get_runtime_control name db))"
  using assms
  by (auto simp: set_runtime_control_def get_runtime_control_def record_runtime_event_def Let_def map_of_dset)

lemma cycle_active_lease:
  "as_cycle_active (autonomy_control_status now db) \<longleftrightarrow>
     (\<exists>l. get_runtime_lease AUTONOMY_LEASE_NAME now db = Some l \<and> pl_active l)"
  by (auto simp: autonomy_control_status_def Let_def split: option.split)

text \<open>
  the emergency stop is cleared only by the exact phrase (surrounding blanks ignored), by a named
  actor with a reason, while no autonomous cycle holds an unexpired lease; every other call
  leaves the stop engaged.
\<close>

theorem stop_is_cleared_only_when_idle:
  assumes "cv_active (get_runtime_control AUTONOMY_EMERGENCY_STOP db)"
    and "clear_stop env actor reason confirmation now db = (db', res)"
  shows "cv_active (get_runtime_control AUTONOMY_EMERGENCY_STOP db') \<longleftrightarrow>
    \<not> (strip confirmation = ''RESUME FAB AUTONOMY'' \<and> \<not> as_cycle_active (autonomy_control_status now db) \<and>
       strip actor \<noteq> [] \<and> strip reason \<noteq> [])"
proof (cases "strip confirmation = ''RESUME FAB AUTONOMY'' \<and> \<not> as_cycle_active (autonomy_control_status now db)")
  case True
  obtain db1 r1 where st: "set_runtime_control env AUTONOMY_EMERGENCY_STOP False actor reason [] now db = (db1, r1)"
    by (cases "set_runtime_control env AUTONOMY_EMERGENCY_STOP False actor reason [] now db")
  have "db' = db1"
    using assms(2) True st
    by (cases r1) (auto simp: clear_stop_def cycle_active_lease AUTONOMY_RESUME_CONFIRMATION_def split: option.splits)
  with set_control_active [OF st] True assms(1) show ?thesis by simp
next
  case False
  then have "db' = db"
    using assms(2)
    by (auto simp: clear_stop_def cycle_active_lease AUTONOMY_RESUME_CONFIRMATION_def split: if_splits)
  with False assms(1) show ?thesis by auto
qed

theorem stop_is_cleared_only_when_idle_witness:
  "let engaged = fst (engage_stop plain_ledger_env ''owner'' ''check'' [] (Timestamp 1) empty_runtime_db);
       cycle = fst (acquire_runtime_lease plain_ledger_env AUTONOMY_LEASE_NAME ''cycle-1'' (PInt 60) [] (Timestamp 2) engaged)
   in cv_active (get_runtime_control AUTONOMY_EMERGENCY_STOP
        (fst (clear_stop plain_ledger_env ''owner'' ''ok'' ''RESUME FAB AUTONOMY'' (Timestamp 3) cycle)))"
proof -
  let ?e = "fst (engage_stop plain_ledger_env ''owner'' ''check'' [] (Timestamp 1) empty_runtime_db)"
  let ?c = "fst (acquire_runtime_lease plain_ledger_env AUTONOMY_LEASE_NAME ''cycle-1'' (PInt 60) [] (Timestamp 2) ?e)"
  obtain db' res where cl: "clear_stop plain_ledger_env ''owner'' ''ok'' ''RESUME FAB AUTONOMY'' (Timestamp 3) ?c = (db', res)"
    by (cases "clear_stop plain_ledger_env ''owner'' ''ok'' ''RESUME FAB AUTONOMY'' (Timestamp 3) ?c")
  have on: "cv_active (get_runtime_control AUTONOMY_EMERGENCY_STOP ?c)" by code_simp
  have "as_cycle_active (autonomy_control_status (Timestamp 3) ?c)" by code_simp
  with stop_is_cleared_only_when_idle [OF on cl] cl show ?thesis by simp
qed

end
