(* ===== verification/Export_Store.thy ===== *)
theory Export_Store
  imports Tables Runtime_Control
begin

text \<open>
  The tables of src/operations/local_ledger.py the export service works on: export attempts,
  bookkeeping records, review items, routing attempts and audit events, and the request log
  \<open>xl_sent\<close>: every call of a Wave handler, the effect outside the program. An update writes
  only the columns that are not \<open>None\<close>. One operation is one transaction; JSON columns hold the
  value their text encodes.
\<close>

section \<open>Rows\<close>

datatype export_status =
    Xs_approval_required | Xs_prepared | Xs_attention_required | Xs_approved | Xs_deferred
  | Xs_supervision_required | Xs_execution_in_progress | Xs_queued | Xs_executed | Xs_submitted
  | Xs_failed | Xs_rejected | Xs_blocked_routing | Xs_blocked_source_missing
  | Xs_blocked_by_review | Xs_blocked_invalid_plan

fun export_status_name :: "export_status \<Rightarrow> string" where
  "export_status_name Xs_approval_required = ''approval_required''"
| "export_status_name Xs_prepared = ''prepared''"
| "export_status_name Xs_attention_required = ''attention_required''"
| "export_status_name Xs_approved = ''approved''"
| "export_status_name Xs_deferred = ''deferred''"
| "export_status_name Xs_supervision_required = ''supervision_required''"
| "export_status_name Xs_execution_in_progress = ''execution_in_progress''"
| "export_status_name Xs_queued = ''queued''"
| "export_status_name Xs_executed = ''executed''"
| "export_status_name Xs_submitted = ''submitted''"
| "export_status_name Xs_failed = ''failed''"
| "export_status_name Xs_rejected = ''rejected''"
| "export_status_name Xs_blocked_routing = ''blocked_routing''"
| "export_status_name Xs_blocked_source_missing = ''blocked_source_missing''"
| "export_status_name Xs_blocked_by_review = ''blocked_by_review''"
| "export_status_name Xs_blocked_invalid_plan = ''blocked_invalid_plan''"

record export_row =
  xr_record :: "nat option"
  xr_document :: "nat option"
  xr_routing :: "nat option"
  xr_workflow :: "nat option"
  xr_target :: string
  xr_account :: "string option"
  xr_action :: "string option"
  xr_surface :: "string option"
  xr_operation :: "string option"
  xr_status :: export_status
  xr_safety :: string
  xr_approval_required :: bool
  xr_approved_at :: "string option"
  xr_approved_by :: "string option"
  xr_external :: string
  xr_submitted_at :: "string option"
  xr_external_id :: "string option"
  xr_message :: "string option"
  xr_payload :: pydict
  xr_result :: pydict
  xr_metadata :: pydict
  xr_created :: timestamp
  xr_updated :: timestamp

record book_row =
  bk_document :: "nat option"
  bk_status :: string
  bk_target_account :: "string option"
  bk_review_required :: bool
  bk_export_status :: string
  bk_reconciliation :: string
  bk_metadata :: pydict
  bk_columns :: pydict \<comment> \<open>the columns the export service only passes on\<close>
  bk_updated :: timestamp

record ledger_review =
  lv_document :: "nat option"
  lv_reason :: string
  lv_details :: "string option"
  lv_status :: string
  lv_corrected :: pydict
  lv_created :: timestamp
  lv_updated :: timestamp

record routing_row =
  ro_document :: "nat option"
  ro_workflow :: "nat option"
  ro_target :: string
  ro_status :: string
  ro_message :: "string option"
  ro_metadata :: pydict
  ro_created :: timestamp
  ro_record :: "nat option"

record export_ledger =
  xl_attempts :: "export_row table"
  xl_records :: "book_row table"
  xl_documents :: "pydict table"
  xl_reviews :: "ledger_review table"
  xl_routing :: "routing_row table"
  xl_events :: "ledger_event list"
  xl_sent :: "(nat \<times> pydict) list"

definition empty_export_ledger :: export_ledger where
  "empty_export_ledger =
     \<lparr>xl_attempts = empty_table, xl_records = empty_table, xl_documents = empty_table,
      xl_reviews = empty_table, xl_routing = empty_table, xl_events = [], xl_sent = []\<rparr>"

abbreviation export_attempt :: "export_ledger \<Rightarrow> nat \<Rightarrow> export_row option" where
  "export_attempt L i \<equiv> lookup_row (xl_attempts L) i"

definition export_status_of :: "export_ledger \<Rightarrow> nat \<Rightarrow> export_status option" where
  "export_status_of L i = map_option xr_status (export_attempt L i)"

section \<open>Audit events and review items\<close>

definition record_audit ::
  "ledger_env \<Rightarrow> string \<Rightarrow> string \<Rightarrow> pyval \<Rightarrow> pydict \<Rightarrow> timestamp \<Rightarrow> export_ledger \<Rightarrow> export_ledger" where
  "record_audit env action etype eid details now L =
     L\<lparr>xl_events := xl_events L @ [audit_event env action etype eid details now]\<rparr>"

text \<open>\<open>ORDER BY created_at DESC, id DESC LIMIT 1\<close>: the last of the newest events.\<close>

definition find_audit_event :: "string \<Rightarrow> string \<Rightarrow> string \<Rightarrow> export_ledger \<Rightarrow> ledger_event option" where
  "find_audit_event action etype eid L =
     (case sort_key (\<lambda>e. - micros (ev_at e))
             (rev (filter (\<lambda>e. ev_action e = action \<and> ev_entity_type e = etype \<and> ev_entity_id e = PStr eid)
                (xl_events L))) of
        [] \<Rightarrow> None | e # es \<Rightarrow> Some e)"

definition review_open :: "ledger_review \<Rightarrow> bool" where
  "review_open r \<longleftrightarrow> lv_status r = ''pending'' \<or> lv_status r = ''in_review''"

text \<open>
  \<open>create_review_item\<close> with status pending: an open item of the same document and reason is
  refreshed instead of a second one inserted; items without a document are always inserted.
\<close>

definition create_review_item ::
  "nat option \<Rightarrow> string \<Rightarrow> string \<Rightarrow> timestamp \<Rightarrow> export_ledger \<Rightarrow> export_ledger \<times> nat" where
  "create_review_item doc reason details now L =
     (let at_second = whole_second now;
          reason' = (let r = strip reason in if r = [] then ''manual_review'' else r);
          same = (case doc of None \<Rightarrow> []
                  | Some d \<Rightarrow> filter (\<lambda>(i, r). lv_document r = Some d \<and> lv_reason r = reason' \<and> review_open r)
                                (trows (xl_reviews L)))
      in case rev (sort_key fst same) of
           (i, r) # rest \<Rightarrow>
             (L\<lparr>xl_reviews := update_row i (\<lambda>v. v\<lparr>lv_details := Some details, lv_updated := at_second\<rparr>) (xl_reviews L)\<rparr>, i)
         | [] \<Rightarrow>
             (let (t, i) = insert_row \<lparr>lv_document = doc, lv_reason = reason', lv_details = Some details,
                    lv_status = ''pending'', lv_corrected = [], lv_created = at_second, lv_updated = at_second\<rparr>
                    (xl_reviews L)
              in (L\<lparr>xl_reviews := t\<rparr>, i)))"

definition resolve_review_item ::
  "nat \<Rightarrow> string \<Rightarrow> string \<Rightarrow> pydict \<Rightarrow> timestamp \<Rightarrow> export_ledger \<Rightarrow> export_ledger" where
  "resolve_review_item i status resolution corrected now L =
     (let review_data = (if resolution = [] then corrected else dset ''resolution'' (PStr resolution) corrected)
      in L\<lparr>xl_reviews := update_row i
           (\<lambda>v. v\<lparr>lv_status := status,
                  lv_corrected := (if review_data = [] then lv_corrected v else review_data),
                  lv_updated := whole_second now\<rparr>) (xl_reviews L)\<rparr>)"

text \<open>Open review items, newest first, at most 500, of one document when one is given.\<close>

definition open_review_items :: "nat option \<Rightarrow> export_ledger \<Rightarrow> (nat \<times> ledger_review) list" where
  "open_review_items doc L =
     take 500 (sort_key (\<lambda>(i, r). - micros (lv_created r)) (rev (sort_key fst
       (select_rows (\<lambda>r. review_open r \<and> (case doc of None \<Rightarrow> True | Some d \<Rightarrow> lv_document r = Some d))
          (xl_reviews L)))))"

section \<open>Export attempts\<close>

record export_update =
  xu_record :: "nat option"
  xu_document :: "nat option"
  xu_routing :: "nat option"
  xu_workflow :: "nat option"
  xu_target :: "string option"
  xu_account :: "string option"
  xu_action :: "string option"
  xu_surface :: "string option"
  xu_operation :: "string option"
  xu_status :: "export_status option"
  xu_safety :: "string option"
  xu_approval_required :: "bool option"
  xu_approved_at :: "string option"
  xu_approved_by :: "string option"
  xu_external :: "string option"
  xu_submitted_at :: "string option"
  xu_external_id :: "string option"
  xu_message :: "string option"
  xu_payload :: "pydict option"
  xu_result :: "pydict option"
  xu_metadata :: "pydict option"

definition no_update :: export_update where
  "no_update =
     \<lparr>xu_record = None, xu_document = None, xu_routing = None, xu_workflow = None, xu_target = None,
      xu_account = None, xu_action = None, xu_surface = None, xu_operation = None, xu_status = None,
      xu_safety = None, xu_approval_required = None, xu_approved_at = None, xu_approved_by = None,
      xu_external = None, xu_submitted_at = None, xu_external_id = None, xu_message = None,
      xu_payload = None, xu_result = None, xu_metadata = None\<rparr>"

definition keep :: "'a option \<Rightarrow> 'a option \<Rightarrow> 'a option" where
  "keep new old = (case new of None \<Rightarrow> old | Some v \<Rightarrow> Some v)"

definition dflt :: "'a option \<Rightarrow> 'a \<Rightarrow> 'a" where
  "dflt new old = (case new of None \<Rightarrow> old | Some v \<Rightarrow> v)"

lemma keep_simps [simp]: "keep None x = x" "keep (Some v) x = Some v"
  by (simp_all add: keep_def)

lemma dflt_simps [simp]: "dflt None x = x" "dflt (Some v) x = v"
  by (simp_all add: dflt_def)

definition apply_export_update :: "ledger_env \<Rightarrow> timestamp \<Rightarrow> export_update \<Rightarrow> export_row \<Rightarrow> export_row" where
  "apply_export_update env now u r =
     r\<lparr>xr_record := keep (xu_record u) (xr_record r), xr_document := keep (xu_document u) (xr_document r),
       xr_routing := keep (xu_routing u) (xr_routing r), xr_workflow := keep (xu_workflow u) (xr_workflow r),
       xr_target := dflt (xu_target u) (xr_target r), xr_account := keep (xu_account u) (xr_account r),
       xr_action := keep (xu_action u) (xr_action r), xr_surface := keep (xu_surface u) (xr_surface r),
       xr_operation := keep (xu_operation u) (xr_operation r), xr_status := dflt (xu_status u) (xr_status r),
       xr_safety := dflt (xu_safety u) (xr_safety r),
       xr_approval_required := dflt (xu_approval_required u) (xr_approval_required r),
       xr_approved_at := keep (xu_approved_at u) (xr_approved_at r),
       xr_approved_by := keep (xu_approved_by u) (xr_approved_by r),
       xr_external := dflt (xu_external u) (xr_external r),
       xr_submitted_at := keep (xu_submitted_at u) (xr_submitted_at r),
       xr_external_id := keep (xu_external_id u) (xr_external_id r),
       xr_message := keep (xu_message u) (xr_message r),
       xr_payload := dflt (map_option (redact_dict env) (xu_payload u)) (xr_payload r),
       xr_result := dflt (map_option (redact_dict env) (xu_result u)) (xr_result r),
       xr_metadata := dflt (map_option (redact_dict env) (xu_metadata u)) (xr_metadata r),
       xr_updated := whole_second now\<rparr>"

definition update_export_attempt ::
  "ledger_env \<Rightarrow> nat \<Rightarrow> export_update \<Rightarrow> timestamp \<Rightarrow> export_ledger \<Rightarrow> export_ledger" where
  "update_export_attempt env i u now L =
     L\<lparr>xl_attempts := update_row i (apply_export_update env now u) (xl_attempts L)\<rparr>"

text \<open>The row an insert makes from the defaults and the given columns.\<close>

definition new_export_row :: "ledger_env \<Rightarrow> timestamp \<Rightarrow> export_update \<Rightarrow> export_row" where
  "new_export_row env now u =
     apply_export_update env now u
       \<lparr>xr_record = None, xr_document = None, xr_routing = None, xr_workflow = None, xr_target = ''waveapps'',
        xr_account = None, xr_action = None, xr_surface = None, xr_operation = None,
        xr_status = Xs_approval_required, xr_safety = ''requires_confirmation'', xr_approval_required = True,
        xr_approved_at = None, xr_approved_by = None, xr_external = ''not_executed'', xr_submitted_at = None,
        xr_external_id = None, xr_message = None, xr_payload = [], xr_result = [], xr_metadata = [],
        xr_created = whole_second now, xr_updated = whole_second now\<rparr>"

definition find_export_attempt ::
  "nat option \<Rightarrow> string option \<Rightarrow> export_ledger \<Rightarrow> (nat \<times> export_row) option" where
  "find_export_attempt routing operation L =
     (case (case routing of None \<Rightarrow> None | Some r \<Rightarrow> find_row (\<lambda>x. xr_routing x = Some r) (xl_attempts L)) of
        Some hit \<Rightarrow> Some hit
      | None \<Rightarrow>
          (case operation of None \<Rightarrow> None
           | Some op \<Rightarrow> if op = [] then None else find_row (\<lambda>x. xr_operation x = Some op) (xl_attempts L)))"

text \<open>The two unique indexes.\<close>

definition unique_conflict :: "nat \<Rightarrow> export_row \<Rightarrow> export_ledger \<Rightarrow> bool" where
  "unique_conflict i row L \<longleftrightarrow>
     (\<exists>(j, r) \<in> set (trows (xl_attempts L)). j \<noteq> i \<and>
        ((xr_routing row \<noteq> None \<and> xr_routing r = xr_routing row) \<or>
         (xr_operation row \<noteq> None \<and> xr_operation r = xr_operation row)))"

definition upsert_export_attempt ::
  "ledger_env \<Rightarrow> export_update \<Rightarrow> timestamp \<Rightarrow> export_ledger \<Rightarrow> export_ledger \<times> nat result" where
  "upsert_export_attempt env u now L =
     (case find_export_attempt (xu_routing u) (xu_operation u) L of
        Some (i, old) \<Rightarrow>
          if unique_conflict i (apply_export_update env now u old) L then (L, Inl IntegrityError)
          else (update_export_attempt env i u now L, Inr i)
      | None \<Rightarrow>
          (let row = new_export_row env now u; (t, i) = insert_row row (xl_attempts L)
           in if unique_conflict i row L then (L, Inl IntegrityError)
              else (L\<lparr>xl_attempts := t\<rparr>, Inr i)))"

text \<open>\<open>UPDATE export_attempts SET status = 'execution_in_progress' WHERE id = ? AND status = ?\<close>\<close>

definition export_claim_update ::
  "timestamp \<Rightarrow> nat \<Rightarrow> export_status \<Rightarrow> export_ledger \<Rightarrow> export_ledger \<times> bool" where
  "export_claim_update now i seen L =
     (if export_status_of L i = Some seen then
        (L\<lparr>xl_attempts := update_row i
            (\<lambda>r. r\<lparr>xr_status := Xs_execution_in_progress, xr_updated := whole_second now\<rparr>) (xl_attempts L)\<rparr>, True)
      else (L, False))"

datatype export_claim =
    Export_not_found
  | Export_not_claimable export_status
  | Export_already_claimed
  | Export_claimed export_row

definition claim_export_attempt ::
  "nat \<Rightarrow> export_status list \<Rightarrow> timestamp \<Rightarrow> export_ledger \<Rightarrow> export_ledger \<times> export_claim" where
  "claim_export_attempt i allowed now L =
     (case export_attempt L i of
        None \<Rightarrow> (L, Export_not_found)
      | Some r \<Rightarrow>
          if xr_status r \<notin> set allowed then (L, Export_not_claimable (xr_status r))
          else (case export_claim_update now i (xr_status r) L of
                  (L', True) \<Rightarrow> (L', Export_claimed r)
                | (L', False) \<Rightarrow> (L', Export_already_claimed)))"

text \<open>\<open>ORDER BY updated_at DESC, id DESC LIMIT ?\<close>\<close>

definition list_export_attempts ::
  "export_status list \<Rightarrow> nat \<Rightarrow> export_ledger \<Rightarrow> (nat \<times> export_row) list" where
  "list_export_attempts statuses limit L =
     take (max 1 (min limit 500)) (sort_key (\<lambda>(i, r). - micros (xr_updated r)) (rev (sort_key fst
       (select_rows (\<lambda>r. xr_status r \<in> set statuses) (xl_attempts L)))))"

section \<open>Bookkeeping records\<close>

definition update_book_export ::
  "ledger_env \<Rightarrow> nat \<Rightarrow> string \<Rightarrow> pydict \<Rightarrow> string option \<Rightarrow> timestamp \<Rightarrow> export_ledger \<Rightarrow> export_ledger" where
  "update_book_export env rid export_status metadata status now L =
     L\<lparr>xl_records := update_row rid
         (\<lambda>b. b\<lparr>bk_export_status := export_status, bk_metadata := redact_dict env metadata,
               bk_status := dflt status (bk_status b), bk_updated := whole_second now\<rparr>) (xl_records L)\<rparr>"

definition opt_nat :: "nat option \<Rightarrow> pyval" where
  "opt_nat v = (case v of None \<Rightarrow> PNone | Some n \<Rightarrow> PInt (int n))"

definition opt_str :: "string option \<Rightarrow> pyval" where
  "opt_str v = (case v of None \<Rightarrow> PNone | Some s \<Rightarrow> PStr s)"

definition record_by_document :: "nat \<Rightarrow> export_ledger \<Rightarrow> (nat \<times> book_row) option" where
  "record_by_document d L = find_row (\<lambda>b. bk_document b = Some d) (xl_records L)"

end
