(* ===== verification/Wave_Operator.thy ===== *)
theory Wave_Operator
  imports Py_Text
begin

text \<open>
  The policy gate in front of every Wave action: the plan of an action
  (\<open>plan_wave_action\<close> of src/data_entry/waveapps_surface.py), the plan of a capability
  (\<open>plan_autonomous_capability\<close> of src/workflow/autonomous_playbook.py), the operator's decision
  (src/data_entry/waveapps_autonomous_operator.py) and the API executor
  (src/data_entry/waveapps_api_executor.py). The static catalogs those modules hold and the
  HTTP handler behind \<open>enter_data\<close> are parameters.
\<close>

section \<open>Plans\<close>

record wave_action =
  wa_surface :: string
  wa_mode :: string
  wa_safety :: string
  wa_required :: "string list"

record capability =
  cp_entry :: pydict \<comment> \<open>the whole entry of the playbook\<close>
  cp_required_signals :: "string list"
  cp_review_gates :: "string list"
  cp_autonomy :: string

record wave_catalog =
  wc_actions :: "string \<Rightarrow> wave_action option"
  wc_capabilities :: "string \<Rightarrow> capability option"

datatype plan_status = Unsupported | Needs_fields | Planned

record wave_plan =
  wp_status :: plan_status
  wp_surface :: string
  wp_mode :: "string option"
  wp_safety :: "string option"
  wp_missing :: "string list"
  wp_can_run :: bool
  wp_requires_confirmation :: bool

definition plan_wave_action :: "wave_catalog \<Rightarrow> string \<Rightarrow> string \<Rightarrow> pydict \<Rightarrow> bool \<Rightarrow> wave_plan" where
  "plan_wave_action cat surface action_id payload allow_write =
     (case wc_actions cat action_id of
        None \<Rightarrow>
          \<lparr>wp_status = Unsupported, wp_surface = surface, wp_mode = None, wp_safety = None,
           wp_missing = [], wp_can_run = False, wp_requires_confirmation = True\<rparr>
      | Some a \<Rightarrow>
          if wa_surface a \<noteq> surface then
            \<lparr>wp_status = Unsupported, wp_surface = surface, wp_mode = None, wp_safety = None,
             wp_missing = [], wp_can_run = False, wp_requires_confirmation = True\<rparr>
          else
            (let missing = filter (\<lambda>f. dget payload f = PNone) (wa_required a);
                 confirm = wa_safety a \<in> {''requires_confirmation'', ''requires_credentials''}
             in \<lparr>wp_status = (if missing \<noteq> [] then Needs_fields else Planned), wp_surface = surface,
                 wp_mode = Some (wa_mode a), wp_safety = Some (wa_safety a), wp_missing = missing,
                 wp_can_run = (missing = [] \<and> wa_safety a \<in> {''read_only'', ''safe_draft''}) \<or>
                              (allow_write \<and> missing = [] \<and> \<not> confirm),
                 wp_requires_confirmation = confirm\<rparr>))"

datatype capability_status = Capability_blocked | Needs_signals | Ready

record capability_plan =
  pc_status :: capability_status
  pc_capability :: pyval
  pc_recommended :: string
  pc_missing :: "string list"
  pc_gates :: "string list"
  pc_can_run :: bool
  pc_next_action :: string

definition AUTONOMOUS_LEVELS :: "string list" where
  "AUTONOMOUS_LEVELS = [''observe'', ''prepare'', ''safe_draft'']"

definition plan_autonomous_capability ::
  "wave_catalog \<Rightarrow> string \<Rightarrow> string list option \<Rightarrow> pyfloat option \<Rightarrow> string list option \<Rightarrow> capability_plan" where
  "plan_autonomous_capability cat cid available_signals confidence approvals =
     (case wc_capabilities cat cid of
        None \<Rightarrow>
          \<lparr>pc_status = Capability_blocked, pc_capability = PNone, pc_recommended = ''review_required'',
           pc_missing = [], pc_gates = [''unknown capability''], pc_can_run = False,
           pc_next_action = ''Route to manual review because the requested automation capability is not modeled.''\<rparr>
      | Some c \<Rightarrow>
          (let available = (case available_signals of None \<Rightarrow> [] | Some xs \<Rightarrow> xs);
               approved = (case approvals of None \<Rightarrow> [] | Some xs \<Rightarrow> xs);
               entry = PDict (dupdate [(''id'', PStr cid)] (cp_entry c));
               missing = filter (\<lambda>s. s \<notin> set available) (cp_required_signals c);
               unresolved = filter (\<lambda>g. g \<notin> set approved) (cp_review_gates c);
               low = flt_less (case confidence of None \<Rightarrow> Num 1 | Some f \<Rightarrow> f) (Num (85 / 100));
               can_run = missing = [] \<and> \<not> low \<and> cp_autonomy c \<in> set AUTONOMOUS_LEVELS \<and>
                 cp_autonomy c \<noteq> ''review_required''
           in if missing \<noteq> [] then
                \<lparr>pc_status = Needs_signals, pc_capability = entry, pc_recommended = ''prepare'', pc_missing = missing, pc_gates = unresolved, pc_can_run = False,
                 pc_next_action = ''Collect missing signals: '' @ join_with '', '' missing @ ''.''\<rparr>
              else if \<not> can_run then
                \<lparr>pc_status = Capability_blocked, pc_capability = entry, pc_recommended = cp_autonomy c, pc_missing = [],
                 pc_gates = (if low then ''confidence below 85%'' # unresolved else unresolved), pc_can_run = False,
                 pc_next_action = ''Prepare the work item and route it through the review gate before posting or sending.''\<rparr>
              else
                \<lparr>pc_status = Ready, pc_capability = entry, pc_recommended = cp_autonomy c, pc_missing = [], pc_gates = unresolved, pc_can_run = True,
                 pc_next_action = ''Run the capability through the policy-gated autonomous operator.''\<rparr>))"

section \<open>The operator\<close>

record operator_config =
  oc_allow_confirmed :: bool
  oc_allow_credentials :: bool
  oc_default_mode :: string

definition operator_config_of :: "pydict \<Rightarrow> operator_config" where
  "operator_config_of cfg =
     \<lparr>oc_allow_confirmed = truthy (dget_or cfg ''waveapps_allow_confirmed_actions'' (PBool False)),
      oc_allow_credentials = truthy (dget_or cfg ''waveapps_allow_credential_actions'' (PBool False)),
      oc_default_mode = (case dget_or cfg ''waveapps_autonomous_mode'' (PStr ''prepare'') of PStr s \<Rightarrow> s | _ \<Rightarrow> [])\<rparr>"

record wave_operation =
  wo_id :: string
  wo_action :: string
  wo_surface :: string
  wo_mode :: "string option"
  wo_safety :: string
  wo_payload :: pydict
  wo_plan :: wave_plan
  wo_capability :: "capability_plan option"

definition first_text :: "string \<Rightarrow> string \<Rightarrow> string" where
  \<comment> \<open>\<open>a or b\<close> on text\<close>
  "first_text a b = (if a = [] then b else a)"

definition prepare_operation ::
  "py_env \<Rightarrow> wave_catalog \<Rightarrow> string \<Rightarrow> pydict \<Rightarrow> string option \<Rightarrow> string option \<Rightarrow> bool \<Rightarrow> string option \<Rightarrow>
   string list option \<Rightarrow> pyfloat option \<Rightarrow> wave_operation" where
  "prepare_operation env cat action_id payload surface key allow_write capability_id signals confidence =
     (let action = wc_actions cat action_id;
          catalog_surface = (case action of None \<Rightarrow> [] | Some a \<Rightarrow> wa_surface a);
          resolved = first_text (case surface of None \<Rightarrow> [] | Some s \<Rightarrow> s) catalog_surface;
          plan = plan_wave_action cat resolved action_id payload allow_write
      in \<lparr>wo_id = first_text (case key of None \<Rightarrow> [] | Some k \<Rightarrow> k)
             (''wave:'' @ sha256_hex env (action_id @ '':'' @ json_text env (PDict payload))),
          wo_action = action_id,
          wo_surface = first_text (wp_surface plan) catalog_surface,
          wo_mode = (case wp_mode plan of
                       Some m \<Rightarrow> if m = [] then map_option wa_mode action else Some m
                     | None \<Rightarrow> map_option wa_mode action),
          wo_safety = first_text (case wp_safety plan of None \<Rightarrow> [] | Some s \<Rightarrow> s)
             (case action of None \<Rightarrow> ''unsupported'' | Some a \<Rightarrow> wa_safety a),
          wo_payload = payload, wo_plan = plan,
          wo_capability = (case capability_id of
                             None \<Rightarrow> None
                           | Some c \<Rightarrow> if c = [] then None
                                       else Some (plan_autonomous_capability cat c signals confidence None))\<rparr>)"

text \<open>The dictionary \<open>prepare_operation\<close> returns, as it is stored with a result.\<close>

definition plan_value :: "string \<Rightarrow> wave_plan \<Rightarrow> pydict" where
  "plan_value action_id p =
     (if wp_status p = Unsupported then
        [(''status'', PStr ''unsupported''), (''surface'', PStr (wp_surface p)), (''action_id'', PStr action_id),
         (''missing_fields'', PList []), (''can_run_autonomously'', PBool False),
         (''requires_confirmation'', PBool True),
         (''message'', PStr ''Wave action is not in the FAB action catalog.'')]
      else
        [(''status'', PStr (if wp_status p = Planned then ''planned'' else ''needs_fields'')),
         (''surface'', PStr (wp_surface p)), (''action_id'', PStr action_id),
         (''mode'', case wp_mode p of None \<Rightarrow> PNone | Some m \<Rightarrow> PStr m),
         (''safety'', case wp_safety p of None \<Rightarrow> PNone | Some t \<Rightarrow> PStr t),
         (''missing_fields'', PList (map PStr (wp_missing p))),
         (''can_run_autonomously'', PBool (wp_can_run p)),
         (''requires_confirmation'', PBool (wp_requires_confirmation p)),
         (''message'', PStr (if wp_can_run p then ''FAB can plan '' @ action_id @ '' against Wave '' @ wp_surface p @ ''.''
            else ''FAB can prepare '' @ action_id @ '', but execution requires review or confirmation.''))])"

definition capability_value :: "capability_plan \<Rightarrow> pydict" where
  "capability_value c =
     [(''status'', PStr (case pc_status c of Capability_blocked \<Rightarrow> ''blocked_by_review''
                        | Needs_signals \<Rightarrow> ''needs_signals'' | Ready \<Rightarrow> ''ready'')),
      (''capability'', pc_capability c), (''missing_signals'', PList (map PStr (pc_missing c))),
      (''review_gates'', PList (map PStr (pc_gates c))), (''can_run_autonomously'', PBool (pc_can_run c)),
      (''recommended_mode'', PStr (pc_recommended c)), (''next_action'', PStr (pc_next_action c))]"

definition operation_value :: "wave_operation \<Rightarrow> string \<Rightarrow> string \<Rightarrow> pydict" where
  "operation_value op actor created_at =
     [(''operation_id'', PStr (wo_id op)), (''action_id'', PStr (wo_action op)), (''surface'', PStr (wo_surface op)),
      (''mode'', case wo_mode op of None \<Rightarrow> PNone | Some m \<Rightarrow> PStr m), (''safety'', PStr (wo_safety op)),
      (''payload'', PDict (wo_payload op)), (''plan'', PDict (plan_value (wo_action op) (wo_plan op))),
      (''capability_plan'', case wo_capability op of None \<Rightarrow> PNone | Some c \<Rightarrow> PDict (capability_value c)),
      (''actor'', PStr actor), (''created_at'', PStr created_at)]"

record execution =
  en_status :: pyval
  en_message :: pyval
  en_external_id :: pyval
  en_result :: pydict

definition stopped :: "string \<Rightarrow> string \<Rightarrow> execution" where
  "stopped status message =
     \<lparr>en_status = PStr status, en_message = PStr message, en_external_id = PNone, en_result = []\<rparr>"

datatype gate = Stop execution | Call_handler pydict

text \<open>
  The cascade of \<open>execute\<close> up to the handler: a stopped operation gives its answer, an admitted
  one the payload the handler is called with.
\<close>

definition gate_operation ::
  "operator_config \<Rightarrow> wave_operation \<Rightarrow> string option \<Rightarrow> bool \<Rightarrow> bool \<Rightarrow> gate" where
  "gate_operation oc op mode confirmed has_handler =
     (let m = first_text (case mode of None \<Rightarrow> [] | Some s \<Rightarrow> s) (oc_default_mode oc) in
      if wp_status (wo_plan op) \<noteq> Planned then
        Stop (stopped ''needs_review'' ''Wave action cannot run until its plan is complete.'')
      else if (case wo_capability op of None \<Rightarrow> False | Some c \<Rightarrow> pc_status c \<noteq> Ready) then
        Stop (stopped ''needs_review'' (case wo_capability op of None \<Rightarrow> [] | Some c \<Rightarrow> pc_next_action c))
      else if wo_safety op = ''requires_credentials'' \<and> \<not> oc_allow_credentials oc then
        Stop (stopped ''blocked_requires_credentials''
                ''Wave action requires external credentials or provider authorization.'')
      else if wo_safety op = ''requires_confirmation'' \<and> \<not> (confirmed \<and> oc_allow_confirmed oc) then
        Stop (stopped ''blocked_requires_confirmation''
                ''Wave action changes external state and needs explicit confirmation.'')
      else if m = ''dry_run'' then
        Stop (stopped ''planned'' ''Wave action passed policy checks in dry-run mode.'')
      else if \<not> has_handler then
        Stop (stopped ''queued'' ''Wave action is policy-approved and ready for a Wave API or browser executor.'')
      else Call_handler (wo_payload op))"

definition handled :: "pydict \<Rightarrow> execution" where
  "handled res =
     \<lparr>en_status = dget_or res ''status'' (PStr ''success''),
      en_message = dget_or res ''message'' (PStr ''Wave action executed.''),
      en_external_id = dget res ''external_id'', en_result = res\<rparr>"

section \<open>The API executor\<close>

definition SUPPORTED_WAVE_API_ACTIONS :: "string list" where
  "SUPPORTED_WAVE_API_ACTIONS = [''transaction_add'']"

definition WAVE_TARGET_ALIASES :: "(string \<times> string) list" where
  "WAVE_TARGET_ALIASES =
     [(''business'', ''waveapps_business''), (''wave_business'', ''waveapps_business''),
      (''waveapps_business'', ''waveapps_business''), (''personal'', ''waveapps_personal''),
      (''wave_personal'', ''waveapps_personal''), (''waveapps_personal'', ''waveapps_personal'')]"

definition normalize_target :: "py_env \<Rightarrow> pyval \<Rightarrow> string" where
  "normalize_target env v =
     map (\<lambda>c. if c = CHR ''-'' \<or> c = CHR '' '' then CHR ''_'' else c)
       (lower (strip (if truthy v then py_str env v else [])))"

fun first_config_value :: "pydict \<Rightarrow> string list \<Rightarrow> pyval" where
  "first_config_value cfg [] = PNone"
| "first_config_value cfg (k # ks) =
     (if is_blank (dget cfg k) then first_config_value cfg ks else dget cfg k)"

definition resolve_target :: "py_env \<Rightarrow> pydict \<Rightarrow> pyval \<Rightarrow> string option" where
  "resolve_target env cfg target_system =
     (let n = normalize_target env target_system in
      case map_of WAVE_TARGET_ALIASES n of
        Some t \<Rightarrow> Some t
      | None \<Rightarrow>
          if n \<in> {''wave'', ''waveapps'', []} then
            map_of WAVE_TARGET_ALIASES (normalize_target env (first_config_value cfg
              [''waveapps_default_target'', ''operations_waveapps_default_target'', ''fab_waveapps_default_target'']))
          else None)"

definition missing_credentials :: "pydict \<Rightarrow> string \<Rightarrow> string list" where
  "missing_credentials cfg target =
     (let nested = as_dict (dget cfg target);
          lacks = (\<lambda>flat keys. is_blank (dget cfg flat) \<and> is_blank (first_config_value nested keys))
      in (if lacks (target @ ''_access_token'') [''access_token''] then [target @ ''_access_token''] else []) @
         (if lacks (target @ ''_id'') [''id'', ''business_id''] then [target @ ''_id''] else []))"

definition categorized_data :: "pydict \<Rightarrow> string \<Rightarrow> pyval \<Rightarrow> pyval \<Rightarrow> pyval \<Rightarrow> py_env \<Rightarrow> pydict" where
  "categorized_data payload target key document_id record_id env =
     [(''document_id'', py_or (py_or document_id record_id) key),
      (''bookkeeping_record_id'', record_id),
      (''document_type'', dget payload ''documentType''),
      (''transaction_direction'', dget payload ''transactionDirection''),
      (''target_system'', PStr target), (''target_account'', dget payload ''account''),
      (''category'', dget payload ''category''),
      (''idempotency_key'', PStr (if truthy key then py_str env key else [])),
      (''extracted_data'', PDict
        [(''description'', dget payload ''description''), (''document_type'', dget payload ''documentType''),
         (''transaction_direction'', dget payload ''transactionDirection''),
         (''vendor_name'', dget payload ''vendor''), (''transaction_date'', dget payload ''date''),
         (''total_amount'', dget payload ''amount''),
         (''line_items'', case dget payload ''lineItems'' of PList xs \<Rightarrow> PList xs | _ \<Rightarrow> PList [])])]"

text \<open>The request sent to the handler, if one was, and the answer.\<close>

definition wave_execute ::
  "py_env \<Rightarrow> pydict \<Rightarrow> (string \<Rightarrow> pydict \<Rightarrow> string + pydict) \<Rightarrow> pyval \<Rightarrow> string \<Rightarrow> pydict \<Rightarrow> pyval \<Rightarrow> pyval \<Rightarrow> pyval \<Rightarrow>
   pydict option \<times> pydict" where
  "wave_execute env cfg enter_data target_system action_id payload key document_id record_id =
     (case resolve_target env cfg target_system of
        None \<Rightarrow>
          (None, [(''status'', PStr ''needs_review''),
                  (''message'', PStr (''Wave execution needs an explicit waveapps_business or '' @
                     ''waveapps_personal target. Configure waveapps_default_target '' @
                     ''only when a safe default is intentional.'')),
                  (''requires_manual_review'', PBool True), (''review_reason'', PStr ''wave_target_ambiguous'')])
      | Some target \<Rightarrow>
          (let action = strip action_id in
           if action \<notin> set SUPPORTED_WAVE_API_ACTIONS then
             (None, [(''status'', PStr ''needs_review''),
                     (''message'', PStr (''Wave action '' @ py_repr env (PStr action) @ '' has no verified FAB API executor.'')),
                     (''requires_manual_review'', PBool True),
                     (''review_reason'', PStr ''wave_executor_unavailable''),
                     (''target_system'', PStr target), (''action_id'', PStr action)])
           else if missing_credentials cfg target \<noteq> [] then
             (None, [(''status'', PStr ''blocked_requires_credentials''),
                     (''message'', PStr ''Wave API execution is not configured for this target.''),
                     (''requires_manual_review'', PBool True),
                     (''review_reason'', PStr ''wave_credentials_missing''),
                     (''missing_configuration'', PList (map PStr (missing_credentials cfg target))),
                     (''target_system'', PStr target), (''action_id'', PStr action)])
           else
             (let request = categorized_data payload target key document_id record_id env in
              (Some request,
               case enter_data target request of
                 Inl msg \<Rightarrow>
                   [(''status'', PStr ''failure''),
                    (''message'', PStr (''Wave API executor failed before a verified result was recorded: '' @ msg)),
                    (''requires_manual_review'', PBool True),
                    (''review_reason'', PStr ''wave_api_execution_failed''),
                    (''target_system'', PStr target), (''action_id'', PStr action)]
               | Inr res \<Rightarrow>
                   (let public = dupdate res
                      [(''target_system'', PStr target), (''action_id'', PStr action),
                       (''idempotency_key'', PStr (if truthy key then py_str env key else []))]
                    in if dget public ''status'' = PStr ''csv_generated'' then
                         dupdate public
                           [(''status'', PStr ''needs_review''), (''requires_manual_review'', PBool True),
                            (''review_reason'', PStr ''wave_credentials_missing''),
                            (''message'', PStr (''Wave API execution was not configured; '' @
                               ''no external submission was made.''))]
                       else public)))))"

section \<open>Facts\<close>

lemma call_handler_gate:
  "gate_operation oc op mode confirmed h = Call_handler p \<Longrightarrow>
     wp_status (wo_plan op) = Planned \<and> (\<forall>c. wo_capability op = Some c \<longrightarrow> pc_status c = Ready) \<and>
     (wo_safety op = ''requires_credentials'' \<longrightarrow> oc_allow_credentials oc) \<and>
     (wo_safety op = ''requires_confirmation'' \<longrightarrow> confirmed \<and> oc_allow_confirmed oc) \<and> h \<and> p = wo_payload op"
  by (auto simp: gate_operation_def Let_def split: if_splits option.splits)

lemma planned_action:
  "wp_status (plan_wave_action cat surface action_id payload allow) = Planned \<Longrightarrow>
     \<exists>a. wc_actions cat action_id = Some a \<and> wa_surface a = surface \<and>
       (\<forall>f \<in> set (wa_required a). dget payload f \<noteq> PNone)"
  by (auto simp: plan_wave_action_def Let_def filter_empty_conv split: option.splits if_splits)

end
