(* ===== verification/Export_Attempts.thy ===== *)
theory Export_Attempts
  imports Export_Store Wave_Operator
begin

text \<open>
  \<open>LocalExportAttemptService\<close> of src/operations/local_exports.py, first part: the service's
  collaborators, the target and checksum helpers, the freshness gate of MijnGeldzaken drafts,
  approving and rejecting an attempt. The
  collaborators outside this file are the fields of \<open>export_ports\<close>: what they may change is
  fixed by their types (the record synchronisation returns the bookkeeping records and its own
  audit events, and cannot touch an export attempt or send anything).
\<close>

section \<open>The service\<close>

record draft_package =
  dp_action :: string
  dp_surface :: string
  dp_payload :: pydict
  dp_draft :: pydict

record export_ports =
  xp_catalog :: wave_catalog
  xp_enter_data :: "string \<Rightarrow> pydict \<Rightarrow> string + pydict" \<comment> \<open>\<open>handler.enter_data\<close>\<close>
  xp_sync_record :: "nat \<Rightarrow> string option \<Rightarrow> export_ledger \<Rightarrow> (book_row table \<times> ledger_event list) \<times> nat option"
    \<comment> \<open>\<open>LocalBookkeepingRecordService.upsert_from_document\<close>; no record id: the document is missing\<close>
  xp_build_draft :: "string \<Rightarrow> string \<Rightarrow> pydict \<Rightarrow> pydict \<Rightarrow> pydict" \<comment> \<open>\<open>build_mijngeldzaken_master_ledger_draft\<close>\<close>
  xp_current_package :: "export_ledger \<Rightarrow> nat \<Rightarrow> export_row \<Rightarrow> draft_package option"
    \<comment> \<open>\<open>_current_mijngeldzaken_master_ledger_package\<close>\<close>
  xp_backup :: "export_ledger \<Rightarrow> string + pydict" \<comment> \<open>\<open>LocalBackupService.create_backup\<close>\<close>
  xp_store_artifact :: "string \<Rightarrow> string \<Rightarrow> bool \<Rightarrow> string + pydict" \<comment> \<open>\<open>MijngeldzakenArtifactStore.write_text\<close>\<close>
  xp_json_indent :: "pydict \<Rightarrow> string"
  xp_exc_text :: "py_exc \<Rightarrow> string" \<comment> \<open>\<open>str(exc)\<close>\<close>
  xp_csv :: "pydict \<Rightarrow> string" \<comment> \<open>\<open>_csv_artifact_content\<close>\<close>

record export_service =
  sv_env :: ledger_env
  sv_config :: pydict
  sv_ports :: export_ports

record reply =
  rp_success :: bool
  rp_status :: string
  rp_fields :: pydict

definition reply :: "bool \<Rightarrow> string \<Rightarrow> pydict \<Rightarrow> reply" where
  "reply ok status fs = \<lparr>rp_success = ok, rp_status = status, rp_fields = fs\<rparr>"

lemma reply_simps [simp]:
  "rp_success (reply ok status fs) = ok"
  "rp_status (reply ok status fs) = status"
  by (simp_all add: reply_def)

definition EXPORT_APPROVAL_PHRASE :: string where
  "EXPORT_APPROVAL_PHRASE = ''APPROVE FAB EXPORT DRAFT''"

definition EXPORT_REJECTION_PHRASE :: string where
  "EXPORT_REJECTION_PHRASE = ''REJECT FAB EXPORT DRAFT''"

definition EXPORT_RESULT_CONFIRMATION_PHRASE :: string where
  "EXPORT_RESULT_CONFIRMATION_PHRASE = ''RECORD FAB EXPORT RESULT''"

definition APPROVABLE_EXPORT_STATUSES :: "export_status list" where
  "APPROVABLE_EXPORT_STATUSES = [Xs_approval_required, Xs_prepared, Xs_attention_required]"

definition REJECTABLE_EXPORT_STATUSES :: "export_status list" where
  "REJECTABLE_EXPORT_STATUSES =
     [Xs_approval_required, Xs_prepared, Xs_approved, Xs_attention_required, Xs_deferred, Xs_supervision_required]"

definition TERMINAL_EXECUTION_STATUSES :: "export_status list" where
  "TERMINAL_EXECUTION_STATUSES = [Xs_executed, Xs_submitted, Xs_queued]"

definition CLAIMABLE_EXECUTION_STATUSES :: "export_status list" where
  "CLAIMABLE_EXECUTION_STATUSES = [Xs_approved, Xs_deferred]"

definition PRESERVED_EXPORT_STATUSES :: "export_status list" where
  "PRESERVED_EXPORT_STATUSES =
     [Xs_approved, Xs_attention_required, Xs_deferred, Xs_execution_in_progress, Xs_supervision_required,
      Xs_queued, Xs_executed, Xs_submitted, Xs_failed, Xs_rejected]"

definition UNCHANGED_DRAFT_STATUSES :: "export_status list" where
  "UNCHANGED_DRAFT_STATUSES = [Xs_approval_required, Xs_prepared]"

definition PREPARED_ROUTING_STATUSES :: "string list" where
  "PREPARED_ROUTING_STATUSES = [''draft_prepared'', ''needs_confirmation'', ''queued'']"

definition submitted_externally :: "export_row \<Rightarrow> bool" where
  "submitted_externally r \<longleftrightarrow> xr_external r \<in> {''queued'', ''submitted'', ''executed''}"

definition service_audit ::
  "export_service \<Rightarrow> string \<Rightarrow> nat \<Rightarrow> pydict \<Rightarrow> timestamp \<Rightarrow> export_ledger \<Rightarrow> export_ledger" where
  "service_audit sv action i details now L =
     record_audit (sv_env sv) (''local_export_attempt.'' @ action) ''export_attempt'' (PStr (str_of_nat i)) details now L"

definition text_of :: "export_service \<Rightarrow> pyval \<Rightarrow> string" where
  "text_of sv v = py_str (le_py (sv_env sv)) v"

definition or_empty :: "export_service \<Rightarrow> pyval \<Rightarrow> string" where
  \<comment> \<open>\<open>str(v or "")\<close>\<close>
  "or_empty sv v = (if truthy v then text_of sv v else [])"

definition column_text :: "export_service \<Rightarrow> pyval \<Rightarrow> string option" where
  "column_text sv v = sql_text (le_py (sv_env sv)) v"

section \<open>Targets and checksums\<close>

fun before_colon :: "string \<Rightarrow> string" where
  "before_colon [] = []"
| "before_colon (c # cs) = (if c = CHR '':'' then [] else c # before_colon cs)"

definition target_system_from_target :: "export_service \<Rightarrow> pyval \<Rightarrow> string" where
  "target_system_from_target sv v =
     (let text = strip (if truthy v then text_of sv v else ''waveapps'') in
      if CHR '':'' \<in> set text then first_text (before_colon text) ''waveapps''
      else first_text text ''waveapps'')"

fun first_present_value :: "pyval list \<Rightarrow> pyval" where
  "first_present_value [] = PNone"
| "first_present_value (v # vs) = (if is_blank v then first_present_value vs else v)"

definition target_system_for_attempt :: "export_service \<Rightarrow> export_row \<Rightarrow> string" where
  "target_system_for_attempt sv r =
     lower (strip (text_of sv (first_present_value
       [PStr (xr_target r), dget (xr_metadata r) ''targetSystem'', dget (xr_metadata r) ''target_system'',
        PStr (target_system_from_target sv (dget (xr_metadata r) ''routingTarget'')), PStr ''waveapps''])))"

definition is_mijngeldzaken_target :: "string \<Rightarrow> bool" where
  "is_mijngeldzaken_target target =
     (let n = map (\<lambda>c. if c = CHR ''_'' then CHR ''-'' else c) (lower (strip target)) in
      n \<in> {''mijngeldzaken'', ''mijngeldzaken-nl'', ''mijngeldzaken.nl''} \<or>
      take 14 n = ''mijngeldzaken:'')"

definition target_label :: "string \<Rightarrow> string" where
  "target_label target = (if is_mijngeldzaken_target target then ''MijnGeldzaken'' else ''Wave'')"

definition master_ledger_checksum :: "export_service \<Rightarrow> pydict \<Rightarrow> string option" where
  "master_ledger_checksum sv metadata =
     (let c = dget metadata ''masterLedgerChecksum''; d = dget (as_dict (dget metadata ''masterLedgerDraft'')) ''checksum''
      in if truthy c then Some (text_of sv c) else if truthy d then Some (text_of sv d) else None)"

datatype freshness = Not_applicable | Source_missing | Checksum_mismatch | Fresh

definition master_ledger_freshness :: "export_service \<Rightarrow> export_ledger \<Rightarrow> nat \<Rightarrow> export_row \<Rightarrow> freshness" where
  "master_ledger_freshness sv L i r =
     (case master_ledger_checksum sv (xr_metadata r) of
        None \<Rightarrow> Not_applicable
      | Some stored \<Rightarrow>
          if \<not> is_mijngeldzaken_target (target_system_for_attempt sv r) then Not_applicable
          else (let current = (case xp_current_package (sv_ports sv) L i r of
                                 None \<Rightarrow> PNone | Some p \<Rightarrow> dget (dp_draft p) ''checksum'')
                in if \<not> truthy current then Source_missing
                   else if text_of sv current \<noteq> stored then Checksum_mismatch else Fresh))"

definition freshness_name :: "freshness \<Rightarrow> string" where
  "freshness_name f =
     (case f of Not_applicable \<Rightarrow> ''not_applicable'' | Source_missing \<Rightarrow> ''source_missing''
      | Checksum_mismatch \<Rightarrow> ''checksum_mismatch'' | Fresh \<Rightarrow> ''fresh'')"

definition is_stale :: "freshness \<Rightarrow> bool" where
  "is_stale f \<longleftrightarrow> f = Source_missing \<or> f = Checksum_mismatch"

definition stale_reply :: reply where
  "stale_reply = reply False ''stale_master_ledger_draft'' [(''externalSubmission'', PStr ''not_executed'')]"

text \<open>The event and the answer of \<open>_master_ledger_staleness\<close>, \<open>None\<close> when the draft is current.\<close>

definition master_ledger_staleness ::
  "export_service \<Rightarrow> nat \<Rightarrow> export_row \<Rightarrow> string \<Rightarrow> string \<Rightarrow> timestamp \<Rightarrow> export_ledger \<Rightarrow> (export_ledger \<times> reply) option" where
  "master_ledger_staleness sv i r stage actor now L =
     (let f = master_ledger_freshness sv L i r in
      if \<not> is_stale f then None
      else Some (service_audit sv ''master_ledger_stale'' i
                   [(''actor'', PStr actor), (''stage'', PStr stage), (''targetSystem'', PStr (xr_target r)),
                    (''storedChecksum'', opt_str (master_ledger_checksum sv (xr_metadata r))),
                    (''reason'', PStr (freshness_name f)), (''externalSubmission'', PStr ''not_executed'')] now L,
                 stale_reply))"

section \<open>The bookkeeping record behind an attempt\<close>

definition some_id :: "nat option \<Rightarrow> nat option" where
  \<comment> \<open>an id that is truthy\<close>
  "some_id v = (case v of Some 0 \<Rightarrow> None | _ \<Rightarrow> v)"

definition latest_export :: "string \<Rightarrow> nat option \<Rightarrow> pydict \<Rightarrow> pydict \<Rightarrow> pydict" where
  "latest_export export_status routing details metadata =
     dset ''latestExport'' (PDict [(''status'', PStr export_status), (''routingAttemptId'', opt_nat routing),
                                   (''details'', PDict details)]) metadata"

definition update_record_export_state ::
  "export_service \<Rightarrow> nat \<Rightarrow> string \<Rightarrow> string option \<Rightarrow> nat option \<Rightarrow> pydict \<Rightarrow> timestamp \<Rightarrow> export_ledger \<Rightarrow> export_ledger" where
  "update_record_export_state sv rid export_status status routing details now L =
     (case lookup_row (xl_records L) rid of
        None \<Rightarrow> L
      | Some b \<Rightarrow>
          update_book_export (sv_env sv) rid export_status
            (latest_export export_status routing details (bk_metadata b)) status now L)"

definition sync_export_state ::
  "export_service \<Rightarrow> nat \<Rightarrow> string \<Rightarrow> string option \<Rightarrow> nat option \<Rightarrow> pydict \<Rightarrow> timestamp \<Rightarrow> export_ledger \<Rightarrow> export_ledger" where
  "sync_export_state sv doc export_status status routing details now L =
     (case xp_sync_record (sv_ports sv) doc status L of
        (_, None) \<Rightarrow> L
      | ((records, evs), Some rid) \<Rightarrow>
          (let metadata = (case lookup_row records rid of None \<Rightarrow> [] | Some b \<Rightarrow> bk_metadata b)
           in update_book_export (sv_env sv) rid export_status
                (latest_export export_status routing details metadata) status now
                (L\<lparr>xl_records := records, xl_events := xl_events L @ evs\<rparr>)))"

definition note_export_state ::
  "export_service \<Rightarrow> export_row \<Rightarrow> string \<Rightarrow> string option \<Rightarrow> pydict \<Rightarrow> timestamp \<Rightarrow> export_ledger \<Rightarrow> export_ledger" where
  "note_export_state sv r export_status status details now L =
     (case some_id (xr_document r) of
        Some d \<Rightarrow> sync_export_state sv d export_status status (xr_routing r) details now L
      | None \<Rightarrow>
          (case some_id (xr_record r) of
             Some b \<Rightarrow> update_record_export_state sv b export_status status (xr_routing r) details now L
           | None \<Rightarrow> L))"

section \<open>Review items of an attempt\<close>

text \<open>\<open>f'"exportAttemptId": {id}'\<close>, looked for in the JSON text of the details.\<close>

definition export_marker :: "nat \<Rightarrow> string" where
  "export_marker i = CHR 0x22 # ''exportAttemptId'' @ [CHR 0x22] @ '': '' @ str_of_nat i"

definition marked :: "nat \<Rightarrow> ledger_review \<Rightarrow> bool" where
  "marked i v \<longleftrightarrow> contains (export_marker i) (case lv_details v of None \<Rightarrow> [] | Some d \<Rightarrow> d)"

definition wave_reason :: "string \<Rightarrow> bool" where
  "wave_reason reason \<longleftrightarrow> take 5 reason = ''wave_''"

definition resolve_reviews ::
  "(ledger_review \<Rightarrow> bool) \<Rightarrow> string \<Rightarrow> pydict \<Rightarrow> nat option \<Rightarrow> timestamp \<Rightarrow> export_ledger \<Rightarrow> export_ledger \<times> nat list" where
  "resolve_reviews P resolution corrected doc now L =
     (let ids = map fst (filter (\<lambda>(j, v). P v) (open_review_items (some_id doc) L))
      in (fold (\<lambda>j L. resolve_review_item j ''resolved'' resolution corrected now L) ids L, ids))"

definition resolve_wave_execution_reviews ::
  "nat \<Rightarrow> export_row \<Rightarrow> string \<Rightarrow> string \<Rightarrow> timestamp \<Rightarrow> export_ledger \<Rightarrow> export_ledger \<times> nat list" where
  "resolve_wave_execution_reviews i r actor result_status now L =
     resolve_reviews (\<lambda>v. marked i v \<and> wave_reason (lv_reason v))
       (''Wave export '' @ result_status @ '' by '' @ actor @ ''.'')
       [(''exportAttemptId'', PInt (int i)), (''resultStatus'', PStr result_status), (''resolvedBy'', PStr actor)]
       (xr_document r) now L"

definition supervision_review_reason :: string where
  "supervision_review_reason = ''mijngeldzaken_supervision_required''"

definition resolve_mijngeldzaken_supervision_reviews ::
  "nat \<Rightarrow> export_row \<Rightarrow> string \<Rightarrow> string \<Rightarrow> timestamp \<Rightarrow> export_ledger \<Rightarrow> export_ledger \<times> nat list" where
  "resolve_mijngeldzaken_supervision_reviews i r actor result_status now L =
     resolve_reviews (\<lambda>v. lv_reason v = supervision_review_reason \<and> (some_id (xr_document r) \<noteq> None \<or> marked i v))
       (''MijnGeldzaken supervised submission recorded as '' @ result_status @ '' by '' @ actor @ ''.'')
       [(''exportAttemptId'', PInt (int i)), (''resultStatus'', PStr result_status)] (xr_document r) now L"

section \<open>Approving and rejecting\<close>

definition id_list :: "nat list \<Rightarrow> pyval" where
  "id_list ids = PList (map (\<lambda>n. PInt (int n)) ids)"

definition approve_export ::
  "export_service \<Rightarrow> nat \<Rightarrow> string \<Rightarrow> string option \<Rightarrow> pyval \<Rightarrow> timestamp \<Rightarrow> export_ledger \<Rightarrow> export_ledger \<times> reply" where
  "approve_export sv i actor confirmation resolution now L =
     (case export_attempt L i of
        None \<Rightarrow> (L, reply False ''not_found'' [])
      | Some r \<Rightarrow>
          if confirmation \<noteq> Some EXPORT_APPROVAL_PHRASE then (L, reply False ''requires_confirmation'' [])
          else if xr_status r = Xs_approved then (L, reply True ''already_approved'' [])
          else if xr_status r \<notin> set APPROVABLE_EXPORT_STATUSES then (L, reply False ''not_approvable'' [])
          else (case master_ledger_staleness sv i r ''approval'' actor now L of
                  Some stale \<Rightarrow> stale
                | None \<Rightarrow>
                    (let stamp = le_iso (sv_env sv) now;
                         (L1, resolved) = (if xr_status r = Xs_attention_required
                            then resolve_wave_execution_reviews i r actor ''reapproved'' now L else (L, []));
                         checksum = opt_str (master_ledger_checksum sv (xr_metadata r));
                         metadata = dset ''approval''
                           (PDict [(''actor'', PStr actor), (''approvedAt'', PStr stamp), (''resolution'', resolution),
                                   (''masterLedgerChecksum'', checksum)]) (xr_metadata r);
                         L2 = update_export_attempt (sv_env sv) i
                           (no_update\<lparr>xu_status := Some Xs_approved, xu_approval_required := Some False,
                              xu_approved_at := Some stamp, xu_approved_by := Some actor,
                              xu_external := Some ''approved_not_executed'',
                              xu_message := Some ''Export approved locally; external submission is still not executed.'',
                              xu_metadata := Some metadata\<rparr>) now L1;
                         L3 = note_export_state sv r ''approved_not_submitted'' (Some ''export_approved'')
                           [(''exportAttemptId'', PInt (int i)), (''approvedBy'', PStr actor),
                            (''externalSubmission'', PStr ''approved_not_executed''),
                            (''masterLedgerChecksum'', checksum)] now L2
                     in (service_audit sv ''approved'' i
                           [(''actor'', PStr actor), (''documentId'', opt_nat (xr_document r)),
                            (''bookkeepingRecordId'', opt_nat (xr_record r)),
                            (''routingAttemptId'', opt_nat (xr_routing r)),
                            (''externalSubmission'', PStr ''approved_not_executed''),
                            (''masterLedgerChecksum'', checksum), (''resolvedReviewIds'', id_list resolved)] now L3,
                         reply True ''approved'' [(''resolvedReviewIds'', id_list resolved)]))))"

definition reject_export ::
  "export_service \<Rightarrow> nat \<Rightarrow> string \<Rightarrow> string option \<Rightarrow> pyval \<Rightarrow> timestamp \<Rightarrow> export_ledger \<Rightarrow> export_ledger \<times> reply" where
  "reject_export sv i actor confirmation resolution now L =
     (case export_attempt L i of
        None \<Rightarrow> (L, reply False ''not_found'' [])
      | Some r \<Rightarrow>
          if confirmation \<noteq> Some EXPORT_REJECTION_PHRASE then (L, reply False ''requires_confirmation'' [])
          else if xr_status r = Xs_rejected then (L, reply True ''already_rejected'' [])
          else if xr_status r \<notin> set REJECTABLE_EXPORT_STATUSES then (L, reply False ''not_rejectable'' [])
          else if submitted_externally r then (L, reply False ''already_submitted'' [])
          else
            (let stamp = le_iso (sv_env sv) now;
                 checksum = opt_str (master_ledger_checksum sv (xr_metadata r));
                 metadata = dset ''rejection''
                   (PDict [(''actor'', PStr actor), (''rejectedAt'', PStr stamp), (''resolution'', resolution),
                           (''masterLedgerChecksum'', checksum)]) (xr_metadata r);
                 L1 = update_export_attempt (sv_env sv) i
                   (no_update\<lparr>xu_status := Some Xs_rejected, xu_approval_required := Some False,
                      xu_external := Some ''rejected_not_executed'',
                      xu_message := Some ''Export rejected locally; no external submission was executed.'',
                      xu_metadata := Some metadata\<rparr>) now L;
                 (L2, resolved) =
                   (if xr_status r = Xs_supervision_required
                    then resolve_mijngeldzaken_supervision_reviews i r actor ''rejected'' now L1
                    else if xr_status r = Xs_attention_required
                    then resolve_wave_execution_reviews i r actor ''rejected'' now L1
                    else (L1, []));
                 L3 = note_export_state sv r ''rejected_not_executed'' (Some ''export_rejected'')
                   [(''exportAttemptId'', PInt (int i)), (''rejectedBy'', PStr actor), (''resolution'', resolution),
                    (''externalSubmission'', PStr ''rejected_not_executed''), (''masterLedgerChecksum'', checksum),
                    (''resolvedReviewIds'', id_list resolved)] now L2
             in (service_audit sv ''rejected'' i
                   [(''actor'', PStr actor), (''documentId'', opt_nat (xr_document r)),
                    (''bookkeepingRecordId'', opt_nat (xr_record r)), (''routingAttemptId'', opt_nat (xr_routing r)),
                    (''externalSubmission'', PStr ''rejected_not_executed''), (''resolution'', resolution),
                    (''masterLedgerChecksum'', checksum), (''resolvedReviewIds'', id_list resolved)] now L3,
                 reply True ''rejected''
                   [(''externalSubmission'', PStr ''rejected_not_executed''), (''resolvedReviewIds'', id_list resolved)])))"

end
