(* ===== verification/Export_Drafts.thy ===== *)
theory Export_Drafts
  imports Export_Attempts
begin

text \<open>
  \<open>LocalExportAttemptService\<close>, second part: preparing an attempt from a routing attempt and the
  batch over ready routes.
\<close>

section \<open>Preparing\<close>

definition document_of :: "nat option \<Rightarrow> export_ledger \<Rightarrow> (nat \<times> pydict) option" where
  "document_of doc L =
     (case some_id doc of
        None \<Rightarrow> None
      | Some d \<Rightarrow> map_option (\<lambda>r. (d, r)) (lookup_row (xl_documents L) d))"

definition record_from_routing_metadata :: "pydict \<Rightarrow> export_ledger \<Rightarrow> (nat \<times> book_row) option result" where
  "record_from_routing_metadata metadata L =
     (let v = py_or (dget metadata ''bookkeepingRecordId'') (dget metadata ''bookkeeping_record_id'') in
      if \<not> truthy v then Inr None
      else case to_int v of
             Inr n \<Rightarrow> Inr (if n < 0 then None
                           else map_option (\<lambda>b. (nat n, b)) (lookup_row (xl_records L) (nat n)))
           | Inl e \<Rightarrow> if e = TypeError \<or> e = ValueError then Inr None else Inl e)"

text \<open>The bookkeeping record of the route: the document's, else the one the metadata names.\<close>

definition routed_record :: "(nat \<times> pydict) option \<Rightarrow> pydict \<Rightarrow> export_ledger \<Rightarrow> (nat \<times> book_row) option result" where
  "routed_record document metadata L =
     (case (case document of None \<Rightarrow> None | Some (d, _) \<Rightarrow> record_by_document d L) of
        Some hit \<Rightarrow> Inr (Some hit)
      | None \<Rightarrow> record_from_routing_metadata metadata L)"

definition open_reviews_of :: "nat \<Rightarrow> export_ledger \<Rightarrow> bool" where
  "open_reviews_of d L \<longleftrightarrow> select_rows (\<lambda>v. lv_document v = Some d \<and> review_open v) (xl_reviews L) \<noteq> []"

definition export_block_for_routing ::
  "routing_row \<Rightarrow> (nat \<times> pydict) option \<Rightarrow> (nat \<times> book_row) option \<Rightarrow> pydict \<Rightarrow> export_ledger \<Rightarrow>
   (export_status \<times> string) option" where
  "export_block_for_routing ra document rec operation L =
     (if ro_status ra \<notin> set PREPARED_ROUTING_STATUSES then
        Some (Xs_blocked_routing, ''Routing attempt status '' @ ro_status ra @ '' is not ready for export approval.'')
      else if document = None \<and> rec = None then
        Some (Xs_blocked_source_missing, ''Source document or bookkeeping record is missing for this route.'')
      else if (case document of None \<Rightarrow> False | Some (d, _) \<Rightarrow> open_reviews_of d L) then
        Some (Xs_blocked_by_review, ''Document still has open review items.'')
      else if (case rec of None \<Rightarrow> False | Some (_, b) \<Rightarrow> bk_review_required b) then
        Some (Xs_blocked_by_review, ''Bookkeeping record still requires manual review.'')
      else if operation = [] \<or> dget (as_dict (dget operation ''plan'')) ''status'' \<noteq> PStr ''planned'' then
        Some (Xs_blocked_invalid_plan, ''Wave operation plan is incomplete.'')
      else None)"

definition same_export_operation :: "export_service \<Rightarrow> nat \<Rightarrow> export_row \<Rightarrow> pydict \<Rightarrow> bool" where
  "same_export_operation sv rid existing operation =
     (let op = strip (or_empty sv (dget operation ''operation_id'')) in
      if op \<noteq> [] then strip (case xr_operation existing of None \<Rightarrow> [] | Some o' \<Rightarrow> o') = op
      else xr_routing existing = Some rid)"

definition preserve_details :: "string \<Rightarrow> nat \<Rightarrow> routing_row \<Rightarrow> pydict \<Rightarrow> export_row \<Rightarrow> pydict" where
  "preserve_details actor rid ra operation existing =
     [(''actor'', PStr actor), (''routingAttemptId'', PInt (int rid)), (''documentId'', opt_nat (ro_document ra)),
      (''bookkeepingRecordId'', opt_nat (xr_record existing)), (''operationId'', dget operation ''operation_id''),
      (''status'', PStr (export_status_name (xr_status existing))), (''externalSubmission'', PStr (xr_external existing))]"

definition preserved_state_changed :: "nat \<Rightarrow> pydict \<Rightarrow> export_ledger \<Rightarrow> bool" where
  "preserved_state_changed i details L =
     (case find_audit_event ''local_export_attempt.prepare_preserved'' ''export_attempt'' (str_of_nat i) L of
        None \<Rightarrow> True
      | Some e \<Rightarrow>
          (\<exists>f \<in> set [''routingAttemptId'', ''documentId'', ''bookkeepingRecordId'', ''operationId'', ''status'',
                     ''externalSubmission'']. dget (ev_details e) f \<noteq> dget details f))"

definition source_proof ::
  "nat \<Rightarrow> routing_row \<Rightarrow> (nat \<times> pydict) option \<Rightarrow> (nat \<times> book_row) option \<Rightarrow> pydict" where
  "source_proof rid ra document rec =
     (let doc = (case document of None \<Rightarrow> [] | Some (_, d) \<Rightarrow> d) in
      filter (\<lambda>(k, v). \<not> is_blank v)
       [(''routingAttemptId'', PInt (int rid)), (''documentId'', opt_nat (ro_document ra)),
        (''bookkeepingRecordId'', opt_nat (map_option fst rec)),
        (''sourceDocumentId'', dget doc ''source_document_id''),
        (''bankTransactionId'', case rec of None \<Rightarrow> PNone | Some (_, b) \<Rightarrow> dget (bk_columns b) ''bank_transaction_id''),
        (''duplicateFingerprint'', dget doc ''duplicate_fingerprint''),
        (''reconciliationStatus'', case rec of Some (_, b) \<Rightarrow> PStr (bk_reconciliation b)
                                   | None \<Rightarrow> dget doc ''reconciliation_status'')])"

definition master_ledger_draft ::
  "export_service \<Rightarrow> string \<Rightarrow> pydict \<Rightarrow> pydict \<Rightarrow> nat \<Rightarrow> routing_row \<Rightarrow> (nat \<times> pydict) option \<Rightarrow>
   (nat \<times> book_row) option \<Rightarrow> pydict option" where
  "master_ledger_draft sv target operation payload rid ra document rec =
     (if \<not> is_mijngeldzaken_target target then None
      else Some (xp_build_draft (sv_ports sv) (or_empty sv (dget operation ''action_id''))
             (or_empty sv (dget operation ''surface'')) payload (source_proof rid ra document rec)))"

definition opt_dict :: "pydict option \<Rightarrow> pyval" where
  "opt_dict d = (case d of None \<Rightarrow> PNone | Some x \<Rightarrow> PDict x)"

definition stored_draft_checksum :: "pydict option \<Rightarrow> pyval" where
  "stored_draft_checksum d = dget (case d of None \<Rightarrow> [] | Some x \<Rightarrow> x) ''checksum''"

definition prepared_update ::
  "export_service \<Rightarrow> string \<Rightarrow> nat \<Rightarrow> routing_row \<Rightarrow> (nat \<times> book_row) option \<Rightarrow> string \<Rightarrow> pydict \<Rightarrow> pydict \<Rightarrow> pydict \<Rightarrow>
   pydict option \<Rightarrow> (export_status \<times> string) option \<Rightarrow> export_update" where
  "prepared_update sv actor rid ra rec target operation payload destination draft block =
     (let status = (case block of None \<Rightarrow> Xs_approval_required | Some (st, _) \<Rightarrow> st);
          message = (case block of
             None \<Rightarrow> target_label target @ '' export attempt prepared; approval is required before any external submission.''
           | Some (_, m) \<Rightarrow> m);
          metadata = ro_metadata ra
      in \<lparr>xu_record = map_option fst rec, xu_document = ro_document ra, xu_routing = Some rid,
          xu_workflow = ro_workflow ra, xu_target = Some target,
          xu_account = column_text sv (first_present_value
            [dget payload ''account'', dget payload ''incomeAccount'', dget payload ''expenseAccount'',
             opt_str (case rec of None \<Rightarrow> None | Some (_, b) \<Rightarrow> bk_target_account b)]),
          xu_action = column_text sv (dget operation ''action_id''),
          xu_surface = column_text sv (py_or (dget operation ''surface'') (dget destination ''target_surface'')),
          xu_operation = column_text sv (dget operation ''operation_id''),
          xu_status = Some status,
          xu_safety = column_text sv (py_or (dget operation ''safety'') (PStr ''requires_confirmation'')),
          xu_approval_required = Some (block = None), xu_approved_at = None, xu_approved_by = None,
          xu_external = Some ''not_executed'', xu_submitted_at = None, xu_external_id = None,
          xu_message = Some message, xu_payload = Some payload, xu_result = None,
          xu_metadata = Some
            [(''actor'', PStr actor), (''routingStatus'', PStr (ro_status ra)), (''routingTarget'', PStr (ro_target ra)),
             (''routingMessage'', opt_str (ro_message ra)), (''operationPlan'', dget operation ''plan''),
             (''approvalRequiredForSubmit'', dget_or metadata ''approvalRequiredForSubmit'' (PBool True)),
             (''documentSnapshot'', dget metadata ''documentSnapshot''),
             (''bookkeepingRecordSnapshot'', dget metadata ''bookkeepingRecordSnapshot''),
             (''masterLedgerDraft'', opt_dict draft), (''masterLedgerChecksum'', stored_draft_checksum draft),
             (''blockedReason'', case block of None \<Rightarrow> PNone | Some (st, _) \<Rightarrow> PStr (export_status_name st))]\<rparr>)"

text \<open>The attempt is left alone when its status is preserved or its open draft is the same operation.\<close>

definition leaves_alone :: "export_service \<Rightarrow> nat \<Rightarrow> pydict \<Rightarrow> export_row \<Rightarrow> bool" where
  "leaves_alone sv rid operation existing \<longleftrightarrow>
     xr_status existing \<in> set PRESERVED_EXPORT_STATUSES \<or>
     (xr_status existing \<in> set UNCHANGED_DRAFT_STATUSES \<and> same_export_operation sv rid existing operation)"

definition unchanged_draft :: "export_service \<Rightarrow> nat \<Rightarrow> pydict \<Rightarrow> export_row \<Rightarrow> bool" where
  "unchanged_draft sv rid operation existing \<longleftrightarrow>
     xr_status existing \<in> set UNCHANGED_DRAFT_STATUSES \<and> same_export_operation sv rid existing operation"

definition route_operation :: "routing_row \<Rightarrow> pydict" where
  "route_operation ra = as_dict (dget (ro_metadata ra) ''operation'')"

definition route_target :: "export_service \<Rightarrow> routing_row \<Rightarrow> string" where
  "route_target sv ra =
     (let v = dget (ro_metadata ra) ''targetSystem'' in
      if truthy v then text_of sv v else target_system_from_target sv (PStr (ro_target ra)))"

definition existing_for_route :: "export_service \<Rightarrow> nat \<Rightarrow> routing_row \<Rightarrow> export_ledger \<Rightarrow> (nat \<times> export_row) option" where
  "existing_for_route sv rid ra L =
     find_export_attempt (Some rid) (column_text sv (dget (route_operation ra) ''operation_id'')) L"

definition prepare_new ::
  "export_service \<Rightarrow> string \<Rightarrow> nat \<Rightarrow> routing_row \<Rightarrow> (nat \<times> book_row) option \<Rightarrow> timestamp \<Rightarrow> export_ledger \<Rightarrow>
   export_ledger \<times> reply result" where
  "prepare_new sv actor rid ra rec now L =
     (let metadata = ro_metadata ra; operation = route_operation ra;
          payload = as_dict (dget operation ''payload''); destination = as_dict (dget metadata ''destination'');
          document = document_of (ro_document ra) L; target = route_target sv ra;
          draft = master_ledger_draft sv target operation payload rid ra document rec;
          block = export_block_for_routing ra document rec operation L;
          u = prepared_update sv actor rid ra rec target operation payload destination draft block;
          status = dflt (xu_status u) Xs_approval_required;
          label = (if block = None then ''awaiting_approval'' else export_status_name status);
          rec_status = (if block = None then Some ''export_approval_pending'' else None)
      in case upsert_export_attempt (sv_env sv) u now L of
           (L1, Inl e) \<Rightarrow> (L1, Inl e)
         | (L1, Inr i) \<Rightarrow>
             (let details = [(''exportAttemptId'', PInt (int i)), (''operationId'', dget operation ''operation_id''),
                             (''externalSubmission'', PStr ''not_executed'')];
                  L2 = (case document of
                          Some (d, _) \<Rightarrow> sync_export_state sv d label rec_status (Some rid) details now L1
                        | None \<Rightarrow>
                            (case rec of
                               Some (b, _) \<Rightarrow> update_record_export_state sv b label rec_status (Some rid) details now L1
                             | None \<Rightarrow> L1))
              in (service_audit sv ''prepared'' i
                    [(''routingAttemptId'', PInt (int rid)), (''documentId'', opt_nat (ro_document ra)),
                     (''bookkeepingRecordId'', opt_nat (map_option fst rec)),
                     (''status'', PStr (export_status_name status)), (''externalSubmission'', PStr ''not_executed''),
                     (''approvalRequired'', PBool (block = None)), (''targetSystem'', PStr target),
                     (''masterLedgerChecksum'', stored_draft_checksum draft)] now L2,
                  Inr (reply (block = None) (export_status_name status)
                    [(''exportAttemptId'', PInt (int i))]))))"

definition prepare_from_routing_attempt ::
  "export_service \<Rightarrow> nat \<Rightarrow> string \<Rightarrow> timestamp \<Rightarrow> export_ledger \<Rightarrow> export_ledger \<times> reply result" where
  "prepare_from_routing_attempt sv rid actor now L =
     (case lookup_row (xl_routing L) rid of
        None \<Rightarrow> (L, Inr (reply False ''not_found'' []))
      | Some ra \<Rightarrow>
          (case routed_record (document_of (ro_document ra) L) (ro_metadata ra) L of
             Inl e \<Rightarrow> (L, Inl e)
           | Inr rec \<Rightarrow>
               (case existing_for_route sv rid ra L of
                  Some (i, existing) \<Rightarrow>
                    if leaves_alone sv rid (route_operation ra) existing then
                      (let details = preserve_details actor rid ra (route_operation ra) existing;
                           L1 = (if \<not> unchanged_draft sv rid (route_operation ra) existing \<and> preserved_state_changed i details L
                                 then service_audit sv ''prepare_preserved'' i details now L else L)
                       in (L1, Inr (reply True ''already_prepared'' [(''exportAttemptId'', PInt (int i))])))
                    else prepare_new sv actor rid ra rec now L
                | None \<Rightarrow> prepare_new sv actor rid ra rec now L)))"

fun prepare_all ::
  "export_service \<Rightarrow> nat list \<Rightarrow> string \<Rightarrow> timestamp \<Rightarrow> export_ledger \<Rightarrow> export_ledger \<times> reply list result" where
  "prepare_all sv [] actor now L = (L, Inr [])"
| "prepare_all sv (rid # rids) actor now L =
     (case prepare_from_routing_attempt sv rid actor now L of
        (L1, Inl e) \<Rightarrow> (L1, Inl e)
      | (L1, Inr r) \<Rightarrow>
          (case prepare_all sv rids actor now L1 of
             (L2, Inl e) \<Rightarrow> (L2, Inl e)
           | (L2, Inr rs) \<Rightarrow> (L2, Inr (r # rs))))"

definition prepared_routes :: "nat \<Rightarrow> export_ledger \<Rightarrow> nat list" where
  "prepared_routes limit L =
     take (max 1 (min limit 500)) (map fst (sort_key (\<lambda>(i, r). - micros (ro_created r)) (rev (sort_key fst
       (select_rows (\<lambda>r. ro_status r \<in> set PREPARED_ROUTING_STATUSES) (xl_routing L))))))"

definition prepare_ready_exports ::
  "export_service \<Rightarrow> nat \<Rightarrow> timestamp \<Rightarrow> export_ledger \<Rightarrow> export_ledger \<times> reply list result" where
  "prepare_ready_exports sv limit now L =
     (let rids = prepared_routes limit L in
      case prepare_all sv rids ''fab_local_exports'' now L of
        (L1, Inl e) \<Rightarrow> (L1, Inl e)
      | (L1, Inr rs) \<Rightarrow>
          (let already = length (filter (\<lambda>r. rp_status r = ''already_prepared'') rs);
               prepared = length (filter (\<lambda>r. rp_status r \<noteq> ''already_prepared'' \<and> rp_success r) rs);
               blocked = length (filter (\<lambda>r. rp_status r \<noteq> ''already_prepared'' \<and> \<not> rp_success r) rs)
           in (if prepared > 0 \<or> blocked > 0 then
                 record_audit (sv_env sv) ''local_export_attempt.batch_prepare_completed'' ''export_attempt'' PNone
                   [(''requested'', PInt (int (length rids))), (''prepared'', PInt (int prepared)),
                    (''alreadyPrepared'', PInt (int already)), (''blocked'', PInt (int blocked)),
                    (''externalSubmission'', PStr ''not_executed'')] now L1
               else L1, Inr rs)))"

end
