(* ===== verification/Export_Results.thy ===== *)
theory Export_Results
  imports Export_Drafts
begin

text \<open>
  \<open>LocalExportAttemptService\<close>, third part: regenerating a MijnGeldzaken draft from the current
  source record, the artifact of a draft, and recording the result of an external submission.
\<close>

section \<open>Regenerating\<close>

fun py_list_of :: "pyval \<Rightarrow> pyval list result" where
  \<comment> \<open>\<open>list(v)\<close>\<close>
  "py_list_of (PList xs) = Inr xs"
| "py_list_of (PStr s) = Inr (map (\<lambda>c. PStr [c]) s)"
| "py_list_of (PDict d) = Inr (map (\<lambda>kv. PStr (fst kv)) d)"
| "py_list_of _ = Inl TypeError"

definition regeneration_entry ::
  "export_service \<Rightarrow> export_row \<Rightarrow> string \<Rightarrow> pyval \<Rightarrow> timestamp \<Rightarrow> pyval" where
  "regeneration_entry sv r actor to_checksum now =
     PDict [(''actor'', PStr actor), (''regeneratedAt'', PStr (le_iso (sv_env sv) now)),
            (''fromChecksum'', opt_str (master_ledger_checksum sv (xr_metadata r))),
            (''toChecksum'', to_checksum), (''fromStatus'', PStr (export_status_name (xr_status r))),
            (''fromExternalSubmission'', PStr (xr_external r))]"

definition regenerate_attempt ::
  "export_service \<Rightarrow> nat \<Rightarrow> string \<Rightarrow> timestamp \<Rightarrow> export_ledger \<Rightarrow> export_ledger \<times> reply result" where
  "regenerate_attempt sv i actor now L =
     (case export_attempt L i of
        None \<Rightarrow> (L, Inr (reply False ''not_found'' []))
      | Some r \<Rightarrow>
          if xr_status r = Xs_supervision_required then (L, Inr (reply False ''supervision_in_progress'' []))
          else if submitted_externally r then (L, Inr (reply False ''already_submitted'' []))
          else if \<not> is_mijngeldzaken_target (target_system_for_attempt sv r) then
            (L, Inr (reply False ''not_supported'' []))
          else (case xp_current_package (sv_ports sv) L i r of
                  None \<Rightarrow> (L, Inr (reply False ''source_missing'' []))
                | Some p \<Rightarrow>
                    (case (let h = dget (xr_metadata r) ''regenerationHistory'' in
                           if truthy h then py_list_of h else Inr []) of
                       Inl e \<Rightarrow> (L, Inl e)
                     | Inr history \<Rightarrow>
                         (let checksum = dget (dp_draft p) ''checksum'';
                              entry = regeneration_entry sv r actor checksum now;
                              metadata = dupdate (xr_metadata r)
                                [(''masterLedgerDraft'', PDict (dp_draft p)), (''masterLedgerChecksum'', checksum),
                                 (''regenerationHistory'', PList (history @ [entry])), (''lastRegeneration'', entry),
                                 (''sourceRegeneratedFromCurrentFabState'', PBool True)];
                              L1 = update_export_attempt (sv_env sv) i
                                (no_update\<lparr>xu_account := column_text sv (dget (dp_payload p) ''account''),
                                   xu_action := Some (dp_action p), xu_surface := Some (dp_surface p),
                                   xu_status := Some Xs_approval_required, xu_approval_required := Some True,
                                   xu_external := Some ''not_executed'',
                                   xu_message := Some (''MijnGeldzaken master-ledger draft regenerated from current '' @
                                     ''FAB source state; approval is required before external submission.''),
                                   xu_payload := Some (dp_payload p), xu_result := Some [],
                                   xu_metadata := Some metadata\<rparr>) now L;
                              details = [(''exportAttemptId'', PInt (int i)), (''actor'', PStr actor),
                                (''targetSystem'', PStr (target_system_for_attempt sv r)),
                                (''externalSubmission'', PStr ''not_executed''), (''masterLedgerChecksum'', checksum),
                                (''previousMasterLedgerChecksum'', opt_str (master_ledger_checksum sv (xr_metadata r)))];
                              L2 = note_export_state sv r ''awaiting_approval'' (Some ''export_approval_pending'')
                                details now L1
                          in (service_audit sv ''regenerated'' i details now L2,
                              Inr (reply True ''regenerated'' [(''masterLedgerChecksum'', checksum)]))))))"

section \<open>Artifacts\<close>

record draft_artifact =
  da_format :: string
  da_content_type :: string
  da_filename :: string
  da_content :: string
  da_checksum :: pyval
  da_draft_type :: pyval

datatype artifact_result =
    Artifact_refused reply
  | Artifact_prepared draft_artifact

definition draft_of :: "pydict \<Rightarrow> pydict" where
  "draft_of metadata = as_dict (dget metadata ''masterLedgerDraft'')"

definition prepare_artifact ::
  "export_service \<Rightarrow> nat \<Rightarrow> export_row \<Rightarrow> string \<Rightarrow> string \<Rightarrow> string \<Rightarrow> draft_artifact" where
  "prepare_artifact sv i r fmt content_type content =
     \<lparr>da_format = fmt, da_content_type = content_type,
      da_filename = ''fab-'' @ first_text (xr_target r) ''export'' @ ''-'' @ str_of_nat i @ ''.'' @ fmt,
      da_content = content, da_checksum = dget (draft_of (xr_metadata r)) ''checksum'',
      da_draft_type = dget (draft_of (xr_metadata r)) ''draftType''\<rparr>"

definition record_artifact_audit ::
  "export_service \<Rightarrow> nat \<Rightarrow> export_row \<Rightarrow> draft_artifact \<Rightarrow> string \<Rightarrow> timestamp \<Rightarrow> export_ledger \<Rightarrow> export_ledger" where
  "record_artifact_audit sv i r a actor now L =
     service_audit sv ''artifact_prepared'' i
       [(''actor'', PStr actor), (''format'', PStr (da_format a)), (''filename'', PStr (da_filename a)),
        (''checksum'', da_checksum a), (''draftType'', da_draft_type a), (''targetSystem'', PStr (xr_target r)),
        (''externalSubmission'', PStr ''not_executed'')] now L"

definition artifact_for_attempt ::
  "export_service \<Rightarrow> nat \<Rightarrow> string \<Rightarrow> string \<Rightarrow> timestamp \<Rightarrow> export_ledger \<Rightarrow> export_ledger \<times> artifact_result" where
  "artifact_for_attempt sv i export_format actor now L =
     (case export_attempt L i of
        None \<Rightarrow> (L, Artifact_refused (reply False ''not_found'' []))
      | Some r \<Rightarrow>
          (let draft = draft_of (xr_metadata r); fmt = lower (strip (first_text export_format ''json'')) in
           if draft = [] then (L, Artifact_refused (reply False ''no_artifact'' []))
           else if fmt = ''json'' then
             (let a = prepare_artifact sv i r ''json'' ''application/json'' (xp_json_indent (sv_ports sv) draft)
              in (record_artifact_audit sv i r a actor now L, Artifact_prepared a))
           else if fmt = ''csv'' \<and> dget draft ''draftType'' = PStr ''transaction_import'' then
             (let a = prepare_artifact sv i r ''csv'' ''text/csv'' (xp_csv (sv_ports sv) draft)
              in (record_artifact_audit sv i r a actor now L, Artifact_prepared a))
           else (L, Artifact_refused (reply False ''unsupported_format'' []))))"

section \<open>Recording a result\<close>

definition RESULT_STATUSES :: "export_status list" where
  "RESULT_STATUSES = [Xs_executed, Xs_submitted, Xs_queued, Xs_failed]"

definition result_status :: "string \<Rightarrow> export_status option" where
  "result_status text = find (\<lambda>st. export_status_name st = lower (strip text)) RESULT_STATUSES"

definition external_submission_for_result :: "export_status \<Rightarrow> string" where
  "external_submission_for_result st =
     (if st \<in> {Xs_executed, Xs_submitted} then ''executed'' else if st = Xs_queued then ''queued'' else ''failed'')"

definition message_for_result :: "export_status \<Rightarrow> string" where
  "message_for_result st =
     (if st \<in> {Xs_executed, Xs_submitted} then ''External export result recorded.''
      else if st = Xs_queued then ''External export queued by a separate executor.''
      else ''External export failure recorded.'')"

definition write_result ::
  "export_service \<Rightarrow> nat \<Rightarrow> export_row \<Rightarrow> export_status \<Rightarrow> string option \<Rightarrow> pydict \<Rightarrow> string \<Rightarrow> timestamp \<Rightarrow>
   export_ledger \<Rightarrow> export_ledger" where
  "write_result sv i r st external_id res actor now L =
     (let stamp = le_iso (sv_env sv) now; external = external_submission_for_result st;
          checksum = master_ledger_checksum sv (xr_metadata r);
          metadata = dset ''lastResult''
            (PDict [(''actor'', PStr actor), (''recordedAt'', PStr stamp), (''status'', PStr (export_status_name st)),
                    (''externalSubmission'', PStr external), (''masterLedgerChecksum'', opt_str checksum)])
            (xr_metadata r);
          payload = (case checksum of
                       Some c \<Rightarrow> if map_of res ''masterLedgerChecksum'' = None
                                 then dset ''masterLedgerChecksum'' (PStr c) res else res
                     | None \<Rightarrow> res)
      in update_export_attempt (sv_env sv) i
           (no_update\<lparr>xu_status := Some st, xu_external := Some external,
              xu_submitted_at := (if st \<in> {Xs_executed, Xs_submitted} then Some stamp else None),
              xu_external_id := external_id, xu_message := Some (message_for_result st),
              xu_result := Some payload, xu_metadata := Some metadata\<rparr>) now L)"

definition record_result ::
  "export_service \<Rightarrow> nat \<Rightarrow> string \<Rightarrow> string option \<Rightarrow> pydict \<Rightarrow> string \<Rightarrow> string option \<Rightarrow> timestamp \<Rightarrow>
   export_ledger \<Rightarrow> export_ledger \<times> reply" where
  "record_result sv i status external_id res actor confirmation now L =
     (case export_attempt L i of
        None \<Rightarrow> (L, reply False ''not_found'' [])
      | Some r \<Rightarrow>
          (case result_status status of
             None \<Rightarrow> (L, reply False ''invalid_result_status'' [])
           | Some st \<Rightarrow>
               if confirmation \<noteq> Some EXPORT_RESULT_CONFIRMATION_PHRASE then
                 (L, reply False ''requires_confirmation'' [])
               else if xr_status r = Xs_supervision_required \<and> st = Xs_queued then
                 (L, reply False ''invalid_supervised_result'' [])
               else if xr_status r \<notin> {Xs_approved, Xs_supervision_required} \<and> st \<noteq> Xs_failed then
                 (L, reply False ''blocked_unapproved'' [])
               else (case (if st = Xs_failed then None else master_ledger_staleness sv i r ''result'' actor now L) of
                       Some stale \<Rightarrow> stale
                     | None \<Rightarrow>
                         (let external = external_submission_for_result st;
                              checksum = opt_str (master_ledger_checksum sv (xr_metadata r));
                              L1 = write_result sv i r st external_id res actor now L;
                              (L2, resolved) =
                                (if xr_status r = Xs_supervision_required \<and> st \<in> {Xs_executed, Xs_submitted}
                                 then resolve_mijngeldzaken_supervision_reviews i r actor (export_status_name st) now L1
                                 else (L1, []));
                              L3 = note_export_state sv r external
                                (if st \<in> {Xs_executed, Xs_submitted} then Some ''routed'' else None)
                                [(''exportAttemptId'', PInt (int i)), (''externalId'', opt_str external_id),
                                 (''resultStatus'', PStr (export_status_name st)), (''externalSubmission'', PStr external),
                                 (''masterLedgerChecksum'', checksum)] now L2
                          in (service_audit sv ''result_recorded'' i
                                [(''actor'', PStr actor), (''status'', PStr (export_status_name st)),
                                 (''externalSubmission'', PStr external), (''externalId'', opt_str external_id),
                                 (''masterLedgerChecksum'', checksum), (''resolvedReviewIds'', id_list resolved)] now L3,
                              reply True (export_status_name st)
                                [(''externalSubmission'', PStr external), (''resolvedReviewIds'', id_list resolved)])))))"

end
