(* ===== verification/Export_Execution.thy ===== *)
theory Export_Execution
  imports Export_Results Claims
begin

text \<open>
  \<open>LocalExportAttemptService\<close>, fourth part: executing an approved attempt. The claim, the
  checks behind it, the call of the Wave operator with its request log, the mapping of the
  answer, the retry state, the supervised path of MijnGeldzaken, the review queue, and the
  batch over approved attempts.
\<close>

section \<open>Retry times\<close>

definition normalize_iso :: "string \<Rightarrow> string" where
  "normalize_iso s = (if s \<noteq> [] \<and> last s = CHR ''Z'' then butlast s @ ''+00:00'' else s)"

definition parse_datetime :: "export_service \<Rightarrow> pyval \<Rightarrow> timestamp option" where
  "parse_datetime sv v =
     (if \<not> truthy v then None else le_parse_iso (sv_env sv) (normalize_iso (text_of sv v)))"

definition retry_of :: "pydict \<Rightarrow> pydict" where
  "retry_of metadata = as_dict (dget metadata ''retry'')"

definition execution_retry_due :: "export_service \<Rightarrow> timestamp \<Rightarrow> export_row \<Rightarrow> bool" where
  "execution_retry_due sv now r \<longleftrightarrow>
     xr_status r \<noteq> Xs_deferred \<or>
     (case parse_datetime sv (dget (retry_of (xr_metadata r)) ''nextRetryAt'') of
        None \<Rightarrow> True | Some t \<Rightarrow> t \<le> now)"

definition retry_delay_value :: "export_service \<Rightarrow> pydict \<Rightarrow> pyval" where
  "retry_delay_value sv provider =
     (let v = dget provider ''retry_after_seconds'' in
      if \<not> is_blank v then v
      else if or_empty sv (dget provider ''status'') = ''quota_exhausted''
      then dget_or (sv_config sv) ''quota_exhausted_retry_delay_seconds'' (PInt 3600)
      else dget_or (sv_config sv) ''rate_limit_retry_delay_seconds'' (PInt 60))"

definition retry_delay_seconds :: "export_service \<Rightarrow> pydict \<Rightarrow> pyfloat result" where
  "retry_delay_seconds sv provider =
     (case to_float (retry_delay_value sv provider) of
        Inr f \<Rightarrow> Inr (if flt_less f (Num 1) then Num 1 else f)
      | Inl e \<Rightarrow> if e = TypeError \<or> e = ValueError then Inr (Num 60) else Inl e)"

text \<open>\<open>now + timedelta(seconds=f)\<close>, rounded to microseconds.\<close>

fun after_delay :: "timestamp \<Rightarrow> pyfloat \<Rightarrow> timestamp result" where
  "after_delay now (Num r) =
     (let t = micros now + round_half_even (r * 1000000)
      in if datetime_max < t then Inl OverflowError else Inr (Timestamp t))"
| "after_delay now (Infty b) = Inl OverflowError"
| "after_delay now NaN = Inl ValueError"

definition next_retry_state ::
  "export_service \<Rightarrow> pydict \<Rightarrow> pydict \<Rightarrow> timestamp \<Rightarrow> pydict result" where
  "next_retry_state sv metadata provider now =
     rbind (retry_delay_seconds sv provider) (\<lambda>delay.
     rbind (let n = dget (retry_of metadata) ''attemptCount'' in if truthy n then to_int n else Inr 0) (\<lambda>count.
     rbind (after_delay now delay) (\<lambda>due.
       Inr [(''attemptCount'', PInt (count + 1)),
            (''reason'', py_or (dget provider ''status'') (PStr ''rate_limited'')),
            (''message'', dget provider ''message''), (''retryAfterSeconds'', PFloat delay),
            (''nextRetryAt'', PStr (le_iso (sv_env sv) due))])))"

section \<open>Mapping the answer\<close>

definition map_execution_status :: "export_service \<Rightarrow> string \<Rightarrow> string \<Rightarrow> string \<times> export_status \<times> string" where
  "map_execution_status sv status target =
     (let label = target_label target in
      if status \<in> {''success'', ''executed''} then
        (''executed'', Xs_executed, label @ '' execution completed successfully.'')
      else if status = ''submitted'' then
        (''submitted'', Xs_submitted, label @ '' external execution submitted.'')
      else if status = ''queued'' then
        (''queued'', Xs_queued, label @ '' execution queued for external processing.'')
      else if status \<in> {''rate_limited'', ''quota_exhausted''} then
        (''not_executed'', Xs_deferred, label @ '' execution was deferred by the outbound quota guard.'')
      else if status = ''blocked_requires_confirmation'' then
        (''not_executed'', Xs_attention_required, ''Execution needs an explicitly supported confirmed-action executor.'')
      else if status = ''blocked_requires_credentials'' then
        (''not_executed'', Xs_attention_required, ''Execution is waiting for external credentials.'')
      else if status = ''needs_review'' then
        (''not_executed'', Xs_attention_required, ''Execution needs additional review before it can run.'')
      else (''failed'', Xs_failed,
            label @ '' execution could not run: '' @ py_repr (le_py (sv_env sv)) (PStr status) @ ''.''))"

definition record_status_for_execution :: "export_status \<Rightarrow> string" where
  "record_status_for_execution st =
     (if st = Xs_queued then ''queued'' else if st \<in> {Xs_executed, Xs_submitted} then ''executed'' else ''failed'')"

fun split_on :: "char \<Rightarrow> string \<Rightarrow> string \<Rightarrow> string list" where
  "split_on sep acc [] = [rev acc]"
| "split_on sep acc (c # cs) = (if c = sep then rev acc # split_on sep [] cs else split_on sep (c # acc) cs)"

definition split_strip :: "char \<Rightarrow> string \<Rightarrow> string list" where
  "split_strip sep text = filter (\<lambda>s. s \<noteq> []) (map strip (split_on sep [] text))"

definition list_optional_strs :: "export_service \<Rightarrow> pyval \<Rightarrow> string list option" where
  "list_optional_strs sv v =
     (case v of
        PNone \<Rightarrow> None
      | PList xs \<Rightarrow> (let ys = filter (\<lambda>s. s \<noteq> []) (map (text_of sv) xs) in if ys = [] then None else Some ys)
      | _ \<Rightarrow>
          (let text = strip (text_of sv v) in
           if text = [] then None
           else if CHR '','' \<in> set text then Some (split_strip CHR '','' text)
           else if CHR '';'' \<in> set text then Some (split_strip CHR '';'' text)
           else Some [text]))"

section \<open>Calling the operator\<close>

text \<open>
  \<open>dict(v or {})\<close> of a stored value: what is neither empty nor a dictionary raises. (A list of
  pairs would be accepted; the program stores none under the keys it is applied to.)
\<close>

definition dict_of :: "pyval \<Rightarrow> pydict result" where
  "dict_of v =
     (if \<not> truthy v then Inr []
      else case v of PDict d \<Rightarrow> Inr d | PStr _ \<Rightarrow> Inl ValueError | _ \<Rightarrow> Inl TypeError)"

definition operation_mode :: "pydict \<Rightarrow> pydict \<Rightarrow> pyval result" where
  "operation_mode metadata operation =
     (if truthy (dget metadata ''mode'') then Inr (dget metadata ''mode'')
      else if truthy (dget operation ''mode'') then Inr (dget operation ''mode'')
      else attr_get (dget_or operation ''plan'' (PDict [])) ''mode'' PNone)"

text \<open>
  What planning a capability needs of the two untyped arguments: a list or dictionary is no key
  of the catalog, and only a number can be compared with the threshold.
\<close>

definition capability_key :: "export_service \<Rightarrow> pyval \<Rightarrow> string option result" where
  "capability_key sv v =
     (if \<not> truthy v then Inr None
      else case v of PList _ \<Rightarrow> Inl TypeError | PDict _ \<Rightarrow> Inl TypeError | _ \<Rightarrow> Inr (Some (text_of sv v)))"

definition capability_confidence ::
  "export_service \<Rightarrow> string option \<Rightarrow> pyval \<Rightarrow> pyfloat option result" where
  "capability_confidence sv key v =
     (if (case key of None \<Rightarrow> True | Some k \<Rightarrow> wc_capabilities (xp_catalog (sv_ports sv)) k = None) then Inr None
      else case v of
             PNone \<Rightarrow> Inr None
           | PBool b \<Rightarrow> Inr (Some (Num (if b then 1 else 0)))
           | PInt n \<Rightarrow> Inr (Some (Num (of_int n)))
           | PFloat f \<Rightarrow> Inr (Some f)
           | _ \<Rightarrow> Inl TypeError)"

definition attempt_key :: "nat \<Rightarrow> export_row \<Rightarrow> pyval" where
  "attempt_key i r = py_or (opt_str (xr_operation r)) (PInt (int i))"

definition attempt_operation ::
  "export_service \<Rightarrow> nat \<Rightarrow> export_row \<Rightarrow> string \<Rightarrow> pydict \<Rightarrow> wave_operation result" where
  "attempt_operation sv i r action_id operation =
     (let m = xr_metadata r in
      rbind (capability_key sv (py_or (dget m ''capabilityId'') (dget m ''capability_id''))) (\<lambda>key.
      rbind (capability_confidence sv key (dget m ''confidence'')) (\<lambda>conf.
        Inr (prepare_operation (le_py (sv_env sv)) (xp_catalog (sv_ports sv)) action_id (xr_payload r)
               (let s = py_or (opt_str (xr_surface r)) (dget operation ''surface'') in
                if truthy s then Some (text_of sv s) else None)
               (Some (text_of sv (attempt_key i r))) True key
               (list_optional_strs sv (py_or (dget m ''availableSignals'') (dget m ''available_signals''))) conf))))"

text \<open>The request sent, if one was, the execution and the operation stored with it.\<close>

record dispatch =
  di_request :: "pydict option"
  di_execution :: execution
  di_operation :: pyval

definition row_value :: "export_service \<Rightarrow> nat \<Rightarrow> export_row \<Rightarrow> pyval" where
  \<comment> \<open>the row as \<open>_row_to_dict\<close> returns it\<close>
  "row_value sv i r =
     PDict [(''id'', PInt (int i)), (''bookkeeping_record_id'', opt_nat (xr_record r)),
            (''document_id'', opt_nat (xr_document r)), (''routing_attempt_id'', opt_nat (xr_routing r)),
            (''workflow_run_id'', opt_nat (xr_workflow r)), (''target_system'', PStr (xr_target r)),
            (''target_account'', opt_str (xr_account r)), (''action_id'', opt_str (xr_action r)),
            (''surface'', opt_str (xr_surface r)), (''operation_id'', opt_str (xr_operation r)),
            (''status'', PStr (export_status_name (xr_status r))), (''safety'', PStr (xr_safety r)),
            (''approval_required'', PInt (if xr_approval_required r then 1 else 0)), (''approved_at'', opt_str (xr_approved_at r)),
            (''approved_by'', opt_str (xr_approved_by r)), (''external_submission'', PStr (xr_external r)),
            (''submitted_at'', opt_str (xr_submitted_at r)), (''external_id'', opt_str (xr_external_id r)),
            (''message'', opt_str (xr_message r)), (''payload'', PDict (xr_payload r)), (''result'', PDict (xr_result r)),
            (''metadata'', PDict (xr_metadata r)), (''created_at'', PStr (le_iso (sv_env sv) (xr_created r))),
            (''updated_at'', PStr (le_iso (sv_env sv) (xr_updated r)))]"

definition dispatch_attempt ::
  "export_service \<Rightarrow> nat \<Rightarrow> export_row \<Rightarrow> string \<Rightarrow> pydict \<Rightarrow> string option \<Rightarrow> string \<Rightarrow> timestamp \<Rightarrow> dispatch" where
  "dispatch_attempt sv i r action_id operation mode actor now =
     (case attempt_operation sv i r action_id operation of
        Inl e \<Rightarrow>
          \<lparr>di_request = None,
           di_execution = stopped ''failed'' (''Execution failed before dispatch: '' @ xp_exc_text (sv_ports sv) e),
           di_operation = py_or (PDict operation) (row_value sv i r)\<rparr>
      | Inr op \<Rightarrow>
          (let ov = PDict (operation_value op actor (le_iso (sv_env sv) now)) in
           case gate_operation (operator_config_of (sv_config sv)) op mode True True of
             Stop en \<Rightarrow> \<lparr>di_request = None, di_execution = en, di_operation = ov\<rparr>
           | Call_handler payload \<Rightarrow>
               (case wave_execute (le_py (sv_env sv)) (sv_config sv) (xp_enter_data (sv_ports sv))
                       (PStr (target_system_for_attempt sv r)) action_id payload (attempt_key i r)
                       (opt_nat (xr_document r)) (opt_nat (xr_record r)) of
                  (request, res) \<Rightarrow> \<lparr>di_request = request, di_execution = handled res, di_operation = ov\<rparr>)))"

definition log_request :: "nat \<Rightarrow> pydict option \<Rightarrow> export_ledger \<Rightarrow> export_ledger" where
  "log_request i request L =
     (case request of None \<Rightarrow> L | Some q \<Rightarrow> L\<lparr>xl_sent := xl_sent L @ [(i, q)]\<rparr>)"

section \<open>Reviews and record state\<close>

definition queue_wave_execution_review ::
  "export_service \<Rightarrow> nat \<Rightarrow> export_row \<Rightarrow> string \<Rightarrow> pyval \<Rightarrow> pydict \<Rightarrow> timestamp \<Rightarrow> export_ledger \<Rightarrow>
   export_ledger \<times> nat" where
  "queue_wave_execution_review sv i r execution_status message provider now L =
     (let v = dget provider ''review_reason'';
          reason = (if truthy v then text_of sv v else ''wave_execution_attention_required'')
      in case filter (\<lambda>(j, v). lv_reason v = reason \<and> marked i v) (open_review_items (some_id (xr_document r)) L) of
           (j, v) # rest \<Rightarrow> (L, j)
         | [] \<Rightarrow>
             create_review_item (xr_document r) reason
               (json_text (le_py (sv_env sv)) (PDict
                 [(''exportAttemptId'', PInt (int i)), (''bookkeepingRecordId'', opt_nat (xr_record r)),
                  (''targetSystem'', PStr (target_system_for_attempt sv r)), (''actionId'', opt_str (xr_action r)),
                  (''executionStatus'', PStr execution_status), (''message'', message),
                  (''missingConfiguration'', dget provider ''missing_configuration''),
                  (''externalSubmission'', PStr ''not_executed'')])) now L)"

definition record_attention_state ::
  "export_service \<Rightarrow> nat \<Rightarrow> export_row \<Rightarrow> export_status \<Rightarrow> string \<Rightarrow> nat \<Rightarrow> timestamp \<Rightarrow> export_ledger \<Rightarrow> export_ledger" where
  "record_attention_state sv i r mapped execution_status review_id now L =
     note_export_state sv r
       (if mapped = Xs_failed then ''failed'' else ''attention_required'')
       (Some (if mapped = Xs_failed then ''export_failed'' else ''export_attention_required''))
       [(''exportAttemptId'', PInt (int i)), (''executionStatus'', PStr execution_status),
        (''reviewItemId'', PInt (int review_id)), (''externalSubmission'', PStr ''not_executed'')] now L"

definition release_execution_claim ::
  "export_service \<Rightarrow> nat \<Rightarrow> string \<Rightarrow> timestamp \<Rightarrow> export_ledger \<Rightarrow> export_ledger" where
  "release_execution_claim sv i message now L =
     service_audit sv ''execution_claim_released'' i
       [(''message'', PStr message), (''externalSubmission'', PStr ''approved_not_executed'')] now
       (update_export_attempt (sv_env sv) i
          (no_update\<lparr>xu_status := Some Xs_approved, xu_external := Some ''approved_not_executed'',
             xu_message := Some message\<rparr>) now L)"

end
