(* ===== verification/Export_Run.thy ===== *)
theory Export_Run
  imports Export_Execution
begin

text \<open>
  \<open>LocalExportAttemptService\<close>, last part: what is stored after a dispatch, the supervised path
  of MijnGeldzaken, \<open>execute_attempt\<close> and the batch over approved attempts. One operation runs
  at one clock reading. An exception that leaves the method is an \<open>Inl\<close> beside the ledger it
  leaves behind.
\<close>

section \<open>After the dispatch\<close>

definition execution_text :: "export_service \<Rightarrow> execution \<Rightarrow> string" where
  "execution_text sv en = lower (strip (or_empty sv (en_status en)))"

definition execution_update ::
  "export_service \<Rightarrow> export_row \<Rightarrow> string \<Rightarrow> dispatch \<Rightarrow> pydict \<Rightarrow> pydict option \<Rightarrow> string \<Rightarrow> timestamp \<Rightarrow>
   export_update" where
  "execution_update sv r target d last_execution retry actor now =
     (let en = di_execution d; status = execution_text sv en; stamp = le_iso (sv_env sv) now;
          checksum = opt_str (master_ledger_checksum sv (xr_metadata r))
      in case map_execution_status sv status target of (external, mapped, message) \<Rightarrow>
           no_update\<lparr>xu_status := Some mapped, xu_external := Some external,
             xu_message := (if mapped = Xs_failed then column_text sv (py_or (en_message en) (PStr message))
                            else Some message),
             xu_submitted_at := (if mapped \<in> {Xs_executed, Xs_submitted} then Some stamp else None),
             xu_external_id := (if mapped \<in> set TERMINAL_EXECUTION_STATUSES
                                then column_text sv (en_external_id en) else None),
             xu_result := Some
               [(''status'', PStr status), (''message'', en_message en), (''externalId'', en_external_id en),
                (''operation'', di_operation d), (''providerResult'', PDict (en_result en)),
                (''masterLedgerChecksum'', checksum)],
             xu_metadata := Some (dupdate (xr_metadata r)
               ((''lastExecution'', PDict (dupdate last_execution
                  [(''actor'', PStr actor), (''executedAt'', PStr stamp), (''rawStatus'', PStr status),
                   (''mappedStatus'', PStr (export_status_name mapped)), (''operation'', di_operation d),
                   (''masterLedgerChecksum'', checksum)])) #
                (case retry of None \<Rightarrow> [] | Some rs \<Rightarrow> [(''retry'', PDict rs)])))\<rparr>)"

definition execution_audit_action :: "export_status \<Rightarrow> string" where
  "execution_audit_action mapped =
     (if mapped = Xs_deferred then ''execution_deferred''
      else if mapped = Xs_attention_required then ''execution_attention_required''
      else if mapped = Xs_failed then ''execution_failed'' else ''executed'')"

definition record_execution ::
  "export_service \<Rightarrow> nat \<Rightarrow> export_row \<Rightarrow> string \<Rightarrow> dispatch \<Rightarrow> pydict \<Rightarrow> pydict option \<Rightarrow> string \<Rightarrow> timestamp \<Rightarrow>
   export_ledger \<Rightarrow> export_ledger \<times> reply" where
  "record_execution sv i r target d last_execution retry actor now L =
     (let en = di_execution d; status = execution_text sv en;
          checksum = opt_str (master_ledger_checksum sv (xr_metadata r));
          due = dget (case retry of None \<Rightarrow> [] | Some rs \<Rightarrow> rs) ''nextRetryAt''
      in case map_execution_status sv status target of (external, mapped, message) \<Rightarrow>
           (let L1 = update_export_attempt (sv_env sv) i (execution_update sv r target d last_execution retry actor now) now L;
                L2 = (if mapped \<in> set TERMINAL_EXECUTION_STATUSES
                      then note_export_state sv r (record_status_for_execution mapped) (Some ''routed'')
                        [(''exportAttemptId'', PInt (int i)), (''externalId'', en_external_id en),
                         (''resultStatus'', PStr (export_status_name mapped)), (''executionStatus'', PStr status),
                         (''externalSubmission'', PStr external), (''masterLedgerChecksum'', checksum)] now L1
                      else L1);
                (L3, review) =
                  (if mapped \<in> {Xs_attention_required, Xs_failed}
                   then (case queue_wave_execution_review sv i r status (py_or (en_message en) (PStr message))
                                (en_result en) now L2 of
                           (L', j) \<Rightarrow> (record_attention_state sv i r mapped status j now L', Some j))
                   else (L2, None))
            in (service_audit sv (execution_audit_action mapped) i
                  [(''actor'', PStr actor), (''status'', PStr (export_status_name mapped)),
                   (''externalSubmission'', PStr external), (''executionStatus'', PStr status),
                   (''externalId'', en_external_id en), (''targetSystem'', PStr target),
                   (''masterLedgerChecksum'', checksum), (''reviewItemId'', opt_nat review), (''nextRetryAt'', due)] now L3,
                reply (mapped \<in> set TERMINAL_EXECUTION_STATUSES \<or> mapped = Xs_deferred) (export_status_name mapped)
                  [(''externalSubmission'', PStr external), (''executionStatus'', PStr status),
                   (''reviewItemId'', opt_nat review), (''nextRetryAt'', due)])))"

text \<open>Everything after the operator returned: nothing of it is rolled back when it raises.\<close>

definition settle_execution ::
  "export_service \<Rightarrow> nat \<Rightarrow> export_row \<Rightarrow> string \<Rightarrow> dispatch \<Rightarrow> string \<Rightarrow> timestamp \<Rightarrow>
   export_ledger \<Rightarrow> export_ledger \<times> reply result" where
  "settle_execution sv i r target d actor now L =
     (case dict_of (dget (xr_metadata r) ''lastExecution'') of
        Inl e \<Rightarrow> (L, Inl e)
      | Inr last_execution \<Rightarrow>
          (case (if fst (snd (map_execution_status sv (execution_text sv (di_execution d)) target)) = Xs_deferred
                 then (case next_retry_state sv (xr_metadata r) (en_result (di_execution d)) now of
                         Inl e \<Rightarrow> Inl e | Inr rs \<Rightarrow> Inr (Some rs))
                 else Inr None) of
             Inl e \<Rightarrow> (L, Inl e)
           | Inr retry \<Rightarrow>
               (case record_execution sv i r target d last_execution retry actor now L of (L', a) \<Rightarrow> (L', Inr a))))"

section \<open>The supervised path\<close>

definition supervision_message :: string where
  "supervision_message =
     ''MijnGeldzaken artifact prepared. Complete the import in a supervised '' @
     ''user-owned session, then record the result in FAB.''"

definition start_supervision ::
  "export_service \<Rightarrow> nat \<Rightarrow> export_row \<Rightarrow> draft_artifact \<Rightarrow> pydict \<Rightarrow> string \<Rightarrow> timestamp \<Rightarrow>
   export_ledger \<Rightarrow> export_ledger \<times> reply" where
  "start_supervision sv i r a stored actor now L =
     (let artifact = PDict (dupdate stored
            [(''format'', PStr (da_format a)), (''contentType'', PStr (da_content_type a)),
             (''draftType'', da_draft_type a), (''masterLedgerChecksum'', da_checksum a),
             (''externalSubmission'', PStr ''not_executed'')]);
          execution_metadata = PDict
            [(''actor'', PStr actor), (''executedAt'', PStr (le_iso (sv_env sv) now)),
             (''rawStatus'', PStr ''supervised_action_required''), (''mappedStatus'', PStr ''supervision_required''),
             (''masterLedgerChecksum'', da_checksum a), (''artifact'', artifact)];
          metadata = dupdate (xr_metadata r)
            [(''supervisedArtifact'', artifact), (''lastExecution'', execution_metadata)];
          L1 = update_export_attempt (sv_env sv) i
            (no_update\<lparr>xu_status := Some Xs_supervision_required, xu_external := Some ''not_executed'',
               xu_message := Some supervision_message,
               xu_result := Some [(''status'', PStr ''supervised_action_required''),
                 (''message'', PStr supervision_message), (''artifact'', artifact),
                 (''masterLedgerChecksum'', da_checksum a)],
               xu_metadata := Some metadata\<rparr>) now L;
          L2 = note_export_state sv r ''supervision_required'' (Some ''export_supervision_required'')
            [(''exportAttemptId'', PInt (int i)), (''artifact'', artifact), (''masterLedgerChecksum'', da_checksum a),
             (''externalSubmission'', PStr ''not_executed'')] now L1;
          (L3, review) = create_review_item (xr_document r) supervision_review_reason
            (json_text (le_py (sv_env sv)) (PDict
               [(''exportAttemptId'', PInt (int i)), (''artifact'', artifact),
                (''message'', PStr supervision_message)])) now L2
      in (service_audit sv ''supervision_required'' i
            [(''actor'', PStr actor), (''reviewItemId'', PInt (int review)), (''documentId'', opt_nat (xr_document r)),
             (''bookkeepingRecordId'', opt_nat (xr_record r)), (''artifact'', artifact),
             (''masterLedgerChecksum'', da_checksum a), (''externalSubmission'', PStr ''not_executed'')] now L3,
          reply True ''supervision_required'' [(''artifact'', artifact), (''reviewItemId'', PInt (int review))]))"

definition prepare_mijngeldzaken_supervision ::
  "export_service \<Rightarrow> nat \<Rightarrow> export_row \<Rightarrow> string \<Rightarrow> timestamp \<Rightarrow> export_ledger \<Rightarrow> export_ledger \<times> reply" where
  "prepare_mijngeldzaken_supervision sv i r actor now L =
     (let csv = dget (draft_of (xr_metadata r)) ''draftType'' = PStr ''transaction_import'' in
      case artifact_for_attempt sv i (if csv then ''csv'' else ''json'') actor now L of
        (L1, Artifact_refused a) \<Rightarrow> (L1, a)
      | (L1, Artifact_prepared a) \<Rightarrow>
          (case xp_store_artifact (sv_ports sv) (da_filename a) (da_content a) csv of
             Inl err \<Rightarrow>
               (service_audit sv ''supervised_artifact_failed'' i
                  [(''actor'', PStr actor), (''error'', PStr err), (''externalSubmission'', PStr ''not_executed'')] now
                  (update_export_attempt (sv_env sv) i
                     (no_update\<lparr>xu_status := Some Xs_failed, xu_external := Some ''not_executed'',
                        xu_message := Some (''MijnGeldzaken supervised artifact could not be persisted: '' @ err),
                        xu_result := Some [(''status'', PStr ''artifact_persistence_failed''), (''message'', PStr err)]\<rparr>)
                     now L1),
                reply False ''artifact_persistence_failed'' [])
           | Inr stored \<Rightarrow> start_supervision sv i r a stored actor now L1))"

section \<open>Executing\<close>

text \<open>The attempt is claimed, \<open>r\<close> is the row as it was read by the claim.\<close>

definition run_claimed_export ::
  "export_service \<Rightarrow> nat \<Rightarrow> export_row \<Rightarrow> string \<Rightarrow> timestamp \<Rightarrow> export_ledger \<Rightarrow> export_ledger \<times> reply result" where
  "run_claimed_export sv i r actor now L =
     (case master_ledger_staleness sv i r ''execution'' actor now L of
        Some (L1, a) \<Rightarrow>
          (release_execution_claim sv i ''Master-ledger draft became stale before dispatch.'' now L1, Inr a)
      | None \<Rightarrow>
          (case dict_of (dget (xr_metadata r) ''operation'') of
             Inl e \<Rightarrow> (L, Inl e)
           | Inr operation \<Rightarrow>
               (case xr_action r of
                  None \<Rightarrow> (release_execution_claim sv i ''Executable action id is missing.'' now L,
                           Inr (reply False ''invalid_plan'' []))
                | Some action_id \<Rightarrow>
                    if action_id = [] then
                      (release_execution_claim sv i ''Executable action id is missing.'' now L,
                       Inr (reply False ''invalid_plan'' []))
                    else (case operation_mode (xr_metadata r) operation of
                            Inl e \<Rightarrow> (L, Inl e)
                          | Inr mode \<Rightarrow>
                              (let target = target_system_for_attempt sv r in
                               if is_mijngeldzaken_target target then
                                 (case prepare_mijngeldzaken_supervision sv i r actor now L of (L', a) \<Rightarrow> (L', Inr a))
                               else
                                 (let d = dispatch_attempt sv i r action_id operation
                                        (if truthy mode then Some (text_of sv mode) else None) actor now
                                  in settle_execution sv i r target d actor now (log_request i (di_request d) L)))))))"

definition execute_export ::
  "export_service \<Rightarrow> nat \<Rightarrow> string \<Rightarrow> timestamp \<Rightarrow> export_ledger \<Rightarrow> export_ledger \<times> reply result" where
  "execute_export sv i actor now L =
     (case export_attempt L i of
        None \<Rightarrow> (L, Inr (reply False ''not_found'' []))
      | Some r \<Rightarrow>
          if xr_status r \<in> set CLAIMABLE_EXECUTION_STATUSES then
            (if \<not> execution_retry_due sv now r then
               (L, Inr (reply True ''retry_deferred''
                 [(''nextRetryAt'', dget (retry_of (xr_metadata r)) ''nextRetryAt'')]))
             else (case claim_export_attempt i CLAIMABLE_EXECUTION_STATUSES now L of
                     (L1, Export_claimed seen) \<Rightarrow> run_claimed_export sv i seen actor now L1
                   | (L1, _) \<Rightarrow> (L1, Inr (reply False ''already_claimed'' []))))
          else if xr_status r \<in> set TERMINAL_EXECUTION_STATUSES then
            (L, Inr (reply True (''already_'' @ export_status_name (xr_status r)) []))
          else if xr_status r = Xs_supervision_required then
            (L, Inr (reply True ''already_supervision_required'' []))
          else if xr_status r = Xs_execution_in_progress then
            (L, Inr (reply False ''already_claimed'' []))
          else if xr_status r = Xs_failed then (L, Inr (reply False ''not_executable'' []))
          else (L, Inr (reply False ''not_approved'' [])))"

section \<open>The batch\<close>

definition as_bool :: "pyval \<Rightarrow> bool" where
  "as_bool v =
     (case v of PBool b \<Rightarrow> b
      | PStr s \<Rightarrow> lower (strip s) \<notin> {[], ''0'', ''false'', ''no'', ''off''}
      | _ \<Rightarrow> truthy v)"

definition batch_audit ::
  "export_service \<Rightarrow> string \<Rightarrow> pydict \<Rightarrow> timestamp \<Rightarrow> export_ledger \<Rightarrow> export_ledger" where
  "batch_audit sv action details now L =
     record_audit (sv_env sv) (''local_export_attempt.'' @ action) ''export_attempt'' PNone details now L"

definition backup_result :: "export_service \<Rightarrow> export_ledger \<Rightarrow> pydict" where
  "backup_result sv L =
     (case xp_backup (sv_ports sv) L of
        Inr b \<Rightarrow> b
      | Inl err \<Rightarrow> [(''success'', PBool False), (''status'', PStr ''failed''), (''error'', PStr err)])"

fun execute_all ::
  "export_service \<Rightarrow> nat list \<Rightarrow> string \<Rightarrow> timestamp \<Rightarrow> export_ledger \<Rightarrow> export_ledger \<times> reply list result" where
  "execute_all sv [] actor now L = (L, Inr [])"
| "execute_all sv (i # is) actor now L =
     (case execute_export sv i actor now L of
        (L1, Inl e) \<Rightarrow> (L1, Inl e)
      | (L1, Inr a) \<Rightarrow>
          (case execute_all sv is actor now L1 of
             (L2, Inl e) \<Rightarrow> (L2, Inl e)
           | (L2, Inr as) \<Rightarrow> (L2, Inr (a # as))))"

definition due_exports :: "export_service \<Rightarrow> nat \<Rightarrow> timestamp \<Rightarrow> export_ledger \<Rightarrow> nat list" where
  "due_exports sv limit now L =
     take limit (map fst (filter (\<lambda>(i, r). execution_retry_due sv now r)
       (list_export_attempts CLAIMABLE_EXECUTION_STATUSES (limit * 2) L)))"

definition process_approved_exports ::
  "export_service \<Rightarrow> nat \<Rightarrow> string \<Rightarrow> bool \<Rightarrow> bool \<Rightarrow> timestamp \<Rightarrow> export_ledger \<Rightarrow>
   export_ledger \<times> (string \<times> reply list) result" where
  "process_approved_exports sv limit actor force create_backup now L =
     (if \<not> force \<and> \<not> as_bool (dget_or (sv_config sv) ''fab_autonomy_execute_approved_exports'' (PBool False)) then
        (L, Inr (''skipped'', []))
      else
        (let is = due_exports sv limit now L;
             backup = backup_result sv L;
             blocked = is \<noteq> [] \<and> create_backup \<and> \<not> truthy (dget backup ''success'');
             L1 = (if is \<noteq> [] \<and> create_backup
                   then batch_audit sv ''batch_execution_preflight_backup''
                     [(''actor'', PStr actor), (''attemptCount'', PInt (int (length is))),
                      (''backupPath'', dget backup ''backupPath''), (''backupFilename'', dget backup ''backupFilename''),
                      (''ledgerSha256'', dget (as_dict (dget backup ''manifest'')) ''ledgerSha256''),
                      (''externalSubmission'', PStr ''not_executed'')] now L
                   else L)
         in if blocked then
              (batch_audit sv ''batch_execution_blocked_backup''
                 [(''actor'', PStr actor), (''attemptCount'', PInt (int (length is))),
                  (''backupStatus'', dget backup ''status''), (''error'', dget backup ''error''),
                  (''externalSubmission'', PStr ''not_executed'')] now L1,
               Inr (''pre_execution_backup_failed'', []))
            else (case execute_all sv is actor now L1 of
                    (L2, Inl e) \<Rightarrow> (L2, Inl e)
                  | (L2, Inr rs) \<Rightarrow> (L2, Inr (''completed'', rs)))))"

section \<open>The claim protocol\<close>

lemma status_claim:
  "export_status_of L i = Some st \<Longrightarrow>
     export_status_of (fst (export_claim_update now i st L)) j =
       (if j = i then Some Xs_execution_in_progress else export_status_of L j)"
  by (auto simp: export_claim_update_def export_status_of_def table_simps)

interpretation export_claim: claim_protocol export_status_of "export_claim_update now" Xs_execution_in_progress
  for now
proof unfold_locales
  fix s i st j
  show "export_status_of s i = Some st \<Longrightarrow> snd (export_claim_update now i st s)"
    by (simp add: export_claim_update_def)
  show "export_status_of s i \<noteq> Some st \<Longrightarrow> export_claim_update now i st s = (s, False)"
    by (simp add: export_claim_update_def)
  show "export_status_of s i = Some st \<Longrightarrow> export_status_of (fst (export_claim_update now i st s)) j =
          (if j = i then Some Xs_execution_in_progress else export_status_of s j)"
    by (rule status_claim)
qed

end
