(* ===== verification/Export_Facts.thy ===== *)
theory Export_Facts
  imports Export_Run
begin

text \<open>
  What the operations of the export service do to the parts of the ledger the safety
  properties are about: most helpers leave the attempts and the request log alone and only
  append audit events.
\<close>

section \<open>Helpers that do not touch an attempt\<close>

lemma audit_facts [step_simps]:
  "xl_attempts (record_audit env a t e d now L) = xl_attempts L"
  "xl_sent (record_audit env a t e d now L) = xl_sent L"
  "xl_events (record_audit env a t e d now L) = xl_events L @ [audit_event env a t e d now]"
  by (simp_all add: record_audit_def)

lemma service_audit_facts [step_simps]:
  "xl_attempts (service_audit sv a i d now L) = xl_attempts L"
  "xl_sent (service_audit sv a i d now L) = xl_sent L"
  "set (xl_events L) \<subseteq> set (xl_events (service_audit sv a i d now L))"
  by (auto simp: service_audit_def step_simps)

lemma update_book_facts [step_simps]:
  "xl_attempts (update_book_export env j es m st now L) = xl_attempts L"
  "xl_sent (update_book_export env j es m st now L) = xl_sent L"
  "xl_events (update_book_export env j es m st now L) = xl_events L"
  by (simp_all add: update_book_export_def)

lemma update_record_facts [step_simps]:
  "xl_attempts (update_record_export_state sv j es st ro d now L) = xl_attempts L"
  "xl_sent (update_record_export_state sv j es st ro d now L) = xl_sent L"
  "xl_events (update_record_export_state sv j es st ro d now L) = xl_events L"
  by (auto simp: update_record_export_state_def step_simps split: option.split)

lemma record_state_facts [step_simps]:
  "xl_attempts (sync_export_state sv d es st ro det now L) = xl_attempts L"
  "xl_sent (sync_export_state sv d es st ro det now L) = xl_sent L"
  "set (xl_events L) \<subseteq> set (xl_events (sync_export_state sv d es st ro det now L))"
  by (auto simp: sync_export_state_def step_simps Let_def split: option.split prod.split)

lemma note_state_facts [step_simps]:
  "xl_attempts (note_export_state sv r es st det now L) = xl_attempts L"
  "xl_sent (note_export_state sv r es st det now L) = xl_sent L"
  "set (xl_events L) \<subseteq> set (xl_events (note_export_state sv r es st det now L))"
  using record_state_facts(3)
  by (auto simp: note_export_state_def step_simps split: option.split)

lemma resolve_item_facts [step_simps]:
  "xl_attempts (resolve_review_item j st rs c now L) = xl_attempts L"
  "xl_sent (resolve_review_item j st rs c now L) = xl_sent L"
  "xl_events (resolve_review_item j st rs c now L) = xl_events L"
  by (simp_all add: resolve_review_item_def Let_def)

lemma resolve_fold_facts:
  "xl_attempts (fold (\<lambda>j. resolve_review_item j st rs c now) ids L) = xl_attempts L"
  "xl_sent (fold (\<lambda>j. resolve_review_item j st rs c now) ids L) = xl_sent L"
  "xl_events (fold (\<lambda>j. resolve_review_item j st rs c now) ids L) = xl_events L"
  by (induction ids arbitrary: L) (simp_all add: step_simps)

lemma resolve_reviews_facts [step_simps]:
  "xl_attempts (fst (resolve_reviews P rs c doc now L)) = xl_attempts L"
  "xl_sent (fst (resolve_reviews P rs c doc now L)) = xl_sent L"
  "xl_events (fst (resolve_reviews P rs c doc now L)) = xl_events L"
  by (simp_all add: resolve_reviews_def Let_def resolve_fold_facts)

lemma resolve_wave_facts [step_simps]:
  "xl_attempts (fst (resolve_wave_execution_reviews i r a s now L)) = xl_attempts L"
  "xl_sent (fst (resolve_wave_execution_reviews i r a s now L)) = xl_sent L"
  "xl_events (fst (resolve_wave_execution_reviews i r a s now L)) = xl_events L"
  by (simp_all add: resolve_wave_execution_reviews_def step_simps)

lemma resolve_supervision_facts [step_simps]:
  "xl_attempts (fst (resolve_mijngeldzaken_supervision_reviews i r a s now L)) = xl_attempts L"
  "xl_sent (fst (resolve_mijngeldzaken_supervision_reviews i r a s now L)) = xl_sent L"
  "xl_events (fst (resolve_mijngeldzaken_supervision_reviews i r a s now L)) = xl_events L"
  by (simp_all add: resolve_mijngeldzaken_supervision_reviews_def step_simps)

lemma create_review_facts [step_simps]:
  "xl_attempts (fst (create_review_item doc reason det now L)) = xl_attempts L"
  "xl_sent (fst (create_review_item doc reason det now L)) = xl_sent L"
  "xl_events (fst (create_review_item doc reason det now L)) = xl_events L"
  by (auto simp: create_review_item_def Let_def split: list.split prod.split)

lemma queue_review_facts [step_simps]:
  "xl_attempts (fst (queue_wave_execution_review sv i r s m p now L)) = xl_attempts L"
  "xl_sent (fst (queue_wave_execution_review sv i r s m p now L)) = xl_sent L"
  "xl_events (fst (queue_wave_execution_review sv i r s m p now L)) = xl_events L"
  by (auto simp: queue_wave_execution_review_def Let_def step_simps split: list.split prod.split)

lemma staleness_facts:
  assumes "master_ledger_staleness sv i r stage actor now L = Some (L', a)"
  shows "xl_attempts L' = xl_attempts L" and "xl_sent L' = xl_sent L"
    and "set (xl_events L) \<subseteq> set (xl_events L')" and "a = stale_reply"
  using assms by (auto simp: master_ledger_staleness_def Let_def step_simps service_audit_def split: if_splits)

lemma artifact_facts:
  assumes "artifact_for_attempt sv i fmt actor now L = (L', a)"
  shows "xl_attempts L' = xl_attempts L" and "xl_sent L' = xl_sent L"
    and "set (xl_events L) \<subseteq> set (xl_events L')"
  using assms
  by (auto simp: artifact_for_attempt_def record_artifact_audit_def service_audit_def Let_def step_simps
      split: option.splits if_splits)

section \<open>Updates of an attempt\<close>

lemma update_attempt_facts [step_simps]:
  "xl_attempts (update_export_attempt env i u now L) =
     update_row i (apply_export_update env now u) (xl_attempts L)"
  "xl_sent (update_export_attempt env i u now L) = xl_sent L"
  "xl_events (update_export_attempt env i u now L) = xl_events L"
  by (simp_all add: update_export_attempt_def)

lemma applied_status [simp]:
  "xr_status (apply_export_update env now u r) = dflt (xu_status u) (xr_status r)"
  "xr_target (apply_export_update env now u r) = dflt (xu_target u) (xr_target r)"
  by (simp_all add: apply_export_update_def)

lemma no_update_fields [simp]: "xu_status no_update = None" "xu_target no_update = None"
  by (simp_all add: no_update_def)

lemma log_request_facts [step_simps]:
  "xl_attempts (log_request i q L) = xl_attempts L"
  "xl_events (log_request i q L) = xl_events L"
  "xl_sent (log_request i q L) = xl_sent L @ (case q of None \<Rightarrow> [] | Some p \<Rightarrow> [(i, p)])"
  by (auto simp: log_request_def split: option.split)

end
