(* ===== verification/Export_Safety.thy ===== *)
theory Export_Safety
  imports Export_Facts
begin

text \<open>
  The export service as a state machine: its operations, the changes other services make to
  the documents, records, routes and reviews it reads, the reachable ledgers, and the authority
  invariant: an attempt that may be executed, and every request that was sent, has an approval
  in the audit events.
\<close>

datatype export_op =
    Xo_prepare nat string
  | Xo_prepare_ready nat
  | Xo_regenerate nat string
  | Xo_artifact nat string string
  | Xo_approve nat string "string option" pyval
  | Xo_reject nat string "string option" pyval
  | Xo_result nat string "string option" pydict string "string option"
  | Xo_execute nat string
  | Xo_process nat string bool bool
  | Xo_other "pydict table" "book_row table" "routing_row table" "ledger_review table" "ledger_event list"

fun export_step :: "export_service \<Rightarrow> timestamp \<Rightarrow> export_op \<Rightarrow> export_ledger \<Rightarrow> export_ledger" where
  "export_step sv now (Xo_prepare rid who) L = fst (prepare_from_routing_attempt sv rid who now L)"
| "export_step sv now (Xo_prepare_ready limit) L = fst (prepare_ready_exports sv limit now L)"
| "export_step sv now (Xo_regenerate i who) L = fst (regenerate_attempt sv i who now L)"
| "export_step sv now (Xo_artifact i fmt who) L = fst (artifact_for_attempt sv i fmt who now L)"
| "export_step sv now (Xo_approve i who phrase why) L = fst (approve_export sv i who phrase why now L)"
| "export_step sv now (Xo_reject i who phrase why) L = fst (reject_export sv i who phrase why now L)"
| "export_step sv now (Xo_result i st ext res who phrase) L = fst (record_result sv i st ext res who phrase now L)"
| "export_step sv now (Xo_execute i who) L = fst (execute_export sv i who now L)"
| "export_step sv now (Xo_process limit who force backup) L =
     fst (process_approved_exports sv limit who force backup now L)"
| "export_step sv now (Xo_other docs recs routes revs evs) L =
     L\<lparr>xl_documents := docs, xl_records := recs, xl_routing := routes, xl_reviews := revs,
       xl_events := xl_events L @ evs\<rparr>"

text \<open>
  Every step may run under another configuration, provider behaviour and clock reading; the
  other services append events and never forge an approval of an export.
\<close>

definition approval_event :: "nat \<Rightarrow> ledger_event \<Rightarrow> bool" where
  "approval_event i e \<longleftrightarrow> ev_action e = ''local_export_attempt.approved'' \<and>
     ev_entity_type e = ''export_attempt'' \<and> ev_entity_id e = PStr (str_of_nat i)"

inductive export_reachable :: "export_ledger \<Rightarrow> bool" where
  start: "export_reachable empty_export_ledger"
| step: "export_reachable L \<Longrightarrow>
    (\<forall>docs recs routes revs evs. op = Xo_other docs recs routes revs evs \<longrightarrow>
       (\<forall>e \<in> set evs. \<forall>i. \<not> approval_event i e)) \<Longrightarrow>
    export_reachable (export_step sv now op L)"

definition approved_exports :: "export_ledger \<Rightarrow> nat set" where
  "approved_exports L = {i. \<exists>e \<in> set (xl_events L). approval_event i e}"

definition needs_export_authority :: "export_status \<Rightarrow> bool" where
  "needs_export_authority st \<longleftrightarrow>
     st \<in> {Xs_approved, Xs_deferred, Xs_execution_in_progress, Xs_supervision_required}"

definition sound :: "nat set \<Rightarrow> export_ledger \<Rightarrow> bool" where
  "sound A L \<longleftrightarrow> wf_table (xl_attempts L) \<and>
     (\<forall>i r. export_attempt L i = Some r \<longrightarrow> needs_export_authority (xr_status r) \<longrightarrow> i \<in> A) \<and>
     fst ` set (xl_sent L) \<subseteq> A"

section \<open>Soundness of the parts\<close>

lemma sound_mono: "sound A L \<Longrightarrow> A \<subseteq> B \<Longrightarrow> sound B L"
  unfolding sound_def by blast

lemma sound_cong: "xl_attempts L' = xl_attempts L \<Longrightarrow> xl_sent L' = xl_sent L \<Longrightarrow> sound A L' = sound A L"
  by (simp add: sound_def)

lemma sound_neutral [simp]:
  "sound A (service_audit sv a i d now L) = sound A L"
  "sound A (record_audit env a t e d now L) = sound A L"
  "sound A (note_export_state sv r es st det now L) = sound A L"
  "sound A (sync_export_state sv d2 es st ro det now L) = sound A L"
  "sound A (update_record_export_state sv j es st ro det now L) = sound A L"
  "sound A (fst (resolve_wave_execution_reviews i r a s now L)) = sound A L"
  "sound A (fst (resolve_mijngeldzaken_supervision_reviews i r a s now L)) = sound A L"
  "sound A (fst (create_review_item doc a det2 now L)) = sound A L"
  "sound A (fst (queue_wave_execution_review sv i r a m d now L)) = sound A L"
  by (rule sound_cong; simp add: step_simps)+

lemma sound_update:
  assumes "sound A L" and "\<And>st. xu_status u = Some st \<Longrightarrow> needs_export_authority st \<Longrightarrow> i \<in> A"
  shows "sound A (update_export_attempt env i u now L)"
  using assms by (auto simp: sound_def step_simps table_simps dflt_def split: if_splits option.splits)

lemma sound_insert:
  assumes "sound A L" and "\<not> needs_export_authority (xr_status row)"
  shows "sound A (L\<lparr>xl_attempts := fst (insert_row row (xl_attempts L))\<rparr>)"
  using assms by (auto simp: sound_def table_simps split: if_splits)

lemma sound_upsert:
  assumes "sound A L" and "xu_status u = Some st" and "\<not> needs_export_authority st"
  shows "sound A (fst (upsert_export_attempt env u now L))"
  using assms sound_update [OF assms(1), of u] sound_insert [OF assms(1), of "new_export_row env now u"]
  by (auto simp: upsert_export_attempt_def Let_def new_export_row_def split: option.split prod.split)

lemma sound_claimed:
  assumes "claim_export_attempt i allowed now L = (L', c)" and "sound A L" and "i \<in> A"
  shows "sound A L'"
  using assms
  by (auto simp: claim_export_attempt_def export_claim_update_def sound_def table_simps image_subset_iff
      split: option.splits if_splits)

lemma sound_log: "sound A L \<Longrightarrow> i \<in> A \<Longrightarrow> sound A (log_request i q L)"
  by (auto simp: sound_def step_simps split: option.split)

section \<open>Soundness of the operations\<close>

lemma blocked_needs_nothing:
  "export_block_for_routing ra document rec operation L = Some (st, m) \<Longrightarrow> \<not> needs_export_authority st"
  by (auto simp: export_block_for_routing_def needs_export_authority_def split: if_splits)

lemma prepared_status:
  "\<exists>st. xu_status (prepared_update sv who rid ra rec target op p dest draft
            (export_block_for_routing ra document rec op L)) = Some st \<and> \<not> needs_export_authority st"
  using blocked_needs_nothing [of ra document rec op L]
  by (auto simp: prepared_update_def Let_def needs_export_authority_def split: option.split)

lemma sound_prepare_new:
  assumes "sound A L"
  shows "sound A (fst (prepare_new sv who rid ra rec now L))"
proof -
  let ?op = "route_operation ra" and ?doc = "document_of (ro_document ra) L" and ?t = "route_target sv ra"
  let ?p = "as_dict (dget ?op ''payload'')"
  let ?u = "prepared_update sv who rid ra rec ?t ?op ?p (as_dict (dget (ro_metadata ra) ''destination''))
    (master_ledger_draft sv ?t ?op ?p rid ra ?doc rec) (export_block_for_routing ra ?doc rec ?op L)"
  obtain L1 x where up: "upsert_export_attempt (sv_env sv) ?u now L = (L1, x)" by fastforce
  then have "sound A L1" using sound_upsert [OF assms] prepared_status by (metis fst_conv)
  then show ?thesis
    using up by (simp add: prepare_new_def Let_def split: sum.split option.split prod.split)
qed

lemma sound_prepare: "sound A L \<Longrightarrow> sound A (fst (prepare_from_routing_attempt sv rid who now L))"
  by (auto simp: prepare_from_routing_attempt_def Let_def sound_prepare_new split: option.split sum.split)

lemma sound_prepare_all: "sound A L \<Longrightarrow> sound A (fst (prepare_all sv rids who now L))"
proof (induction rids arbitrary: L)
  case (Cons rid rids)
  from sound_prepare [OF Cons.prems, of sv rid who now] show ?case
    using Cons.IH by (fastforce split: prod.splits sum.splits)
qed simp

lemma sound_prepare_ready: "sound A L \<Longrightarrow> sound A (fst (prepare_ready_exports sv limit now L))"
  using sound_prepare_all [of A L sv "prepared_routes limit L" "''fab_local_exports''" now]
  by (auto simp: prepare_ready_exports_def Let_def split: prod.splits sum.splits)

lemma sound_regenerate: "sound A L \<Longrightarrow> sound A (fst (regenerate_attempt sv i who now L))"
  by (auto simp: regenerate_attempt_def Let_def needs_export_authority_def intro!: sound_update
      split: option.split sum.split)

lemma sound_artifact: "sound A L \<Longrightarrow> sound A (fst (artifact_for_attempt sv i fmt who now L))"
  by (auto simp: artifact_for_attempt_def record_artifact_audit_def Let_def split: option.split)

lemma sound_approve:
  assumes "sound A L"
  shows "sound (insert i A) (fst (approve_export sv i who phrase why now L))"
proof -
  have s: "sound (insert i A) L" by (rule sound_mono [OF assms]) auto
  then have st: "sound (insert i A) L'"
    if "master_ledger_staleness sv i r stage actor now L = Some (L', a)" for L' a r stage actor
    using staleness_facts [OF that] sound_cong by metis
  show ?thesis
    using s by (auto simp: approve_export_def Let_def case_prod_beta intro!: sound_update dest: st split: option.split)
qed

lemma sound_reject: "sound A L \<Longrightarrow> sound A (fst (reject_export sv i who phrase why now L))"
  by (auto simp: reject_export_def Let_def case_prod_beta needs_export_authority_def intro!: sound_update
      split: option.split)

lemma authority_of:
  "sound A L \<Longrightarrow> export_attempt L i = Some r \<Longrightarrow> needs_export_authority (xr_status r) \<Longrightarrow> i \<in> A"
  by (auto simp: sound_def)

lemma result_needs_nothing: "result_status text = Some st \<Longrightarrow> \<not> needs_export_authority st"
  by (auto simp: result_status_def RESULT_STATUSES_def needs_export_authority_def split: if_splits)

lemma sound_staleness:
  "sound A L \<Longrightarrow> master_ledger_staleness sv i r stage who now L = Some (L', a) \<Longrightarrow> sound A L'"
  using staleness_facts sound_cong by metis

lemma sound_result: "sound A L \<Longrightarrow> sound A (fst (record_result sv i st ext res who phrase now L))"
  by (auto simp: record_result_def Let_def case_prod_beta write_result_def intro!: sound_update
      dest: result_needs_nothing sound_staleness split: option.split if_splits)

lemma mapped_needs_authority_only_deferred:
  "map_execution_status sv status target = (ext, mapped, message) \<Longrightarrow>
     mapped \<in> {Xs_executed, Xs_submitted, Xs_queued, Xs_deferred, Xs_attention_required, Xs_failed}"
  by (auto simp: map_execution_status_def Let_def split: if_splits)

lemma sound_record_execution:
  "sound A L \<Longrightarrow> i \<in> A \<Longrightarrow> sound A (fst (record_execution sv i r t d le rt who now L))"
  by (auto simp: record_execution_def Let_def case_prod_beta record_attention_state_def intro!: sound_update)

lemma sound_settle: "sound A L \<Longrightarrow> i \<in> A \<Longrightarrow> sound A (fst (settle_execution sv i r t d who now L))"
  using sound_record_execution [of A L i]
  by (auto simp: settle_execution_def split: sum.split prod.split) (metis fst_conv)+

lemma sound_supervision:
  assumes "sound A L" and "i \<in> A"
  shows "sound A (fst (prepare_mijngeldzaken_supervision sv i r who now L))"
proof -
  have "sound A (fst (artifact_for_attempt sv i fmt who now L))" for fmt
    by (rule sound_artifact [OF assms(1)])
  with assms(2) show ?thesis
    by (auto simp: prepare_mijngeldzaken_supervision_def start_supervision_def Let_def case_prod_beta
        intro!: sound_update split: prod.split artifact_result.split sum.split)
qed

lemma sound_release: "sound A L \<Longrightarrow> i \<in> A \<Longrightarrow> sound A (release_execution_claim sv i m now L)"
  by (auto simp: release_execution_claim_def intro!: sound_update)

lemma sound_run_claimed:
  assumes "sound A L" and "i \<in> A"
  shows "sound A (fst (run_claimed_export sv i r who now L))"
proof -
  note l = sound_log [OF assms]
  have s: "sound A L'" if "prepare_mijngeldzaken_supervision sv i r who now L = (L', a)" for L' a
    using sound_supervision [OF assms] that by (metis fst_conv)
  show ?thesis
    using assms
    by (auto simp: run_claimed_export_def Let_def intro!: sound_release sound_settle l
        dest: s sound_staleness split: option.split sum.split prod.split)
qed

lemma claimable_needs_authority: "st \<in> set CLAIMABLE_EXECUTION_STATUSES \<Longrightarrow> needs_export_authority st"
  by (auto simp: CLAIMABLE_EXECUTION_STATUSES_def needs_export_authority_def)

lemma sound_execute:
  assumes "sound A L"
  shows "sound A (fst (execute_export sv i who now L))"
proof (cases "\<exists>r. export_attempt L i = Some r \<and> xr_status r \<in> set CLAIMABLE_EXECUTION_STATUSES")
  case True
  then have "i \<in> A" using assms authority_of claimable_needs_authority by blast
  moreover obtain L1 c where c: "claim_export_attempt i CLAIMABLE_EXECUTION_STATUSES now L = (L1, c)" by fastforce
  ultimately have "sound A L1" using sound_claimed [OF c assms] by simp
  with True \<open>i \<in> A\<close> assms c show ?thesis
    by (auto simp: execute_export_def sound_run_claimed split: export_claim.split)
next
  case False
  then show ?thesis using assms by (auto simp: execute_export_def split: option.split)
qed

lemma sound_execute_all: "sound A L \<Longrightarrow> sound A (fst (execute_all sv is who now L))"
proof (induction "is" arbitrary: L)
  case (Cons i "is")
  from sound_execute [OF Cons.prems, of sv i who now] show ?case
    using Cons.IH by (fastforce split: prod.splits sum.splits)
qed simp

lemma sound_process: "sound A L \<Longrightarrow> sound A (fst (process_approved_exports sv limit who force backup now L))"
proof -
  assume "sound A L"
  then have "sound A (fst (execute_all sv is who now (batch_audit sv a d now L)))"
    "sound A (fst (execute_all sv is who now L))" for "is" a d
    by (simp_all add: sound_execute_all batch_audit_def)
  with \<open>sound A L\<close> show ?thesis
    by (auto simp: process_approved_exports_def Let_def batch_audit_def split: prod.split sum.split)
      (metis fst_conv)+
qed

end
