(* ===== verification/Export_Audit.thy ===== *)
theory Export_Audit
  imports Export_Safety
begin

text \<open>
  No operation of the export service drops an audit event, and with it the authority invariant
  holds in every reachable ledger.
\<close>

named_theorems keeps_event \<open>an event of the ledger is still there afterwards\<close>

section \<open>Events are only appended\<close>

lemma keeps_neutral [keeps_event]:
  "e \<in> set (xl_events L) \<Longrightarrow> e \<in> set (xl_events (record_audit env a t eid d now L))"
  "e \<in> set (xl_events L) \<Longrightarrow> e \<in> set (xl_events (service_audit sv a i d now L))"
  "e \<in> set (xl_events L) \<Longrightarrow> e \<in> set (xl_events (note_export_state sv r es st det now L))"
  "e \<in> set (xl_events L) \<Longrightarrow> e \<in> set (xl_events (sync_export_state sv doc es st ro det now L))"
  by (simp add: step_simps, erule subsetD [OF service_audit_facts(3)], erule subsetD [OF note_state_facts(3)],
      erule subsetD [OF record_state_facts(3)])

lemma keeps_upsert [keeps_event]:
  "e \<in> set (xl_events L) \<Longrightarrow> e \<in> set (xl_events (fst (upsert_export_attempt env u now L)))"
  by (simp add: upsert_export_attempt_def Let_def step_simps case_prod_beta split: option.split)

lemma keeps_prepare_new [keeps_event]:
  assumes "e \<in> set (xl_events L)"
  shows "e \<in> set (xl_events (fst (prepare_new sv who rid ra rec now L)))"
proof -
  let ?op = "route_operation ra" and ?doc = "document_of (ro_document ra) L" and ?t = "route_target sv ra"
  let ?p = "as_dict (dget ?op ''payload'')"
  let ?u = "prepared_update sv who rid ra rec ?t ?op ?p (as_dict (dget (ro_metadata ra) ''destination''))
    (master_ledger_draft sv ?t ?op ?p rid ra ?doc rec) (export_block_for_routing ra ?doc rec ?op L)"
  obtain L1 x where up: "upsert_export_attempt (sv_env sv) ?u now L = (L1, x)" by fastforce
  then have e: "e \<in> set (xl_events L1)" using keeps_upsert [OF assms] by (metis fst_conv)
  show ?thesis
    using up e by (simp add: prepare_new_def Let_def keeps_neutral step_simps split: sum.split option.split prod.split)
qed

lemma keeps_prepare [keeps_event]:
  "e \<in> set (xl_events L) \<Longrightarrow> e \<in> set (xl_events (fst (prepare_from_routing_attempt sv rid who now L)))"
  by (auto simp: prepare_from_routing_attempt_def Let_def intro!: keeps_event split: option.split sum.split)

lemma keeps_prepare_all: "e \<in> set (xl_events L) \<Longrightarrow> e \<in> set (xl_events (fst (prepare_all sv rids who now L)))"
proof (induction rids arbitrary: L)
  case (Cons rid rids)
  from keeps_prepare [OF Cons.prems, of sv rid who now] show ?case
    using Cons.IH by (fastforce split: prod.splits sum.splits)
qed simp

lemma keeps_prepare_ready [keeps_event]:
  "e \<in> set (xl_events L) \<Longrightarrow> e \<in> set (xl_events (fst (prepare_ready_exports sv limit now L)))"
  using keeps_prepare_all [of e L sv "prepared_routes limit L" "''fab_local_exports''" now]
  by (auto simp: prepare_ready_exports_def Let_def intro!: keeps_event split: prod.splits sum.splits)

lemma keeps_regenerate [keeps_event]:
  "e \<in> set (xl_events L) \<Longrightarrow> e \<in> set (xl_events (fst (regenerate_attempt sv i who now L)))"
  by (auto simp: regenerate_attempt_def Let_def step_simps intro!: keeps_event split: option.split sum.split)

lemma keeps_artifact [keeps_event]:
  "e \<in> set (xl_events L) \<Longrightarrow> e \<in> set (xl_events (fst (artifact_for_attempt sv i fmt who now L)))"
  by (auto simp: artifact_for_attempt_def record_artifact_audit_def Let_def intro!: keeps_event split: option.split)

lemma keeps_stale:
  "master_ledger_staleness sv i r stage who now L = Some (L', a) \<Longrightarrow> e \<in> set (xl_events L) \<Longrightarrow>
     e \<in> set (xl_events L')"
  using staleness_facts(3) by blast

lemma keeps_approve [keeps_event]:
  "e \<in> set (xl_events L) \<Longrightarrow> e \<in> set (xl_events (fst (approve_export sv i who phrase why now L)))"
  by (auto simp: approve_export_def Let_def case_prod_beta step_simps intro!: keeps_event
      dest: keeps_stale split: option.split)

lemma keeps_reject [keeps_event]:
  "e \<in> set (xl_events L) \<Longrightarrow> e \<in> set (xl_events (fst (reject_export sv i who phrase why now L)))"
  by (auto simp: reject_export_def Let_def case_prod_beta step_simps intro!: keeps_event split: option.split)

lemma keeps_result [keeps_event]:
  "e \<in> set (xl_events L) \<Longrightarrow> e \<in> set (xl_events (fst (record_result sv i st ext res who phrase now L)))"
  by (auto simp: record_result_def write_result_def Let_def case_prod_beta step_simps intro!: keeps_event
      dest: keeps_stale split: option.split if_splits)

lemma keeps_record_execution [keeps_event]:
  "e \<in> set (xl_events L) \<Longrightarrow> e \<in> set (xl_events (fst (record_execution sv i r t d le rt who now L)))"
  by (auto simp: record_execution_def record_attention_state_def Let_def case_prod_beta step_simps intro!: keeps_event)

lemma keeps_settle [keeps_event]:
  "e \<in> set (xl_events L) \<Longrightarrow> e \<in> set (xl_events (fst (settle_execution sv i r t d who now L)))"
  using keeps_record_execution [of e L]
  by (auto simp: settle_execution_def split: sum.split prod.split) (metis fst_conv)+

lemma keeps_supervision [keeps_event]:
  assumes "e \<in> set (xl_events L)"
  shows "e \<in> set (xl_events (fst (prepare_mijngeldzaken_supervision sv i r who now L)))"
proof -
  have "e \<in> set (xl_events (fst (artifact_for_attempt sv i fmt who now L)))" for fmt
    by (rule keeps_artifact [OF assms])
  then show ?thesis
    by (auto simp: prepare_mijngeldzaken_supervision_def start_supervision_def Let_def case_prod_beta step_simps
        intro!: keeps_event split: prod.split artifact_result.split sum.split)
qed

lemma keeps_release [keeps_event]:
  "e \<in> set (xl_events L) \<Longrightarrow> e \<in> set (xl_events (release_execution_claim sv i m now L))"
  by (auto simp: release_execution_claim_def step_simps intro!: keeps_event)

lemma keeps_run_claimed [keeps_event]:
  assumes "e \<in> set (xl_events L)"
  shows "e \<in> set (xl_events (fst (run_claimed_export sv i r who now L)))"
proof -
  have s: "e \<in> set (xl_events L')" if "prepare_mijngeldzaken_supervision sv i r who now L = (L', a)" for L' a
    using keeps_supervision [OF assms] that by (metis fst_conv)
  show ?thesis
    using assms
    by (auto simp: run_claimed_export_def Let_def step_simps intro!: keeps_event
        dest: s keeps_stale split: option.split sum.split prod.split)
qed

lemma keeps_claim:
  "claim_export_attempt i allowed now L = (L', c) \<Longrightarrow> xl_events L' = xl_events L"
  by (auto simp: claim_export_attempt_def export_claim_update_def split: option.splits if_splits)

lemma keeps_execute [keeps_event]:
  "e \<in> set (xl_events L) \<Longrightarrow> e \<in> set (xl_events (fst (execute_export sv i who now L)))"
  using keeps_claim [of i CLAIMABLE_EXECUTION_STATUSES now L] keeps_run_claimed
  by (auto simp: execute_export_def split: option.split prod.split export_claim.split)

lemma keeps_execute_all: "e \<in> set (xl_events L) \<Longrightarrow> e \<in> set (xl_events (fst (execute_all sv is who now L)))"
proof (induction "is" arbitrary: L)
  case (Cons i "is")
  from keeps_execute [OF Cons.prems, of sv i who now] show ?case
    using Cons.IH by (fastforce split: prod.splits sum.splits)
qed simp

lemma keeps_process [keeps_event]:
  assumes "e \<in> set (xl_events L)"
  shows "e \<in> set (xl_events (fst (process_approved_exports sv limit who force backup now L)))"
proof -
  have "e \<in> set (xl_events (fst (execute_all sv is who now (batch_audit sv a d now L))))"
    "e \<in> set (xl_events (fst (execute_all sv is who now L)))" for "is" a d
    using assms by (auto simp: batch_audit_def intro!: keeps_execute_all keeps_event)
  with assms show ?thesis
    by (auto simp: process_approved_exports_def Let_def batch_audit_def intro!: keeps_event
        split: prod.split sum.split) (metis fst_conv)+
qed

lemma keeps_step [keeps_event]:
  "e \<in> set (xl_events L) \<Longrightarrow> e \<in> set (xl_events (export_step sv now op L))"
  by (cases op) (auto intro: keeps_event)

section \<open>The authority invariant\<close>

lemma approved_mono: "approved_exports L \<subseteq> approved_exports (export_step sv now op L)"
  using keeps_step by (fastforce simp: approved_exports_def)

text \<open>An approval writes its event, or does not touch the attempts.\<close>

lemma approve_cases:
  assumes "approve_export sv i who phrase why now L = (L', a)"
  shows "i \<in> approved_exports L' \<or> (xl_attempts L' = xl_attempts L \<and> xl_sent L' = xl_sent L)"
proof (cases "rp_status a = ''approved''")
  case True
  then have "\<exists>L1 d. L' = service_audit sv ''approved'' i d now L1"
    using assms staleness_facts(4)
    by (fastforce simp: approve_export_def Let_def case_prod_beta stale_reply_def
        split: option.splits if_splits)
  then show ?thesis
    by (auto simp: approved_exports_def approval_event_def service_audit_def record_audit_def audit_event_def)
next
  case False
  then show ?thesis
    using assms by (auto simp: approve_export_def Let_def case_prod_beta dest: staleness_facts
        split: option.splits if_splits)
qed

lemma sound_other:
  "sound A (L\<lparr>xl_documents := docs, xl_records := recs, xl_routing := routes, xl_reviews := revs,
       xl_events := evs\<rparr>) = sound A L"
  by (simp add: sound_def)

lemma sound_step:
  assumes "sound (approved_exports L) L"
  shows "sound (approved_exports (export_step sv now op L)) (export_step sv now op L)"
proof (cases "\<exists>i who phrase why. op = Xo_approve i who phrase why")
  case True
  then obtain i who phrase why where op: "op = Xo_approve i who phrase why" by blast
  let ?A = "approved_exports (export_step sv now op L)"
  obtain L' a where r: "approve_export sv i who phrase why now L = (L', a)" by fastforce
  from approve_cases [OF r] show ?thesis
  proof
    assume "i \<in> approved_exports L'"
    with op r have "insert i (approved_exports L) \<subseteq> ?A" using approved_mono [of L sv now op] by simp
    with sound_approve [OF assms, of i sv who phrase why now] show ?thesis
      using op sound_mono by simp
  next
    assume "xl_attempts L' = xl_attempts L \<and> xl_sent L' = xl_sent L"
    then have "sound ?A L'" using sound_cong sound_mono [OF assms approved_mono] by metis
    then show ?thesis using op r by simp
  qed
next
  case False
  have "sound (approved_exports L) (export_step sv now op L)"
    using False assms
    by (cases op) (auto simp: sound_prepare sound_prepare_ready sound_regenerate sound_artifact sound_reject
        sound_result sound_execute sound_process sound_other)
  then show ?thesis by (rule sound_mono [OF _ approved_mono])
qed

lemma sound_reachable: "export_reachable L \<Longrightarrow> sound (approved_exports L) L"
proof (induction rule: export_reachable.induct)
  case start
  then show ?case by (simp add: sound_def empty_export_ledger_def)
next
  case (step L op sv now)
  then show ?case by (intro sound_step)
qed

end
