(* ===== verification/Export_Effects.thy ===== *)
theory Export_Effects
  imports Export_Audit
begin

text \<open>
  A small service and ledger for the concrete examples: one Wave route and one MijnGeldzaken
  route, each with its document, a catalog with the one action the API executor supports, and
  a provider whose answer is chosen per example.
\<close>

definition demo_catalog :: wave_catalog where
  "demo_catalog =
     \<lparr>wc_actions = (\<lambda>a. if a = ''transaction_add'' then
        Some \<lparr>wa_surface = ''transactions'', wa_mode = ''draft'', wa_safety = ''safe_draft'', wa_required = [''amount'']\<rparr>
        else None),
      wc_capabilities = (\<lambda>_. None)\<rparr>"

definition demo_ports :: "pydict \<Rightarrow> export_ports" where
  "demo_ports answer =
     \<lparr>xp_catalog = demo_catalog, xp_enter_data = (\<lambda>_ _. Inr answer),
      xp_sync_record = (\<lambda>_ _ L. ((xl_records L, []), None)),
      xp_build_draft = (\<lambda>_ _ p _. [(''checksum'', dget p ''amount''), (''draftType'', PStr ''manual'')]),
      xp_current_package = (\<lambda>L i r. case lookup_row (xl_documents L) i of None \<Rightarrow> None
         | Some d \<Rightarrow> Some \<lparr>dp_action = ''import'', dp_surface = ''imports'', dp_payload = d,
                            dp_draft = [(''checksum'', dget d ''amount'')]\<rparr>),
      xp_backup = (\<lambda>_. Inl ''disk full''), xp_store_artifact = (\<lambda>n _ _. Inr [(''filename'', PStr n)]),
      xp_json_indent = (\<lambda>_. ''{}''), xp_exc_text = (\<lambda>_. ''?''), xp_csv = (\<lambda>_. [])\<rparr>"

definition demo_config :: pydict where
  "demo_config =
     [(''waveapps_business_access_token'', PStr ''t''), (''waveapps_business_id'', PStr ''b'')]"

definition demo_service :: "pydict \<Rightarrow> export_service" where
  "demo_service answer =
     \<lparr>sv_env = plain_ledger_env, sv_config = demo_config, sv_ports = demo_ports answer\<rparr>"

definition demo_row :: "export_status \<Rightarrow> export_row" where
  "demo_row st =
     \<lparr>xr_record = None, xr_document = None, xr_routing = Some 1, xr_workflow = None,
      xr_target = ''waveapps_business'', xr_account = None, xr_action = Some ''transaction_add'',
      xr_surface = Some ''transactions'', xr_operation = Some ''op-1'', xr_status = st, xr_safety = ''safe_draft'',
      xr_approval_required = False, xr_approved_at = None, xr_approved_by = None, xr_external = ''not_executed'',
      xr_submitted_at = None, xr_external_id = None, xr_message = None,
      xr_payload = [(''amount'', PInt 12)], xr_result = [], xr_metadata = [],
      xr_created = Timestamp 0, xr_updated = Timestamp 0\<rparr>"

definition demo_ledger :: "export_status \<Rightarrow> export_ledger" where
  "demo_ledger st =
     empty_export_ledger\<lparr>xl_attempts := \<lparr>trows = [(1, demo_row st)], tlast = 1\<rparr>\<rparr>"

definition demo_route :: routing_row where
  "demo_route =
     \<lparr>ro_document = Some 1, ro_workflow = None, ro_target = ''waveapps_business:x'', ro_status = ''draft_prepared'',
      ro_message = None,
      ro_metadata = [(''operation'', PDict [(''operation_id'', PStr ''op-1''), (''action_id'', PStr ''transaction_add''),
         (''surface'', PStr ''transactions''), (''plan'', PDict [(''status'', PStr ''planned'')]),
         (''payload'', PDict [(''amount'', PInt 12)])])],
      ro_created = Timestamp 0, ro_record = None\<rparr>"

definition demo_routes :: "routing_row table" where
  "demo_routes = \<lparr>trows = [(1, demo_route)], tlast = 1\<rparr>"

definition demo_documents :: "pydict table" where
  "demo_documents = \<lparr>trows = [(1, [(''amount'', PInt 12)])], tlast = 1\<rparr>"

definition run_exports :: "export_service \<Rightarrow> timestamp \<Rightarrow> export_op list \<Rightarrow> export_ledger \<Rightarrow> export_ledger" where
  "run_exports sv now ops L = fold (export_step sv now) ops L"

definition demo_ops :: "export_op list" where
  "demo_ops =
     [Xo_other demo_documents empty_table demo_routes empty_table [],
      Xo_prepare 1 ''a'', Xo_approve 1 ''u'' (Some EXPORT_APPROVAL_PHRASE) PNone, Xo_execute 1 ''a'']"

text \<open>
  What one execution does, symbolically: the claim, the request, the status that is stored.
  The properties of the export service and their examples are instances of these equations.
\<close>

section \<open>Wave attempts\<close>

definition wave_attempt :: "export_row \<Rightarrow> bool" where
  "wave_attempt r \<longleftrightarrow> xr_target r \<noteq> [] \<and> \<not> is_mijngeldzaken_target (lower (strip (xr_target r)))"

lemma target_of_wave: "xr_target r \<noteq> [] \<Longrightarrow> target_system_for_attempt sv r = lower (strip (xr_target r))"
  by (simp add: target_system_for_attempt_def is_blank_def text_of_def)

lemma wave_target: "wave_attempt r \<Longrightarrow> \<not> is_mijngeldzaken_target (target_system_for_attempt sv r)"
  by (simp add: wave_attempt_def target_of_wave)

lemma wave_is_current: "wave_attempt r \<Longrightarrow> master_ledger_staleness sv i r stage who now L = None"
  using wave_target [of r sv]
  by (simp add: master_ledger_staleness_def master_ledger_freshness_def is_stale_def Let_def split: option.split)

section \<open>One execution\<close>

definition claimed_ledger :: "nat \<Rightarrow> timestamp \<Rightarrow> export_ledger \<Rightarrow> export_ledger" where
  "claimed_ledger i now L =
     L\<lparr>xl_attempts := update_row i
         (\<lambda>r. r\<lparr>xr_status := Xs_execution_in_progress, xr_updated := whole_second now\<rparr>) (xl_attempts L)\<rparr>"

lemma export_claim_succeeds:
  assumes "export_attempt L i = Some r" and "xr_status r \<in> set allowed"
  shows "claim_export_attempt i allowed now L = (claimed_ledger i now L, Export_claimed r)"
  using assms by (simp add: claim_export_attempt_def export_claim_update_def export_status_of_def claimed_ledger_def)

definition attempt_mode :: "export_service \<Rightarrow> pyval \<Rightarrow> string option" where
  "attempt_mode sv mode = (if truthy mode then Some (text_of sv mode) else None)"

definition ready_to_run :: "export_service \<Rightarrow> timestamp \<Rightarrow> export_row \<Rightarrow> string \<Rightarrow> pydict \<Rightarrow> pyval \<Rightarrow> bool" where
  "ready_to_run sv now r action_id operation mode \<longleftrightarrow>
     xr_status r \<in> set CLAIMABLE_EXECUTION_STATUSES \<and> execution_retry_due sv now r \<and> wave_attempt r \<and>
     xr_action r = Some action_id \<and> action_id \<noteq> [] \<and>
     dict_of (dget (xr_metadata r) ''operation'') = Inr operation \<and>
     operation_mode (xr_metadata r) operation = Inr mode"

lemma execute_wave:
  assumes "export_attempt L i = Some r" and "ready_to_run sv now r action_id operation mode"
  shows "execute_export sv i who now L =
    (let d = dispatch_attempt sv i r action_id operation (attempt_mode sv mode) who now
     in settle_execution sv i r (target_system_for_attempt sv r) d who now
          (log_request i (di_request d) (claimed_ledger i now L)))"
proof -
  have "claim_export_attempt i CLAIMABLE_EXECUTION_STATUSES now L = (claimed_ledger i now L, Export_claimed r)"
    using assms by (intro export_claim_succeeds) (auto simp: ready_to_run_def)
  moreover have "\<not> is_mijngeldzaken_target (target_system_for_attempt sv r)"
    "\<And>L. master_ledger_staleness sv i r ''execution'' who now L = None"
    using assms(2) by (simp_all add: ready_to_run_def wave_target wave_is_current)
  ultimately show ?thesis
    using assms by (simp add: execute_export_def ready_to_run_def run_claimed_export_def attempt_mode_def Let_def)
qed

text \<open>The status, the external state and the retry the answer of the operator leads to.\<close>

definition mapped_status :: "export_service \<Rightarrow> string \<Rightarrow> dispatch \<Rightarrow> export_status" where
  "mapped_status sv target d = fst (snd (map_execution_status sv (execution_text sv (di_execution d)) target))"

definition retry_computable :: "export_service \<Rightarrow> export_row \<Rightarrow> dispatch \<Rightarrow> timestamp \<Rightarrow> bool" where
  "retry_computable sv r d now \<longleftrightarrow>
     (case next_retry_state sv (xr_metadata r) (en_result (di_execution d)) now of Inl _ \<Rightarrow> False | Inr _ \<Rightarrow> True)"

lemma record_execution_attempts:
  "xl_attempts (fst (record_execution sv i r t d le rt who now L)) =
     update_row i (apply_export_update (sv_env sv) now (execution_update sv r t d le rt who now)) (xl_attempts L)"
  "xl_sent (fst (record_execution sv i r t d le rt who now L)) = xl_sent L"
  by (simp_all add: record_execution_def record_attention_state_def Let_def case_prod_beta step_simps)

lemma execution_update_fields:
  "xu_status (execution_update sv r t d le rt who now) = Some (mapped_status sv t d)"
  "xu_target (execution_update sv r t d le rt who now) = None"
  by (simp_all add: execution_update_def mapped_status_def Let_def case_prod_beta no_update_def)

lemma record_execution_reply:
  "rp_status (snd (record_execution sv i r t d le rt who now L)) = export_status_name (mapped_status sv t d)"
  by (simp add: record_execution_def mapped_status_def Let_def case_prod_beta)

lemma settle_sent [step_simps]: "xl_sent (fst (settle_execution sv i r t d who now L)) = xl_sent L"
  using record_execution_attempts(2)
  by (auto simp: settle_execution_def split: sum.split prod.split) (metis fst_conv)+

lemma settle_status:
  assumes "export_attempt L i = Some r0"
    and "dict_of (dget (xr_metadata r) ''lastExecution'') = Inr le"
    and "mapped_status sv t d = Xs_deferred \<Longrightarrow> retry_computable sv r d now"
  shows "\<exists>a. snd (settle_execution sv i r t d who now L) = Inr a \<and>
             rp_status a = export_status_name (mapped_status sv t d)"
    and "export_status_of (fst (settle_execution sv i r t d who now L)) i = Some (mapped_status sv t d)"
proof -
  obtain rt where e: "settle_execution sv i r t d who now L =
      (case record_execution sv i r t d le rt who now L of (L', a) \<Rightarrow> (L', Inr a))"
  proof (cases "mapped_status sv t d = Xs_deferred")
    case True
    with assms(3) obtain rs where "next_retry_state sv (xr_metadata r) (en_result (di_execution d)) now = Inr rs"
      by (auto simp: retry_computable_def split: sum.splits)
    with True assms(2) show ?thesis by (intro that [of "Some rs"]) (simp add: settle_execution_def mapped_status_def)
  next
    case False
    with assms(2) show ?thesis by (intro that [of None]) (simp add: settle_execution_def mapped_status_def)
  qed
  obtain L1 a where rx: "record_execution sv i r t d le rt who now L = (L1, a)" by fastforce
  from rx record_execution_reply [of sv i r t d le rt who now L]
  show "\<exists>a. snd (settle_execution sv i r t d who now L) = Inr a \<and>
             rp_status a = export_status_name (mapped_status sv t d)"
    by (simp add: e)
  from rx record_execution_attempts(1) [of sv i r t d le rt who now L] assms(1)
  show "export_status_of (fst (settle_execution sv i r t d who now L)) i = Some (mapped_status sv t d)"
    by (simp add: e export_status_of_def table_simps execution_update_fields)
qed

lemma claimed_ledger_facts [step_simps]:
  "xl_sent (claimed_ledger i now L) = xl_sent L"
  "xl_events (claimed_ledger i now L) = xl_events L"
  "export_attempt (claimed_ledger i now L) j =
     (if j = i then map_option (\<lambda>r. r\<lparr>xr_status := Xs_execution_in_progress, xr_updated := whole_second now\<rparr>)
        (export_attempt L j) else export_attempt L j)"
  by (simp_all add: claimed_ledger_def table_simps)

lemma execute_wave_sent:
  fixes who :: string
  assumes "export_attempt L i = Some r" and "ready_to_run sv now r action_id operation mode"
  defines "d \<equiv> dispatch_attempt sv i r action_id operation (attempt_mode sv mode) who now"
  shows "xl_sent (fst (execute_export sv i who now L)) =
    xl_sent L @ (case di_request d of None \<Rightarrow> [] | Some q \<Rightarrow> [(i, q)])"
  by (simp add: execute_wave [OF assms(1,2)] Let_def step_simps d_def)

lemma execute_wave_status:
  fixes who :: string
  assumes "export_attempt L i = Some r" and "ready_to_run sv now r action_id operation mode"
  defines "d \<equiv> dispatch_attempt sv i r action_id operation (attempt_mode sv mode) who now"
    and "t \<equiv> target_system_for_attempt sv r"
  assumes "dict_of (dget (xr_metadata r) ''lastExecution'') = Inr le"
    and "mapped_status sv t d = Xs_deferred \<Longrightarrow> retry_computable sv r d now"
  shows "export_status_of (fst (execute_export sv i who now L)) i = Some (mapped_status sv t d)"
    and "\<exists>a. snd (execute_export sv i who now L) = Inr a \<and> rp_status a = export_status_name (mapped_status sv t d)"
proof -
  let ?L = "log_request i (di_request d) (claimed_ledger i now L)"
  have "\<exists>r0. export_attempt ?L i = Some r0" using assms(1) by (simp add: step_simps)
  then obtain r0 where r0: "export_attempt ?L i = Some r0" ..
  note s = settle_status [OF r0 assms(5), of sv t d now who, OF assms(6)]
  from s show "export_status_of (fst (execute_export sv i who now L)) i = Some (mapped_status sv t d)"
    "\<exists>a. snd (execute_export sv i who now L) = Inr a \<and> rp_status a = export_status_name (mapped_status sv t d)"
    by (simp_all add: execute_wave [OF assms(1,2)] Let_def d_def t_def)
qed

end
