(* ===== verification/Export_Closed.thy ===== *)
theory Export_Closed
  imports Export_Effects
begin

text \<open>
  What preparing and approving do to the attempts, and the reachable example ledgers made from
  them.
\<close>

section \<open>Preparing a route for the first time\<close>

definition route_update ::
  "export_service \<Rightarrow> string \<Rightarrow> nat \<Rightarrow> routing_row \<Rightarrow> (nat \<times> book_row) option \<Rightarrow> export_ledger \<Rightarrow> export_update" where
  "route_update sv who rid ra rec L =
     (let op = route_operation ra; doc = document_of (ro_document ra) L; t = route_target sv ra;
          p = as_dict (dget op ''payload'')
      in prepared_update sv who rid ra rec t op p (as_dict (dget (ro_metadata ra) ''destination''))
           (master_ledger_draft sv t op p rid ra doc rec) (export_block_for_routing ra doc rec op L))"

text \<open>A route that can be approved: its record is found, nothing blocks it, nothing collides.\<close>

definition route_ready :: "export_service \<Rightarrow> string \<Rightarrow> nat \<Rightarrow> routing_row \<Rightarrow> (nat \<times> book_row) option \<Rightarrow> timestamp \<Rightarrow> export_ledger \<Rightarrow> bool" where
  "route_ready sv who rid ra rec now L \<longleftrightarrow>
     lookup_row (xl_routing L) rid = Some ra \<and> existing_for_route sv rid ra L = None \<and>
     routed_record (document_of (ro_document ra) L) (ro_metadata ra) L = Inr rec \<and>
     export_block_for_routing ra (document_of (ro_document ra) L) rec (route_operation ra) L = None \<and>
     \<not> unique_conflict (Suc (tlast (xl_attempts L))) (new_export_row (sv_env sv) now (route_update sv who rid ra rec L)) L"

lemma route_update_fields:
  "xu_routing (route_update sv who rid ra rec L) = Some rid"
  "xu_operation (route_update sv who rid ra rec L) = column_text sv (dget (route_operation ra) ''operation_id'')"
  "xu_target (route_update sv who rid ra rec L) = Some (route_target sv ra)"
  by (simp_all add: route_update_def prepared_update_def Let_def)

lemma prepare_ready_route:
  assumes "route_ready sv who rid ra rec now L"
  defines "row \<equiv> new_export_row (sv_env sv) now (route_update sv who rid ra rec L)"
  shows "xl_attempts (fst (prepare_from_routing_attempt sv rid who now L)) = fst (insert_row row (xl_attempts L))"
    and "xl_sent (fst (prepare_from_routing_attempt sv rid who now L)) = xl_sent L"
    and "\<exists>a. snd (prepare_from_routing_attempt sv rid who now L) = Inr a \<and>
           rp_success a \<and> rp_status a = ''approval_required''"
proof -
  let ?u = "route_update sv who rid ra rec L"
  have f: "find_export_attempt (xu_routing ?u) (xu_operation ?u) L = None"
    using assms(1) by (simp add: route_ready_def existing_for_route_def route_update_fields)
  then have up: "upsert_export_attempt (sv_env sv) ?u now L =
      (L\<lparr>xl_attempts := fst (insert_row row (xl_attempts L))\<rparr>, Inr (Suc (tlast (xl_attempts L))))"
    using assms(1) by (simp add: upsert_export_attempt_def route_ready_def row_def insert_row_def Let_def)
  have st: "xu_status ?u = Some Xs_approval_required"
    using assms(1) by (simp add: route_ready_def route_update_def prepared_update_def Let_def)
  have p: "prepare_from_routing_attempt sv rid who now L = prepare_new sv who rid ra rec now L"
    using assms(1) by (simp add: prepare_from_routing_attempt_def route_ready_def)
  note u = route_update_def [of sv who rid ra rec L, unfolded Let_def]
  note up' = up [unfolded u]
  from assms(1) up' st [unfolded u]
  show "xl_attempts (fst (prepare_from_routing_attempt sv rid who now L)) = fst (insert_row row (xl_attempts L))"
    "xl_sent (fst (prepare_from_routing_attempt sv rid who now L)) = xl_sent L"
    "\<exists>a. snd (prepare_from_routing_attempt sv rid who now L) = Inr a \<and> rp_success a \<and> rp_status a = ''approval_required''"
    by (auto simp: p prepare_new_def Let_def route_ready_def step_simps split: option.split)
qed

section \<open>Approving\<close>

definition approval_update :: "export_service \<Rightarrow> export_row \<Rightarrow> string \<Rightarrow> pyval \<Rightarrow> timestamp \<Rightarrow> export_update" where
  "approval_update sv r who why now =
     no_update\<lparr>xu_status := Some Xs_approved, xu_approval_required := Some False,
       xu_approved_at := Some (le_iso (sv_env sv) now), xu_approved_by := Some who,
       xu_external := Some ''approved_not_executed'',
       xu_message := Some ''Export approved locally; external submission is still not executed.'',
       xu_metadata := Some (dset ''approval''
         (PDict [(''actor'', PStr who), (''approvedAt'', PStr (le_iso (sv_env sv) now)), (''resolution'', why),
                 (''masterLedgerChecksum'', opt_str (master_ledger_checksum sv (xr_metadata r)))]) (xr_metadata r))\<rparr>"

lemma approve_attempts:
  assumes "export_attempt L i = Some r" and "xr_status r \<in> set APPROVABLE_EXPORT_STATUSES"
    and "\<not> is_stale (master_ledger_freshness sv L i r)"
  shows "xl_attempts (fst (approve_export sv i who (Some EXPORT_APPROVAL_PHRASE) why now L)) =
      update_row i (apply_export_update (sv_env sv) now (approval_update sv r who why now)) (xl_attempts L)"
    and "xl_sent (fst (approve_export sv i who (Some EXPORT_APPROVAL_PHRASE) why now L)) = xl_sent L"
    and "rp_status (snd (approve_export sv i who (Some EXPORT_APPROVAL_PHRASE) why now L)) = ''approved''"
proof -
  have "xr_status r \<noteq> Xs_approved" using assms(2) by (auto simp: APPROVABLE_EXPORT_STATUSES_def)
  moreover have "master_ledger_staleness sv i r ''approval'' who now L = None"
    using assms(3) by (simp add: master_ledger_staleness_def Let_def)
  ultimately show "xl_attempts (fst (approve_export sv i who (Some EXPORT_APPROVAL_PHRASE) why now L)) =
      update_row i (apply_export_update (sv_env sv) now (approval_update sv r who why now)) (xl_attempts L)"
    "xl_sent (fst (approve_export sv i who (Some EXPORT_APPROVAL_PHRASE) why now L)) = xl_sent L"
    "rp_status (snd (approve_export sv i who (Some EXPORT_APPROVAL_PHRASE) why now L)) = ''approved''"
    using assms(1,2) by (simp_all add: approve_export_def approval_update_def Let_def case_prod_beta step_simps)
qed

section \<open>The example routes\<close>

definition demo_start :: export_ledger where
  "demo_start = empty_export_ledger\<lparr>xl_documents := demo_documents, xl_routing := demo_routes\<rparr>"

lemma demo_start_reachable: "export_reachable demo_start"
proof -
  let ?op = "Xo_other demo_documents empty_table demo_routes empty_table []"
  have "demo_start = export_step (demo_service []) (Timestamp 0) ?op empty_export_ledger"
    by (simp add: demo_start_def empty_export_ledger_def)
  moreover have "export_reachable (export_step (demo_service []) (Timestamp 0) ?op empty_export_ledger)"
    by (rule export_reachable.step [OF export_reachable.start]) auto
  ultimately show ?thesis by (simp only:)
qed

lemma demo_route_ready: "route_ready (demo_service ans) ''a'' 1 demo_route None (Timestamp 0) demo_start"
  unfolding route_ready_def
  by (intro conjI; code_simp)

definition demo_draft_row :: "pydict \<Rightarrow> export_row" where
  "demo_draft_row ans = new_export_row plain_ledger_env (Timestamp 0)
     (route_update (demo_service ans) ''a'' 1 demo_route None demo_start)"

definition demo_approved_row :: "pydict \<Rightarrow> export_row" where
  "demo_approved_row ans = apply_export_update plain_ledger_env (Timestamp 0)
     (approval_update (demo_service ans) (demo_draft_row ans) ''u'' PNone (Timestamp 0)) (demo_draft_row ans)"

definition demo_approved :: "pydict \<Rightarrow> export_ledger" where
  "demo_approved ans = fst (approve_export (demo_service ans) 1 ''u'' (Some EXPORT_APPROVAL_PHRASE) PNone (Timestamp 0)
     (fst (prepare_from_routing_attempt (demo_service ans) 1 ''a'' (Timestamp 0) demo_start)))"

lemma demo_approved_reachable: "export_reachable (demo_approved ans)"
proof -
  let ?sv = "demo_service ans"
  have "export_reachable (export_step ?sv (Timestamp 0) (Xo_prepare 1 ''a'') demo_start)"
    by (rule export_reachable.step [OF demo_start_reachable]) simp
  from export_reachable.step [OF this, of "Xo_approve 1 ''u'' (Some EXPORT_APPROVAL_PHRASE) PNone" ?sv "Timestamp 0"]
  show ?thesis by (simp add: demo_approved_def)
qed

lemma demo_draft_row_plain:
  "xr_status (demo_draft_row ans) = Xs_approval_required" "wave_attempt (demo_draft_row ans)"
  by (simp add: demo_draft_row_def, code_simp)+

lemma demo_ready:
  "ready_to_run (demo_service ans) (Timestamp 0) (demo_approved_row ans) ''transaction_add'' [] PNone"
  by code_simp

lemma demo_env [simp]: "sv_env (demo_service ans) = plain_ledger_env"
  by (simp add: demo_service_def)

lemma demo_draft_attempt:
  "export_attempt (fst (prepare_from_routing_attempt (demo_service ans) 1 ''a'' (Timestamp 0) demo_start)) 1 =
     Some (demo_draft_row ans)"
  unfolding prepare_ready_route(1) [OF demo_route_ready]
  by (simp add: insert_row_def lookup_row_def demo_start_def empty_export_ledger_def empty_table_def demo_draft_row_def)

lemma demo_approved_attempt: "export_attempt (demo_approved ans) 1 = Some (demo_approved_row ans)"
proof -
  have "\<not> is_stale (master_ledger_freshness (demo_service ans) L 1 (demo_draft_row ans))" for L
    using wave_target [OF demo_draft_row_plain(2), of "demo_service ans"]
    by (simp add: master_ledger_freshness_def is_stale_def split: option.split)
  moreover have "xr_status (demo_draft_row ans) \<in> set APPROVABLE_EXPORT_STATUSES"
    by (simp add: demo_draft_row_plain APPROVABLE_EXPORT_STATUSES_def)
  ultimately show ?thesis
    by (simp add: demo_approved_def approve_attempts(1) [OF demo_draft_attempt] table_simps demo_draft_attempt
        demo_approved_row_def del: One_nat_def)
qed

lemma demo_dispatch:
  "di_request (dispatch_attempt (demo_service [(''status'', PStr ''success'')]) 1
     (demo_approved_row [(''status'', PStr ''success'')]) ''transaction_add'' [] None ''a'' (Timestamp 0)) \<noteq> None"
  by code_simp

text \<open>
  An operation on one attempt touches no other; and a Wave attempt whose execution started or
  ended (running, executed, submitted, queued, failed, rejected) is closed: no sequence of
  operations opens it or sends it again.
\<close>

definition sends :: "nat \<Rightarrow> export_ledger \<Rightarrow> pydict list" where
  "sends i L = map snd (filter (\<lambda>(j, q). j = i) (xl_sent L))"

definition touches_only :: "nat \<Rightarrow> export_ledger \<Rightarrow> export_ledger \<Rightarrow> bool" where
  "touches_only j L L' \<longleftrightarrow> (\<forall>i. i \<noteq> j \<longrightarrow> export_attempt L' i = export_attempt L i \<and> sends i L' = sends i L)"

section \<open>Operations touch their own attempt\<close>

lemma touches_same: "xl_attempts L' = xl_attempts L \<Longrightarrow> xl_sent L' = xl_sent L \<Longrightarrow> touches_only j L L'"
  by (simp add: touches_only_def sends_def)

lemma touches_refl [simp]: "touches_only j L L"
  by (simp add: touches_only_def)

lemma touches_cong:
  "xl_attempts L2 = xl_attempts L1 \<Longrightarrow> xl_sent L2 = xl_sent L1 \<Longrightarrow> touches_only j L L2 = touches_only j L L1"
  by (simp add: touches_only_def sends_def)

lemma touches_neutral [simp]:
  "touches_only j L (service_audit sv a i d now L1) = touches_only j L L1"
  "touches_only j L (note_export_state sv r es st det now L1) = touches_only j L L1"
  "touches_only j L (fst (resolve_wave_execution_reviews i r a s now L1)) = touches_only j L L1"
  "touches_only j L (fst (resolve_mijngeldzaken_supervision_reviews i r a s now L1)) = touches_only j L L1"
  "touches_only j L (fst (create_review_item doc a det2 now L1)) = touches_only j L L1"
  "touches_only j L (fst (queue_wave_execution_review sv i r a m d now L1)) = touches_only j L L1"
  by (rule touches_cong; simp add: step_simps)+

lemma touches_update [simp]:
  "touches_only j L (update_export_attempt env j u now L1) = touches_only j L L1"
  by (simp add: touches_only_def step_simps table_simps sends_def)

lemma touches_log [simp]: "touches_only j L (log_request j q L1) = touches_only j L L1"
  by (auto simp: touches_only_def step_simps sends_def split: option.split)

lemma touches_staleness:
  "master_ledger_staleness sv i r stage who now L1 = Some (L2, a) \<Longrightarrow> touches_only j L L1 \<Longrightarrow> touches_only j L L2"
  using staleness_facts touches_cong by metis

lemma touches_regenerate: "touches_only i L (fst (regenerate_attempt sv i who now L))"
  by (simp add: regenerate_attempt_def Let_def split: option.split sum.split)

lemma touches_approve: "touches_only i L (fst (approve_export sv i who phrase why now L))"
  by (auto simp: approve_export_def Let_def case_prod_beta dest: touches_staleness [OF _ touches_refl] split: option.split)

lemma touches_reject: "touches_only i L (fst (reject_export sv i who phrase why now L))"
  by (simp add: reject_export_def Let_def case_prod_beta split: option.split)

lemma touches_result: "touches_only i L (fst (record_result sv i st ext res who phrase now L))"
  by (auto simp: record_result_def write_result_def Let_def case_prod_beta
      dest: touches_staleness [OF _ touches_refl] split: option.split if_splits)

lemma touches_settle:
  "touches_only i L L1 \<Longrightarrow> touches_only i L (fst (settle_execution sv i r t d who now L1))"
  by (auto simp: settle_execution_def record_execution_def record_attention_state_def Let_def case_prod_beta
      split: sum.split)

lemma touches_artifact:
  "touches_only j L (fst (artifact_for_attempt sv i fmt who now L1)) = touches_only j L L1"
  using artifact_facts [of sv i fmt who now L1] touches_cong by (metis prod.exhaust_sel)

lemma touches_supervision:
  "touches_only i L L1 \<Longrightarrow> touches_only i L (fst (prepare_mijngeldzaken_supervision sv i r who now L1))"
  using touches_artifact [of i L sv i _ who now L1]
  by (auto simp: prepare_mijngeldzaken_supervision_def start_supervision_def Let_def case_prod_beta
      split: artifact_result.split sum.split)

lemma touches_release [simp]:
  "touches_only i L (release_execution_claim sv i m now L1) = touches_only i L L1"
  by (simp add: release_execution_claim_def)

lemma touches_run_claimed:
  assumes "touches_only i L L1"
  shows "touches_only i L (fst (run_claimed_export sv i r who now L1))"
proof -
  have "touches_only i L L2" if "prepare_mijngeldzaken_supervision sv i r who now L1 = (L2, a)" for L2 a
    using touches_supervision [OF assms, of sv r who now] that by simp
  with assms show ?thesis
    by (auto simp: run_claimed_export_def Let_def intro!: touches_settle dest: touches_staleness
        split: option.split sum.split prod.split)
qed

lemma touches_claim: "touches_only i L (fst (claim_export_attempt i allowed now L))"
  by (auto simp: claim_export_attempt_def export_claim_update_def touches_only_def table_simps sends_def
      split: option.split)

lemma touches_execute: "touches_only i L (fst (execute_export sv i who now L))"
  using touches_claim [of i L CLAIMABLE_EXECUTION_STATUSES now] touches_run_claimed
  by (auto simp: execute_export_def split: option.split prod.split export_claim.split)

section \<open>Closed attempts\<close>

definition closed_status :: "export_status \<Rightarrow> bool" where
  "closed_status st \<longleftrightarrow>
     st \<in> {Xs_execution_in_progress, Xs_executed, Xs_submitted, Xs_queued, Xs_failed, Xs_rejected}"

definition closed_wave :: "nat \<Rightarrow> export_ledger \<Rightarrow> bool" where
  "closed_wave i L \<longleftrightarrow> (\<exists>r. export_attempt L i = Some r \<and> closed_status (xr_status r) \<and> wave_attempt r)"

definition stays_closed :: "nat \<Rightarrow> export_ledger \<Rightarrow> export_ledger \<Rightarrow> bool" where
  "stays_closed i L L' \<longleftrightarrow> closed_wave i L' \<and> sends i L' = sends i L"

lemma stays_same:
  "closed_wave i L \<Longrightarrow> xl_attempts L' = xl_attempts L \<Longrightarrow> xl_sent L' = xl_sent L \<Longrightarrow> stays_closed i L L'"
  by (simp add: stays_closed_def closed_wave_def sends_def)

lemma stays_other: "closed_wave i L \<Longrightarrow> touches_only j L L' \<Longrightarrow> i \<noteq> j \<Longrightarrow> stays_closed i L L'"
  by (simp add: stays_closed_def closed_wave_def touches_only_def)

lemma stays_trans: "stays_closed i L L1 \<Longrightarrow> stays_closed i L1 L2 \<Longrightarrow> stays_closed i L L2"
  by (simp add: stays_closed_def)

lemma closed_not_claimable: "closed_status st \<Longrightarrow> st \<notin> set CLAIMABLE_EXECUTION_STATUSES"
  by (auto simp: closed_status_def CLAIMABLE_EXECUTION_STATUSES_def)

lemma stays_execute: "closed_wave i L \<Longrightarrow> stays_closed i L (fst (execute_export sv j who now L))"
proof (cases "i = j")
  case True
  assume c: "closed_wave i L"
  then have "fst (execute_export sv j who now L) = L"
    using True by (auto simp: closed_wave_def execute_export_def closed_not_claimable)
  with c show ?thesis by (simp add: stays_same)
qed (simp add: stays_other [OF _ touches_execute])

lemma stays_execute_all: "closed_wave i L \<Longrightarrow> stays_closed i L (fst (execute_all sv is who now L))"
proof (induction "is" arbitrary: L)
  case Nil
  then show ?case by (simp add: stays_same)
next
  case (Cons j "is")
  from stays_execute [OF Cons.prems, of sv j who now] Cons.IH show ?case
    by (fastforce simp: stays_closed_def split: prod.splits sum.splits)
qed

lemma stays_batch_audit [simp]: "stays_closed i L (batch_audit sv a d now L') = stays_closed i L L'"
  by (simp add: stays_closed_def closed_wave_def sends_def batch_audit_def step_simps)

lemma closed_batch_audit [simp]: "closed_wave i (batch_audit sv a d now L) = closed_wave i L"
  by (simp add: closed_wave_def batch_audit_def step_simps)

lemma sends_batch_audit [simp]: "sends i (batch_audit sv a d now L) = sends i L"
  by (simp add: sends_def batch_audit_def step_simps)

lemma stays_process:
  assumes "closed_wave i L"
  shows "stays_closed i L (fst (process_approved_exports sv limit who force backup now L))"
proof -
  have "stays_closed i L (fst (execute_all sv is who now (batch_audit sv a d now L)))"
    "stays_closed i L (fst (execute_all sv is who now L))" for "is" a d
    using assms stays_execute_all [of i "batch_audit sv a d now L" sv "is" who now] stays_execute_all [OF assms]
    by (simp_all add: stays_closed_def)
  moreover have "stays_closed i L L" by (rule stays_same [OF assms refl refl])
  ultimately show ?thesis
    by (auto simp: process_approved_exports_def Let_def split: prod.split sum.split) (metis fst_conv)+
qed

lemma stays_regenerate: "closed_wave i L \<Longrightarrow> stays_closed i L (fst (regenerate_attempt sv j who now L))"
proof (cases "i = j")
  case True
  assume c: "closed_wave i L"
  then have "fst (regenerate_attempt sv j who now L) = L"
    using True by (auto simp: closed_wave_def regenerate_attempt_def wave_target)
  with c show ?thesis by (simp add: stays_same)
qed (simp add: stays_other [OF _ touches_regenerate])

lemma stays_approve: "closed_wave i L \<Longrightarrow> stays_closed i L (fst (approve_export sv j who phrase why now L))"
proof (cases "i = j")
  case True
  assume c: "closed_wave i L"
  then have "fst (approve_export sv j who phrase why now L) = L"
    using True by (auto simp: closed_wave_def closed_status_def approve_export_def APPROVABLE_EXPORT_STATUSES_def)
  with c show ?thesis by (simp add: stays_same)
qed (simp add: stays_other [OF _ touches_approve])

lemma stays_reject: "closed_wave i L \<Longrightarrow> stays_closed i L (fst (reject_export sv j who phrase why now L))"
proof (cases "i = j")
  case True
  assume c: "closed_wave i L"
  then have "fst (reject_export sv j who phrase why now L) = L"
    using True by (auto simp: closed_wave_def closed_status_def reject_export_def REJECTABLE_EXPORT_STATUSES_def)
  with c show ?thesis by (simp add: stays_same)
qed (simp add: stays_other [OF _ touches_reject])

lemma stays_failed_result:
  "closed_wave i L \<Longrightarrow> stays_closed i L (write_result sv i r Xs_failed ext res who now L)"
  by (auto simp: stays_closed_def closed_wave_def sends_def write_result_def Let_def step_simps table_simps
      closed_status_def wave_attempt_def)

lemma stays_neutral [simp]:
  "stays_closed i L (service_audit sv a j d now L') = stays_closed i L L'"
  "stays_closed i L (note_export_state sv r es st det now L') = stays_closed i L L'"
  by (simp_all add: stays_closed_def closed_wave_def sends_def step_simps)

lemma stays_result: "closed_wave i L \<Longrightarrow> stays_closed i L (fst (record_result sv j st ext res who phrase now L))"
proof (cases "i = j")
  case True
  assume c: "closed_wave i L"
  then obtain r where r: "export_attempt L i = Some r" "closed_status (xr_status r)" by (auto simp: closed_wave_def)
  then have n: "xr_status r \<notin> {Xs_approved, Xs_supervision_required}" by (auto simp: closed_status_def)
  have "stays_closed i L L" by (rule stays_same [OF c refl refl])
  with r n c show ?thesis
    unfolding True [symmetric]
    by (auto simp: record_result_def Let_def stays_failed_result split: option.split)
qed (simp add: stays_other [OF _ touches_result])

section \<open>Preparing leaves closed attempts alone\<close>

lemma find_export_row:
  "wf_table (xl_attempts L) \<Longrightarrow> find_export_attempt ro op L = Some (j, r) \<Longrightarrow> export_attempt L j = Some r"
  by (auto simp: find_export_attempt_def dest: find_row_Some split: option.splits if_splits)

lemma stays_upsert:
  assumes "closed_wave i L" and "wf_table (xl_attempts L)"
    and "\<And>r. find_export_attempt (xu_routing u) (xu_operation u) L \<noteq> Some (i, r)"
  shows "stays_closed i L (fst (upsert_export_attempt env u now L))"
proof (cases "find_export_attempt (xu_routing u) (xu_operation u) L")
  case None
  let ?row = "new_export_row env now u"
  have "i \<noteq> snd (insert_row ?row (xl_attempts L))"
    using assms(1) insert_row_fresh [OF assms(2), of ?row] by (auto simp: closed_wave_def)
  then have "stays_closed i L (L\<lparr>xl_attempts := fst (insert_row ?row (xl_attempts L))\<rparr>)"
    using assms(1,2) by (simp add: stays_closed_def closed_wave_def sends_def lookup_insert_row)
  with None assms(1) show ?thesis
    by (simp add: upsert_export_attempt_def Let_def case_prod_beta stays_same)
next
  case (Some hit)
  then obtain j old where h: "hit = (j, old)" "j \<noteq> i" using assms(3) by (cases hit) auto
  have "stays_closed i L (update_export_attempt env j u now L)"
    using stays_other [OF assms(1), of j] h(2) by simp
  with Some h(1) assms(1) show ?thesis by (simp add: upsert_export_attempt_def stays_same)
qed

lemma stays_record_state [simp]:
  "stays_closed i L (sync_export_state sv d es st ro det now L') = stays_closed i L L'"
  "stays_closed i L (update_record_export_state sv j es st ro det now L') = stays_closed i L L'"
  by (simp_all add: stays_closed_def closed_wave_def sends_def step_simps)

lemma stays_prepare_new:
  assumes "closed_wave i L" and "wf_table (xl_attempts L)"
    and "\<And>r. existing_for_route sv rid ra L \<noteq> Some (i, r)"
  shows "stays_closed i L (fst (prepare_new sv who rid ra rec now L))"
proof -
  note u = route_update_def [of sv who rid ra rec L, unfolded Let_def]
  let ?u = "route_update sv who rid ra rec L"
  obtain L1 x where up: "upsert_export_attempt (sv_env sv) ?u now L = (L1, x)" by fastforce
  have "stays_closed i L (fst (upsert_export_attempt (sv_env sv) ?u now L))"
    using assms by (intro stays_upsert) (simp_all add: route_update_fields existing_for_route_def)
  then have "stays_closed i L L1" by (simp add: up)
  then show ?thesis
    using up [unfolded u] by (simp add: prepare_new_def Let_def split: sum.split option.split prod.split)
qed

lemma closed_is_preserved: "closed_status st \<Longrightarrow> st \<in> set PRESERVED_EXPORT_STATUSES"
  by (auto simp: closed_status_def PRESERVED_EXPORT_STATUSES_def)

lemma stays_prepare:
  assumes "closed_wave i L" and "wf_table (xl_attempts L)"
  shows "stays_closed i L (fst (prepare_from_routing_attempt sv rid who now L))"
proof (cases "lookup_row (xl_routing L) rid")
  case None
  then show ?thesis using assms(1) by (simp add: prepare_from_routing_attempt_def stays_same)
next
  case (Some ra)
  have same: "stays_closed i L L" by (rule stays_same [OF assms(1) refl refl])
  show ?thesis
  proof (cases "\<exists>r. existing_for_route sv rid ra L = Some (i, r)")
    case True
    then obtain r where e: "existing_for_route sv rid ra L = Some (i, r)" ..
    then have "export_attempt L i = Some r" using find_export_row [OF assms(2)] by (simp add: existing_for_route_def)
    then have "leaves_alone sv rid (route_operation ra) r"
      using assms(1) closed_is_preserved by (auto simp: closed_wave_def leaves_alone_def)
    with Some e same show ?thesis by (simp add: prepare_from_routing_attempt_def Let_def split: sum.split)
  next
    case False
    then have "stays_closed i L (fst (prepare_new sv who rid ra rec now L))" for rec
      using assms by (intro stays_prepare_new) auto
    with Some same show ?thesis
      by (simp add: prepare_from_routing_attempt_def Let_def split: option.split sum.split)
  qed
qed

lemma wf_step: "wf_table (xl_attempts L) \<Longrightarrow> wf_table (xl_attempts (export_step sv now op L))"
proof -
  assume "wf_table (xl_attempts L)"
  then have "sound UNIV L" by (simp add: sound_def)
  then have "sound UNIV (export_step sv now op L)"
    using sound_approve [of UNIV L]
    by (cases op) (auto simp: sound_prepare sound_prepare_ready sound_regenerate sound_artifact sound_reject
        sound_result sound_execute sound_process sound_other)
  then show ?thesis by (simp add: sound_def)
qed

lemma stays_prepare_all:
  "closed_wave i L \<Longrightarrow> wf_table (xl_attempts L) \<Longrightarrow> stays_closed i L (fst (prepare_all sv rids who now L))"
proof (induction rids arbitrary: L)
  case Nil
  then show ?case by (simp add: stays_same)
next
  case (Cons rid rids)
  have w: "wf_table (xl_attempts (fst (prepare_from_routing_attempt sv rid who now L)))"
    using wf_step [OF Cons.prems(2), of sv now "Xo_prepare rid who"] by simp
  from stays_prepare [OF Cons.prems, of sv rid who now] w Cons.IH show ?case
    by (fastforce simp: stays_closed_def split: prod.splits sum.splits)
qed

lemma stays_prepare_ready:
  assumes "closed_wave i L" and "wf_table (xl_attempts L)"
  shows "stays_closed i L (fst (prepare_ready_exports sv limit now L))"
proof -
  have a: "stays_closed i L (record_audit env x t e d now L') = stays_closed i L L'" for env x t e d L'
    by (simp add: stays_closed_def closed_wave_def sends_def step_simps)
  show ?thesis
    using stays_prepare_all [OF assms, of sv "prepared_routes limit L" "''fab_local_exports''" now]
    by (auto simp: prepare_ready_exports_def Let_def a split: prod.splits sum.splits)
qed

lemma stays_artifact: "closed_wave i L \<Longrightarrow> stays_closed i L (fst (artifact_for_attempt sv j fmt who now L))"
  using artifact_facts [of sv j fmt who now L] by (metis prod.exhaust_sel stays_same)

lemma stays_step:
  assumes "closed_wave i L" and "wf_table (xl_attempts L)"
  shows "stays_closed i L (export_step sv now op L)"
  using assms
  by (cases op) (simp_all add: stays_prepare stays_prepare_ready stays_regenerate stays_artifact stays_approve
      stays_reject stays_result stays_execute stays_process stays_same)

text \<open>A run: each step with its own service (configuration, provider behaviour) and clock.\<close>

fun export_run :: "(export_service \<times> timestamp \<times> export_op) list \<Rightarrow> export_ledger \<Rightarrow> export_ledger" where
  "export_run [] L = L"
| "export_run ((sv, now, op) # steps) L = export_run steps (export_step sv now op L)"

lemma stays_run:
  "closed_wave i L \<Longrightarrow> wf_table (xl_attempts L) \<Longrightarrow> stays_closed i L (export_run steps L)"
proof (induction steps arbitrary: L)
  case Nil
  then show ?case by (simp add: stays_same)
next
  case (Cons s steps)
  obtain sv now op where s: "s = (sv, now, op)" by (cases s) auto
  let ?L = "export_step sv now op L"
  have "stays_closed i L ?L" by (rule stays_step [OF Cons.prems])
  moreover from this have "closed_wave i ?L" by (simp add: stays_closed_def)
  then have "stays_closed i ?L (export_run steps ?L)" by (rule Cons.IH [OF _ wf_step [OF Cons.prems(2)]])
  ultimately show ?case by (simp add: s stays_trans)
qed

end
