(* ===== verification/Export_Gates.thy ===== *)
theory Export_Gates
  imports Export_Closed
begin

text \<open>
  The gates of the export service: stale MijnGeldzaken drafts, the policy checks in front of a
  request, the retry time of a deferred attempt, the claim of an attempt without an artifact,
  and the marker that ties a review item to an attempt.
\<close>

section \<open>Stale drafts\<close>

text \<open>The current package is computed from the documents, the records and the routes only.\<close>

definition package_reads_sources :: "export_service \<Rightarrow> bool" where
  "package_reads_sources sv \<longleftrightarrow> (\<forall>L L' i r.
     xl_documents L' = xl_documents L \<longrightarrow> xl_records L' = xl_records L \<longrightarrow> xl_routing L' = xl_routing L \<longrightarrow>
     xp_current_package (sv_ports sv) L' i r = xp_current_package (sv_ports sv) L i r)"

lemma package_same:
  assumes "package_reads_sources sv" and "xl_documents L' = xl_documents L" and "xl_records L' = xl_records L"
    and "xl_routing L' = xl_routing L"
  shows "xp_current_package (sv_ports sv) L' i r = xp_current_package (sv_ports sv) L i r"
  using assms(1) [unfolded package_reads_sources_def, rule_format, OF assms(2-4)] .

lemma freshness_of_claimed:
  assumes "package_reads_sources sv"
  shows "master_ledger_freshness sv (claimed_ledger i now L) i r = master_ledger_freshness sv L i r"
proof -
  have "xp_current_package (sv_ports sv) (claimed_ledger i now L) i r = xp_current_package (sv_ports sv) L i r"
    by (rule package_same [OF assms]) (simp_all add: claimed_ledger_def)
  then show ?thesis by (simp only: master_ledger_freshness_def)
qed

lemma stale_event:
  "is_stale (master_ledger_freshness sv L i r) \<Longrightarrow>
     \<exists>L1. master_ledger_staleness sv i r stage who now L = Some (L1, stale_reply)"
  by (simp add: master_ledger_staleness_def Let_def)

lemma stale_execution:
  assumes "export_attempt L i = Some r" and "xr_status r \<in> set CLAIMABLE_EXECUTION_STATUSES"
    and "execution_retry_due sv now r" and "is_stale (master_ledger_freshness sv L i r)"
    and "package_reads_sources sv"
  shows "export_status_of (fst (execute_export sv i who now L)) i = Some Xs_approved"
    and "xl_sent (fst (execute_export sv i who now L)) = xl_sent L"
    and "snd (execute_export sv i who now L) = Inr stale_reply"
proof -
  have s: "is_stale (master_ledger_freshness sv (claimed_ledger i now L) i r)"
    by (simp only: freshness_of_claimed [OF assms(5)] assms(4))
  from stale_event [OF this] obtain L1 where
    st: "master_ledger_staleness sv i r ''execution'' who now (claimed_ledger i now L) = Some (L1, stale_reply)"
    by blast
  have e: "execute_export sv i who now L =
      (release_execution_claim sv i ''Master-ledger draft became stale before dispatch.'' now L1, Inr stale_reply)"
    using assms(1-3) export_claim_succeeds [OF assms(1,2), of now]
    by (simp add: execute_export_def run_claimed_export_def st)
  note f = staleness_facts [OF st]
  have "export_attempt L1 i = export_attempt (claimed_ledger i now L) i" by (simp add: f(1))
  with assms(1) show "export_status_of (fst (execute_export sv i who now L)) i = Some Xs_approved"
    by (simp add: e export_status_of_def release_execution_claim_def step_simps table_simps)
  show "xl_sent (fst (execute_export sv i who now L)) = xl_sent L"
    by (simp add: e release_execution_claim_def service_audit_facts(2) update_attempt_facts(2) f(2)
        claimed_ledger_facts(1))
  show "snd (execute_export sv i who now L) = Inr stale_reply" by (simp add: e)
qed

lemma stale_approval:
  assumes "export_attempt L i = Some r" and "is_stale (master_ledger_freshness sv L i r)"
  shows "xl_attempts (fst (approve_export sv i who phrase why now L)) = xl_attempts L"
    and "xr_status r \<in> set APPROVABLE_EXPORT_STATUSES \<Longrightarrow>
      snd (approve_export sv i who (Some EXPORT_APPROVAL_PHRASE) why now L) = stale_reply"
proof -
  from stale_event [OF assms(2), of "''approval''" who now] obtain L1 where
    st: "master_ledger_staleness sv i r ''approval'' who now L = Some (L1, stale_reply)" by blast
  then show "xl_attempts (fst (approve_export sv i who phrase why now L)) = xl_attempts L"
    using assms(1) staleness_facts(1) [OF st] by (simp add: approve_export_def)
  have "Xs_approved \<notin> set APPROVABLE_EXPORT_STATUSES" by (simp add: APPROVABLE_EXPORT_STATUSES_def)
  then show "snd (approve_export sv i who (Some EXPORT_APPROVAL_PHRASE) why now L) = stale_reply"
    if "xr_status r \<in> set APPROVABLE_EXPORT_STATUSES"
    using that assms(1) st by (auto simp: approve_export_def)
qed

section \<open>The policy checks in front of a request\<close>

lemma wave_execute_request:
  assumes "fst (wave_execute env cfg enter target action payload key doc rec) = Some q"
  shows "strip action \<in> set SUPPORTED_WAVE_API_ACTIONS"
    and "\<exists>t. resolve_target env cfg target = Some t \<and> missing_credentials cfg t = []"
    and "dget q ''idempotency_key'' = PStr (if truthy key then py_str env key else [])"
  using assms by (auto simp: wave_execute_def Let_def categorized_data_def split: option.splits if_splits sum.splits)

definition dispatch_allowed ::
  "export_service \<Rightarrow> export_row \<Rightarrow> string \<Rightarrow> wave_operation \<Rightarrow> bool" where
  "dispatch_allowed sv r action_id op \<longleftrightarrow>
     wp_status (wo_plan op) = Planned \<and>
     (\<forall>c. wo_capability op = Some c \<longrightarrow> pc_status c = Ready) \<and>
     (wo_safety op = ''requires_credentials'' \<longrightarrow> oc_allow_credentials (operator_config_of (sv_config sv))) \<and>
     (wo_safety op = ''requires_confirmation'' \<longrightarrow> oc_allow_confirmed (operator_config_of (sv_config sv))) \<and>
     strip action_id \<in> set SUPPORTED_WAVE_API_ACTIONS \<and>
     (\<exists>t. resolve_target (le_py (sv_env sv)) (sv_config sv) (PStr (target_system_for_attempt sv r)) = Some t \<and>
          missing_credentials (sv_config sv) t = [])"

lemma dispatch_gates:
  assumes "di_request (dispatch_attempt sv i r action_id operation mode who now) = Some q"
  shows "\<exists>op. attempt_operation sv i r action_id operation = Inr op \<and> dispatch_allowed sv r action_id op"
    and "dget q ''idempotency_key'' = PStr (if truthy (attempt_key i r) then text_of sv (attempt_key i r) else [])"
proof -
  obtain op where op: "attempt_operation sv i r action_id operation = Inr op"
    using assms by (cases "attempt_operation sv i r action_id operation") (simp_all add: dispatch_attempt_def)
  obtain p where g: "gate_operation (operator_config_of (sv_config sv)) op mode True True = Call_handler p"
    using assms op
    by (cases "gate_operation (operator_config_of (sv_config sv)) op mode True True")
       (simp_all add: dispatch_attempt_def Let_def)
  have w: "fst (wave_execute (le_py (sv_env sv)) (sv_config sv) (xp_enter_data (sv_ports sv))
      (PStr (target_system_for_attempt sv r)) action_id p (attempt_key i r)
      (opt_nat (xr_document r)) (opt_nat (xr_record r))) = Some q"
    using assms op g by (simp add: dispatch_attempt_def Let_def case_prod_beta)
  show "\<exists>op. attempt_operation sv i r action_id operation = Inr op \<and> dispatch_allowed sv r action_id op"
    using op call_handler_gate [OF g] wave_execute_request(1,2) [OF w] by (simp add: dispatch_allowed_def)
  show "dget q ''idempotency_key'' = PStr (if truthy (attempt_key i r) then text_of sv (attempt_key i r) else [])"
    using wave_execute_request(3) [OF w] by (simp add: text_of_def)
qed

section \<open>The outcome of a dispatch\<close>

text \<open>The state each answer of the provider leads to; any other answer is a failure.\<close>

definition ANSWER_OUTCOMES :: "(string \<times> export_status) list" where
  "ANSWER_OUTCOMES =
     [(''success'', Xs_executed), (''executed'', Xs_executed), (''submitted'', Xs_submitted), (''queued'', Xs_queued),
      (''rate_limited'', Xs_deferred), (''quota_exhausted'', Xs_deferred),
      (''blocked_requires_confirmation'', Xs_attention_required),
      (''blocked_requires_credentials'', Xs_attention_required), (''needs_review'', Xs_attention_required)]"

text \<open>
  What a provider's answer means: without a status it is a success; a file written in place of
  a submission waits for attention.
\<close>

definition answer_outcome :: "export_service \<Rightarrow> pydict \<Rightarrow> export_status" where
  "answer_outcome sv res =
     (let v = dget_or res ''status'' (PStr ''success'') in
      if v = PStr ''csv_generated'' then Xs_attention_required
      else case map_of ANSWER_OUTCOMES (lower (strip (or_empty sv v))) of None \<Rightarrow> Xs_failed | Some st \<Rightarrow> st)"

lemma map_execution_outcome:
  "fst (snd (map_execution_status sv s target)) = (case map_of ANSWER_OUTCOMES s of None \<Rightarrow> Xs_failed | Some st \<Rightarrow> st)"
  by (simp add: map_execution_status_def ANSWER_OUTCOMES_def Let_def)

lemma policy_texts:
  "lower (strip ''failed'') = ''failed''" "lower (strip ''failure'') = ''failure''"
  "lower (strip ''needs_review'') = ''needs_review''"
  "lower (strip ''blocked_requires_credentials'') = ''blocked_requires_credentials''"
  "lower (strip ''blocked_requires_confirmation'') = ''blocked_requires_confirmation''"
  "lower (strip ''planned'') = ''planned''"
  by code_simp+

lemma status_outcome:
  "en_status en = PStr s \<Longrightarrow> s \<noteq> [] \<Longrightarrow> lower (strip s) = s \<Longrightarrow> di_execution d = en \<Longrightarrow>
   mapped_status sv target d = (case map_of ANSWER_OUTCOMES s of None \<Rightarrow> Xs_failed | Some st \<Rightarrow> st)"
  by (simp add: mapped_status_def map_execution_outcome execution_text_def or_empty_def text_of_def)

lemma stopped_outcome:
  assumes "gate_operation oc op mode True True = Stop en" and "di_execution d = en"
  shows "mapped_status sv target d \<in> {Xs_attention_required, Xs_failed}"
proof -
  from assms(1) obtain s where s: "en_status en = PStr s"
      "s \<in> {''needs_review'', ''blocked_requires_credentials'', ''blocked_requires_confirmation'', ''planned''}"
    by (auto simp: gate_operation_def stopped_def Let_def split: if_splits)
  then have l: "s \<noteq> [] \<and> lower (strip s) = s" using policy_texts by auto
  from status_outcome [of en s, OF s(1) _ _ assms(2)] l
  have "mapped_status sv target d = (case map_of ANSWER_OUTCOMES s of None \<Rightarrow> Xs_failed | Some st \<Rightarrow> st)" by blast
  with s(2) show ?thesis by (auto simp: ANSWER_OUTCOMES_def)
qed

text \<open>What the API executor returns: nothing was sent, or the handler's answer.\<close>

lemma wave_execute_cases:
  assumes "wave_execute env cfg enter target action payload key doc rec = (req, res)"
  obtains (unsent) s where "req = None" and "dget_or res ''status'' (PStr ''success'') = PStr s"
      and "s \<in> {''needs_review'', ''blocked_requires_credentials''}"
  | (raised) t q msg where "req = Some q" and "resolve_target env cfg target = Some t" and "enter t q = Inl msg"
      and "dget_or res ''status'' (PStr ''success'') = PStr ''failure''"
  | (answered) t q ans where "req = Some q" and "resolve_target env cfg target = Some t" and "enter t q = Inr ans"
      and "dget_or res ''status'' (PStr ''success'') =
        (let v = dget_or ans ''status'' (PStr ''success'') in if v = PStr ''csv_generated'' then PStr ''needs_review'' else v)"
proof (cases "req = None")
  case True
  have "\<exists>s. dget_or res ''status'' (PStr ''success'') = PStr s \<and> s \<in> {''needs_review'', ''blocked_requires_credentials''}"
  proof (cases "resolve_target env cfg target")
    case None
    with assms show ?thesis by (auto simp: wave_execute_def dget_or_def)
  next
    case (Some t)
    with assms True show ?thesis
      by (cases "strip action \<in> set SUPPORTED_WAVE_API_ACTIONS"; cases "missing_credentials cfg t = []")
         (auto simp: wave_execute_def Let_def dget_or_def)
  qed
  then show thesis using unsent [OF True] by blast
next
  case False
  then obtain q where q: "req = Some q" by blast
  with assms obtain t where t: "resolve_target env cfg target = Some t" by (auto simp: wave_execute_def split: option.splits)
  show thesis
  proof (cases "enter t q")
    case (Inl msg)
    show thesis by (rule raised [OF q t Inl])
        (use assms q t Inl in \<open>auto simp: wave_execute_def Let_def dget_or_def split: if_splits\<close>)
  next
    case (Inr ans)
    show thesis by (rule answered [OF q t Inr])
        (use assms q t Inr in \<open>auto simp: wave_execute_def Let_def dupdate_def dget_or_def map_of_dset split: if_splits option.splits\<close>)
  qed
qed

lemma dispatch_outcome:
  assumes "d = dispatch_attempt sv i r action_id operation mode who now"
  shows "(di_request d = None \<and> mapped_status sv target d \<in> {Xs_attention_required, Xs_failed}) \<or>
    (\<exists>t q. di_request d = Some q \<and>
       resolve_target (le_py (sv_env sv)) (sv_config sv) (PStr (target_system_for_attempt sv r)) = Some t \<and>
       mapped_status sv target d =
         (case xp_enter_data (sv_ports sv) t q of Inl _ \<Rightarrow> Xs_failed | Inr ans \<Rightarrow> answer_outcome sv ans))"
proof (cases "attempt_operation sv i r action_id operation")
  case (Inl e)
  then have "di_request d = None" "di_execution d = stopped ''failed'' (''Execution failed before dispatch: '' @ xp_exc_text (sv_ports sv) e)"
    by (simp_all add: assms dispatch_attempt_def)
  moreover from status_outcome [of _ "''failed''", OF _ _ _ this(2)] policy_texts(1)
  have "mapped_status sv target d = Xs_failed" by (simp add: stopped_def ANSWER_OUTCOMES_def)
  ultimately show ?thesis by simp
next
  case op: (Inr op)
  show ?thesis
  proof (cases "gate_operation (operator_config_of (sv_config sv)) op mode True True")
    case (Stop en)
    then have "di_request d = None" "di_execution d = en"
      using op by (simp_all add: assms dispatch_attempt_def Let_def)
    with stopped_outcome [OF Stop] show ?thesis by blast
  next
    case (Call_handler p)
    obtain req res where w: "wave_execute (le_py (sv_env sv)) (sv_config sv) (xp_enter_data (sv_ports sv))
        (PStr (target_system_for_attempt sv r)) action_id p (attempt_key i r) (opt_nat (xr_document r)) (opt_nat (xr_record r)) =
        (req, res)" by force
    have d: "di_request d = req" "di_execution d = handled res"
      using op Call_handler w by (simp_all add: assms dispatch_attempt_def Let_def)
    have m: "mapped_status sv target d =
        (case map_of ANSWER_OUTCOMES (lower (strip (or_empty sv (dget_or res ''status'' (PStr ''success''))))) of
           None \<Rightarrow> Xs_failed | Some st \<Rightarrow> st)"
      by (simp add: mapped_status_def map_execution_outcome execution_text_def d(2) handled_def)
    from w show ?thesis
    proof (cases rule: wave_execute_cases)
      case (unsent s)
      then have "lower (strip (or_empty sv (PStr s))) = s" using policy_texts by (auto simp: or_empty_def text_of_def)
      with unsent m d(1) show ?thesis by (auto simp: ANSWER_OUTCOMES_def)
    next
      case (raised t q msg)
      then show ?thesis using d(1) m policy_texts(2) by (simp add: or_empty_def text_of_def ANSWER_OUTCOMES_def)
    next
      case (answered t q ans)
      have "lower (strip (or_empty sv (PStr ''needs_review''))) = ''needs_review''"
        using policy_texts(3) by (simp add: or_empty_def text_of_def)
      then have "mapped_status sv target d = answer_outcome sv ans"
        unfolding m answered(4) Let_def answer_outcome_def by (simp add: ANSWER_OUTCOMES_def)
      then show ?thesis using answered d(1) by simp
    qed
  qed
qed

section \<open>Deferral\<close>

text \<open>
  \<open>datetime.isoformat\<close> of an instant is text that is stored unchanged and that
  \<open>datetime.fromisoformat\<close> reads back.
\<close>

definition iso_stored :: "ledger_env \<Rightarrow> timestamp \<Rightarrow> bool" where
  "iso_stored env t \<longleftrightarrow>
     (let s = le_redact_text env (le_iso env t) in s \<noteq> [] \<and> le_parse_iso env (normalize_iso s) = Some t)"

lemma plain_iso_stored:
  assumes "0 \<le> micros t"
  shows "iso_stored plain_ledger_env t"
proof -
  let ?s = "str_of_nat (nat (micros t))"
  have z: "char_digit CHR ''Z'' = None" "char_digit CHR ''-'' = None" by code_simp+
  have "last ?s \<noteq> CHR ''Z''" using str_of_nat_digits [OF last_in_set [OF str_of_nat_nonempty]] z(1) by metis
  moreover have "hd ?s \<noteq> CHR ''-''" using str_of_nat_digits [OF hd_in_set [OF str_of_nat_nonempty]] z(2) by metis
  moreover obtain c cs where c: "?s = c # cs" using str_of_nat_nonempty by (cases ?s) blast+
  moreover have "nat_of_str (c # cs) = Some (nat (micros t))" using nat_of_str_of_nat [of "nat (micros t)"] c by simp
  ultimately show ?thesis
    using assms
    by (auto simp: iso_stored_def plain_ledger_env_def normalize_iso_def str_of_int_def Let_def)
qed

lemma plain_retry_keys: "\<not> sensitive_key ''retry''" "\<not> sensitive_key ''nextRetryAt''"
  by code_simp+

lemma next_retry_due:
  "next_retry_state sv metadata provider now = Inr rs \<Longrightarrow>
     \<exists>delay due. retry_delay_seconds sv provider = Inr delay \<and> after_delay now delay = Inr due \<and>
       dget rs ''nextRetryAt'' = PStr (le_iso (sv_env sv) due)"
  by (auto simp: next_retry_state_def dest!: rbind_eq_InrD)

lemma delay_at_least_a_second:
  assumes "retry_delay_seconds sv provider = Inr delay" and "after_delay now delay = Inr due"
  shows "micros now + 1000000 \<le> micros due"
proof -
  obtain q where q: "delay = Num q" using assms(2) by (cases delay) auto
  with assms(1) have "1 \<le> q" by (auto simp: retry_delay_seconds_def split: sum.splits if_splits)
  then have "1000000 \<le> q * 1000000" by simp
  then have "(1000000::int) \<le> \<lfloor>q * 1000000\<rfloor>" by (simp add: le_floor_iff)
  then have "1000000 \<le> round_half_even (q * 1000000)" by (auto simp: round_half_even_def Let_def)
  then show ?thesis using assms(2) q by (auto simp: Let_def split: if_splits)
qed

lemma stored_retry_time:
  assumes "xr_metadata r' = redact_dict (sv_env sv) m" and "dget m ''retry'' = PDict rs"
    and "dget rs ''nextRetryAt'' = PStr (le_iso (sv_env sv) due)" and "iso_stored (sv_env sv) due"
    and "xr_status r' = Xs_deferred"
  shows "execution_retry_due sv t r' \<longleftrightarrow> due \<le> t"
proof -
  have "retry_of (xr_metadata r') = redact_dict (sv_env sv) rs"
    using plain_retry_keys(1) by (simp add: retry_of_def assms(1,2) dict_simps del: redact_sensitive.simps)
       (simp add: redact_dict_def)
  then have "dget (retry_of (xr_metadata r')) ''nextRetryAt'' = PStr (le_redact_text (sv_env sv) (le_iso (sv_env sv) due))"
    using assms(3) plain_retry_keys(2) by (simp add: dict_simps)
  then show ?thesis
    using assms(4,5) by (simp add: execution_retry_due_def parse_datetime_def iso_stored_def text_of_def Let_def)
qed

lemma deferred_row:
  assumes "export_attempt L i = Some r" and "ready_to_run sv now r action_id operation mode"
    and "d = dispatch_attempt sv i r action_id operation (attempt_mode sv mode) who now"
    and "target = target_system_for_attempt sv r"
    and "dict_of (dget (xr_metadata r) ''lastExecution'') = Inr le"
    and "mapped_status sv target d = Xs_deferred"
    and "next_retry_state sv (xr_metadata r) (en_result (di_execution d)) now = Inr rs"
  shows "\<exists>r' m. export_attempt (fst (execute_export sv i who now L)) i = Some r' \<and> xr_status r' = Xs_deferred \<and>
      xr_metadata r' = redact_dict (sv_env sv) m \<and> dget m ''retry'' = PDict rs"
proof -
  let ?L = "log_request i (di_request d) (claimed_ledger i now L)"
  let ?u = "execution_update sv r target d le (Some rs) who now"
  have "execute_export sv i who now L = settle_execution sv i r target d who now ?L"
    using execute_wave [OF assms(1,2), of who] assms(3,4) by (simp add: Let_def)
  also have "\<dots> = (case record_execution sv i r target d le (Some rs) who now ?L of (L', a) \<Rightarrow> (L', Inr a))"
    using assms(5-7) by (simp add: settle_execution_def mapped_status_def)
  finally have "xl_attempts (fst (execute_export sv i who now L)) =
      update_row i (apply_export_update (sv_env sv) now ?u) (xl_attempts ?L)"
    using record_execution_attempts(1) by (simp add: case_prod_beta)
  moreover obtain r0 where "export_attempt ?L i = Some r0" using assms(1) by (simp add: step_simps)
  ultimately have row: "export_attempt (fst (execute_export sv i who now L)) i = Some (apply_export_update (sv_env sv) now ?u r0)"
    by (simp add: table_simps)
  obtain e where "xu_metadata ?u = Some (dupdate (xr_metadata r) [(''lastExecution'', e), (''retry'', PDict rs)])"
    by (simp add: execution_update_def Let_def case_prod_beta)
  then have "xr_metadata (apply_export_update (sv_env sv) now ?u r0) =
      redact_dict (sv_env sv) (dupdate (xr_metadata r) [(''lastExecution'', e), (''retry'', PDict rs)])"
    by (simp add: apply_export_update_def)
  moreover have "dget (dupdate (xr_metadata r) [(''lastExecution'', e), (''retry'', PDict rs)]) ''retry'' = PDict rs"
    by (simp add: dget_or_def dict_simps)
  moreover have "xr_status (apply_export_update (sv_env sv) now ?u r0) = Xs_deferred"
    using assms(6) by (simp add: execution_update_fields)
  ultimately show ?thesis using row by blast
qed

lemma execute_not_due:
  assumes "export_attempt L i = Some r" and "xr_status r = Xs_deferred" and "\<not> execution_retry_due sv t r"
  shows "fst (execute_export sv i who t L) = L"
    and "\<exists>a. snd (execute_export sv i who t L) = Inr a \<and> rp_status a = ''retry_deferred''"
  using assms by (simp_all add: execute_export_def CLAIMABLE_EXECUTION_STATUSES_def)

end
