(* ===== verification/Export_Reviews.thy ===== *)
theory Export_Reviews
  imports Export_Gates
begin

text \<open>
  Preparing a route again, the claim of an attempt whose draft has no artifact, and the text
  marker by which the service recognises the review items of an attempt.
\<close>

section \<open>Preparing again\<close>

lemma routing_kept:
  "xl_routing (service_audit sv a i d now L) = xl_routing L"
  "xl_routing (sync_export_state sv doc es st ro det now L) = xl_routing L"
  "xl_routing (update_record_export_state sv j es st ro det now L) = xl_routing L"
  by (auto simp: service_audit_def record_audit_def sync_export_state_def update_record_export_state_def
      update_book_export_def Let_def split: option.split prod.split)

lemma prepare_keeps_routing: "xl_routing (fst (prepare_from_routing_attempt sv rid who now L)) = xl_routing L"
proof -
  have up: "upsert_export_attempt env u now L = (L1, x) \<Longrightarrow> xl_routing L1 = xl_routing L" for env u L1 x
    by (auto simp: upsert_export_attempt_def update_export_attempt_def Let_def split: option.splits if_splits prod.splits)
  have "xl_routing (fst (prepare_new sv who rid ra rec now L)) = xl_routing L" for ra rec
  proof -
    note u = route_update_def [of sv who rid ra rec L, unfolded Let_def]
    obtain L1 x where r: "upsert_export_attempt (sv_env sv) (route_update sv who rid ra rec L) now L = (L1, x)"
      by fastforce
    from r [unfolded u] up [OF r] show ?thesis
      by (simp add: prepare_new_def Let_def routing_kept split: sum.split option.split)
  qed
  then show ?thesis
    by (simp add: prepare_from_routing_attempt_def Let_def routing_kept split: option.split sum.split)
qed

lemma find_append: "find P (xs @ ys) = (case find P xs of None \<Rightarrow> find P ys | Some x \<Rightarrow> Some x)"
  by (induction xs) auto

lemma find_inserted_route:
  assumes "find_export_attempt (Some rid) op L = None" and "xr_routing row = Some rid"
    and "xl_attempts L' = fst (insert_row row (xl_attempts L))"
  shows "find_export_attempt (Some rid) op L' = Some (Suc (tlast (xl_attempts L)), row)"
  using assms by (auto simp: find_export_attempt_def find_row_def insert_row_def find_append split: option.splits)

lemma named_record_total:
  assumes "record_from_routing_metadata m L = Inr named"
  shows "\<exists>hit. routed_record doc m L' = Inr hit"
proof -
  have "\<exists>hit. record_from_routing_metadata m L' = Inr hit"
    using assms by (auto simp: record_from_routing_metadata_def Let_def split: if_splits sum.splits)
  then show ?thesis by (auto simp: routed_record_def split: option.split)
qed

lemma prepared_again:
  assumes "route_ready sv who rid ra rec now L" and "dget (route_operation ra) ''operation_id'' = PStr op"
    and "record_from_routing_metadata (ro_metadata ra) L = Inr named"
  defines "L1 \<equiv> fst (prepare_from_routing_attempt sv rid who now L)"
  shows "fst (prepare_from_routing_attempt sv rid who' now' L1) = L1"
    and "\<exists>a. snd (prepare_from_routing_attempt sv rid who' now' L1) = Inr a \<and> rp_status a = ''already_prepared''"
proof -
  let ?u = "route_update sv who rid ra rec L"
  let ?row = "new_export_row (sv_env sv) now ?u"
  have row: "xr_routing ?row = Some rid" "xr_operation ?row = Some op" "xr_status ?row = Xs_approval_required"
    using assms(1,2)
    by (simp_all add: new_export_row_def apply_export_update_def route_update_fields column_text_def
        route_ready_def route_update_def prepared_update_def Let_def)
  have e: "existing_for_route sv rid ra L1 = Some (Suc (tlast (xl_attempts L)), ?row)"
    unfolding existing_for_route_def L1_def
    by (rule find_inserted_route [OF _ row(1) prepare_ready_route(1) [OF assms(1)]])
       (use assms(1) in \<open>simp add: route_ready_def existing_for_route_def\<close>)
  have u: "unchanged_draft sv rid (route_operation ra) ?row"
    using row assms(2)
    by (simp add: unchanged_draft_def UNCHANGED_DRAFT_STATUSES_def same_export_operation_def Let_def or_empty_def text_of_def)
  have r: "lookup_row (xl_routing L1) rid = Some ra"
    using assms(1) by (simp add: L1_def prepare_keeps_routing route_ready_def)
  obtain hit where "routed_record (document_of (ro_document ra) L1) (ro_metadata ra) L1 = Inr hit"
    using named_record_total [OF assms(3)] by blast
  with e u r show "fst (prepare_from_routing_attempt sv rid who' now' L1) = L1"
    "\<exists>a. snd (prepare_from_routing_attempt sv rid who' now' L1) = Inr a \<and> rp_status a = ''already_prepared''"
    by (simp_all add: prepare_from_routing_attempt_def Let_def leaves_alone_def unchanged_draft_def)
qed

section \<open>A claim that is never released\<close>

lemma missing_artifact_execution:
  assumes "export_attempt L i = Some r" and "xr_status r \<in> set CLAIMABLE_EXECUTION_STATUSES"
    and "execution_retry_due sv now r" and "xr_action r = Some action_id" and "action_id \<noteq> []"
    and "is_mijngeldzaken_target (target_system_for_attempt sv r)"
    and "master_ledger_checksum sv (xr_metadata r) = None" and "draft_of (xr_metadata r) = []"
    and "dict_of (dget (xr_metadata r) ''operation'') = Inr operation"
    and "operation_mode (xr_metadata r) operation = Inr mode"
  shows "execute_export sv i who now L = (claimed_ledger i now L, Inr (reply False ''no_artifact'' []))"
proof -
  have st: "master_ledger_staleness sv i r stage who now L' = None" for stage L'
    using assms(7) by (simp add: master_ledger_staleness_def master_ledger_freshness_def is_stale_def)
  have a: "artifact_for_attempt sv i fmt who now (claimed_ledger i now L) =
      (claimed_ledger i now L, Artifact_refused (reply False ''no_artifact'' []))" for fmt
    using assms(1,8) by (simp add: artifact_for_attempt_def claimed_ledger_facts Let_def)
  show ?thesis
    using assms export_claim_succeeds [OF assms(1,2), of now]
    by (simp add: execute_export_def run_claimed_export_def st Let_def prepare_mijngeldzaken_supervision_def a)
qed

lemma running_is_not_executed:
  "export_status_of L i = Some Xs_execution_in_progress \<Longrightarrow>
     execute_export sv i who now L = (L, Inr (reply False ''already_claimed'' []))"
  by (auto simp: execute_export_def export_status_of_def CLAIMABLE_EXECUTION_STATUSES_def
      TERMINAL_EXECUTION_STATUSES_def)

section \<open>The marker of an attempt\<close>

lemma contains_joined: "x \<in> set xs \<Longrightarrow> \<exists>a b. join_with sep xs = a @ x @ b"
proof (induction sep xs rule: join_with.induct)
  case (3 sep x' y xs)
  show ?case
  proof (cases "x = x'")
    case True
    then show ?thesis by (metis append_Nil join_with.simps(3))
  next
    case False
    with 3 obtain a b where "join_with sep (y # xs) = a @ x @ b" by auto
    then have "join_with sep (x' # y # xs) = (x' @ sep @ a) @ x @ b" by simp
    then show ?thesis by blast
  qed
qed (auto intro: exI [of _ "[]"])

lemma json_dict_entry:
  assumes "(k, v) \<in> set d"
  shows "\<exists>a b. json_text env (PDict d) = a @ (json_string k @ '': '' @ json_text env v) @ b"
proof -
  let ?xs = "map (\<lambda>(k, t). json_string k @ '': '' @ t) (sort_key fst (map (\<lambda>kv. (fst kv, json_text env (snd kv))) d))"
  have "json_string k @ '': '' @ json_text env v \<in> set ?xs" using assms by force
  then obtain a b where "join_with '', '' ?xs = a @ (json_string k @ '': '' @ json_text env v) @ b"
    using contains_joined by blast
  then have "json_text env (PDict d) = (''{'' @ a) @ (json_string k @ '': '' @ json_text env v) @ (b @ ''}'')"
    by simp
  then show ?thesis by blast
qed

lemma marker_text: "export_marker i = json_string ''exportAttemptId'' @ '': '' @ str_of_nat i"
proof -
  have "json_string ''exportAttemptId'' = CHR 0x22 # ''exportAttemptId'' @ [CHR 0x22]" by code_simp
  then show ?thesis by (simp only: export_marker_def append_Cons append_assoc append_Nil)
qed

text \<open>The details of another attempt's item hold the marker of every attempt whose number is a prefix.\<close>

lemma marker_of_longer_number:
  assumes "(''exportAttemptId'', PInt (int k)) \<in> set d" and "str_of_nat k = str_of_nat i @ rest"
    and "lv_details v = Some (json_text env (PDict d))"
  shows "marked i v"
proof -
  obtain a b where "json_text env (PDict d) = a @ (json_string ''exportAttemptId'' @ '': '' @ str_of_nat k) @ b"
    using json_dict_entry [OF assms(1), of env] by (auto simp: str_of_int_def)
  then have "json_text env (PDict d) = a @ export_marker i @ (rest @ b)"
    by (simp add: marker_text assms(2))
  then show ?thesis using assms(3) by (simp add: marked_def contains_append)
qed

lemma resolved_reviews_are_the_marked:
  assumes "(j, v) \<in> set (open_review_items (some_id (xr_document r)) L)" and "marked i v" and "wave_reason (lv_reason v)"
  shows "j \<in> set (snd (resolve_wave_execution_reviews i r who st now L))"
proof -
  have "snd (resolve_wave_execution_reviews i r who st now L) =
      map fst (filter (\<lambda>(j, v). marked i v \<and> wave_reason (lv_reason v)) (open_review_items (some_id (xr_document r)) L))"
    by (simp add: resolve_wave_execution_reviews_def resolve_reviews_def Let_def)
  with assms show ?thesis by (auto simp: image_iff intro!: bexI [of _ "(j, v)"])
qed

end
