(* ===== verification/Export_Properties.thy ===== *)
theory Export_Properties
  imports Export_Reviews
begin

text \<open>
  Properties of the export service: who may be sent, at most one send per approval, what an
  execution stores, the backup gate, and the behaviours of the code that its states do not
  guard against.
\<close>

section \<open>Authority\<close>

abbreviation success_answer :: pydict where
  "success_answer \<equiv> [(''status'', PStr ''success'')]"

definition demo_executed :: export_ledger where
  "demo_executed = fst (execute_export (demo_service success_answer) 1 ''a'' (Timestamp 0) (demo_approved success_answer))"

lemma demo_executed_reachable: "export_reachable demo_executed"
  using export_reachable.step [OF demo_approved_reachable [of success_answer], of "Xo_execute 1 ''a''"
      "demo_service success_answer" "Timestamp 0"]
  by (simp add: demo_executed_def)

lemma demo_executed_sent: "xl_sent demo_executed \<noteq> []"
  using demo_dispatch execute_wave_sent [OF demo_approved_attempt demo_ready, of success_answer "''a''"]
  by (auto simp: demo_executed_def attempt_mode_def split: option.splits)

text \<open>
  C2: Every request the export service sent in a reachable ledger belongs to an attempt whose
  approval is in the audit events, and so does every attempt that is approved, deferred, running
  or under supervision, whatever the configuration, the provider and the other services did.
\<close>

theorem exports_sent_only_when_approved:
  assumes "export_reachable L"
  shows "fst ` set (xl_sent L) \<subseteq> approved_exports L \<and>
    (\<forall>i st. export_status_of L i = Some st \<longrightarrow> needs_export_authority st \<longrightarrow> i \<in> approved_exports L)"
  using sound_reachable [OF assms] by (auto simp: sound_def export_status_of_def)

theorem exports_sent_only_when_approved_witness:
  "\<exists>L. export_reachable L \<and> xl_sent L \<noteq> [] \<and> fst ` set (xl_sent L) \<subseteq> approved_exports L"
  using exports_sent_only_when_approved [OF demo_executed_reachable] demo_executed_reachable demo_executed_sent
  by blast

section \<open>At most one send\<close>

text \<open>
  C3: A Wave attempt whose execution started (running) or ended (executed, submitted, queued,
  failed, rejected) stays in one of these states and no further request is sent for it, under any
  sequence of operations, configurations and provider answers.
\<close>

theorem closed_wave_attempt_is_never_sent_again:
  assumes "closed_wave i L" and "wf_table (xl_attempts L)"
  shows "closed_wave i (export_run steps L) \<and> sends i (export_run steps L) = sends i L"
  using stays_run [OF assms] by (simp add: stays_closed_def)

lemma demo_row_wave: "wave_attempt (demo_row st)"
  unfolding wave_attempt_def demo_row_def by code_simp

lemma demo_ledger_attempt: "export_attempt (demo_ledger st) 1 = Some (demo_row st)"
  by (simp add: demo_ledger_def lookup_row_def)

lemma demo_ledger_wf: "wf_table (xl_attempts (demo_ledger st))"
  by (simp add: demo_ledger_def wf_table_def)

lemma demo_row_status [simp]: "xr_status (demo_row st) = st"
  by (simp add: demo_row_def)

lemma demo_closed: "closed_status st \<Longrightarrow> closed_wave 1 (demo_ledger st)"
  unfolding closed_wave_def demo_ledger_attempt by (simp add: demo_row_wave)

theorem closed_wave_attempt_is_never_sent_again_witness:
  "sends 1 (export_run
     [(demo_service [], Timestamp 0, Xo_approve 1 ''u'' (Some EXPORT_APPROVAL_PHRASE) PNone),
      (demo_service [], Timestamp 1, Xo_process 5 ''a'' True False)] (demo_ledger Xs_failed)) = []"
  using closed_wave_attempt_is_never_sent_again [OF demo_closed demo_ledger_wf, of Xs_failed
      "[(demo_service [], Timestamp 0, Xo_approve 1 ''u'' (Some EXPORT_APPROVAL_PHRASE) PNone),
        (demo_service [], Timestamp 1, Xo_process 5 ''a'' True False)]"]
  by (simp add: closed_status_def sends_def demo_ledger_def empty_export_ledger_def)

text \<open>
  C31: Any number of workers that read a claimable attempt and then claim it: exactly one
  of the guarded updates hits.
\<close>

theorem one_worker_claims_an_export:
  assumes "export_status_of L i = Some st" and "st \<in> set CLAIMABLE_EXECUTION_STATUSES" and "0 < n"
  shows "race (export_claim_update now i) (replicate n st) L = 1"
proof -
  have "Xs_execution_in_progress \<notin> set (replicate n st)"
    using assms(2) by (auto simp: CLAIMABLE_EXECUTION_STATUSES_def)
  then show ?thesis using export_claim.some_winner [of "replicate n st" L i st now] assms(1,3) by simp
qed

theorem one_worker_claims_an_export_witness:
  "race (export_claim_update (Timestamp 5) 1) (replicate 3 Xs_approved) (demo_ledger Xs_approved) = 1"
  by (rule one_worker_claims_an_export) (simp_all add: export_status_of_def demo_ledger_attempt CLAIMABLE_EXECUTION_STATUSES_def del: One_nat_def)

section \<open>One execution\<close>

text \<open>
  C27: Executing a Wave attempt that is approved and due either sends nothing and leaves it failed
  or waiting for attention, or sends one request to the target the attempt resolves to and leaves
  the state the provider's answer stands for: executed for success, executed or no status,
  submitted, queued, deferred for a limit, waiting for attention for a block, a review or a file
  in place of a submission, and failed for any other answer or an exception. The answer of the
  execution names that state. (A deferral needs a retry time that can be computed.)
\<close>

theorem wave_execution_outcome:
  fixes who :: string
  assumes "export_attempt L i = Some r" and "ready_to_run sv now r action_id operation mode"
    and "dict_of (dget (xr_metadata r) ''lastExecution'') = Inr le"
    and "\<And>d. d = dispatch_attempt sv i r action_id operation (attempt_mode sv mode) who now \<Longrightarrow>
      mapped_status sv (target_system_for_attempt sv r) d = Xs_deferred \<Longrightarrow> retry_computable sv r d now"
  shows "\<exists>st. export_status_of (fst (execute_export sv i who now L)) i = Some st \<and>
    (\<exists>a. snd (execute_export sv i who now L) = Inr a \<and> rp_status a = export_status_name st) \<and>
    ((xl_sent (fst (execute_export sv i who now L)) = xl_sent L \<and> st \<in> {Xs_attention_required, Xs_failed}) \<or>
     (\<exists>t q. xl_sent (fst (execute_export sv i who now L)) = xl_sent L @ [(i, q)] \<and>
        resolve_target (le_py (sv_env sv)) (sv_config sv) (PStr (target_system_for_attempt sv r)) = Some t \<and>
        st = (case xp_enter_data (sv_ports sv) t q of
            Inl _ \<Rightarrow> Xs_failed
          | Inr ans \<Rightarrow>
              (let v = dget_or ans ''status'' (PStr ''success'') in
               if v = PStr ''csv_generated'' then Xs_attention_required
               else case map_of
                   [(''success'', Xs_executed), (''executed'', Xs_executed), (''submitted'', Xs_submitted),
                    (''queued'', Xs_queued), (''rate_limited'', Xs_deferred), (''quota_exhausted'', Xs_deferred),
                    (''blocked_requires_confirmation'', Xs_attention_required),
                    (''blocked_requires_credentials'', Xs_attention_required),
                    (''needs_review'', Xs_attention_required)]
                   (lower (strip (or_empty sv v))) of
                 None \<Rightarrow> Xs_failed | Some st \<Rightarrow> st))))"
proof -
  let ?d = "dispatch_attempt sv i r action_id operation (attempt_mode sv mode) who now"
  let ?st = "mapped_status sv (target_system_for_attempt sv r) ?d"
  note s = execute_wave_status [OF assms(1,2), of le who, OF assms(3) assms(4) [OF refl]]
  note q = execute_wave_sent [OF assms(1,2), of who]
  from dispatch_outcome [of ?d, OF refl, where target = "target_system_for_attempt sv r"] show ?thesis
  proof
    assume "di_request ?d = None \<and> ?st \<in> {Xs_attention_required, Xs_failed}"
    with q have "xl_sent (fst (execute_export sv i who now L)) = xl_sent L \<and> ?st \<in> {Xs_attention_required, Xs_failed}"
      by simp
    with s show ?thesis by blast
  next
    assume "\<exists>t q. di_request ?d = Some q \<and>
       resolve_target (le_py (sv_env sv)) (sv_config sv) (PStr (target_system_for_attempt sv r)) = Some t \<and>
       ?st = (case xp_enter_data (sv_ports sv) t q of Inl _ \<Rightarrow> Xs_failed | Inr ans \<Rightarrow> answer_outcome sv ans)"
    then obtain t p where t: "di_request ?d = Some p"
        "resolve_target (le_py (sv_env sv)) (sv_config sv) (PStr (target_system_for_attempt sv r)) = Some t"
        "?st = (case xp_enter_data (sv_ports sv) t p of Inl _ \<Rightarrow> Xs_failed | Inr ans \<Rightarrow> answer_outcome sv ans)"
      by blast
    with q have "xl_sent (fst (execute_export sv i who now L)) = xl_sent L @ [(i, p)]" by simp
    with s t(2) t(3) [unfolded answer_outcome_def ANSWER_OUTCOMES_def] show ?thesis by blast
  qed
qed

definition demo_dispatch_of :: "pydict \<Rightarrow> dispatch" where
  "demo_dispatch_of ans =
     dispatch_attempt (demo_service ans) 1 (demo_row Xs_approved) ''transaction_add'' []
       (attempt_mode (demo_service ans) PNone) ''a'' (Timestamp 0)"

lemma demo_row_ready:
  "ready_to_run (demo_service ans) (Timestamp 0) (demo_row Xs_approved) ''transaction_add'' [] PNone"
  by code_simp

theorem wave_execution_outcome_witness:
  "export_status_of (fst (execute_export (demo_service success_answer) 1 ''a'' (Timestamp 0) (demo_ledger Xs_approved))) 1 =
     Some Xs_executed"
proof -
  have "di_request (demo_dispatch_of success_answer) \<noteq> None" by code_simp
  then have sent: "xl_sent (fst (execute_export (demo_service success_answer) 1 ''a'' (Timestamp 0) (demo_ledger Xs_approved))) \<noteq>
      xl_sent (demo_ledger Xs_approved)"
    using execute_wave_sent [OF demo_ledger_attempt demo_row_ready, of success_answer "''a''"]
    by (auto simp: demo_dispatch_of_def)
  have l: "dict_of (dget (xr_metadata (demo_row Xs_approved)) ''lastExecution'') = Inr []"
    by (simp add: demo_row_def dict_of_def)
  have "mapped_status (demo_service success_answer)
      (target_system_for_attempt (demo_service success_answer) (demo_row Xs_approved)) (demo_dispatch_of success_answer) = Xs_executed"
    by code_simp
  then have d: "retry_computable (demo_service success_answer) (demo_row Xs_approved) d (Timestamp 0)"
    if "d = dispatch_attempt (demo_service success_answer) 1 (demo_row Xs_approved) ''transaction_add'' []
       (attempt_mode (demo_service success_answer) PNone) ''a'' (Timestamp 0)"
      "mapped_status (demo_service success_answer)
        (target_system_for_attempt (demo_service success_answer) (demo_row Xs_approved)) d = Xs_deferred" for d
    using that by (simp add: demo_dispatch_of_def)
  have ans: "xp_enter_data (sv_ports (demo_service success_answer)) t q = Inr success_answer" for t q
    by (simp add: demo_service_def demo_ports_def)
  have "lower (strip ''success'') = ''success''" by code_simp
  then show ?thesis
    using wave_execution_outcome [OF demo_ledger_attempt demo_row_ready l d] sent
    by (auto simp: ans or_empty_def text_of_def dget_or_def)
qed

section \<open>The batch\<close>

text \<open>
  When the backup before a batch fails, the batch claims no attempt and sends nothing.
\<close>

theorem failed_backup_blocks_the_batch:
  assumes "\<not> truthy (dget (backup_result sv L) ''success'')"
  shows "xl_attempts (fst (process_approved_exports sv limit who force True now L)) = xl_attempts L \<and>
    xl_sent (fst (process_approved_exports sv limit who force True now L)) = xl_sent L"
  using assms by (auto simp: process_approved_exports_def Let_def batch_audit_def step_simps)

theorem failed_backup_blocks_the_batch_witness:
  "export_status_of (fst (process_approved_exports (demo_service success_answer) 5 ''a'' True True (Timestamp 0)
      (demo_ledger Xs_approved))) 1 = Some Xs_approved"
proof -
  have "\<not> truthy (dget (backup_result (demo_service success_answer) (demo_ledger Xs_approved)) ''success'')"
    by (simp add: backup_result_def demo_service_def demo_ports_def)
  from failed_backup_blocks_the_batch [OF this, of 5 "''a''" True "Timestamp 0"] show ?thesis
    by (simp add: export_status_of_def demo_ledger_attempt del: One_nat_def)
qed

section \<open>Recording results\<close>

text \<open>
  A failure can be recorded over any state: an attempt that was executed and submitted is
  set to failed by \<open>record_result\<close> with the confirmation phrase.
\<close>

theorem failure_overrides_any_state:
  assumes "export_attempt L i = Some r"
  shows "export_status_of (fst (record_result sv i ''failed'' ext res who (Some EXPORT_RESULT_CONFIRMATION_PHRASE) now L)) i =
      Some Xs_failed"
proof -
  have "result_status ''failed'' = Some Xs_failed" by code_simp
  then show ?thesis
    using assms
    by (simp add: record_result_def write_result_def Let_def case_prod_beta export_status_of_def step_simps table_simps)
qed

theorem failure_overrides_any_state_witness:
  "export_status_of (fst (record_result (demo_service []) 1 ''failed'' None [] ''u''
     (Some EXPORT_RESULT_CONFIRMATION_PHRASE) (Timestamp 0) (demo_ledger Xs_submitted))) 1 = Some Xs_failed"
  by (rule failure_overrides_any_state) (rule demo_ledger_attempt)

section \<open>Stale drafts\<close>

definition demo_mgz_row :: "pydict \<Rightarrow> export_status \<Rightarrow> export_row" where
  "demo_mgz_row metadata st = (demo_row st)\<lparr>xr_target := ''mijngeldzaken'', xr_metadata := metadata\<rparr>"

definition demo_mgz_ledger :: "pydict \<Rightarrow> export_status \<Rightarrow> export_ledger" where
  "demo_mgz_ledger metadata st =
     empty_export_ledger\<lparr>xl_documents := demo_documents,
       xl_attempts := \<lparr>trows = [(1, demo_mgz_row metadata st)], tlast = 1\<rparr>\<rparr>"

lemma demo_mgz_attempt: "export_attempt (demo_mgz_ledger m st) 1 = Some (demo_mgz_row m st)"
  by (simp add: demo_mgz_ledger_def lookup_row_def)

text \<open>
  C25: A MijnGeldzaken draft that no longer matches its source is not approved: whatever the
  phrase, no attempt changes, and with the right phrase an attempt that could be approved is
  answered as stale. And one that was approved before it became stale is not executed: when its
  execution is due (and the current package is computed from documents, records and routes only)
  nothing is sent, the claim is given back and the answer says that the draft is stale.
\<close>

theorem stale_draft_is_not_used:
  assumes "export_attempt L i = Some r" and "is_stale (master_ledger_freshness sv L i r)"
  shows "xl_attempts (fst (approve_export sv i who phrase why now L)) = xl_attempts L \<and>
    (xr_status r \<in> {Xs_approval_required, Xs_prepared, Xs_attention_required} \<longrightarrow>
     snd (approve_export sv i who (Some EXPORT_APPROVAL_PHRASE) why now L) = stale_reply) \<and>
    (xr_status r \<in> {Xs_approved, Xs_deferred} \<and> execution_retry_due sv now r \<and> package_reads_sources sv \<longrightarrow>
     export_status_of (fst (execute_export sv i who now L)) i = Some Xs_approved \<and>
     xl_sent (fst (execute_export sv i who now L)) = xl_sent L \<and>
     snd (execute_export sv i who now L) = Inr stale_reply)"
  using stale_approval [OF assms(1,2)] stale_execution [OF assms(1) _ _ assms(2)]
  by (simp add: APPROVABLE_EXPORT_STATUSES_def CLAIMABLE_EXECUTION_STATUSES_def)

lemma demo_package_sources: "package_reads_sources (demo_service ans)"
  by (simp add: package_reads_sources_def demo_service_def demo_ports_def)

theorem stale_draft_is_not_used_witness:
  "snd (execute_export (demo_service []) 1 ''a'' (Timestamp 0)
     (demo_mgz_ledger [(''masterLedgerChecksum'', PStr ''old'')] Xs_deferred)) = Inr stale_reply \<and>
   snd (approve_export (demo_service []) 1 ''a'' (Some EXPORT_APPROVAL_PHRASE) PNone (Timestamp 0)
     (demo_mgz_ledger [(''masterLedgerChecksum'', PStr ''old'')] Xs_approval_required)) = stale_reply"
proof -
  let ?m = "[(''masterLedgerChecksum'', PStr ''old'')]"
  have s: "is_stale (master_ledger_freshness (demo_service []) (demo_mgz_ledger ?m Xs_deferred) 1 (demo_mgz_row ?m Xs_deferred))"
    "is_stale (master_ledger_freshness (demo_service []) (demo_mgz_ledger ?m Xs_approval_required) 1
       (demo_mgz_row ?m Xs_approval_required))"
    by code_simp+
  have "execution_retry_due (demo_service []) (Timestamp 0) (demo_mgz_row ?m Xs_deferred)" by code_simp
  moreover have "xr_status (demo_mgz_row ?m st) = st" for st by (simp add: demo_mgz_row_def demo_row_def)
  ultimately show ?thesis
    using stale_draft_is_not_used [OF demo_mgz_attempt s(1)] stale_draft_is_not_used [OF demo_mgz_attempt s(2)]
      demo_package_sources by blast
qed

section \<open>Requests\<close>

text \<open>
  C26: A request leaves only for an operation whose plan is complete and whose capability is ready,
  whose safety class is allowed by the configuration, for an action the API executor supports and
  a target that resolves and has its credentials; and it carries the attempt's idempotency key.
\<close>

theorem request_passes_the_gates:
  assumes "di_request (dispatch_attempt sv i r action_id operation mode who now) = Some q"
  shows "(\<exists>op. attempt_operation sv i r action_id operation = Inr op \<and> dispatch_allowed sv r action_id op) \<and>
    dget q ''idempotency_key'' = PStr (if truthy (attempt_key i r) then text_of sv (attempt_key i r) else [])"
  using dispatch_gates [OF assms] by simp

theorem request_passes_the_gates_witness:
  "\<exists>q. di_request (demo_dispatch_of success_answer) = Some q \<and> dget q ''idempotency_key'' = PStr ''op-1''"
proof -
  have "di_request (demo_dispatch_of success_answer) \<noteq> None" by code_simp
  then obtain q where q: "di_request (demo_dispatch_of success_answer) = Some q" by blast
  have "attempt_key 1 (demo_row Xs_approved) = PStr ''op-1''"
    by (simp add: attempt_key_def demo_row_def opt_str_def)
  then have "dget q ''idempotency_key'' = PStr ''op-1''"
    using request_passes_the_gates [OF q [unfolded demo_dispatch_of_def]] by (simp add: text_of_def)
  with q show ?thesis by blast
qed

section \<open>Deferral\<close>

text \<open>
  C28: An attempt the provider deferred is stored with its retry time, at least a second
  ahead: before that time an execution changes nothing, from then on the attempt is due.
\<close>

theorem deferred_export_waits:
  fixes who :: string
  assumes "export_attempt L i = Some r" and "ready_to_run sv now r action_id operation mode"
    and "d = dispatch_attempt sv i r action_id operation (attempt_mode sv mode) who now"
    and "target = target_system_for_attempt sv r"
    and "dict_of (dget (xr_metadata r) ''lastExecution'') = Inr le"
    and "mapped_status sv target d = Xs_deferred"
    and "retry_delay_seconds sv (en_result (di_execution d)) = Inr delay" and "after_delay now delay = Inr due"
    and "next_retry_state sv (xr_metadata r) (en_result (di_execution d)) now = Inr rs"
    and "iso_stored (sv_env sv) due" and "L' = fst (execute_export sv i who now L)"
  shows "micros now + 1000000 \<le> micros due \<and>
    (\<forall>t. t < due \<longrightarrow> fst (execute_export sv i who t L') = L') \<and>
    (\<exists>r'. export_attempt L' i = Some r' \<and> (\<forall>t. execution_retry_due sv t r' \<longleftrightarrow> due \<le> t))"
proof -
  obtain r' m where r': "export_attempt L' i = Some r'" "xr_status r' = Xs_deferred"
      "xr_metadata r' = redact_dict (sv_env sv) m" "dget m ''retry'' = PDict rs"
    using deferred_row [OF assms(1-6,9)] assms(11) by blast
  have "dget rs ''nextRetryAt'' = PStr (le_iso (sv_env sv) due)"
    using next_retry_due [OF assms(9)] assms(7,8) by auto
  then have due: "execution_retry_due sv t r' \<longleftrightarrow> due \<le> t" for t
    using stored_retry_time [OF r'(3,4) _ assms(10) r'(2)] by blast
  then show ?thesis
    using delay_at_least_a_second [OF assms(7,8)] execute_not_due(1) [OF r'(1,2)] r'(1) by auto
qed

abbreviation limited_answer :: pydict where
  "limited_answer \<equiv> [(''status'', PStr ''rate_limited''), (''retry_after_seconds'', PInt 5)]"

theorem deferred_export_waits_witness:
  "fst (execute_export (demo_service limited_answer) 1 ''a'' (Timestamp 4999999)
       (fst (execute_export (demo_service limited_answer) 1 ''a'' (Timestamp 0) (demo_ledger Xs_approved)))) =
     fst (execute_export (demo_service limited_answer) 1 ''a'' (Timestamp 0) (demo_ledger Xs_approved))"
proof -
  let ?sv = "demo_service limited_answer" and ?r = "demo_row Xs_approved"
  let ?res = "en_result (di_execution (demo_dispatch_of limited_answer))"
  have m: "mapped_status ?sv (target_system_for_attempt ?sv ?r) (demo_dispatch_of limited_answer) = Xs_deferred"
    by code_simp
  have d: "retry_delay_seconds ?sv ?res = Inr (Num 5)" by code_simp
  have a: "after_delay (Timestamp 0) (Num 5) = Inr (Timestamp 5000000)" by code_simp
  have "\<exists>rs. next_retry_state ?sv (xr_metadata ?r) ?res (Timestamp 0) = Inr rs"
    using d a by (simp add: next_retry_state_def demo_row_def retry_of_def)
  then obtain rs where n: "next_retry_state ?sv (xr_metadata ?r) ?res (Timestamp 0) = Inr rs" by blast
  have iso: "iso_stored (sv_env ?sv) (Timestamp 5000000)" by (simp add: plain_iso_stored)
  have le: "dict_of (dget (xr_metadata ?r) ''lastExecution'') = Inr []" by (simp add: demo_row_def dict_of_def)
  show ?thesis
    using deferred_export_waits [OF demo_ledger_attempt demo_row_ready demo_dispatch_of_def [of limited_answer] refl
        le m d a n iso refl] by (auto simp: timestamp_order)
qed

section \<open>Preparing\<close>

text \<open>
  C36: Preparing a route that can be approved inserts one draft that waits for approval; preparing
  it again changes nothing and answers that it is prepared.
\<close>

theorem preparing_is_idempotent:
  assumes "route_ready sv who rid ra rec now L" and "dget (route_operation ra) ''operation_id'' = PStr op"
    and "record_from_routing_metadata (ro_metadata ra) L = Inr named"
    and "L1 = fst (prepare_from_routing_attempt sv rid who now L)"
  shows "xl_attempts L1 = fst (insert_row (new_export_row (sv_env sv) now (route_update sv who rid ra rec L)) (xl_attempts L)) \<and>
    fst (prepare_from_routing_attempt sv rid who' now' L1) = L1 \<and>
    (\<exists>a. snd (prepare_from_routing_attempt sv rid who' now' L1) = Inr a \<and> rp_status a = ''already_prepared'')"
  using prepare_ready_route(1) [OF assms(1)] prepared_again [OF assms(1-3)] assms(4) by simp

theorem preparing_is_idempotent_witness:
  "length (trows (xl_attempts (fst (prepare_from_routing_attempt (demo_service []) 1 ''b'' (Timestamp 9)
     (fst (prepare_from_routing_attempt (demo_service []) 1 ''a'' (Timestamp 0) demo_start)))))) = 1"
proof -
  have o: "dget (route_operation demo_route) ''operation_id'' = PStr ''op-1''" by code_simp
  have n: "record_from_routing_metadata (ro_metadata demo_route) demo_start = Inr None" by code_simp
  from preparing_is_idempotent [OF demo_route_ready o n refl, where who' = "''b''" and now' = "Timestamp 9"] show ?thesis
    by (simp add: insert_row_def demo_start_def empty_export_ledger_def empty_table_def del: One_nat_def)
qed

section \<open>Behaviours the states do not guard against\<close>

text \<open>
  A MijnGeldzaken attempt without a stored draft is claimed and then answered with
  no_artifact: the claim is not released, the attempt stays running and every later execution
  is refused.
\<close>

theorem missing_artifact_keeps_the_claim:
  assumes "export_attempt L i = Some r" and "xr_status r \<in> set CLAIMABLE_EXECUTION_STATUSES"
    and "execution_retry_due sv now r" and "xr_action r = Some action_id" and "action_id \<noteq> []"
    and "is_mijngeldzaken_target (target_system_for_attempt sv r)"
    and "master_ledger_checksum sv (xr_metadata r) = None" and "draft_of (xr_metadata r) = []"
    and "dict_of (dget (xr_metadata r) ''operation'') = Inr operation"
    and "operation_mode (xr_metadata r) operation = Inr mode"
    and "L1 = fst (execute_export sv i who now L)"
  shows "snd (execute_export sv i who now L) = Inr (reply False ''no_artifact'' []) \<and>
    export_status_of L1 i = Some Xs_execution_in_progress \<and>
    execute_export sv i who' now' L1 = (L1, Inr (reply False ''already_claimed'' []))"
proof -
  have e: "execute_export sv i who now L = (claimed_ledger i now L, Inr (reply False ''no_artifact'' []))"
    by (rule missing_artifact_execution [OF assms(1-10)])
  then have "export_status_of L1 i = Some Xs_execution_in_progress"
    using assms(1,11) by (simp add: export_status_of_def claimed_ledger_facts)
  with e show ?thesis using running_is_not_executed by simp
qed

theorem missing_artifact_keeps_the_claim_witness:
  "export_status_of (fst (execute_export (demo_service []) 1 ''a'' (Timestamp 0) (demo_mgz_ledger [] Xs_approved))) 1 =
     Some Xs_execution_in_progress"
proof -
  let ?sv = "demo_service []" and ?r = "demo_mgz_row [] Xs_approved"
  have a: "xr_status ?r \<in> set CLAIMABLE_EXECUTION_STATUSES" "execution_retry_due ?sv (Timestamp 0) ?r"
    "xr_action ?r = Some ''transaction_add''" "''transaction_add'' \<noteq> []" by code_simp+
  have b: "is_mijngeldzaken_target (target_system_for_attempt ?sv ?r)" by code_simp
  have c: "master_ledger_checksum ?sv (xr_metadata ?r) = None" "draft_of (xr_metadata ?r) = []"
    "dict_of (dget (xr_metadata ?r) ''operation'') = Inr []" "operation_mode (xr_metadata ?r) [] = Inr PNone"
    by code_simp+
  show ?thesis
    using missing_artifact_keeps_the_claim [OF demo_mgz_attempt a b c refl] by blast
qed

text \<open>
  The review items of an attempt are found by a text marker without an end: resolving the
  items of attempt 1 also resolves the open item of attempt 12.
\<close>

theorem review_marker_matches_longer_numbers:
  assumes "(''exportAttemptId'', PInt (int k)) \<in> set details" and "str_of_nat k = str_of_nat i @ rest"
    and "lv_details v = Some (json_text env (PDict details))" and "wave_reason (lv_reason v)"
    and "(j, v) \<in> set (open_review_items (some_id (xr_document r)) L)"
  shows "j \<in> set (snd (resolve_wave_execution_reviews i r who st now L))"
  using resolved_reviews_are_the_marked [OF assms(5) marker_of_longer_number [OF assms(1-3)] assms(4)] .

definition demo_review :: ledger_review where
  "demo_review =
     \<lparr>lv_document = None, lv_reason = ''wave_executor_unavailable'',
      lv_details = Some (json_text plain_env (PDict [(''exportAttemptId'', PInt 12)])), lv_status = ''pending'',
      lv_corrected = [], lv_created = Timestamp 0, lv_updated = Timestamp 0\<rparr>"

theorem review_marker_matches_longer_numbers_witness:
  "7 \<in> set (snd (resolve_wave_execution_reviews 1 (demo_row Xs_attention_required) ''u'' ''reapproved'' (Timestamp 0)
     (empty_export_ledger\<lparr>xl_reviews := \<lparr>trows = [(7, demo_review)], tlast = 7\<rparr>\<rparr>)))"
proof (rule review_marker_matches_longer_numbers)
  show "(''exportAttemptId'', PInt (int 12)) \<in> set [(''exportAttemptId'', PInt 12)]" by simp
  show "str_of_nat 12 = str_of_nat 1 @ ''2''" by code_simp
  show "lv_details demo_review = Some (json_text plain_env (PDict [(''exportAttemptId'', PInt 12)]))"
    by (simp add: demo_review_def)
  show "wave_reason (lv_reason demo_review)" by (simp add: demo_review_def wave_reason_def)
  show "(7, demo_review) \<in> set (open_review_items (some_id (xr_document (demo_row Xs_attention_required)))
      (empty_export_ledger\<lparr>xl_reviews := \<lparr>trows = [(7, demo_review)], tlast = 7\<rparr>\<rparr>))"
    by (simp add: open_review_items_def select_rows_def demo_row_def some_id_def demo_review_def review_open_def)
qed

end
