(* ===== verification/Py_Dates.thy ===== *)
theory Py_Dates
  imports Prelude
begin

text \<open>
  Calendar dates as \<open>datetime.date\<close> has them: the proleptic Gregorian calendar of the years 1
  to 9999, \<open>isoformat\<close>, the text forms \<open>fromisoformat\<close> reads since Python 3.11 (calendar dates
  and ISO week dates, with and without hyphens), ordinals and the difference in days.
\<close>

section \<open>The calendar\<close>

datatype pydate = PyDate (dy: nat) (dm: nat) (dd: nat)

definition is_leap :: "nat \<Rightarrow> bool" where
  "is_leap y \<longleftrightarrow> y mod 4 = 0 \<and> (y mod 100 \<noteq> 0 \<or> y mod 400 = 0)"

definition days_in_month :: "nat \<Rightarrow> nat \<Rightarrow> nat" where
  "days_in_month y m =
     (if m = 2 then (if is_leap y then 29 else 28) else if m \<in> {4, 6, 9, 11} then 30 else 31)"

definition valid_date :: "pydate \<Rightarrow> bool" where
  "valid_date d \<longleftrightarrow>
     1 \<le> dy d \<and> dy d \<le> 9999 \<and> 1 \<le> dm d \<and> dm d \<le> 12 \<and> 1 \<le> dd d \<and> dd d \<le> days_in_month (dy d) (dm d)"

definition make_date :: "nat \<Rightarrow> nat \<Rightarrow> nat \<Rightarrow> pydate option" where
  "make_date y m d = (if valid_date (PyDate y m d) then Some (PyDate y m d) else None)"

definition year_days :: "nat \<Rightarrow> nat" where
  "year_days y = (if is_leap y then 366 else 365)"

definition days_before_year :: "nat \<Rightarrow> nat" where
  "days_before_year y = (y - 1) * 365 + (y - 1) div 4 - (y - 1) div 100 + (y - 1) div 400"

fun days_before_month :: "nat \<Rightarrow> nat \<Rightarrow> nat" where
  "days_before_month y 0 = 0"
| "days_before_month y (Suc m) = (if m = 0 then 0 else days_before_month y m + days_in_month y m)"

definition date_ordinal :: "pydate \<Rightarrow> nat" where
  "date_ordinal d = days_before_year (dy d) + days_before_month (dy d) (dm d) + dd d"

text \<open>\<open>(a - b).days\<close>\<close>

definition days_between :: "pydate \<Rightarrow> pydate \<Rightarrow> int" where
  "days_between a b = int (date_ordinal a) - int (date_ordinal b)"

section \<open>Text\<close>

definition digits2 :: "nat \<Rightarrow> string" where
  "digits2 n = [digit_char (n div 10), digit_char (n mod 10)]"

definition isoformat :: "pydate \<Rightarrow> string" where
  "isoformat d =
     digits2 (dy d div 100) @ digits2 (dy d mod 100) @ ''-'' @ digits2 (dm d) @ ''-'' @ digits2 (dd d)"

text \<open>Exactly \<open>n\<close> digits, and the rest.\<close>

fun read_n_digits :: "nat \<Rightarrow> nat \<Rightarrow> string \<Rightarrow> (nat \<times> string) option" where
  "read_n_digits 0 acc s = Some (acc, s)"
| "read_n_digits (Suc n) acc [] = None"
| "read_n_digits (Suc n) acc (c # cs) =
     (case char_digit c of None \<Rightarrow> None | Some d \<Rightarrow> read_n_digits n (10 * acc + d) cs)"

definition read_hyphen :: "bool \<Rightarrow> string \<Rightarrow> string option" where
  "read_hyphen needed s =
     (if \<not> needed then Some s else case s of [] \<Rightarrow> None | c # cs \<Rightarrow> if c = CHR ''-'' then Some cs else None)"

text \<open>
  A week date is the day \<open>k\<close> of the year counted from January 1, where \<open>k\<close> may lie in the year
  before or after.
\<close>

fun month_of_day :: "nat \<Rightarrow> nat list \<Rightarrow> nat \<Rightarrow> nat \<times> nat" where
  "month_of_day y [] k = (13, k)"
| "month_of_day y (m # ms) k =
     (if k \<le> days_in_month y m then (m, k) else month_of_day y ms (k - days_in_month y m))"

definition day_of_year :: "nat \<Rightarrow> int \<Rightarrow> pydate option" where
  "day_of_year y k =
     (let (y', k') = (if k \<le> 0 then (y - 1, nat (k + int (year_days (y - 1))))
                      else if int (year_days y) < k then (y + 1, nat (k - int (year_days y))) else (y, nat k));
          (m, d) = month_of_day y' [1..<13] k'
      in make_date y' m d)"

definition week_date :: "nat \<Rightarrow> nat \<Rightarrow> nat \<Rightarrow> pydate option" where
  "week_date y week day =
     (let first = days_before_year y mod 7;
          long = first = 3 \<or> (first = 2 \<and> is_leap y);
          monday = (if 3 < first then 7 - int first else - int first)
      in if y = 0 \<or> 9999 < y \<or> week = 0 \<or> 53 < week \<or> (week = 53 \<and> \<not> long) \<or> day = 0 \<or> 7 < day then None
         else day_of_year y (monday + 7 * (int week - 1) + int day))"

definition calendar_part :: "nat \<Rightarrow> bool \<Rightarrow> string \<Rightarrow> pydate option" where
  "calendar_part y sep s =
     (case read_n_digits 2 0 s of
        None \<Rightarrow> None
      | Some (m, s1) \<Rightarrow>
          (case read_hyphen sep s1 of
             None \<Rightarrow> None
           | Some s2 \<Rightarrow>
               (case read_n_digits 2 0 s2 of
                  None \<Rightarrow> None
                | Some (d, rest) \<Rightarrow> if rest = [] then make_date y m d else None)))"

definition week_part :: "nat \<Rightarrow> bool \<Rightarrow> string \<Rightarrow> pydate option" where
  \<comment> \<open>what follows the weekday digit is not looked at\<close>
  "week_part y sep s =
     (case read_n_digits 2 0 s of
        None \<Rightarrow> None
      | Some (w, s1) \<Rightarrow>
          if s1 = [] then week_date y w 1
          else (case read_hyphen sep s1 of
                  None \<Rightarrow> None
                | Some s2 \<Rightarrow>
                    (case read_n_digits 1 0 s2 of None \<Rightarrow> None | Some (d, _) \<Rightarrow> week_date y w d)))"

definition date_fromisoformat :: "string \<Rightarrow> pydate option" where
  "date_fromisoformat s =
     (if length s \<notin> {7, 8, 10} then None
      else case read_n_digits 4 0 s of
        None \<Rightarrow> None
      | Some (y, s1) \<Rightarrow>
          (let sep = (case s1 of [] \<Rightarrow> False | c # _ \<Rightarrow> c = CHR ''-''); s2 = (if sep then tl s1 else s1)
           in case s2 of
                [] \<Rightarrow> None
              | c # cs \<Rightarrow> if c = CHR ''W'' then week_part y sep cs else calendar_part y sep s2))"

section \<open>Laws\<close>

lemma digit_chars:
  "digit_char 0 = CHR ''0''" "digit_char (Suc 0) = CHR ''1''" "digit_char 1 = CHR ''1''" "digit_char 2 = CHR ''2''"
  "digit_char 3 = CHR ''3''" "digit_char 4 = CHR ''4''" "digit_char 5 = CHR ''5''" "digit_char 6 = CHR ''6''"
  "digit_char 7 = CHR ''7''" "digit_char 8 = CHR ''8''" "digit_char 9 = CHR ''9''"
  by code_simp+

lemma valid_date_bounds:
  "valid_date d \<Longrightarrow> 1 \<le> dy d \<and> dy d \<le> 9999 \<and> 1 \<le> dm d \<and> dm d \<le> 12 \<and> 1 \<le> dd d \<and> dd d \<le> 31"
  by (auto simp: valid_date_def days_in_month_def split: if_splits)

lemma make_date_valid: "make_date y m d = Some x \<Longrightarrow> valid_date x"
  by (auto simp: make_date_def split: if_splits)

lemma day_of_year_valid: "day_of_year y k = Some x \<Longrightarrow> valid_date x"
  by (auto simp: day_of_year_def Let_def dest: make_date_valid split: if_splits prod.splits)

lemma week_date_valid: "week_date y w k = Some x \<Longrightarrow> valid_date x"
  by (simp add: week_date_def Let_def day_of_year_valid split: if_splits)

lemma calendar_part_valid: "calendar_part y sep s = Some x \<Longrightarrow> valid_date x"
  by (simp add: calendar_part_def make_date_valid split: if_splits option.splits prod.splits)

lemma week_part_valid: "week_part y sep s = Some x \<Longrightarrow> valid_date x"
  by (simp add: week_part_def week_date_valid split: if_splits option.splits prod.splits)

lemma fromisoformat_valid: "date_fromisoformat s = Some d \<Longrightarrow> valid_date d"
  by (simp add: date_fromisoformat_def Let_def week_part_valid calendar_part_valid
        split: if_splits option.splits list.splits prod.splits)

lemma read_two_digits [simp]:
  "n < 100 \<Longrightarrow> read_n_digits (Suc (Suc k)) acc (digits2 n @ s) = read_n_digits k (100 * acc + n) s"
proof -
  assume "n < 100"
  then have "read_n_digits (Suc (Suc k)) acc (digits2 n @ s) = read_n_digits k (10 * (10 * acc + n div 10) + n mod 10) s"
    by (simp add: digits2_def)
  also have "10 * (10 * acc + n div 10) + n mod 10 = 100 * acc + n" by presburger
  finally show ?thesis .
qed

lemma length_digits2 [simp]: "length (digits2 n) = 2"
  by (simp add: digits2_def)

lemma hd_digits2: "n < 100 \<Longrightarrow> digits2 n = c # cs \<Longrightarrow> char_digit c \<noteq> None"
  by (auto simp: digits2_def)

lemma read_all_of_month:
  "n < 100 \<Longrightarrow> read_n_digits 2 0 (digits2 n @ s) = Some (n, s)"
  using read_two_digits [of n 0 0 s] by (simp add: numeral_2_eq_2)

lemma read_year: "y \<le> 9999 \<Longrightarrow> read_n_digits 4 0 (digits2 (y div 100) @ digits2 (y mod 100) @ s) = Some (y, s)"
proof -
  assume y: "y \<le> 9999"
  have h: "y div 100 < 100" "y mod 100 < 100" using y by simp_all
  have "read_n_digits 4 0 (digits2 (y div 100) @ digits2 (y mod 100) @ s) =
      read_n_digits (Suc (Suc (Suc (Suc 0)))) 0 (digits2 (y div 100) @ digits2 (y mod 100) @ s)"
    by (rule arg_cong [where f = "\<lambda>k. read_n_digits k 0 _"]) simp
  also have "\<dots> = read_n_digits 0 (100 * (100 * 0 + y div 100) + y mod 100) s"
    by (simp only: read_two_digits [OF h(1)] read_two_digits [OF h(2)])
  finally show ?thesis by simp
qed

text \<open>The text a date prints reads back as the date.\<close>

lemma isoformat_fromisoformat:
  assumes "valid_date d"
  shows "date_fromisoformat (isoformat d) = Some d"
proof -
  let ?rest = "digits2 (dm d) @ ''-'' @ digits2 (dd d)"
  have b: "dy d \<le> 9999" "dm d < 100" "dd d < 100" using valid_date_bounds [OF assms] by auto
  have y: "read_n_digits 4 0 (isoformat d) = Some (dy d, ''-'' @ ?rest)"
    by (simp only: isoformat_def read_year [OF b(1)])
  have cal: "calendar_part (dy d) True ?rest = Some d"
    using assms b read_all_of_month [OF b(3), of "[]"]
    by (simp add: calendar_part_def read_all_of_month read_hyphen_def make_date_def)
  have "char_digit CHR ''W'' = None" by code_simp
  moreover have "?rest = digit_char (dm d div 10) # tl ?rest" by (simp add: digits2_def)
  moreover have "char_digit (digit_char (dm d div 10)) = Some (dm d div 10)" using b(2) by simp
  ultimately obtain c cs where c: "?rest = c # cs" "c \<noteq> CHR ''W''" by (metis option.distinct(1))
  have "length (isoformat d) = 10" by (simp add: isoformat_def)
  then show ?thesis using cal c by (simp add: date_fromisoformat_def y)
qed

section \<open>Ordinals\<close>

lemma days_before_year_Suc: "1 \<le> y \<Longrightarrow> days_before_year (Suc y) = days_before_year y + year_days y"
proof (cases y)
  case (Suc n)
  have le: "n div 100 \<le> n * 365 + n div 4" by (simp add: div_le_mono2 trans_le_add2)
  have d: "Suc n mod 400 = 0 \<Longrightarrow> Suc n mod 100 = 0" "Suc n mod 100 = 0 \<Longrightarrow> Suc n mod 4 = 0"
    by presburger+
  show ?thesis using le d
    by (auto simp: Suc days_before_year_def year_days_def is_leap_def div_Suc ac_simps)
qed simp

lemma days_before_year_mono: "1 \<le> y \<Longrightarrow> y < y' \<Longrightarrow> days_before_year y + year_days y \<le> days_before_year y'"
proof (induction y')
  case (Suc z)
  then show ?case by (cases "y = z") (auto simp: days_before_year_Suc)
qed simp

lemma days_before_month_mono: "1 \<le> m \<Longrightarrow> m < m' \<Longrightarrow> days_before_month y m + days_in_month y m \<le> days_before_month y m'"
proof (induction m')
  case (Suc z)
  then show ?case by (cases "m = z") auto
qed simp

lemma day_in_year: "valid_date d \<Longrightarrow> days_before_month (dy d) (dm d) + dd d \<le> year_days (dy d)"
proof -
  assume v: "valid_date d"
  have "days_before_month (dy d) (dm d) + days_in_month (dy d) (dm d) \<le> days_before_month (dy d) 13"
    using days_before_month_mono [of "dm d" 13] v by (simp add: valid_date_def)
  moreover have "days_before_month (dy d) 13 = year_days (dy d)"
    by (simp add: eval_nat_numeral days_in_month_def year_days_def)
  ultimately show ?thesis using v by (simp add: valid_date_def)
qed

lemma date_ordinal_less:
  assumes "valid_date a" and "valid_date b"
    and "dy a < dy b \<or> dy a = dy b \<and> dm a < dm b \<or> dy a = dy b \<and> dm a = dm b \<and> dd a < dd b"
  shows "date_ordinal a < date_ordinal b"
proof -
  consider "dy a < dy b" | "dy a = dy b" "dm a < dm b" | "dy a = dy b" "dm a = dm b" "dd a < dd b"
    using assms(3) by blast
  then show ?thesis
  proof cases
    case 1
    then show ?thesis using days_before_year_mono [of "dy a" "dy b"] day_in_year [OF assms(1)] assms(1,2)
      by (simp add: date_ordinal_def valid_date_def)
  next
    case 2
    then show ?thesis using days_before_month_mono [of "dm a" "dm b" "dy a"] assms(1,2)
      by (simp add: date_ordinal_def valid_date_def)
  qed (simp add: date_ordinal_def)
qed

lemma date_ordinal_inj:
  assumes "valid_date a" and "valid_date b" and "date_ordinal a = date_ordinal b"
  shows "a = b"
proof (rule ccontr)
  assume "a \<noteq> b"
  then have "dy a \<noteq> dy b \<or> dm a \<noteq> dm b \<or> dd a \<noteq> dd b" by (cases a; cases b) auto
  then show False
    using date_ordinal_less [OF assms(1,2)] date_ordinal_less [OF assms(2,1)] assms(3) by linarith
qed

lemma same_day: "valid_date a \<Longrightarrow> valid_date b \<Longrightarrow> days_between a b = 0 \<longleftrightarrow> a = b"
  using date_ordinal_inj [of a b] by (auto simp: days_between_def)

end
