(* ===== verification/Wave_Transaction.thy ===== *)
theory Wave_Transaction
  imports Py_Text Py_Dates
begin

text \<open>
  Construction of a Wave money transaction (src/data_entry/waveapps_transaction.py): amounts
  as two-decimal \<open>Decimal\<close>s rounded half up, the line items with their accounts, the
  comparison of their sum with the document total, and the request. \<open>json.loads\<close> is a
  parameter. A float of two decimals is the exact number its text denotes.
\<close>

section \<open>Decimals\<close>

definition drop_underscores :: "string \<Rightarrow> string" where
  "drop_underscores s = filter (\<lambda>c. c \<noteq> CHR ''_'') s"

text \<open>\<open>Decimal(text)\<close>; a signalling NaN is refused here, its next operation raises.\<close>

definition parse_decimal :: "string \<Rightarrow> pyfloat option" where
  "parse_decimal text =
     (let (neg, body) = read_sign (drop_underscores (strip text)); word = lower body
      in if word = ''inf'' \<or> word = ''infinity'' then Some (Infty (\<not> neg))
         else if take 3 word = ''nan'' \<and> list_all is_digit (drop 3 word) then Some NaN
         else
           (let (ip, r1) = digit_run False body;
                (fp, r2) = (case r1 of [] \<Rightarrow> ([], [])
                            | c # cs \<Rightarrow> if c = CHR ''.'' then digit_run False cs else ([], r1))
            in if ip = [] \<and> fp = [] then None
               else case read_exponent r2 of
                      Some (e, []) \<Rightarrow>
                        (let m = scale10 (of_nat (digits_value (ip @ fp))) (e - int (length fp))
                         in Some (Num (if neg then - m else m)))
                    | _ \<Rightarrow> None))"

text \<open>\<open>Decimal(str(v))\<close>: the text of a boolean, of None or of a container is no number.\<close>

fun decimal_of :: "pyval \<Rightarrow> pyfloat option" where
  "decimal_of (PInt i) = Some (Num (of_int i))"
| "decimal_of (PFloat f) = Some f"
| "decimal_of (PStr s) = parse_decimal s"
| "decimal_of _ = None"

text \<open>
  \<open>quantize(Decimal("0.01"), ROUND_HALF_UP)\<close>: ties away from zero; a coefficient of more than
  28 digits raises \<open>InvalidOperation\<close>.
\<close>

definition round_half_up :: "rat \<Rightarrow> int" where
  "round_half_up r = (if 0 \<le> r then \<lfloor>r + 1 / 2\<rfloor> else - \<lfloor>1 / 2 - r\<rfloor>)"

definition quantize_cents :: "rat \<Rightarrow> rat option" where
  "quantize_cents r =
     (let n = round_half_up (r * 100) in if 10 ^ 28 \<le> \<bar>n\<bar> then None else Some (of_int n / 100))"

definition unsigned_amount :: "pyval \<Rightarrow> pyfloat option" where
  "unsigned_amount v =
     (case decimal_of v of
        Some (Num r) \<Rightarrow>
          (case quantize_cents r of
             None \<Rightarrow> None
           | Some q \<Rightarrow> if q = 0 then None else Some (Num \<bar>q\<bar>))
      | Some NaN \<Rightarrow> Some NaN
      | _ \<Rightarrow> None)"

section \<open>Reading the document\<close>

definition as_mapping :: "(string \<Rightarrow> pyval option) \<Rightarrow> pyval \<Rightarrow> pydict" where
  "as_mapping loads v =
     (case v of PDict d \<Rightarrow> d
      | PStr s \<Rightarrow> (case loads s of Some (PDict d) \<Rightarrow> d | _ \<Rightarrow> [])
      | _ \<Rightarrow> [])"

definition as_list :: "pyval \<Rightarrow> pyval list" where
  "as_list v = (case v of PList xs \<Rightarrow> xs | _ \<Rightarrow> [])"

definition replace_char :: "char \<Rightarrow> char \<Rightarrow> string \<Rightarrow> string" where
  "replace_char a b s = map (\<lambda>c. if c = a then b else c) s"

text \<open>\<open>str(a or b or ... or "")\<close>\<close>

definition first_truthy :: "pyval list \<Rightarrow> pyval" where
  "first_truthy vs = (case filter truthy vs of [] \<Rightarrow> PStr [] | v # _ \<Rightarrow> v)"

definition document_type :: "py_env \<Rightarrow> pydict \<Rightarrow> pydict \<Rightarrow> string" where
  "document_type env data extracted =
     replace_char CHR '' '' CHR ''_'' (replace_char CHR ''-'' CHR ''_'' (lower (strip (py_str env
       (first_truthy [dget data ''document_type'', dget data ''documentType'',
                      dget extracted ''document_type'', dget extracted ''documentType''])))))"

definition transaction_date :: "py_env \<Rightarrow> pyval \<Rightarrow> string option" where
  "transaction_date env v =
     (if \<not> truthy v then None else map_option isoformat (date_fromisoformat (py_str env v)))"

fun external_id_of :: "py_env \<Rightarrow> string list \<Rightarrow> pydict \<Rightarrow> string" where
  "external_id_of env [] data = ''fab:unidentified''"
| "external_id_of env (k # ks) data =
     (if is_blank (dget data k) then external_id_of env ks data else ''fab:'' @ py_str env (dget data k))"

definition external_id :: "py_env \<Rightarrow> pydict \<Rightarrow> string" where
  "external_id env data = external_id_of env [''idempotency_key'', ''posting_attempt_id'', ''document_id''] data"

section \<open>Line items\<close>

datatype line_balance = INCREASE | DECREASE
datatype anchor_direction = WITHDRAWAL | DEPOSIT

record wave_line =
  wl_account :: string
  wl_amount :: "pyfloat option"
  wl_balance :: line_balance

definition text_or :: "py_env \<Rightarrow> pyval list \<Rightarrow> string" where
  "text_or env vs = strip (py_str env (first_truthy vs))"

definition line_account :: "py_env \<Rightarrow> pydict \<Rightarrow> pydict \<Rightarrow> string \<Rightarrow> string \<Rightarrow> pydict \<Rightarrow> pyval" where
  "line_account env mappings accounts category mapped_category item =
     (let line_category = text_or env [dget item ''category'', PStr category];
          mapped = text_or env [dget mappings line_category, PStr line_category, PStr mapped_category];
          label = text_or env [dget item ''account'', dget item ''account_name'']
      in py_or (py_or (dget accounts mapped) (dget accounts line_category)) (dget accounts label))"

definition expense_line ::
  "py_env \<Rightarrow> pydict \<Rightarrow> pydict \<Rightarrow> string \<Rightarrow> string \<Rightarrow> line_balance \<Rightarrow> nat \<Rightarrow> pyval \<Rightarrow> wave_line list \<times> string list" where
  "expense_line env mappings accounts category mapped_category balance index item =
     (let label = ''lineItems['' @ str_of_nat index @ '']'' in
      case item of
        PDict it \<Rightarrow>
          (let account = line_account env mappings accounts category mapped_category it;
               amount = unsigned_amount (dget it ''amount'')
           in (if truthy account \<and> amount \<noteq> None
               then [\<lparr>wl_account = py_str env account, wl_amount = amount, wl_balance = balance\<rparr>] else [],
               (if truthy account then [] else [label @ ''.accountId'']) @
               (if amount = None then [label @ ''.amount''] else [])))
      | _ \<Rightarrow> ([], [label]))"

fun expense_lines ::
  "(nat \<Rightarrow> pyval \<Rightarrow> wave_line list \<times> string list) \<Rightarrow> nat \<Rightarrow> pyval list \<Rightarrow> wave_line list \<times> string list" where
  "expense_lines line index [] = ([], [])"
| "expense_lines line index (x # xs) =
     (let (ls, ms) = line index x; (ls', ms') = expense_lines line (Suc index) xs in (ls @ ls', ms @ ms'))"

text \<open>\<open>sum\<close> of the decimals of the amounts: NaN as soon as one is NaN.\<close>

fun decimal_sum :: "pyfloat list \<Rightarrow> pyfloat" where
  "decimal_sum [] = Num 0"
| "decimal_sum (x # xs) = (case (x, decimal_sum xs) of (Num a, Num b) \<Rightarrow> Num (a + b) | _ \<Rightarrow> NaN)"

text \<open>
  The quantized totals compared: a sum whose cents need more than 28 digits raises
  \<open>InvalidOperation\<close>, which nothing catches.
\<close>

definition totals_differ :: "wave_line list \<Rightarrow> pyfloat \<Rightarrow> bool result" where
  "totals_differ lines tot =
     (case decimal_sum (map (\<lambda>l. the (wl_amount l)) lines) of
        Num s \<Rightarrow> if 10 ^ 26 \<le> s then Inl (Raised ''InvalidOperation'') else Inr (\<not> flt_eq (Num s) tot)
      | _ \<Rightarrow> Inr True)"

definition expense_line_items ::
  "py_env \<Rightarrow> pyval list \<Rightarrow> string \<Rightarrow> string \<Rightarrow> pydict \<Rightarrow> pydict \<Rightarrow> pyfloat option \<Rightarrow> line_balance \<Rightarrow>
   (wave_line list \<times> string list) result" where
  "expense_line_items env items category mapped_category mappings accounts tot balance =
     (if items = [] then
        (let account = py_or (dget accounts mapped_category) (dget accounts category) in
         if \<not> truthy account then Inr ([], [''categoryAccountId''])
         else Inr ([\<lparr>wl_account = py_str env account, wl_amount = tot, wl_balance = balance\<rparr>], []))
      else
        (let (lines, missing) = expense_lines
               (expense_line env mappings accounts category mapped_category balance) 0 items
         in if missing \<noteq> [] then Inr (lines, missing)
            else (case tot of
                    None \<Rightarrow> Inr (lines, [])
                  | Some t \<Rightarrow>
                      (case totals_differ lines t of
                         Inl e \<Rightarrow> Inl e
                       | Inr differ \<Rightarrow> Inr (lines, if differ then [''lineItemTotal''] else [])))))"

section \<open>The request\<close>

record wave_input =
  wi_business :: string
  wi_external_id :: string
  wi_date :: string
  wi_description :: string
  wi_account :: string
  wi_amount :: pyfloat
  wi_direction :: anchor_direction
  wi_lines :: "wave_line list"

datatype wave_build =
    Fields_missing "string list" string
  | Transaction wave_input

record wave_accounts =
  wv_business_id :: pyval
  wv_anchor :: pyval
  wv_mapping :: pyval
  wv_account_ids :: pyval

definition is_credit :: "py_env \<Rightarrow> pydict \<Rightarrow> bool" where
  "is_credit env data =
     (let extracted = as_dict (dget data ''extracted_data'') in
      document_type env data extracted = ''credit_note'' \<or>
      lower (text_or env [dget data ''transaction_direction'', dget extracted ''transaction_direction'']) = ''deposit'')"

definition build_expense_transaction_input ::
  "py_env \<Rightarrow> (string \<Rightarrow> pyval option) \<Rightarrow> wave_accounts \<Rightarrow> string option \<Rightarrow> pydict \<Rightarrow> wave_build result" where
  "build_expense_transaction_input env loads wv description data =
     (let extracted = as_dict (dget data ''extracted_data'');
          credit = is_credit env data;
          category = text_or env [dget data ''category''];
          mapped = text_or env [dget (as_mapping loads (wv_mapping wv)) category, PStr category];
          amount = unsigned_amount (dget extracted ''total_amount'');
          day = transaction_date env (dget extracted ''transaction_date'')
      in case expense_line_items env (as_list (dget extracted ''line_items'')) category mapped
             (as_mapping loads (wv_mapping wv)) (as_mapping loads (wv_account_ids wv)) amount
             (if credit then DECREASE else INCREASE) of
           Inl e \<Rightarrow> Inl e
         | Inr (lines, line_missing) \<Rightarrow>
             (let missing = line_missing @
                    (if is_blank (wv_business_id wv) then [''businessId''] else []) @
                    (if is_blank (wv_anchor wv) then [''anchorAccountId''] else []) @
                    (if day = None then [''transactionDate''] else []) @
                    (if amount = None then [''totalAmount''] else [])
              in if missing \<noteq> [] then Inr (Fields_missing missing mapped)
                 else Inr (Transaction
                   \<lparr>wi_business = py_str env (wv_business_id wv),
                    wi_external_id = external_id env data,
                    wi_date = the day,
                    wi_description = text_or env [case description of None \<Rightarrow> PNone | Some d \<Rightarrow> PStr d,
                      dget extracted ''description'', PStr ''Automated expense''],
                    wi_account = py_str env (wv_anchor wv),
                    wi_amount = the amount,
                    wi_direction = (if credit then DEPOSIT else WITHDRAWAL),
                    wi_lines = lines\<rparr>)))"

definition missing_fields_message :: "string list \<Rightarrow> string" where
  "missing_fields_message missing =
     ''Wave transaction requires verified account mapping and financial fields: '' @
     join_with '', '' missing @ ''.''"

section \<open>The errors of a reply\<close>

definition error_message :: "py_env \<Rightarrow> pyval \<Rightarrow> string option" where
  "error_message env e =
     (let m = (case e of PDict d \<Rightarrow> py_or (dget d ''message'') (dget d ''code'') | _ \<Rightarrow> e)
      in if truthy m then Some (py_str env m) else None)"

text \<open>
  \<open>wave_error_messages\<close>: every level of the reply is read with \<open>.get\<close>, and the errors are
  iterated; a string is iterated by character, a dictionary by key.
\<close>

definition iterate :: "pyval \<Rightarrow> pyval list result" where
  "iterate v =
     (case v of PList xs \<Rightarrow> Inr xs
      | PStr s \<Rightarrow> Inr (map (\<lambda>c. PStr [c]) s)
      | PDict d \<Rightarrow> Inr (map (\<lambda>kv. PStr (fst kv)) d)
      | _ \<Rightarrow> Inl TypeError)"

definition wave_error_messages :: "py_env \<Rightarrow> pyval \<Rightarrow> string result" where
  "wave_error_messages env payload =
     (case payload of
        PDict p \<Rightarrow>
          rbind (attr_get (py_or (dget p ''data'') (PDict [])) ''moneyTransactionCreate'' PNone) (\<lambda>op.
          rbind (attr_get (py_or op (PDict [])) ''inputErrors'' PNone) (\<lambda>errs.
          rbind (iterate (py_or (py_or errs (dget p ''errors'')) (PList []))) (\<lambda>xs.
            let ms = map the (filter (\<lambda>m. m \<noteq> None) (map (error_message env) xs)) in
            Inr (if ms = [] \<or> join_with ''; '' ms = []
                 then ''Wave rejected the money transaction without a detailed error.''
                 else join_with ''; '' ms))))
      | _ \<Rightarrow> Inr ''Wave returned an invalid response.'')"

end
