(* ===== verification/Wave_Documents.thy ===== *)
theory Wave_Documents
  imports Wave_Transaction Wave_Operator
begin

text \<open>
  Wave documents (the functions of src/data_entry/waveapps_surface.py that turn a document into
  a Wave action): the destination of a document type, the action, the amounts and line items of
  the action's payload and the row of the CSV fallback (src/utils/csv_safety.py). Sums, products
  and \<open>round(x, 2)\<close> are those of exact numbers.
\<close>

section \<open>Float arithmetic\<close>

fun flt_neg :: "pyfloat \<Rightarrow> pyfloat" where
  "flt_neg (Num a) = Num (- a)"
| "flt_neg (Infty b) = Infty (\<not> b)"
| "flt_neg NaN = NaN"

fun flt_abs :: "pyfloat \<Rightarrow> pyfloat" where
  "flt_abs (Num a) = Num \<bar>a\<bar>"
| "flt_abs (Infty b) = Infty True"
| "flt_abs NaN = NaN"

fun flt_add :: "pyfloat \<Rightarrow> pyfloat \<Rightarrow> pyfloat" where
  "flt_add (Num a) (Num b) = Num (a + b)"
| "flt_add (Num a) (Infty b) = Infty b"
| "flt_add (Infty a) (Num b) = Infty a"
| "flt_add (Infty a) (Infty b) = (if a = b then Infty a else NaN)"
| "flt_add NaN y = NaN"
| "flt_add x NaN = NaN"

text \<open>\<open>x * c\<close> for a positive number \<open>c\<close>\<close>

fun flt_scale :: "rat \<Rightarrow> pyfloat \<Rightarrow> pyfloat" where
  "flt_scale c (Num a) = Num (c * a)"
| "flt_scale c x = x"

fun flt_round2 :: "pyfloat \<Rightarrow> pyfloat" where
  "flt_round2 (Num a) = Num (of_int (round_half_even (a * 100)) / 100)"
| "flt_round2 x = x"

definition flt_max2 :: "pyfloat \<Rightarrow> pyfloat \<Rightarrow> pyfloat" where
  "flt_max2 a b = (if flt_less a b then b else a)"

section \<open>Destinations\<close>

definition normalize_wave_document_type :: "py_env \<Rightarrow> pyval \<Rightarrow> string" where
  "normalize_wave_document_type env v =
     (if \<not> truthy v then ''receipt''
      else (let n = replace_char CHR ''-'' CHR ''_'' (replace_char CHR '' '' CHR ''_'' (lower (strip (py_str env v))))
            in if n \<in> {''invoice'', ''purchase_invoice''} then ''vendor_invoice'' else n))"

text \<open>Target and fallback surface of each document type.\<close>

definition DOCUMENT_ROUTING :: "(string \<times> string \<times> string) list" where
  "DOCUMENT_ROUTING =
     [(''receipt'', ''transactions'', ''bills''), (''card_receipt'', ''transactions'', ''bills''),
      (''bank_transaction'', ''transactions'', ''bills''), (''credit_note'', ''transactions'', ''bills''),
      (''vendor_invoice'', ''bills'', ''transactions''), (''bill'', ''bills'', ''transactions''),
      (''unpaid_purchase'', ''bills'', ''transactions''), (''sales_invoice'', ''invoices'', ''transactions''),
      (''estimate'', ''estimates'', ''invoices''), (''quote'', ''estimates'', ''invoices'')]"

record destination =
  ds_type :: string
  ds_target :: string
  ds_fallback :: string

text \<open>\<open>data.get("extracted_data", {}).get(k)\<close>\<close>

definition extracted_get :: "pydict \<Rightarrow> string \<Rightarrow> pyval result" where
  "extracted_get data k = attr_get (dget_or data ''extracted_data'' (PDict [])) k PNone"

definition document_type_value :: "pydict \<Rightarrow> pyval result" where
  "document_type_value data =
     (if truthy (dget data ''document_type'') then Inr (dget data ''document_type'')
      else if truthy (dget data ''type'') then Inr (dget data ''type'')
      else rbind (extracted_get data ''document_type'') (\<lambda>v.
             if truthy v then Inr v else extracted_get data ''type''))"

definition destination_of :: "string \<Rightarrow> destination" where
  "destination_of t =
     (case map_of DOCUMENT_ROUTING t of
        Some (target, fallback) \<Rightarrow> \<lparr>ds_type = t, ds_target = target, ds_fallback = fallback\<rparr>
      | None \<Rightarrow> \<lparr>ds_type = t, ds_target = ''transactions'', ds_fallback = ''bills''\<rparr>)"

definition classify_wave_destination :: "py_env \<Rightarrow> pydict \<Rightarrow> destination result" where
  "classify_wave_destination env data =
     map_sum id (\<lambda>v. destination_of (normalize_wave_document_type env v)) (document_type_value data)"

definition action_for_surface :: "string \<Rightarrow> string" where
  "action_for_surface surface =
     (if surface = ''bills'' then ''bill_create'' else if surface = ''invoices'' then ''invoice_create''
      else if surface = ''estimates'' then ''estimate_create'' else ''transaction_add'')"

definition resolve_wave_action_for_document :: "py_env \<Rightarrow> pydict \<Rightarrow> string result" where
  "resolve_wave_action_for_document env data =
     map_sum id (\<lambda>d. action_for_surface (ds_target d)) (classify_wave_destination env data)"

section \<open>Amounts\<close>

fun wave_number :: "pyval \<Rightarrow> pyfloat option" where
  "wave_number (PInt i) = Some (Num (of_int i))"
| "wave_number (PFloat f) = Some f"
| "wave_number (PStr s) = (if s = [] then None else parse_float (replace_char CHR '','' CHR ''.'' (strip s)))"
| "wave_number _ = None"

definition wave_posting_amount :: "pyval \<Rightarrow> string \<Rightarrow> pyval" where
  "wave_posting_amount v doc_type =
     (case wave_number v of
        None \<Rightarrow> if is_blank v then PFloat (Num 0) else v
      | Some a \<Rightarrow> PFloat (if doc_type = ''credit_note'' then flt_neg (flt_abs a) else a))"

text \<open>The first value that is neither None nor empty, else the last.\<close>

fun first_given :: "pyval list \<Rightarrow> pyval" where
  "first_given [] = PNone"
| "first_given [v] = v"
| "first_given (v # vs) = (if is_blank v then first_given vs else v)"

section \<open>Line items\<close>

definition optional_entry :: "string \<Rightarrow> pyval \<Rightarrow> pydict \<Rightarrow> pydict" where
  "optional_entry k v d = (if is_blank v then d else dset k v d)"

text \<open>\<open>a or b or ... or z\<close>: the last operand when none is true.\<close>

fun or_chain :: "pyval list \<Rightarrow> pyval" where
  "or_chain [] = PNone"
| "or_chain [v] = v"
| "or_chain (v # vs) = (if truthy v then v else or_chain vs)"

definition wave_line_item :: "pyval \<Rightarrow> pyval \<Rightarrow> pyval \<Rightarrow> pyval \<Rightarrow> (pyfloat \<times> pydict) option" where
  "wave_line_item description category account raw =
     (case raw of
        PDict it \<Rightarrow>
          (let g = dget it in
           case wave_number (first_given [g ''amount'', g ''total'', g ''total_amount'', g ''totalAmount'']) of
             None \<Rightarrow> None
           | Some a \<Rightarrow>
               Some (a,
                 optional_entry ''taxAmount'' (first_given [g ''tax_amount'', g ''taxAmount''])
                 (optional_entry ''tax'' (or_chain [g ''tax_code'', g ''taxCode'', g ''tax''])
                 (optional_entry ''unitPrice'' (g ''unitPrice'')
                 (optional_entry ''unitPrice'' (g ''unit_price'')
                 (optional_entry ''quantity'' (g ''quantity'')
                   [(''description'', or_chain [g ''description'', g ''item_name'', g ''itemName'', description]),
                    (''amount'', PFloat a),
                    (''category'', or_chain [g ''category'', category]),
                    (''account'', or_chain [g ''account'', g ''account_name'', g ''accountName'', account])]))))))
      | _ \<Rightarrow> None)"

definition line_tolerance :: "pyfloat option \<Rightarrow> pyfloat" where
  "line_tolerance tot =
     flt_max2 (Num (2 / 100)) (flt_scale (1 / 100) (flt_abs (case tot of None \<Rightarrow> Num 0 | Some t \<Rightarrow> t)))"

definition flt_close :: "pyfloat \<Rightarrow> pyfloat \<Rightarrow> pyfloat \<Rightarrow> bool" where
  "flt_close a b tolerance \<longleftrightarrow> flt_le (flt_abs (flt_add a (flt_neg b))) tolerance"

definition normalize_wave_line_items :: "pyval \<Rightarrow> pyval \<Rightarrow> pyval \<Rightarrow> pyval \<Rightarrow> pyval \<Rightarrow> pydict list" where
  "normalize_wave_line_items raw_items description amount category account =
     (let items = List.map_filter (wave_line_item description category account) (as_list raw_items);
          doc_total = wave_number amount;
          line_total = flt_round2 (foldl flt_add (Num 0) (map fst items));
          tolerance = line_tolerance doc_total;
          fallback = [[(''description'', description),
                       (''amount'', case doc_total of None \<Rightarrow> amount | Some t \<Rightarrow> PFloat t),
                       (''category'', category), (''account'', account)]]
      in if items = [] then fallback
         else case doc_total of
           None \<Rightarrow> map snd items
         | Some t \<Rightarrow>
             if flt_close line_total t tolerance then map snd items
             else if flt_close (flt_abs line_total) (flt_abs t) tolerance then
               map (\<lambda>(a, it). dset ''amount''
                      (PFloat (flt_round2 (if flt_less t (Num 0) then flt_neg (flt_abs a) else flt_abs a))) it) items
             else fallback)"

section \<open>Payloads\<close>

definition first_dict :: "pydict list \<Rightarrow> pydict" where
  "first_dict ds = (case ds of [] \<Rightarrow> [] | d # _ \<Rightarrow> d)"

definition dict_values :: "pydict list \<Rightarrow> pyval" where
  "dict_values ds = PList (map PDict ds)"

definition build_wave_action_payload :: "py_env \<Rightarrow> pydict \<Rightarrow> pyval \<Rightarrow> pyval \<Rightarrow> pydict result" where
  "build_wave_action_payload env data category account =
     (case dget_or data ''extracted_data'' (PDict []) of
        PDict ex \<Rightarrow>
          rbind (classify_wave_destination env data) (\<lambda>dest.
            let e = dget ex; d = dget data;
                vendor = or_chain [e ''vendor_name'', d ''vendor_name'', PStr []];
                day = or_chain [e ''transaction_date'', e ''date'', PStr []];
                amount = wave_posting_amount
                  (first_given [e ''total_amount'', e ''amount'', d ''total_amount'']) (ds_type dest);
                description = or_chain [e ''description'', d ''description'', PStr []];
                lines = normalize_wave_line_items
                  (or_chain [d ''line_items'', e ''line_items'', e ''lineItems'', PList []])
                  (or_chain [description, vendor, PStr ''Imported document'']) amount category account;
                action = action_for_surface (ds_target dest);
                customer = or_chain [e ''customer_name'', d ''customer_name'', vendor];
                first = first_dict lines
            in Inr (if action = ''bill_create'' then
                 [(''vendor'', vendor), (''billDate'', day), (''lineItems'', dict_values lines)]
               else if action = ''invoice_create'' \<or> action = ''estimate_create'' then
                 [(''customer'', customer), (''lineItems'', dict_values lines)]
               else
                 [(''date'', day), (''amount'', amount), (''documentType'', PStr (ds_type dest)),
                  (''transactionDirection'', PStr (if ds_type dest = ''credit_note'' then ''deposit'' else ''withdrawal'')),
                  (''account'', or_chain [dget first ''account'', account]),
                  (''category'', or_chain [dget first ''category'', category]),
                  (''description'', description), (''vendor'', vendor), (''lineItems'', dict_values lines)]))
      | _ \<Rightarrow> Inl AttributeError)"

section \<open>The CSV fallback\<close>

definition build_wave_expense_import_row :: "py_env \<Rightarrow> pydict \<Rightarrow> pyval \<Rightarrow> pyval \<Rightarrow> pydict result" where
  "build_wave_expense_import_row env data category suffix =
     (case dget_or data ''extracted_data'' (PDict []) of
        PDict ex \<Rightarrow>
          rbind (classify_wave_destination env data) (\<lambda>dest.
            let e = dget ex; d = dget data;
                plain = or_chain [e ''description'', d ''description'', PStr ''Automated Expense''];
                description = (if truthy suffix then PStr (strip (py_str env plain @ '' '' @ py_str env suffix)) else plain)
            in Inr
                [(''Date'', or_chain [e ''transaction_date'', e ''date'', PStr []]),
                 (''Amount'', wave_posting_amount (first_given [e ''total_amount'', e ''amount'']) (ds_type dest)),
                 (''Description'', description), (''Category'', category),
                 (''Vendor'', or_chain [e ''vendor_name'', d ''vendor_name'', PStr []]),
                 (''Wave Surface'', PStr (ds_target dest)),
                 (''Wave Action'', PStr (action_for_surface (ds_target dest))),
                 (''Wave Fallback'', PStr (ds_fallback dest))])
      | _ \<Rightarrow> Inl AttributeError)"

definition CSV_FORMULA_PREFIXES :: "char list" where
  "CSV_FORMULA_PREFIXES =
     [CHR ''='', CHR ''+'', CHR ''-'', CHR ''@'', char_of (9 :: nat), char_of (13 :: nat), char_of (10 :: nat)]"

definition neutralize_csv_cell :: "pyval \<Rightarrow> pyval" where
  "neutralize_csv_cell v =
     (case v of
        PStr (c # cs) \<Rightarrow> if c \<in> set CSV_FORMULA_PREFIXES then PStr (CHR 0x27 # c # cs) else v
      | _ \<Rightarrow> v)"

definition neutralize_csv_row :: "pydict \<Rightarrow> pydict" where
  "neutralize_csv_row row = map (\<lambda>(k, v). (k, neutralize_csv_cell v)) row"

end
