(* ===== verification/Wave_Handlers.thy ===== *)
theory Wave_Handlers
  imports Wave_Documents Rate_Service
begin

text \<open>
  The Wave entry handlers (src/data_entry/waveapps_business_handler.py and
  waveapps_personal_handler.py) with the outbound slot of src/data_entry/base.py. The registry of
  rate limiters is the state; the HTTP exchange, the CSV file and \<open>json.loads\<close> are ports, and
  the clock readings of the limiter are inputs. A result carries the body posted to Wave, if one
  was.
\<close>

section \<open>The outbound slot\<close>

text \<open>\<open>max(float(value), 0.0)\<close>, or the default.\<close>

definition non_negative_float :: "pyval \<Rightarrow> pyfloat \<Rightarrow> pyfloat" where
  "non_negative_float v dflt =
     (case to_float v of Inl _ \<Rightarrow> dflt | Inr f \<Rightarrow> flt_max2 f (Num 0))"

record slot_clock =
  sc_today :: int \<comment> \<open>the date at which a new limiter is created\<close>
  sc_start :: rat
  sc_ticks :: "tick list"
  sc_report :: rat \<comment> \<open>the reading of \<open>get_current_rate\<close>\<close>
  sc_report_day :: int

definition number_value :: "rat \<Rightarrow> pyval" where
  "number_value r = (if of_int \<lfloor>r\<rfloor> = r then PInt \<lfloor>r\<rfloor> else PFloat (Num r))"

definition opt_int_value :: "int option \<Rightarrow> pyval" where
  "opt_int_value v = (case v of None \<Rightarrow> PNone | Some i \<Rightarrow> PInt i)"

definition rate_value :: "limiter_config \<Rightarrow> rate_report \<Rightarrow> pydict" where
  "rate_value cfg r =
     [(''name'', PStr (lc_name cfg)),
      (''callsPerSecond'', case lc_per_second cfg of None \<Rightarrow> PNone | Some q \<Rightarrow> number_value q),
      (''callsPerMinute'', opt_int_value (lc_per_minute cfg)), (''callsPerDay'', opt_int_value (lc_per_day cfg)),
      (''secondCount'', PInt (rr_second r)), (''minuteCount'', PInt (rr_minute r)),
      (''dailyCount'', PInt (rr_daily r)), (''dailyRemaining'', opt_int_value (rr_remaining r)),
      (''totalCalls'', PInt (rr_total r)), (''blockedCalls'', PInt (rr_blocked r)),
      (''quotaExhausted'', PBool (rr_exhausted r))]"

definition deferral :: "pydict \<Rightarrow> string \<Rightarrow> limiter_config \<Rightarrow> rate_report \<Rightarrow> pydict" where
  "deferral config service cfg r =
     (let label = (if lc_name cfg = [] then service else lc_name cfg) in
      [(''status'', PStr (if rr_exhausted r then ''quota_exhausted'' else ''rate_limited'')),
       (''message'', PStr (label @ '' dispatch deferred because its configured quota is currently unavailable.'')),
       (''retryable'', PBool True),
       (''retry_after_seconds'', PFloat
          (if rr_exhausted r then non_negative_float (dget config ''quota_exhausted_retry_delay_seconds'') (Num 3600)
           else non_negative_float (dget config ''rate_limit_retry_delay_seconds'') (Num 60))),
       (''requires_manual_review'', PBool False), (''rate_limit'', PDict (rate_value cfg r))])"

datatype slot =
    Slot_admitted
  | Slot_deferred pydict
  | Slot_fault py_exc
  | Slot_waiting \<comment> \<open>the clock readings end while the call sleeps\<close>

definition wait_budget :: "pyfloat \<Rightarrow> rat option" where
  "wait_budget f = (case f of Num r \<Rightarrow> Some r | _ \<Rightarrow> None)"

definition acquire_outbound_slot ::
  "pydict \<Rightarrow> string \<Rightarrow> slot_clock \<Rightarrow> limiter_registry \<Rightarrow> limiter_registry \<times> slot" where
  "acquire_outbound_slot config service clk reg =
     (let (reg1, cfg, s) = get_rate_limiter service (sc_today clk) reg;
          budget = non_negative_float (dget config ''outbound_rate_limit_max_wait_seconds'') (Num 0);
          (s1, got, sleeps) = acquire cfg (flt_less (Num 0) budget) (wait_budget budget) (sc_start clk) (sc_ticks clk) s;
          reg2 = dset (lower service) (cfg, s1) reg1
      in case got of
           Acquired \<Rightarrow> (reg2, Slot_admitted)
         | Acquire_fault e \<Rightarrow> (reg2, Slot_fault e)
         | Still_waiting \<Rightarrow> (reg2, Slot_waiting)
         | _ \<Rightarrow>
             (let (s2, r) = get_current_rate cfg (sc_report clk) (sc_report_day clk) s1
              in (dset (lower service) (cfg, s2) reg2, Slot_deferred (deferral config service cfg r))))"

section \<open>Handlers\<close>

record wave_handler =
  wh_config :: pydict
  wh_name :: string \<comment> \<open>waveapps_business or waveapps_personal\<close>
  wh_label :: string \<comment> \<open>as the messages write it\<close>
  wh_tags :: bool \<comment> \<open>the personal handler tags one category\<close>

definition business_handler :: "pydict \<Rightarrow> wave_handler" where
  "business_handler config =
     \<lparr>wh_config = config, wh_name = ''waveapps_business'', wh_label = ''Waveapps'', wh_tags = False\<rparr>"

definition personal_handler :: "pydict \<Rightarrow> wave_handler" where
  "personal_handler config =
     \<lparr>wh_config = config, wh_name = ''waveapps_personal'', wh_label = ''Waveapps Personal'', wh_tags = True\<rparr>"

definition handler_setting :: "wave_handler \<Rightarrow> string \<Rightarrow> pyval \<Rightarrow> pyval" where
  "handler_setting h key dflt = dget_or (wh_config h) (wh_name h @ key) dflt"

definition handler_accounts :: "wave_handler \<Rightarrow> wave_accounts" where
  "handler_accounts h =
     \<lparr>wv_business_id = handler_setting h ''_id'' PNone, wv_anchor = handler_setting h ''_anchor_account_id'' PNone,
      wv_mapping = handler_setting h ''_category_mapping'' (PDict []),
      wv_account_ids = handler_setting h ''_category_account_ids'' (PDict [])\<rparr>"

definition handicap_tag :: "wave_handler \<Rightarrow> pyval" where
  "handicap_tag h = dget_or (wh_config h) ''waveapps_handicap_tag'' (PStr ''#handicap'')"

text \<open>\<open>mapping.get(category, ...)\<close>: a list or dictionary is not hashable.\<close>

definition map_category :: "wave_handler \<Rightarrow> pyval \<Rightarrow> pyval result" where
  "map_category h category =
     (case wv_mapping (handler_accounts h) of
        PDict m \<Rightarrow>
          (case category of
             PStr c \<Rightarrow> Inr (dget_or m c (PStr ''Uncategorized Expense''))
           | PList _ \<Rightarrow> Inl TypeError
           | PDict _ \<Rightarrow> Inl TypeError
           | _ \<Rightarrow> Inr (PStr ''Uncategorized Expense''))
      | _ \<Rightarrow> Inl AttributeError)"

text \<open>\<open>(data.get("extracted_data") or {}).get("description")\<close>\<close>

definition personal_description :: "py_env \<Rightarrow> wave_handler \<Rightarrow> pydict \<Rightarrow> string result" where
  "personal_description env h data =
     rbind (attr_get (py_or (dget data ''extracted_data'') (PDict [])) ''description'' PNone) (\<lambda>v.
       let d = py_str env (py_or v (PStr ''Automated personal expense''))
       in Inr (if dget data ''category'' = PStr ''Handicaps'' then strip (d @ '' '' @ py_str env (handicap_tag h)) else d))"

definition description_of :: "py_env \<Rightarrow> wave_handler \<Rightarrow> pydict \<Rightarrow> string option result" where
  "description_of env h data =
     (if wh_tags h then map_sum id Some (personal_description env h data) else Inr None)"

datatype http_reply = Request_failed string | Http_json pyval

record wave_ports =
  wo_catalog :: wave_catalog
  wo_loads :: "string \<Rightarrow> pyval option"
  wo_post :: "pyval \<Rightarrow> wave_input \<Rightarrow> http_reply"
  wo_csv :: "string \<Rightarrow> pydict \<Rightarrow> string + string" \<comment> \<open>the error text, or the path of the file written\<close>

definition failure_result ::
  "wave_catalog \<Rightarrow> destination \<Rightarrow> string \<Rightarrow> pydict \<Rightarrow> string \<Rightarrow> pydict" where
  "failure_result cat dest action payload message =
     [(''status'', PStr ''failure''), (''message'', PStr message), (''requires_manual_review'', PBool True),
      (''target_surface'', PStr (ds_fallback dest)),
      (''action_plan'', PDict (plan_value action (plan_wave_action cat (ds_target dest) action payload False)))]"

text \<open>
  The answer after the post: \<open>result.get\<close> on a body that is no dictionary raises, and so do the
  nested reads; the id must be present for a success.
\<close>

definition transaction_id :: "pyval \<Rightarrow> pyval option result" where
  "transaction_id body =
     rbind (attr_get body ''data'' PNone) (\<lambda>d.
     rbind (attr_get (py_or d (PDict [])) ''moneyTransactionCreate'' PNone) (\<lambda>o0.
     let op = py_or o0 (PDict []) in
     rbind (attr_get op ''didSucceed'' PNone) (\<lambda>ok.
       if \<not> truthy ok then Inr None
       else rbind (attr_get op ''transaction'' PNone) (\<lambda>t.
            rbind (attr_get (py_or t (PDict [])) ''id'' PNone) (\<lambda>i. Inr (if truthy i then Some i else None))))))"

definition settle_reply ::
  "py_env \<Rightarrow> wave_ports \<Rightarrow> wave_handler \<Rightarrow> destination \<Rightarrow> string \<Rightarrow> pydict \<Rightarrow> http_reply \<Rightarrow> pydict result" where
  "settle_reply env ports h dest action payload answer =
     (let plan = (\<lambda>w. PDict (plan_value action (plan_wave_action (wo_catalog ports) (ds_target dest) action payload w)));
          failed = failure_result (wo_catalog ports) dest action payload
      in case answer of
           Request_failed text \<Rightarrow> Inr (failed (wh_label h @ '' API request failed: '' @ text))
         | Http_json body \<Rightarrow>
             rbind (transaction_id body) (\<lambda>found.
               case found of
                 Some i \<Rightarrow>
                   Inr [(''status'', PStr ''success''),
                        (''message'', PStr (''Money transaction created in '' @ wh_label h @ '': '' @ py_str env i)),
                        (''external_id'', i), (''target_surface'', PStr (ds_target dest)), (''action_plan'', plan True)]
               | None \<Rightarrow>
                   rbind (wave_error_messages env body) (\<lambda>m. Inr (failed (wh_label h @ '' API error: '' @ m)))))"

text \<open>The result of a handler: the registry, the body posted, and the answer or the exception.\<close>

type_synonym entry_outcome = "limiter_registry \<times> wave_input option \<times> pydict result option"

definition create_expense_via_api ::
  "py_env \<Rightarrow> wave_ports \<Rightarrow> wave_handler \<Rightarrow> pydict \<Rightarrow> slot_clock \<Rightarrow> limiter_registry \<Rightarrow> entry_outcome" where
  "create_expense_via_api env ports h data clk reg =
     (let prepared =
        rbind (classify_wave_destination env data) (\<lambda>dest.
        rbind (case map_of data ''category'' of None \<Rightarrow> Inl KeyError | Some c \<Rightarrow> map_category h c) (\<lambda>category.
        rbind (build_wave_action_payload env data category
                 (handler_setting h ''_default_account'' (PStr ''Uncategorized''))) (\<lambda>payload.
        rbind (description_of env h data) (\<lambda>description.
        rbind (build_expense_transaction_input env (wo_loads ports) (handler_accounts h) description data) (\<lambda>built.
          Inr (dest, payload, built))))))
      in case prepared of
           Inl e \<Rightarrow> (reg, None, Some (Inl e))
         | Inr (dest, payload, built) \<Rightarrow>
             (let action = action_for_surface (ds_target dest);
                  plan = PDict (plan_value action (plan_wave_action (wo_catalog ports) (ds_target dest) action payload False))
              in case built of
                   Fields_missing missing mapped \<Rightarrow>
                     (reg, None, Some (Inr
                       [(''status'', PStr ''needs_review''), (''message'', PStr (missing_fields_message missing)),
                        (''requires_manual_review'', PBool True), (''missing_fields'', PList (map PStr missing)),
                        (''target_surface'', PStr (ds_fallback dest)), (''action_plan'', plan)]))
                 | Transaction inp \<Rightarrow>
                     (case acquire_outbound_slot (wh_config h) ''waveapps'' clk reg of
                        (reg', Slot_deferred d) \<Rightarrow>
                          (reg', None, Some (Inr (dupdate d
                             [(''target_surface'', PStr (ds_target dest)), (''action_plan'', plan)])))
                      | (reg', Slot_fault e) \<Rightarrow> (reg', None, Some (Inl e))
                      | (reg', Slot_waiting) \<Rightarrow> (reg', None, None)
                      | (reg', Slot_admitted) \<Rightarrow>
                          (reg', Some inp,
                           Some (settle_reply env ports h dest action payload
                             (wo_post ports (dget_or (wh_config h) ''waveapps_api_url''
                                (PStr ''https://gql.waveapps.com/graphql/public'')) inp))))))"

definition csv_fallback ::
  "py_env \<Rightarrow> wave_ports \<Rightarrow> wave_handler \<Rightarrow> pydict \<Rightarrow> pydict result" where
  "csv_fallback env ports h data =
     rbind (case map_of data ''document_id'' of None \<Rightarrow> Inl KeyError | Some v \<Rightarrow> Inr v) (\<lambda>doc.
     rbind (case map_of data ''category'' of None \<Rightarrow> Inl KeyError | Some c \<Rightarrow> map_category h c) (\<lambda>category.
     rbind (build_wave_expense_import_row env data category
              (if wh_tags h \<and> dget data ''category'' = PStr ''Handicaps'' then handicap_tag h else PStr [])) (\<lambda>row.
     rbind (classify_wave_destination env data) (\<lambda>dest.
     rbind (build_wave_action_payload env data category
              (handler_setting h ''_default_account'' (PStr ''Uncategorized''))) (\<lambda>payload.
       case wo_csv ports (wh_name h @ ''_import_'' @ py_str env doc @ ''.csv'') (neutralize_csv_row row) of
         Inl err \<Rightarrow> Inl (Raised err)
       | Inr path \<Rightarrow>
           (let action = action_for_surface (ds_target dest) in
            Inr [(''status'', PStr ''csv_generated''),
                 (''message'', PStr (''CSV generated for manual upload: '' @ path)),
                 (''requires_manual_review'', PBool True), (''target_surface'', PStr (ds_target dest)),
                 (''action_plan'', PDict (plan_value action
                    (plan_wave_action (wo_catalog ports) (ds_target dest) action payload False)))]))))))"

definition enter_data ::
  "py_env \<Rightarrow> wave_ports \<Rightarrow> wave_handler \<Rightarrow> pydict \<Rightarrow> slot_clock \<Rightarrow> limiter_registry \<Rightarrow> entry_outcome" where
  "enter_data env ports h data clk reg =
     (if truthy (handler_setting h ''_access_token'' PNone) \<and> truthy (handler_setting h ''_id'' PNone)
      then create_expense_via_api env ports h data clk reg
      else (reg, None, Some (csv_fallback env ports h data)))"

section \<open>The handler of a target\<close>

text \<open>
  \<open>WaveappsApiExecutor._build_handler\<close>: the settings of the target's section become flat
  settings where none is present.
\<close>

definition set_default :: "string \<Rightarrow> pyval \<Rightarrow> pydict \<Rightarrow> pydict" where
  "set_default k v d = (case map_of d k of None \<Rightarrow> dset k v d | Some _ \<Rightarrow> d)"

definition build_handler :: "pydict \<Rightarrow> string \<Rightarrow> wave_handler" where
  "build_handler config target =
     (let flat = foldl (\<lambda>d (k, v). set_default (target @ ''_'' @ k) v d) config (as_dict (dget config target))
      in if target = ''waveapps_business'' then business_handler flat else personal_handler flat)"

end
