(* ===== verification/Wave_Catalog.thy ===== *)
theory Wave_Catalog
  imports Wave_Operator
begin

text \<open>
  The static Wave catalog of src/data_entry/waveapps_surface.py: the surfaces of each module,
  the report catalog and the 265 actions with their surface, mode, safety class and required
  fields, in the source's order, with the functions that list them.
\<close>

section \<open>Modules and reports\<close>

record wave_report =
  rp_type :: string
  rp_label :: string
  rp_date_mode :: string
  rp_default_export :: string
  rp_close_pack :: bool
  rp_reconciliation_pack :: bool

record report_section =
  rs_id :: string
  rs_label :: string
  rs_description :: string
  rs_reports :: "wave_report list"

definition report_entry :: "string \<Rightarrow> string \<Rightarrow> string \<Rightarrow> string \<Rightarrow> bool \<Rightarrow> bool \<Rightarrow> wave_report" where
  "report_entry t l m e c r =
     \<lparr>rp_type = t, rp_label = l, rp_date_mode = m, rp_default_export = e, rp_close_pack = c, rp_reconciliation_pack = r\<rparr>"

definition report_section_entry :: "string \<Rightarrow> string \<Rightarrow> string \<Rightarrow> wave_report list \<Rightarrow> report_section" where
  "report_section_entry i l d rs = \<lparr>rs_id = i, rs_label = l, rs_description = d, rs_reports = rs\<rparr>"

definition WAVE_MODULES :: "(string \<times> string list) list" where
  "WAVE_MODULES =
     [(''dashboard'', [''dashboard'']),
      (''sales_payments'', [''estimates'', ''invoices'', ''recurring_invoices'', ''customer_statements'', ''customers'', ''selling_products_services'']),
      (''purchases'', [''bills'', ''vendors'', ''buying_products_services'']),
      (''accounting'', [''transactions'', ''chart_of_accounts'']),
      (''banking'', [''connected_accounts'']),
      (''reports'', [''reports'']),
      (''settings'', [''business_settings'', ''invoice_estimate_settings'', ''financial_settings'', ''sales_tax_settings'', ''subscription_management'', ''data_export'']),
      (''integrations'', [''integrations'', ''wave_payments'', ''business_checking'', ''zoho_migration_offer''])]"

definition REPORT_CATALOG :: "report_section list" where
  "REPORT_CATALOG =
     [report_section_entry ''financial_statements'' ''Financial statements''
        ''Profit, balance, and cash movement reports used for close review.''
        [report_entry ''profit-and-loss'' ''Profit & Loss (Income Statement)'' ''date_range'' ''pdf'' True False,
         report_entry ''balance-sheet'' ''Balance Sheet'' ''as_of'' ''pdf'' True False,
         report_entry ''cash-flow'' ''Cash Flow'' ''date_range'' ''pdf'' True False],
      report_section_entry ''taxes'' ''Taxes''
        ''Sales tax collected and paid; used as VAT/BTW control evidence in FAB.''
        [report_entry ''sales-tax'' ''Sales Tax Report'' ''date_range'' ''pdf'' True False],
      report_section_entry ''customers'' ''Customers''
        ''Customer income, receivables aging, and customer credit balances.''
        [report_entry ''income-by-customer'' ''Income by Customer'' ''date_range'' ''csv'' False False,
         report_entry ''aged-receivables'' ''Aged Receivables'' ''as_of'' ''pdf'' True False,
         report_entry ''customer-credits'' ''Customer Credits'' ''as_of'' ''csv'' False False],
      report_section_entry ''vendors'' ''Vendors''
        ''Vendor spending, payable aging, and supplier evidence for exception review.''
        [report_entry ''purchases-by-vendor'' ''Purchases by Vendor'' ''date_range'' ''csv'' False True,
         report_entry ''aged-payables'' ''Aged Payables'' ''as_of'' ''pdf'' True False],
      report_section_entry ''detailed_reporting'' ''Detailed reporting''
        ''Account balances, trial balance, and general-ledger rows for reconciliation.''
        [report_entry ''account-balances'' ''Account Balances'' ''as_of'' ''csv'' True True,
         report_entry ''trial-balance'' ''Trial Balance'' ''as_of'' ''pdf'' True True,
         report_entry ''account-transactions'' ''Account Transactions (General Ledger)'' ''date_range'' ''csv'' True True]]"

definition list_wave_surfaces :: "string list" where
  "list_wave_surfaces = concat (map snd WAVE_MODULES)"

definition list_wave_report_sections :: "(string \<times> string \<times> string \<times> nat) list" where
  "list_wave_report_sections =
     map (\<lambda>s. (rs_id s, rs_label s, rs_description s, length (rs_reports s))) REPORT_CATALOG"

text \<open>Each report with the id and the label of its section; an empty filter lists all.\<close>

definition list_wave_reports :: "string option \<Rightarrow> (string \<times> string \<times> wave_report) list" where
  "list_wave_reports section =
     concat (map (\<lambda>s. map (\<lambda>r. (rs_id s, rs_label s, r)) (rs_reports s))
       (filter (\<lambda>s. case section of None \<Rightarrow> True | Some k \<Rightarrow> k = [] \<or> rs_id s = k) REPORT_CATALOG))"

definition get_wave_report :: "string \<Rightarrow> wave_report option" where
  "get_wave_report report_type =
     map_option (\<lambda>(_, _, r). r) (List.find (\<lambda>(_, _, r). rp_type r = report_type) (list_wave_reports None))"

definition given_text :: "string option \<Rightarrow> string" where
  "given_text v = (case v of None \<Rightarrow> [] | Some s \<Rightarrow> s)"

definition first_of :: "string option list \<Rightarrow> string" where
  "first_of vs = (case filter (\<lambda>s. s \<noteq> []) (map given_text vs) of [] \<Rightarrow> [] | s # _ \<Rightarrow> s)"

definition build_wave_report_payload ::
  "string \<Rightarrow> string option \<Rightarrow> string option \<Rightarrow> string option \<Rightarrow> string \<Rightarrow> string \<Rightarrow> string \<Rightarrow> string option \<Rightarrow> pydict" where
  "build_wave_report_payload report_type from_date to_date as_of basis account contact fmt =
     [(''reportType'', PStr report_type), (''basis'', PStr basis), (''accountOption'', PStr account),
      (''contactOption'', PStr contact)] @
     (if map_option rp_date_mode (get_wave_report report_type) = Some ''as_of''
      then [(''asOfDate'', PStr (first_of [as_of, to_date, from_date]))]
      else [(''fromDate'', PStr (given_text from_date)), (''toDate'', PStr (first_of [to_date, as_of, from_date]))]) @
     (if given_text fmt = [] then [] else [(''format'', PStr (given_text fmt))])"

section \<open>Actions\<close>

definition wave_action_entry :: "string \<Rightarrow> string \<Rightarrow> string \<Rightarrow> string list \<Rightarrow> wave_action" where
  "wave_action_entry surface mode safety required =
     \<lparr>wa_surface = surface, wa_mode = mode, wa_safety = safety, wa_required = required\<rparr>"

definition OVERVIEW_ACTIONS :: "(string \<times> wave_action) list" where
  "OVERVIEW_ACTIONS =
     [(''dashboard_account_prompt_acknowledge'', wave_action_entry ''dashboard'' ''write'' ''safe_draft'' [''promptId'']),
      (''dashboard_widget_filter'', wave_action_entry ''dashboard'' ''read'' ''read_only'' []),
      (''dashboard_widget_report_open'', wave_action_entry ''reports'' ''read'' ''read_only'' [''widgetId'']),
      (''dashboard_customize'', wave_action_entry ''dashboard'' ''write'' ''safe_draft'' [''layoutPreset''])]"

definition ESTIMATE_ACTIONS :: "(string \<times> wave_action) list" where
  "ESTIMATE_ACTIONS =
     [(''estimate_create'', wave_action_entry ''estimates'' ''write'' ''safe_draft'' [''customer'', ''lineItems'']),
      (''estimate_filter'', wave_action_entry ''estimates'' ''read'' ''read_only'' []),
      (''estimate_customer_filter'', wave_action_entry ''estimates'' ''read'' ''read_only'' []),
      (''estimate_status_filter'', wave_action_entry ''estimates'' ''read'' ''read_only'' []),
      (''estimate_date_filter'', wave_action_entry ''estimates'' ''read'' ''read_only'' []),
      (''estimate_date_picker_open'', wave_action_entry ''estimates'' ''read'' ''read_only'' [''rangeSide'']),
      (''estimate_date_picker_close'', wave_action_entry ''estimates'' ''read'' ''read_only'' [''rangeSide'']),
      (''estimate_number_search'', wave_action_entry ''estimates'' ''read'' ''read_only'' []),
      (''estimate_clear_filters'', wave_action_entry ''estimates'' ''read'' ''read_only'' []),
      (''estimate_tab_view'', wave_action_entry ''estimates'' ''read'' ''read_only'' [''tab'']),
      (''estimate_update'', wave_action_entry ''estimates'' ''write'' ''safe_draft'' [''estimateId'', ''changes'']),
      (''estimate_send'', wave_action_entry ''estimates'' ''write'' ''requires_confirmation'' [''estimateId'', ''recipientEmail'']),
      (''estimate_download_pdf'', wave_action_entry ''estimates'' ''export'' ''read_only'' [''estimateId'']),
      (''estimate_pdf_dialog_close'', wave_action_entry ''estimates'' ''read'' ''read_only'' []),
      (''estimate_duplicate'', wave_action_entry ''estimates'' ''write'' ''safe_draft'' [''estimateId'']),
      (''estimate_convert_to_invoice'', wave_action_entry ''estimates'' ''write'' ''requires_confirmation'' [''estimateId'']),
      (''estimate_delete'', wave_action_entry ''estimates'' ''write'' ''requires_confirmation'' [''estimateId''])]"

definition INVOICE_ACTIONS :: "(string \<times> wave_action) list" where
  "INVOICE_ACTIONS =
     [(''invoice_create'', wave_action_entry ''invoices'' ''write'' ''safe_draft'' [''customer'', ''lineItems'']),
      (''invoice_send'', wave_action_entry ''invoices'' ''write'' ''requires_confirmation'' [''invoiceId'', ''recipientEmail'']),
      (''invoice_update'', wave_action_entry ''invoices'' ''write'' ''safe_draft'' [''invoiceId'', ''changes'']),
      (''invoice_approve'', wave_action_entry ''invoices'' ''write'' ''requires_confirmation'' [''invoiceId'']),
      (''invoice_send_reminder'', wave_action_entry ''invoices'' ''write'' ''requires_confirmation'' [''invoiceId'', ''recipientEmail'']),
      (''invoice_record_payment'', wave_action_entry ''invoices'' ''write'' ''requires_confirmation'' [''invoiceId'', ''amount'', ''paymentDate'', ''account'']),
      (''invoice_download_pdf'', wave_action_entry ''invoices'' ''export'' ''read_only'' [''invoiceId'']),
      (''invoice_filter'', wave_action_entry ''invoices'' ''read'' ''read_only'' []),
      (''invoice_summary_metrics_read'', wave_action_entry ''invoices'' ''read'' ''read_only'' []),
      (''invoice_summary_refresh'', wave_action_entry ''invoices'' ''read'' ''read_only'' []),
      (''invoice_customer_filter'', wave_action_entry ''invoices'' ''read'' ''read_only'' []),
      (''invoice_status_filter'', wave_action_entry ''invoices'' ''read'' ''read_only'' []),
      (''invoice_date_filter'', wave_action_entry ''invoices'' ''read'' ''read_only'' []),
      (''invoice_date_picker_open'', wave_action_entry ''invoices'' ''read'' ''read_only'' [''rangeSide'']),
      (''invoice_date_picker_close'', wave_action_entry ''invoices'' ''read'' ''read_only'' [''rangeSide'']),
      (''invoice_number_search'', wave_action_entry ''invoices'' ''read'' ''read_only'' []),
      (''invoice_clear_filters'', wave_action_entry ''invoices'' ''read'' ''read_only'' []),
      (''invoice_tab_view'', wave_action_entry ''invoices'' ''read'' ''read_only'' [''tab'']),
      (''invoice_view_all'', wave_action_entry ''invoices'' ''read'' ''read_only'' []),
      (''invoice_duplicate'', wave_action_entry ''invoices'' ''write'' ''safe_draft'' [''invoiceId'']),
      (''invoice_delete'', wave_action_entry ''invoices'' ''write'' ''requires_confirmation'' [''invoiceId''])]"

definition RECURRING_ACTIONS :: "(string \<times> wave_action) list" where
  "RECURRING_ACTIONS =
     [(''recurring_invoice_create'', wave_action_entry ''recurring_invoices'' ''write'' ''requires_confirmation'' [''customer'', ''lineItems'', ''schedule'']),
      (''recurring_invoice_filter'', wave_action_entry ''recurring_invoices'' ''read'' ''read_only'' []),
      (''recurring_invoice_customer_filter'', wave_action_entry ''recurring_invoices'' ''read'' ''read_only'' []),
      (''recurring_invoice_tab_view'', wave_action_entry ''recurring_invoices'' ''read'' ''read_only'' [''tab'']),
      (''recurring_invoice_table_read'', wave_action_entry ''recurring_invoices'' ''read'' ''read_only'' []),
      (''recurring_invoice_view_drafts'', wave_action_entry ''recurring_invoices'' ''read'' ''read_only'' []),
      (''recurring_invoice_update'', wave_action_entry ''recurring_invoices'' ''write'' ''requires_confirmation'' [''recurringInvoiceId'', ''changes'']),
      (''recurring_invoice_activate'', wave_action_entry ''recurring_invoices'' ''write'' ''requires_confirmation'' [''recurringInvoiceId'']),
      (''recurring_invoice_pause'', wave_action_entry ''recurring_invoices'' ''write'' ''requires_confirmation'' [''recurringInvoiceId'']),
      (''recurring_invoice_delete'', wave_action_entry ''recurring_invoices'' ''write'' ''requires_confirmation'' [''recurringInvoiceId'']),
      (''customer_statement_help_open'', wave_action_entry ''customer_statements'' ''read'' ''read_only'' []),
      (''customer_statement_customer_select'', wave_action_entry ''customer_statements'' ''read'' ''read_only'' [''customer'']),
      (''customer_statement_type_select'', wave_action_entry ''customer_statements'' ''read'' ''read_only'' [''statementType'']),
      (''customer_statement_create'', wave_action_entry ''customer_statements'' ''export'' ''read_only'' [''customer'', ''statementType'']),
      (''customer_statement_export'', wave_action_entry ''customer_statements'' ''export'' ''read_only'' [''statementId'', ''format'']),
      (''customer_statement_send'', wave_action_entry ''customer_statements'' ''write'' ''requires_confirmation'' [''statementId'', ''recipientEmail''])]"

definition CUSTOMER_ACTIONS :: "(string \<times> wave_action) list" where
  "CUSTOMER_ACTIONS =
     [(''customer_list_read'', wave_action_entry ''customers'' ''read'' ''read_only'' []),
      (''customer_row_actions_open'', wave_action_entry ''customers'' ''read'' ''read_only'' [''customerId'']),
      (''customer_view'', wave_action_entry ''customers'' ''read'' ''read_only'' [''customerId'']),
      (''customer_create'', wave_action_entry ''customers'' ''write'' ''safe_draft'' [''name'']),
      (''customer_form_fill'', wave_action_entry ''customers'' ''write'' ''safe_draft'' [''name'']),
      (''customer_add_phone'', wave_action_entry ''customers'' ''write'' ''safe_draft'' [''customerDraftId'']),
      (''customer_add_contact'', wave_action_entry ''customers'' ''write'' ''safe_draft'' [''customerDraftId'']),
      (''customer_clear_address'', wave_action_entry ''customers'' ''write'' ''safe_draft'' [''addressType'']),
      (''customer_cancel_form'', wave_action_entry ''customers'' ''read'' ''read_only'' []),
      (''customer_update'', wave_action_entry ''customers'' ''write'' ''requires_confirmation'' [''customerId'']),
      (''customer_create_invoice'', wave_action_entry ''customers'' ''write'' ''safe_draft'' [''customerId'']),
      (''customer_delete'', wave_action_entry ''customers'' ''write'' ''requires_confirmation'' [''customerId'']),
      (''customer_search'', wave_action_entry ''customers'' ''read'' ''read_only'' []),
      (''customer_import_csv_choose_file'', wave_action_entry ''customers'' ''write'' ''requires_confirmation'' [''csvPath'']),
      (''customer_import_csv_preview'', wave_action_entry ''customers'' ''write'' ''requires_confirmation'' [''csvPath'']),
      (''customer_import_csv_instructions'', wave_action_entry ''customers'' ''read'' ''read_only'' []),
      (''customer_import_csv_template_download'', wave_action_entry ''customers'' ''export'' ''read_only'' []),
      (''customer_import_csv'', wave_action_entry ''customers'' ''write'' ''requires_confirmation'' [''csvPath''])]"

definition SELLING_PRODUCT_ACTIONS :: "(string \<times> wave_action) list" where
  "SELLING_PRODUCT_ACTIONS =
     [(''product_service_list_read'', wave_action_entry ''selling_products_services'' ''read'' ''read_only'' []),
      (''product_service_form_read'', wave_action_entry ''selling_products_services'' ''read'' ''read_only'' []),
      (''product_service_form_fill'', wave_action_entry ''selling_products_services'' ''write'' ''safe_draft'' [''name'']),
      (''product_service_sell_toggle'', wave_action_entry ''selling_products_services'' ''write'' ''safe_draft'' [''sellThis'']),
      (''product_service_buy_toggle'', wave_action_entry ''selling_products_services'' ''write'' ''safe_draft'' [''buyThis'']),
      (''product_service_income_account_select'', wave_action_entry ''selling_products_services'' ''write'' ''safe_draft'' [''incomeAccount'']),
      (''product_service_expense_account_select'', wave_action_entry ''selling_products_services'' ''write'' ''safe_draft'' [''expenseAccount'']),
      (''product_service_tax_select'', wave_action_entry ''selling_products_services'' ''write'' ''safe_draft'' [''taxId'']),
      (''selling_product_service_upsert'', wave_action_entry ''selling_products_services'' ''write'' ''safe_draft'' [''name''])]"

definition BILL_ACTIONS :: "(string \<times> wave_action) list" where
  "BILL_ACTIONS =
     [(''bill_workspace_read'', wave_action_entry ''bills'' ''read'' ''read_only'' []),
      (''bill_form_read'', wave_action_entry ''bills'' ''read'' ''read_only'' []),
      (''bill_form_fill'', wave_action_entry ''bills'' ''write'' ''safe_draft'' [''vendor'', ''billDate'']),
      (''bill_line_item_fill'', wave_action_entry ''bills'' ''write'' ''safe_draft'' [''expenseCategory'', ''description'', ''quantity'', ''price'']),
      (''bill_line_item_delete'', wave_action_entry ''bills'' ''write'' ''safe_draft'' [''lineItemIndex'']),
      (''bill_cancel_form'', wave_action_entry ''bills'' ''read'' ''read_only'' []),
      (''bill_create'', wave_action_entry ''bills'' ''write'' ''safe_draft'' [''vendor'', ''billDate'', ''lineItems'']),
      (''bill_update'', wave_action_entry ''bills'' ''write'' ''safe_draft'' [''billId'', ''changes'']),
      (''bill_attach_receipt'', wave_action_entry ''bills'' ''write'' ''safe_draft'' [''billId'', ''attachmentPath'']),
      (''bill_mark_paid'', wave_action_entry ''bills'' ''write'' ''requires_confirmation'' [''billId'', ''paymentDate'', ''account'', ''amount'']),
      (''bill_filter'', wave_action_entry ''bills'' ''read'' ''read_only'' []),
      (''bill_delete'', wave_action_entry ''bills'' ''write'' ''requires_confirmation'' [''billId''])]"

definition VENDOR_ACTIONS :: "(string \<times> wave_action) list" where
  "VENDOR_ACTIONS =
     [(''vendor_list_read'', wave_action_entry ''vendors'' ''read'' ''read_only'' []),
      (''vendor_form_read'', wave_action_entry ''vendors'' ''read'' ''read_only'' []),
      (''vendor_form_fill'', wave_action_entry ''vendors'' ''write'' ''safe_draft'' [''name'']),
      (''vendor_import_menu_open'', wave_action_entry ''vendors'' ''read'' ''read_only'' []),
      (''vendor_create'', wave_action_entry ''vendors'' ''write'' ''safe_draft'' [''name'']),
      (''vendor_create_bill'', wave_action_entry ''vendors'' ''write'' ''safe_draft'' [''vendorId'']),
      (''vendor_update'', wave_action_entry ''vendors'' ''write'' ''requires_confirmation'' [''vendorId'']),
      (''vendor_import_csv'', wave_action_entry ''vendors'' ''write'' ''requires_confirmation'' [''csvPath'']),
      (''vendor_import_google_contacts'', wave_action_entry ''vendors'' ''connect'' ''requires_confirmation'' [''googleAccount'']),
      (''vendor_delete'', wave_action_entry ''vendors'' ''write'' ''requires_confirmation'' [''vendorId''])]"

definition BUYING_PRODUCT_ACTIONS :: "(string \<times> wave_action) list" where
  "BUYING_PRODUCT_ACTIONS =
     [(''buying_product_service_list_read'', wave_action_entry ''buying_products_services'' ''read'' ''read_only'' []),
      (''buying_product_service_form_read'', wave_action_entry ''buying_products_services'' ''read'' ''read_only'' []),
      (''buying_product_service_default_state_read'', wave_action_entry ''buying_products_services'' ''read'' ''read_only'' []),
      (''buying_product_service_form_fill'', wave_action_entry ''buying_products_services'' ''write'' ''safe_draft'' [''name'']),
      (''buying_product_service_sell_toggle'', wave_action_entry ''buying_products_services'' ''write'' ''safe_draft'' [''sellThis'']),
      (''buying_product_service_buy_toggle'', wave_action_entry ''buying_products_services'' ''write'' ''safe_draft'' [''buyThis'']),
      (''buying_product_service_income_account_select'', wave_action_entry ''buying_products_services'' ''write'' ''safe_draft'' [''incomeAccount'']),
      (''buying_product_service_expense_account_select'', wave_action_entry ''buying_products_services'' ''write'' ''safe_draft'' [''expenseAccount'']),
      (''buying_product_service_account_create'', wave_action_entry ''buying_products_services'' ''write'' ''requires_confirmation'' [''accountName'', ''accountType'']),
      (''buying_product_service_tax_select'', wave_action_entry ''buying_products_services'' ''write'' ''safe_draft'' [''taxId'']),
      (''buying_product_service_upsert'', wave_action_entry ''buying_products_services'' ''write'' ''safe_draft'' [''name'']),
      (''buying_product_service_update'', wave_action_entry ''buying_products_services'' ''write'' ''requires_confirmation'' [''productServiceId'']),
      (''buying_product_service_delete'', wave_action_entry ''buying_products_services'' ''write'' ''requires_confirmation'' [''productServiceId'']),
      (''product_service_update'', wave_action_entry ''selling_products_services'' ''write'' ''requires_confirmation'' [''productServiceId'']),
      (''product_service_delete'', wave_action_entry ''selling_products_services'' ''write'' ''requires_confirmation'' [''productServiceId''])]"

definition TRANSACTION_ACTIONS :: "(string \<times> wave_action) list" where
  "TRANSACTION_ACTIONS =
     [(''transaction_add'', wave_action_entry ''transactions'' ''write'' ''safe_draft'' [''date'', ''amount'', ''account'', ''category'']),
      (''transaction_workspace_read'', wave_action_entry ''transactions'' ''read'' ''read_only'' []),
      (''transaction_more_menu_open'', wave_action_entry ''transactions'' ''read'' ''read_only'' []),
      (''transaction_account_filter_select'', wave_action_entry ''transactions'' ''read'' ''read_only'' [''account'']),
      (''transaction_account_upload_statement'', wave_action_entry ''transactions'' ''write'' ''requires_confirmation'' [''account'']),
      (''transaction_account_create'', wave_action_entry ''transactions'' ''write'' ''requires_confirmation'' [''accountName'', ''accountType'']),
      (''transaction_add_deposit'', wave_action_entry ''transactions'' ''write'' ''safe_draft'' [''date'', ''amount'', ''account'', ''category'']),
      (''transaction_add_withdrawal'', wave_action_entry ''transactions'' ''write'' ''safe_draft'' [''date'', ''amount'', ''account'', ''category'']),
      (''transaction_add_journal_entry'', wave_action_entry ''transactions'' ''write'' ''requires_confirmation'' [''date'', ''lines'']),
      (''transaction_form_fill'', wave_action_entry ''transactions'' ''write'' ''safe_draft'' [''date'', ''description'', ''amount'']),
      (''transaction_date_picker_open'', wave_action_entry ''transactions'' ''write'' ''safe_draft'' [''date'']),
      (''transaction_account_select'', wave_action_entry ''transactions'' ''write'' ''safe_draft'' [''account'']),
      (''transaction_type_select'', wave_action_entry ''transactions'' ''write'' ''safe_draft'' [''type'']),
      (''transaction_category_select'', wave_action_entry ''transactions'' ''write'' ''safe_draft'' [''category'']),
      (''transaction_sales_tax_toggle'', wave_action_entry ''transactions'' ''write'' ''safe_draft'' [''includeSalesTax'']),
      (''transaction_customer_select'', wave_action_entry ''transactions'' ''write'' ''safe_draft'' [''customer'']),
      (''transaction_vendor_select'', wave_action_entry ''transactions'' ''write'' ''safe_draft'' [''vendor'']),
      (''transaction_note_fill'', wave_action_entry ''transactions'' ''write'' ''safe_draft'' [''note'']),
      (''transaction_cancel_form'', wave_action_entry ''transactions'' ''read'' ''read_only'' []),
      (''transaction_row_read'', wave_action_entry ''transactions'' ''read'' ''read_only'' []),
      (''transaction_sort'', wave_action_entry ''transactions'' ''read'' ''read_only'' []),
      (''transaction_sort_newest_to_oldest'', wave_action_entry ''transactions'' ''read'' ''read_only'' []),
      (''transaction_sort_oldest_to_newest'', wave_action_entry ''transactions'' ''read'' ''read_only'' []),
      (''transaction_search'', wave_action_entry ''transactions'' ''read'' ''read_only'' [''query'']),
      (''transaction_search_submit'', wave_action_entry ''transactions'' ''read'' ''read_only'' [''query'']),
      (''transaction_bulk_select'', wave_action_entry ''transactions'' ''read'' ''read_only'' [''transactionIds''])]"

definition TRANSACTION_REVIEW_ACTIONS :: "(string \<times> wave_action) list" where
  "TRANSACTION_REVIEW_ACTIONS =
     [(''transaction_load_more'', wave_action_entry ''transactions'' ''read'' ''read_only'' []),
      (''transaction_reconciliation_toggle_read'', wave_action_entry ''transactions'' ''read'' ''read_only'' []),
      (''transaction_reconciliation_notice_read'', wave_action_entry ''transactions'' ''read'' ''read_only'' []),
      (''transaction_notice_close'', wave_action_entry ''transactions'' ''read'' ''read_only'' []),
      (''transaction_filter'', wave_action_entry ''transactions'' ''read'' ''read_only'' []),
      (''transaction_update'', wave_action_entry ''transactions'' ''write'' ''safe_draft'' [''transactionId'', ''changes'']),
      (''transaction_categorize'', wave_action_entry ''transactions'' ''write'' ''safe_draft'' [''transactionId'', ''category'']),
      (''transaction_split'', wave_action_entry ''transactions'' ''write'' ''requires_confirmation'' [''transactionId'', ''splits'']),
      (''transaction_attach_receipt'', wave_action_entry ''transactions'' ''write'' ''safe_draft'' [''transactionId'', ''attachmentPath'']),
      (''transaction_mark_reviewed'', wave_action_entry ''transactions'' ''write'' ''safe_draft'' [''transactionId'']),
      (''transaction_reconcile'', wave_action_entry ''transactions'' ''write'' ''requires_confirmation'' [''transactionId'', ''statementId'']),
      (''transaction_merge'', wave_action_entry ''transactions'' ''write'' ''requires_confirmation'' [''transactionIds'']),
      (''transaction_delete'', wave_action_entry ''transactions'' ''write'' ''requires_confirmation'' [''transactionId'']),
      (''statement_upload'', wave_action_entry ''transactions'' ''write'' ''requires_confirmation'' [''filePath'', ''account'']),
      (''statement_upload_instructions_read'', wave_action_entry ''transactions'' ''read'' ''read_only'' []),
      (''statement_file_choose'', wave_action_entry ''transactions'' ''write'' ''requires_confirmation'' [''filePath'']),
      (''statement_payment_account_select'', wave_action_entry ''transactions'' ''write'' ''requires_confirmation'' [''account'']),
      (''statement_account_create'', wave_action_entry ''transactions'' ''write'' ''requires_confirmation'' [''accountName'', ''accountType'']),
      (''statement_upload_help_open'', wave_action_entry ''transactions'' ''read'' ''read_only'' []),
      (''statement_csv_template_download'', wave_action_entry ''transactions'' ''read'' ''read_only'' [])]"

definition CHART_ACTIONS :: "(string \<times> wave_action) list" where
  "CHART_ACTIONS =
     [(''chart_account_list_read'', wave_action_entry ''chart_of_accounts'' ''read'' ''read_only'' []),
      (''chart_account_help_open'', wave_action_entry ''chart_of_accounts'' ''read'' ''read_only'' []),
      (''chart_account_tab_view'', wave_action_entry ''chart_of_accounts'' ''read'' ''read_only'' [''tab'']),
      (''chart_account_section_read'', wave_action_entry ''chart_of_accounts'' ''read'' ''read_only'' []),
      (''chart_account_activity_read'', wave_action_entry ''chart_of_accounts'' ''read'' ''read_only'' []),
      (''chart_account_form_read'', wave_action_entry ''chart_of_accounts'' ''read'' ''read_only'' []),
      (''chart_account_type_picker_open'', wave_action_entry ''chart_of_accounts'' ''read'' ''read_only'' []),
      (''chart_account_type_search'', wave_action_entry ''chart_of_accounts'' ''read'' ''read_only'' [''query'']),
      (''chart_account_type_select'', wave_action_entry ''chart_of_accounts'' ''write'' ''requires_confirmation'' [''type'']),
      (''chart_account_currency_select'', wave_action_entry ''chart_of_accounts'' ''write'' ''requires_confirmation'' [''currency'']),
      (''chart_account_form_fill'', wave_action_entry ''chart_of_accounts'' ''write'' ''requires_confirmation'' [''name'', ''type'']),
      (''chart_account_cancel_form'', wave_action_entry ''chart_of_accounts'' ''read'' ''read_only'' []),
      (''chart_account_create'', wave_action_entry ''chart_of_accounts'' ''write'' ''requires_confirmation'' [''name'', ''type'']),
      (''chart_account_update'', wave_action_entry ''chart_of_accounts'' ''write'' ''requires_confirmation'' [''accountId'', ''changes'']),
      (''chart_account_archive'', wave_action_entry ''chart_of_accounts'' ''write'' ''requires_confirmation'' [''accountId'']),
      (''chart_account_map'', wave_action_entry ''chart_of_accounts'' ''write'' ''safe_draft'' [''fabCategory'', ''waveAccount''])]"

definition CONNECTED_ACCOUNT_ACTIONS :: "(string \<times> wave_action) list" where
  "CONNECTED_ACCOUNT_ACTIONS =
     [(''connected_account_connect'', wave_action_entry ''connected_accounts'' ''connect'' ''requires_confirmation'' [''institution'']),
      (''connected_account_unavailable_read'', wave_action_entry ''connected_accounts'' ''read'' ''read_only'' []),
      (''connected_account_manual_entry_plan'', wave_action_entry ''connected_accounts'' ''write'' ''safe_draft'' []),
      (''connected_account_statement_help_open'', wave_action_entry ''connected_accounts'' ''read'' ''read_only'' []),
      (''connected_account_statement_format_read'', wave_action_entry ''connected_accounts'' ''read'' ''read_only'' []),
      (''connected_account_statement_upload_steps_read'', wave_action_entry ''connected_accounts'' ''read'' ''read_only'' []),
      (''connected_account_statement_mapping_confirm'', wave_action_entry ''connected_accounts'' ''write'' ''requires_confirmation'' [''mappingType'']),
      (''connected_account_statement_upload_complete'', wave_action_entry ''connected_accounts'' ''write'' ''requires_confirmation'' [''filePath'', ''paymentAccount'', ''mapping'']),
      (''connected_account_csv_help_open'', wave_action_entry ''connected_accounts'' ''read'' ''read_only'' []),
      (''connected_account_payment_account_help_open'', wave_action_entry ''connected_accounts'' ''read'' ''read_only'' []),
      (''connected_account_wave_connect_help_open'', wave_action_entry ''connected_accounts'' ''read'' ''read_only'' []),
      (''connected_account_auto_updates_help_open'', wave_action_entry ''connected_accounts'' ''read'' ''read_only'' []),
      (''connected_account_support_open'', wave_action_entry ''connected_accounts'' ''connect'' ''requires_confirmation'' []),
      (''connected_account_help_feedback'', wave_action_entry ''connected_accounts'' ''write'' ''requires_confirmation'' [''feedback'']),
      (''connected_account_help_share'', wave_action_entry ''connected_accounts'' ''connect'' ''requires_confirmation'' [''network'']),
      (''connected_account_refresh'', wave_action_entry ''connected_accounts'' ''connect'' ''requires_credentials'' [''connectedAccountId''])]"

definition REPORT_ACTIONS :: "(string \<times> wave_action) list" where
  "REPORT_ACTIONS =
     [(''report_open'', wave_action_entry ''reports'' ''read'' ''read_only'' [''reportType'']),
      (''report_catalog_section_read'', wave_action_entry ''reports'' ''read'' ''read_only'' [''section'']),
      (''report_filter'', wave_action_entry ''reports'' ''read'' ''read_only'' [''reportType'']),
      (''report_date_range_set'', wave_action_entry ''reports'' ''read'' ''read_only'' [''reportType'', ''fromDate'', ''toDate'']),
      (''report_as_of_date_set'', wave_action_entry ''reports'' ''read'' ''read_only'' [''reportType'', ''asOfDate'']),
      (''report_date_picker_open'', wave_action_entry ''reports'' ''read'' ''read_only'' [''reportType'', ''field'']),
      (''report_basis_select'', wave_action_entry ''reports'' ''read'' ''read_only'' [''reportType'', ''basis'']),
      (''report_account_filter_select'', wave_action_entry ''reports'' ''read'' ''read_only'' [''reportType'', ''accountOption'']),
      (''report_contact_filter_select'', wave_action_entry ''reports'' ''read'' ''read_only'' [''reportType'', ''contactOption'']),
      (''report_type_help_read'', wave_action_entry ''reports'' ''read'' ''read_only'' [''reportType'']),
      (''report_update'', wave_action_entry ''reports'' ''read'' ''read_only'' [''reportType'']),
      (''report_view_toggle'', wave_action_entry ''reports'' ''read'' ''read_only'' [''reportType'', ''view'']),
      (''report_table_read'', wave_action_entry ''reports'' ''read'' ''read_only'' [''reportType'']),
      (''report_empty_state_read'', wave_action_entry ''reports'' ''read'' ''read_only'' [''reportType'']),
      (''report_export_menu_open'', wave_action_entry ''reports'' ''export'' ''read_only'' [''reportType'']),
      (''report_export'', wave_action_entry ''reports'' ''export'' ''read_only'' [''reportType'', ''format'']),
      (''report_drilldown'', wave_action_entry ''reports'' ''read'' ''read_only'' [''reportType'', ''lineItem''])]"

definition SETTINGS_ACTIONS :: "(string \<times> wave_action) list" where
  "SETTINGS_ACTIONS =
     [(''business_user_invite'', wave_action_entry ''business_settings'' ''admin'' ''requires_confirmation'' [''email'', ''role'']),
      (''business_user_delete'', wave_action_entry ''business_settings'' ''admin'' ''requires_confirmation'' [''userId'']),
      (''business_user_role_update'', wave_action_entry ''business_settings'' ''admin'' ''requires_confirmation'' [''userId'', ''role'']),
      (''business_invoice_estimate_settings_update'', wave_action_entry ''business_settings'' ''admin'' ''requires_confirmation'' [''settingChanges'']),
      (''financial_settings_update'', wave_action_entry ''financial_settings'' ''admin'' ''requires_confirmation'' [''settingChanges'']),
      (''sales_tax_create'', wave_action_entry ''sales_tax_settings'' ''admin'' ''requires_confirmation'' [''name'', ''rate'']),
      (''sales_tax_update'', wave_action_entry ''sales_tax_settings'' ''admin'' ''requires_confirmation'' [''taxId'', ''changes'']),
      (''sales_tax_delete'', wave_action_entry ''sales_tax_settings'' ''admin'' ''requires_confirmation'' [''taxId'']),
      (''subscription_status_read'', wave_action_entry ''subscription_management'' ''read'' ''read_only'' []),
      (''payroll_billing_open'', wave_action_entry ''subscription_management'' ''admin'' ''requires_confirmation'' []),
      (''wave_advisors_portal_open'', wave_action_entry ''subscription_management'' ''admin'' ''requires_confirmation'' []),
      (''data_export_start'', wave_action_entry ''data_export'' ''export'' ''requires_confirmation'' [''exportScope'']),
      (''business_switch'', wave_action_entry ''business_settings'' ''admin'' ''requires_confirmation'' [''businessId'']),
      (''profile_settings_update'', wave_action_entry ''business_settings'' ''admin'' ''requires_confirmation'' [''profileChanges'']),
      (''feedback_send'', wave_action_entry ''business_settings'' ''admin'' ''requires_confirmation'' [''message'']),
      (''sign_out'', wave_action_entry ''business_settings'' ''admin'' ''unsupported'' []),
      (''back_to_wave'', wave_action_entry ''business_settings'' ''read'' ''read_only'' []),
      (''wave_help_open'', wave_action_entry ''business_settings'' ''read'' ''read_only'' [''article'']),
      (''business_list_read'', wave_action_entry ''business_settings'' ''read'' ''read_only'' []),
      (''business_profile_read'', wave_action_entry ''business_settings'' ''read'' ''read_only'' [''businessId'']),
      (''business_profile_update'', wave_action_entry ''business_settings'' ''admin'' ''requires_confirmation'' [''businessId'', ''profileChanges'']),
      (''business_create'', wave_action_entry ''business_settings'' ''admin'' ''requires_confirmation'' [''businessName'', ''country'', ''currency'']),
      (''business_set_default'', wave_action_entry ''business_settings'' ''admin'' ''requires_confirmation'' [''businessId'']),
      (''business_archive'', wave_action_entry ''business_settings'' ''admin'' ''requires_confirmation'' [''businessId''])]"

definition INTEGRATION_ACTIONS :: "(string \<times> wave_action) list" where
  "INTEGRATION_ACTIONS =
     [(''integration_connect'', wave_action_entry ''integrations'' ''connect'' ''requires_confirmation'' [''provider'']),
      (''google_sheets_add'', wave_action_entry ''integrations'' ''connect'' ''requires_confirmation'' [''googleAccount'']),
      (''make_workflow_use'', wave_action_entry ''integrations'' ''connect'' ''requires_confirmation'' [''workflowTemplate'']),
      (''subscription_upgrade'', wave_action_entry ''integrations'' ''admin'' ''requires_confirmation'' [''plan'']),
      (''zoho_offer_open'', wave_action_entry ''zoho_migration_offer'' ''connect'' ''requires_confirmation'' [''offerUrl'']),
      (''wave_payments_get_started'', wave_action_entry ''wave_payments'' ''connect'' ''requires_confirmation'' [''businessId'']),
      (''wave_terms_open'', wave_action_entry ''wave_payments'' ''read'' ''read_only'' [''termsType'']),
      (''wave_support_contact'', wave_action_entry ''wave_payments'' ''connect'' ''requires_confirmation'' [''topic'']),
      (''wave_advisors_consultation_open'', wave_action_entry ''wave_payments'' ''connect'' ''requires_confirmation'' [''consultationUrl'']),
      (''business_checking_open'', wave_action_entry ''business_checking'' ''read'' ''read_only'' []),
      (''business_checking_open_account'', wave_action_entry ''business_checking'' ''connect'' ''requires_confirmation'' [''provider'']),
      (''business_checking_terms_open'', wave_action_entry ''business_checking'' ''read'' ''read_only'' [''termsUrl'']),
      (''business_checking_offer_read'', wave_action_entry ''business_checking'' ''read'' ''read_only'' []),
      (''business_checking_feature_read'', wave_action_entry ''business_checking'' ''read'' ''read_only'' []),
      (''business_checking_claim_steps_read'', wave_action_entry ''business_checking'' ''read'' ''read_only'' []),
      (''business_checking_promo_terms_read'', wave_action_entry ''business_checking'' ''read'' ''read_only'' []),
      (''payroll_open'', wave_action_entry ''payroll'' ''read'' ''unsupported'' []),
      (''payroll_availability_read'', wave_action_entry ''payroll'' ''read'' ''read_only'' [''businessId'']),
      (''payroll_eligibility_rules_read'', wave_action_entry ''payroll'' ''read'' ''read_only'' []),
      (''payroll_business_settings_open'', wave_action_entry ''business_settings'' ''read'' ''read_only'' [''businessId'']),
      (''payroll_currency_read'', wave_action_entry ''business_settings'' ''read'' ''read_only'' [''businessId'']),
      (''payroll_adjust_business_settings'', wave_action_entry ''business_settings'' ''admin'' ''requires_confirmation'' [''businessSettingChanges'']),
      (''perks_open'', wave_action_entry ''integrations'' ''read'' ''read_only'' []),
      (''perk_external_open'', wave_action_entry ''integrations'' ''connect'' ''requires_confirmation'' [''partner''])]"

definition WAVE_ACTIONS :: "(string \<times> wave_action) list" where
  "WAVE_ACTIONS =
     OVERVIEW_ACTIONS @ ESTIMATE_ACTIONS @ INVOICE_ACTIONS @ RECURRING_ACTIONS @
     CUSTOMER_ACTIONS @ SELLING_PRODUCT_ACTIONS @ BILL_ACTIONS @ VENDOR_ACTIONS @
     BUYING_PRODUCT_ACTIONS @ TRANSACTION_ACTIONS @ TRANSACTION_REVIEW_ACTIONS @ CHART_ACTIONS @
     CONNECTED_ACCOUNT_ACTIONS @ REPORT_ACTIONS @ SETTINGS_ACTIONS @ INTEGRATION_ACTIONS"

definition list_wave_actions :: "string option \<Rightarrow> (string \<times> wave_action) list" where
  "list_wave_actions surface =
     filter (\<lambda>(i, a). case surface of None \<Rightarrow> True | Some k \<Rightarrow> k = [] \<or> wa_surface a = k) WAVE_ACTIONS"

text \<open>The catalog as the planner looks it up; the playbook's capabilities are given.\<close>

definition wave_surface_catalog :: "(string \<Rightarrow> capability option) \<Rightarrow> wave_catalog" where
  "wave_surface_catalog capabilities = \<lparr>wc_actions = map_of WAVE_ACTIONS, wc_capabilities = capabilities\<rparr>"

end
