(* ===== verification/Wave_Posting.thy ===== *)
theory Wave_Posting
  imports Wave_Transaction Wave_Handlers Wave_Catalog
begin

text \<open>
  What a built Wave transaction satisfies: its lines sum to the anchor amount on the opposite
  side, every amount is positive with two decimals and within half a cent of the document's,
  and every line's account comes from the configured mapping.
\<close>

section \<open>Amounts\<close>

lemma round_half_up_near: "\<bar>of_int (round_half_up r) - r\<bar> \<le> 1 / 2"
proof (cases "0 \<le> r")
  case True
  have "of_int \<lfloor>r + 1 / 2\<rfloor> \<le> r + 1 / 2" "r + 1 / 2 < of_int \<lfloor>r + 1 / 2\<rfloor> + 1"
    using floor_correct [of "r + 1 / 2"] by auto
  moreover have "round_half_up r = \<lfloor>r + 1 / 2\<rfloor>" using True by (simp add: round_half_up_def)
  ultimately show ?thesis by (intro abs_leI) (simp_all only:; argo)+
next
  case False
  have "of_int \<lfloor>1 / 2 - r\<rfloor> \<le> 1 / 2 - r" "1 / 2 - r < of_int \<lfloor>1 / 2 - r\<rfloor> + 1"
    using floor_correct [of "1 / 2 - r"] by auto
  moreover have "of_int (round_half_up r) = - (of_int \<lfloor>1 / 2 - r\<rfloor> :: rat)"
    using False by (simp add: round_half_up_def)
  ultimately show ?thesis by (intro abs_leI) (simp_all only:; argo)+
qed

lemma quantize_cents_cents:
  "quantize_cents r = Some q \<Longrightarrow> \<bar>round_half_up (r * 100)\<bar> < 10 ^ 28 \<and> q = of_int (round_half_up (r * 100)) / 100"
  unfolding quantize_cents_def Let_def by (metis not_le option.distinct(1) option.inject)

lemma quantize_cents_near:
  assumes "quantize_cents r = Some q"
  shows "\<bar>q - r\<bar> \<le> 1 / 200"
proof -
  have q: "q = of_int (round_half_up (r * 100)) / 100" using quantize_cents_cents [OF assms] by blast
  have "\<bar>q - r\<bar> = \<bar>of_int (round_half_up (r * 100)) - r * 100\<bar> / 100"
    by (simp add: q flip: abs_divide [of _ 100, simplified]) (simp add: field_simps)
  also have "\<dots> \<le> (1 / 2) / 100" using round_half_up_near [of "r * 100"] by (simp add: divide_right_mono)
  finally show ?thesis by simp
qed

lemma unsigned_amount_cases:
  "unsigned_amount v = Some a \<Longrightarrow>
     a = NaN \<or> (\<exists>r q. decimal_of v = Some (Num r) \<and> quantize_cents r = Some q \<and> q \<noteq> 0 \<and> a = Num \<bar>q\<bar>)"
  by (auto simp: unsigned_amount_def split: option.splits pyfloat.splits if_splits)

lemma unsigned_amount_pos: "unsigned_amount v = Some (Num a) \<Longrightarrow> 0 < a"
  by (drule unsigned_amount_cases) auto

lemma unsigned_amount_finite: "unsigned_amount v = Some a \<Longrightarrow> a \<noteq> Infty s"
  by (drule unsigned_amount_cases) auto

lemma unsigned_amount_cents:
  assumes "unsigned_amount v = Some (Num a)"
  shows "\<exists>n :: int. 0 < n \<and> n < 10 ^ 28 \<and> a = of_int n / 100"
proof -
  from unsigned_amount_cases [OF assms] obtain r q
    where q: "quantize_cents r = Some q" "q \<noteq> 0" "a = \<bar>q\<bar>" by auto
  from quantize_cents_cents [OF q(1)] obtain n :: int where n: "\<bar>n\<bar> < 10 ^ 28" "q = of_int n / 100" by blast
  with q(2) have "n \<noteq> 0" by auto
  with n q(3) show ?thesis by (intro exI [of _ "\<bar>n\<bar>"]) (simp del: power_numeral)
qed

lemma unsigned_amount_near:
  assumes "unsigned_amount v = Some (Num a)"
  shows "\<exists>r. decimal_of v = Some (Num r) \<and> \<bar>a - \<bar>r\<bar>\<bar> \<le> 1 / 200"
proof -
  from unsigned_amount_cases [OF assms] obtain r q
    where r: "decimal_of v = Some (Num r)" "quantize_cents r = Some q" "a = \<bar>q\<bar>" by auto
  have "\<bar>\<bar>q\<bar> - \<bar>r\<bar>\<bar> \<le> \<bar>q - r\<bar>" by (rule abs_triangle_ineq3)
  with quantize_cents_near [OF r(2)] r show ?thesis by auto
qed

section \<open>Lines\<close>

definition mapped_account :: "py_env \<Rightarrow> pydict \<Rightarrow> string \<Rightarrow> bool" where
  "mapped_account env accounts a \<longleftrightarrow> (\<exists>kv \<in> set accounts. truthy (snd kv) \<and> a = py_str env (snd kv))"

lemma mapped_account_dget: "truthy (dget d k) \<Longrightarrow> mapped_account env d (py_str env (dget d k))"
proof -
  assume t: "truthy (dget d k)"
  then obtain v where "map_of d k = Some v" "dget d k = v" by (auto simp: dget_or_def split: option.splits)
  then have "(k, v) \<in> set d \<and> truthy (snd (k, v)) \<and> py_str env (dget d k) = py_str env (snd (k, v))"
    using t map_of_SomeD [of d k v] by simp
  then show ?thesis unfolding mapped_account_def by blast
qed

lemma line_account_mapped:
  "truthy (line_account env mappings accounts category mapped item) \<Longrightarrow>
     mapped_account env accounts (py_str env (line_account env mappings accounts category mapped item))"
  by (auto simp: line_account_def Let_def py_or_def mapped_account_dget split: if_splits)

definition positive_or_NaN :: "pyfloat option \<Rightarrow> bool" where
  "positive_or_NaN x \<longleftrightarrow> x = Some NaN \<or> (\<exists>a. x = Some (Num a) \<and> 0 < a)"

lemma unsigned_amount_good: "unsigned_amount v = Some y \<Longrightarrow> positive_or_NaN (Some y)"
  by (drule unsigned_amount_cases) (auto simp: positive_or_NaN_def)

definition sound_line :: "py_env \<Rightarrow> pydict \<Rightarrow> line_balance \<Rightarrow> wave_line \<Rightarrow> bool" where
  "sound_line env accounts balance l \<longleftrightarrow>
     wl_balance l = balance \<and> mapped_account env accounts (wl_account l) \<and>
     positive_or_NaN (wl_amount l)"

lemma expense_line_sound:
  "expense_line env mappings accounts category mapped balance i item = (ls, ms) \<Longrightarrow>
     list_all (sound_line env accounts balance) ls \<and> (ms = [] \<longrightarrow> ls \<noteq> [])"
  by (auto simp: expense_line_def Let_def sound_line_def line_account_mapped unsigned_amount_good
      split: pyval.splits if_splits)

lemma expense_lines_sound:
  "expense_lines (expense_line env mappings accounts category mapped balance) i items = (ls, ms) \<Longrightarrow>
     list_all (sound_line env accounts balance) ls \<and> (ms = [] \<longrightarrow> items \<noteq> [] \<longrightarrow> ls \<noteq> [])"
proof (induction items arbitrary: i ls ms)
  case (Cons x xs)
  obtain l m where x: "expense_line env mappings accounts category mapped balance i x = (l, m)" by force
  obtain l' m' where xs: "expense_lines (expense_line env mappings accounts category mapped balance) (Suc i) xs = (l', m')"
    by force
  show ?case using Cons.prems Cons.IH [OF xs] expense_line_sound [OF x] by (auto simp: x xs)
qed simp

text \<open>The amounts of lines whose sum is a number.\<close>

abbreviation line_amount :: "wave_line \<Rightarrow> rat" where
  "line_amount l \<equiv> (case wl_amount l of Some (Num a) \<Rightarrow> a | _ \<Rightarrow> 0)"

lemma decimal_sum_Num:
  "decimal_sum (map (\<lambda>l. the (wl_amount l)) ls) = Num s \<Longrightarrow> list_all (sound_line env accounts balance) ls \<Longrightarrow>
     s = sum_list (map line_amount ls) \<and> list_all (\<lambda>l. \<exists>a. wl_amount l = Some (Num a) \<and> 0 < a) ls"
proof (induction ls arbitrary: s)
  case (Cons l ls)
  from Cons.prems(1) obtain a b where ab: "the (wl_amount l) = Num a"
      "decimal_sum (map (\<lambda>l. the (wl_amount l)) ls) = Num b" "s = a + b"
    by (auto split: pyfloat.splits)
  from Cons.prems(2) ab(1) have l: "wl_amount l = Some (Num a)" and "0 < a"
    by (auto simp: sound_line_def positive_or_NaN_def)
  then show ?case using Cons.IH [OF ab(2)] Cons.prems(2) ab(3) l by auto
qed simp

text \<open>Lines without anything missing, for a document total that is a number.\<close>

definition balanced_lines :: "py_env \<Rightarrow> pydict \<Rightarrow> line_balance \<Rightarrow> rat \<Rightarrow> wave_line list \<Rightarrow> bool" where
  "balanced_lines env accounts balance a ls \<longleftrightarrow>
     ls \<noteq> [] \<and> sum_list (map line_amount ls) = a \<and>
     list_all (\<lambda>l. wl_balance l = balance \<and> mapped_account env accounts (wl_account l) \<and>
        (\<exists>b. wl_amount l = Some (Num b) \<and> 0 < b)) ls"

lemma expense_line_items_balanced:
  assumes run: "expense_line_items env items category mapped mappings accounts (Some (Num a)) balance = Inr (ls, [])"
    and pos: "0 < a"
  shows "balanced_lines env accounts balance a ls"
proof (cases "items = []")
  case True
  with run pos show ?thesis
    by (auto simp: expense_line_items_def Let_def balanced_lines_def py_or_def mapped_account_dget split: if_splits)
next
  case False
  obtain l m where lm: "expense_lines (expense_line env mappings accounts category mapped balance) 0 items = (l, m)"
    by force
  from run False lm have l: "l = ls" "m = []" and t: "totals_differ ls (Num a) = Inr False"
    by (auto simp: expense_line_items_def split: if_splits sum.splits)
  from t have s: "decimal_sum (map (\<lambda>l. the (wl_amount l)) ls) = Num a"
    by (auto simp: totals_differ_def split: pyfloat.splits if_splits)
  have "list_all (sound_line env accounts balance) ls \<and> ls \<noteq> []"
    using expense_lines_sound [OF lm] l False by simp
  with decimal_sum_Num [OF s] show ?thesis
    by (fastforce simp: balanced_lines_def sound_line_def list_all_iff)
qed

section \<open>Transactions\<close>

text \<open>What the construction hands to the line items, and what it takes over.\<close>

definition document_fields :: "pydict \<Rightarrow> pydict" where
  "document_fields data = as_dict (dget data ''extracted_data'')"

definition document_amount :: "pydict \<Rightarrow> pyfloat option" where
  "document_amount data = unsigned_amount (dget (document_fields data) ''total_amount'')"

definition credit_balance :: "py_env \<Rightarrow> pydict \<Rightarrow> line_balance" where
  "credit_balance env data = (if is_credit env data then DECREASE else INCREASE)"

definition wave_document_lines ::
  "py_env \<Rightarrow> (string \<Rightarrow> pyval option) \<Rightarrow> wave_accounts \<Rightarrow> pydict \<Rightarrow> (wave_line list \<times> string list) result" where
  "wave_document_lines env loads wv data =
     (let category = text_or env [dget data ''category''];
          mapped = text_or env [dget (as_mapping loads (wv_mapping wv)) category, PStr category]
      in expense_line_items env (as_list (dget (document_fields data) ''line_items'')) category mapped
           (as_mapping loads (wv_mapping wv)) (as_mapping loads (wv_account_ids wv)) (document_amount data)
           (credit_balance env data))"

lemma built_transaction:
  assumes "build_expense_transaction_input env loads wv description data = Inr (Transaction inp)"
  shows "wave_document_lines env loads wv data = Inr (wi_lines inp, [])"
    and "document_amount data = Some (wi_amount inp)"
    and "wi_direction inp = (if is_credit env data then DEPOSIT else WITHDRAWAL)"
    and "wi_external_id inp = external_id env data"
    and "\<not> is_blank (wv_business_id wv) \<and> wi_business inp = py_str env (wv_business_id wv)"
    and "\<not> is_blank (wv_anchor wv) \<and> wi_account inp = py_str env (wv_anchor wv)"
    and "transaction_date env (dget (document_fields data) ''transaction_date'') = Some (wi_date inp)"
proof -
  note defs = build_expense_transaction_input_def wave_document_lines_def document_amount_def credit_balance_def
    document_fields_def Let_def
  obtain p where p: "wave_document_lines env loads wv data = Inr p"
    using assms by (simp add: defs split: sum.splits)
  obtain lines missing where "p = (lines, missing)" by force
  with p have p: "wave_document_lines env loads wv data = Inr (lines, missing)" by simp
  from assms p have
    "wave_document_lines env loads wv data = Inr (wi_lines inp, []) \<and> document_amount data = Some (wi_amount inp) \<and>
     wi_direction inp = (if is_credit env data then DEPOSIT else WITHDRAWAL) \<and>
     wi_external_id inp = external_id env data \<and>
     (\<not> is_blank (wv_business_id wv) \<and> wi_business inp = py_str env (wv_business_id wv)) \<and>
     (\<not> is_blank (wv_anchor wv) \<and> wi_account inp = py_str env (wv_anchor wv)) \<and>
     transaction_date env (dget (document_fields data) ''transaction_date'') = Some (wi_date inp)"
    by (simp add: defs split: if_splits) (auto simp: defs)
  then show "wave_document_lines env loads wv data = Inr (wi_lines inp, [])"
    and "document_amount data = Some (wi_amount inp)"
    and "wi_direction inp = (if is_credit env data then DEPOSIT else WITHDRAWAL)"
    and "wi_external_id inp = external_id env data"
    and "\<not> is_blank (wv_business_id wv) \<and> wi_business inp = py_str env (wv_business_id wv)"
    and "\<not> is_blank (wv_anchor wv) \<and> wi_account inp = py_str env (wv_anchor wv)"
    and "transaction_date env (dget (document_fields data) ''transaction_date'') = Some (wi_date inp)"
    by simp_all
qed

lemma external_id_key:
  "\<not> is_blank (dget data ''idempotency_key'') \<Longrightarrow>
     external_id env data = ''fab:'' @ py_str env (dget data ''idempotency_key'')"
  by (simp add: external_id_def)

text \<open>The day a transaction carries is a calendar date in its ISO form.\<close>

lemma transaction_date_iso: "transaction_date env v = Some s \<Longrightarrow> \<exists>d. valid_date d \<and> s = isoformat d"
  by (auto simp: transaction_date_def split: if_splits dest!: fromisoformat_valid)

text \<open>
  What leaves the program for Wave: every posted body is a balanced transaction for which the
  limiter spent exactly one call, an export's request carries its idempotency key and the
  configured business, and the places where the construction refuses or goes wrong.
\<close>

section \<open>The limiter behind a post\<close>

definition calls_spent :: "limiter_registry \<Rightarrow> int" where
  "calls_spent reg = (case map_of reg ''waveapps'' of None \<Rightarrow> 0 | Some (_, s) \<Rightarrow> rl_total s)"

lemma refresh_total [simp]: "rl_total (refresh cfg now today s) = rl_total s"
  by (simp add: refresh_def trim_windows_def rollover_day_def Let_def)

lemma try_admit_total:
  "try_admit cfg now today s = (s', a) \<Longrightarrow> rl_total s' = rl_total s + (if a = Admit then 1 else 0)"
  by (auto simp: try_admit_def Let_def record_call_def split: if_splits sum.splits)

lemma acquire_loop_total:
  "acquire_loop cfg block deadline ts s = (s', r, sleeps) \<Longrightarrow>
     rl_total s' = rl_total s + (if r = Acquired then 1 else 0)"
proof (induction ts arbitrary: s s' r sleeps)
  case (Cons t ts)
  obtain s1 a where a: "try_admit cfg (tk_now t) (tk_today t) s = (s1, a)" by force
  note total = try_admit_total [OF a]
  show ?case
  proof (cases a)
    case (Wait w)
    obtain s2 r2 sl where l: "acquire_loop cfg block deadline ts s1 = (s2, r2, sl)" by (metis prod_cases3)
    with Cons.prems Cons.IH [OF l] a total Wait show ?thesis
      by (auto simp: Let_def split: if_splits option.splits)
  qed (use Cons.prems a total in \<open>auto split: if_splits\<close>)
qed simp

lemma get_limiter_spent:
  "get_rate_limiter ''waveapps'' today reg = (reg1, cfg, s) \<Longrightarrow>
     map_of reg1 ''waveapps'' = Some (cfg, s) \<and> rl_total s = calls_spent reg"
  by (auto simp: get_rate_limiter_def Let_def calls_spent_def lower_def lower_char_def map_of_dset init_limiter_def
      split: option.splits)

lemma lower_waveapps [simp]: "lower ''waveapps'' = ''waveapps''"
  by code_simp

lemma calls_spent_dset [simp]: "calls_spent (dset ''waveapps'' (cfg, s) reg) = rl_total s"
  by (simp add: calls_spent_def map_of_dset)

lemma slot_spends_one_call:
  assumes "acquire_outbound_slot config ''waveapps'' clk reg = (reg', sl)"
  shows "calls_spent reg' = calls_spent reg + (if sl = Slot_admitted then 1 else 0)"
proof -
  obtain reg1 cfg s where g: "get_rate_limiter ''waveapps'' (sc_today clk) reg = (reg1, cfg, s)" by (metis prod_cases3)
  let ?b = "non_negative_float (dget config ''outbound_rate_limit_max_wait_seconds'') (Num 0)"
  obtain s1 r sleeps where a:
    "acquire cfg (flt_less (Num 0) ?b) (wait_budget ?b) (sc_start clk) (sc_ticks clk) s = (s1, r, sleeps)"
    by (metis prod_cases3)
  have t: "rl_total s1 = calls_spent reg + (if r = Acquired then 1 else 0)"
    using acquire_loop_total a get_limiter_spent [OF g] by (simp add: acquire_def)
  show ?thesis using assms t
    by (cases r) (auto simp: acquire_outbound_slot_def g a Let_def get_current_rate_def)
qed

section \<open>Posts\<close>

text \<open>What a handler that posted has done before.\<close>

lemma posted_expense:
  assumes "create_expense_via_api env ports h data clk reg = (reg', Some inp, out)"
  shows "(\<exists>description. build_expense_transaction_input env (wo_loads ports) (handler_accounts h) description data
            = Inr (Transaction inp)) \<and>
         acquire_outbound_slot (wh_config h) ''waveapps'' clk reg = (reg', Slot_admitted)"
proof -
  let ?prep = "rbind (classify_wave_destination env data) (\<lambda>dest.
        rbind (case map_of data ''category'' of None \<Rightarrow> Inl KeyError | Some c \<Rightarrow> map_category h c) (\<lambda>category.
        rbind (build_wave_action_payload env data category
                 (handler_setting h ''_default_account'' (PStr ''Uncategorized''))) (\<lambda>payload.
        rbind (description_of env h data) (\<lambda>description.
        rbind (build_expense_transaction_input env (wo_loads ports) (handler_accounts h) description data) (\<lambda>built.
          Inr (dest, payload, built))))))"
  obtain dest payload built where p: "?prep = Inr (dest, payload, built)"
    using assms by (cases ?prep) (auto simp: create_expense_via_api_def Let_def)
  then have b: "\<exists>description. build_expense_transaction_input env (wo_loads ports) (handler_accounts h) description data
      = Inr built"
    by (auto dest!: rbind_eq_InrD)
  from assms p have "built = Transaction inp \<and>
      acquire_outbound_slot (wh_config h) ''waveapps'' clk reg = (reg', Slot_admitted)"
    by (auto simp: create_expense_via_api_def Let_def split: wave_build.splits prod.splits slot.splits)
  with b show ?thesis by auto
qed

lemma expense_spends_calls:
  assumes "create_expense_via_api env ports h data clk reg = (reg', sent, out)"
  shows "calls_spent reg' = calls_spent reg + (if sent = None then 0 else 1)"
proof -
  obtain reg1 sl where s: "acquire_outbound_slot (wh_config h) ''waveapps'' clk reg = (reg1, sl)" by force
  from assms slot_spends_one_call [OF s] show ?thesis
    by (auto simp: create_expense_via_api_def Let_def s split: sum.splits wave_build.splits slot.splits)
qed

lemma posted_entry:
  "enter_data env ports h data clk reg = (reg', Some inp, out) \<Longrightarrow>
     truthy (handler_setting h ''_access_token'' PNone) \<and>
     create_expense_via_api env ports h data clk reg = (reg', Some inp, out)"
  by (auto simp: enter_data_def split: if_splits)

lemma entry_spends_calls:
  "enter_data env ports h data clk reg = (reg', sent, out) \<Longrightarrow>
     calls_spent reg' = calls_spent reg + (if sent = None then 0 else 1)"
  by (auto simp: enter_data_def dest: expense_spends_calls split: if_splits)

text \<open>A document with a dictionary of extracted fields always has a destination and a payload.\<close>

lemma document_type_total: "dget_or data ''extracted_data'' (PDict []) = PDict ex \<Longrightarrow> \<exists>v. document_type_value data = Inr v"
  by (auto simp: document_type_value_def extracted_get_def)

lemma destination_total:
  "dget_or data ''extracted_data'' (PDict []) = PDict ex \<Longrightarrow> \<exists>d. classify_wave_destination env data = Inr d"
  using document_type_total [of data ex] by (auto simp: classify_wave_destination_def)

lemma payload_total:
  "dget_or data ''extracted_data'' (PDict []) = PDict ex \<Longrightarrow> \<exists>p. build_wave_action_payload env data c a = Inr p"
proof -
  assume ex: "dget_or data ''extracted_data'' (PDict []) = PDict ex"
  then obtain d where "classify_wave_destination env data = Inr d" using destination_total by blast
  then show ?thesis by (simp add: build_wave_action_payload_def ex Let_def)
qed

text \<open>The steps of a post, put together.\<close>

lemma expense_posted:
  assumes ex: "dget_or data ''extracted_data'' (PDict []) = PDict ex"
    and cat: "map_of data ''category'' = Some c" "map_category h c = Inr cat"
    and descr: "description_of env h data = Inr description"
    and built: "build_expense_transaction_input env (wo_loads ports) (handler_accounts h) description data = Inr (Transaction inp)"
    and slot: "acquire_outbound_slot (wh_config h) ''waveapps'' clk reg = (reg', Slot_admitted)"
  shows "\<exists>out. create_expense_via_api env ports h data clk reg = (reg', Some inp, Some out)"
proof -
  obtain dest payload where "classify_wave_destination env data = Inr dest"
      "build_wave_action_payload env data cat (handler_setting h ''_default_account'' (PStr ''Uncategorized'')) = Inr payload"
    using destination_total [OF ex] payload_total [OF ex] by metis
  then show ?thesis using assms by (simp add: create_expense_via_api_def)
qed

lemma expense_refused:
  assumes ex: "dget_or data ''extracted_data'' (PDict []) = PDict ex"
    and cat: "map_of data ''category'' = Some c" "map_category h c = Inr cat"
    and descr: "description_of env h data = Inr description"
    and built: "build_expense_transaction_input env (wo_loads ports) (handler_accounts h) description data =
      Inr (Fields_missing missing mapped)"
  shows "\<exists>res. create_expense_via_api env ports h data clk reg = (reg, None, Some (Inr res)) \<and>
    dget res ''status'' = PStr ''needs_review'' \<and> dget res ''missing_fields'' = PList (map PStr missing)"
proof -
  obtain dest payload where "classify_wave_destination env data = Inr dest"
      "build_wave_action_payload env data cat (handler_setting h ''_default_account'' (PStr ''Uncategorized'')) = Inr payload"
    using destination_total [OF ex] payload_total [OF ex] by metis
  then show ?thesis using assms by (simp add: create_expense_via_api_def Let_def)
qed

end
