(* ===== verification/Wave_Lookups.thy ===== *)
theory Wave_Lookups
  imports Wave_Catalog
begin

text \<open>
  The catalog's entries the proofs look up, found in one pass over its 265 actions, and the
  safety classes of the actions that connect accounts or administer the business.
\<close>

definition looked_up :: "string \<Rightarrow> bool" where
  "looked_up i \<longleftrightarrow> take 7 i = ''report_'' \<or>
     i \<in> {''transaction_add'', ''bill_create'', ''invoice_create'', ''estimate_create'', ''payroll_open'',
          ''connected_account_connect''}"

definition KNOWN_ACTIONS :: "(string \<times> wave_action) list" where
  "KNOWN_ACTIONS =
    [(''estimate_create'', wave_action_entry ''estimates'' ''write'' ''safe_draft'' [''customer'', ''lineItems'']),
    (''invoice_create'', wave_action_entry ''invoices'' ''write'' ''safe_draft'' [''customer'', ''lineItems'']),
    (''bill_create'', wave_action_entry ''bills'' ''write'' ''safe_draft'' [''vendor'', ''billDate'', ''lineItems'']),
    (''transaction_add'', wave_action_entry ''transactions'' ''write'' ''safe_draft'' [''date'', ''amount'', ''account'', ''category'']),
    (''connected_account_connect'', wave_action_entry ''connected_accounts'' ''connect'' ''requires_confirmation'' [''institution'']),
    (''report_open'', wave_action_entry ''reports'' ''read'' ''read_only'' [''reportType'']),
    (''report_catalog_section_read'', wave_action_entry ''reports'' ''read'' ''read_only'' [''section'']),
    (''report_filter'', wave_action_entry ''reports'' ''read'' ''read_only'' [''reportType'']),
    (''report_date_range_set'', wave_action_entry ''reports'' ''read'' ''read_only'' [''reportType'', ''fromDate'', ''toDate'']),
    (''report_as_of_date_set'', wave_action_entry ''reports'' ''read'' ''read_only'' [''reportType'', ''asOfDate'']),
    (''report_date_picker_open'', wave_action_entry ''reports'' ''read'' ''read_only'' [''reportType'', ''field'']),
    (''report_basis_select'', wave_action_entry ''reports'' ''read'' ''read_only'' [''reportType'', ''basis'']),
    (''report_account_filter_select'', wave_action_entry ''reports'' ''read'' ''read_only'' [''reportType'', ''accountOption'']),
    (''report_contact_filter_select'', wave_action_entry ''reports'' ''read'' ''read_only'' [''reportType'', ''contactOption'']),
    (''report_type_help_read'', wave_action_entry ''reports'' ''read'' ''read_only'' [''reportType'']),
    (''report_update'', wave_action_entry ''reports'' ''read'' ''read_only'' [''reportType'']),
    (''report_view_toggle'', wave_action_entry ''reports'' ''read'' ''read_only'' [''reportType'', ''view'']),
    (''report_table_read'', wave_action_entry ''reports'' ''read'' ''read_only'' [''reportType'']),
    (''report_empty_state_read'', wave_action_entry ''reports'' ''read'' ''read_only'' [''reportType'']),
    (''report_export_menu_open'', wave_action_entry ''reports'' ''export'' ''read_only'' [''reportType'']),
    (''report_export'', wave_action_entry ''reports'' ''export'' ''read_only'' [''reportType'', ''format'']),
    (''report_drilldown'', wave_action_entry ''reports'' ''read'' ''read_only'' [''reportType'', ''lineItem'']),
    (''payroll_open'', wave_action_entry ''payroll'' ''read'' ''unsupported'' [])]"

lemma map_of_filter_keys: "P k \<Longrightarrow> map_of (filter (\<lambda>(i, a). P i) xs) k = map_of xs k"
  by (induction xs) auto

lemma known_actions: "filter (\<lambda>(i, a). looked_up i) WAVE_ACTIONS = KNOWN_ACTIONS"
  by code_simp

lemma lookup_known: "looked_up i \<Longrightarrow> map_of WAVE_ACTIONS i = map_of KNOWN_ACTIONS i"
  by (metis known_actions map_of_filter_keys)

lemma guarded_modes:
  "list_all (\<lambda>(i, a). wa_mode a \<in> {''admin'', ''connect''} \<longrightarrow>
      wa_safety a \<in> {''requires_confirmation'', ''requires_credentials'', ''unsupported''}) WAVE_ACTIONS"
  by code_simp

end
