(* ===== verification/Wave_Properties.thy ===== *)
theory Wave_Properties
  imports Wave_Posting Wave_Lookups
begin

text \<open>
  The claims about Wave postings, each with a concrete instance, and the composition of the API
  executor with the handlers.
\<close>

section \<open>A small configuration\<close>

definition shop_catalog :: wave_catalog where
  "shop_catalog =
     \<lparr>wc_actions = (\<lambda>a. if a = ''transaction_add'' then
        Some (wave_action_entry ''transactions'' ''write'' ''safe_draft'' [''date'', ''amount'', ''account'', ''category''])
        else None),
      wc_capabilities = (\<lambda>_. None)\<rparr>"

definition shop_ports :: wave_ports where
  "shop_ports =
     \<lparr>wo_catalog = shop_catalog, wo_loads = (\<lambda>_. None),
      wo_post = (\<lambda>url inp. Http_json (PDict [(''data'', PDict [(''moneyTransactionCreate'', PDict
         [(''didSucceed'', PBool True), (''transaction'', PDict [(''id'', PStr ''T1'')])])])])),
      wo_csv = (\<lambda>name row. Inr name)\<rparr>"

definition shop_config :: pydict where
  "shop_config =
     [(''waveapps_business_access_token'', PStr ''t''), (''waveapps_business_id'', PStr ''b''),
      (''waveapps_business_anchor_account_id'', PStr ''bank''),
      (''waveapps_business_category_account_ids'', PDict [(''Travel'', PStr ''acc-1''), (''Meals'', PStr ''acc-2'')])]"

definition shop_document :: "pyval \<Rightarrow> pyval list \<Rightarrow> pydict" where
  "shop_document amount lines =
     [(''category'', PStr ''Travel''), (''idempotency_key'', PStr ''op-1''),
      (''extracted_data'', PDict
         [(''total_amount'', amount), (''transaction_date'', PStr ''0024-02-29''), (''line_items'', PList lines)])]"

definition shop_line :: "string \<Rightarrow> pyval \<Rightarrow> pyval" where
  "shop_line category amount = PDict [(''category'', PStr category), (''amount'', amount)]"

definition shop_clock :: slot_clock where
  "shop_clock =
     \<lparr>sc_today = 1, sc_start = 0, sc_ticks = [\<lparr>tk_now = 0, tk_today = 1, tk_after = 0\<rparr>], sc_report = 0, sc_report_day = 1\<rparr>"

section \<open>Balance\<close>

text \<open>A total that is not a number is handed over only without line items.\<close>

lemma NaN_total_has_no_lines:
  assumes "expense_line_items env items category mapped mappings accounts (Some NaN) balance = Inr (ls, [])"
  shows "items = []"
proof (rule ccontr)
  assume ne: "items \<noteq> []"
  obtain l m where "expense_lines (expense_line env mappings accounts category mapped balance) 0 items = (l, m)" by force
  with assms ne show False
    by (auto simp: expense_line_items_def totals_differ_def split: if_splits sum.splits pyfloat.splits)
qed

text \<open>
  C1: A body posted to Wave whose amount is a number is balanced: the anchor amount is the document's
  total, unsigned, in cents and within half a cent of it, its lines are not empty, lie on the side
  opposite to the anchor, are positive, have an account of the configured mapping each and sum
  exactly to the anchor amount. The only amount that is no number is NaN, from a total that reads
  \<open>nan\<close> in a document without line items. The day is always a calendar date.
\<close>

theorem posted_transaction_is_balanced:
  assumes "enter_data env ports h data clk reg = (reg', Some inp, out)"
  shows "(case wi_amount inp of
       Num a \<Rightarrow>
         (\<exists>n :: int. 0 < n \<and> n < 10 ^ 28 \<and> a = of_int n / 100) \<and>
         (\<exists>r. decimal_of (dget (document_fields data) ''total_amount'') = Some (Num r) \<and> \<bar>a - \<bar>r\<bar>\<bar> \<le> 1 / 200) \<and>
         balanced_lines env (as_mapping (wo_loads ports) (handler_setting h ''_category_account_ids'' (PDict [])))
           (if wi_direction inp = DEPOSIT then DECREASE else INCREASE) a (wi_lines inp)
     | f \<Rightarrow>
         f = NaN \<and> decimal_of (dget (document_fields data) ''total_amount'') = Some NaN \<and>
         as_list (dget (document_fields data) ''line_items'') = []) \<and>
    (\<exists>d. valid_date d \<and> wi_date inp = isoformat d)"
proof -
  from posted_entry [OF assms] posted_expense obtain description where
    b: "build_expense_transaction_input env (wo_loads ports) (handler_accounts h) description data = Inr (Transaction inp)"
    by blast
  note t = built_transaction [OF b]
  have day: "\<exists>d. valid_date d \<and> wi_date inp = isoformat d" by (rule transaction_date_iso [OF t(7)])
  have s: "credit_balance env data = (if wi_direction inp = DEPOSIT then DECREASE else INCREASE)"
    using t(3) by (simp add: credit_balance_def)
  show ?thesis
  proof (cases "wi_amount inp")
    case (Num a)
    then have u: "unsigned_amount (dget (document_fields data) ''total_amount'') = Some (Num a)"
      using t(2) by (simp add: document_amount_def)
    from t(1) have "balanced_lines env (as_mapping (wo_loads ports) (wv_account_ids (handler_accounts h)))
        (credit_balance env data) a (wi_lines inp)"
      using t(2) Num unsigned_amount_pos [OF u] unfolding wave_document_lines_def Let_def
      by (intro expense_line_items_balanced) auto
    then show ?thesis
      using unsigned_amount_cents [OF u] unsigned_amount_near [OF u] day Num by (simp add: s handler_accounts_def)
  next
    case (Infty x)
    then show ?thesis using t(2) unsigned_amount_finite [of "dget (document_fields data) ''total_amount''" _ x]
      by (auto simp: document_amount_def)
  next
    case NaN
    then have u: "unsigned_amount (dget (document_fields data) ''total_amount'') = Some NaN"
      using t(2) by (simp add: document_amount_def)
    then have "decimal_of (dget (document_fields data) ''total_amount'') = Some NaN"
      by (auto simp: unsigned_amount_def split: option.splits pyfloat.splits if_splits)
    moreover have "as_list (dget (document_fields data) ''line_items'') = []"
      using t(1,2) NaN unfolding wave_document_lines_def Let_def by (auto intro: NaN_total_has_no_lines)
    ultimately show ?thesis using NaN day by simp
  qed
qed

definition shop_run :: "pyval \<Rightarrow> pyval list \<Rightarrow> entry_outcome" where
  "shop_run amount lines =
     enter_data plain_env shop_ports (business_handler shop_config) (shop_document amount lines) shop_clock []"

abbreviation shop_lines :: "pyval list" where
  "shop_lines \<equiv> [shop_line ''Travel'' (PInt (- 10)), shop_line ''Meals'' (PStr ''2.5'')]"

lemma shop_document_fields [simp]:
  "map_of (shop_document amount lines) ''category'' = Some (PStr ''Travel'')"
  "dget_or (shop_document amount lines) ''extracted_data'' d = PDict
     [(''total_amount'', amount), (''transaction_date'', PStr ''0024-02-29''), (''line_items'', PList lines)]"
  by (simp_all add: shop_document_def)

abbreviation shop_built :: "pyval \<Rightarrow> pyval list \<Rightarrow> wave_build result" where
  "shop_built amount lines \<equiv>
     build_expense_transaction_input plain_env (wo_loads shop_ports) (handler_accounts (business_handler shop_config)) None
       (shop_document amount lines)"

lemma shop_handler [simp]:
  "enter_data env ports (business_handler shop_config) data clk reg =
     create_expense_via_api env ports (business_handler shop_config) data clk reg"
  "map_category (business_handler shop_config) (PStr c) = Inr (PStr ''Uncategorized Expense'')"
  "description_of env (business_handler shop_config) data = Inr None"
  "wh_config (business_handler shop_config) = shop_config"
  by (simp_all add: enter_data_def handler_setting_def business_handler_def shop_config_def map_category_def
      handler_accounts_def description_of_def)

lemma shop_slot: "snd (acquire_outbound_slot shop_config ''waveapps'' shop_clock []) = Slot_admitted"
  by code_simp

lemma shop_run_posts:
  assumes "shop_built amount lines = Inr (Transaction inp)"
  shows "\<exists>reg' out. shop_run amount lines = (reg', Some inp, Some out)"
proof -
  obtain reg' where r: "acquire_outbound_slot shop_config ''waveapps'' shop_clock [] = (reg', Slot_admitted)"
    using shop_slot by (metis prod.collapse)
  show ?thesis
    using expense_posted [OF shop_document_fields(2) shop_document_fields(1) shop_handler(2) shop_handler(3) assms, of shop_clock "[]" reg']
      r by (auto simp: shop_run_def)
qed

lemma shop_posts:
  "map_sum id (\<lambda>b. case b of Transaction i \<Rightarrow> Some (wi_amount i, wi_direction i, map wl_account (wi_lines i)) | _ \<Rightarrow> None)
     (shop_built (PStr ''12.50'') shop_lines) = Inr (Some (Num (25 / 2), WITHDRAWAL, [''acc-1'', ''acc-2'']))"
  by code_simp

theorem posted_transaction_is_balanced_witness:
  "\<exists>inp. fst (snd (shop_run (PStr ''12.50'') shop_lines)) = Some inp \<and>
     (\<exists>n :: int. 0 < n \<and> n < 10 ^ 28 \<and> (25 / 2 :: rat) = of_int n / 100) \<and>
     balanced_lines plain_env [(''Travel'', PStr ''acc-1''), (''Meals'', PStr ''acc-2'')] INCREASE (25 / 2) (wi_lines inp)"
proof -
  from shop_posts obtain inp where b: "shop_built (PStr ''12.50'') shop_lines = Inr (Transaction inp)"
      and i: "wi_amount inp = Num (25 / 2)" "wi_direction inp = WITHDRAWAL"
    by (cases "shop_built (PStr ''12.50'') shop_lines") (auto split: wave_build.splits)
  from shop_run_posts [OF b] obtain reg' out where r: "shop_run (PStr ''12.50'') shop_lines = (reg', Some inp, Some out)"
    by blast
  note e = r [unfolded shop_run_def]
  have m: "as_mapping (wo_loads shop_ports)
      (handler_setting (business_handler shop_config) ''_category_account_ids'' (PDict [])) =
      [(''Travel'', PStr ''acc-1''), (''Meals'', PStr ''acc-2'')]"
    by code_simp
  show ?thesis
    using posted_transaction_is_balanced [OF e] r i by (simp add: m)
qed

lemma NaN_total_is_posted: "\<exists>inp. fst (snd (shop_run (PStr ''nan'') [])) = Some inp \<and> wi_amount inp = NaN"
proof -
  have "(case shop_built (PStr ''nan'') [] of Inr (Transaction inp) \<Rightarrow> wi_amount inp = NaN | _ \<Rightarrow> False)" by code_simp
  then obtain inp where b: "shop_built (PStr ''nan'') [] = Inr (Transaction inp)" and i: "wi_amount inp = NaN"
    by (cases "shop_built (PStr ''nan'') []") (auto split: wave_build.splits)
  from shop_run_posts [OF b] i show ?thesis by auto
qed

section \<open>Outbound accounting\<close>

text \<open>
  Every entry spends exactly as many calls of the Wave limiter as it posts bodies: one or none,
  however long it waited and however it ended.
\<close>

theorem one_call_per_post:
  "case enter_data env ports h data clk reg of
     (reg', sent, out) \<Rightarrow> calls_spent reg' = calls_spent reg + (if sent = None then 0 else 1)"
  using entry_spends_calls [of env ports h data clk reg] by (auto split: prod.splits)

section \<open>The executor and its handler\<close>

lemma wave_execute_sent:
  "wave_execute env cfg enter target_system action payload key doc rec = (Some request, res) \<Longrightarrow>
     \<exists>target. resolve_target env cfg target_system = Some target \<and>
       request = categorized_data payload target key doc rec env \<and> strip action = ''transaction_add''"
  by (auto simp: wave_execute_def Let_def SUPPORTED_WAVE_API_ACTIONS_def split: option.splits if_splits)

lemma categorized_data_fields:
  "dget (categorized_data payload target key doc rec env) ''idempotency_key'' = PStr (if truthy key then py_str env key else [])"
  "dget (document_fields (categorized_data payload target key doc rec env)) ''total_amount'' = dget payload ''amount''"
  "dget (document_fields (categorized_data payload target key doc rec env)) ''transaction_date'' = dget payload ''date''"
  by (simp_all add: categorized_data_def document_fields_def)

text \<open>
  C10: A transaction that the handler of an executed request posts carries the request's idempotency
  key as its external id, the business the handler is configured for, and the amount and the day
  of the planned payload.
\<close>

theorem executed_request_carries_its_key:
  assumes "wave_execute env cfg enter target_system action payload key doc rec = (Some request, res)"
    and "truthy key" and "py_str env key \<noteq> []"
    and "enter_data env ports (build_handler cfg target) request clk reg = (reg', Some inp, out)"
  shows "wi_external_id inp = ''fab:'' @ py_str env key \<and>
    wi_business inp = py_str env (handler_setting (build_handler cfg target) ''_id'' PNone) \<and>
    unsigned_amount (dget payload ''amount'') = Some (wi_amount inp) \<and>
    transaction_date env (dget payload ''date'') = Some (wi_date inp)"
proof -
  obtain tg where r: "request = categorized_data payload tg key doc rec env"
    using wave_execute_sent [OF assms(1)] by blast
  from posted_entry [OF assms(4)] posted_expense obtain description where
    b: "build_expense_transaction_input env (wo_loads ports) (handler_accounts (build_handler cfg target)) description request
      = Inr (Transaction inp)"
    by blast
  note t = built_transaction [OF b]
  have "\<not> is_blank (dget request ''idempotency_key'')"
    using assms(2,3) by (simp add: r categorized_data_fields is_blank_def)
  from external_id_key [OF this] t assms(2) show ?thesis
    by (simp add: r categorized_data_fields document_amount_def handler_accounts_def)
qed

definition shop_payload :: pydict where
  "shop_payload =
     [(''amount'', PStr ''12.50''), (''date'', PStr ''0024-02-29''), (''account'', PStr ''a''), (''category'', PStr ''Travel'')]"

lemma shop_build_handler: "build_handler shop_config ''waveapps_business'' = business_handler shop_config"
  by (simp add: build_handler_def shop_config_def)

lemma shop_request:
  "fst (wave_execute plain_env shop_config (\<lambda>_ _. Inl []) (PStr ''business'') ''transaction_add'' shop_payload
     (PStr ''op-1'') PNone (PInt 7)) =
   Some (categorized_data shop_payload ''waveapps_business'' (PStr ''op-1'') PNone (PInt 7) plain_env)"
  by code_simp

theorem executed_request_carries_its_key_witness:
  "\<exists>inp reg' out. enter_data plain_env shop_ports (build_handler shop_config ''waveapps_business'')
      (categorized_data shop_payload ''waveapps_business'' (PStr ''op-1'') PNone (PInt 7) plain_env) shop_clock [] =
      (reg', Some inp, out) \<and>
    wi_external_id inp = ''fab:op-1'' \<and> wi_business inp = ''b'' \<and> wi_amount inp = Num (25 / 2)"
proof -
  let ?q = "categorized_data shop_payload ''waveapps_business'' (PStr ''op-1'') PNone (PInt 7) plain_env"
  let ?b = "build_expense_transaction_input plain_env (wo_loads shop_ports) (handler_accounts (business_handler shop_config)) None ?q"
  have "map_sum id (\<lambda>b. case b of Transaction i \<Rightarrow> Some (wi_amount i) | _ \<Rightarrow> None) ?b = Inr (Some (Num (25 / 2)))"
    by code_simp
  then obtain inp where b: "?b = Inr (Transaction inp)" and a: "wi_amount inp = Num (25 / 2)"
    by (cases ?b) (auto split: wave_build.splits)
  obtain reg' where r: "acquire_outbound_slot shop_config ''waveapps'' shop_clock [] = (reg', Slot_admitted)"
    using shop_slot by (metis prod.collapse)
  obtain ex where ex: "dget_or ?q ''extracted_data'' (PDict []) = PDict ex" by (simp add: categorized_data_def)
  have c: "map_of ?q ''category'' = Some (PStr ''Travel'')" by (simp add: categorized_data_def shop_payload_def)
  from expense_posted [OF ex c shop_handler(2) shop_handler(3) b, of shop_clock "[]" reg'] r
  obtain out where e: "enter_data plain_env shop_ports (build_handler shop_config ''waveapps_business'') ?q shop_clock [] =
      (reg', Some inp, Some out)"
    by (auto simp: shop_build_handler)
  obtain res where w: "wave_execute plain_env shop_config (\<lambda>_ _. Inl []) (PStr ''business'') ''transaction_add'' shop_payload
     (PStr ''op-1'') PNone (PInt 7) = (Some ?q, res)"
    using shop_request by (metis prod.collapse)
  have "handler_setting (build_handler shop_config ''waveapps_business'') ''_id'' PNone = PStr ''b''"
    by (simp add: shop_build_handler) (simp add: handler_setting_def business_handler_def shop_config_def)
  with executed_request_carries_its_key [OF w _ _ e] a show ?thesis using e by auto
qed

section \<open>Amounts without a sign\<close>

lemma round_half_up_minus: "round_half_up (- r) = - round_half_up r"
proof (cases r "0 :: rat" rule: linorder_cases)
  case equal
  have "\<lfloor>1 / 2 :: rat\<rfloor> = 0" by (simp add: floor_eq_iff)
  with equal show ?thesis by (simp add: round_half_up_def)
qed (simp_all add: round_half_up_def add.commute)

lemma unsigned_amount_minus: "unsigned_amount (PInt (- i)) = unsigned_amount (PInt i)"
  using round_half_up_minus [of "of_int i * 100"]
  by (simp add: unsigned_amount_def quantize_cents_def Let_def)

text \<open>
  The sign of a document's total is not looked at: a refund, a receipt with a negative total that
  no document type marks as a credit note, is built into the same withdrawal as the purchase.
\<close>

theorem refund_is_built_as_purchase:
  "build_expense_transaction_input env loads wv description
     (dset ''extracted_data'' (PDict (dset ''total_amount'' (PInt (- i)) ex)) data) =
   build_expense_transaction_input env loads wv description
     (dset ''extracted_data'' (PDict (dset ''total_amount'' (PInt i) ex)) data)"
proof -
  let ?e = "\<lambda>j. dset ''total_amount'' (PInt j) ex"
  let ?d = "\<lambda>j. dset ''extracted_data'' (PDict (?e j)) data"
  have c: "is_credit env (?d (- i)) = is_credit env (?d i)"
    by (simp add: is_credit_def document_type_def dget_dset Let_def)
  have x: "external_id env (?d (- i)) = external_id env (?d i)"
    by (simp add: external_id_def dget_dset)
  have f: "dget (?d j) ''extracted_data'' = PDict (?e j)" "dget (?d j) ''category'' = dget data ''category''" for j
    by (simp_all add: dget_dset)
  have g: "dget (?e j) ''total_amount'' = PInt j" "dget (?e j) ''transaction_date'' = dget ex ''transaction_date''"
      "dget (?e j) ''line_items'' = dget ex ''line_items''" "dget (?e j) ''description'' = dget ex ''description''" for j
    by (simp_all add: dget_dset)
  show ?thesis
    unfolding build_expense_transaction_input_def c x f g as_dict.simps Let_def unsigned_amount_minus ..
qed

section \<open>The CSV fallback\<close>

text \<open>No text cell of a written row begins with a character that a spreadsheet reads as a formula.\<close>

theorem csv_cells_are_not_formulas:
  "list_all (\<lambda>(k, v). case v of PStr (c # cs) \<Rightarrow> c \<notin> set CSV_FORMULA_PREFIXES | _ \<Rightarrow> True) (neutralize_csv_row row) \<and>
   map fst (neutralize_csv_row row) = map fst row \<and>
   neutralize_csv_row (neutralize_csv_row row) = neutralize_csv_row row"
proof (intro conjI)
  have quote: "CHR 0x27 \<notin> set CSV_FORMULA_PREFIXES" by code_simp
  then have cell: "case neutralize_csv_cell v of PStr (c # cs) \<Rightarrow> c \<notin> set CSV_FORMULA_PREFIXES | _ \<Rightarrow> True" for v
    by (auto simp: neutralize_csv_cell_def split: pyval.splits list.splits)
  from quote have twice: "neutralize_csv_cell (neutralize_csv_cell v) = neutralize_csv_cell v" for v
    by (auto simp: neutralize_csv_cell_def split: pyval.splits list.splits)
  show "list_all (\<lambda>(k, v). case v of PStr (c # cs) \<Rightarrow> c \<notin> set CSV_FORMULA_PREFIXES | _ \<Rightarrow> True) (neutralize_csv_row row)"
    using cell by (induction row) (auto simp: neutralize_csv_row_def)
  show "map fst (neutralize_csv_row row) = map fst row"
    by (induction row) (auto simp: neutralize_csv_row_def)
  show "neutralize_csv_row (neutralize_csv_row row) = neutralize_csv_row row"
    using twice by (induction row) (auto simp: neutralize_csv_row_def)
qed

section \<open>Mixed lines\<close>

text \<open>
  The lines of a credit note whose lines carry both signs: each amount gets the sign of the
  total, so the payload of a credit of 8 (10 back, 2 charged) adds up to 12.
\<close>

theorem mixed_lines_do_not_add_up:
  "map (\<lambda>d. dget d ''amount'')
     (normalize_wave_line_items
        (PList [PDict [(''amount'', PInt 10)], PDict [(''amount'', PInt (- 2))]])
        (PStr ''d'') (wave_posting_amount (PInt 8) ''credit_note'') (PStr ''c'') (PStr ''a'')) =
   [PFloat (Num (- 10)), PFloat (Num (- 2))]"
  by code_simp

section \<open>The catalog\<close>

text \<open>
  No action of the catalog that connects an account or administers the business can run on its
  own, whatever its payload, except one marked unsupported when writing is allowed.
\<close>

theorem guarded_actions_need_confirmation:
  assumes "map_of WAVE_ACTIONS i = Some a" and "wa_mode a \<in> {''admin'', ''connect''}"
    and "wa_safety a \<noteq> ''unsupported''"
  shows "\<not> wp_can_run (plan_wave_action (wave_surface_catalog caps) surface i payload allow_write)"
proof -
  have "wa_safety a \<in> {''requires_confirmation'', ''requires_credentials'', ''unsupported''}"
    using guarded_modes assms(2) map_of_SomeD [OF assms(1)] by (fastforce simp: list_all_iff)
  then show ?thesis
    using assms(3) by (auto simp: plan_wave_action_def wave_surface_catalog_def assms(1) Let_def)
qed

theorem guarded_actions_need_confirmation_witness:
  "\<not> wp_can_run (plan_wave_action (wave_surface_catalog (\<lambda>_. None)) ''connected_accounts''
      ''connected_account_connect'' [(''provider'', PStr ''ing'')] True)"
proof -
  have "map_option (\<lambda>a. (wa_mode a, wa_safety a)) (map_of WAVE_ACTIONS ''connected_account_connect'') =
      Some (''connect'', ''requires_confirmation'')"
    by (simp add: lookup_known looked_up_def KNOWN_ACTIONS_def wave_action_entry_def)
  then obtain a where "map_of WAVE_ACTIONS ''connected_account_connect'' = Some a"
      "wa_mode a = ''connect''" "wa_safety a = ''requires_confirmation''"
    by auto
  then show ?thesis by (intro guarded_actions_need_confirmation) auto
qed

text \<open>
  An action the catalog marks unsupported is planned as able to run autonomously once writing is
  allowed, and its surface is listed by no module.
\<close>

theorem unsupported_action_is_planned_to_run:
  "wp_can_run (plan_wave_action (wave_surface_catalog caps) ''payroll'' ''payroll_open'' [] True) \<and>
   map_option wa_safety (map_of WAVE_ACTIONS ''payroll_open'') = Some ''unsupported'' \<and>
   ''payroll'' \<notin> set list_wave_surfaces"
proof -
  have "map_option (\<lambda>a. (wa_surface a, wa_mode a, wa_safety a, wa_required a)) (map_of WAVE_ACTIONS ''payroll_open'') =
      Some (''payroll'', ''read'', ''unsupported'', [])"
    by (simp add: lookup_known looked_up_def KNOWN_ACTIONS_def wave_action_entry_def)
  moreover have "''payroll'' \<notin> set list_wave_surfaces" by code_simp
  ultimately show ?thesis
    by (auto simp: plan_wave_action_def wave_surface_catalog_def Let_def)
qed

section \<open>Plans of documents\<close>

lemma or_chain_last: "or_chain vs \<noteq> PNone" if "vs \<noteq> []" "last vs \<noteq> PNone"
  using that by (induction vs rule: or_chain.induct) auto

lemma wave_posting_amount_given: "wave_posting_amount v t \<noteq> PNone"
  by (auto simp: wave_posting_amount_def is_blank_def split: option.splits)

lemma document_actions:
  "map_option (\<lambda>a. (wa_surface a, wa_safety a, wa_required a)) (map_of WAVE_ACTIONS (action_for_surface (ds_target (destination_of t)))) =
     (let target = ds_target (destination_of t) in
      if target = ''bills'' then Some (''bills'', ''safe_draft'', [''vendor'', ''billDate'', ''lineItems''])
      else if target = ''invoices'' then Some (''invoices'', ''safe_draft'', [''customer'', ''lineItems''])
      else if target = ''estimates'' then Some (''estimates'', ''safe_draft'', [''customer'', ''lineItems''])
      else Some (''transactions'', ''safe_draft'', [''date'', ''amount'', ''account'', ''category'']))"
  by (simp add: action_for_surface_def lookup_known looked_up_def KNOWN_ACTIONS_def wave_action_entry_def Let_def)

lemma destination_targets:
  "ds_target (destination_of t) \<in> {''transactions'', ''bills'', ''invoices'', ''estimates''}"
proof (cases "map_of DOCUMENT_ROUTING t")
  case (Some r)
  have "list_all (\<lambda>(k, target, fb). target \<in> {''transactions'', ''bills'', ''invoices'', ''estimates''}) DOCUMENT_ROUTING"
    by code_simp
  then show ?thesis using map_of_SomeD [OF Some] Some
    by (fastforce simp: list_all_iff destination_of_def split: prod.splits)
qed (simp add: destination_of_def)

text \<open>
  The plan of a document's action is complete and able to run whatever was extracted: a document
  without a date, an amount and a vendor is planned too, because the payload holds the empty text
  and the planner only looks for None.
\<close>

theorem document_plan_is_always_complete:
  assumes "dget_or data ''extracted_data'' (PDict []) = PDict ex"
    and "category \<noteq> PNone" and "account \<noteq> PNone"
  shows "\<exists>dest payload. classify_wave_destination env data = Inr dest \<and>
    build_wave_action_payload env data category account = Inr payload \<and>
    wp_status (plan_wave_action (wave_surface_catalog caps) (ds_target dest) (action_for_surface (ds_target dest)) payload False) = Planned \<and>
    wp_can_run (plan_wave_action (wave_surface_catalog caps) (ds_target dest) (action_for_surface (ds_target dest)) payload False)"
proof -
  obtain v where v: "document_type_value data = Inr v" using document_type_total [OF assms(1)] by blast
  let ?t = "normalize_wave_document_type env v"
  have dest: "classify_wave_destination env data = Inr (destination_of ?t)" by (simp add: classify_wave_destination_def v)
  obtain payload where p: "build_wave_action_payload env data category account = Inr payload"
    using payload_total [OF assms(1)] by blast
  obtain a where a: "map_of WAVE_ACTIONS (action_for_surface (ds_target (destination_of ?t))) = Some a"
      "wa_surface a = ds_target (destination_of ?t)" "wa_safety a = ''safe_draft''"
      "wa_required a = (let target = ds_target (destination_of ?t) in
         if target = ''bills'' then [''vendor'', ''billDate'', ''lineItems'']
         else if target = ''invoices'' \<or> target = ''estimates'' then [''customer'', ''lineItems'']
         else [''date'', ''amount'', ''account'', ''category''])"
    using document_actions [of ?t] destination_targets [of ?t] by (auto simp: Let_def split: if_splits)
  have "\<forall>f \<in> set (wa_required a). dget payload f \<noteq> PNone"
    using p assms(2,3)
    by (auto simp: build_wave_action_payload_def assms(1) dest a(4) action_for_surface_def Let_def or_chain_last
        wave_posting_amount_given dict_values_def
        simp del: or_chain.simps first_given.simps)
  then have "filter (\<lambda>f. dget payload f = PNone) (wa_required a) = []" by (simp add: filter_empty_conv)
  with a dest p show ?thesis by (simp add: plan_wave_action_def wave_surface_catalog_def Let_def)
qed

theorem document_plan_is_always_complete_witness:
  "\<exists>dest payload. classify_wave_destination plain_env [(''extracted_data'', PDict [])] = Inr dest \<and>
    build_wave_action_payload plain_env [(''extracted_data'', PDict [])] (PStr ''Travel'') (PStr ''bank'') = Inr payload \<and>
    wp_can_run (plan_wave_action (wave_surface_catalog (\<lambda>_. None)) (ds_target dest) (action_for_surface (ds_target dest)) payload False)"
  using document_plan_is_always_complete [of "[(''extracted_data'', PDict [])]" "[]" "PStr ''Travel''" "PStr ''bank''" plain_env "\<lambda>_. None"]
  by auto

end
