(* ===== verification/Playbook.thy ===== *)
theory Playbook
  imports Wave_Catalog
begin

text \<open>
  The automation playbook (src/workflow/autonomous_playbook.py): the capabilities with the
  signals they need and their review gates, the service offerings and benchmark areas, the
  plans of a document and of the two report workflows.
\<close>

section \<open>The catalog\<close>

definition text_list :: "string list \<Rightarrow> pyval" where
  "text_list xs = PList (map PStr xs)"

definition capability_entry ::
  "string \<Rightarrow> string \<Rightarrow> string list \<Rightarrow> string list \<Rightarrow> string list \<Rightarrow> string list \<Rightarrow> capability" where
  "capability_entry stage autonomy needed optional actions gates =
     \<lparr>cp_entry = [(''stage'', PStr stage), (''autonomy'', PStr autonomy), (''required_signals'', text_list needed),
        (''optional_signals'', text_list optional), (''wave_actions'', text_list actions),
        (''review_gates'', text_list gates)],
      cp_required_signals = needed, cp_review_gates = gates, cp_autonomy = autonomy\<rparr>"

record service_offering =
  so_source :: string
  so_category :: string
  so_status :: string
  so_capabilities :: "string list"
  so_adaptation :: string

definition service_entry :: "string \<Rightarrow> string \<Rightarrow> string \<Rightarrow> string list \<Rightarrow> string \<Rightarrow> service_offering" where
  "service_entry s c t ks a =
     \<lparr>so_source = s, so_category = c, so_status = t, so_capabilities = ks, so_adaptation = a\<rparr>"

record benchmark_area =
  ba_label :: string
  ba_pattern :: string
  ba_sources :: "string list"
  ba_capabilities :: "string list"
  ba_status :: string
  ba_priority :: string
  ba_milestone :: string
  ba_control :: string

definition benchmark_entry ::
  "string \<Rightarrow> string \<Rightarrow> string list \<Rightarrow> string list \<Rightarrow> string \<Rightarrow> string \<Rightarrow> string \<Rightarrow> string \<Rightarrow> benchmark_area" where
  "benchmark_entry l p ss ks t pr m c =
     \<lparr>ba_label = l, ba_pattern = p, ba_sources = ss, ba_capabilities = ks, ba_status = t, ba_priority = pr,
      ba_milestone = m, ba_control = c\<rparr>"

definition PLAYBOOK_STAGES :: "(string \<times> string) list" where
  "PLAYBOOK_STAGES =
     [(''collect'', ''Collect bank activity, receipts, invoices, emails, and Drive files.''),
      (''extract_validate'', ''Extract multilingual document fields and validate totals, VAT, dates, and vendors.''),
      (''classify_post'', ''Classify vendors, categories, taxes, and target Wave surfaces.''),
      (''match_reconcile'', ''Match receipts, bills, invoices, and bank transactions.''),
      (''exception_chase'', ''Draft requests and reminders for missing evidence or ambiguous context.''),
      (''close_report'', ''Run close checks, discrepancy detection, exports, and audit packs.''),
      (''learn_optimize'', ''Learn from human corrections and tighten future automation.''),
      (''system_execute'', ''Execute approved actions through APIs, browser, or desktop automation.'')]"

definition PLAYBOOK_SOURCES :: "(string \<times> string list) list" where
  "PLAYBOOK_SOURCES =
     [(''booke_ai'', [''daily bank feed work'', ''document matching'', ''client query tasks'', ''month-end detection'']),
      (''outmin'', [''continuous reconciliation'', ''practice control centre'', ''collect/process/reconcile/close'']),
      (''bookeeping_ai'', [''chat task execution'', ''health monitoring'', ''bank statement import'', ''audit score'']),
      (''layernext'', [''AP automation'', ''application-layer execution'', ''approval gates'', ''custom workflows''])]"

definition PLAYBOOK_CAPABILITIES :: "(string \<times> capability) list" where
  "PLAYBOOK_CAPABILITIES =
     [(''daily_bank_feed_triage'', capability_entry ''collect'' ''prepare''
        [''bank_feed'', ''account_mapping'']
        [''prior_reconciliation'', ''vendor_history'']
        [''connected_account_refresh'', ''transaction_categorize'']
        [''provider re-authentication'', ''new bank account connection'']),
      (''document_capture_and_ocr'', capability_entry ''extract_validate'' ''safe_draft''
        [''source_document'', ''ocr_text'']
        [''line_items'', ''language'', ''vat_number'']
        [''transaction_attach_receipt'', ''bill_create'']
        [''low OCR confidence'', ''unbalanced subtotal/tax/total'']),
      (''vendor_category_learning'', capability_entry ''classify_post'' ''safe_draft''
        [''vendor_identity'', ''category_candidates'']
        [''purchase_pattern'', ''user_rule'', ''tax_profile'']
        [''vendor_create'', ''chart_account_map'', ''transaction_categorize'']
        [''new chart-of-account creation'', ''ambiguous vendor match'', ''first-seen tax treatment'']),
      (''ap_invoice_workflow'', capability_entry ''classify_post'' ''review_required''
        [''vendor_invoice'', ''vendor_identity'', ''line_items'']
        [''purchase_order'', ''approval_rule'', ''due_date'']
        [''bill_create'', ''bill_mark_paid'']
        [''payment marking'', ''approval threshold'', ''missing PO or contract'']),
      (''receipt_to_bank_match'', capability_entry ''match_reconcile'' ''safe_draft''
        [''source_document'', ''bank_transaction'', ''duplicate_fingerprint'']
        [''vendor_history'', ''currency'', ''card_last_four'']
        [''transaction_attach_receipt'', ''transaction_categorize'']
        [''partial amount match'', ''duplicate candidate'', ''multi-document order'']),
      (''ledger_report_reconciliation'', capability_entry ''match_reconcile'' ''prepare''
        [''ledger_period'', ''account_scope'', ''reconciliation_status'']
        [''contact_scope'', ''cash_mode'', ''bank_feed'', ''review_queue'']
        [''report_open'', ''report_account_filter_select'', ''report_contact_filter_select'', ''report_date_range_set'', ''report_basis_select'', ''report_update'', ''report_table_read'', ''report_empty_state_read'', ''report_export'']
        [''empty ledger scope'', ''unmatched bank activity'', ''material discrepancy'']),
      (''missing_document_chase'', capability_entry ''exception_chase'' ''review_required''
        [''bank_transaction'', ''document_policy'']
        [''contact_email'', ''last_request_at'', ''owner'']
        []
        [''external email send'', ''client-facing message'', ''sensitive financial details'']),
      (''anomaly_and_health_monitoring'', capability_entry ''close_report'' ''observe''
        [''ledger_snapshot'', ''bank_feed'']
        [''budget'', ''historical_average'', ''cash_forecast'']
        [''report_open'']
        [''advisory recommendation'', ''tax-sensitive decision'']),
      (''month_end_close_pack'', capability_entry ''close_report'' ''prepare''
        [''ledger_snapshot'', ''reconciliation_status'']
        [''period_lock_date'', ''vat_working'', ''review_queue'']
        [''report_export'', ''customer_statement_create'']
        [''period lock'', ''tax filing'', ''material unresolved exception'']),
      (''chat_task_orchestrator'', capability_entry ''system_execute'' ''prepare''
        [''user_intent'', ''policy_context'']
        [''target_customer'', ''target_vendor'', ''amount'', ''due_date'']
        [''invoice_create'', ''estimate_create'', ''report_open'']
        [''send invoice'', ''record payment'', ''create recurring billing'']),
      (''app_layer_executor'', capability_entry ''system_execute'' ''confirmed_execute''
        [''approved_operation'', ''idempotency_key'', ''target_surface'']
        [''browser_route'', ''api_endpoint'', ''rollback_plan'']
        [''transaction_add'', ''bill_create'', ''invoice_create'', ''report_export'']
        [''credential prompt'', ''external communication'', ''payment or account access change''])]"

definition SERVICE_OFFERINGS :: "(string \<times> service_offering) list" where
  "SERVICE_OFFERINGS =
     [(''booke_qbo_xero_bank_feed_ai'', service_entry ''booke_ai'' ''bookkeeping'' ''partial''
        [''daily_bank_feed_triage'', ''vendor_category_learning'', ''receipt_to_bank_match'', ''app_layer_executor'']
        ''Dutch bank feeds, SEPA descriptions, IBAN matching, BTW category mapping, and evidence retention.''),
      (''booke_document_ocr_matching'', service_entry ''booke_ai'' ''capture'' ''partial''
        [''document_capture_and_ocr'', ''receipt_to_bank_match'']
        ''Dutch receipt fields, BTW rates, KvK/BTW IDs, UBL attachments, EUR totals, and Dutch date formats.''),
      (''booke_client_query_tasks'', service_entry ''booke_ai'' ''client_workflow'' ''partial''
        [''missing_document_chase'', ''chat_task_orchestrator'']
        ''Dutch/English request templates with approval before sensitive outbound messages.''),
      (''booke_ap_workflow'', service_entry ''booke_ai'' ''accounts_payable'' ''partial''
        [''document_capture_and_ocr'', ''ap_invoice_workflow'', ''app_layer_executor'']
        ''UBL invoices, Dutch suppliers, payment terms, and SEPA payment evidence.''),
      (''booke_error_detection_journal_dashboard'', service_entry ''booke_ai'' ''reporting'' ''modeled''
        [''anomaly_and_health_monitoring'', ''month_end_close_pack'']
        ''BTW mismatches, duplicate invoices, missing legal receipts, stale feeds, and close exceptions.''),
      (''outmin_activeledger_rex_loop'', service_entry ''outmin'' ''reconciliation'' ''partial''
        [''daily_bank_feed_triage'', ''document_capture_and_ocr'', ''receipt_to_bank_match'', ''ledger_report_reconciliation'', ''month_end_close_pack'']
        ''CAMT/MT940 imports, BTW controls, and monthly/quarterly close packs.''),
      (''outmin_practice_control_centre'', service_entry ''outmin'' ''platform'' ''modeled''
        [''daily_bank_feed_triage'', ''missing_document_chase'', ''month_end_close_pack'']
        ''BTW, ICP, annual-accounting, and filing readiness by client.''),
      (''outmin_no_chase_no_upload_no_coding'', service_entry ''outmin'' ''client_workflow'' ''partial''
        [''missing_document_chase'', ''vendor_category_learning'', ''receipt_to_bank_match'']
        ''Legal-document retention and BTW deductibility review gates.''),
      (''outmin_partnership_embedded_models'', service_entry ''outmin'' ''platform'' ''planned''
        [''app_layer_executor'', ''month_end_close_pack'']
        ''Administratiekantoor workspaces, client consent, role access, and Dutch filing calendars.''),
      (''bookeeping_paula_chat_accountant'', service_entry ''bookeeping_ai'' ''bookkeeping'' ''planned''
        [''chat_task_orchestrator'', ''app_layer_executor'']
        ''Dutch bookkeeping context with final postings, filings, and messages review-gated.''),
      (''bookeeping_health_monitoring_audit_score'', service_entry ''bookeeping_ai'' ''reporting'' ''partial''
        [''anomaly_and_health_monitoring'', ''month_end_close_pack'']
        ''BTW risk, missing purchase invoices, unreconciled age, liquidity, tax reserve, and filing readiness.''),
      (''bookeeping_import_converter_suite'', service_entry ''bookeeping_ai'' ''platform'' ''planned''
        [''daily_bank_feed_triage'', ''month_end_close_pack'']
        ''MT940, CAMT.053, CSV, UBL, ICP exports, and Dutch accountant handoff packs.''),
      (''bookeeping_vertical_templates'', service_entry ''bookeeping_ai'' ''compliance'' ''planned''
        [''vendor_category_learning'', ''anomaly_and_health_monitoring'', ''month_end_close_pack'']
        ''Profiles for ZZP, BV, stichting/vereniging, horeca, e-commerce, Airbnb, and OSS/IOSS VAT.''),
      (''bookeeping_security_ai_ethics'', service_entry ''bookeeping_ai'' ''security'' ''partial''
        [''app_layer_executor'', ''chat_task_orchestrator'']
        ''GDPR, financial-data retention, least-privilege roles, and no customer data model training.''),
      (''layernext_finance_agents'', service_entry ''layernext'' ''bookkeeping'' ''partial''
        [''app_layer_executor'', ''chat_task_orchestrator'', ''month_end_close_pack'']
        ''Wave, Mijngeldzaken, bank imports, spreadsheets, and Dutch accountant handoff workflows.''),
      (''layernext_ap_exception_handling'', service_entry ''layernext'' ''accounts_payable'' ''partial''
        [''document_capture_and_ocr'', ''ap_invoice_workflow'']
        ''BTW, supplier BTW/KvK IDs, IBAN, payment terms, and UBL evidence.''),
      (''layernext_reconciliation_bookkeeping'', service_entry ''layernext'' ''reconciliation'' ''partial''
        [''daily_bank_feed_triage'', ''receipt_to_bank_match'', ''ledger_report_reconciliation'', ''vendor_category_learning'']
        ''CAMT/MT940/CSV statements and tax-ready BTW evidence for quarterly returns.''),
      (''layernext_custom_erp_desktop'', service_entry ''layernext'' ''platform'' ''partial''
        [''app_layer_executor'', ''vendor_category_learning'']
        ''Dutch chart mapping, RGS-compatible categories where possible, and rule versioning.''),
      (''layernext_cfo_mobile_insights'', service_entry ''layernext'' ''reporting'' ''partial''
        [''anomaly_and_health_monitoring'', ''month_end_close_pack'', ''missing_document_chase'']
        ''Cash/BTW reserve views, tax deadlines, BTW/ICP readiness, and accountant review packs.''),
      (''layernext_trust_metalake'', service_entry ''layernext'' ''security'' ''partial''
        [''app_layer_executor'', ''month_end_close_pack'']
        ''GDPR, Dutch retention, source-document lineage, and accountant/client role separation.'')]"

definition BENCHMARK_AREAS :: "(string \<times> benchmark_area) list" where
  "BENCHMARK_AREAS =
     [(''inside_accounting_platform_execution'', benchmark_entry ''Inside-accounting-platform execution''
        ''Agents work directly inside the bookkeeping system and fall back to app-layer automation when APIs stop short.''
        [''booke_ai'', ''layernext''] [''app_layer_executor'', ''chat_task_orchestrator''] ''partial'' ''high''
        ''Expand Wave action manifests with idempotent browser/API execution recipes for every high-volume surface.''
        ''Require confirmed execution, idempotency keys, screenshots or API receipts, and rollback notes for write actions.''),
      (''continuous_reconciliation'', benchmark_entry ''Continuous reconciliation''
        ''Bank feeds, documents, and ledger state are reconciled continuously instead of waiting for month-end cleanup.''
        [''booke_ai'', ''outmin'', ''layernext''] [''daily_bank_feed_triage'', ''receipt_to_bank_match'', ''ledger_report_reconciliation'', ''month_end_close_pack''] ''partial'' ''high''
        ''Schedule daily reconciliation planning and publish unresolved match reasons to the review backlog.''
        ''Auto-reconcile only exact high-confidence matches; partial matches stay review-gated with source evidence.''),
      (''missing_document_chase'', benchmark_entry ''Missing-document chase''
        ''The system detects missing receipts or context and drafts targeted requests with reminders.''
        [''booke_ai'', ''outmin'', ''bookeeping_ai''] [''missing_document_chase''] ''partial'' ''high''
        ''Connect missing-document tasks to owner contacts, reminder schedules, and safe outbound-message approval.''
        ''Never send external messages without approval when sensitive financial details or client-facing text are present.''),
      (''ap_approval_workflow'', benchmark_entry ''AP approval workflow''
        ''Vendor invoices flow through capture, validation, payable drafting, approval, and payment-state controls.''
        [''outmin'', ''layernext''] [''ap_invoice_workflow'', ''document_capture_and_ocr'', ''vendor_category_learning''] ''partial'' ''high''
        ''Add approval-policy rules for vendor, amount, due date, PO/contract match, and payment marking.''
        ''Block payment marking and high-value payable changes until an approval policy has explicitly cleared them.''),
      (''operator_control_center'', benchmark_entry ''Operator control center''
        ''Operators get one control surface for every client, reconciliation, exception, source document, and close state.''
        [''outmin'', ''booke_ai''] [''daily_bank_feed_triage'', ''receipt_to_bank_match'', ''ledger_report_reconciliation'', ''missing_document_chase'', ''month_end_close_pack''] ''covered'' ''medium''
        ''Add drill-down links from benchmark gaps to the exact review queue, Wave surface, and audit events.''
        ''Keep all autonomous decisions traceable from dashboard cards back to source documents and audit events.''),
      (''deterministic_audit_trail'', benchmark_entry ''Deterministic audit trail''
        ''AI suggestions are bounded by accounting logic, human review, validation gates, and a full action trail.''
        [''booke_ai'', ''bookeeping_ai'', ''layernext''] [''document_capture_and_ocr'', ''vendor_category_learning'', ''receipt_to_bank_match'', ''app_layer_executor''] ''covered'' ''high''
        ''Attach benchmark area IDs to audit events so every autonomous decision names the risk model it used.''
        ''Log planned, blocked, reviewed, and completed states with confidence and required signal evidence.''),
      (''chat_task_execution'', benchmark_entry ''Chat task execution''
        ''Owners can ask for bookkeeping actions in natural language and receive validated execution plans.''
        [''bookeeping_ai'', ''layernext''] [''chat_task_orchestrator'', ''app_layer_executor''] ''planned'' ''medium''
        ''Expose a chat-to-plan endpoint that maps user intent to Wave action plans and review gates.''
        ''Treat chat requests as planning input only until target records, required fields, and confirmations are resolved.''),
      (''bank_statement_import_formats'', benchmark_entry ''Bank statement import formats''
        ''CSV, MT940, CAMT, PDF, and payment-provider exports can be imported when direct feeds are unavailable.''
        [''bookeeping_ai''] [''daily_bank_feed_triage'', ''receipt_to_bank_match''] ''planned'' ''medium''
        ''Add parser adapters for common bank export formats and normalize them into the reconciliation queue.''
        ''Require account mapping, opening/closing balance validation, and duplicate import fingerprints before posting.''),
      (''business_health_monitoring'', benchmark_entry ''Business health monitoring''
        ''The bookkeeper watches for anomalies, cash-flow drift, stale feeds, and unusual expense behavior.''
        [''bookeeping_ai'', ''layernext''] [''anomaly_and_health_monitoring'', ''month_end_close_pack''] ''partial'' ''medium''
        ''Turn health signals into actionable review tasks with owner-visible severity and recommended evidence.''
        ''Keep recommendations advisory unless a human confirms tax-sensitive or cash-management decisions.''),
      (''custom_workflow_rules'', benchmark_entry ''Custom workflow rules''
        ''Agents learn client-specific business rules and route exceptions through configurable workflows.''
        [''booke_ai'', ''layernext''] [''vendor_category_learning'', ''app_layer_executor''] ''partial'' ''medium''
        ''Persist user-defined rules for vendors, categories, Wave actions, approval thresholds, and exception routing.''
        ''Version every rule change and replay it in dry-run mode before it is allowed to affect live write actions.'')]"

definition wanted :: "string option \<Rightarrow> string \<Rightarrow> bool" where
  "wanted filt v \<longleftrightarrow> given_text filt = [] \<or> given_text filt = v"

definition list_automation_capabilities :: "string option \<Rightarrow> (string \<times> capability) list" where
  "list_automation_capabilities stage =
     filter (\<lambda>(i, c). case stage of None \<Rightarrow> True
        | Some s \<Rightarrow> s = [] \<or> dget (cp_entry c) ''stage'' = PStr s) PLAYBOOK_CAPABILITIES"

definition list_automation_benchmarks :: "string option \<Rightarrow> (string \<times> benchmark_area) list" where
  "list_automation_benchmarks status = filter (\<lambda>(i, b). wanted status (ba_status b)) BENCHMARK_AREAS"

definition list_automation_services ::
  "string option \<Rightarrow> string option \<Rightarrow> string option \<Rightarrow> (string \<times> service_offering) list" where
  "list_automation_services source category status =
     filter (\<lambda>(i, s). wanted source (so_source s) \<and> wanted category (so_category s) \<and> wanted status (so_status s))
       SERVICE_OFFERINGS"

definition playbook_catalog :: wave_catalog where
  "playbook_catalog = wave_surface_catalog (map_of PLAYBOOK_CAPABILITIES)"

section \<open>Workflows\<close>

text \<open>\<open>list(dict.fromkeys([v for v in values if v]))\<close>\<close>

definition unique_texts :: "string list \<Rightarrow> string list" where
  "unique_texts vs = rev (remdups (rev (filter (\<lambda>v. v \<noteq> []) vs)))"

record workflow_step =
  st_id :: string
  st_label :: string
  st_capability :: string
  st_surface :: string
  st_action :: string
  st_payload :: pydict
  st_safety :: string

definition report_payload :: "pydict \<Rightarrow> string \<Rightarrow> pydict \<Rightarrow> pydict" where
  "report_payload inp report_type extra =
     (let g = dget inp in
      dupdate
        [(''reportType'', PStr report_type), (''fromDate'', g ''from_date''), (''toDate'', g ''to_date''),
         (''asOfDate'', py_or (g ''as_of_date'') (g ''to_date'')), (''basis'', py_or (g ''cash_mode'') (PStr ''accrual'')),
         (''accountOption'', py_or (g ''account_option'') (PStr ''-1'')),
         (''accountName'', py_or (g ''account_name'') (PStr ''All Accounts'')),
         (''contactOption'', py_or (g ''contact_option'') (PStr ''0'')),
         (''contactName'', py_or (g ''contact_name'') (PStr ''All Contacts'')),
         (''cashMode'', py_or (g ''cash_mode'') (PStr ''1''))]
        extra)"

definition LEDGER_STEPS :: "(string \<times> string \<times> string) list" where
  "LEDGER_STEPS =
     [(''open_account_transactions_report'', ''Open Account Transactions report'', ''report_open''),
      (''scope_account_transactions_by_account'', ''Scope ledger by account'', ''report_account_filter_select''),
      (''scope_account_transactions_by_contact'', ''Scope ledger by contact'', ''report_contact_filter_select''),
      (''set_ledger_report_period'', ''Set ledger report period'', ''report_date_range_set''),
      (''select_ledger_report_basis'', ''Select ledger report basis'', ''report_basis_select''),
      (''refresh_ledger_report'', ''Update ledger report'', ''report_update''),
      (''read_ledger_rows'', ''Read ledger rows'', ''report_table_read''),
      (''detect_empty_ledger_scope'', ''Detect empty ledger scope'', ''report_empty_state_read'')]"

definition report_step :: "string \<Rightarrow> string \<Rightarrow> string \<Rightarrow> string \<Rightarrow> pydict \<Rightarrow> workflow_step" where
  "report_step i label cap action payload =
     \<lparr>st_id = i, st_label = label, st_capability = cap, st_surface = ''reports'', st_action = action,
      st_payload = payload, st_safety = ''read_only''\<rparr>"

definition daily_reconciliation_steps :: "pydict \<Rightarrow> workflow_step list" where
  "daily_reconciliation_steps inp =
     map (\<lambda>(i, label, action). report_step i label ''ledger_report_reconciliation'' action
        (report_payload inp ''account-transactions'' [])) LEDGER_STEPS @
     (if truthy (dget_or inp ''include_exports'' (PBool True)) then
        [report_step ''export_ledger_evidence'' ''Export ledger evidence'' ''ledger_report_reconciliation'' ''report_export''
           (report_payload inp ''account-transactions'' [(''format'', PStr ''csv'')])]
      else [])"

definition CLOSE_REPORTS :: "string list" where
  "CLOSE_REPORTS =
     [''profit-and-loss'', ''balance-sheet'', ''cash-flow'', ''sales-tax'', ''aged-receivables'', ''aged-payables'',
      ''account-balances'', ''trial-balance'']"

definition period_close_steps :: "pydict \<Rightarrow> workflow_step list" where
  "period_close_steps inp =
     daily_reconciliation_steps (dset ''include_exports'' (PBool True) inp) @
     concat (map (\<lambda>r.
        [report_step (''open_'' @ r @ ''_report'') (''Open '' @ r @ '' report'') ''month_end_close_pack'' ''report_open''
           (report_payload inp r []),
         report_step (''export_'' @ r @ ''_report'') (''Export '' @ r @ '' report'') ''month_end_close_pack'' ''report_export''
           (report_payload inp r [(''format'', PStr ''pdf'')])]) CLOSE_REPORTS)"

record workflow_plan =
  wf_status :: capability_status
  wf_can_run :: bool
  wf_required :: "string list"
  wf_missing :: "string list"
  wf_gates :: "string list"
  wf_plans :: "capability_plan list"
  wf_steps :: "workflow_step list"
  wf_next_action :: string

definition plan_signals :: "capability_plan \<Rightarrow> string list" where
  "plan_signals p =
     concat (map (\<lambda>v. case v of PStr s \<Rightarrow> [s] | _ \<Rightarrow> [])
       (case dget_or (as_dict (pc_capability p)) ''required_signals'' (PList []) of PList xs \<Rightarrow> xs | _ \<Rightarrow> []))"

definition plan_autonomous_workflow ::
  "string \<Rightarrow> string \<Rightarrow> string \<Rightarrow> string list option \<Rightarrow> pyfloat option \<Rightarrow> string list option \<Rightarrow> pydict \<Rightarrow> workflow_plan" where
  "plan_autonomous_workflow workflow_id from_date to_date signals confidence approvals extra =
     (let inp = dupdate [(''workflow_id'', PStr workflow_id), (''from_date'', PStr from_date), (''to_date'', PStr to_date)] extra;
          close = workflow_id = ''period_close_pack'';
          capabilities = (if close then [''ledger_report_reconciliation'', ''month_end_close_pack'', ''anomaly_and_health_monitoring'']
                          else [''ledger_report_reconciliation'', ''receipt_to_bank_match'']);
          steps = (if close then period_close_steps inp else daily_reconciliation_steps inp);
          plans = map (\<lambda>c. plan_autonomous_capability playbook_catalog c signals confidence approvals) capabilities;
          missing = unique_texts (concat (map pc_missing plans));
          status = (if \<exists>p \<in> set plans. pc_status p = Capability_blocked then Capability_blocked
                    else if \<exists>p \<in> set plans. pc_status p = Needs_signals then Needs_signals else Ready)
      in \<lparr>wf_status = status,
          wf_can_run = status = Ready \<and> list_all (\<lambda>s. st_safety s \<in> {''read_only'', ''safe_draft''}) steps,
          wf_required = unique_texts (concat (map plan_signals plans)), wf_missing = missing,
          wf_gates = unique_texts (concat (map pc_gates plans)), wf_plans = plans, wf_steps = steps,
          wf_next_action =
            (if status = Ready then ''Queue this workflow through the policy-gated autonomous Wave executor.''
             else if missing \<noteq> [] then ''Collect missing signals: '' @ join_with '', '' missing @ ''.''
             else ''Prepare the workflow and route unresolved review gates before execution.'')\<rparr>)"

section \<open>Documents\<close>

definition infer_document_capabilities :: "py_env \<Rightarrow> pydict \<Rightarrow> string list" where
  "infer_document_capabilities env doc =
     (let g = dget doc;
          kind = lower (py_str env (py_or (py_or (g ''document_type'') (g ''type'')) (PStr [])))
      in [''document_capture_and_ocr'', ''vendor_category_learning''] @
         (if kind \<in> {''invoice'', ''vendor_invoice'', ''bill''} then [''ap_invoice_workflow''] else []) @
         (if truthy (g ''bank_transaction'') \<or> truthy (g ''bank_transaction_id'') then [''receipt_to_bank_match''] else []) @
         (if truthy (g ''missing_receipt'') \<or> truthy (g ''needs_context'') then [''missing_document_chase''] else []))"

definition document_signals :: "pydict \<Rightarrow> string list option \<Rightarrow> string list result" where
  "document_signals doc available =
     (let g = dget doc; some = (\<lambda>ks s. if \<exists>k \<in> set ks. truthy (g k) then [s] else []) in
      rbind (if truthy (g ''line_items'') then Inr [''line_items'']
             else rbind (attr_get (dget_or doc ''extracted_data'' (PDict [])) ''line_items'' PNone)
                    (\<lambda>v. Inr (if truthy v then [''line_items''] else []))) (\<lambda>lines.
        Inr ((case available of None \<Rightarrow> [] | Some xs \<Rightarrow> xs) @
          some [''ocr_text''] ''ocr_text'' @
          some [''source_document'', ''sourceDocumentId'', ''original_filename''] ''source_document'' @
          some [''vendor_name'', ''vendor_identity''] ''vendor_identity'' @
          some [''category'', ''category_candidates''] ''category_candidates'' @ lines @
          some [''duplicate_fingerprint''] ''duplicate_fingerprint'' @
          some [''bank_transaction'', ''bank_transaction_id''] ''bank_transaction'')))"

definition plan_document ::
  "py_env \<Rightarrow> pydict \<Rightarrow> string list option \<Rightarrow> pyfloat option \<Rightarrow> capability_plan list result" where
  "plan_document env doc available confidence =
     map_sum id (\<lambda>signals. map (\<lambda>c. plan_autonomous_capability playbook_catalog c (Some (sort (remdups signals))) confidence None)
        (infer_document_capabilities env doc)) (document_signals doc available)"

end
