(* ===== verification/Playbook_Plans.thy ===== *)
theory Playbook_Plans
  imports Playbook Wave_Lookups
begin

text \<open>
  What the playbook's plans promise: when a capability and a workflow are ready, that approvals
  play no part in it, that the executor capability is never ready, and that every step of a
  workflow is an action the Wave catalog plans without missing fields.
\<close>

section \<open>Capabilities\<close>

lemma ready_capability:
  "pc_status (plan_autonomous_capability cat cid signals confidence approvals) = Ready \<longleftrightarrow>
     (\<exists>c. wc_capabilities cat cid = Some c \<and>
        set (cp_required_signals c) \<subseteq> set (case signals of None \<Rightarrow> [] | Some xs \<Rightarrow> xs) \<and>
        \<not> flt_less (case confidence of None \<Rightarrow> Num 1 | Some f \<Rightarrow> f) (Num (85 / 100)) \<and>
        cp_autonomy c \<in> set AUTONOMOUS_LEVELS)"
  by (auto simp: plan_autonomous_capability_def Let_def filter_empty_conv AUTONOMOUS_LEVELS_def split: option.splits)

lemma capability_can_run:
  "pc_can_run (plan_autonomous_capability cat cid signals confidence approvals) \<longleftrightarrow>
   pc_status (plan_autonomous_capability cat cid signals confidence approvals) = Ready"
  by (simp add: plan_autonomous_capability_def Let_def split: option.splits)

text \<open>
  The status of a capability does not depend on which review gates were approved: a capability
  with unresolved gates can be ready, and one that is blocked stays blocked with every gate
  approved.
\<close>

theorem approvals_do_not_change_the_status:
  "pc_status (plan_autonomous_capability cat cid signals confidence approvals) =
     pc_status (plan_autonomous_capability cat cid signals confidence approvals') \<and>
   pc_can_run (plan_autonomous_capability cat cid signals confidence approvals) =
     pc_can_run (plan_autonomous_capability cat cid signals confidence approvals')"
  by (simp add: plan_autonomous_capability_def Let_def split: option.splits)

lemma executor_capability:
  "map_option cp_autonomy (map_of PLAYBOOK_CAPABILITIES ''app_layer_executor'') = Some ''confirmed_execute''"
  by code_simp

text \<open>
  The capability that stands for executing approved operations is never ready, so an operation
  prepared for it never reaches a handler, whatever its signals, its confidence and its
  confirmation.
\<close>

theorem executor_capability_never_runs:
  "gate_operation oc (prepare_operation env playbook_catalog action_id payload surface key allow_write
      (Some ''app_layer_executor'') signals confidence) mode confirmed has_handler \<noteq> Call_handler p"
proof -
  obtain c where c: "map_of PLAYBOOK_CAPABILITIES ''app_layer_executor'' = Some c" "cp_autonomy c = ''confirmed_execute''"
    using executor_capability by auto
  have "pc_status (plan_autonomous_capability playbook_catalog ''app_layer_executor'' signals confidence None) \<noteq> Ready"
    using c by (simp add: ready_capability playbook_catalog_def wave_surface_catalog_def AUTONOMOUS_LEVELS_def)
  then show ?thesis
    using call_handler_gate [of oc "prepare_operation env playbook_catalog action_id payload surface key allow_write
      (Some ''app_layer_executor'') signals confidence" mode confirmed has_handler p]
    by (auto simp: prepare_operation_def Let_def)
qed

section \<open>Workflows\<close>

text \<open>The nine actions of the report workflows in the catalog.\<close>

definition step_actions :: "(string \<times> string list) list" where
  "step_actions =
     [(''report_open'', [''reportType'']), (''report_account_filter_select'', [''reportType'', ''accountOption'']),
      (''report_contact_filter_select'', [''reportType'', ''contactOption'']),
      (''report_date_range_set'', [''reportType'', ''fromDate'', ''toDate'']),
      (''report_basis_select'', [''reportType'', ''basis'']), (''report_update'', [''reportType'']),
      (''report_table_read'', [''reportType'']), (''report_empty_state_read'', [''reportType'']),
      (''report_export'', [''reportType'', ''format''])]"

lemma step_actions_in_catalog:
  "list_all (\<lambda>(i, needed). map_option (\<lambda>a. (wa_surface a, wa_safety a, wa_required a)) (map_of WAVE_ACTIONS i) =
     Some (''reports'', ''read_only'', needed)) step_actions"
  by (simp add: step_actions_def lookup_known looked_up_def KNOWN_ACTIONS_def wave_action_entry_def)

lemma step_action_plan:
  assumes "(i, needed) \<in> set step_actions" and "\<forall>f \<in> set needed. dget payload f \<noteq> PNone"
  shows "wp_status (plan_wave_action playbook_catalog ''reports'' i payload False) = Planned \<and>
         wp_can_run (plan_wave_action playbook_catalog ''reports'' i payload False)"
proof -
  obtain a where a: "map_of WAVE_ACTIONS i = Some a" "wa_surface a = ''reports''" "wa_safety a = ''read_only''"
      "wa_required a = needed"
    using step_actions_in_catalog assms(1) by (fastforce simp: list_all_iff split: option.splits)
  have "filter (\<lambda>f. dget payload f = PNone) needed = []" using assms(2) by (simp add: filter_empty_conv)
  then show ?thesis
    by (simp add: plan_wave_action_def playbook_catalog_def wave_surface_catalog_def a Let_def)
qed

definition sound_step :: "workflow_step \<Rightarrow> bool" where
  "sound_step s \<longleftrightarrow> st_surface s = ''reports'' \<and> st_safety s = ''read_only'' \<and>
     (\<exists>needed. (st_action s, needed) \<in> set step_actions \<and> (\<forall>f \<in> set needed. dget (st_payload s) f \<noteq> PNone))"

lemma report_payload_base:
  "dget (report_payload inp r []) ''reportType'' = PStr r"
  "dget (report_payload inp r []) ''fromDate'' = dget inp ''from_date''"
  "dget (report_payload inp r []) ''toDate'' = dget inp ''to_date''"
  "dget (report_payload inp r []) ''accountOption'' = py_or (dget inp ''account_option'') (PStr ''-1'')"
  "dget (report_payload inp r []) ''contactOption'' = py_or (dget inp ''contact_option'') (PStr ''0'')"
  "dget (report_payload inp r []) ''basis'' = py_or (dget inp ''cash_mode'') (PStr ''accrual'')"
  by (simp_all add: report_payload_def dupdate_def Let_def)

lemma report_payload_extra:
  "dget (report_payload inp r [(''format'', x)]) f = (if f = ''format'' then x else dget (report_payload inp r []) f)"
  by (simp add: report_payload_def dupdate_def dget_dset Let_def del: dset.simps)

lemma py_or_text: "py_or v (PStr (c # cs)) \<noteq> PNone"
  by (cases v) (auto simp: py_or_def)

lemmas report_payload_fields = report_payload_base report_payload_extra py_or_text

lemma ledger_steps_sound:
  assumes d: "dget inp ''from_date'' \<noteq> PNone" "dget inp ''to_date'' \<noteq> PNone"
  shows "list_all sound_step (daily_reconciliation_steps inp)"
proof -
  show ?thesis
    by (simp add: daily_reconciliation_steps_def LEDGER_STEPS_def report_step_def sound_step_def step_actions_def
        report_payload_fields d)
qed

lemma close_steps_sound:
  assumes d: "dget inp ''from_date'' \<noteq> PNone" "dget inp ''to_date'' \<noteq> PNone"
  shows "list_all sound_step (period_close_steps inp)"
proof -
  have "list_all sound_step (daily_reconciliation_steps (dset ''include_exports'' (PBool True) inp))"
    using d by (intro ledger_steps_sound) (simp_all add: dget_dset)
  moreover have "sound_step (report_step i l c ''report_open'' (report_payload inp r []))" for i l c r
    by (simp add: report_step_def sound_step_def step_actions_def report_payload_fields)
  moreover have "sound_step (report_step i l c ''report_export'' (report_payload inp r [(''format'', PStr x)]))" for i l c r x
    by (simp add: report_step_def sound_step_def step_actions_def report_payload_fields)
  ultimately show ?thesis by (auto simp: period_close_steps_def list_all_iff)
qed

text \<open>
  Every step of a planned workflow is an action of the Wave catalog on its own surface and with
  its safety class, and plans as complete and able to run without confirmation: the payloads
  the workflows build miss no required field.
\<close>

theorem workflow_steps_are_complete:
  assumes "map_of extra ''from_date'' = None" and "map_of extra ''to_date'' = None"
    and "s \<in> set (wf_steps (plan_autonomous_workflow workflow_id from_date to_date signals confidence approvals extra))"
  shows "wp_status (plan_wave_action playbook_catalog (st_surface s) (st_action s) (st_payload s) False) = Planned \<and>
         wp_can_run (plan_wave_action playbook_catalog (st_surface s) (st_action s) (st_payload s) False) \<and>
         map_option wa_safety (map_of WAVE_ACTIONS (st_action s)) = Some (st_safety s)"
proof -
  let ?inp = "dupdate [(''workflow_id'', PStr workflow_id), (''from_date'', PStr from_date), (''to_date'', PStr to_date)] extra"
  have n: "map_of (rev extra) ''from_date'' = None" "map_of (rev extra) ''to_date'' = None"
    using assms(1,2) by (simp_all add: map_of_eq_None_iff)
  then have d: "dget ?inp ''from_date'' \<noteq> PNone" "dget ?inp ''to_date'' \<noteq> PNone"
    by (simp_all add: dget_or_def map_of_dupdate)
  have "sound_step s"
    using assms(3) ledger_steps_sound [OF d] close_steps_sound [OF d]
    by (auto simp: plan_autonomous_workflow_def Let_def list_all_iff split: if_splits)
  then obtain needed where s: "st_surface s = ''reports''" "st_safety s = ''read_only''"
      "(st_action s, needed) \<in> set step_actions" "\<forall>f \<in> set needed. dget (st_payload s) f \<noteq> PNone"
    by (auto simp: sound_step_def)
  have "map_option wa_safety (map_of WAVE_ACTIONS (st_action s)) = Some ''read_only''"
    using step_actions_in_catalog s(3) by (fastforce simp: list_all_iff split: option.splits)
  with step_action_plan [OF s(3,4)] s(1,2) show ?thesis by simp
qed

theorem workflow_steps_are_complete_witness:
  "\<exists>s. s \<in> set (wf_steps (plan_autonomous_workflow ''daily'' ''2026-01-01'' ''2026-01-31'' None None None [])) \<and>
     wp_can_run (plan_wave_action playbook_catalog (st_surface s) (st_action s) (st_payload s) False)"
proof -
  let ?steps = "wf_steps (plan_autonomous_workflow ''daily'' ''2026-01-01'' ''2026-01-31'' None None None [])"
  have "?steps \<noteq> []" by (simp add: plan_autonomous_workflow_def daily_reconciliation_steps_def LEDGER_STEPS_def Let_def)
  then obtain s where s: "s \<in> set ?steps" by (meson last_in_set)
  then show ?thesis using workflow_steps_are_complete [OF _ _ s] by auto
qed

lemma plans_ready_iff:
  "wf_status (plan_autonomous_workflow w f t signals confidence approvals extra) = Ready \<longleftrightarrow>
   (\<forall>p \<in> set (wf_plans (plan_autonomous_workflow w f t signals confidence approvals extra)). pc_status p = Ready)"
proof -
  have "pc_status p = Ready \<longleftrightarrow> pc_status p \<noteq> Capability_blocked \<and> pc_status p \<noteq> Needs_signals" for p
    by (cases "pc_status p") auto
  then show ?thesis by (auto simp: plan_autonomous_workflow_def Let_def)
qed

text \<open>
  A workflow runs on its own exactly when each of its capabilities can, and then it waits for no
  signal.
\<close>

theorem workflow_runs_iff_capabilities_do:
  "wf_can_run (plan_autonomous_workflow w f t signals confidence approvals extra) \<longleftrightarrow>
   list_all pc_can_run (wf_plans (plan_autonomous_workflow w f t signals confidence approvals extra))"
proof -
  let ?w = "plan_autonomous_workflow w f t signals confidence approvals extra"
  have safe: "list_all (\<lambda>s. st_safety s \<in> {''read_only'', ''safe_draft''}) (daily_reconciliation_steps inp)" for inp
    by (auto simp: daily_reconciliation_steps_def LEDGER_STEPS_def report_step_def)
  then have "list_all (\<lambda>s. st_safety s \<in> {''read_only'', ''safe_draft''}) (wf_steps ?w)"
    by (auto simp: plan_autonomous_workflow_def period_close_steps_def report_step_def Let_def list_all_iff)
  then have "wf_can_run ?w \<longleftrightarrow> wf_status ?w = Ready" by (simp add: plan_autonomous_workflow_def Let_def)
  moreover have "p \<in> set (wf_plans ?w) \<Longrightarrow> pc_can_run p \<longleftrightarrow> pc_status p = Ready" for p
    by (auto simp: plan_autonomous_workflow_def Let_def capability_can_run split: if_splits)
  ultimately show ?thesis by (simp add: plans_ready_iff list_all_iff)
qed

end
