(* ===== verification/Json_Read.thy ===== *)
theory Json_Read
  imports Py_Text
begin

text \<open>
  A reader for the JSON text the program writes with \<open>json.dumps(sort_keys=True)\<close>, with either
  pair of separators. What is written reads back as the value with its dictionaries sorted by
  key, so equal texts come from equal values. The text of a float is a parameter: floats are those
  whose text is a JSON number that reads back as the float.
\<close>

section \<open>Writing\<close>

function json_with :: "string \<Rightarrow> string \<Rightarrow> py_env \<Rightarrow> pyval \<Rightarrow> string" where
  "json_with is ks env PNone = ''null''"
| "json_with is ks env (PBool b) = (if b then ''true'' else ''false'')"
| "json_with is ks env (PInt i) = str_of_int i"
| "json_with is ks env (PFloat f) = py_repr env (PFloat f)"
| "json_with is ks env (PStr s) = json_string s"
| "json_with is ks env (PList xs) = ''['' @ join_with is (map (json_with is ks env) xs) @ '']''"
| "json_with is ks env (PDict d) =
     ''{'' @ join_with is (map (\<lambda>(k, t). json_string k @ ks @ t)
        (sort_key fst (map (\<lambda>kv. (fst kv, json_with is ks env (snd kv))) d))) @ ''}''"
  by pat_completeness auto

termination
  by (relation "measure (\<lambda>(_, _, _, v). size v)") (auto simp: size_dict_value less_Suc_eq_le size_list_estimation'
    dest: size_dict_value)

lemma json_text_with: "json_text env v = json_with '', '' '': '' env v"
proof (induction env v rule: json_text.induct)
  case (6 env xs)
  have e: "map (json_text env) xs = map (json_with '', '' '': '' env) xs" using 6 by (intro map_cong) simp_all
  show ?case unfolding json_text.simps json_with.simps e ..
next
  case (7 env d)
  have e: "map (\<lambda>kv. (fst kv, json_text env (snd kv))) d = map (\<lambda>kv. (fst kv, json_with '', '' '': '' env (snd kv))) d"
    using 7 by (intro map_cong) simp_all
  show ?case unfolding json_text.simps json_with.simps e ..
qed simp_all

section \<open>Strings\<close>

definition hex_value :: "char \<Rightarrow> nat" where
  "hex_value c = (let n = of_char c :: nat in if n < 58 then n - 48 else n - 87)"

definition unescape :: "char \<Rightarrow> char" where
  "unescape c =
     (if c = CHR ''n'' then char_of (10 :: nat) else if c = CHR ''r'' then char_of (13 :: nat)
      else if c = CHR ''t'' then char_of (9 :: nat) else if c = CHR ''b'' then char_of (8 :: nat)
      else if c = CHR ''f'' then char_of (12 :: nat) else c)"

abbreviation cons_char :: "char \<Rightarrow> (string \<times> string) option \<Rightarrow> (string \<times> string) option" where
  "cons_char c r \<equiv> map_option (\<lambda>(t, s). (c # t, s)) r"

function read_string :: "string \<Rightarrow> (string \<times> string) option" where
  "read_string [] = None"
| "read_string (c # cs) =
     (if c = CHR 0x22 then Some ([], cs)
      else if c = CHR 0x5C then
        (case cs of
           [] \<Rightarrow> None
         | e # rest \<Rightarrow>
             if e = CHR ''u'' then
               (if length rest < 4 then None
                else cons_char (char_of (16 * hex_value (rest ! 2) + hex_value (rest ! 3))) (read_string (drop 4 rest)))
             else cons_char (unescape e) (read_string rest))
      else cons_char c (read_string cs))"
  by pat_completeness auto

termination by (relation "measure length") auto

declare read_string.simps [simp del]

lemma hex_value_char: "k < 16 \<Longrightarrow> hex_value (hex_char k) = k"
  by (auto simp: hex_value_def hex_char_def Let_def)

lemma special_chars:
  "char_of (92 :: nat) = CHR 0x5C" "char_of (34 :: nat) = CHR 0x22" "unescape CHR 0x22 = CHR 0x22"
  "unescape CHR 0x5C = CHR 0x5C" "unescape CHR ''n'' = char_of (10 :: nat)" "unescape CHR ''r'' = char_of (13 :: nat)"
  "unescape CHR ''t'' = char_of (9 :: nat)" "unescape CHR ''b'' = char_of (8 :: nat)" "unescape CHR ''f'' = char_of (12 :: nat)"
  by code_simp+

lemma read_escape:
  "e \<noteq> CHR ''u'' \<Longrightarrow> read_string (CHR 0x5C # e # s) = cons_char (unescape e) (read_string s)"
  by (simp add: read_string.simps)

lemma read_unicode:
  "read_string (CHR 0x5C # CHR ''u'' # CHR ''0'' # CHR ''0'' # a # b # s) =
     cons_char (char_of (16 * hex_value a + hex_value b)) (read_string s)"
  by (simp add: read_string.simps(2) [of "CHR 0x5C"] numeral_2_eq_2 numeral_3_eq_3)

lemma read_json_char: "read_string (json_char c @ s) = cons_char c (read_string s)"
proof -
  define n :: nat where "n = of_char c"
  have c: "c = char_of n" by (simp add: n_def)
  have "n \<in> range (of_char :: char \<Rightarrow> nat)" by (simp add: n_def)
  then have n: "n < 256" by (simp add: range_nat_of_char)
  consider "n \<in> {34, 92, 10, 13, 9, 8, 12}" | "n \<notin> {34, 92, 10, 13, 9, 8, 12}" "n < 32 \<or> 126 < n"
    | "n \<notin> {34, 92}" "\<not> (n < 32 \<or> 126 < n)"
    by blast
  then show ?thesis
  proof cases
    case 1
    then show ?thesis
      by (auto simp: json_char_def n_def [symmetric] Let_def c special_chars read_escape)
  next
    case 2
    have "json_char c = [CHR 0x5C, CHR ''u'', CHR ''0'', CHR ''0'', hex_char (n div 16), hex_char (n mod 16)]"
      using 2 by (simp add: json_char_def n_def [symmetric] Let_def special_chars)
    moreover have "16 * hex_value (hex_char (n div 16)) + hex_value (hex_char (n mod 16)) = n"
      using n by (simp add: hex_value_char)
    ultimately show ?thesis by (simp add: read_unicode c)
  next
    case 3
    have "json_char c = [c]" using 3 by (auto simp: json_char_def n_def [symmetric] Let_def)
    moreover have "c \<noteq> CHR 0x22" "c \<noteq> CHR 0x5C" using 3(1) by (auto simp: n_def)
    ultimately show ?thesis by (simp add: read_string.simps)
  qed
qed

lemma read_json_string: "read_string (tl (json_string t @ s)) = Some (t, s)"
proof -
  have "read_string (concat (map json_char t) @ CHR 0x22 # s) = Some (t, s)"
  proof (induction t)
    case Nil
    then show ?case by (simp add: read_string.simps)
  next
    case (Cons c t)
    then show ?case by (simp add: read_json_char)
  qed
  then show ?thesis by (simp add: json_string_def)
qed

section \<open>Values\<close>

definition skip_space :: "string \<Rightarrow> string" where
  "skip_space s = (case s of [] \<Rightarrow> [] | c # cs \<Rightarrow> if c = CHR '' '' then cs else s)"

definition read_integer :: "string \<Rightarrow> (int \<times> string) option" where
  "read_integer s =
     (let (neg, body) = (case s of [] \<Rightarrow> (False, []) | c # cs \<Rightarrow> if c = CHR ''-'' then (True, cs) else (False, s));
          ds = takeWhile is_digit body
      in map_option (\<lambda>n. (if neg then - int n else int n, dropWhile is_digit body)) (nat_of_str ds))"

text \<open>A number is an integer when it has neither a point nor an exponent.\<close>

definition integer_char :: "char \<Rightarrow> bool" where
  "integer_char c \<longleftrightarrow> is_digit c \<or> c = CHR ''-''"

definition number_char :: "char \<Rightarrow> bool" where
  "number_char c \<longleftrightarrow> integer_char c \<or> c \<in> {CHR ''.'', CHR ''+'', CHR ''e''}"

definition read_number :: "string \<Rightarrow> (pyval \<times> string) option" where
  "read_number s =
     (let token = takeWhile number_char s; rest = dropWhile number_char s in
      if list_all integer_char token then map_option (\<lambda>(i, _). (PInt i, rest)) (read_integer token)
      else map_option (\<lambda>f. (PFloat f, rest)) (parse_float token))"

text \<open>
  The fuel bounds the nesting and the length of the text; \<open>read_items\<close> and \<open>read_pairs\<close> read the
  elements up to the closing bracket.
\<close>

fun read_value :: "nat \<Rightarrow> string \<Rightarrow> (pyval \<times> string) option"
  and read_items :: "nat \<Rightarrow> string \<Rightarrow> (pyval list \<times> string) option"
  and read_pairs :: "nat \<Rightarrow> string \<Rightarrow> (pydict \<times> string) option" where
  "read_value 0 s = None"
| "read_value (Suc f) s =
     (if take 4 s = ''null'' then Some (PNone, drop 4 s)
      else if take 4 s = ''true'' then Some (PBool True, drop 4 s)
      else if take 5 s = ''false'' then Some (PBool False, drop 5 s)
      else case s of
        [] \<Rightarrow> None
      | c # cs \<Rightarrow>
          if c = CHR 0x22 then map_option (\<lambda>(t, r). (PStr t, r)) (read_string cs)
          else if c = CHR ''['' then
            (if take 1 cs = '']'' then Some (PList [], drop 1 cs)
             else map_option (\<lambda>(xs, r). (PList xs, r)) (read_items f cs))
          else if c = CHR ''{'' then
            (if take 1 cs = ''}'' then Some (PDict [], drop 1 cs)
             else map_option (\<lambda>(d, r). (PDict d, r)) (read_pairs f cs))
          else read_number s)"
| "read_items 0 s = None"
| "read_items (Suc f) s =
     (case read_value f s of
        None \<Rightarrow> None
      | Some (v, r) \<Rightarrow>
          (case r of
             [] \<Rightarrow> None
           | c # cs \<Rightarrow>
               if c = CHR '']'' then Some ([v], cs)
               else if c = CHR '','' then map_option (\<lambda>(vs, t). (v # vs, t)) (read_items f (skip_space cs))
               else None))"
| "read_pairs 0 s = None"
| "read_pairs (Suc f) s =
     (case s of
        [] \<Rightarrow> None
      | q # cs \<Rightarrow>
          if q \<noteq> CHR 0x22 then None
          else (case read_string cs of
                  Some (k, c1 # r1) \<Rightarrow>
                    if c1 \<noteq> CHR '':'' then None
                    else (case read_value f (skip_space r1) of
                            Some (v, c2 # r2) \<Rightarrow>
                              if c2 = CHR ''}'' then Some ([(k, v)], r2)
                              else if c2 = CHR '','' then
                                map_option (\<lambda>(d, t). ((k, v) # d, t)) (read_pairs f (skip_space r2))
                              else None
                          | _ \<Rightarrow> None)
                | _ \<Rightarrow> None))"

definition json_loads :: "nat \<Rightarrow> string \<Rightarrow> pyval option" where
  "json_loads fuel s = (case read_value fuel s of Some (v, []) \<Rightarrow> Some v | _ \<Rightarrow> None)"

section \<open>Round trip\<close>

text \<open>The value a text denotes: dictionaries in the order of their keys.\<close>

function sorted_value :: "pyval \<Rightarrow> pyval" where
  "sorted_value (PDict d) = PDict (sort_key fst (map (\<lambda>kv. (fst kv, sorted_value (snd kv))) d))"
| "sorted_value (PList xs) = PList (map sorted_value xs)"
| "sorted_value PNone = PNone"
| "sorted_value (PBool b) = PBool b"
| "sorted_value (PInt i) = PInt i"
| "sorted_value (PFloat f) = PFloat f"
| "sorted_value (PStr s) = PStr s"
  by pat_completeness auto

termination
  by (relation "measure size") (auto simp: size_dict_value less_Suc_eq_le size_list_estimation' dest: size_dict_value)

text \<open>
  The text of a float as a JSON number that \<open>float\<close> reads back; it has a character no integer has.
\<close>

definition float_text :: "py_env \<Rightarrow> pyfloat \<Rightarrow> bool" where
  "float_text env f \<longleftrightarrow>
     (let t = py_repr env (PFloat f) in list_all number_char t \<and> \<not> list_all integer_char t \<and> parse_float t = Some f)"

function json_readable :: "py_env \<Rightarrow> pyval \<Rightarrow> bool" where
  "json_readable env (PDict d) = list_all (\<lambda>kv. json_readable env (snd kv)) d"
| "json_readable env (PList xs) = list_all (json_readable env) xs"
| "json_readable env PNone = True"
| "json_readable env (PBool b) = True"
| "json_readable env (PInt i) = True"
| "json_readable env (PFloat f) = float_text env f"
| "json_readable env (PStr s) = True"
  by pat_completeness auto

termination
  by (relation "measure (size \<circ> snd)") (auto simp: size_dict_value less_Suc_eq_le size_list_estimation' dest: size_dict_value)

definition closes :: "string \<Rightarrow> bool" where
  "closes s \<longleftrightarrow> s = [] \<or> hd s \<in> {CHR '','', CHR '']'', CHR ''}''}"

text \<open>The two separators of a style, as the reader skips them.\<close>

definition json_style :: "string \<Rightarrow> string \<Rightarrow> bool" where
  "json_style is ks \<longleftrightarrow> is \<in> {'','', '', ''} \<and> ks \<in> {'':'', '': ''}"

lemma is_digit_of_nat: "c \<in> set (str_of_nat n) \<Longrightarrow> is_digit c"
  using str_of_nat_digits by (auto simp: is_digit_def)

lemma closes_not_digit: "closes s \<Longrightarrow> s = [] \<or> \<not> is_digit (hd s)"
  by (auto simp: closes_def is_digit_def char_digit_def Let_def)

lemma read_nat_part:
  assumes "closes s"
  shows "takeWhile is_digit (str_of_nat n @ s) = str_of_nat n \<and> dropWhile is_digit (str_of_nat n @ s) = s"
proof -
  have "takeWhile is_digit s = [] \<and> dropWhile is_digit s = s"
    using closes_not_digit [OF assms] by (cases s) auto
  then show ?thesis using is_digit_of_nat [of _ n] by simp
qed

lemma hd_nat_not_minus: "str_of_nat n @ s = c # cs \<Longrightarrow> c \<noteq> CHR ''-'' \<and> is_digit c"
proof -
  assume e: "str_of_nat n @ s = c # cs"
  then have "c \<in> set (str_of_nat n)" by (cases "str_of_nat n") auto
  then have "is_digit c" by (rule is_digit_of_nat)
  moreover have "\<not> is_digit CHR ''-''" by code_simp
  ultimately show ?thesis by auto
qed

lemma read_integer_text:
  assumes "closes s"
  shows "read_integer (str_of_int i @ s) = Some (i, s)"
proof (cases "i < 0")
  case True
  then show ?thesis using read_nat_part [OF assms, of "nat (- i)"]
    by (simp add: read_integer_def str_of_int_def)
next
  case False
  obtain c cs where c: "str_of_nat (nat i) @ s = c # cs" by (cases "str_of_nat (nat i)") auto
  from hd_nat_not_minus [OF c] have "c \<noteq> CHR ''-''" by simp
  with False c read_nat_part [OF assms, of "nat i"] show ?thesis
    by (simp add: read_integer_def str_of_int_def)
qed

lemma sort_map_snd:
  "sort_key fst (map (\<lambda>kv. (fst kv, g (snd kv))) d) = map (\<lambda>kv. (fst kv, g (snd kv))) (sort_key fst d)"
proof -
  have ins: "insort_key fst (fst kv, g (snd kv)) (map (\<lambda>kv. (fst kv, g (snd kv))) xs) =
      map (\<lambda>kv. (fst kv, g (snd kv))) (insort_key fst kv xs)" for kv xs
    by (induction xs) auto
  show ?thesis by (induction d) (simp_all add: ins)
qed

lemma closes_not_number: "closes s \<Longrightarrow> s = [] \<or> \<not> number_char (hd s)"
  by (auto simp: closes_def number_char_def integer_char_def is_digit_def char_digit_def Let_def)

lemma number_token:
  assumes "closes s" and "list_all number_char t"
  shows "takeWhile number_char (t @ s) = t" and "dropWhile number_char (t @ s) = s"
proof -
  have "takeWhile number_char s = []" "dropWhile number_char s = s"
    using closes_not_number [OF assms(1)] by (cases s; auto)+
  then show "takeWhile number_char (t @ s) = t" "dropWhile number_char (t @ s) = s"
    using assms(2) by (auto simp: list_all_iff)
qed

lemma integer_text_chars: "list_all integer_char (str_of_int i)" "list_all number_char (str_of_int i)"
  using is_digit_of_nat by (auto simp: str_of_int_def list_all_iff integer_char_def number_char_def)

lemma read_number_int: "closes s \<Longrightarrow> read_number (str_of_int i @ s) = Some (PInt i, s)"
  using number_token [OF _ integer_text_chars(2), of s i] integer_text_chars(1) [of i] read_integer_text [of "[]" i]
  by (simp add: read_number_def closes_def)

lemma read_number_float:
  "closes s \<Longrightarrow> float_text env f \<Longrightarrow> read_number (py_repr env (PFloat f) @ s) = Some (PFloat f, s)"
  using number_token [of s "py_repr env (PFloat f)"] by (simp add: read_number_def float_text_def Let_def)

lemma not_number_chars:
  "number_char c \<Longrightarrow>
     c \<notin> {CHR '']'', CHR ''}'', CHR '' '', CHR ''n'', CHR ''t'', CHR ''f'', CHR 0x22, CHR ''['', CHR ''{''}"
  by (auto simp: number_char_def integer_char_def is_digit_def char_digit_def Let_def)

lemma float_text_start: "float_text env f \<Longrightarrow> \<exists>c cs. py_repr env (PFloat f) = c # cs \<and> number_char c"
  by (cases "py_repr env (PFloat f)") (auto simp: float_text_def Let_def)

text \<open>The first character tells a value from a closing bracket and a space.\<close>

lemma value_start:
  assumes "json_readable env v"
  shows "\<exists>c cs. json_with is ks env v = c # cs \<and> c \<notin> {CHR '']'', CHR ''}'', CHR '' ''}"
proof (cases v)
  case (PInt i)
  have d: "\<not> is_digit CHR '']''" "\<not> is_digit CHR ''}''" "\<not> is_digit CHR '' ''" by code_simp+
  obtain c cs where c: "str_of_nat (nat i) @ [] = c # cs" by (cases "str_of_nat (nat i)") auto
  from hd_nat_not_minus [OF c] have "is_digit c" by simp
  with d have "c \<notin> {CHR '']'', CHR ''}'', CHR '' ''}" by auto
  with c PInt show ?thesis by (auto simp: str_of_int_def)
next
  case (PFloat f)
  with assms float_text_start [of env f] show ?thesis using not_number_chars by fastforce
qed (auto simp: json_string_def)

lemma skip_value: "json_readable env v \<Longrightarrow> skip_space (json_with is ks env v @ s) = json_with is ks env v @ s"
  using value_start [of env v "is" ks] by (auto simp: skip_space_def)

definition reads_back :: "string \<Rightarrow> string \<Rightarrow> py_env \<Rightarrow> pyval \<Rightarrow> bool" where
  "reads_back is ks env v \<longleftrightarrow>
     (\<exists>n. \<forall>f \<ge> n. \<forall>s. closes s \<longrightarrow> read_value f (json_with is ks env v @ s) = Some (sorted_value v, s))"

lemma reads_backI:
  "(\<And>f s. n \<le> f \<Longrightarrow> closes s \<Longrightarrow> read_value (Suc f) (json_with is ks env v @ s) = Some (sorted_value v, s)) \<Longrightarrow>
     reads_back is ks env v"
  unfolding reads_back_def by (rule exI [of _ "Suc n"]) (metis Suc_le_D Suc_le_mono)

lemma read_items_back:
  assumes style: "json_style is ks" and "xs \<noteq> []" and "\<forall>x \<in> set xs. json_readable env x \<and> reads_back is ks env x"
  shows "\<exists>n. \<forall>f \<ge> n. \<forall>s. read_items f (join_with is (map (json_with is ks env) xs) @ CHR '']'' # s) = Some (map sorted_value xs, s)"
  using assms(2,3)
proof (induction xs)
  case (Cons x xs)
  from Cons.prems(2) obtain n where n: "\<forall>f \<ge> n. \<forall>s. closes s \<longrightarrow>
      read_value f (json_with is ks env x @ s) = Some (sorted_value x, s)"
    by (auto simp: reads_back_def)
  show ?case
  proof (cases xs)
    case Nil
    have "\<forall>f \<ge> Suc n. \<forall>s. read_items f (json_with is ks env x @ CHR '']'' # s) = Some ([sorted_value x], s)"
    proof (intro allI impI)
      fix f s
      assume "Suc n \<le> f"
      then obtain g where "f = Suc g" "n \<le> g" by (cases f) auto
      with n show "read_items f (json_with is ks env x @ CHR '']'' # s) = Some ([sorted_value x], s)"
        by (simp add: closes_def)
    qed
    with Nil show ?thesis by (intro exI [of _ "Suc n"]) simp
  next
    case more: (Cons y ys)
    from Cons more obtain m where m: "\<forall>f \<ge> m. \<forall>s.
        read_items f (join_with is (map (json_with is ks env) xs) @ CHR '']'' # s) = Some (map sorted_value xs, s)"
      by auto
    have y: "json_readable env y" using Cons.prems(2) more by simp
    have "\<forall>f \<ge> Suc (max n m). \<forall>s. read_items f (json_with is ks env x @ is @
        join_with is (map (json_with is ks env) xs) @ CHR '']'' # s) = Some (sorted_value x # map sorted_value xs, s)"
    proof (intro allI impI)
      fix f s
      assume "Suc (max n m) \<le> f"
      then obtain g where g: "f = Suc g" "n \<le> g" "m \<le> g" by (cases f) auto
      let ?rest = "join_with is (map (json_with is ks env) xs) @ CHR '']'' # s"
      have start: "skip_space ?rest = ?rest"
        using skip_value [OF y] more by (cases ys) simp_all
      have sep: "closes (is @ ?rest)" "\<exists>cs. is @ ?rest = CHR '','' # cs \<and> skip_space cs = ?rest"
        using style start by (auto simp: json_style_def closes_def skip_space_def)
      then obtain cs where cs: "is @ ?rest = CHR '','' # cs" "skip_space cs = ?rest" by blast
      have v: "read_value g (json_with is ks env x @ is @ ?rest) = Some (sorted_value x, is @ ?rest)"
        using n g(2) sep(1) by blast
      show "read_items f (json_with is ks env x @ is @ ?rest) = Some (sorted_value x # map sorted_value xs, s)"
        unfolding g(1) read_items.simps v using cs m g(3) by simp
    qed
    with more show ?thesis by (intro exI [of _ "Suc (max n m)"]) simp
  qed
qed simp

definition pair_text :: "string \<Rightarrow> string \<Rightarrow> py_env \<Rightarrow> string \<times> pyval \<Rightarrow> string" where
  "pair_text is ks env kv = json_string (fst kv) @ ks @ json_with is ks env (snd kv)"

lemma read_pairs_back:
  assumes style: "json_style is ks" and "d \<noteq> []" and "\<forall>kv \<in> set d. json_readable env (snd kv) \<and> reads_back is ks env (snd kv)"
  shows "\<exists>n. \<forall>f \<ge> n. \<forall>s. read_pairs f (join_with is (map (pair_text is ks env) d) @ CHR ''}'' # s) =
    Some (map (\<lambda>kv. (fst kv, sorted_value (snd kv))) d, s)"
  using assms(2,3)
proof (induction d)
  case (Cons kv d)
  obtain k v where kv: "kv = (k, v)" by force
  have ff: "json_readable env v" using Cons.prems(2) kv by simp
  from Cons.prems(2) obtain n where n: "\<forall>f \<ge> n. \<forall>s. closes s \<longrightarrow>
      read_value f (json_with is ks env v @ s) = Some (sorted_value v, s)"
    by (auto simp: reads_back_def kv)
  have key: "json_string k @ s = CHR 0x22 # tl (json_string k @ s)" for s by (simp add: json_string_def)
  have colon: "\<exists>cs. ks @ json_with is ks env v @ s = CHR '':'' # cs \<and> skip_space cs = json_with is ks env v @ s" for s
    using style skip_value [OF ff, of "is" ks s] by (auto simp: json_style_def skip_space_def)
  have head: "read_pairs (Suc g) (pair_text is ks env (k, v) @ s) =
      (case s of [] \<Rightarrow> None
       | c2 # r2 \<Rightarrow> if c2 = CHR ''}'' then Some ([(k, sorted_value v)], r2)
           else if c2 = CHR '','' then map_option (\<lambda>(d, t). ((k, sorted_value v) # d, t)) (read_pairs g (skip_space r2))
           else None)"
    if "n \<le> g" "closes s" for g s
  proof -
    obtain cs where cs: "ks @ json_with is ks env v @ s = CHR '':'' # cs" "skip_space cs = json_with is ks env v @ s"
      using colon by blast
    have t: "pair_text is ks env (k, v) @ s = CHR 0x22 # tl (json_string k @ CHR '':'' # cs)"
      using key [of "CHR '':'' # cs"] cs(1) by (simp add: pair_text_def)
    show ?thesis
      unfolding t read_pairs.simps
      using n that read_json_string [of k "CHR '':'' # cs"] cs(2) by (simp split: list.splits)
  qed
  show ?case
  proof (cases d)
    case Nil
    have "\<forall>f \<ge> Suc n. \<forall>s. read_pairs f (pair_text is ks env (k, v) @ CHR ''}'' # s) = Some ([(k, sorted_value v)], s)"
    proof (intro allI impI)
      fix f s
      assume "Suc n \<le> f"
      then obtain g where "f = Suc g" "n \<le> g" by (cases f) auto
      with head show "read_pairs f (pair_text is ks env (k, v) @ CHR ''}'' # s) = Some ([(k, sorted_value v)], s)"
        by (simp add: closes_def)
    qed
    with Nil kv show ?thesis by (intro exI [of _ "Suc n"]) simp
  next
    case more: (Cons y ys)
    let ?g = "\<lambda>kv. (fst kv, sorted_value (snd kv))"
    from Cons more obtain m where m: "\<forall>f \<ge> m. \<forall>s.
        read_pairs f (join_with is (map (pair_text is ks env) d) @ CHR ''}'' # s) = Some (map ?g d, s)"
      by auto
    have "\<forall>f \<ge> Suc (max n m). \<forall>s. read_pairs f (pair_text is ks env (k, v) @ is @
        join_with is (map (pair_text is ks env) d) @ CHR ''}'' # s) = Some ((k, sorted_value v) # map ?g d, s)"
    proof (intro allI impI)
      fix f s
      assume "Suc (max n m) \<le> f"
      then obtain g where g: "f = Suc g" "n \<le> g" "m \<le> g" by (cases f) auto
      let ?rest = "join_with is (map (pair_text is ks env) d) @ CHR ''}'' # s"
      have start: "skip_space ?rest = ?rest"
        using more by (cases ys) (simp_all add: pair_text_def json_string_def skip_space_def)
      have sep: "closes (is @ ?rest)" "\<exists>cs. is @ ?rest = CHR '','' # cs \<and> skip_space cs = ?rest"
        using style start by (auto simp: json_style_def closes_def skip_space_def)
      then obtain cs where cs: "is @ ?rest = CHR '','' # cs" "skip_space cs = ?rest" by blast
      show "read_pairs f (pair_text is ks env (k, v) @ is @ ?rest) = Some ((k, sorted_value v) # map ?g d, s)"
        unfolding g(1) head [OF g(2) sep(1)] using cs m g(3) by simp
    qed
    with more kv show ?thesis by (intro exI [of _ "Suc (max n m)"]) simp
  qed
qed simp

lemma pair_texts: "map (\<lambda>(k, t). json_string k @ ks @ t) (map (\<lambda>kv. (fst kv, json_with is ks env (snd kv))) d) =
    map (pair_text is ks env) d"
  by (simp add: pair_text_def)

lemma dict_reads_back:
  assumes style: "json_style is ks" and d: "\<forall>kv \<in> set d. json_readable env (snd kv) \<and> reads_back is ks env (snd kv)"
  shows "reads_back is ks env (PDict d)"
proof (cases "d = []")
  case True
  show ?thesis by (rule reads_backI [of 0]) (simp add: True)
next
  case False
  let ?d = "sort_key fst d"
  have ne: "?d \<noteq> []" using False by (metis length_0_conv length_sort)
  have all: "\<forall>kv \<in> set ?d. json_readable env (snd kv) \<and> reads_back is ks env (snd kv)" using d by simp
  from read_pairs_back [OF style ne all] obtain n where n: "\<forall>f \<ge> n. \<forall>s.
      read_pairs f (join_with is (map (pair_text is ks env) ?d) @ CHR ''}'' # s) =
      Some (map (\<lambda>kv. (fst kv, sorted_value (snd kv))) ?d, s)"
    by blast
  have shape: "json_with is ks env (PDict d) = CHR ''{'' # join_with is (map (pair_text is ks env) ?d) @ ''}''"
    by (simp add: sort_map_snd flip: pair_texts)
  obtain c cs where start: "join_with is (map (pair_text is ks env) ?d) = c # cs" "c = CHR 0x22"
    using ne by (cases "?d" rule: list.exhaust; cases "tl ?d") (auto simp: pair_text_def json_string_def)
  show ?thesis
  proof (rule reads_backI [of n])
    fix f s
    assume f: "n \<le> f"
    have t: "json_with is ks env (PDict d) @ s = CHR ''{'' # c # cs @ CHR ''}'' # s" by (simp only: shape start append.simps append_assoc)
    have "read_pairs f (c # cs @ CHR ''}'' # s) = Some (map (\<lambda>kv. (fst kv, sorted_value (snd kv))) ?d, s)"
      using n f by (simp add: start(1))
    then show "read_value (Suc f) (json_with is ks env (PDict d) @ s) = Some (sorted_value (PDict d), s)"
      unfolding t by (simp add: start(2) eval_nat_numeral sort_map_snd)
  qed
qed

lemma list_reads_back:
  assumes style: "json_style is ks" and xs: "\<forall>x \<in> set xs. json_readable env x \<and> reads_back is ks env x"
  shows "reads_back is ks env (PList xs)"
proof (cases xs)
  case Nil
  show ?thesis by (rule reads_backI [of 0]) (simp add: Nil)
next
  case (Cons y ys)
  from read_items_back [OF style _ xs] Cons obtain n where n: "\<forall>f \<ge> n. \<forall>s.
      read_items f (join_with is (map (json_with is ks env) xs) @ CHR '']'' # s) = Some (map sorted_value xs, s)"
    by auto
  have "json_readable env y" using xs Cons by simp
  from value_start [OF this, of "is" ks] obtain c cs where
    start: "join_with is (map (json_with is ks env) xs) = c # cs" "c \<noteq> CHR '']''"
    using Cons by (cases ys) auto
  show ?thesis
    by (rule reads_backI [of n]) (use n start in simp)
qed

lemma number_reads_back:
  assumes "\<And>s. closes s \<Longrightarrow> read_number (json_with is ks env v @ s) = Some (sorted_value v, s)"
    and "json_with is ks env v = c # cs" and "number_char c"
  shows "reads_back is ks env v"
proof (rule reads_backI [of 0])
  fix f s
  assume s: "closes s"
  from not_number_chars [OF assms(3)] show "read_value (Suc f) (json_with is ks env v @ s) = Some (sorted_value v, s)"
    using assms(1) [OF s] by (simp add: assms(2) eval_nat_numeral)
qed

lemma int_reads_back: "reads_back is ks env (PInt i)"
proof -
  obtain c cs where "str_of_int i = c # cs"
    using str_of_nat_nonempty by (cases "str_of_int i") (auto simp: str_of_int_def split: if_splits)
  then show ?thesis
    using integer_text_chars(2) [of i] read_number_int [of _ i] by (intro number_reads_back [of "is" ks env _ c cs]) simp_all
qed

lemma float_reads_back: "float_text env f \<Longrightarrow> reads_back is ks env (PFloat f)"
  using float_text_start [of env f] read_number_float [of _ env f] by (auto intro: number_reads_back)

lemma string_reads_back: "reads_back is ks env (PStr t)"
proof (rule reads_backI [of 0])
  fix f s
  obtain r where r: "json_string t @ s = CHR 0x22 # r" "read_string r = Some (t, s)"
    using read_json_string [of t s] by (simp add: json_string_def)
  show "read_value (Suc f) (json_with is ks env (PStr t) @ s) = Some (sorted_value (PStr t), s)"
    unfolding json_with.simps r(1) by (simp add: r(2) eval_nat_numeral)
qed

lemma value_reads_back: "json_style is ks \<Longrightarrow> json_readable env v \<Longrightarrow> reads_back is ks env v"
proof (induction v rule: sorted_value.induct)
  case (1 d)
  then show ?case by (intro dict_reads_back) (auto simp: list_all_iff)
next
  case (2 xs)
  then show ?case by (intro list_reads_back) (auto simp: list_all_iff)
qed (auto intro: int_reads_back float_reads_back string_reads_back reads_backI [of 0])

lemma json_loads_dumps:
  assumes "json_style is ks" and "json_readable env v"
  shows "\<exists>n. \<forall>f \<ge> n. json_loads f (json_with is ks env v) = Some (sorted_value v)"
proof -
  from value_reads_back [OF assms] obtain n where
    "\<forall>f \<ge> n. \<forall>s. closes s \<longrightarrow> read_value f (json_with is ks env v @ s) = Some (sorted_value v, s)"
    by (auto simp: reads_back_def)
  then have "\<forall>f \<ge> n. json_loads f (json_with is ks env v) = Some (sorted_value v)"
    by (fastforce simp: json_loads_def closes_def)
  then show ?thesis ..
qed

text \<open>Equal texts come from values that are equal up to the order of dictionary keys.\<close>

lemma json_injective:
  assumes "json_style is ks" and "json_readable env v" and "json_readable env w"
    and "json_with is ks env v = json_with is ks env w"
  shows "sorted_value v = sorted_value w"
proof -
  obtain n where n: "\<forall>f \<ge> n. json_loads f (json_with is ks env v) = Some (sorted_value v)"
    using json_loads_dumps [OF assms(1,2)] by blast
  obtain m where m: "\<forall>f \<ge> m. json_loads f (json_with is ks env w) = Some (sorted_value w)"
    using json_loads_dumps [OF assms(1,3)] by blast
  have "json_loads (max n m) (json_with is ks env v) = Some (sorted_value v)" using n by simp
  moreover have "json_loads (max n m) (json_with is ks env w) = Some (sorted_value w)" using m by simp
  ultimately show ?thesis using assms(4) by simp
qed

end
