(* ===== verification/Mijngeldzaken.thy ===== *)
theory Mijngeldzaken
  imports Wave_Catalog Wave_Documents Json_Read
begin

text \<open>
  MijnGeldzaken: the action catalog and its planner, the payloads, import rows and drafts of
  documents (src/data_entry/mijngeldzaken_surface.py), and the operator that gates every action
  (src/data_entry/mijngeldzaken_autonomous_operator.py).
\<close>

section \<open>The catalog\<close>

definition MGZ_MODULES :: "(string \<times> string list) list" where
  "MGZ_MODULES =
     [(''access'', [''login'', ''profile_security'']),
      (''overview'', [''dashboard'', ''current_month'', ''trends'', ''income'', ''expenses'', ''net_worth'', ''alerts'']),
      (''master_ledger'', [''transactions'', ''accounts'', ''categories'', ''budgets'']),
      (''documents'', [''document_vault'', ''receipts'', ''payslips'', ''contracts'']),
      (''planning'', [''goals'', ''scenarios'', ''mortgage_planning'', ''pension_planning'', ''savings_planning'']),
      (''reports'', [''reports'', ''exports'']),
      (''settings'', [''settings'', ''imports'', ''security'', ''data_connections''])]"

definition MGZ_ACTIONS :: "(string \<times> wave_action) list" where
  "MGZ_ACTIONS =
     [(''login_email_fill'', wave_action_entry ''login'' ''auth'' ''requires_credentials'' [''email'']),
      (''login_password_fill'', wave_action_entry ''login'' ''auth'' ''requires_credentials'' [''password'']),
      (''login_submit'', wave_action_entry ''login'' ''auth'' ''requires_credentials'' []),
      (''password_reset_open'', wave_action_entry ''login'' ''read'' ''read_only'' []),
      (''register_open'', wave_action_entry ''login'' ''read'' ''read_only'' []),
      (''dashboard_open'', wave_action_entry ''dashboard'' ''read'' ''read_only'' []),
      (''help_open'', wave_action_entry ''dashboard'' ''read'' ''read_only'' []),
      (''current_month_read'', wave_action_entry ''current_month'' ''read'' ''read_only'' []),
      (''period_previous'', wave_action_entry ''current_month'' ''read'' ''read_only'' []),
      (''period_next'', wave_action_entry ''current_month'' ''read'' ''read_only'' []),
      (''account_update_prompt_read'', wave_action_entry ''current_month'' ''read'' ''read_only'' []),
      (''trend_report_read'', wave_action_entry ''trends'' ''read'' ''read_only'' []),
      (''income_overview_read'', wave_action_entry ''income'' ''read'' ''read_only'' []),
      (''expense_overview_read'', wave_action_entry ''expenses'' ''read'' ''read_only'' []),
      (''transaction_list_read'', wave_action_entry ''transactions'' ''read'' ''read_only'' []),
      (''transaction_import_prepare'', wave_action_entry ''transactions'' ''import'' ''safe_draft'' [''date'', ''amount'', ''description'', ''category'']),
      (''transaction_import_submit'', wave_action_entry ''transactions'' ''import'' ''requires_confirmation'' [''importBatchId'']),
      (''import_mapping_prepare'', wave_action_entry ''imports'' ''map'' ''safe_draft'' [''sourceColumns'', ''targetColumns'']),
      (''import_mapping_apply'', wave_action_entry ''imports'' ''map'' ''requires_confirmation'' [''mappingId'']),
      (''import_history_read'', wave_action_entry ''imports'' ''read'' ''read_only'' []),
      (''transaction_update'', wave_action_entry ''transactions'' ''write'' ''requires_confirmation'' [''transactionId'', ''changes'']),
      (''transaction_delete'', wave_action_entry ''transactions'' ''write'' ''requires_confirmation'' [''transactionId'']),
      (''account_list_read'', wave_action_entry ''accounts'' ''read'' ''read_only'' []),
      (''account_balance_read'', wave_action_entry ''accounts'' ''read'' ''read_only'' []),
      (''account_update_start'', wave_action_entry ''accounts'' ''sync'' ''requires_confirmation'' [''accountId'']),
      (''category_list_read'', wave_action_entry ''categories'' ''read'' ''read_only'' []),
      (''category_mapping_prepare'', wave_action_entry ''categories'' ''map'' ''safe_draft'' [''sourceCategory'', ''targetCategory'']),
      (''category_update'', wave_action_entry ''categories'' ''write'' ''requires_confirmation'' [''categoryId'', ''changes'']),
      (''budget_report_read'', wave_action_entry ''reports'' ''read'' ''read_only'' []),
      (''budget_list_read'', wave_action_entry ''budgets'' ''read'' ''read_only'' []),
      (''budget_detail_read'', wave_action_entry ''budgets'' ''read'' ''read_only'' [''budgetId'']),
      (''budget_suggestion_prepare'', wave_action_entry ''budgets'' ''budget'' ''safe_draft'' [''category'', ''period'', ''suggestedAmount'']),
      (''budget_create'', wave_action_entry ''budgets'' ''write'' ''requires_confirmation'' [''category'', ''period'', ''amount'']),
      (''budget_update'', wave_action_entry ''budgets'' ''write'' ''requires_confirmation'' [''budgetId'', ''changes'']),
      (''cashflow_report_read'', wave_action_entry ''reports'' ''read'' ''read_only'' []),
      (''transaction_export_download'', wave_action_entry ''exports'' ''export'' ''read_only'' [''dateRange'']),
      (''category_export_download'', wave_action_entry ''exports'' ''export'' ''read_only'' []),
      (''goal_list_read'', wave_action_entry ''goals'' ''read'' ''read_only'' []),
      (''scenario_list_read'', wave_action_entry ''scenarios'' ''read'' ''read_only'' []),
      (''mortgage_planning_read'', wave_action_entry ''mortgage_planning'' ''read'' ''read_only'' []),
      (''pension_planning_read'', wave_action_entry ''pension_planning'' ''read'' ''read_only'' []),
      (''savings_planning_read'', wave_action_entry ''savings_planning'' ''read'' ''read_only'' []),
      (''scenario_create'', wave_action_entry ''scenarios'' ''write'' ''requires_confirmation'' [''name'', ''assumptions'']),
      (''document_list_read'', wave_action_entry ''document_vault'' ''read'' ''read_only'' []),
      (''contract_list_read'', wave_action_entry ''contracts'' ''read'' ''read_only'' []),
      (''receipt_list_read'', wave_action_entry ''receipts'' ''read'' ''read_only'' []),
      (''payslip_list_read'', wave_action_entry ''payslips'' ''read'' ''read_only'' []),
      (''document_upload_prepare'', wave_action_entry ''document_vault'' ''upload'' ''safe_draft'' [''documentId'', ''filename'']),
      (''receipt_upload_prepare'', wave_action_entry ''receipts'' ''upload'' ''safe_draft'' [''documentId'', ''filename'']),
      (''payslip_upload_prepare'', wave_action_entry ''payslips'' ''upload'' ''safe_draft'' [''documentId'', ''filename'']),
      (''document_upload_submit'', wave_action_entry ''document_vault'' ''upload'' ''requires_confirmation'' [''uploadDraftId'']),
      (''receipt_upload_submit'', wave_action_entry ''receipts'' ''upload'' ''requires_confirmation'' [''uploadDraftId'']),
      (''payslip_upload_submit'', wave_action_entry ''payslips'' ''upload'' ''requires_confirmation'' [''uploadDraftId'']),
      (''profile_settings_read'', wave_action_entry ''settings'' ''read'' ''read_only'' []),
      (''security_settings_read'', wave_action_entry ''security'' ''read'' ''read_only'' []),
      (''data_connections_read'', wave_action_entry ''data_connections'' ''read'' ''read_only'' []),
      (''connected_account_refresh'', wave_action_entry ''data_connections'' ''sync'' ''requires_confirmation'' [''connectionId'']),
      (''password_change'', wave_action_entry ''security'' ''auth'' ''requires_credentials'' [''currentPassword'', ''newPassword''])]"

definition list_mijngeldzaken_surfaces :: "string list" where
  "list_mijngeldzaken_surfaces = concat (map snd MGZ_MODULES)"

definition list_mijngeldzaken_actions :: "string option \<Rightarrow> (string \<times> wave_action) list" where
  "list_mijngeldzaken_actions surface =
     filter (\<lambda>(i, a). given_text surface = [] \<or> wa_surface a = given_text surface) MGZ_ACTIONS"

text \<open>The planner; unlike Wave's it counts an empty text as missing.\<close>

definition unsupported_plan :: "string \<Rightarrow> wave_plan" where
  "unsupported_plan surface =
     \<lparr>wp_status = Unsupported, wp_surface = surface, wp_mode = None, wp_safety = None,
      wp_missing = [], wp_can_run = False, wp_requires_confirmation = True\<rparr>"

definition plan_mijngeldzaken_action :: "string \<Rightarrow> string \<Rightarrow> pydict \<Rightarrow> bool \<Rightarrow> wave_plan" where
  "plan_mijngeldzaken_action surface action_id payload allow_write =
     (case map_of MGZ_ACTIONS action_id of
        None \<Rightarrow> unsupported_plan surface
      | Some a \<Rightarrow>
          if wa_surface a \<noteq> surface then unsupported_plan surface
          else
            (let missing = filter (\<lambda>f. is_blank (dget payload f)) (wa_required a);
                 confirm = wa_safety a \<in> {''requires_confirmation'', ''requires_credentials''}
             in \<lparr>wp_status = (if missing \<noteq> [] then Needs_fields else Planned), wp_surface = surface,
                 wp_mode = Some (wa_mode a), wp_safety = Some (wa_safety a), wp_missing = missing,
                 wp_can_run = (missing = [] \<and> wa_safety a \<in> {''read_only'', ''safe_draft''}) \<or>
                              (allow_write \<and> missing = [] \<and> \<not> confirm),
                 wp_requires_confirmation = confirm\<rparr>))"

section \<open>Documents\<close>

definition normalize_mijngeldzaken_document_type :: "py_env \<Rightarrow> pyval \<Rightarrow> string" where
  "normalize_mijngeldzaken_document_type env v =
     (if \<not> truthy v then ''receipt''
      else replace_char CHR ''-'' CHR ''_'' (replace_char CHR '' '' CHR ''_'' (lower (strip (py_str env v)))))"

definition mgz_destination_of :: "string \<Rightarrow> destination" where
  "mgz_destination_of t =
     (if t \<in> {''document'', ''contract'', ''policy'', ''statement''}
      then \<lparr>ds_type = t, ds_target = ''document_vault'', ds_fallback = ''transactions''\<rparr>
      else \<lparr>ds_type = t, ds_target = ''transactions'', ds_fallback = ''document_vault''\<rparr>)"

definition classify_mijngeldzaken_destination :: "py_env \<Rightarrow> pydict \<Rightarrow> destination result" where
  "classify_mijngeldzaken_destination env data =
     map_sum id (\<lambda>v. mgz_destination_of (normalize_mijngeldzaken_document_type env v)) (document_type_value data)"

definition mgz_action_for_surface :: "string \<Rightarrow> string" where
  "mgz_action_for_surface surface =
     (if surface = ''document_vault'' then ''document_upload_prepare'' else ''transaction_import_prepare'')"

definition resolve_mijngeldzaken_action_for_document :: "py_env \<Rightarrow> pydict \<Rightarrow> string result" where
  "resolve_mijngeldzaken_action_for_document env data =
     map_sum id (\<lambda>d. mgz_action_for_surface (ds_target d)) (classify_mijngeldzaken_destination env data)"

text \<open>
  The first statement reads \<open>extracted_data\<close>; a value that is no dictionary raises when it is
  asked for a field.
\<close>

definition build_mijngeldzaken_action_payload :: "py_env \<Rightarrow> pydict \<Rightarrow> pyval \<Rightarrow> pyval \<Rightarrow> pydict result" where
  "build_mijngeldzaken_action_payload env data category account =
     rbind (resolve_mijngeldzaken_action_for_document env data) (\<lambda>action.
       case dget_or data ''extracted_data'' (PDict []) of
         PDict ex \<Rightarrow>
           (let e = dget ex; d = dget data in
            Inr (if action = ''document_upload_prepare'' then
               [(''documentId'', or_chain [d ''id'', d ''document_id'']),
                (''filename'', or_chain [d ''original_filename'', d ''filename'', d ''description'', PStr ''document'']),
                (''category'', category),
                (''description'', or_chain [e ''description'', d ''description'', PStr []])]
             else
               (let vendor = or_chain [e ''vendor_name'', d ''vendor_name'', PStr []] in
                [(''date'', or_chain [e ''transaction_date'', e ''date'', d ''transaction_date'', PStr []]),
                 (''amount'', or_chain [e ''total_amount'', e ''amount'', d ''total_amount'', PFloat (Num 0)]),
                 (''description'', or_chain [e ''description'', d ''description'', vendor, PStr ''FAB import'']),
                 (''counterparty'', vendor), (''category'', category),
                 (''account'', or_chain [e ''account'', d ''target_account'', account]),
                 (''currency'', or_chain [e ''currency'', d ''currency'', PStr ''EUR'']),
                 (''sourceDocumentId'', or_chain [d ''id'', d ''document_id''])])))
       | _ \<Rightarrow> Inl AttributeError)"

definition MIJNGELDZAKEN_IMPORT_COLUMNS :: "string list" where
  "MIJNGELDZAKEN_IMPORT_COLUMNS =
     [''Datum'', ''Omschrijving'', ''Tegenpartij'', ''Bedrag'', ''Categorie'', ''Rekening'', ''Valuta'', ''FAB Document ID'']"

definition build_mijngeldzaken_import_row_from_payload :: "pydict \<Rightarrow> pydict" where
  "build_mijngeldzaken_import_row_from_payload payload =
     [(''Datum'', dget_or payload ''date'' (PStr [])), (''Omschrijving'', dget_or payload ''description'' (PStr [])),
      (''Tegenpartij'', dget_or payload ''counterparty'' (PStr [])), (''Bedrag'', dget_or payload ''amount'' (PFloat (Num 0))),
      (''Categorie'', dget_or payload ''category'' (PStr [])), (''Rekening'', dget_or payload ''account'' (PStr [])),
      (''Valuta'', dget_or payload ''currency'' (PStr ''EUR'')), (''FAB Document ID'', dget payload ''sourceDocumentId'')]"

definition build_mijngeldzaken_import_row :: "py_env \<Rightarrow> pydict \<Rightarrow> pyval \<Rightarrow> pyval \<Rightarrow> pydict result" where
  "build_mijngeldzaken_import_row env data category account =
     map_sum id build_mijngeldzaken_import_row_from_payload (build_mijngeldzaken_action_payload env data category account)"

section \<open>Drafts\<close>

text \<open>\<open>json.dumps(value, sort_keys=True, separators=(",", ":"))\<close>\<close>

definition json_compact :: "py_env \<Rightarrow> pyval \<Rightarrow> string" where
  "json_compact = json_with '','' '':''"

definition stable_checksum :: "py_env \<Rightarrow> pydict \<Rightarrow> string" where
  "stable_checksum env d = sha256_hex env (json_compact env (PDict d))"

definition draft_body :: "string \<Rightarrow> pydict \<Rightarrow> string \<times> pydict" where
  "draft_body action_id payload =
     (if action_id = ''transaction_import_prepare'' then (''importRow'', build_mijngeldzaken_import_row_from_payload payload)
      else if action_id \<in> {''document_upload_prepare'', ''receipt_upload_prepare'', ''payslip_upload_prepare''} then
        (''uploadDraft'', map (\<lambda>k. (k, dget payload k)) [''documentId'', ''filename'', ''category'', ''description''])
      else (''payload'', payload))"

definition draft_checksum :: "py_env \<Rightarrow> string \<Rightarrow> string \<Rightarrow> pydict \<Rightarrow> pydict \<Rightarrow> string" where
  "draft_checksum env action_id surface payload proof =
     stable_checksum env
       [(''actionId'', PStr action_id), (''surface'', PStr surface),
        (fst (draft_body action_id payload), PDict (snd (draft_body action_id payload))), (''sourceProof'', PDict proof)]"

definition build_mijngeldzaken_master_ledger_draft ::
  "py_env \<Rightarrow> string \<Rightarrow> string \<Rightarrow> pydict \<Rightarrow> pydict \<Rightarrow> pydict" where
  "build_mijngeldzaken_master_ledger_draft env action_id surface payload proof =
     (let (kind, body) = draft_body action_id payload;
          checksum = (''checksum'', PStr (draft_checksum env action_id surface payload proof));
          tail = [(''sourceProof'', PDict proof), checksum, (''externalSubmission'', PStr ''not_executed'')]
      in if kind = ''importRow'' then
           [(''draftType'', PStr ''transaction_import''), (''targetSystem'', PStr ''mijngeldzaken''),
            (''surface'', PStr (first_text surface ''transactions'')), (''actionId'', PStr action_id),
            (''exportFormat'', PStr ''csv''), (''columns'', PList (map PStr MIJNGELDZAKEN_IMPORT_COLUMNS)),
            (''importRow'', PDict body)] @ tail
         else if kind = ''uploadDraft'' then
           [(''draftType'', PStr ''document_upload''), (''targetSystem'', PStr ''mijngeldzaken''),
            (''surface'', PStr (first_text surface ''document_vault'')), (''actionId'', PStr action_id),
            (''uploadDraft'', PDict body)] @ tail
         else
           [(''draftType'', PStr ''unsupported''), (''targetSystem'', PStr ''mijngeldzaken''),
            (''surface'', PStr surface), (''actionId'', PStr action_id), (''payload'', PDict body)] @ tail)"

section \<open>The operator\<close>

definition mgz_operator_config_of :: "pydict \<Rightarrow> operator_config" where
  "mgz_operator_config_of cfg =
     \<lparr>oc_allow_confirmed = truthy (dget_or cfg ''mijngeldzaken_allow_confirmed_actions'' (PBool False)),
      oc_allow_credentials = truthy (dget_or cfg ''mijngeldzaken_allow_credential_actions'' (PBool False)),
      oc_default_mode = (case dget_or cfg ''mijngeldzaken_autonomous_mode'' (PStr ''prepare'') of PStr s \<Rightarrow> s | _ \<Rightarrow> [])\<rparr>"

record mgz_operation =
  mo_id :: string
  mo_action :: string
  mo_surface :: string
  mo_mode :: "string option"
  mo_safety :: string
  mo_payload :: pydict
  mo_plan :: wave_plan

definition prepare_mgz_operation ::
  "py_env \<Rightarrow> string \<Rightarrow> pydict \<Rightarrow> string option \<Rightarrow> string option \<Rightarrow> bool \<Rightarrow> mgz_operation" where
  "prepare_mgz_operation env action_id payload surface key allow_write =
     (let action = map_of MGZ_ACTIONS action_id;
          catalog_surface = (case action of None \<Rightarrow> [] | Some a \<Rightarrow> wa_surface a);
          plan = plan_mijngeldzaken_action (first_text (given_text surface) catalog_surface) action_id payload allow_write
      in \<lparr>mo_id = first_text (given_text key)
             (''mijngeldzaken:'' @ sha256_hex env (action_id @ '':'' @ json_text env (PDict payload))),
          mo_action = action_id,
          mo_surface = first_text (wp_surface plan) catalog_surface,
          mo_mode = (case wp_mode plan of
                       Some m \<Rightarrow> if m = [] then map_option wa_mode action else Some m
                     | None \<Rightarrow> map_option wa_mode action),
          mo_safety = first_text (given_text (wp_safety plan))
             (case action of None \<Rightarrow> ''unsupported'' | Some a \<Rightarrow> wa_safety a),
          mo_payload = payload, mo_plan = plan\<rparr>)"

text \<open>
  \<open>execute\<close> up to the handler: the operation is stopped with a status, or the payload goes to the
  action's handler.
\<close>

datatype mgz_gate = Mgz_stop string string | Mgz_call pydict

definition gate_mgz_operation ::
  "operator_config \<Rightarrow> mgz_operation \<Rightarrow> string option \<Rightarrow> bool \<Rightarrow> bool \<Rightarrow> mgz_gate" where
  "gate_mgz_operation oc op mode confirmed has_handler =
     (let m = first_text (given_text mode) (oc_default_mode oc) in
      if wp_status (mo_plan op) \<noteq> Planned then
        Mgz_stop ''needs_review'' ''MijnGeldzaken action cannot run until its plan is complete.''
      else if mo_safety op = ''requires_credentials'' \<and> \<not> oc_allow_credentials oc then
        Mgz_stop ''blocked_requires_credentials''
          (''MijnGeldzaken action requires a supervised user-owned sign-in. '' @
           ''FAB does not use stored MijnGeldzaken passwords.'')
      else if mo_safety op = ''requires_confirmation'' \<and> \<not> (confirmed \<and> oc_allow_confirmed oc) then
        Mgz_stop ''blocked_requires_confirmation''
          ''MijnGeldzaken action changes external state and needs explicit confirmation.''
      else if m = ''dry_run'' then
        Mgz_stop ''planned'' ''MijnGeldzaken action passed policy checks in dry-run mode.''
      else if \<not> has_handler then
        Mgz_stop ''queued'' ''MijnGeldzaken action is policy-approved and ready for an API or browser executor.''
      else Mgz_call (mo_payload op))"

definition execute_mgz ::
  "py_env \<Rightarrow> operator_config \<Rightarrow> (string \<Rightarrow> (pydict \<Rightarrow> pydict) option) \<Rightarrow> string \<Rightarrow> pydict \<Rightarrow> string option \<Rightarrow>
   bool \<Rightarrow> string option \<Rightarrow> string option \<Rightarrow> pydict option \<times> execution" where
  "execute_mgz env oc handlers action_id payload surface confirmed key mode =
     (let op = prepare_mgz_operation env action_id payload surface key confirmed in
      case gate_mgz_operation oc op mode confirmed (handlers action_id \<noteq> None) of
        Mgz_stop status message \<Rightarrow> (None, stopped status message)
      | Mgz_call p \<Rightarrow>
          (let res = the (handlers action_id) p in
           (Some p, \<lparr>en_status = dget_or res ''status'' (PStr ''success''),
              en_message = dget_or res ''message'' (PStr ''MijnGeldzaken action executed.''),
              en_external_id = dget res ''external_id'', en_result = res\<rparr>)))"

end
