(* ===== verification/Csv_Text.thy ===== *)
theory Csv_Text
  imports Py_Text
begin

text \<open>
  CSV text as \<open>csv.writer\<close> writes it with the quote character \<open>"\<close>, minimal quoting and the line
  terminator \<open>\\n\<close>, and a reader with the states of \<open>csv.reader\<close>. What was written reads back.
\<close>

abbreviation quote :: char where "quote \<equiv> CHR 0x22"
abbreviation newline :: char where "newline \<equiv> CHR 0x0A"
abbreviation carriage :: char where "carriage \<equiv> CHR 0x0D"

section \<open>Writing\<close>

definition needs_quotes :: "char \<Rightarrow> string \<Rightarrow> bool" where
  "needs_quotes delim s \<longleftrightarrow> (\<exists>c \<in> set s. c \<in> {delim, quote, newline, carriage})"

definition double_quotes :: "string \<Rightarrow> string" where
  "double_quotes s = concat (map (\<lambda>c. if c = quote then [quote, quote] else [c]) s)"

definition csv_field :: "char \<Rightarrow> string \<Rightarrow> string" where
  "csv_field delim s = (if needs_quotes delim s then quote # double_quotes s @ [quote] else s)"

text \<open>A row of one empty field is written quoted, so that it is not an empty line.\<close>

fun csv_fields :: "char \<Rightarrow> string list \<Rightarrow> string" where
  "csv_fields delim [] = []"
| "csv_fields delim [s] = csv_field delim s"
| "csv_fields delim (s # ss) = csv_field delim s @ delim # csv_fields delim ss"

definition csv_line :: "char \<Rightarrow> string list \<Rightarrow> string" where
  "csv_line delim row = (if row = [[]] then [quote, quote] else csv_fields delim row) @ [newline]"

definition csv_text :: "char \<Rightarrow> string list list \<Rightarrow> string" where
  "csv_text delim rows = concat (map (csv_line delim) rows)"

section \<open>Reading\<close>

datatype csv_state = Start | Plain | Quoted | Quote_seen

text \<open>
  \<open>cur\<close> is the field read so far in reverse, \<open>row\<close> the fields before it in reverse. At the end of
  the text an unfinished row is given up as it is.
\<close>

fun read_csv :: "char \<Rightarrow> csv_state \<Rightarrow> string \<Rightarrow> string list \<Rightarrow> string \<Rightarrow> string list list" where
  "read_csv delim st cur row [] = (if st = Start \<and> row = [] then [] else [rev (rev cur # row)])"
| "read_csv delim st cur row (c # cs) =
     (case st of
        Quoted \<Rightarrow>
          if c = quote then read_csv delim Quote_seen cur row cs else read_csv delim Quoted (c # cur) row cs
      | Quote_seen \<Rightarrow>
          if c = quote then read_csv delim Quoted (c # cur) row cs
          else if c = delim then read_csv delim Start [] (rev cur # row) cs
          else if c = newline then rev (rev cur # row) # read_csv delim Start [] [] cs
          else read_csv delim Plain (c # cur) row cs
      | Start \<Rightarrow>
          if c = quote then read_csv delim Quoted cur row cs
          else if c = delim then read_csv delim Start [] (rev cur # row) cs
          else if c = newline then rev (rev cur # row) # read_csv delim Start [] [] cs
          else read_csv delim Plain (c # cur) row cs
      | Plain \<Rightarrow>
          if c = delim then read_csv delim Start [] (rev cur # row) cs
          else if c = newline then rev (rev cur # row) # read_csv delim Start [] [] cs
          else read_csv delim Plain (c # cur) row cs)"

section \<open>Round trip\<close>

definition plain_delimiter :: "char \<Rightarrow> bool" where
  "plain_delimiter d \<longleftrightarrow> d \<notin> {quote, newline, carriage}"

lemma read_quoted:
  "read_csv d Quoted cur row (double_quotes s @ quote # rest) = read_csv d Quote_seen (rev s @ cur) row rest"
  by (induction s arbitrary: cur) (auto simp: double_quotes_def)

lemma read_plain:
  "\<not> needs_quotes d s \<Longrightarrow> st = Plain \<or> (st = Start \<and> cur = []) \<Longrightarrow> s \<noteq> [] \<Longrightarrow>
     read_csv d st cur row (s @ rest) = read_csv d Plain (rev s @ cur) row rest"
proof (induction s arbitrary: st cur)
  case (Cons c s)
  have c: "c \<noteq> d" "c \<noteq> quote" "c \<noteq> newline" and s: "\<not> needs_quotes d s"
    using Cons.prems(1) by (auto simp: needs_quotes_def)
  have step: "read_csv d st cur row ((c # s) @ rest) = read_csv d Plain (c # cur) row (s @ rest)"
    using Cons.prems(2) c by auto
  show ?case
  proof (cases "s = []")
    case True
    with step show ?thesis by simp
  next
    case False
    with step Cons.IH [OF s] show ?thesis by simp
  qed
qed simp

text \<open>After a field the reader is at its end: whatever state it is in, a delimiter or a line end closes it.\<close>

lemma read_field:
  assumes "plain_delimiter d" and "x = d \<or> x = newline"
  shows "read_csv d Start [] row (csv_field d s @ x # rest) =
    (if x = d then read_csv d Start [] (s # row) rest else rev (s # row) # read_csv d Start [] [] rest)"
proof (cases "needs_quotes d s")
  case True
  have "read_csv d Start [] row (csv_field d s @ x # rest) = read_csv d Quote_seen (rev s) row (x # rest)"
    using True assms(1) read_quoted [of d "[]" row s "x # rest"] by (simp add: csv_field_def plain_delimiter_def)
  then show ?thesis using assms by (auto simp: plain_delimiter_def)
next
  case False
  show ?thesis
  proof (cases "s = []")
    case True
    then show ?thesis using False assms by (auto simp: csv_field_def plain_delimiter_def)
  next
    case ne: False
    have "read_csv d Start [] row (csv_field d s @ x # rest) = read_csv d Plain (rev s) row (x # rest)"
      using False ne read_plain [of d s Start "[]" row "x # rest"] by (simp add: csv_field_def)
    then show ?thesis using assms by (auto simp: plain_delimiter_def)
  qed
qed

lemma read_fields:
  assumes "plain_delimiter d" and "fs \<noteq> []"
  shows "read_csv d Start [] row (csv_fields d fs @ newline # rest) =
    (rev row @ fs) # read_csv d Start [] [] rest"
  using assms(2)
proof (induction fs arbitrary: row)
  case (Cons s fs)
  have nd: "newline \<noteq> d" using assms(1) by (auto simp: plain_delimiter_def)
  show ?case
  proof (cases fs)
    case Nil
    then show ?thesis using read_field [OF assms(1), of newline row s rest] nd by simp
  next
    case more: (Cons t ts)
    then show ?thesis
      using read_field [OF assms(1), of d row s "csv_fields d fs @ newline # rest"] Cons.IH [of "s # row"] by simp
  qed
qed simp

lemma read_line:
  assumes "plain_delimiter d" and "fs \<noteq> []"
  shows "read_csv d Start [] [] (csv_line d fs @ rest) = fs # read_csv d Start [] [] rest"
proof (cases "fs = [[]]")
  case True
  with assms(1) show ?thesis by (auto simp: csv_line_def plain_delimiter_def)
next
  case False
  with read_fields [OF assms, of "[]" rest] show ?thesis by (simp add: csv_line_def)
qed

lemma read_csv_text:
  assumes "plain_delimiter d" and "[] \<notin> set rows"
  shows "read_csv d Start [] [] (csv_text d rows) = rows"
  using assms(2)
proof (induction rows)
  case (Cons r rows)
  have "r \<noteq> []" using Cons.prems by auto
  from read_line [OF assms(1) this, of "csv_text d rows"] Cons show ?case by (simp add: csv_text_def)
qed (simp add: csv_text_def)

end
