(* ===== verification/Mgz_Handler.thy ===== *)
theory Mgz_Handler
  imports Mijngeldzaken Csv_Text
begin

text \<open>
  The MijnGeldzaken handler (src/data_entry/mijngeldzaken_handler.py) and the names under which
  its artifacts are stored (src/data_entry/mijngeldzaken_artifacts.py). Writing the file is a
  port; its answer is the path, the digest and the size of what was written.
\<close>

section \<open>File names\<close>

definition alphanumeric :: "char \<Rightarrow> bool" where
  "alphanumeric c =
     (let n = of_char c :: nat in (48 \<le> n \<and> n \<le> 57) \<or> (65 \<le> n \<and> n \<le> 90) \<or> (97 \<le> n \<and> n \<le> 122))"

definition name_char :: "char \<Rightarrow> bool" where
  "name_char c \<longleftrightarrow> alphanumeric c \<or> c \<in> {CHR ''.'', CHR ''_'', CHR ''-''}"

text \<open>\<open>re.sub(r"[^A-Za-z0-9._-]+", "-", text)\<close>\<close>

fun collapse_unsafe :: "bool \<Rightarrow> string \<Rightarrow> string" where
  "collapse_unsafe in_run [] = []"
| "collapse_unsafe in_run (c # cs) =
     (if name_char c then c # collapse_unsafe False cs
      else if in_run then collapse_unsafe True cs else CHR ''-'' # collapse_unsafe True cs)"

definition strip_of :: "char set \<Rightarrow> string \<Rightarrow> string" where
  "strip_of cs s = rev (dropWhile (\<lambda>c. c \<in> cs) (rev (dropWhile (\<lambda>c. c \<in> cs) s)))"

definition safe_segment :: "nat \<Rightarrow> string \<Rightarrow> string \<Rightarrow> string" where
  "safe_segment limit dflt text =
     (let s = take limit (strip_of {CHR ''.'', CHR ''-''} (collapse_unsafe False text)) in if s = [] then dflt else s)"

definition safe_filename_segment :: "py_env \<Rightarrow> pyval \<Rightarrow> string" where
  "safe_filename_segment env v = safe_segment 80 ''item'' (strip (py_str env (py_or v (PStr []))))"

text \<open>\<open>Path(text).name\<close>, \<open>.stem\<close> and \<open>.suffix\<close> of a POSIX path.\<close>

fun path_parts :: "string \<Rightarrow> string \<Rightarrow> string list" where
  "path_parts cur [] = [rev cur]"
| "path_parts cur (c # cs) = (if c = CHR ''/'' then rev cur # path_parts [] cs else path_parts (c # cur) cs)"

definition path_name :: "string \<Rightarrow> string" where
  "path_name text =
     (case rev (filter (\<lambda>p. p \<noteq> [] \<and> p \<noteq> ''.'') (path_parts [] text)) of [] \<Rightarrow> [] | p # _ \<Rightarrow> p)"

definition split_suffix :: "string \<Rightarrow> string \<times> string" where
  "split_suffix name =
     (let after = takeWhile (\<lambda>c. c \<noteq> CHR ''.'') (rev name); n = length name - length after - 1
      in if after = [] \<or> length after = length name \<or> n = 0 then (name, []) else (take n name, drop n name))"

definition safe_filename :: "py_env \<Rightarrow> pyval \<Rightarrow> string" where
  "safe_filename env v =
     (let (stem, suffix) = split_suffix (path_name (py_str env (py_or v (PStr ''artifact''))))
      in safe_segment 100 ''artifact'' stem @ take 12 (filter (\<lambda>c. alphanumeric c \<or> c = CHR ''.'') suffix))"

definition artifact_name :: "py_env \<Rightarrow> bool \<Rightarrow> pyval \<Rightarrow> string \<Rightarrow> string" where
  "artifact_name env include_checksum v checksum =
     (let name = safe_filename env v; (stem, suffix) = split_suffix name
      in if include_checksum then stem @ ''-'' @ take 12 checksum @ suffix else name)"

section \<open>The import file\<close>

definition map_mgz_category :: "py_env \<Rightarrow> pydict \<Rightarrow> pyval \<Rightarrow> string result" where
  "map_mgz_category env config category =
     (case py_or (dget config ''mijngeldzaken_category_mapping'') (PDict []) of
        PDict m \<Rightarrow>
          (case category of
             PList _ \<Rightarrow> Inl TypeError
           | PDict _ \<Rightarrow> Inl TypeError
           | PStr c \<Rightarrow> Inr (py_str env (dget_or m c (py_or category (PStr ''Overig''))))
           | _ \<Rightarrow> Inr (py_str env (py_or category (PStr ''Overig''))))
      | _ \<Rightarrow> Inl AttributeError)"

fun nested_value :: "pyval \<Rightarrow> string list \<Rightarrow> pyval" where
  "nested_value current [] = (if current = PNone then PStr [] else current)"
| "nested_value current (p # ps) =
     (case current of
        PDict d \<Rightarrow> if p = [] then PStr [] else nested_value (dget d p) ps
      | _ \<Rightarrow> PStr [])"

fun split_text :: "char \<Rightarrow> string \<Rightarrow> string \<Rightarrow> string list" where
  "split_text sep cur [] = [rev cur]"
| "split_text sep cur (c # cs) = (if c = sep then rev cur # split_text sep [] cs else split_text sep (c # cur) cs)"

definition mapped_value :: "py_env \<Rightarrow> pydict \<Rightarrow> pydict \<Rightarrow> pyval \<Rightarrow> pyval result" where
  "mapped_value env config data source_key =
     (let key = py_str env (py_or source_key (PStr [])) in
      if key = ''category'' then map_sum id PStr (map_mgz_category env config (dget data ''category''))
      else Inr (nested_value (PDict data) (split_text CHR ''.'' [] key)))"

fun mapped_row :: "(pyval \<Rightarrow> pyval result) \<Rightarrow> pydict \<Rightarrow> pydict result" where
  "mapped_row f [] = Inr []"
| "mapped_row f ((k, v) # d) = rbind (f v) (\<lambda>x. rbind (mapped_row f d) (\<lambda>row. Inr ((k, x) # row)))"

definition csv_template :: "pydict \<Rightarrow> pyval" where
  "csv_template config = py_or (dget config ''mijngeldzaken_csv_template'') (PDict [])"

definition template_columns :: "py_env \<Rightarrow> pydict \<Rightarrow> string list result" where
  "template_columns env t =
     (let v = dget t ''columns'' in
      if truthy v then map_sum id (map (py_str env)) (iterate v) else Inr MIJNGELDZAKEN_IMPORT_COLUMNS)"

text \<open>The writer refuses a delimiter that is the quote character or ends a line.\<close>

definition csv_delimiter :: "py_env \<Rightarrow> pydict \<Rightarrow> pydict \<Rightarrow> char result" where
  "csv_delimiter env config t =
     (case py_str env (or_chain [dget t ''delimiter'', dget config ''mijngeldzaken_csv_delimiter'', PStr '';'']) of
        [d] \<Rightarrow> if plain_delimiter d then Inr d else Inl ValueError
      | _ \<Rightarrow> Inl ValueError)"

definition mgz_import_row :: "py_env \<Rightarrow> pydict \<Rightarrow> pydict \<Rightarrow> pydict \<Rightarrow> pydict result" where
  "mgz_import_row env config t data =
     (case py_or (dget t ''mapping'') (PDict []) of
        PDict [] \<Rightarrow>
          rbind (map_mgz_category env config (dget data ''category'')) (\<lambda>category.
            build_mijngeldzaken_import_row env data (PStr category)
              (PStr (py_str env (py_or (dget config ''mijngeldzaken_default_account'') (PStr ''Huishouden'')))))
      | PDict m \<Rightarrow> mapped_row (mapped_value env config data) m
      | _ \<Rightarrow> Inl AttributeError)"

definition csv_cell :: "py_env \<Rightarrow> pyval \<Rightarrow> string" where
  "csv_cell env v = (if v = PNone then [] else py_str env v)"

definition row_cells :: "py_env \<Rightarrow> string list \<Rightarrow> pydict \<Rightarrow> string list" where
  "row_cells env columns row = map (\<lambda>c. csv_cell env (neutralize_csv_cell (dget_or row c (PStr [])))) columns"

definition render_csv :: "py_env \<Rightarrow> pydict \<Rightarrow> pydict \<Rightarrow> string result" where
  "render_csv env config data =
     (case csv_template config of
        PDict t \<Rightarrow>
          rbind (template_columns env t) (\<lambda>columns.
          rbind (csv_delimiter env config t) (\<lambda>delim.
          rbind (mgz_import_row env config t data) (\<lambda>row.
            Inr (csv_text delim [columns, row_cells env columns row]))))
      | _ \<Rightarrow> Inl AttributeError)"

section \<open>Entering data\<close>

record mgz_ports =
  mp_write :: "string \<Rightarrow> string \<Rightarrow> string + (string \<times> string \<times> int)"
    \<comment> \<open>file name stem and content to an error text or the path, digest and size\<close>
  mp_exc_text :: "py_exc \<Rightarrow> string"

definition artifact_filename :: "py_env \<Rightarrow> pydict \<Rightarrow> string" where
  "artifact_filename env data =
     ''mijngeldzaken_import_'' @
     safe_filename_segment env (py_or (dget data ''posting_attempt_id'') (PStr ''draft'')) @ ''_'' @
     safe_filename_segment env (py_or (dget data ''document_id'') (PStr ''document'')) @ ''.csv''"

definition mgz_failure :: "string \<Rightarrow> pydict" where
  "mgz_failure text =
     [(''status'', PStr ''failure''),
      (''message'', PStr (''MijnGeldzaken import artifact could not be prepared: '' @ text)),
      (''requires_manual_review'', PBool True)]"

definition enter_mgz_data :: "py_env \<Rightarrow> mgz_ports \<Rightarrow> pydict \<Rightarrow> pydict \<Rightarrow> string option \<times> pydict" where
  "enter_mgz_data env ports config data =
     (case render_csv env config data of
        Inl e \<Rightarrow> (None, mgz_failure (mp_exc_text ports e))
      | Inr content \<Rightarrow>
          (case mp_write ports (artifact_filename env data) content of
             Inl err \<Rightarrow> (None, mgz_failure err)
           | Inr (path, digest, bytes) \<Rightarrow>
               (Some content,
                [(''status'', PStr ''supervised_action_required''),
                 (''message'', PStr (''MijnGeldzaken CSV prepared. Complete the import in a supervised '' @
                    ''user-owned session, then record the external submission in FAB.'')),
                 (''artifact'', PDict [(''format'', PStr ''csv''), (''path'', PStr path), (''filename'', PStr (path_name path)),
                    (''sha256'', PStr digest), (''size_bytes'', PInt bytes), (''row_count'', PInt 1)]),
                 (''artifact_path'', PStr path), (''external_submission'', PStr ''not_executed''),
                 (''requires_supervision'', PBool True), (''requires_manual_review'', PBool True),
                 (''credentials_used'', PBool False)])))"

section \<open>Facts\<close>

lemma collapse_safe: "list_all name_char (collapse_unsafe b s)"
  by (induction b s rule: collapse_unsafe.induct) (auto simp: name_char_def)

lemma strip_of_set: "set (strip_of cs s) \<subseteq> set s"
  by (auto simp: strip_of_def dest!: set_dropWhileD)

lemma hd_dropWhile_rev: "dropWhile P (rev (dropWhile P s)) = rev t \<Longrightarrow> t \<noteq> [] \<Longrightarrow> \<not> P (hd t)"
proof -
  assume e: "dropWhile P (rev (dropWhile P s)) = rev t" and t: "t \<noteq> []"
  let ?d = "dropWhile P s"
  have ne: "?d \<noteq> []" using e t by (metis dropWhile.simps(1) rev.simps(1) rev_is_Nil_conv)
  have h: "\<not> P (hd ?d)" using ne by (rule hd_dropWhile)
  obtain u where u: "rev ?d = u @ dropWhile P (rev ?d)" by (metis takeWhile_dropWhile_id)
  then have "?d = t @ rev u" using e by (metis rev_append rev_rev_ident)
  with t h show ?thesis by simp
qed

lemma hd_strip_of: "strip_of cs s \<noteq> [] \<Longrightarrow> hd (strip_of cs s) \<notin> cs"
  using hd_dropWhile_rev [of "\<lambda>c. c \<in> cs" s "strip_of cs s"] by (simp add: strip_of_def)

lemma safe_segment_name:
  assumes "dflt \<noteq> []" and "list_all name_char dflt" and "hd dflt \<notin> {CHR ''.'', CHR ''-''}" and "0 < limit"
  shows "safe_segment limit dflt text \<noteq> [] \<and> list_all name_char (safe_segment limit dflt text) \<and>
    hd (safe_segment limit dflt text) \<notin> {CHR ''.'', CHR ''-''} \<and> length (safe_segment limit dflt text) \<le> max limit (length dflt)"
proof -
  let ?t = "strip_of {CHR ''.'', CHR ''-''} (collapse_unsafe False text)"
  have s: "list_all name_char ?t"
    using collapse_safe [of False "text"] strip_of_set [of "{CHR ''.'', CHR ''-''}" "collapse_unsafe False text"]
    by (auto simp: list_all_iff)
  then have t: "list_all name_char (take limit ?t)" by (auto simp: list_all_iff dest: in_set_takeD)
  show ?thesis
  proof (cases "take limit ?t = []")
    case True
    with assms show ?thesis by (simp add: safe_segment_def Let_def)
  next
    case False
    then have "?t \<noteq> []" by auto
    from hd_strip_of [OF this] False have "hd (take limit ?t) \<notin> {CHR ''.'', CHR ''-''}"
      using assms(4) by (cases ?t) (auto simp: take_Cons')
    with False t show ?thesis by (simp add: safe_segment_def Let_def)
  qed
qed

end
