(* ===== verification/Mgz_Properties.thy ===== *)
theory Mgz_Properties
  imports Mgz_Handler
begin

text \<open>
  What MijnGeldzaken actions and import files promise: the gates in front of a handler, the
  content of the file a user imports, and the place where it is stored.
\<close>

section \<open>The operator\<close>

lemma mgz_planned:
  "wp_status (plan_mijngeldzaken_action surface action_id payload allow) = Planned \<Longrightarrow>
     \<exists>a. map_of MGZ_ACTIONS action_id = Some a \<and> wa_surface a = surface \<and>
       (\<forall>f \<in> set (wa_required a). \<not> is_blank (dget payload f)) \<and>
       wp_safety (plan_mijngeldzaken_action surface action_id payload allow) = Some (wa_safety a)"
  by (auto simp: plan_mijngeldzaken_action_def unsupported_plan_def Let_def filter_empty_conv split: option.splits if_splits)

lemma mgz_safety_nonempty: "list_all (\<lambda>(i, a). wa_safety a \<noteq> []) MGZ_ACTIONS"
  by code_simp

text \<open>
  A payload reaches a handler only for an action of the catalog whose required fields are all
  given; an action that needs credentials only when those are allowed, one that changes external
  state only when it was confirmed and confirmed actions are allowed; never in a dry run.
\<close>

theorem mgz_action_passes_the_gates:
  assumes "execute_mgz env oc handlers action_id payload surface confirmed key mode = (Some p, en)"
  shows "p = payload \<and> handlers action_id \<noteq> None \<and>
    (\<exists>a. map_of MGZ_ACTIONS action_id = Some a \<and>
       (\<forall>f \<in> set (wa_required a). \<not> is_blank (dget payload f)) \<and>
       (wa_safety a = ''requires_credentials'' \<longrightarrow> oc_allow_credentials oc) \<and>
       (wa_safety a = ''requires_confirmation'' \<longrightarrow> confirmed \<and> oc_allow_confirmed oc)) \<and>
    first_text (given_text mode) (oc_default_mode oc) \<noteq> ''dry_run''"
proof -
  let ?op = "prepare_mgz_operation env action_id payload surface key confirmed"
  have g: "gate_mgz_operation oc ?op mode confirmed (handlers action_id \<noteq> None) = Mgz_call p"
    using assms by (auto simp: execute_mgz_def Let_def split: mgz_gate.splits)
  then have planned: "wp_status (mo_plan ?op) = Planned"
    and cred: "mo_safety ?op = ''requires_credentials'' \<Longrightarrow> oc_allow_credentials oc"
    and conf: "mo_safety ?op = ''requires_confirmation'' \<Longrightarrow> confirmed \<and> oc_allow_confirmed oc"
    and rest: "p = mo_payload ?op" "handlers action_id \<noteq> None" "first_text (given_text mode) (oc_default_mode oc) \<noteq> ''dry_run''"
    by (auto simp: gate_mgz_operation_def Let_def split: if_splits)
  obtain s where plan: "mo_plan ?op = plan_mijngeldzaken_action s action_id payload confirmed"
    by (simp add: prepare_mgz_operation_def Let_def)
  from mgz_planned [OF planned [unfolded plan]] obtain a where a: "map_of MGZ_ACTIONS action_id = Some a"
      "\<forall>f \<in> set (wa_required a). \<not> is_blank (dget payload f)" "wp_safety (mo_plan ?op) = Some (wa_safety a)"
    using plan by auto
  have "wa_safety a \<noteq> []"
    using mgz_safety_nonempty map_of_SomeD [OF a(1)] by (fastforce simp: list_all_iff)
  then have "mo_safety ?op = wa_safety a"
    using a(3) by (simp add: prepare_mgz_operation_def Let_def given_text_def first_text_def)
  moreover have "mo_payload ?op = payload" by (simp add: prepare_mgz_operation_def Let_def)
  ultimately show ?thesis using a cred conf rest by auto
qed

definition mgz_open_config :: operator_config where
  "mgz_open_config = \<lparr>oc_allow_confirmed = True, oc_allow_credentials = False, oc_default_mode = ''prepare''\<rparr>"

theorem mgz_action_passes_the_gates_witness:
  "\<exists>a. map_of MGZ_ACTIONS ''transaction_delete'' = Some a \<and> wa_safety a = ''requires_confirmation'' \<and>
     (wa_safety a = ''requires_confirmation'' \<longrightarrow> True \<and> oc_allow_confirmed mgz_open_config)"
proof -
  have "fst (execute_mgz plain_env mgz_open_config (\<lambda>_. Some (\<lambda>p. [])) ''transaction_delete''
      [(''transactionId'', PStr ''t1'')] None True (Some ''k'') None) = Some [(''transactionId'', PStr ''t1'')]"
    by code_simp
  then obtain en where e: "execute_mgz plain_env mgz_open_config (\<lambda>_. Some (\<lambda>p. [])) ''transaction_delete''
      [(''transactionId'', PStr ''t1'')] None True (Some ''k'') None = (Some [(''transactionId'', PStr ''t1'')], en)"
    by (metis prod.collapse)
  have "map_option wa_safety (map_of MGZ_ACTIONS ''transaction_delete'') = Some ''requires_confirmation''" by code_simp
  with mgz_action_passes_the_gates [OF e] show ?thesis by auto
qed

section \<open>The import file\<close>


lemma neutral_text: "neutralize_csv_cell v = PStr (c # cs) \<Longrightarrow> c \<notin> set CSV_FORMULA_PREFIXES"
proof -
  have "CHR 0x27 \<notin> set CSV_FORMULA_PREFIXES" by code_simp
  then show "neutralize_csv_cell v = PStr (c # cs) \<Longrightarrow> c \<notin> set CSV_FORMULA_PREFIXES"
    by (auto simp: neutralize_csv_cell_def split: pyval.splits list.splits if_splits)
qed











text \<open>A contract is written with the amount zero and without a date, whatever its own are.\<close>

lemma contract_is_written_without_amount:
  "\<exists>row. mgz_import_row plain_env [] []
      [(''document_type'', PStr ''contract''), (''category'', PStr ''Wonen''),
       (''extracted_data'', PDict [(''total_amount'', PInt 950), (''transaction_date'', PStr ''2026-01-02'')])] = Inr row \<and>
     dget row ''Bedrag'' = PFloat (Num 0) \<and> dget row ''Datum'' = PStr []"
proof -
  have "map_sum id (\<lambda>row. (dget row ''Bedrag'', dget row ''Datum'')) (mgz_import_row plain_env [] []
      [(''document_type'', PStr ''contract''), (''category'', PStr ''Wonen''),
       (''extracted_data'', PDict [(''total_amount'', PInt 950), (''transaction_date'', PStr ''2026-01-02'')])]) =
    Inr (PFloat (Num 0), PStr [])"
    by code_simp
  then show ?thesis by (cases "mgz_import_row plain_env [] []
      [(''document_type'', PStr ''contract''), (''category'', PStr ''Wonen''),
       (''extracted_data'', PDict [(''total_amount'', PInt 950), (''transaction_date'', PStr ''2026-01-02'')])]") auto
qed

section \<open>Where it is stored\<close>

lemma take_name: "list_all P s \<Longrightarrow> list_all P (take n s)" "list_all P s \<Longrightarrow> list_all P (drop n s)"
  by (auto simp: list_all_iff dest: in_set_takeD in_set_dropD)

lemma split_suffix_parts:
  "split_suffix name = (stem, suffix) \<Longrightarrow> name \<noteq> [] \<Longrightarrow> stem @ suffix = name \<and> stem \<noteq> []"
  by (auto simp: split_suffix_def Let_def split: if_splits)

lemma safe_filename_name:
  "safe_filename env v \<noteq> [] \<and> list_all name_char (safe_filename env v) \<and>
   hd (safe_filename env v) \<notin> {CHR ''.'', CHR ''-''}"
proof -
  obtain stem suffix where s: "split_suffix (path_name (py_str env (py_or v (PStr ''artifact'')))) = (stem, suffix)"
    by force
  have "list_all name_char ''artifact''" "hd ''artifact'' \<notin> {CHR ''.'', CHR ''-''}" by code_simp+
  note a = safe_segment_name [OF _ this, of 100 stem]
  have "list_all name_char (filter (\<lambda>c. alphanumeric c \<or> c = CHR ''.'') suffix)"
    by (auto simp: list_all_iff name_char_def)
  with a take_name(1) show ?thesis by (simp add: safe_filename_def s)
qed

text \<open>
  The name of a stored artifact is one path component: it is not empty, holds only letters,
  digits, dots, underscores and hyphens, and does not start with a dot or a hyphen, whatever
  name was asked for.
\<close>

theorem artifact_stays_in_its_directory:
  assumes "list_all name_char checksum"
  shows "artifact_name env flag v checksum \<noteq> [] \<and> list_all name_char (artifact_name env flag v checksum) \<and>
    hd (artifact_name env flag v checksum) \<notin> {CHR ''.'', CHR ''-''} \<and> CHR ''/'' \<notin> set (artifact_name env flag v checksum)"
proof -
  let ?n = "safe_filename env v"
  obtain stem suffix where s: "split_suffix ?n = (stem, suffix)" by force
  note n = safe_filename_name [of env v]
  from split_suffix_parts [OF s] n have p: "stem @ suffix = ?n" "stem \<noteq> []" by auto
  have h: "hd stem = hd ?n" using p by (metis hd_append2)
  have c: "list_all name_char stem" "list_all name_char suffix"
    using n p(1) by (metis list_all_append)+
  have m: "name_char CHR ''-''" by (simp add: name_char_def)
  have slash: "\<not> name_char CHR ''/''" by code_simp
  have ok: "artifact_name env flag v checksum \<noteq> [] \<and> list_all name_char (artifact_name env flag v checksum) \<and>
      hd (artifact_name env flag v checksum) \<notin> {CHR ''.'', CHR ''-''}"
    using n p c h m take_name(1) [OF assms] by (simp add: artifact_name_def Let_def s)
  then show ?thesis using slash by (auto simp: list_all_iff)
qed

theorem artifact_stays_in_its_directory_witness:
  "CHR ''/'' \<notin> set (artifact_name plain_env True (PStr ''../../etc/passwd'') ''0a1b2c'')"
proof -
  have "list_all name_char ''0a1b2c''" by code_simp
  from artifact_stays_in_its_directory [OF this] show ?thesis by blast
qed

section \<open>Digests\<close>

text \<open>What the code relies on: the digest of two different texts differs.\<close>

definition collision_free :: "py_env \<Rightarrow> bool" where
  "collision_free env \<longleftrightarrow> (\<forall>x y. sha256_hex env x = sha256_hex env y \<longrightarrow> x = y)"

definition same_value :: "pydict \<Rightarrow> pydict \<Rightarrow> bool" where
  \<comment> \<open>equal up to the order of keys, at every depth\<close>
  "same_value d e \<longleftrightarrow> sorted_value (PDict d) = sorted_value (PDict e)"

lemma compact_style: "json_style '','' '':''" and wide_style: "json_style '', '' '': ''"
  by (simp_all add: json_style_def)

lemma draft_body_readable:
  assumes "list_all (\<lambda>kv. json_readable env (snd kv)) payload" and "float_text env (Num 0)"
  shows "list_all (\<lambda>kv. json_readable env (snd kv)) (snd (draft_body action payload))"
proof -
  have "json_readable env (dget_or payload k dflt)" if "json_readable env dflt" for k dflt
  proof (cases "map_of payload k")
    case (Some v)
    from map_of_SomeD [OF Some] assms(1) show ?thesis by (auto simp: dget_or_def Some list_all_iff)
  qed (use that in \<open>simp add: dget_or_def\<close>)
  then show ?thesis using assms by (simp add: draft_body_def build_mijngeldzaken_import_row_from_payload_def)
qed

lemma draft_kind: "fst (draft_body action p) \<in> {''importRow'', ''uploadDraft'', ''payload''}"
  by (simp add: draft_body_def)

text \<open>
  C24: Provided the digest has no collisions and the texts of the floats read back, two drafts
  with the same checksum are of the same action and surface and have, up to the order of keys,
  the same import row, upload or payload and the same source proof: nothing of a draft can
  change under its checksum.
\<close>

theorem checksum_determines_the_draft:
  assumes "collision_free env"
    and "draft_checksum env action surface payload proof = draft_checksum env action' surface' payload' proof'"
    and "list_all (\<lambda>kv. json_readable env (snd kv)) (payload @ payload' @ proof @ proof')"
    and "float_text env (Num 0)"
  shows "action = action' \<and> surface = surface' \<and>
    same_value (snd (draft_body action payload)) (snd (draft_body action payload')) \<and> same_value proof proof'"
proof -
  let ?d = "\<lambda>a s p q. [(''actionId'', PStr a), (''surface'', PStr s),
        (fst (draft_body a p), PDict (snd (draft_body a p))), (''sourceProof'', PDict q)]"
  let ?s = "\<lambda>a s p q. [(''actionId'', PStr a), (''surface'', PStr s),
        (fst (draft_body a p), sorted_value (PDict (snd (draft_body a p)))), (''sourceProof'', sorted_value (PDict q))]"
  have ff: "json_readable env (PDict (?d a s p q))"
    if "list_all (\<lambda>kv. json_readable env (snd kv)) p" "list_all (\<lambda>kv. json_readable env (snd kv)) q" for a s p q
    using draft_body_readable [OF that(1) assms(4), of a] that by simp
  have "json_compact env (PDict (?d action surface payload proof)) = json_compact env (PDict (?d action' surface' payload' proof'))"
    using assms(1,2) unfolding draft_checksum_def stable_checksum_def collision_free_def by blast
  then have j: "json_with '','' '':'' env (PDict (?d action surface payload proof)) =
      json_with '','' '':'' env (PDict (?d action' surface' payload' proof'))"
    by (simp only: json_compact_def)
  have "json_readable env (PDict (?d action surface payload proof))"
    "json_readable env (PDict (?d action' surface' payload' proof'))"
    using assms(3) by (intro ff; simp)+
  from json_injective [OF compact_style this j]
  have e: "sort_key fst (map (\<lambda>kv. (fst kv, sorted_value (snd kv))) (?d action surface payload proof)) =
      sort_key fst (map (\<lambda>kv. (fst kv, sorted_value (snd kv))) (?d action' surface' payload' proof'))"
    by (simp only: sorted_value.simps pyval.inject)
  have "set (?s action surface payload proof) = set (?s action' surface' payload' proof')"
    using arg_cong [OF e, of set] unfolding set_sort by (simp only: list.map fst_conv snd_conv sorted_value.simps(7))
  then have m: "x \<in> set (?s action surface payload proof) \<Longrightarrow> x \<in> set (?s action' surface' payload' proof')" for x
    by (simp only:)
  have r: "(''actionId'', PStr action) \<in> set (?s action' surface' payload' proof')"
      "(''surface'', PStr surface) \<in> set (?s action' surface' payload' proof')"
      "(fst (draft_body action payload), sorted_value (PDict (snd (draft_body action payload)))) \<in>
         set (?s action' surface' payload' proof')"
      "(''sourceProof'', sorted_value (PDict proof)) \<in> set (?s action' surface' payload' proof')"
    by (rule m; simp del: sorted_value.simps)+
  have a: "action = action'" using r(1) draft_kind [of action' payload'] by auto
  have k: "fst (draft_body action payload) = fst (draft_body action' payload')" by (simp add: a draft_body_def)
  show ?thesis using a r(2-4) draft_kind [of action' payload'] unfolding same_value_def k
    by (auto simp del: sorted_value.simps)
qed

definition demo_payload :: pydict where
  "demo_payload = [(''date'', PStr ''2026-01-02''), (''amount'', PFloat (Num (7 / 2))), (''category'', PStr ''Eten'')]"

definition demo_float_env :: py_env where
  "demo_float_env =
     \<lparr>sha256_hex = (\<lambda>s. s), py_repr = (\<lambda>v. if v = PFloat (Num (7 / 2)) then ''3.5'' else if v = PFloat (Num 0) then ''0.0'' else ''?'')\<rparr>"

lemma demo_floats: "float_text demo_float_env (Num (7 / 2))" "float_text demo_float_env (Num 0)"
proof -
  have "parse_float ''3.5'' = Some (Num (7 / 2))" "parse_float ''0.0'' = Some (Num 0)" by code_simp+
  then show "float_text demo_float_env (Num (7 / 2))" "float_text demo_float_env (Num 0)"
    by (simp_all add: float_text_def demo_float_env_def number_char_def integer_char_def is_digit_def char_digit_def Let_def)
qed

theorem checksum_determines_the_draft_witness:
  "same_value (snd (draft_body ''transaction_import_prepare'' demo_payload))
     (snd (draft_body ''transaction_import_prepare'' (rev demo_payload))) \<and> same_value [] []"
proof -
  have c: "collision_free demo_float_env" by (simp add: collision_free_def demo_float_env_def)
  have "build_mijngeldzaken_import_row_from_payload demo_payload = build_mijngeldzaken_import_row_from_payload (rev demo_payload)"
    by (simp add: build_mijngeldzaken_import_row_from_payload_def demo_payload_def)
  then have "draft_checksum demo_float_env ''transaction_import_prepare'' ''s'' demo_payload [] =
      draft_checksum demo_float_env ''transaction_import_prepare'' ''s'' (rev demo_payload) []"
    by (simp add: draft_checksum_def draft_body_def)
  from checksum_determines_the_draft [OF c this] show ?thesis using demo_floats by (auto simp: demo_payload_def)
qed

text \<open>
  The identifier of a Wave operation prepared without a key determines the action and the
  payload: two operations with the same identifier are the same up to the order of keys.
\<close>

theorem operation_id_determines_the_payload:
  assumes "collision_free env" and "CHR '':'' \<notin> set action" and "CHR '':'' \<notin> set action'"
    and "list_all (\<lambda>kv. json_readable env (snd kv)) (payload @ payload')"
    and "wo_id (prepare_operation env cat action payload surface None allow cap signals confidence) =
         wo_id (prepare_operation env cat action' payload' surface' None allow' cap' signals' confidence')"
  shows "action = action' \<and> same_value payload payload'"
proof -
  have "sha256_hex env (action @ '':'' @ json_text env (PDict payload)) = sha256_hex env (action' @ '':'' @ json_text env (PDict payload'))"
    using assms(5) by (simp add: prepare_operation_def Let_def first_text_def)
  then have t: "action @ CHR '':'' # json_text env (PDict payload) = action' @ CHR '':'' # json_text env (PDict payload')"
    using assms(1) by (simp add: collision_free_def)
  have a: "takeWhile (\<lambda>c. c \<noteq> CHR '':'') (x @ CHR '':'' # r) = x" if "CHR '':'' \<notin> set x" for x r
    using that by (induction x) auto
  have act: "action = action'" using arg_cong [OF t, of "takeWhile (\<lambda>c. c \<noteq> CHR '':'')"] a assms(2,3) by simp
  from t have j: "json_with '', '' '': '' env (PDict payload) = json_with '', '' '': '' env (PDict payload')"
    by (simp only: act json_text_with same_append_eq list.inject)
  have "json_readable env (PDict payload)" and "json_readable env (PDict payload')"
    using assms(4) by (simp_all add: list_all_iff)
  from json_injective [OF wide_style this j] act show ?thesis by (simp only: same_value_def)
qed

theorem operation_id_determines_the_payload_witness:
  "same_value demo_payload (rev demo_payload)"
proof -
  let ?cat = "\<lparr>wc_actions = (\<lambda>_. None), wc_capabilities = (\<lambda>_. None)\<rparr>"
  have c: "collision_free demo_float_env" by (simp add: collision_free_def demo_float_env_def)
  have "json_text demo_float_env (PDict demo_payload) = json_text demo_float_env (PDict (rev demo_payload))"
    by code_simp
  then have "wo_id (prepare_operation demo_float_env ?cat ''add'' demo_payload None None True None None None) =
      wo_id (prepare_operation demo_float_env ?cat ''add'' (rev demo_payload) None None True None None None)"
    by (simp add: prepare_operation_def Let_def)
  from operation_id_determines_the_payload [OF c _ _ _ this] show ?thesis
    using demo_floats by (simp add: demo_payload_def)
qed

end
