(* ===== verification/Text_Similarity.thy ===== *)
theory Text_Similarity
  imports Complex_Main
begin

text \<open>
  \<open>difflib.SequenceMatcher(None, a, b).ratio()\<close>: the longest matching block, first in \<open>a\<close> and
  then in \<open>b\<close>, extended over the popular characters it may not start in, and the same again
  left and right of it. The number of matched characters is at most the length of either
  text, so the ratio lies between 0 and 1.
\<close>

section \<open>The longest block\<close>

text \<open>
  A row holds for each position of \<open>b\<close> the length of the block that ends there; a best block is
  its end in both texts and its length.
\<close>

definition next_row :: "(char \<Rightarrow> bool) \<Rightarrow> string \<Rightarrow> char \<Rightarrow> nat list \<Rightarrow> nat list" where
  "next_row popular b c row =
     map (\<lambda>(p, x). if x = c \<and> \<not> popular x then Suc p else 0) (zip (0 # row) b)"

fun best_in_row :: "nat \<Rightarrow> nat \<Rightarrow> nat list \<Rightarrow> nat \<times> nat \<times> nat \<Rightarrow> nat \<times> nat \<times> nat" where
  "best_in_row i j [] best = best"
| "best_in_row i j (k # ks) best =
     best_in_row i (Suc j) ks (if snd (snd best) < k then (Suc i - k, Suc j - k, k) else best)"

fun scan_rows :: "(char \<Rightarrow> bool) \<Rightarrow> string \<Rightarrow> nat \<Rightarrow> string \<Rightarrow> nat list \<Rightarrow> nat \<times> nat \<times> nat \<Rightarrow> nat \<times> nat \<times> nat" where
  "scan_rows popular b i [] row best = best"
| "scan_rows popular b i (c # cs) row best =
     (let row' = next_row popular b c row in scan_rows popular b (Suc i) cs row' (best_in_row i 0 row' best))"

fun common_prefix :: "string \<Rightarrow> string \<Rightarrow> nat" where
  "common_prefix (x # xs) (y # ys) = (if x = y then Suc (common_prefix xs ys) else 0)"
| "common_prefix _ _ = 0"

definition extend_block :: "string \<Rightarrow> string \<Rightarrow> nat \<times> nat \<times> nat \<Rightarrow> nat \<times> nat \<times> nat" where
  "extend_block a b best =
     (case best of (i, j, k) \<Rightarrow>
        (let back = common_prefix (rev (take i a)) (rev (take j b));
             ahead = common_prefix (drop (i + k) a) (drop (j + k) b)
         in (i - back, j - back, back + k + ahead)))"

definition longest_match :: "(char \<Rightarrow> bool) \<Rightarrow> string \<Rightarrow> string \<Rightarrow> nat \<times> nat \<times> nat" where
  "longest_match popular a b =
     extend_block a b (scan_rows popular b 0 a (replicate (length b) 0) (0, 0, 0))"

section \<open>Bounds of a block\<close>

lemma common_prefix_le: "common_prefix xs ys \<le> length xs" "common_prefix xs ys \<le> length ys"
  by (induction xs ys rule: common_prefix.induct) auto

lemma length_next_row: "length row = length b \<Longrightarrow> length (next_row popular b c row) = length b"
  by (simp add: next_row_def)

lemma next_row_bounds:
  assumes "j < length (next_row popular b c row)" and "length row = length b"
    and "\<forall>j < length row. row ! j \<le> i \<and> row ! j \<le> Suc j"
  shows "next_row popular b c row ! j \<le> Suc i \<and> next_row popular b c row ! j \<le> Suc j"
proof -
  have j: "j < length b" using assms(1,2) by (simp add: next_row_def)
  have "next_row popular b c row ! j \<le> Suc ((0 # row) ! j)"
    using j assms(2) by (simp add: next_row_def)
  moreover have "(0 # row) ! j \<le> i \<and> (0 # row) ! j \<le> j"
    using j assms(2,3) by (cases j) auto
  ultimately show ?thesis by simp
qed

definition within_both :: "nat \<Rightarrow> nat \<Rightarrow> nat \<times> nat \<times> nat \<Rightarrow> bool" where
  "within_both m n best \<longleftrightarrow> (case best of (i, j, k) \<Rightarrow> i + k \<le> m \<and> j + k \<le> n)"

lemma best_in_row_within:
  "\<lbrakk>within_both m n best; i < m; j + length ks \<le> n;
    \<forall>l < length ks. ks ! l \<le> Suc i \<and> ks ! l \<le> Suc (j + l)\<rbrakk>
   \<Longrightarrow> within_both m n (best_in_row i j ks best)"
proof (induction ks arbitrary: j best)
  case (Cons k ks)
  have k: "k \<le> Suc i" "k \<le> Suc j" using Cons.prems(4) by (metis length_greater_0_conv list.distinct(1) nth_Cons_0 add_0_right)+
  let ?best = "if snd (snd best) < k then (Suc i - k, Suc j - k, k) else best"
  have "within_both m n ?best" using Cons.prems(1-3) k by (auto simp: within_both_def)
  moreover have "\<forall>l < length ks. ks ! l \<le> Suc i \<and> ks ! l \<le> Suc (Suc j + l)"
    using Cons.prems(4) by (metis Suc_less_eq add_Suc_shift length_Cons nth_Cons_Suc)
  ultimately show ?case using Cons.IH [of ?best "Suc j"] Cons.prems(2,3) by simp
qed simp

lemma scan_rows_within:
  "\<lbrakk>within_both m (length b) best; i + length cs \<le> m; length row = length b;
    \<forall>j < length row. row ! j \<le> i \<and> row ! j \<le> Suc j\<rbrakk>
   \<Longrightarrow> within_both m (length b) (scan_rows popular b i cs row best)"
proof (induction cs arbitrary: i row best)
  case (Cons c cs)
  let ?row = "next_row popular b c row"
  have len: "length ?row = length b" using Cons.prems(3) by (rule length_next_row)
  have bd: "\<forall>j < length ?row. ?row ! j \<le> Suc i \<and> ?row ! j \<le> Suc j"
    using next_row_bounds [OF _ Cons.prems(3,4)] by blast
  have "within_both m (length b) (best_in_row i 0 ?row best)"
    using best_in_row_within [OF Cons.prems(1), of i 0 ?row] Cons.prems(2) len bd by simp
  then show ?case using Cons.IH [of "best_in_row i 0 ?row best" "Suc i" ?row] Cons.prems(2) len bd
    by (simp add: Let_def)
qed simp

lemma extend_within:
  assumes "within_both (length a) (length b) best"
  shows "within_both (length a) (length b) (extend_block a b best)"
proof -
  obtain i j k where b: "best = (i, j, k)" by (cases best) auto
  let ?behind = "common_prefix (rev (take i a)) (rev (take j b))"
  have "?behind \<le> i" "?behind \<le> j" using common_prefix_le [of "rev (take i a)" "rev (take j b)"] by auto
  moreover have "common_prefix (drop (i + k) a) (drop (j + k) b) \<le> length a - (i + k)"
      "common_prefix (drop (i + k) a) (drop (j + k) b) \<le> length b - (j + k)"
    using common_prefix_le [of "drop (i + k) a" "drop (j + k) b"] by auto
  ultimately show ?thesis using assms by (auto simp: b extend_block_def within_both_def Let_def)
qed

lemma longest_match_within: "within_both (length a) (length b) (longest_match popular a b)"
  unfolding longest_match_def
  by (intro extend_within scan_rows_within) (auto simp: within_both_def)

section \<open>The ratio\<close>

function matched_chars :: "(char \<Rightarrow> bool) \<Rightarrow> string \<Rightarrow> string \<Rightarrow> nat" where
  "matched_chars popular a b =
     (case longest_match popular a b of (i, j, k) \<Rightarrow>
        if k = 0 then 0
        else k + matched_chars popular (take i a) (take j b) +
             matched_chars popular (drop (i + k) a) (drop (j + k) b))"
  by pat_completeness auto

termination
proof (relation "measure (\<lambda>(_, a, _). length a)", goal_cases)
  case (2 popular a b x y j k)
  then have "within_both (length a) (length b) (x, j, k)" using longest_match_within [of a b popular] by simp
  then show ?case using 2 by (auto simp: within_both_def)
next
  case (3 popular a b x y j k)
  then have "within_both (length a) (length b) (x, j, k)" using longest_match_within [of a b popular] by simp
  then show ?case using 3 by (auto simp: within_both_def)
qed simp

declare matched_chars.simps [simp del]

text \<open>A text of 200 characters or more does not start a block in a character that makes up more
  than one percent of it.\<close>

definition popular_in :: "string \<Rightarrow> char \<Rightarrow> bool" where
  "popular_in b c \<longleftrightarrow> 200 \<le> length b \<and> length b div 100 + 1 < length (filter (\<lambda>x. x = c) b)"

definition similarity :: "string \<Rightarrow> string \<Rightarrow> rat" where
  "similarity a b =
     (if a = [] \<and> b = [] then 1
      else 2 * of_nat (matched_chars (popular_in b) a b) / of_nat (length a + length b))"

lemma matched_chars_le: "matched_chars popular a b \<le> length a \<and> matched_chars popular a b \<le> length b"
proof (induction popular a b rule: matched_chars.induct)
  case (1 popular a b)
  obtain i j k where m: "longest_match popular a b = (i, j, k)" by (metis prod_cases3)
  have w: "i + k \<le> length a" "j + k \<le> length b"
    using longest_match_within [of a b popular] by (auto simp: m within_both_def)
  show ?case
  proof (cases "k = 0")
    case True
    then show ?thesis by (subst (1 2) matched_chars.simps) (simp add: m)
  next
    case False
    have "matched_chars popular (take i a) (take j b) \<le> i \<and> matched_chars popular (take i a) (take j b) \<le> j"
      using "1.IH"(1) [OF m [symmetric] refl False] w by simp
    moreover have "matched_chars popular (drop (i + k) a) (drop (j + k) b) \<le> length a - (i + k) \<and>
        matched_chars popular (drop (i + k) a) (drop (j + k) b) \<le> length b - (j + k)"
      using "1.IH"(2) [OF m [symmetric] refl False] by simp
    ultimately show ?thesis using w False by (subst (1 2) matched_chars.simps) (auto simp: m)
  qed
qed

lemma similarity_bounds: "0 \<le> similarity a b" "similarity a b \<le> 1"
proof -
  show "0 \<le> similarity a b" by (simp add: similarity_def)
  show "similarity a b \<le> 1"
  proof (cases "a = [] \<and> b = []")
    case False
    have "2 * matched_chars (popular_in b) a b \<le> length a + length b"
      using matched_chars_le [of "popular_in b" a b] by simp
    then have "(2 * of_nat (matched_chars (popular_in b) a b) :: rat) \<le> of_nat (length a + length b)"
      by (metis of_nat_le_iff of_nat_mult of_nat_numeral)
    then show ?thesis using False by (simp add: similarity_def divide_le_eq)
  qed (simp add: similarity_def)
qed

end
