(* ===== verification/Py_Datetimes.thy ===== *)
theory Py_Datetimes
  imports Py_Dates Py_Text
begin

text \<open>
  Further readers of dates the program uses: the calendar date of a text that
  \<open>datetime.fromisoformat\<close> accepts (Python 3.11), and of a text in one of the day, month and
  year formats of \<open>strptime\<close>; with the text helpers \<open>split\<close>, \<open>rfind\<close> and \<open>join\<close> they rest on.
\<close>

section \<open>Text helpers\<close>

fun split_at :: "char \<Rightarrow> string \<Rightarrow> string list" where
  "split_at sep [] = [[]]"
| "split_at sep (c # cs) =
     (if c = sep then [] # split_at sep cs
      else (case split_at sep cs of [] \<Rightarrow> [[c]] | w # ws \<Rightarrow> (c # w) # ws))"

lemma split_at_nonempty [simp]: "split_at sep s \<noteq> []"
  by (induction s) (auto split: list.splits)

definition char_count :: "char \<Rightarrow> string \<Rightarrow> nat" where
  "char_count c s = length (filter (\<lambda>x. x = c) s)"

definition drop_char :: "char \<Rightarrow> string \<Rightarrow> string" where
  "drop_char c s = filter (\<lambda>x. x \<noteq> c) s"

text \<open>\<open>s.rfind(c) > s.rfind(d)\<close> for two characters that both occur\<close>

definition last_of_two :: "char \<Rightarrow> char \<Rightarrow> string \<Rightarrow> char" where
  "last_of_two c d s = (case filter (\<lambda>x. x = c \<or> x = d) (rev s) of [] \<Rightarrow> d | x # _ \<Rightarrow> x)"

text \<open>\<open>" ".join(re.sub(r"[^a-z0-9]+", " ", text).split())\<close>: the alphanumeric words.\<close>

definition word_char :: "char \<Rightarrow> bool" where
  "word_char c = (let n = of_char c :: nat in (97 \<le> n \<and> n \<le> 122) \<or> (48 \<le> n \<and> n \<le> 57))"

fun words_of :: "(char \<Rightarrow> bool) \<Rightarrow> string \<Rightarrow> string \<Rightarrow> string list" where
  "words_of P cur [] = (if cur = [] then [] else [rev cur])"
| "words_of P cur (c # cs) =
     (if P c then words_of P (c # cur) cs
      else if cur = [] then words_of P [] cs else rev cur # words_of P [] cs)"

section \<open>Times of day\<close>

fun read_hms :: "nat \<Rightarrow> bool option \<Rightarrow> nat list \<Rightarrow> string \<Rightarrow> nat list option" where
  "read_hms 0 sep vals s = (if list_all is_digit s then Some vals else None)"
| "read_hms (Suc n) sep vals s =
     (case read_n_digits 2 0 s of
        None \<Rightarrow> None
      | Some (v, []) \<Rightarrow> Some (vals @ [v])
      | Some (v, c # r) \<Rightarrow>
          (let colon = (case sep of None \<Rightarrow> c = CHR '':'' | Some b \<Rightarrow> b) in
           if r = [] then None
           else if colon \<and> c = CHR '':'' then read_hms n (Some colon) (vals @ [v]) r
           else if c = CHR ''.'' \<or> c = CHR '','' then (if list_all is_digit r then Some (vals @ [v]) else None)
           else if \<not> colon then read_hms n (Some False) (vals @ [v]) (c # r)
           else None))"

definition zone_mark :: "char \<Rightarrow> bool" where
  "zone_mark c \<longleftrightarrow> c = CHR ''+'' \<or> c = CHR ''-'' \<or> c = CHR ''Z''"

definition time_of_day :: "nat list \<Rightarrow> bool" where
  "time_of_day vals \<longleftrightarrow> list_all2 (\<lambda>v limit. v < limit) vals (take (length vals) [24, 60, 60 :: nat])"

definition zone_offset :: "nat list \<Rightarrow> nat" where
  "zone_offset vals = sum_list (map2 (*) vals (take (length vals) [3600, 60, 1]))"

definition iso_time_ok :: "string \<Rightarrow> bool" where
  "iso_time_ok s =
     (let clock = takeWhile (\<lambda>c. \<not> zone_mark c) s; zone = dropWhile (\<lambda>c. \<not> zone_mark c) s in
      case read_hms 3 None [] clock of
        None \<Rightarrow> False
      | Some vals \<Rightarrow> time_of_day vals \<and>
          (case zone of
             [] \<Rightarrow> True
           | c # r \<Rightarrow>
               if c = CHR ''Z'' then r = []
               else (case read_hms 3 None [] r of None \<Rightarrow> False | Some zs \<Rightarrow> zone_offset zs < 86400)))"

section \<open>Dates of datetimes\<close>

text \<open>Where the date ends, given that at least seven characters are there.\<close>

definition datetime_split :: "string \<Rightarrow> nat option" where
  "datetime_split s =
     (let n = length s; is_at = (\<lambda>i c. i < n \<and> s ! i = c); digit_at = (\<lambda>i. i < n \<and> is_digit (s ! i)) in
      if n < 7 then None
      else if n = 7 then Some 7
      else if is_at 4 CHR ''-'' then
        (if is_at 5 CHR ''W'' then
           (if 8 < n \<and> is_at 8 CHR ''-'' then
              (if n = 9 then None else if digit_at 10 then Some 8 else Some 10)
            else Some 8)
         else Some 10)
      else if is_at 4 CHR ''W'' then
        (let idx = 7 + length (takeWhile is_digit (drop 7 s)) in
         if idx < 9 then Some idx else if even idx then Some 7 else Some 8)
      else Some 8)"

definition datetime_date :: "string \<Rightarrow> pydate option" where
  "datetime_date s =
     (case datetime_split s of
        None \<Rightarrow> None
      | Some k \<Rightarrow>
          (case date_fromisoformat (take k s) of
             None \<Rightarrow> None
           | Some d \<Rightarrow> if length s \<le> Suc k \<or> iso_time_ok (drop (Suc k) s) then Some d else None))"

section \<open>Formats of \<open>strptime\<close>\<close>

definition day_text :: "string \<Rightarrow> nat option" where
  "day_text s =
     (case s of
        [c] \<Rightarrow> if c = CHR ''0'' then None else char_digit c
      | [c, d] \<Rightarrow>
          if c = CHR '' '' then (if d = CHR ''0'' then None else char_digit d)
          else (case (char_digit c, char_digit d) of
                  (Some a, Some b) \<Rightarrow> if 1 \<le> 10 * a + b \<and> 10 * a + b \<le> 31 then Some (10 * a + b) else None
                | _ \<Rightarrow> None)
      | _ \<Rightarrow> None)"

definition month_text :: "string \<Rightarrow> nat option" where
  "month_text s =
     (case s of
        [c] \<Rightarrow> if c = CHR ''0'' then None else char_digit c
      | [c, d] \<Rightarrow>
          (case (char_digit c, char_digit d) of
             (Some a, Some b) \<Rightarrow> if 1 \<le> 10 * a + b \<and> 10 * a + b \<le> 12 then Some (10 * a + b) else None
           | _ \<Rightarrow> None)
      | _ \<Rightarrow> None)"

definition year_text :: "string \<Rightarrow> nat option" where
  "year_text s = (if length s = 4 then nat_of_str s else None)"

text \<open>\<open>%Y-%m-%d\<close> and \<open>%d-%m-%Y\<close> with their separator\<close>

definition year_first :: "char \<Rightarrow> string \<Rightarrow> pydate option" where
  "year_first sep s =
     (case split_at sep s of
        [y, m, d] \<Rightarrow>
          (case (year_text y, month_text m, day_text d) of
             (Some y, Some m, Some d) \<Rightarrow> make_date y m d
           | _ \<Rightarrow> None)
      | _ \<Rightarrow> None)"

definition day_first :: "char \<Rightarrow> string \<Rightarrow> pydate option" where
  "day_first sep s =
     (case split_at sep s of
        [d, m, y] \<Rightarrow>
          (case (day_text d, month_text m, year_text y) of
             (Some d, Some m, Some y) \<Rightarrow> make_date y m d
           | _ \<Rightarrow> None)
      | _ \<Rightarrow> None)"

section \<open>Laws\<close>

lemma datetime_date_valid: "datetime_date s = Some d \<Longrightarrow> valid_date d"
  by (auto simp: datetime_date_def fromisoformat_valid split: option.splits if_splits)

lemma year_first_valid: "year_first sep s = Some d \<Longrightarrow> valid_date d"
  by (auto simp: year_first_def make_date_valid split: list.splits option.splits)

lemma day_first_valid: "day_first sep s = Some d \<Longrightarrow> valid_date d"
  by (auto simp: day_first_def make_date_valid split: list.splits option.splits)

lemma length_isoformat: "length (isoformat d) = 10"
  by (simp add: isoformat_def digits2_def)

lemma isoformat_hyphen: "isoformat d ! 4 = CHR ''-''"
  by (simp add: isoformat_def digits2_def)

lemma isoformat_no_week: "valid_date d \<Longrightarrow> isoformat d ! 5 \<noteq> CHR ''W''"
proof -
  assume "valid_date d"
  then have "char_digit (digit_char (dm d div 10)) = Some (dm d div 10)"
    by (intro char_digit_digit_char) (auto simp: valid_date_def)
  moreover have "char_digit CHR ''W'' = None" by code_simp
  ultimately show ?thesis by (auto simp: isoformat_def digits2_def)
qed

text \<open>An ISO date is its own date, as a date or with a time of day after it.\<close>

lemma datetime_date_isoformat:
  assumes "valid_date d" and "clock = [] \<or> iso_time_ok clock"
  shows "datetime_date (isoformat d @ (if clock = [] then [] else c # clock)) = Some d"
proof -
  have s: "datetime_split (isoformat d @ r) = Some 10" for r
    using isoformat_hyphen [of d] isoformat_no_week [OF assms(1)] by (simp add: datetime_split_def Let_def nth_append length_isoformat)
  show ?thesis using assms
    by (auto simp: datetime_date_def s length_isoformat isoformat_fromisoformat)
qed

end
