(* ===== verification/Reconcile.thy ===== *)
theory Reconcile
  imports Text_Similarity Py_Datetimes Wave_Transaction
begin

text \<open>
  Matching of bank transactions with documents
  (src/reconciliation/automated_reconciliation.py): the readers of amounts, dates and vendor
  names, the score of a pair, and the pass over the transactions that gives each the best
  document still free. A document comes with its address, the identity \<open>id(document)\<close> the
  code falls back to. Decimals are exact; text is ASCII, so Unicode normalisation is the
  identity.
\<close>

section \<open>Configuration\<close>

record reconciler =
  rc_threshold :: pyfloat
  rc_tolerance :: pyfloat
  rc_days :: int
  rc_absolute :: bool
  rc_ignore_positive :: bool

definition config_bool :: "pyval \<Rightarrow> bool" where
  "config_bool v =
     (case v of PStr s \<Rightarrow> lower (strip s) \<notin> {''0'', ''false'', ''no'', ''off'', []} | _ \<Rightarrow> truthy v)"

definition invalid_decimal :: py_exc where
  "invalid_decimal = Raised ''InvalidOperation''"

definition init_reconciler :: "pydict \<Rightarrow> reconciler result" where
  "init_reconciler config =
     rbind (to_float (dget_or config ''reconciliation_match_threshold'' (PFloat (Num (9 / 10))))) (\<lambda>threshold.
     rbind (case decimal_of (dget_or config ''reconciliation_threshold''
                   (dget_or config ''reconciliation_amount_tolerance'' (PFloat (Num (1 / 100))))) of
              None \<Rightarrow> Inl invalid_decimal | Some t \<Rightarrow> Inr t) (\<lambda>tolerance.
     rbind (to_int (dget_or config ''reconciliation_date_tolerance_days'' (PInt 0))) (\<lambda>days.
       Inr \<lparr>rc_threshold = threshold, rc_tolerance = tolerance, rc_days = days,
            rc_absolute = config_bool (dget_or config ''reconciliation_use_absolute_amounts'' (PBool True)),
            rc_ignore_positive =
              config_bool (dget_or config ''ignore_positive_transactions_for_missing_receipts'' (PBool True))\<rparr>)))"

section \<open>Reading a pair\<close>

definition amount_char :: "char \<Rightarrow> bool" where
  "amount_char c \<longleftrightarrow> is_digit c \<or> c \<in> {CHR '','', CHR ''.'', CHR ''-''}"

definition decimal_comma :: "char \<Rightarrow> string \<Rightarrow> string" where
  "decimal_comma sep s = (let parts = split_at sep s in concat (butlast parts) @ ''.'' @ last parts)"

definition amount_text :: "string \<Rightarrow> string" where
  "amount_text s =
     (let comma = CHR '','' \<in> set s; dot = CHR ''.'' \<in> set s in
      if comma \<and> dot then
        (if last_of_two CHR '','' CHR ''.'' s = CHR '',''
         then map (\<lambda>c. if c = CHR '','' then CHR ''.'' else c) (drop_char CHR ''.'' s)
         else drop_char CHR '','' s)
      else if comma then decimal_comma CHR '','' s
      else if 1 < char_count CHR ''.'' s then decimal_comma CHR ''.'' s
      else s)"

definition read_amount :: "py_env \<Rightarrow> pyval \<Rightarrow> pyfloat option" where
  "read_amount env v =
     (case v of
        PNone \<Rightarrow> None
      | PBool b \<Rightarrow> None
      | PInt i \<Rightarrow> Some (Num (of_int i))
      | PFloat f \<Rightarrow> Some f
      | _ \<Rightarrow>
          (let s = filter amount_char (strip (py_str env v)) in
           if s = [] \<or> s \<in> {''-'', ''.'', '',''} then None else parse_decimal (amount_text s)))"

definition replace_zulu :: "string \<Rightarrow> string" where
  "replace_zulu s = concat (map (\<lambda>c. if c = CHR ''Z'' then ''+00:00'' else [c]) s)"

fun first_some :: "'a option list \<Rightarrow> 'a option" where
  "first_some [] = None"
| "first_some (x # xs) = (case x of None \<Rightarrow> first_some xs | Some y \<Rightarrow> Some y)"

definition read_date :: "py_env \<Rightarrow> pyval \<Rightarrow> pydate option" where
  "read_date env v =
     (if v = PNone then None
      else
        (let s = strip (py_str env v); t = take 10 s in
         if s = [] then None
         else first_some
           [datetime_date (replace_zulu s), year_first CHR ''-'' t, day_first CHR ''-'' t,
            day_first CHR ''/'' t, year_first CHR ''/'' t]))"

definition normalized_text :: "py_env \<Rightarrow> pyval \<Rightarrow> string" where
  "normalized_text env v = join_with '' '' (words_of word_char [] (lower (py_str env (py_or v (PStr [])))))"

definition VENDOR_KEYS :: "string list" where
  "VENDOR_KEYS = [''vendor_name'', ''merchant'', ''counterparty'', ''description'', ''name'']"

definition vendor_text :: "py_env \<Rightarrow> pydict \<Rightarrow> string" where
  "vendor_text env d =
     (case filter (\<lambda>t. t \<noteq> []) (map (\<lambda>k. normalized_text env (dget d k)) VENDOR_KEYS) of
        [] \<Rightarrow> [] | t # _ \<Rightarrow> t)"

section \<open>The score\<close>

text \<open>Decimal arithmetic with infinities and NaN; a comparison with NaN raises.\<close>

fun decimal_abs :: "pyfloat \<Rightarrow> pyfloat" where
  "decimal_abs (Num r) = Num \<bar>r\<bar>"
| "decimal_abs (Infty _) = Infty True"
| "decimal_abs NaN = NaN"

fun decimal_minus :: "pyfloat \<Rightarrow> pyfloat \<Rightarrow> pyfloat result" where
  "decimal_minus (Num a) (Num b) = Inr (Num (a - b))"
| "decimal_minus NaN _ = Inr NaN"
| "decimal_minus _ NaN = Inr NaN"
| "decimal_minus (Infty a) (Infty b) = (if a = b then Inl invalid_decimal else Inr (Infty a))"
| "decimal_minus (Infty a) (Num _) = Inr (Infty a)"
| "decimal_minus (Num _) (Infty b) = Inr (Infty (\<not> b))"

definition decimal_greater :: "pyfloat \<Rightarrow> pyfloat \<Rightarrow> bool result" where
  "decimal_greater a b = (if a = NaN \<or> b = NaN then Inl invalid_decimal else Inr (flt_less b a))"

definition amount_difference :: "reconciler \<Rightarrow> pyfloat \<Rightarrow> pyfloat \<Rightarrow> pyfloat result" where
  "amount_difference rc a b =
     (let f = (if rc_absolute rc then decimal_abs else id)
      in map_sum id decimal_abs (decimal_minus (f a) (f b)))"

definition date_factor :: "reconciler \<Rightarrow> pydate option \<Rightarrow> pydate option \<Rightarrow> rat option" where
  "date_factor rc a b =
     (case (a, b) of
        (Some x, Some y) \<Rightarrow> if rc_days rc < \<bar>days_between x y\<bar> then None else Some (3 / 10)
      | _ \<Rightarrow> Some 0)"

definition vendor_factor :: "string \<Rightarrow> string \<Rightarrow> rat" where
  "vendor_factor a b = (if a \<noteq> [] \<and> b \<noteq> [] then similarity a b / 10 else 0)"

definition round_score :: "rat \<Rightarrow> rat" where
  "round_score r = of_int (round_half_even (r * 10000)) / 10000"

definition reconciliation_document :: "pydict \<Rightarrow> pydict result" where
  "reconciliation_document doc =
     (case py_or (dget doc ''extracted_data'') (PDict doc) of PDict d \<Rightarrow> Inr d | _ \<Rightarrow> Inl AttributeError)"

definition match_score :: "py_env \<Rightarrow> reconciler \<Rightarrow> pydict \<Rightarrow> pydict \<Rightarrow> (rat \<times> pyfloat) option result" where
  "match_score env rc bt doc =
     rbind (reconciliation_document doc) (\<lambda>d.
       case (read_amount env (dget bt ''amount''),
             read_amount env (py_or (dget d ''total_amount'') (dget d ''amount''))) of
         (Some a, Some b) \<Rightarrow>
           rbind (amount_difference rc a b) (\<lambda>difference.
           rbind (decimal_greater difference (rc_tolerance rc)) (\<lambda>too_far.
             if too_far then Inr None
             else
               (case date_factor rc
                       (read_date env (py_or (dget bt ''date'') (dget bt ''transaction_date'')))
                       (read_date env (py_or (dget d ''transaction_date'') (dget d ''date''))) of
                  None \<Rightarrow> Inr None
                | Some f \<Rightarrow>
                    Inr (Some (round_score (6 / 10 + f + vendor_factor (vendor_text env bt) (vendor_text env d)),
                               difference)))))
       | _ \<Rightarrow> Inr None)"

section \<open>Matching\<close>

text \<open>Equal numbers are one key of a set, and a list or a dictionary is none.\<close>

fun set_key :: "pyval \<Rightarrow> pyval result" where
  "set_key (PBool b) = Inr (PInt (if b then 1 else 0))"
| "set_key (PFloat (Num r)) = Inr (if r = of_int \<lfloor>r\<rfloor> then PInt \<lfloor>r\<rfloor> else PFloat (Num r))"
| "set_key (PList _) = Inl TypeError"
| "set_key (PDict _) = Inl TypeError"
| "set_key v = Inr v"

type_synonym source_doc = "nat \<times> pydict"

definition reconcile_id :: "source_doc \<Rightarrow> pyval" where
  "reconcile_id sd =
     py_or (dget (snd sd) ''document_id'') (py_or (dget (snd sd) ''id'')
       (py_or (dget (snd sd) ''local_path'') (PStr (str_of_nat (fst sd)))))"

record candidate =
  cd_doc :: source_doc
  cd_key :: pyval
  cd_score :: rat
  cd_difference :: pyfloat

datatype reconciliation =
    Matched pydict candidate
  | Unmatched_transaction pydict
  | Unmatched_document source_doc

definition qualifies :: "reconciler \<Rightarrow> rat \<Rightarrow> bool" where
  "qualifies rc score \<longleftrightarrow> \<not> flt_less (Num score) (rc_threshold rc)"

definition better :: "candidate option \<Rightarrow> candidate \<Rightarrow> candidate option" where
  "better best c =
     (case best of None \<Rightarrow> Some c | Some b \<Rightarrow> if cd_score b < cd_score c then Some c else best)"

fun best_document ::
  "py_env \<Rightarrow> reconciler \<Rightarrow> pyval list \<Rightarrow> pydict \<Rightarrow> source_doc list \<Rightarrow> candidate option \<Rightarrow> candidate option result" where
  "best_document env rc used bt [] best = Inr best"
| "best_document env rc used bt (sd # sds) best =
     rbind (set_key (reconcile_id sd)) (\<lambda>key.
       if key \<in> set used then best_document env rc used bt sds best
       else rbind (match_score env rc bt (snd sd)) (\<lambda>m.
         case m of
           None \<Rightarrow> best_document env rc used bt sds best
         | Some (score, difference) \<Rightarrow>
             if \<not> qualifies rc score then best_document env rc used bt sds best
             else best_document env rc used bt sds
                    (better best \<lparr>cd_doc = sd, cd_key = key, cd_score = score, cd_difference = difference\<rparr>)))"

fun match_transactions ::
  "py_env \<Rightarrow> reconciler \<Rightarrow> source_doc list \<Rightarrow> pyval list \<Rightarrow> pydict list \<Rightarrow> (reconciliation list \<times> pyval list) result" where
  "match_transactions env rc docs used [] = Inr ([], used)"
| "match_transactions env rc docs used (bt # bts) =
     rbind (best_document env rc used bt docs None) (\<lambda>best.
       case best of
         Some c \<Rightarrow>
           rbind (match_transactions env rc docs (cd_key c # used) bts) (\<lambda>(rs, used').
             Inr (Matched bt c # rs, used'))
       | None \<Rightarrow>
           rbind (match_transactions env rc docs used bts) (\<lambda>(rs, used').
             Inr (Unmatched_transaction bt # rs, used')))"

fun unmatched_documents :: "pyval list \<Rightarrow> source_doc list \<Rightarrow> reconciliation list result" where
  "unmatched_documents used [] = Inr []"
| "unmatched_documents used (sd # sds) =
     rbind (set_key (reconcile_id sd)) (\<lambda>key.
     rbind (unmatched_documents used sds) (\<lambda>rs.
       Inr (if key \<in> set used then rs else Unmatched_document sd # rs)))"

definition reconcile ::
  "py_env \<Rightarrow> reconciler \<Rightarrow> pydict list \<Rightarrow> source_doc list \<Rightarrow> reconciliation list result" where
  "reconcile env rc bts docs =
     rbind (match_transactions env rc docs [] bts) (\<lambda>(rs, used).
     rbind (unmatched_documents used docs) (\<lambda>us. Inr (rs @ us)))"

text \<open>The transactions that need a receipt.\<close>

definition needs_receipt :: "py_env \<Rightarrow> reconciler \<Rightarrow> reconciliation \<Rightarrow> pydict list result" where
  "needs_receipt env rc r =
     (case r of
        Unmatched_transaction bt \<Rightarrow>
          (case read_amount env (dget bt ''amount'') of
             Some NaN \<Rightarrow> if rc_ignore_positive rc then Inl invalid_decimal else Inr [bt]
           | Some a \<Rightarrow> Inr (if rc_ignore_positive rc \<and> flt_le (Num 0) a then [] else [bt])
           | None \<Rightarrow> Inr [bt])
      | _ \<Rightarrow> Inr [])"

fun collect_receipts :: "('a \<Rightarrow> 'b list result) \<Rightarrow> 'a list \<Rightarrow> 'b list result" where
  "collect_receipts f [] = Inr []"
| "collect_receipts f (x # xs) = rbind (f x) (\<lambda>ys. rbind (collect_receipts f xs) (\<lambda>zs. Inr (ys @ zs)))"

definition detect_missing_receipts ::
  "py_env \<Rightarrow> reconciler \<Rightarrow> pydict list \<Rightarrow> source_doc list \<Rightarrow> pydict list result" where
  "detect_missing_receipts env rc bts docs =
     rbind (reconcile env rc bts docs) (collect_receipts (needs_receipt env rc))"

end
