(* ===== verification/Reconcile_Properties.thy ===== *)
theory Reconcile_Properties
  imports Reconcile
begin

text \<open>
  What the reconciliation guarantees: it is a matching of transactions and documents, greedy
  and best among the free documents, under the default configuration only of equal days and
  of amounts a cent apart; and which transactions raise a missing-receipt alert.
\<close>

section \<open>One transaction\<close>

definition fits :: "py_env \<Rightarrow> reconciler \<Rightarrow> pyval list \<Rightarrow> pydict \<Rightarrow> source_doc list \<Rightarrow> candidate \<Rightarrow> bool" where
  "fits env rc used bt docs c \<longleftrightarrow>
     cd_doc c \<in> set docs \<and> set_key (reconcile_id (cd_doc c)) = Inr (cd_key c) \<and> cd_key c \<notin> set used \<and>
     match_score env rc bt (snd (cd_doc c)) = Inr (Some (cd_score c, cd_difference c)) \<and> qualifies rc (cd_score c)"

definition best_of :: "(candidate \<Rightarrow> bool) \<Rightarrow> candidate option \<Rightarrow> bool" where
  "best_of P best =
     (case best of None \<Rightarrow> (\<forall>c. \<not> P c) | Some b \<Rightarrow> P b \<and> (\<forall>c. P c \<longrightarrow> cd_score c \<le> cd_score b))"

lemma best_of_cong: "best_of P best \<Longrightarrow> (\<And>c. P c \<longleftrightarrow> Q c) \<Longrightarrow> best_of Q best"
  by (auto simp: best_of_def split: option.splits)

lemma best_of_better: "best_of P best \<Longrightarrow> best_of (\<lambda>x. P x \<or> x = c) (better best c)"
  by (auto simp: best_of_def better_def split: option.splits intro: order_trans less_imp_le)

lemma fits_Cons:
  "fits env rc used bt (sd # sds) c \<longleftrightarrow>
     fits env rc used bt [sd] c \<or> fits env rc used bt sds c"
  by (auto simp: fits_def)

lemma fits_one:
  assumes "set_key (reconcile_id sd) = Inr key" and "key \<notin> set used"
    and "match_score env rc bt (snd sd) = Inr (Some (score, difference))" and "qualifies rc score"
  shows "fits env rc used bt [sd] c \<longleftrightarrow>
    c = \<lparr>cd_doc = sd, cd_key = key, cd_score = score, cd_difference = difference\<rparr>"
  using assms by (auto simp: fits_def intro: candidate.equality)

lemma best_document_step:
  assumes "best_document env rc used bt (sd # sds) best = Inr out"
  obtains (skipped) "best_document env rc used bt sds best = Inr out" and "\<And>c. \<not> fits env rc used bt [sd] c"
  | (candidate) c where "best_document env rc used bt sds (better best c) = Inr out"
      and "\<And>c'. fits env rc used bt [sd] c' \<longleftrightarrow> c' = c"
proof -
  obtain key where k: "set_key (reconcile_id sd) = Inr key" using assms by (auto dest!: rbind_eq_InrD)
  show thesis
  proof (cases "key \<in> set used")
    case True
    show thesis by (rule skipped) (use assms k True in \<open>auto simp: fits_def\<close>)
  next
    case False
    then obtain m where m: "match_score env rc bt (snd sd) = Inr m" using assms k by (auto dest!: rbind_eq_InrD)
    show thesis
    proof (cases "\<exists>score difference. m = Some (score, difference) \<and> qualifies rc score")
      case True
      then obtain score difference where q: "m = Some (score, difference)" "qualifies rc score" by blast
      show thesis
        by (rule candidate [OF _ fits_one [OF k False m [unfolded q(1)] q(2)]]) (use assms k False m q in simp)
    next
      case q: False
      show thesis by (rule skipped) (use assms k False m q in \<open>auto simp: fits_def split: option.splits if_splits\<close>)
    qed
  qed
qed

lemma best_document_best_of:
  "best_document env rc used bt docs best = Inr out \<Longrightarrow> best_of P best \<Longrightarrow>
   best_of (\<lambda>c. P c \<or> fits env rc used bt docs c) out"
proof (induction docs arbitrary: best P)
  case Nil
  then show ?case by (simp add: fits_def)
next
  case (Cons sd sds)
  from Cons.prems(1) show ?case
  proof (cases rule: best_document_step)
    case skipped
    show ?thesis
      by (rule best_of_cong [OF Cons.IH [OF skipped(1) Cons.prems(2)]]) (use skipped(2) fits_Cons in blast)
  next
    case (candidate c)
    show ?thesis
      by (rule best_of_cong [OF Cons.IH [OF candidate(1) best_of_better [OF Cons.prems(2)]]])
        (use candidate(2) fits_Cons in blast)
  qed
qed

text \<open>Of the documents with the best score the first is taken: those before it score less.\<close>

definition first_at :: "py_env \<Rightarrow> reconciler \<Rightarrow> pyval list \<Rightarrow> pydict \<Rightarrow> source_doc list \<Rightarrow> candidate \<Rightarrow> bool" where
  "first_at env rc used bt docs c \<longleftrightarrow>
     (\<exists>pre post. docs = pre @ cd_doc c # post \<and> (\<forall>c'. fits env rc used bt pre c' \<longrightarrow> cd_score c' < cd_score c))"

lemma first_at_here: "cd_doc c = sd \<Longrightarrow> first_at env rc used bt (sd # sds) c"
  unfolding first_at_def by (intro exI [of _ "[]"] exI [of _ sds]) (simp add: fits_def)

lemma first_at_later:
  assumes "first_at env rc used bt sds c" and "\<And>c'. fits env rc used bt [sd] c' \<Longrightarrow> cd_score c' < cd_score c"
  shows "first_at env rc used bt (sd # sds) c"
proof -
  from assms(1) obtain pre post where p: "sds = pre @ cd_doc c # post"
      "\<forall>c'. fits env rc used bt pre c' \<longrightarrow> cd_score c' < cd_score c"
    by (auto simp: first_at_def)
  have "\<forall>c'. fits env rc used bt (sd # pre) c' \<longrightarrow> cd_score c' < cd_score c"
    using p(2) assms(2) fits_Cons by blast
  then show ?thesis unfolding first_at_def by (intro exI [of _ "sd # pre"] exI [of _ post]) (simp add: p(1))
qed

lemma best_document_first:
  "best_document env rc used bt docs best = Inr (Some out) \<Longrightarrow>
   best = Some out \<or> (first_at env rc used bt docs out \<and> (\<forall>b. best = Some b \<longrightarrow> cd_score b < cd_score out))"
proof (induction docs arbitrary: best)
  case Nil
  then show ?case by simp
next
  case (Cons sd sds)
  from Cons.prems show ?case
  proof (cases rule: best_document_step)
    case skipped
    from Cons.IH [OF skipped(1)] show ?thesis using skipped(2) by (blast intro: first_at_later)
  next
    case (candidate c)
    have sd: "cd_doc c = sd" using candidate(2) [of c] by (simp add: fits_def)
    from Cons.IH [OF candidate(1)] show ?thesis
    proof
      assume "better best c = Some out"
      then show ?thesis using first_at_here [OF sd] by (auto simp: better_def split: option.splits if_splits)
    next
      assume l: "first_at env rc used bt sds out \<and> (\<forall>b. better best c = Some b \<longrightarrow> cd_score b < cd_score out)"
      then have "cd_score c < cd_score out \<and> (\<forall>b. best = Some b \<longrightarrow> cd_score b < cd_score out)"
        by (auto simp: better_def split: option.splits if_splits)
      moreover have "first_at env rc used bt (sd # sds) out"
        by (rule first_at_later) (use l calculation candidate(2) in simp_all)
      ultimately show ?thesis by blast
    qed
  qed
qed

lemma best_document_spec:
  assumes "best_document env rc used bt docs None = Inr out"
  shows "best_of (fits env rc used bt docs) out" and "out = Some c \<Longrightarrow> first_at env rc used bt docs c"
  using best_document_best_of [of env rc used bt docs None out "\<lambda>_. False"] assms
    best_document_first [of env rc used bt docs None c]
  by (simp_all add: best_of_def)

section \<open>All transactions\<close>

fun result_key :: "reconciliation \<Rightarrow> pyval list" where
  "result_key (Matched bt c) = [cd_key c]"
| "result_key _ = []"

fun result_transaction :: "reconciliation \<Rightarrow> pydict list" where
  "result_transaction (Matched bt c) = [bt]"
| "result_transaction (Unmatched_transaction bt) = [bt]"
| "result_transaction (Unmatched_document sd) = []"

abbreviation matched_keys :: "reconciliation list \<Rightarrow> pyval list" where
  "matched_keys rs \<equiv> concat (map result_key rs)"

text \<open>The choice made for a transaction when the documents of \<open>used\<close> are taken.\<close>

definition best_choice :: "py_env \<Rightarrow> reconciler \<Rightarrow> source_doc list \<Rightarrow> pyval list \<Rightarrow> reconciliation \<Rightarrow> bool" where
  "best_choice env rc docs used r =
     (case r of
        Matched bt c \<Rightarrow> best_of (fits env rc used bt docs) (Some c) \<and> first_at env rc used bt docs c
      | Unmatched_transaction bt \<Rightarrow> best_of (fits env rc used bt docs) None
      | Unmatched_document _ \<Rightarrow> False)"

lemma match_transactions_spec:
  "match_transactions env rc docs used bts = Inr (rs, used') \<Longrightarrow> distinct used \<Longrightarrow>
     concat (map result_transaction rs) = bts \<and> length rs = length bts \<and>
     used' = rev (matched_keys rs) @ used \<and> distinct used' \<and>
     (\<forall>i < length rs. best_choice env rc docs (rev (matched_keys (take i rs)) @ used) (rs ! i))"
proof (induction bts arbitrary: used rs used')
  case Nil
  then show ?case by simp
next
  case (Cons bt bts)
  obtain best where b: "best_document env rc used bt docs None = Inr best"
    using Cons.prems(1) by (auto dest!: rbind_eq_InrD)
  note spec = best_document_spec [OF b]
  obtain r rs0 used0 where r: "rs = r # rs0" "used0 = rev (result_key r) @ used" "distinct used0"
      "match_transactions env rc docs used0 bts = Inr (rs0, used')" "result_transaction r = [bt]"
      "best_choice env rc docs used r"
  proof (cases best)
    case None
    then obtain rs0 where "match_transactions env rc docs used bts = Inr (rs0, used')"
        "rs = Unmatched_transaction bt # rs0"
      using Cons.prems(1) b by (auto dest!: rbind_eq_InrD)
    then show thesis using that [of "Unmatched_transaction bt" rs0 used] Cons.prems(2) spec None
      by (simp add: best_choice_def)
  next
    case (Some c)
    then obtain rs0 where "match_transactions env rc docs (cd_key c # used) bts = Inr (rs0, used')"
        "rs = Matched bt c # rs0"
      using Cons.prems(1) b by (auto dest!: rbind_eq_InrD)
    moreover have "cd_key c \<notin> set used" using spec Some by (simp add: best_of_def fits_def)
    ultimately show thesis using that [of "Matched bt c" rs0 "cd_key c # used"] Cons.prems(2) spec Some
      by (simp add: best_choice_def)
  qed
  have ih: "concat (map result_transaction rs0) = bts" "length rs0 = length bts"
      "used' = rev (matched_keys rs0) @ used0" "distinct used'"
      "\<forall>i < length rs0. best_choice env rc docs (rev (matched_keys (take i rs0)) @ used0) (rs0 ! i)"
    using Cons.IH [OF r(4,3)] by blast+
  have "\<forall>i < length rs. best_choice env rc docs (rev (matched_keys (take i rs)) @ used) (rs ! i)"
  proof (intro allI impI)
    fix i assume "i < length rs"
    then show "best_choice env rc docs (rev (matched_keys (take i rs)) @ used) (rs ! i)"
      using ih(5) r(1,2,6) by (cases i) auto
  qed
  then show ?case using ih r(1,2,5) by simp
qed

lemma unmatched_documents_spec:
  "unmatched_documents used docs = Inr us \<Longrightarrow>
     us = map Unmatched_document (filter (\<lambda>sd. \<exists>key. set_key (reconcile_id sd) = Inr key \<and> key \<notin> set used) docs)"
proof (induction docs arbitrary: us)
  case (Cons sd sds)
  then show ?case by (auto dest!: rbind_eq_InrD split: if_splits)
qed simp

lemma reconcile_parts:
  assumes "reconcile env rc bts docs = Inr rs"
  obtains ms where "rs = ms @ map Unmatched_document
        (filter (\<lambda>sd. \<exists>key. set_key (reconcile_id sd) = Inr key \<and> key \<notin> set (matched_keys ms)) docs)"
    and "concat (map result_transaction ms) = bts" and "length ms = length bts" and "distinct (matched_keys ms)"
    and "\<forall>i < length ms. best_choice env rc docs (rev (matched_keys (take i ms))) (ms ! i)"
proof -
  obtain ms used us where m: "match_transactions env rc docs [] bts = Inr (ms, used)"
      "unmatched_documents used docs = Inr us" "rs = ms @ us"
    using assms by (auto simp: reconcile_def dest!: rbind_eq_InrD)
  have s: "concat (map result_transaction ms) = bts" "length ms = length bts" "used = rev (matched_keys ms)"
      "distinct used" "\<forall>i < length ms. best_choice env rc docs (rev (matched_keys (take i ms))) (ms ! i)"
    using match_transactions_spec [OF m(1)] by auto
  note u = unmatched_documents_spec [OF m(2)]
  have "distinct (matched_keys ms)" using s(3,4) by (simp only: distinct_rev)
  then show thesis
    by (intro that [of ms]) (use s u m(3) in \<open>simp_all\<close>)
qed

lemma first_some_mem: "first_some xs = Some y \<Longrightarrow> Some y \<in> set xs"
  by (induction xs) (auto split: option.splits)

lemma read_date_valid: "read_date env v = Some d \<Longrightarrow> valid_date d"
proof -
  assume d: "read_date env v = Some d"
  let ?s = "strip (py_str env v)"
  have "first_some [datetime_date (replace_zulu ?s), year_first CHR ''-'' (take 10 ?s), day_first CHR ''-'' (take 10 ?s),
      day_first CHR ''/'' (take 10 ?s), year_first CHR ''/'' (take 10 ?s)] = Some d"
    using d unfolding read_date_def Let_def by (simp split: if_splits del: first_some.simps)
  from first_some_mem [OF this] show ?thesis
    by (auto dest!: sym [of "Some d"] intro: datetime_date_valid year_first_valid day_first_valid)
qed

section \<open>Properties\<close>

text \<open>
  C6: A reconciliation lists the transactions in their order, one result each; no document is
  matched twice; a transaction gets a document that is still free, fits and has the best
  score of those, the first of them in the order of the documents when several have it, or none
  when none fits; the documents left follow.
\<close>

theorem reconciliation_is_a_greedy_matching:
  assumes "reconcile env rc bts docs = Inr rs"
  shows "\<exists>ms. rs = ms @ map Unmatched_document
        (filter (\<lambda>sd. \<exists>key. set_key (reconcile_id sd) = Inr key \<and> key \<notin> set (matched_keys ms)) docs) \<and>
      concat (map result_transaction ms) = bts \<and> length ms = length bts \<and> distinct (matched_keys ms) \<and>
      (\<forall>i < length ms. case ms ! i of
         Matched bt c \<Rightarrow> fits env rc (rev (matched_keys (take i ms))) bt docs c \<and>
           (\<forall>c'. fits env rc (rev (matched_keys (take i ms))) bt docs c' \<longrightarrow> cd_score c' \<le> cd_score c) \<and>
           (\<exists>pre post. docs = pre @ cd_doc c # post \<and>
             (\<forall>c'. fits env rc (rev (matched_keys (take i ms))) bt pre c' \<longrightarrow> cd_score c' < cd_score c))
       | Unmatched_transaction bt \<Rightarrow> \<not> (\<exists>c'. fits env rc (rev (matched_keys (take i ms))) bt docs c')
       | Unmatched_document sd \<Rightarrow> False)"
proof -
  from assms obtain ms where ms: "rs = ms @ map Unmatched_document
        (filter (\<lambda>sd. \<exists>key. set_key (reconcile_id sd) = Inr key \<and> key \<notin> set (matched_keys ms)) docs)"
      "concat (map result_transaction ms) = bts" "length ms = length bts" "distinct (matched_keys ms)"
      "\<forall>i < length ms. best_choice env rc docs (rev (matched_keys (take i ms))) (ms ! i)"
    by (rule reconcile_parts)
  have "case ms ! i of
         Matched bt c \<Rightarrow> fits env rc (rev (matched_keys (take i ms))) bt docs c \<and>
           (\<forall>c'. fits env rc (rev (matched_keys (take i ms))) bt docs c' \<longrightarrow> cd_score c' \<le> cd_score c) \<and>
           (\<exists>pre post. docs = pre @ cd_doc c # post \<and>
             (\<forall>c'. fits env rc (rev (matched_keys (take i ms))) bt pre c' \<longrightarrow> cd_score c' < cd_score c))
       | Unmatched_transaction bt \<Rightarrow> \<not> (\<exists>c'. fits env rc (rev (matched_keys (take i ms))) bt docs c')
       | Unmatched_document sd \<Rightarrow> False" if "i < length ms" for i
    using ms(5) that by (auto simp: best_choice_def best_of_def first_at_def split: reconciliation.splits)
  with ms(1-4) show ?thesis by blast
qed

definition default_reconciler :: reconciler where
  "default_reconciler =
     \<lparr>rc_threshold = Num (9 / 10), rc_tolerance = Num (1 / 100), rc_days = 0, rc_absolute = True,
      rc_ignore_positive = True\<rparr>"

definition demo_payment :: "string \<Rightarrow> int \<Rightarrow> pydict" where
  "demo_payment i amount = [(''id'', PStr i), (''amount'', PInt amount), (''date'', PStr ''0024-02-03'')]"

definition demo_invoice :: "int \<Rightarrow> int \<Rightarrow> pydict" where
  "demo_invoice i amount = [(''id'', PInt i), (''total_amount'', PInt amount), (''date'', PStr ''03-02-0024'')]"

lemma demo_dates:
  "read_date plain_env (PStr ''0024-02-03'') = Some (PyDate 24 2 3)"
  "read_date plain_env (PStr ''03-02-0024'') = Some (PyDate 24 2 3)"
  by code_simp+

lemma demo_vendor: "vendor_text plain_env (demo_payment i a) = []"
proof -
  have "normalized_text plain_env PNone = []" by code_simp
  then show ?thesis by (simp add: vendor_text_def VENDOR_KEYS_def demo_payment_def)
qed

lemmas demo_score_simps =
  match_score_def reconciliation_document_def read_amount_def amount_difference_def decimal_greater_def date_factor_def
  vendor_factor_def round_score_def round_half_even_def default_reconciler_def

lemma demo_scores:
  "match_score plain_env default_reconciler (demo_payment i (- 7)) (demo_invoice 1 7) = Inr (Some (9 / 10, Num 0))"
  "match_score plain_env default_reconciler (demo_payment i (- 7)) (demo_invoice 2 8) = Inr None"
  "match_score plain_env default_reconciler (demo_payment i 7) (demo_invoice 2 8) = Inr None"
  using demo_vendor [of i "- 7"] demo_vendor [of i 7]
  by (simp_all add: demo_score_simps demo_dates demo_payment_def demo_invoice_def days_between_def)

definition demo_invoices :: "source_doc list" where
  "demo_invoices = [(0, demo_invoice 1 7), (1, demo_invoice 2 8)]"

lemma demo_keys: "set_key (reconcile_id (n, demo_invoice i a)) = Inr (if i = 0 then PStr (str_of_nat n) else PInt i)"
  by (simp add: reconcile_id_def demo_invoice_def py_or_def)

lemma demo_reconciled:
  "\<exists>c. cd_doc c = (0, demo_invoice 1 7) \<and>
     reconcile plain_env default_reconciler [demo_payment ''t1'' (- 7), demo_payment ''t2'' 7] demo_invoices =
     Inr [Matched (demo_payment ''t1'' (- 7)) c, Unmatched_transaction (demo_payment ''t2'' 7),
          Unmatched_document (1, demo_invoice 2 8)]"
  by (rule exI [of _ "\<lparr>cd_doc = (0, demo_invoice 1 7), cd_key = PInt 1, cd_score = 9 / 10, cd_difference = Num 0\<rparr>"])
    (simp add: reconcile_def demo_invoices_def demo_keys demo_scores better_def qualifies_def default_reconciler_def
      demo_scores [unfolded default_reconciler_def])

theorem reconciliation_is_a_greedy_matching_witness:
  "\<exists>rs ms. reconcile plain_env default_reconciler [demo_payment ''t1'' (- 7), demo_payment ''t2'' 7] demo_invoices = Inr rs \<and>
     length rs = 3 \<and> concat (map result_transaction ms) = [demo_payment ''t1'' (- 7), demo_payment ''t2'' 7] \<and>
     length ms = 2 \<and> distinct (matched_keys ms)"
proof -
  obtain rs where rs: "reconcile plain_env default_reconciler [demo_payment ''t1'' (- 7), demo_payment ''t2'' 7] demo_invoices = Inr rs"
    and l: "length rs = 3"
    using demo_reconciled by auto
  then show ?thesis using reconciliation_is_a_greedy_matching [OF rs] by auto
qed

lemma date_factor_cases: "date_factor rc a b = Some f \<Longrightarrow> f = 0 \<or> f = 3 / 10"
  by (auto simp: date_factor_def split: option.splits if_splits)

lemma vendor_factor_bounds: "0 \<le> vendor_factor a b" "vendor_factor a b \<le> 1 / 10"
  using similarity_bounds [of a b] by (auto simp: vendor_factor_def)

lemma round_half_even_near: "\<bar>of_int (round_half_even r) - r\<bar> \<le> 1 / 2"
proof -
  have f: "of_int \<lfloor>r\<rfloor> \<le> r" "r < of_int \<lfloor>r\<rfloor> + 1" using floor_correct [of r] by simp_all
  show ?thesis using f by (auto simp: round_half_even_def Let_def abs_le_iff split: if_splits)
qed

lemma round_score_near: "\<bar>round_score r - r\<bar> \<le> 1 / 20000"
proof -
  have "\<bar>of_int (round_half_even (r * 10000)) - r * 10000\<bar> \<le> 1 / 2" by (rule round_half_even_near)
  then show ?thesis by (simp add: round_score_def abs_le_iff field_simps)
qed

lemma round_half_even_le: "r \<le> of_int n \<Longrightarrow> round_half_even r \<le> n"
proof -
  assume r: "r \<le> of_int n"
  then have f: "\<lfloor>r\<rfloor> \<le> n" by linarith
  show ?thesis
  proof (cases "\<lfloor>r\<rfloor> = n")
    case True
    with r have "r - of_int \<lfloor>r\<rfloor> \<le> 0" by simp
    then show ?thesis using True by (simp add: round_half_even_def Let_def)
  qed (use f in \<open>auto simp: round_half_even_def Let_def\<close>)
qed

lemma round_score_le_1: "r \<le> 1 \<Longrightarrow> round_score r \<le> 1"
proof -
  assume "r \<le> 1"
  then have "round_half_even (r * 10000) \<le> 10000" by (intro round_half_even_le) simp
  then have "(of_int (round_half_even (r * 10000)) :: rat) \<le> of_int 10000" by (simp only: of_int_le_iff)
  then show ?thesis by (simp add: round_score_def)
qed

lemma match_score_parts:
  assumes "match_score env rc bt doc = Inr (Some (score, difference))"
  obtains d a b f where "reconciliation_document doc = Inr d"
    and "read_amount env (dget bt ''amount'') = Some a"
    and "read_amount env (py_or (dget d ''total_amount'') (dget d ''amount'')) = Some b"
    and "amount_difference rc a b = Inr difference" and "decimal_greater difference (rc_tolerance rc) = Inr False"
    and "date_factor rc (read_date env (py_or (dget bt ''date'') (dget bt ''transaction_date'')))
           (read_date env (py_or (dget d ''transaction_date'') (dget d ''date''))) = Some f"
    and "score = round_score (6 / 10 + f + vendor_factor (vendor_text env bt) (vendor_text env d))"
  using assms by (auto simp: match_score_def dest!: rbind_eq_InrD split: option.splits if_splits)

lemma close_amounts:
  "map_sum id decimal_abs (decimal_minus (decimal_abs a) (decimal_abs b)) = Inr e \<Longrightarrow>
   decimal_greater e (Num t) = Inr False \<Longrightarrow> \<exists>r s. a = Num r \<and> b = Num s \<and> \<bar>\<bar>r\<bar> - \<bar>s\<bar>\<bar> \<le> t"
  by (cases a; cases b) (auto simp: decimal_greater_def split: if_splits)

text \<open>
  C33: With the default configuration a match is of a transaction and a document on one calendar
  day whose amounts differ, up to their sign, by at most a cent; its score lies between nine
  tenths and one.
\<close>

theorem default_match_is_same_day_same_amount:
  assumes "init_reconciler [] = Inr rc" and "reconcile env rc bts docs = Inr rs"
    and "Matched bt c \<in> set rs"
  shows "\<exists>d day a b. reconciliation_document (snd (cd_doc c)) = Inr d \<and>
     read_amount env (dget bt ''amount'') = Some (Num a) \<and>
     read_amount env (py_or (dget d ''total_amount'') (dget d ''amount'')) = Some (Num b) \<and>
     \<bar>\<bar>a\<bar> - \<bar>b\<bar>\<bar> \<le> 1 / 100 \<and>
     read_date env (py_or (dget bt ''date'') (dget bt ''transaction_date'')) = Some day \<and>
     read_date env (py_or (dget d ''transaction_date'') (dget d ''date'')) = Some day \<and>
     9 / 10 \<le> cd_score c \<and> cd_score c \<le> 1"
proof -
  from assms(2) obtain ms where "rs = ms @ map Unmatched_document
        (filter (\<lambda>sd. \<exists>key. set_key (reconcile_id sd) = Inr key \<and> key \<notin> set (matched_keys ms)) docs)"
      "\<forall>i < length ms. best_choice env rc docs (rev (matched_keys (take i ms))) (ms ! i)"
    by (rule reconcile_parts)
  then obtain i where "best_choice env rc docs (rev (matched_keys (take i ms))) (Matched bt c)"
    using assms(3) by (auto simp: in_set_conv_nth)
  then have m: "match_score env rc bt (snd (cd_doc c)) = Inr (Some (cd_score c, cd_difference c))"
    and q: "qualifies rc (cd_score c)"
    by (auto simp: best_choice_def best_of_def fits_def)
  have rc: "rc = default_reconciler"
    using assms(1) by (simp add: init_reconciler_def default_reconciler_def config_bool_def)
  from m obtain d a b f where p: "reconciliation_document (snd (cd_doc c)) = Inr d"
    "read_amount env (dget bt ''amount'') = Some a"
    "read_amount env (py_or (dget d ''total_amount'') (dget d ''amount'')) = Some b"
    "amount_difference rc a b = Inr (cd_difference c)" "decimal_greater (cd_difference c) (rc_tolerance rc) = Inr False"
    "date_factor rc (read_date env (py_or (dget bt ''date'') (dget bt ''transaction_date'')))
       (read_date env (py_or (dget d ''transaction_date'') (dget d ''date''))) = Some f"
    "cd_score c = round_score (6 / 10 + f + vendor_factor (vendor_text env bt) (vendor_text env d))"
    by (rule match_score_parts)
  let ?v = "vendor_factor (vendor_text env bt) (vendor_text env d)"
  have v: "0 \<le> ?v" "?v \<le> 1 / 10" by (rule vendor_factor_bounds)+
  have low: "9 / 10 \<le> cd_score c" using q by (auto simp: rc qualifies_def default_reconciler_def not_less)
  have f: "f = 3 / 10"
  proof (rule ccontr)
    assume "f \<noteq> 3 / 10"
    then have "f = 0" using date_factor_cases [OF p(6)] by blast
    then show False using low v round_score_near [of "6 / 10 + f + ?v"] p(7) by (simp add: abs_le_iff)
  qed
  then have high: "cd_score c \<le> 1" unfolding p(7) by (intro round_score_le_1) (use v in simp)
  obtain x y where xy: "read_date env (py_or (dget bt ''date'') (dget bt ''transaction_date'')) = Some x"
      "read_date env (py_or (dget d ''transaction_date'') (dget d ''date'')) = Some y" "days_between x y = 0"
    using p(6) f by (auto simp: date_factor_def rc default_reconciler_def split: option.splits if_splits)
  have "x = y" using xy read_date_valid same_day by blast
  moreover obtain r s where "a = Num r" "b = Num s" "\<bar>\<bar>r\<bar> - \<bar>s\<bar>\<bar> \<le> 1 / 100"
    using close_amounts [of a b "cd_difference c" "1 / 100"] p(4,5)
    by (auto simp: amount_difference_def rc default_reconciler_def)
  ultimately show ?thesis using p(1-3) xy low high by blast
qed

theorem default_match_is_same_day_same_amount_witness:
  "\<exists>c :: candidate. cd_doc c = (0, demo_invoice 1 7) \<and> 9 / 10 \<le> cd_score c \<and> cd_score c \<le> 1 \<and>
     (\<exists>a. read_amount plain_env (dget (demo_payment ''t1'' (- 7)) ''amount'') = Some (Num a))"
proof -
  have i: "init_reconciler [] = Inr default_reconciler"
    by (simp add: init_reconciler_def default_reconciler_def config_bool_def)
  from demo_reconciled obtain c where c: "cd_doc c = (0, demo_invoice 1 7)"
    and r: "reconcile plain_env default_reconciler [demo_payment ''t1'' (- 7), demo_payment ''t2'' 7] demo_invoices =
     Inr [Matched (demo_payment ''t1'' (- 7)) c, Unmatched_transaction (demo_payment ''t2'' 7),
          Unmatched_document (1, demo_invoice 2 8)]"
    by blast
  have "Matched (demo_payment ''t1'' (- 7)) c \<in> set [Matched (demo_payment ''t1'' (- 7)) c,
      Unmatched_transaction (demo_payment ''t2'' 7), Unmatched_document (1, demo_invoice 2 8)]"
    by simp
  from default_match_is_same_day_same_amount [OF i r this] c show ?thesis by blast
qed

text \<open>
  A refund matches the invoice of the purchase: with the default configuration the sign of
  either amount has no influence on the score.
\<close>

theorem sign_does_not_matter:
  "match_score env default_reconciler (dset ''amount'' (PInt (- i)) bt) doc =
   match_score env default_reconciler (dset ''amount'' (PInt i) bt) doc"
proof -
  have "normalized_text env (dget (dset ''amount'' v bt) k) = normalized_text env (dget bt k)"
    if "k \<in> set VENDOR_KEYS" for k v
    using that by (auto simp: VENDOR_KEYS_def dget_dset)
  then have v: "vendor_text env (dset ''amount'' (PInt (- i)) bt) = vendor_text env (dset ''amount'' (PInt i) bt)"
    by (simp add: vendor_text_def cong: map_cong)
  have a: "amount_difference default_reconciler (Num (- r)) x = amount_difference default_reconciler (Num r) x" for r x
    by (simp add: amount_difference_def default_reconciler_def)
  have n: "read_amount env (PInt j) = Some (Num (of_int j))" for j by (simp add: read_amount_def)
  have g: "dget (dset ''amount'' w bt) ''amount'' = w" "dget (dset ''amount'' w bt) ''date'' = dget bt ''date''"
    "dget (dset ''amount'' w bt) ''transaction_date'' = dget bt ''transaction_date''" for w
    by (simp_all add: dget_dset)
  show ?thesis unfolding match_score_def v g n of_int_minus prod.case option.case a by (rule refl)
qed

end
