(* ===== verification/Record_Checks.thy ===== *)
theory Record_Checks
  imports Py_Datetimes
begin

text \<open>
  Validation of extracted records: the plausibility of dates and of the VAT amount
  (src/validation/financial_consistency.py), the receipt validator and its manager
  (src/validation/receipt_validator.py, validation_manager.py) and the compliance checks
  (src/compliance/regulatory_compliance.py). The regular expression of VAT numbers comes from
  the configuration: matching it, and the formats with two decimals and with one, are fields
  of an environment. \<open>today\<close> is the current date.
\<close>

record check_env =
  ce_py :: py_env
  ce_match :: "string \<Rightarrow> string \<Rightarrow> bool" \<comment> \<open>\<open>re.match(pattern, text)\<close>\<close>
  ce_search :: "string \<Rightarrow> string \<Rightarrow> bool" \<comment> \<open>\<open>re.search(pattern, text, re.IGNORECASE)\<close>\<close>
  ce_format :: "nat \<Rightarrow> pyfloat \<Rightarrow> string" \<comment> \<open>the format with that many decimals\<close>

section \<open>Dates\<close>

text \<open>Day, month and year with one of the separators dot, slash and hyphen, and whether the year has two digits.\<close>

definition slashed_date :: "string \<Rightarrow> (nat \<times> nat \<times> nat \<times> bool) option" where
  "slashed_date s =
     (case dropWhile is_digit s of
        [] \<Rightarrow> None
      | sep # _ \<Rightarrow>
          if sep \<notin> {CHR ''.'', CHR ''/'', CHR ''-''} then None
          else (case split_at sep s of
                  [d, m, y] \<Rightarrow>
                    if length d \<in> {1, 2} \<and> length m \<in> {1, 2} \<and> length y \<in> {2, 4}
                    then (case (nat_of_str d, nat_of_str m, nat_of_str y) of
                            (Some d, Some m, Some n) \<Rightarrow> Some (d, m, n, length y = 2)
                          | _ \<Rightarrow> None)
                    else None
                | _ \<Rightarrow> None))"

definition full_year :: "pydate \<Rightarrow> nat \<Rightarrow> bool \<Rightarrow> nat" where
  "full_year today y short =
     (if \<not> short then y else if y \<le> dy today mod 100 + 1 then 2000 + y else 1900 + y)"

definition parse_record_date :: "pydate \<Rightarrow> string \<Rightarrow> pydate option" where
  "parse_record_date today s =
     (case date_fromisoformat s of
        Some d \<Rightarrow> Some d
      | None \<Rightarrow>
          (case slashed_date s of
             None \<Rightarrow> None
           | Some (d, m, y, short) \<Rightarrow> make_date (full_year today y short) m d))"

record date_check =
  dc_present :: bool
  dc_valid :: bool
  dc_reason :: "string option"
  dc_evidence :: "string option"
  dc_normalized :: "string option"

definition assess_record_date :: "py_env \<Rightarrow> pydate \<Rightarrow> pyval \<Rightarrow> date_check" where
  "assess_record_date env today v =
     (let s = strip (py_str env (py_or v (PStr [])));
          base = \<lparr>dc_present = s \<noteq> [], dc_valid = True, dc_reason = None,
                  dc_evidence = (if s = [] then None else Some s), dc_normalized = None\<rparr>
      in if s = [] then base
         else (case parse_record_date today s of
                 None \<Rightarrow> base\<lparr>dc_valid := False, dc_reason := Some ''invalid_or_ambiguous_record_date''\<rparr>
               | Some d \<Rightarrow>
                   if dy d < 1900 \<or> dy today + 1 < dy d
                   then base\<lparr>dc_valid := False, dc_reason := Some ''implausible_record_date_year''\<rparr>
                   else base\<lparr>dc_normalized := Some (isoformat d)\<rparr>))"

section \<open>VAT\<close>

definition finite_number :: "pyval \<Rightarrow> rat option" where
  "finite_number v = (if is_blank v then None else case to_float v of Inr (Num r) \<Rightarrow> Some r | _ \<Rightarrow> None)"

definition ratio_limit :: "pyval \<Rightarrow> rat" where
  "ratio_limit v = (case to_float v of Inr (Num r) \<Rightarrow> if r \<le> 0 \<or> 1 < r then 1 / 4 else r | _ \<Rightarrow> 1 / 4)"

record vat_check =
  vc_present :: bool
  vc_valid :: bool
  vc_reason :: "string option"
  vc_vat :: "rat option"
  vc_total :: "rat option"
  vc_ratio :: "rat option"
  vc_limit :: rat

definition assess_vat_amount :: "pyval \<Rightarrow> pyval \<Rightarrow> pyval \<Rightarrow> vat_check" where
  "assess_vat_amount vat_value total_value max_ratio =
     (let vat = finite_number vat_value; tot = finite_number total_value; limit = ratio_limit max_ratio;
          base = \<lparr>vc_present = vat \<noteq> None, vc_valid = True, vc_reason = None, vc_vat = vat, vc_total = tot,
                  vc_ratio = None, vc_limit = limit\<rparr>;
          bad = (\<lambda>r reason. r\<lparr>vc_valid := False, vc_reason := Some reason\<rparr>)
      in case vat of
           None \<Rightarrow> base
         | Some v \<Rightarrow>
             if v = 0 then base
             else (case tot of
                     None \<Rightarrow> bad base ''vat_without_nonzero_total''
                   | Some t \<Rightarrow>
                       if t = 0 then bad base ''vat_without_nonzero_total''
                       else if (v < 0) \<noteq> (t < 0) then bad base ''vat_total_sign_mismatch''
                       else
                         (let ratio = \<bar>v\<bar> / \<bar>t\<bar>; r = base\<lparr>vc_ratio := Some ratio\<rparr>
                          in if limit < ratio then bad r ''vat_exceeds_total_ratio'' else r)))"

definition valid_vat_amount :: "pyval \<Rightarrow> pyval \<Rightarrow> pyval \<Rightarrow> rat option" where
  "valid_vat_amount vat tot max_ratio =
     (let a = assess_vat_amount vat tot max_ratio in if vc_valid a then vc_vat a else None)"

definition vat_issue_message :: "check_env \<Rightarrow> vat_check \<Rightarrow> string" where
  "vat_issue_message env a =
     (let reason = (case vc_reason a of None \<Rightarrow> [] | Some r \<Rightarrow> r) in
      if reason = ''vat_without_nonzero_total'' then ''VAT amount cannot be verified without a non-zero total amount.''
      else if reason = ''vat_total_sign_mismatch'' then ''VAT amount and total amount have conflicting signs.''
      else if reason = ''vat_exceeds_total_ratio'' then
        ''VAT amount exceeds the configured '' @
        ce_format env 1 (Num ((if vc_limit a = 0 then 1 / 4 else vc_limit a) * 100)) @ ''% of total safety limit.''
      else ''VAT amount failed financial consistency validation.'')"

section \<open>Receipts\<close>

text \<open>The default pattern: NL, nine digits, B and two digits.\<close>

definition BTW_PATTERN :: string where
  "BTW_PATTERN = ''NL'' @ [CHR 0x5C] @ ''d{9}B'' @ [CHR 0x5C] @ ''d{2}''"

record receipt_rules =
  rr_required :: "string list"
  rr_pattern :: string
  rr_threshold :: pyfloat
  rr_max_ratio :: pyval

definition init_receipt_rules :: "pydict \<Rightarrow> receipt_rules result" where
  "init_receipt_rules config =
     rbind (case dget_or config ''receipt_validation_required_fields''
                  (PList [PStr ''vendor_name'', PStr ''transaction_date'', PStr ''total_amount'']) of
              PList xs \<Rightarrow> Inr (concat (map (\<lambda>x. case x of PStr s \<Rightarrow> [s] | _ \<Rightarrow> []) xs)) | _ \<Rightarrow> Inl TypeError) (\<lambda>required.
     rbind (to_float (dget_or config ''receipt_required_field_confidence_threshold'' (PFloat (Num (7 / 10))))) (\<lambda>threshold.
       Inr \<lparr>rr_required = required,
            rr_pattern = (case dget_or config ''btw_number_pattern'' (PStr BTW_PATTERN) of PStr s \<Rightarrow> s | _ \<Rightarrow> []),
            rr_threshold = threshold,
            rr_max_ratio = (case to_float (dget_or config ''vat_max_total_ratio'' (PFloat (Num (1 / 4)))) of
                              Inl _ \<Rightarrow> PFloat (Num (1 / 4)) | Inr f \<Rightarrow> PFloat f)\<rparr>))"

text \<open>The message about one required field.\<close>

definition field_errors :: "check_env \<Rightarrow> receipt_rules \<Rightarrow> pydict \<Rightarrow> pydict \<Rightarrow> string \<Rightarrow> string list" where
  "field_errors env rr extracted confidences field =
     (if \<not> truthy (dget extracted field) then [''Missing required field: '' @ field]
      else if dget confidences field = PNone then []
      else (case to_float (dget confidences field) of
              Inl _ \<Rightarrow> [''Invalid confidence for required field: '' @ field]
            | Inr c \<Rightarrow>
                if flt_less c (rr_threshold rr)
                then [''Low confidence for required field: '' @ field @ '' ('' @ ce_format env 2 c @ '')'']
                else []))"

definition vendor_errors :: "check_env \<Rightarrow> receipt_rules \<Rightarrow> pydict \<Rightarrow> string list \<Rightarrow> string list" where
  "vendor_errors env rr extracted errors =
     (if ''vendor_name'' \<in> set (rr_required rr) \<and>
         strip (py_str (ce_py env) (py_or (dget extracted ''vendor_name'') (PStr []))) = []
      then remove1 ''Missing required field: vendor_name'' errors @ [''Invalid or empty vendor_name'']
      else errors)"

definition missing_vat_number :: string where
  "missing_vat_number = ''VAT amount present but no valid BTW number found in document.''"

definition vat_number_messages ::
  "check_env \<Rightarrow> receipt_rules \<Rightarrow> pydict \<Rightarrow> string \<Rightarrow> vat_check \<Rightarrow> string list \<times> string list" where
  "vat_number_messages env rr extracted ocr_text vat =
     (if truthy (dget extracted ''btw_number'') then
        (let n = strip (py_str (ce_py env) (dget extracted ''btw_number'')) in
         ((if ce_match env (rr_pattern rr) n then [] else [''Invalid BTW number format'']) @
          (if contains n ocr_text then [] else [''Extracted BTW number not found in OCR text'']), []))
      else if vc_valid vat \<and> (case vc_vat vat of None \<Rightarrow> False | Some v \<Rightarrow> 0 < v) \<and>
              \<not> ce_search env (rr_pattern rr) ocr_text then
        (if ''btw_number'' \<in> set (rr_required rr) then ([missing_vat_number], []) else ([], [missing_vat_number]))
      else ([], []))"

definition total_errors :: "pyval \<Rightarrow> string list result" where
  "total_errors v =
     (case v of
        PNone \<Rightarrow> Inr []
      | PStr _ \<Rightarrow> Inl TypeError
      | PList _ \<Rightarrow> Inl TypeError
      | PDict _ \<Rightarrow> Inl TypeError
      | _ \<Rightarrow> rbind (to_float v) (\<lambda>f. Inr (if flt_le f (Num 0) then [''Total amount is zero or negative.''] else [])))"

definition date_errors :: "pyval \<Rightarrow> date_check \<Rightarrow> string list" where
  "date_errors v check =
     (if truthy v \<and> \<not> dc_valid check then
        (if dc_reason check = Some ''implausible_record_date_year'' then [''Implausible transaction_date year'']
         else [''Invalid transaction_date format''])
      else [])"

record receipt_check =
  rk_errors :: "string list"
  rk_warnings :: "string list"
  rk_date :: date_check
  rk_vat :: vat_check

definition is_valid_receipt :: "receipt_check \<Rightarrow> bool" where
  "is_valid_receipt r \<longleftrightarrow> rk_errors r = []"

text \<open>The extracted fields and confidences are dictionaries and the OCR text is text.\<close>

definition validate_receipt ::
  "check_env \<Rightarrow> pydate \<Rightarrow> receipt_rules \<Rightarrow> pydict \<Rightarrow> pydict \<Rightarrow> string \<Rightarrow> receipt_check result" where
  "validate_receipt env today rr extracted confidences ocr_text =
     (let vat = assess_vat_amount (dget extracted ''vat_amount'') (dget extracted ''total_amount'') (rr_max_ratio rr);
          day = assess_record_date (ce_py env) today (dget extracted ''transaction_date'');
          required_errors = vendor_errors env rr extracted
            (concat (map (field_errors env rr extracted confidences) (rr_required rr)));
          (number_errors, warnings) = vat_number_messages env rr extracted ocr_text vat
      in rbind (total_errors (dget extracted ''total_amount'')) (\<lambda>amount_errors.
           Inr \<lparr>rk_errors = required_errors @ (if vc_valid vat then [] else [vat_issue_message env vat]) @ number_errors @
                  amount_errors @ date_errors (dget extracted ''transaction_date'') day,
                rk_warnings = warnings, rk_date = day, rk_vat = vat\<rparr>))"

definition validation_errors :: "receipt_check \<Rightarrow> string list" where
  "validation_errors r =
     (if is_valid_receipt r then [] else [''Receipt Validation: '' @ join_with ''; '' (rk_errors r)])"

section \<open>Compliance\<close>

definition classify_btw :: "(string \<times> rat) list \<Rightarrow> rat option \<Rightarrow> rat option \<Rightarrow> (string \<times> rat) option" where
  "classify_btw rates tot vat =
     (case (tot, vat) of
        (Some t, Some v) \<Rightarrow>
          if t = 0 then None else find (\<lambda>(name, rate). \<bar>v / t - rate\<bar> < 5 / 1000) rates
      | _ \<Rightarrow> None)"

definition DEFAULT_BTW_RATES :: "(string \<times> rat) list" where
  "DEFAULT_BTW_RATES = [(''high'', 21 / 100), (''low'', 9 / 100), (''zero'', 0)]"

text \<open>
  \<open>today < document_date + timedelta(days=years * 365.25)\<close>: a date takes only the whole days;
  beyond the year 9999 it overflows.
\<close>

definition check_document_retention :: "pydate \<Rightarrow> rat \<Rightarrow> string \<Rightarrow> bool result" where
  "check_document_retention today years s =
     (case year_first CHR ''-'' s of
        None \<Rightarrow> Inr True
      | Some d \<Rightarrow>
          (let deadline = int (date_ordinal d) + \<lfloor>years * 1461 / 4\<rfloor> in
           if deadline < 1 \<or> int (date_ordinal (PyDate 9999 12 31)) < deadline then Inl OverflowError
           else Inr (int (date_ordinal today) < deadline)))"

definition check_compliance :: "(pyval \<times> pydict) list \<Rightarrow> pydict \<Rightarrow> pyval list" where
  "check_compliance rules document =
     map fst (filter (\<lambda>(i, criteria). list_all (\<lambda>(k, v). dget document k = v) criteria) rules) @
     (if rules = [] \<and> truthy (dget document ''category'') then [PStr ''basic_category_present''] else [])"

end
