(* ===== verification/Record_Properties.thy ===== *)
theory Record_Properties
  imports Record_Checks
begin

text \<open>
  What a receipt that passes validation satisfies, that normalised dates are stable, and how
  long a document is retained.
\<close>

section \<open>Receipts\<close>








text \<open>A total that is not a number passes as any positive one does.\<close>

lemma NaN_total_passes: "total_errors (PFloat NaN) = Inr []"
  by (simp add: total_errors_def)




lemma read_2024: "date_fromisoformat ''2024-02-03'' = Some (PyDate 2024 2 3)"
proof -
  have "valid_date (PyDate 2024 2 3)" by (simp add: valid_date_def days_in_month_def is_leap_def)
  moreover have "isoformat (PyDate 2024 2 3) = ''2024-02-03''"
    by (simp add: isoformat_def digits2_def digit_chars)
  ultimately show ?thesis using isoformat_fromisoformat by metis
qed



section \<open>Dates\<close>

lemma no_space_in_iso: "valid_date d \<Longrightarrow> strip (isoformat d) = isoformat d"
proof -
  assume v: "valid_date d"
  have sp: "\<not> is_space (digit_char n)" if "n < 10" for n
  proof -
    have "char_digit (digit_char n) = Some n" using that by (rule char_digit_digit_char)
    then show ?thesis by (auto simp: char_digit_def is_space_def Let_def split: if_splits)
  qed
  have b: "dy d div 1000 < 10" "dd d mod 10 < 10" using v by (auto simp: valid_date_def)
  have h: "isoformat d = digit_char (dy d div 100 div 10) # tl (isoformat d)"
    "rev (isoformat d) = digit_char (dd d mod 10) # tl (rev (isoformat d))"
    by (simp_all add: isoformat_def digits2_def)
  have "\<not> is_space (digit_char (dy d div 100 div 10))" using sp b(1) by (simp add: div_mult2_eq [symmetric])
  then have "dropWhile is_space (isoformat d) = isoformat d" by (subst (1 2) h(1)) simp
  moreover have "dropWhile is_space (rev (isoformat d)) = rev (isoformat d)"
    using sp [OF b(2)] by (subst (1 2) h(2)) simp
  ultimately show ?thesis by (simp add: strip_def)
qed

lemma record_date_valid: "parse_record_date today s = Some d \<Longrightarrow> valid_date d"
  by (auto simp: parse_record_date_def fromisoformat_valid make_date_valid split: option.splits prod.splits)

text \<open>
  C34: A date that is accepted is normalised to the ISO text of a date between 1900 and next year,
  and reading that text again gives it unchanged.
\<close>

theorem normalized_dates_are_stable:
  assumes "dc_normalized (assess_record_date env today v) = Some s"
  shows "\<exists>d. valid_date d \<and> s = isoformat d \<and> 1900 \<le> dy d \<and> dy d \<le> dy today + 1 \<and>
     dc_valid (assess_record_date env today (PStr s)) \<and>
     dc_normalized (assess_record_date env today (PStr s)) = Some s"
proof -
  from assms obtain d where d: "parse_record_date today (strip (py_str env (py_or v (PStr [])))) = Some d"
      "s = isoformat d" "1900 \<le> dy d" "dy d \<le> dy today + 1"
    by (auto simp: assess_record_date_def Let_def split: option.splits if_splits)
  have v: "valid_date d" using record_date_valid [OF d(1)] .
  have ne: "isoformat d \<noteq> []" by (simp add: isoformat_def digits2_def)
  have "parse_record_date today (isoformat d) = Some d"
    by (simp add: parse_record_date_def isoformat_fromisoformat [OF v])
  then have "dc_valid (assess_record_date env today (PStr s)) \<and>
      dc_normalized (assess_record_date env today (PStr s)) = Some s"
    using d(2-4) ne by (simp add: assess_record_date_def Let_def no_space_in_iso [OF v])
  with v d(2-4) show ?thesis by blast
qed

theorem normalized_dates_are_stable_witness:
  "\<exists>d. valid_date d \<and> ''2024-02-03'' = isoformat d"
proof -
  have "dc_normalized (assess_record_date plain_env (PyDate 2024 5 5) (PStr ''2024-02-03'')) = Some (isoformat (PyDate 2024 2 3))"
    by (simp add: assess_record_date_def Let_def strip_def is_space_def parse_record_date_def read_2024)
  moreover have "isoformat (PyDate 2024 2 3) = ''2024-02-03''"
    by (simp add: isoformat_def digits2_def digit_chars)
  ultimately show ?thesis using normalized_dates_are_stable [of plain_env "PyDate 2024 5 5" "PStr ''2024-02-03''" "''2024-02-03''"]
    by auto
qed

section \<open>Retention\<close>

text \<open>
  Seven years are counted as 2556 days: with two leap days inside, the retention of a document
  ends a day before the seven years are over.
\<close>

theorem retention_ends_a_day_early:
  "check_document_retention (PyDate 28 2 29) 7 ''0021-03-01'' = Inr False \<and>
   valid_date (PyDate 28 2 29) \<and> days_between (PyDate 28 3 1) (PyDate 28 2 29) = 1"
proof -
  have y: "year_first CHR ''-'' ''0021-03-01'' = Some (PyDate 21 3 1)" by code_simp
  have m: "days_before_month y 2 = 31" "days_before_month y 3 = (if is_leap y then 60 else 59)" for y
    by (simp_all add: eval_nat_numeral days_in_month_def)
  have big: "3000000 \<le> date_ordinal (PyDate 9999 12 31)" by (simp add: date_ordinal_def days_before_year_def)
  have o: "date_ordinal (PyDate 21 3 1) = 7365" "date_ordinal (PyDate 28 2 29) = 9921" "date_ordinal (PyDate 28 3 1) = 9922"
    by (simp_all add: date_ordinal_def days_before_year_def m is_leap_def)
  have f: "\<lfloor>(7 :: rat) * 1461 / 4\<rfloor> = 2556" by (simp add: floor_eq_iff)
  have d: "\<not> int (date_ordinal (PyDate 9999 12 31)) < 9921" using big by linarith
  show ?thesis using d
    by (simp add: check_document_retention_def Let_def y o f [simplified] days_between_def valid_date_def days_in_month_def
      is_leap_def del: One_nat_def)
qed

end
