(* ===== verification/Py_Regex.thy ===== *)
theory Py_Regex
  imports Py_Values
begin

text \<open>
  The regular expressions of Python's \<open>re\<close> as far as the program uses them: ordered
  alternatives, greedy and lazy repetition, groups by name, back references, word edges, anchors
  and lookahead. \<open>runs\<close> lists the ways an expression matches at a position in the order the
  backtracking matcher tries them, so the first is the match Python finds. Text is ASCII.
\<close>

datatype rx =
    Eps
  | Chars "char \<Rightarrow> bool"
  | Seq rx rx
  | Alt rx rx
  | Star rx
  | LazyStar rx
  | Group string rx
  | BackRef string
  | WordEdge
  | LineStart
  | LineEnd
  | Ahead rx
  | NotAhead rx
  | NotAfter "char \<Rightarrow> bool"

record match_state =
  ms_prev :: "char option"
  ms_rest :: string
  ms_groups :: "(string \<times> string) list"

definition word_char_at :: "char option \<Rightarrow> bool" where
  "word_char_at c =
     (case c of None \<Rightarrow> False
      | Some x \<Rightarrow> (let n = of_char x :: nat in
          (97 \<le> n \<and> n \<le> 122) \<or> (65 \<le> n \<and> n \<le> 90) \<or> (48 \<le> n \<and> n \<le> 57) \<or> n = 95))"

definition first_char :: "string \<Rightarrow> char option" where
  "first_char s = (case s of [] \<Rightarrow> None | c # _ \<Rightarrow> Some c)"

definition last_or :: "char option \<Rightarrow> string \<Rightarrow> char option" where
  "last_or p s = (if s = [] then p else Some (last s))"

text \<open>Repetition: a round that consumes nothing is not repeated.\<close>

definition shorter :: "match_state \<Rightarrow> match_state \<Rightarrow> bool" where
  "shorter st st' \<longleftrightarrow> length (ms_rest st') < length (ms_rest st)"

fun greedy_runs :: "(match_state \<Rightarrow> match_state list) \<Rightarrow> nat \<Rightarrow> match_state \<Rightarrow> match_state list" where
  "greedy_runs f 0 st = [st]"
| "greedy_runs f (Suc n) st = concat (map (greedy_runs f n) (filter (shorter st) (f st))) @ [st]"

fun lazy_runs :: "(match_state \<Rightarrow> match_state list) \<Rightarrow> nat \<Rightarrow> match_state \<Rightarrow> match_state list" where
  "lazy_runs f 0 st = [st]"
| "lazy_runs f (Suc n) st = st # concat (map (lazy_runs f n) (filter (shorter st) (f st)))"

primrec runs :: "rx \<Rightarrow> match_state \<Rightarrow> match_state list" where
  "runs Eps st = [st]"
| "runs (Chars P) st =
     (case ms_rest st of
        [] \<Rightarrow> []
      | c # cs \<Rightarrow> if P c then [st\<lparr>ms_prev := Some c, ms_rest := cs\<rparr>] else [])"
| "runs (Seq r s) st = concat (map (runs s) (runs r st))"
| "runs (Alt r s) st = runs r st @ runs s st"
| "runs (Star r) st = greedy_runs (runs r) (length (ms_rest st)) st"
| "runs (LazyStar r) st = lazy_runs (runs r) (length (ms_rest st)) st"
| "runs (Group name r) st =
     map (\<lambda>st'. st'\<lparr>ms_groups := (name, take (length (ms_rest st) - length (ms_rest st')) (ms_rest st)) # ms_groups st'\<rparr>)
       (runs r st)"
| "runs (BackRef name) st =
     (case map_of (ms_groups st) name of
        None \<Rightarrow> []
      | Some g \<Rightarrow> if take (length g) (ms_rest st) = g
                  then [st\<lparr>ms_prev := last_or (ms_prev st) g, ms_rest := drop (length g) (ms_rest st)\<rparr>] else [])"
| "runs WordEdge st =
     (if word_char_at (ms_prev st) \<noteq> word_char_at (first_char (ms_rest st)) then [st] else [])"
| "runs LineStart st = (if ms_prev st = None then [st] else [])"
| "runs LineEnd st = (if ms_rest st = [] \<or> ms_rest st = [char_of (10 :: nat)] then [st] else [])"
| "runs (Ahead r) st = (case runs r st of [] \<Rightarrow> [] | st' # _ \<Rightarrow> [st\<lparr>ms_groups := ms_groups st'\<rparr>])"
| "runs (NotAhead r) st = (if runs r st = [] then [st] else [])"
| "runs (NotAfter P) st = (case ms_prev st of None \<Rightarrow> [st] | Some c \<Rightarrow> if P c then [] else [st])"

section \<open>Building expressions\<close>

definition seqs :: "rx list \<Rightarrow> rx" where
  "seqs rs = foldr Seq rs Eps"

definition alts :: "rx list \<Rightarrow> rx" where
  "alts rs = (case rev rs of [] \<Rightarrow> NotAhead Eps | r # qs \<Rightarrow> foldl (\<lambda>acc x. Alt x acc) r qs)"

definition opt :: "rx \<Rightarrow> rx" where
  "opt r = Alt r Eps"

definition plus_rx :: "rx \<Rightarrow> rx" where
  "plus_rx r = Seq r (Star r)"

primrec exactly :: "nat \<Rightarrow> rx \<Rightarrow> rx" where
  "exactly 0 r = Eps"
| "exactly (Suc n) r = Seq r (exactly n r)"

primrec up_to :: "nat \<Rightarrow> rx \<Rightarrow> rx" where
  "up_to 0 r = Eps"
| "up_to (Suc n) r = opt (Seq r (up_to n r))"

definition between_rx :: "nat \<Rightarrow> nat \<Rightarrow> rx \<Rightarrow> rx" where
  "between_rx m n r = Seq (exactly m r) (up_to (n - m) r)"

definition at_least :: "nat \<Rightarrow> rx \<Rightarrow> rx" where
  "at_least m r = Seq (exactly m r) (Star r)"

definition one :: "char \<Rightarrow> rx" where
  "one c = Chars (\<lambda>x. x = c)"

definition literal :: "string \<Rightarrow> rx" where
  "literal s = seqs (map one s)"

text \<open>With \<open>re.IGNORECASE\<close>.\<close>

definition one_i :: "char \<Rightarrow> rx" where
  "one_i c = Chars (\<lambda>x. lower_char x = lower_char c)"

definition literal_i :: "string \<Rightarrow> rx" where
  "literal_i s = seqs (map one_i s)"

definition any_of :: "string \<Rightarrow> rx" where
  "any_of cs = Chars (\<lambda>x. x \<in> set cs)"

definition digit_rx :: rx where
  "digit_rx = Chars is_digit"

definition space_rx :: rx where
  "space_rx = Chars is_space"

definition in_range :: "char \<Rightarrow> char \<Rightarrow> char \<Rightarrow> bool" where
  "in_range a b c \<longleftrightarrow> (of_char a :: nat) \<le> of_char c \<and> (of_char c :: nat) \<le> of_char b"

section \<open>Matching\<close>

definition at_start :: "string \<Rightarrow> match_state" where
  "at_start s = \<lparr>ms_prev = None, ms_rest = s, ms_groups = []\<rparr>"

definition first_run :: "rx \<Rightarrow> match_state \<Rightarrow> match_state option" where
  "first_run r st = (case runs r st of [] \<Rightarrow> None | st' # _ \<Rightarrow> Some st')"

text \<open>\<open>re.match\<close> and \<open>re.fullmatch\<close>\<close>

definition rx_match :: "rx \<Rightarrow> string \<Rightarrow> match_state option" where
  "rx_match r s = first_run r (at_start s)"

definition rx_fullmatch :: "rx \<Rightarrow> string \<Rightarrow> match_state option" where
  "rx_fullmatch r s = find (\<lambda>st. ms_rest st = []) (runs r (at_start s))"

text \<open>\<open>re.search\<close> from a position: the text before the match, and the state after it.\<close>

fun search_from :: "rx \<Rightarrow> char option \<Rightarrow> string \<Rightarrow> (string \<times> match_state) option" where
  "search_from r p [] =
     map_option (\<lambda>st. ([], st)) (first_run r \<lparr>ms_prev = p, ms_rest = [], ms_groups = []\<rparr>)"
| "search_from r p (c # cs) =
     (case first_run r \<lparr>ms_prev = p, ms_rest = c # cs, ms_groups = []\<rparr> of
        Some st \<Rightarrow> Some ([], st)
      | None \<Rightarrow> map_option (\<lambda>(skipped, st). (c # skipped, st)) (search_from r (Some c) cs))"

definition rx_search :: "rx \<Rightarrow> string \<Rightarrow> match_state option" where
  "rx_search r s = map_option snd (search_from r None s)"

definition rx_found :: "rx \<Rightarrow> string \<Rightarrow> bool" where
  "rx_found r s \<longleftrightarrow> rx_search r s \<noteq> None"

definition group_text :: "match_state \<Rightarrow> string \<Rightarrow> string option" where
  "group_text st name = map_of (ms_groups st) name"

text \<open>
  \<open>re.finditer\<close>: for each match the text skipped before it, the text matched and the state; a
  match of nothing moves the search on by one character.
\<close>

fun find_all :: "nat \<Rightarrow> rx \<Rightarrow> char option \<Rightarrow> string \<Rightarrow> (string \<times> string \<times> match_state) list" where
  "find_all 0 r p s = []"
| "find_all (Suc n) r p s =
     (case search_from r p s of
        None \<Rightarrow> []
      | Some (skipped, st) \<Rightarrow>
          (let here = drop (length skipped) s; m = take (length here - length (ms_rest st)) here
           in (skipped, m, st) #
              (if m \<noteq> [] then find_all n r (ms_prev st) (ms_rest st)
               else (case ms_rest st of [] \<Rightarrow> [] | c # cs \<Rightarrow> find_all n r (Some c) cs))))"

definition rx_finditer :: "rx \<Rightarrow> string \<Rightarrow> (string \<times> string \<times> match_state) list" where
  "rx_finditer r s = find_all (Suc (length s)) r None s"

text \<open>\<open>re.sub\<close> of an expression that matches no empty text.\<close>

fun sub_all :: "nat \<Rightarrow> rx \<Rightarrow> string \<Rightarrow> char option \<Rightarrow> string \<Rightarrow> string" where
  "sub_all 0 r t p s = s"
| "sub_all (Suc n) r t p s =
     (case search_from r p s of
        None \<Rightarrow> s
      | Some (skipped, st) \<Rightarrow> skipped @ t @ sub_all n r t (ms_prev st) (ms_rest st))"

definition rx_sub :: "rx \<Rightarrow> string \<Rightarrow> string \<Rightarrow> string" where
  "rx_sub r t s = sub_all (length s) r t None s"

section \<open>Laws\<close>

text \<open>A match leaves a suffix of the text, and what it consumed can be read off the state.\<close>

lemma greedy_runs_suffix:
  "(\<And>st st'. st' \<in> set (f st) \<Longrightarrow> \<exists>m. ms_rest st = m @ ms_rest st') \<Longrightarrow>
   st' \<in> set (greedy_runs f n st) \<Longrightarrow> \<exists>m. ms_rest st = m @ ms_rest st'"
proof (induction n arbitrary: st)
  case (Suc n)
  then consider "st' = st" | st1 where "st1 \<in> set (f st)" "st' \<in> set (greedy_runs f n st1)" by auto
  then show ?case using Suc by cases (auto, metis append.assoc)
qed simp

lemma lazy_runs_suffix:
  "(\<And>st st'. st' \<in> set (f st) \<Longrightarrow> \<exists>m. ms_rest st = m @ ms_rest st') \<Longrightarrow>
   st' \<in> set (lazy_runs f n st) \<Longrightarrow> \<exists>m. ms_rest st = m @ ms_rest st'"
proof (induction n arbitrary: st)
  case (Suc n)
  then consider "st' = st" | st1 where "st1 \<in> set (f st)" "st' \<in> set (lazy_runs f n st1)" by auto
  then show ?case using Suc by cases (auto, metis append.assoc)
qed simp

lemma runs_suffix: "st' \<in> set (runs r st) \<Longrightarrow> \<exists>m. ms_rest st = m @ ms_rest st'"
proof (induction r arbitrary: st st')
  case (Seq r s)
  then obtain st1 where "st1 \<in> set (runs r st)" "st' \<in> set (runs s st1)" by auto
  with Seq.IH show ?case by (metis append.assoc)
next
  case (Star r)
  then show ?case using greedy_runs_suffix [of "runs r"] by auto
next
  case (LazyStar r)
  then show ?case using lazy_runs_suffix [of "runs r"] by auto
next
  case (BackRef name)
  then show ?case by (auto split: option.splits if_splits) (metis append_take_drop_id)
next
  case (Chars P)
  then obtain c cs where "ms_rest st = c # cs" "ms_rest st' = cs" by (cases "ms_rest st") (auto split: if_splits)
  then have "ms_rest st = [c] @ ms_rest st'" by simp
  then show ?case by blast
qed (auto split: list.splits if_splits option.splits)

lemma search_from_parts:
  "search_from r p s = Some (skipped, st) \<Longrightarrow> \<exists>m. s = skipped @ m @ ms_rest st"
proof (induction s arbitrary: p skipped)
  case Nil
  then obtain st' where "st' \<in> set (runs r \<lparr>ms_prev = p, ms_rest = [], ms_groups = []\<rparr>)" "st' = st" "skipped = []"
    by (auto simp: first_run_def split: list.splits)
  then show ?case using runs_suffix by fastforce
next
  case (Cons c cs)
  show ?case
  proof (cases "first_run r \<lparr>ms_prev = p, ms_rest = c # cs, ms_groups = []\<rparr>")
    case None
    with Cons show ?thesis by fastforce
  next
    case (Some st')
    then have "st' \<in> set (runs r \<lparr>ms_prev = p, ms_rest = c # cs, ms_groups = []\<rparr>)"
      by (auto simp: first_run_def split: list.splits)
    then show ?thesis using Some Cons.prems runs_suffix by fastforce
  qed
qed

end
