(* ===== verification/Bank_Import.thy ===== *)
theory Bank_Import
  imports Py_Regex Py_Datetimes Export_Store Reconcile
begin

text \<open>
  Import of bank statements (src/operations/local_bank_transactions.py): the readers of MT940
  lines and CAMT trees, the normalisation of a transaction with its fingerprint and identity,
  and the import itself over the tables of bank transactions and imports of
  src/operations/local_ledger.py. The CSV reader, \<open>json.loads\<close> and the XML parser are ports.
\<close>

section \<open>Numbers and dates\<close>

definition bank_number_text :: "string \<Rightarrow> string" where
  "bank_number_text s =
     (let comma = CHR '','' \<in> set s; dot = CHR ''.'' \<in> set s in
      if comma \<and> dot then amount_text s
      else if comma then
        (if length (last (split_at CHR '','' s)) \<le> 2 then decimal_comma CHR '','' s else drop_char CHR '','' s)
      else amount_text s)"

definition parse_bank_number :: "py_env \<Rightarrow> pyval \<Rightarrow> pyfloat option" where
  "parse_bank_number env v =
     (case v of
        PNone \<Rightarrow> None
      | PBool b \<Rightarrow> None
      | PInt i \<Rightarrow> Some (Num (of_int i))
      | PFloat f \<Rightarrow> Some f
      | _ \<Rightarrow>
          (let raw = strip (py_str env v);
               negative = raw \<noteq> [] \<and> hd raw = CHR ''('' \<and> last raw = CHR '')'';
               s = filter amount_char raw
           in if s = [] \<or> s \<in> {''-'', ''.'', '',''} then None
              else map_option (\<lambda>n. case n of Num r \<Rightarrow> Num (if negative then - \<bar>r\<bar> else r) | x \<Rightarrow> x)
                     (parse_decimal (bank_number_text s))))"

definition normalize_date :: "py_env \<Rightarrow> pyval \<Rightarrow> string option" where
  "normalize_date env v =
     (if v = PNone then None
      else
        (let s = strip (py_str env v); t = take 10 s in
         if s = [] then None
         else map_option isoformat (first_some
           [datetime_date (replace_zulu s), year_first CHR ''-'' t, day_first CHR ''-'' t,
            day_first CHR ''/'' t, year_first CHR ''/'' t, day_first CHR ''.'' t])))"

section \<open>Fields by any spelling\<close>

definition field_key :: "string \<Rightarrow> string" where
  "field_key s = filter word_char (lower s)"

definition lookup_fields :: "pydict \<Rightarrow> pydict" where
  "lookup_fields d = dupdate [] (map (\<lambda>(k, v). (field_key k, v)) d)"

definition lookup_first :: "pydict \<Rightarrow> string list \<Rightarrow> pyval" where
  "lookup_first fs names =
     (case filter (\<lambda>v. \<not> is_blank v) (map (\<lambda>n. dget fs (field_key n)) names) of
        [] \<Rightarrow> PNone | v # _ \<Rightarrow> v)"

definition DATE_NAMES :: "string list" where
  "DATE_NAMES =
     [''transactionDate'', ''transaction_date'', ''date'', ''datum'', ''bookingDate'', ''booking_date'',
      ''boekingsdatum'', ''booked'', ''valueDate'', ''value_date'', ''valutadatum'']"

definition DESCRIPTION_NAMES :: "string list" where
  "DESCRIPTION_NAMES =
     [''description'', ''details'', ''memo'', ''remittanceInformation'', ''remittance_information'',
      ''omschrijving'', ''mededelingen'']"

definition COUNTERPARTY_NAMES :: "string list" where
  "COUNTERPARTY_NAMES =
     [''counterparty'', ''vendor'', ''payee'', ''name'', ''merchant'', ''tegenpartij'', ''rekeningnaam'',
      ''naam tegenpartij'', ''naam_tegenpartij'', ''tegenrekeningnaam'']"

definition ID_NAMES :: "string list" where
  "ID_NAMES =
     [''transactionId'', ''transaction_id'', ''id'', ''reference'', ''ref'', ''accountServicerReference'',
      ''account_servicer_reference'', ''endToEndId'', ''end_to_end_id'']"

definition signed_part :: "rat \<Rightarrow> pyfloat option \<Rightarrow> pyfloat result" where
  "signed_part sign v =
     (case v of None \<Rightarrow> Inr (Num 0)
      | Some (Num r) \<Rightarrow> Inr (Num (sign * \<bar>r\<bar>))
      | Some (Infty _) \<Rightarrow> Inr (Infty (0 < sign))
      | Some NaN \<Rightarrow> Inr NaN)"

definition parse_amount :: "py_env \<Rightarrow> pydict \<Rightarrow> pyfloat option result" where
  "parse_amount env fs =
     (case parse_bank_number env (lookup_first fs [''amount'', ''transactionAmount'', ''transaction_amount'', ''bedrag'', ''value'']) of
        Some a \<Rightarrow> Inr (Some a)
      | None \<Rightarrow>
          (let debit = parse_bank_number env (lookup_first fs [''debit'', ''af'', ''withdrawal'']);
               credit = parse_bank_number env (lookup_first fs [''credit'', ''bij'', ''deposit''])
           in if debit = None \<and> credit = None then Inr None
              else rbind (signed_part (- 1) debit) (\<lambda>d.
                   rbind (signed_part (- 1) credit) (\<lambda>c.
                     map_sum id Some (decimal_minus d c)))))"

section \<open>One transaction\<close>

record bank_entry =
  be_account :: string
  be_id :: string
  be_date :: "string option"
  be_amount :: "pyfloat option"
  be_currency :: string
  be_description :: "string option"
  be_counterparty :: "string option"
  be_fingerprint :: string
  be_source :: string
  be_generated :: bool
  be_metadata :: pydict

definition or_empty :: "py_env \<Rightarrow> pyval \<Rightarrow> string" where
  "or_empty env v = (if truthy v then py_str env v else [])"

definition text_option :: "string \<Rightarrow> string option" where
  "text_option s = (if s = [] then None else Some s)"

definition bank_fingerprint :: "py_env \<Rightarrow> pyval list \<Rightarrow> string" where
  "bank_fingerprint env vs = sha256_hex env (join_with ''|'' (map (or_empty env) vs))"

definition opt_str :: "string option \<Rightarrow> pyval" where
  "opt_str s = (case s of None \<Rightarrow> PNone | Some t \<Rightarrow> PStr t)"

definition opt_float :: "pyfloat option \<Rightarrow> pyval" where
  "opt_float f = (case f of None \<Rightarrow> PNone | Some x \<Rightarrow> PFloat x)"

definition normalize_bank_transaction :: "py_env \<Rightarrow> string \<Rightarrow> string \<Rightarrow> pydict \<Rightarrow> bank_entry result" where
  "normalize_bank_transaction env account source tx =
     (let fs = lookup_fields tx in
      rbind (parse_amount env fs) (\<lambda>amount.
        (let day = normalize_date env (lookup_first fs DATE_NAMES);
             description = lookup_first fs DESCRIPTION_NAMES;
             counterparty = lookup_first fs COUNTERPARTY_NAMES;
             cur = strip (py_str env (py_or (lookup_first fs [''currency'', ''ccy'', ''currencyCode'', ''currency_code'', ''valuta''])
                     (PStr ''EUR'')));
             currency = (if cur = [] then ''EUR'' else cur);
             explicit = lookup_first fs ID_NAMES;
             fp = bank_fingerprint env [PStr account, opt_str day, opt_float amount, PStr currency, description, counterparty]
         in Inr \<lparr>be_account = account,
              be_id = strip (py_str env (py_or explicit (PStr (''generated:'' @ take 16 fp)))),
              be_date = day, be_amount = amount, be_currency = currency,
              be_description = text_option (strip (or_empty env description)),
              be_counterparty = text_option (strip (or_empty env counterparty)),
              be_fingerprint = fp, be_source = source, be_generated = is_blank explicit,
              be_metadata = [(''generatedTransactionId'', PBool (is_blank explicit)),
                (''sourceKeys'', PList (map PStr (sort (map fst tx)))), (''originalReference'', explicit)]\<rparr>)))"

definition has_financial_signal :: "bank_entry \<Rightarrow> bool" where
  "has_financial_signal e \<longleftrightarrow> be_date e \<noteq> None \<and> be_date e \<noteq> Some [] \<and> be_amount e \<noteq> None"

end
