(* ===== verification/Bank_Ledger.thy ===== *)
theory Bank_Ledger
  imports Bank_Import
begin

text \<open>
  The tables of bank transactions, statement imports and reconciliation matches of
  src/operations/local_ledger.py beside those of \<open>export_ledger\<close>, and the import of a list of
  transactions (\<open>import_transactions\<close> of src/operations/local_bank_transactions.py). An
  exception leaves what was written before it: the result keeps the ledger.
\<close>

section \<open>Tables\<close>

record bank_row =
  bt_import :: nat
  bt_account :: string
  bt_transaction :: string
  bt_date :: "string option"
  bt_amount :: "pyfloat option"
  bt_currency :: string
  bt_description :: "string option"
  bt_counterparty :: "string option"
  bt_status :: string
  bt_reconciliation :: string
  bt_fingerprint :: string
  bt_source :: string
  bt_metadata :: pydict
  bt_updated :: timestamp

record import_row =
  im_source :: string
  im_account :: string
  im_filename :: "string option"
  im_format :: string
  im_status :: string
  im_seen :: nat
  im_imported :: nat
  im_duplicates :: nat
  im_metadata :: pydict

record match_row =
  mr_document :: "nat option"
  mr_bank :: string
  mr_status :: string
  mr_confidence :: "pyfloat option"
  mr_difference :: "pyfloat option"
  mr_matched_at :: "string option"
  mr_metadata :: pydict
  mr_created :: timestamp

record bank_ledger =
  bl_core :: export_ledger
  bl_imports :: "import_row table"
  bl_transactions :: "bank_row table"
  bl_matches :: "match_row table"

definition same_identity :: "string \<Rightarrow> string \<Rightarrow> bank_row \<Rightarrow> bool" where
  "same_identity account i r \<longleftrightarrow> bt_account r = account \<and> bt_transaction r = i"

definition bank_transaction_by_identity :: "string \<Rightarrow> string \<Rightarrow> bank_ledger \<Rightarrow> (nat \<times> bank_row) option" where
  "bank_transaction_by_identity account i L =
     (if i = [] then None
      else find_row (same_identity (if account = [] then ''default'' else account) i) (bl_transactions L))"

definition audit_bank ::
  "ledger_env \<Rightarrow> string \<Rightarrow> string \<Rightarrow> pyval \<Rightarrow> pydict \<Rightarrow> timestamp \<Rightarrow> bank_ledger \<Rightarrow> bank_ledger" where
  "audit_bank env action etype eid details now L =
     L\<lparr>bl_core := record_audit env action etype eid details now (bl_core L)\<rparr>"

section \<open>Upsert\<close>

text \<open>A REAL column stores NaN as NULL.\<close>

definition sql_real :: "pyfloat option \<Rightarrow> pyfloat option" where
  "sql_real v = (if v = Some NaN then None else v)"

definition new_bank_row :: "ledger_env \<Rightarrow> nat \<Rightarrow> timestamp \<Rightarrow> bank_entry \<Rightarrow> bank_row" where
  "new_bank_row env iid now e =
     \<lparr>bt_import = iid, bt_account = (let a = strip (be_account e) in if a = [] then ''default'' else a),
      bt_transaction = strip (be_id e), bt_date = be_date e, bt_amount = sql_real (be_amount e), bt_currency = be_currency e,
      bt_description = be_description e, bt_counterparty = be_counterparty e, bt_status = ''imported'',
      bt_reconciliation = ''not_started'', bt_fingerprint = be_fingerprint e, bt_source = be_source e,
      bt_metadata = redact_dict env (be_metadata e), bt_updated = whole_second now\<rparr>"

definition kept :: "'a option \<Rightarrow> 'a option \<Rightarrow> 'a option" where
  "kept new old = (case new of None \<Rightarrow> old | Some x \<Rightarrow> Some x)"

definition overwrite_bank_row :: "bank_entry \<Rightarrow> bank_row \<Rightarrow> bank_row \<Rightarrow> bank_row" where
  "overwrite_bank_row e new r =
     new\<lparr>bt_date := kept (bt_date new) (bt_date r),
         bt_amount := (if be_amount e = None then bt_amount r else bt_amount new),
         bt_description := kept (bt_description new) (bt_description r),
         bt_counterparty := kept (bt_counterparty new) (bt_counterparty r)\<rparr>"

definition upsert_bank_transaction ::
  "ledger_env \<Rightarrow> nat \<Rightarrow> timestamp \<Rightarrow> bank_entry \<Rightarrow> bank_ledger \<Rightarrow> (bank_ledger \<times> nat) result" where
  "upsert_bank_transaction env iid now e L =
     (let row = new_bank_row env iid now e in
      if bt_transaction row = [] then Inl ValueError
      else
        (case find_row (same_identity (bt_account row) (bt_transaction row)) (bl_transactions L) of
           Some (i, r) \<Rightarrow>
             Inr (L\<lparr>bl_transactions := update_row i (overwrite_bank_row e row) (bl_transactions L)\<rparr>, i)
         | None \<Rightarrow>
             (let (t, i) = insert_row row (bl_transactions L) in Inr (L\<lparr>bl_transactions := t\<rparr>, i))))"

section \<open>The import\<close>

record import_state =
  is_ledger :: bank_ledger
  is_imported :: nat
  is_duplicates :: nat
  is_skipped :: "(nat \<times> string) list"
  is_ids :: "nat list"
  is_seen :: "(string \<times> nat) list"

text \<open>The occurrence of a generated transaction within the import becomes part of its identity.\<close>

definition number_occurrence :: "bank_entry \<Rightarrow> (string \<times> nat) list \<Rightarrow> bank_entry \<times> (string \<times> nat) list" where
  "number_occurrence e seen =
     (if \<not> be_generated e then (e, seen)
      else
        (let n = Suc (case map_of seen (be_fingerprint e) of None \<Rightarrow> 0 | Some k \<Rightarrow> k);
             e' = e\<lparr>be_metadata := dset ''generatedOccurrence'' (PInt (int n)) (be_metadata e)\<rparr>
         in (if 1 < n then e'\<lparr>be_id := be_id e @ '':'' @ str_of_nat n\<rparr> else e',
             dset (be_fingerprint e) n seen)))"

definition import_one ::
  "ledger_env \<Rightarrow> nat \<Rightarrow> string \<Rightarrow> string \<Rightarrow> timestamp \<Rightarrow> nat \<Rightarrow> pyval \<Rightarrow> import_state \<Rightarrow> import_state result" where
  "import_one env iid account source now index v st =
     (case v of
        PDict tx \<Rightarrow>
          rbind (normalize_bank_transaction (le_py env) account source tx) (\<lambda>e.
            if \<not> has_financial_signal e then
              Inr (st\<lparr>is_skipped := is_skipped st @ [(index, ''missing_required_financial_fields'')]\<rparr>)
            else
              (let (e', seen) = number_occurrence e (is_seen st);
                   known = bank_transaction_by_identity (be_account e') (be_id e') (is_ledger st) \<noteq> None
               in rbind (upsert_bank_transaction env iid now e' (is_ledger st)) (\<lambda>(L, i).
                    Inr (st\<lparr>is_ledger := L, is_ids := is_ids st @ [i], is_seen := seen,
                            is_duplicates := is_duplicates st + (if known then 1 else 0),
                            is_imported := is_imported st + (if known then 0 else 1)\<rparr>))))
      | _ \<Rightarrow> Inr (st\<lparr>is_skipped := is_skipped st @ [(index, ''not_an_object'')]\<rparr>))"

fun import_all ::
  "(nat \<Rightarrow> pyval \<Rightarrow> import_state \<Rightarrow> import_state result) \<Rightarrow> nat \<Rightarrow> pyval list \<Rightarrow> import_state \<Rightarrow>
   import_state \<times> py_exc option" where
  "import_all step index [] st = (st, None)"
| "import_all step index (v # vs) st =
     (case step index v st of
        Inl e \<Rightarrow> (st, Some e)
      | Inr st' \<Rightarrow> import_all step (Suc index) vs st')"

definition import_account :: "string \<Rightarrow> string" where
  "import_account account =
     take 200 (let a = strip (if account = [] then ''default'' else account) in if a = [] then ''default'' else a)"

definition import_source :: "string \<Rightarrow> string" where
  "import_source source =
     (let s = take 120 (strip (if source = [] then ''manual_json'' else source)) in if s = [] then ''manual_json'' else s)"

definition running_import :: "string \<Rightarrow> string \<Rightarrow> string option \<Rightarrow> string \<Rightarrow> nat \<Rightarrow> import_row" where
  "running_import source account filename fmt seen =
     \<lparr>im_source = source, im_account = account, im_filename = filename, im_format = fmt, im_status = ''running'',
      im_seen = seen, im_imported = 0, im_duplicates = 0, im_metadata = []\<rparr>"

definition start_import :: "bank_ledger \<Rightarrow> import_state" where
  "start_import L = \<lparr>is_ledger = L, is_imported = 0, is_duplicates = 0, is_skipped = [], is_ids = [], is_seen = []\<rparr>"

record import_reply =
  ir_status :: string
  ir_import :: nat
  ir_seen :: nat
  ir_imported :: nat
  ir_duplicates :: nat
  ir_skipped :: nat
  ir_ids :: "nat list"

definition skipped_value :: "nat \<times> string \<Rightarrow> pyval" where
  "skipped_value s = PDict [(''row'', PInt (int (fst s))), (''reason'', PStr (snd s))]"

definition finish_import ::
  "ledger_env \<Rightarrow> nat \<Rightarrow> string \<Rightarrow> string \<Rightarrow> string \<Rightarrow> string \<Rightarrow> nat \<Rightarrow> timestamp \<Rightarrow> import_state \<Rightarrow> import_reply \<times> bank_ledger" where
  "finish_import env iid account source fmt actor seen now st =
     (let status = (if 0 < is_imported st \<or> 0 < is_duplicates st then ''completed'' else ''empty'');
          meta = redact_dict env
            [(''skipped'', PList (map skipped_value (take 25 (is_skipped st)))),
             (''skippedCount'', PInt (int (length (is_skipped st)))),
             (''bankTransactionIds'', PList (map (\<lambda>i. PInt (int i)) (take 100 (is_ids st))))];
          L = (is_ledger st)\<lparr>bl_imports := update_row iid
            (\<lambda>r. r\<lparr>im_status := status, im_seen := seen, im_imported := is_imported st,
                   im_duplicates := is_duplicates st, im_metadata := meta\<rparr>) (bl_imports (is_ledger st))\<rparr>
      in (\<lparr>ir_status = status, ir_import = iid, ir_seen = seen, ir_imported = is_imported st,
            ir_duplicates = is_duplicates st, ir_skipped = length (is_skipped st), ir_ids = is_ids st\<rparr>,
          audit_bank env ''local_bank_transactions.import_completed'' ''bank_statement_import'' (PStr (str_of_nat iid))
            [(''accountIdentifier'', PStr account), (''format'', PStr fmt), (''source'', PStr source),
             (''actor'', PStr actor), (''rowsSeen'', PInt (int seen)), (''rowsImported'', PInt (int (is_imported st))),
             (''duplicates'', PInt (int (is_duplicates st))), (''skipped'', PInt (int (length (is_skipped st)))),
             (''externalSubmission'', PStr ''not_executed'')] now L))"

definition import_transactions ::
  "ledger_env \<Rightarrow> pyval list \<Rightarrow> string \<Rightarrow> string \<Rightarrow> string option \<Rightarrow> string \<Rightarrow> string \<Rightarrow> timestamp \<Rightarrow> bank_ledger \<Rightarrow>
   import_reply result \<times> bank_ledger" where
  "import_transactions env txs account source filename fmt actor now L =
     (let acc = import_account account; src = import_source source;
          (t, iid) = insert_row (running_import src acc filename fmt (length txs)) (bl_imports L)
      in case import_all (import_one env iid acc src now) 0 txs (start_import (L\<lparr>bl_imports := t\<rparr>)) of
           (st, Some e) \<Rightarrow> (Inl e, is_ledger st)
         | (st, None) \<Rightarrow>
             (let (reply, L') = finish_import env iid acc src fmt actor (length txs) now st in (Inr reply, L')))"

section \<open>Transactions to reconcile\<close>

definition FINAL_BANK_STATUSES :: "string set" where
  "FINAL_BANK_STATUSES = {''approved'', ''reconciled'', ''ignored''}"

definition bounded_limit :: "int \<Rightarrow> nat" where
  "bounded_limit n = nat (max 1 (min n 500))"

text \<open>\<open>ORDER BY transaction_date DESC, updated_at DESC, id DESC\<close>; a NULL date comes last.\<close>

definition newest_transactions :: "bank_ledger \<Rightarrow> (nat \<times> bank_row) list" where
  "newest_transactions L =
     rev (sort_key (\<lambda>(i, r). case bt_date r of None \<Rightarrow> [] | Some d \<Rightarrow> CHR ''x'' # d)
       (sort_key (\<lambda>(i, r). micros (bt_updated r)) (sort_key fst (trows (bl_transactions L)))))"

definition transaction_for_reconciliation :: "nat \<times> bank_row \<Rightarrow> pydict" where
  "transaction_for_reconciliation ir =
     (let (i, r) = ir in
      [(''id'', PStr (bt_transaction r)), (''transaction_id'', PStr (bt_transaction r)),
       (''ledgerBankTransactionId'', PInt (int i)), (''ledger_bank_transaction_id'', PInt (int i)),
       (''account_identifier'', PStr (bt_account r)), (''date'', opt_str (bt_date r)),
       (''transaction_date'', opt_str (bt_date r)), (''amount'', opt_float (bt_amount r)),
       (''currency'', PStr (bt_currency r)), (''description'', opt_str (bt_description r)),
       (''counterparty'', opt_str (bt_counterparty r)), (''source'', PStr (bt_source r))])"

definition transactions_for_reconciliation :: "int \<Rightarrow> bank_ledger \<Rightarrow> pydict list" where
  "transactions_for_reconciliation limit L =
     map transaction_for_reconciliation (take (bounded_limit limit)
       (filter (\<lambda>(i, r). bt_reconciliation r \<notin> FINAL_BANK_STATUSES)
          (take (bounded_limit limit) (newest_transactions L))))"

end
