(* ===== verification/Bank_Properties.thy ===== *)
theory Bank_Properties
  imports Bank_Ledger Runtime_Safety
begin

text \<open>
  What an import of bank transactions guarantees: one row per identity, a count that adds up,
  the same rows when it is repeated; and what a repeated import does to decisions already made.
\<close>

section \<open>Identities\<close>

definition row_identity :: "bank_row \<Rightarrow> string \<times> string" where
  "row_identity r = (bt_account r, bt_transaction r)"

definition identities :: "bank_ledger \<Rightarrow> (string \<times> string) list" where
  "identities L = map (\<lambda>ir. row_identity (snd ir)) (trows (bl_transactions L))"

definition entry_identity :: "bank_entry \<Rightarrow> string \<times> string" where
  "entry_identity e = (let a = strip (be_account e) in if a = [] then ''default'' else a, strip (be_id e))"

lemma new_row_identity: "row_identity (new_bank_row env iid now e) = entry_identity e"
  by (simp add: row_identity_def new_bank_row_def entry_identity_def)

lemma overwrite_identity: "row_identity (overwrite_bank_row e new r) = row_identity new"
  by (simp add: row_identity_def overwrite_bank_row_def)

lemma same_identity_row: "same_identity a i r \<longleftrightarrow> row_identity r = (a, i)"
  by (auto simp: same_identity_def row_identity_def)

lemma find_identity_None:
  "find_row (same_identity a i) (bl_transactions L) = None \<longleftrightarrow> (a, i) \<notin> set (identities L)"
  by (force simp: find_row_def find_None_iff identities_def same_identity_row)

lemma update_row_identities:
  assumes "(i, r) \<in> set (trows t)" and "distinct (map fst (trows t))" and "row_identity (f r) = row_identity r"
  shows "map (\<lambda>ir. row_identity (snd ir)) (trows (update_row i f t)) = map (\<lambda>ir. row_identity (snd ir)) (trows t)"
proof -
  have "row_identity (snd (case x of (j, q) \<Rightarrow> (j, if j = i then f q else q))) = row_identity (snd x)"
    if "x \<in> set (trows t)" for x
  proof -
    obtain j q where x: "x = (j, q)" by force
    then have "j = i \<Longrightarrow> q = r" using that assms(1) eq_key_imp_eq_value [OF assms(2), of i q r] by simp
    then show ?thesis using x assms(3) by auto
  qed
  then show ?thesis by (simp add: update_row_def)
qed

lemma upsert_identities:
  assumes "upsert_bank_transaction env iid now e L = Inr (L', i)" and "wf_table (bl_transactions L)"
  shows "identities L' = (if entry_identity e \<in> set (identities L) then identities L else identities L @ [entry_identity e])"
    and "wf_table (bl_transactions L')" and "bl_imports L' = bl_imports L" and "bl_core L' = bl_core L"
proof -
  let ?row = "new_bank_row env iid now e"
  have ident: "(bt_account ?row, bt_transaction ?row) = entry_identity e"
    using new_row_identity [of env iid now e] by (simp add: row_identity_def)
  show "identities L' = (if entry_identity e \<in> set (identities L) then identities L else identities L @ [entry_identity e])"
  proof (cases "find_row (same_identity (bt_account ?row) (bt_transaction ?row)) (bl_transactions L)")
    case None
    then have "entry_identity e \<notin> set (identities L)" using find_identity_None ident by metis
    then show ?thesis using assms(1) None
      by (auto simp: upsert_bank_transaction_def Let_def insert_row_def identities_def new_row_identity split: if_splits)
  next
    case (Some jr)
    obtain j r where jr: "jr = (j, r)" by force
    with Some have mem: "(j, r) \<in> set (trows (bl_transactions L))" and id: "row_identity r = entry_identity e"
      using ident find_row_Some [OF Some [unfolded jr] assms(2)]
      by (auto simp: same_identity_row lookup_row_def dest: map_of_SomeD)
    then have known: "entry_identity e \<in> set (identities L)" by (force simp: identities_def)
    have "identities L' = identities L"
      using assms(1) Some jr update_row_identities [OF mem, of "overwrite_bank_row e ?row"] assms(2) id
      by (auto simp: upsert_bank_transaction_def Let_def identities_def wf_table_def overwrite_identity new_row_identity
          split: if_splits)
    then show ?thesis using known by simp
  qed
  show "wf_table (bl_transactions L')" "bl_imports L' = bl_imports L" "bl_core L' = bl_core L"
    using assms by (auto simp: upsert_bank_transaction_def Let_def insert_row_def wf_insert_row [unfolded insert_row_def Let_def fst_conv]
        split: option.splits if_splits prod.splits)
qed

section \<open>The plan of an import\<close>

text \<open>The entries an import writes, in order; they do not depend on the ledger.\<close>

fun planned_entries ::
  "py_env \<Rightarrow> string \<Rightarrow> string \<Rightarrow> pyval list \<Rightarrow> (string \<times> nat) list \<Rightarrow> bank_entry list" where
  "planned_entries env acc src [] seen = []"
| "planned_entries env acc src (v # vs) seen =
     (case v of
        PDict tx \<Rightarrow>
          (case normalize_bank_transaction env acc src tx of
             Inl _ \<Rightarrow> []
           | Inr e \<Rightarrow>
               if \<not> has_financial_signal e then planned_entries env acc src vs seen
               else (case number_occurrence e seen of (e', seen') \<Rightarrow> e' # planned_entries env acc src vs seen'))
      | _ \<Rightarrow> planned_entries env acc src vs seen)"

fun add_new :: "'a list \<Rightarrow> 'a list \<Rightarrow> 'a list" where
  "add_new xs [] = xs"
| "add_new xs (y # ys) = add_new (if y \<in> set xs then xs else xs @ [y]) ys"

lemma set_add_new: "set (add_new xs ys) = set xs \<union> set ys"
  by (induction xs ys rule: add_new.induct) auto

lemma distinct_add_new: "distinct xs \<Longrightarrow> distinct (add_new xs ys)"
  by (induction xs ys rule: add_new.induct) auto

lemma add_known: "set ys \<subseteq> set xs \<Longrightarrow> add_new xs ys = xs"
  by (induction xs ys rule: add_new.induct) auto

lemma strip_no_lead: "strip x = x \<Longrightarrow> x \<noteq> [] \<Longrightarrow> \<not> is_space (hd x)"
proof
  assume x: "strip x = x" "x \<noteq> []" "is_space (hd x)"
  have "length (strip x) \<le> length (dropWhile is_space x)"
    by (simp add: strip_def) (metis length_dropWhile_le length_rev)
  moreover have "length (dropWhile is_space x) < length x"
    using x(2,3) by (cases x) (auto simp: le_imp_less_Suc length_dropWhile_le)
  ultimately show False using x(1) by simp
qed

lemma strip_append: "strip x = x \<Longrightarrow> x \<noteq> [] \<Longrightarrow> y \<noteq> [] \<Longrightarrow> \<not> is_space (last y) \<Longrightarrow> strip (x @ y) = x @ y"
proof -
  assume a: "strip x = x" "x \<noteq> []" "y \<noteq> []" "\<not> is_space (last y)"
  then have "dropWhile is_space (x @ y) = x @ y" using strip_no_lead by (simp add: dropWhile_eq_self_iff)
  moreover have "dropWhile is_space (rev (x @ y)) = rev (x @ y)"
    using a(3,4) by (simp add: dropWhile_eq_self_iff hd_append hd_rev)
  ultimately show ?thesis by (simp add: strip_def)
qed

lemma strip_Nil: "strip s = [] \<longleftrightarrow> list_all is_space s"
proof -
  have "strip s = [] \<longleftrightarrow> (\<forall>x \<in> set (dropWhile is_space s). is_space x)" by (simp add: strip_def)
  also have "\<dots> \<longleftrightarrow> dropWhile is_space s = []" by (metis hd_dropWhile list.set_sel(1) empty_iff list.set(1))
  finally show ?thesis by (simp add: list_all_iff)
qed

lemma last_str_of_nat: "\<not> is_space (last (str_of_nat n))"
proof -
  have "char_digit (last (str_of_nat n)) \<noteq> None" using str_of_nat_digits [OF last_in_set] by simp
  then show ?thesis by (auto simp: char_digit_def is_space_def Let_def split: if_splits)
qed

lemma normalized_entry:
  assumes "normalize_bank_transaction env acc src tx = Inr e"
  shows "be_account e = acc" and "strip (be_id e) = be_id e" and "be_generated e \<Longrightarrow> be_id e \<noteq> []"
proof -
  show "be_account e = acc" "strip (be_id e) = be_id e"
    using assms by (auto simp: normalize_bank_transaction_def Let_def dest!: rbind_eq_InrD)
  assume "be_generated e"
  then obtain t where "be_id e = strip (''generated:'' @ t)"
    using assms by (auto simp: normalize_bank_transaction_def Let_def is_blank_def dest!: rbind_eq_InrD)
  then show "be_id e \<noteq> []" by (auto simp: strip_Nil is_space_def)
qed

lemma numbered_entry:
  assumes "normalize_bank_transaction env acc src tx = Inr e" and "number_occurrence e seen = (e', seen')"
  shows "be_account e' = acc" and "strip (be_id e') = be_id e'"
  using assms(2) normalized_entry [OF assms(1)] strip_append [of "be_id e" "CHR '':'' # str_of_nat n" for n]
  by (auto simp: number_occurrence_def Let_def last_str_of_nat split: if_splits)

lemma import_one_cases:
  assumes "import_one env iid acc src now index v st = Inr st'"
  obtains (skipped) reason where "\<And>vs. planned_entries (le_py env) acc src (v # vs) (is_seen st) =
        planned_entries (le_py env) acc src vs (is_seen st')"
      and "st' = st\<lparr>is_skipped := is_skipped st @ [(index, reason)]\<rparr>"
  | (entered) e i where "\<And>vs. planned_entries (le_py env) acc src (v # vs) (is_seen st) =
        e # planned_entries (le_py env) acc src vs (is_seen st')"
      and "be_account e = acc" and "strip (be_id e) = be_id e"
      and "upsert_bank_transaction env iid now e (is_ledger st) = Inr (is_ledger st', i)"
      and "is_skipped st' = is_skipped st"
      and "is_duplicates st' = is_duplicates st +
        (if bank_transaction_by_identity acc (be_id e) (is_ledger st) = None then 0 else 1)"
      and "is_imported st' = is_imported st +
        (if bank_transaction_by_identity acc (be_id e) (is_ledger st) = None then 1 else 0)"
proof (cases "\<exists>tx. v = PDict tx")
  case False
  then show thesis using skipped [of "''not_an_object''"] assms by (cases v) (simp_all add: import_one_def)
next
  case True
  then obtain tx where PDict: "v = PDict tx" by blast
  then obtain e where e: "normalize_bank_transaction (le_py env) acc src tx = Inr e"
    using assms by (auto simp: import_one_def dest!: rbind_eq_InrD)
  show thesis
  proof (cases "has_financial_signal e")
    case False
    show thesis
      by (rule skipped [of "''missing_required_financial_fields''"])
        (use False assms e PDict in \<open>auto simp: import_one_def\<close>)
  next
    case True
    obtain e' seen' where n: "number_occurrence e (is_seen st) = (e', seen')" by force
    from assms e True n PDict obtain L i where u: "upsert_bank_transaction env iid now e' (is_ledger st) = Inr (L, i)"
      and st': "st' = st\<lparr>is_ledger := L, is_ids := is_ids st @ [i], is_seen := seen',
         is_duplicates := is_duplicates st +
           (if bank_transaction_by_identity (be_account e') (be_id e') (is_ledger st) \<noteq> None then 1 else 0),
         is_imported := is_imported st +
           (if bank_transaction_by_identity (be_account e') (be_id e') (is_ledger st) \<noteq> None then 0 else 1)\<rparr>"
      by (auto simp: import_one_def Let_def dest!: rbind_eq_InrD)
    show thesis
      by (rule entered [of e' i]) (use numbered_entry [OF e n] u st' e True n PDict in auto)
  qed
qed

lemma known_identity:
  assumes "strip acc = acc" and "acc \<noteq> []" and "be_account e = acc" and "strip (be_id e) = be_id e" and "be_id e \<noteq> []"
  shows "bank_transaction_by_identity acc (be_id e) L = None \<longleftrightarrow> entry_identity e \<notin> set (identities L)"
  using assms by (simp add: bank_transaction_by_identity_def find_identity_None entry_identity_def)

lemma import_all_spec:
  assumes "strip acc = acc" and "acc \<noteq> []"
  shows "import_all (import_one env iid acc src now) index vs st = (st', None) \<Longrightarrow>
    wf_table (bl_transactions (is_ledger st)) \<Longrightarrow>
    wf_table (bl_transactions (is_ledger st')) \<and>
    identities (is_ledger st') =
      add_new (identities (is_ledger st)) (map entry_identity (planned_entries (le_py env) acc src vs (is_seen st))) \<and>
    length (identities (is_ledger st')) + is_imported st = length (identities (is_ledger st)) + is_imported st' \<and>
    is_imported st' + is_duplicates st' =
      is_imported st + is_duplicates st + length (planned_entries (le_py env) acc src vs (is_seen st)) \<and>
    length (planned_entries (le_py env) acc src vs (is_seen st)) + length (is_skipped st') =
      length vs + length (is_skipped st)"
proof (induction vs arbitrary: index st)
  case Nil
  then show ?case by simp
next
  case (Cons v vs)
  from Cons.prems(1) obtain st1 where one: "import_one env iid acc src now index v st = Inr st1"
    and rest: "import_all (import_one env iid acc src now) (Suc index) vs st1 = (st', None)"
    by (auto split: sum.splits)
  from one show ?case
  proof (cases rule: import_one_cases)
    case (skipped reason)
    then show ?thesis using Cons.IH [OF rest] Cons.prems(2) by (auto simp del: planned_entries.simps(2))
  next
    case (entered e i)
    have ne: "be_id e \<noteq> []"
      using entered(3,4) by (auto simp: upsert_bank_transaction_def new_bank_row_def Let_def split: if_splits)
    note known = known_identity [OF assms entered(2,3) ne, of "is_ledger st"]
    note up = upsert_identities [OF entered(4) Cons.prems(2)]
    show ?thesis
      by (cases "entry_identity e \<in> set (identities (is_ledger st))")
        (use Cons.IH [OF rest up(2)] up(1) entered(1,5-7) known in \<open>auto simp del: planned_entries.simps(2)\<close>)
  qed
qed

section \<open>Rows after an import\<close>

definition reopened :: "(string \<times> string) set \<Rightarrow> bank_ledger \<Rightarrow> bool" where
  "reopened ids L \<longleftrightarrow>
     (\<forall>(i, r) \<in> set (trows (bl_transactions L)). row_identity r \<in> ids \<longrightarrow>
        bt_reconciliation r = ''not_started'' \<and> bt_status r = ''imported'')"

lemma distinct_identities_row:
  assumes "distinct (identities L)" and "(i, r) \<in> set (trows (bl_transactions L))"
    and "(j, q) \<in> set (trows (bl_transactions L))" and "row_identity r = row_identity q"
  shows "i = j \<and> r = q"
proof -
  have "inj_on (\<lambda>ir. row_identity (snd ir)) (set (trows (bl_transactions L)))"
    using assms(1) by (simp add: identities_def distinct_map)
  from inj_onD [OF this, of "(i, r)" "(j, q)"] show ?thesis using assms(2-4) by simp
qed

lemma upsert_reopens:
  assumes "upsert_bank_transaction env iid now e L = Inr (L', i)" and "wf_table (bl_transactions L)"
    and "distinct (identities L)" and "reopened ids L"
  shows "reopened (insert (entry_identity e) ids) L'"
proof -
  let ?row = "new_bank_row env iid now e"
  have ident: "(bt_account ?row, bt_transaction ?row) = entry_identity e"
    using new_row_identity [of env iid now e] by (simp add: row_identity_def)
  have new: "bt_reconciliation ?row = ''not_started''" "bt_status ?row = ''imported''"
    by (simp_all add: new_bank_row_def)
  show ?thesis
  proof (cases "find_row (same_identity (bt_account ?row) (bt_transaction ?row)) (bl_transactions L)")
    case None
    then have "entry_identity e \<notin> set (identities L)" using find_identity_None ident by metis
    then have n: "row_identity q \<noteq> entry_identity e" if "(k, q) \<in> set (trows (bl_transactions L))" for k q
      using that by (force simp: identities_def)
    then show ?thesis using assms(1,4) None new
      by (auto simp: upsert_bank_transaction_def Let_def insert_row_def reopened_def split: if_splits)
  next
    case (Some jr)
    obtain j r where jr: "jr = (j, r)" by force
    with Some have mem: "(j, r) \<in> set (trows (bl_transactions L))" and id: "row_identity r = entry_identity e"
      using ident find_row_Some [OF Some [unfolded jr] assms(2)]
      by (auto simp: same_identity_row lookup_row_def dest: map_of_SomeD)
    have L': "L' = L\<lparr>bl_transactions := update_row j (overwrite_bank_row e ?row) (bl_transactions L)\<rparr>"
      using assms(1) Some jr by (auto simp: upsert_bank_transaction_def Let_def split: if_splits)
    have "bt_reconciliation q' = ''not_started'' \<and> bt_status q' = ''imported''"
      if q: "(k, q) \<in> set (trows (bl_transactions L))" "q' = (if k = j then overwrite_bank_row e ?row q else q)"
        "row_identity q' = entry_identity e \<or> row_identity q' \<in> ids" for k q q'
    proof (cases "k = j")
      case True
      then show ?thesis using q(2) new by (simp add: overwrite_bank_row_def)
    next
      case False
      then have "row_identity q \<noteq> entry_identity e"
        using distinct_identities_row [OF assms(3) q(1) mem] id by metis
      then show ?thesis using False q assms(4) by (auto simp: reopened_def)
    qed
    then show ?thesis by (fastforce simp: reopened_def L' update_row_def)
  qed
qed

lemma import_all_reopens:
  "import_all (import_one env iid acc src now) index vs st = (st', None) \<Longrightarrow>
    wf_table (bl_transactions (is_ledger st)) \<Longrightarrow> distinct (identities (is_ledger st)) \<Longrightarrow> reopened ids (is_ledger st) \<Longrightarrow>
    reopened (ids \<union> entry_identity ` set (planned_entries (le_py env) acc src vs (is_seen st))) (is_ledger st')"
proof (induction vs arbitrary: index st ids)
  case Nil
  then show ?case by simp
next
  case (Cons v vs)
  from Cons.prems(1) obtain st1 where one: "import_one env iid acc src now index v st = Inr st1"
    and rest: "import_all (import_one env iid acc src now) (Suc index) vs st1 = (st', None)"
    by (auto split: sum.splits)
  from one show ?case
  proof (cases rule: import_one_cases)
    case (skipped reason)
    then show ?thesis using Cons.IH [OF rest] Cons.prems(2-4) by (auto simp del: planned_entries.simps(2))
  next
    case (entered e i)
    note up = upsert_identities [OF entered(4) Cons.prems(2)]
    have "distinct (identities (is_ledger st1))" using up(1) Cons.prems(3) by simp
    from Cons.IH [OF rest up(2) this upsert_reopens [OF entered(4) Cons.prems(2-4)]]
    show ?thesis using entered(1) by (simp del: planned_entries.simps(2))
  qed
qed

section \<open>Properties\<close>

abbreviation plan_of :: "ledger_env \<Rightarrow> string \<Rightarrow> string \<Rightarrow> pyval list \<Rightarrow> bank_entry list" where
  "plan_of env account source txs \<equiv>
     planned_entries (le_py env) (import_account account) (import_source source) txs []"

lemma import_parts:
  assumes "import_transactions env txs account source filename fmt actor now L = (Inr r, L')"
  obtains iid st where "import_all (import_one env iid (import_account account) (import_source source) now) 0 txs
      (start_import (L\<lparr>bl_imports := fst (insert_row (running_import (import_source source) (import_account account)
         filename fmt (length txs)) (bl_imports L))\<rparr>)) = (st, None)"
    and "bl_transactions L' = bl_transactions (is_ledger st)" and "ir_imported r = is_imported st"
    and "ir_duplicates r = is_duplicates st" and "ir_skipped r = length (is_skipped st)"
  using assms by (auto simp: import_transactions_def Let_def insert_row_def finish_import_def audit_bank_def
      split: prod.splits option.splits)

lemma import_account_nonempty: "strip (import_account a) = import_account a \<Longrightarrow> import_account a \<noteq> []"
proof -
  have "strip a \<noteq> [] \<Longrightarrow> take 200 (strip a) \<noteq> []" by simp
  then show ?thesis by (auto simp: import_account_def Let_def)
qed

lemma import_effect:
  assumes "import_transactions env txs account source filename fmt actor now L = (Inr r, L')"
    and "wf_table (bl_transactions L)" and "strip (import_account account) = import_account account"
  shows "wf_table (bl_transactions L')"
    and "identities L' = add_new (identities L) (map entry_identity (plan_of env account source txs))"
    and "length (identities L') = length (identities L) + ir_imported r"
    and "ir_imported r + ir_duplicates r = length (plan_of env account source txs)"
    and "length (plan_of env account source txs) + ir_skipped r = length txs"
    and "distinct (identities L) \<Longrightarrow> reopened (entry_identity ` set (plan_of env account source txs)) L'"
proof -
  obtain iid st where i: "import_all (import_one env iid (import_account account) (import_source source) now) 0 txs
      (start_import (L\<lparr>bl_imports := fst (insert_row (running_import (import_source source) (import_account account)
         filename fmt (length txs)) (bl_imports L))\<rparr>)) = (st, None)"
    and f: "bl_transactions L' = bl_transactions (is_ledger st)" "ir_imported r = is_imported st"
      "ir_duplicates r = is_duplicates st" "ir_skipped r = length (is_skipped st)"
    using assms(1) by (rule import_parts)
  let ?L = "L\<lparr>bl_imports := fst (insert_row (running_import (import_source source) (import_account account)
         filename fmt (length txs)) (bl_imports L))\<rparr>"
  have same: "identities L' = identities (is_ledger st)" "identities ?L = identities L" using f by (simp_all add: identities_def)
  note spec = import_all_spec [OF assms(3) import_account_nonempty [OF assms(3)] i]
  show "wf_table (bl_transactions L')"
    "identities L' = add_new (identities L) (map entry_identity (plan_of env account source txs))"
    "length (identities L') = length (identities L) + ir_imported r"
    "ir_imported r + ir_duplicates r = length (plan_of env account source txs)"
    "length (plan_of env account source txs) + ir_skipped r = length txs"
    using spec assms(2) f same by (auto simp: start_import_def)
  assume "distinct (identities L)"
  then have "reopened (entry_identity ` set (plan_of env account source txs)) (is_ledger st)"
    using import_all_reopens [OF i, of "{}"] assms(2) same by (simp add: start_import_def reopened_def)
  then show "reopened (entry_identity ` set (plan_of env account source txs)) L'" by (simp add: reopened_def f(1))
qed

text \<open>
  C7: An import keeps one row per account and transaction id, inserts as many rows as it reports
  imported, and accounts for every transaction it was given.
\<close>

theorem import_keeps_identities_unique:
  assumes "import_transactions env txs account source filename fmt actor now L = (Inr r, L')"
    and "wf_table (bl_transactions L)" and "strip (import_account account) = import_account account"
    and "distinct (identities L)"
  shows "distinct (identities L') \<and> length (identities L') = length (identities L) + ir_imported r \<and>
    ir_imported r + ir_duplicates r + ir_skipped r = length txs \<and>
    set (identities L') = set (identities L) \<union> entry_identity ` set (plan_of env account source txs)"
  using import_effect [OF assms(1-3)] assms(4) by (simp add: distinct_add_new set_add_new)

definition demo_transaction :: pydict where
  "demo_transaction = [(''id'', PStr ''t1''), (''date'', PStr ''0024-02-03''), (''amount'', PInt 5)]"

lemma demo_fields:
  "lookup_fields demo_transaction = demo_transaction"
  "lookup_first demo_transaction DATE_NAMES = PStr ''0024-02-03''"
  "lookup_first demo_transaction DESCRIPTION_NAMES = PNone"
  "lookup_first demo_transaction COUNTERPARTY_NAMES = PNone"
  "lookup_first demo_transaction ID_NAMES = PStr ''t1''"
  "lookup_first demo_transaction [''currency'', ''ccy'', ''currencyCode'', ''currency_code'', ''valuta''] = PNone"
  "lookup_first demo_transaction [''amount'', ''transactionAmount'', ''transaction_amount'', ''bedrag'', ''value''] = PInt 5"
  "normalize_date plain_env (PStr ''0024-02-03'') = Some ''0024-02-03''"
  "strip ''t1'' = ''t1''" "strip ''EUR'' = ''EUR''" "strip ''default'' = ''default''" "strip [] = []"
  by code_simp+

lemma demo_entry:
  obtains e where "normalize_bank_transaction plain_env acc src demo_transaction = Inr e" and "be_id e = ''t1''"
    and "be_account e = acc" and "has_financial_signal e" and "\<not> be_generated e"
proof
  let ?e = "projr (normalize_bank_transaction plain_env acc src demo_transaction)"
  show "normalize_bank_transaction plain_env acc src demo_transaction = Inr ?e" "be_id ?e = ''t1''" "be_account ?e = acc"
    "has_financial_signal ?e" "\<not> be_generated ?e"
    by (simp_all add: normalize_bank_transaction_def Let_def demo_fields parse_amount_def parse_bank_number_def
        has_financial_signal_def is_blank_def)
qed

lemma demo_account: "import_account [] = ''default''" "strip (import_account []) = import_account []"
  by code_simp+

lemma demo_plan: "map entry_identity (plan_of plain_ledger_env [] [] [PDict demo_transaction]) = [(''default'', ''t1'')]"
proof -
  obtain e where e: "normalize_bank_transaction plain_env ''default'' (import_source []) demo_transaction = Inr e"
    "be_id e = ''t1''" "be_account e = ''default''" "has_financial_signal e" "\<not> be_generated e"
    by (rule demo_entry)
  have "le_py plain_ledger_env = plain_env" by (simp add: plain_ledger_env_def)
  then show ?thesis using e by (simp add: demo_account number_occurrence_def entry_identity_def demo_fields)
qed

abbreviation demo_bank_import :: "timestamp \<Rightarrow> bank_ledger \<Rightarrow> import_reply result \<times> bank_ledger" where
  "demo_bank_import \<equiv> import_transactions plain_ledger_env [PDict demo_transaction] [] [] None ''json'' ''me''"

lemma demo_import:
  assumes "wf_table (bl_transactions L)"
  obtains r L' where "demo_bank_import now L = (Inr r, L')"
proof -
  obtain e where e: "normalize_bank_transaction plain_env ''default'' (import_source []) demo_transaction = Inr e"
    "be_id e = ''t1''" "be_account e = ''default''" "has_financial_signal e" "\<not> be_generated e"
    by (rule demo_entry)
  have "bt_transaction (new_bank_row plain_ledger_env iid now e) = ''t1''" for iid
    by (simp add: new_bank_row_def e demo_fields)
  then have u: "\<exists>L' i. upsert_bank_transaction plain_ledger_env iid now e L2 = Inr (L', i)" for iid L2
    by (auto simp: upsert_bank_transaction_def Let_def insert_row_def split: option.split)
  have py: "le_py plain_ledger_env = plain_env" by (simp add: plain_ledger_env_def)
  have "\<exists>st'. import_one plain_ledger_env iid ''default'' (import_source []) now 0 (PDict demo_transaction) st = Inr st'" for iid st
  proof -
    obtain L' i where "upsert_bank_transaction plain_ledger_env iid now e (is_ledger st) = Inr (L', i)" using u by blast
    then show ?thesis using e by (simp add: import_one_def py number_occurrence_def Let_def)
  qed
  then have "snd (import_all (import_one plain_ledger_env iid ''default'' (import_source []) now) 0 [PDict demo_transaction] st) = None"
    for iid st
    by (auto split: sum.split) (metis sum.distinct(1))
  then have "\<exists>r. fst (demo_bank_import now L) = Inr r"
    by (auto simp add: import_transactions_def demo_account insert_row_def Let_def simp del: import_all.simps
        split: prod.splits option.splits) (metis option.distinct(1) snd_conv)
  then show thesis using that by (metis prod.collapse)
qed

definition empty_bank_ledger :: bank_ledger where
  "empty_bank_ledger =
     \<lparr>bl_core = empty_export_ledger, bl_imports = empty_table, bl_transactions = empty_table, bl_matches = empty_table\<rparr>"

lemma empty_bank_facts:
  "wf_table (bl_transactions empty_bank_ledger)" "distinct (identities empty_bank_ledger)" "identities empty_bank_ledger = []"
  by (simp_all add: empty_bank_ledger_def identities_def empty_table_def wf_empty_table [unfolded empty_table_def])

theorem import_keeps_identities_unique_witness:
  "\<exists>r L'. demo_bank_import (Timestamp 0) empty_bank_ledger = (Inr r, L') \<and>
     distinct (identities L') \<and> set (identities L') = {(''default'', ''t1'')} \<and> ir_imported r + ir_duplicates r + ir_skipped r = 1"
proof -
  obtain r L' where i: "demo_bank_import (Timestamp 0) empty_bank_ledger = (Inr r, L')"
    using demo_import [OF empty_bank_facts(1)] .
  have "entry_identity ` set (plan_of plain_ledger_env [] [] [PDict demo_transaction]) = {(''default'', ''t1'')}"
    using arg_cong [OF demo_plan, of set] by simp
  with import_keeps_identities_unique [OF i empty_bank_facts(1) demo_account(2) empty_bank_facts(2)] i empty_bank_facts(3)
  show ?thesis by auto
qed

text \<open>
  C9: Importing the same transactions into the same account a second time inserts nothing: each is
  recognised as the one imported before, equal ones without a reference included.
\<close>

theorem repeated_import_adds_nothing:
  assumes "import_transactions env txs account source filename fmt actor now L = (Inr r, L1)"
    and "import_transactions env txs account source filename' fmt' actor' now' L1 = (Inr r', L2)"
    and "wf_table (bl_transactions L)" and "strip (import_account account) = import_account account"
  shows "identities L2 = identities L1 \<and> ir_imported r' = 0 \<and>
    ir_duplicates r' = ir_imported r + ir_duplicates r \<and> ir_skipped r' = ir_skipped r"
proof -
  note one = import_effect [OF assms(1,3,4)]
  note two = import_effect [OF assms(2) one(1) assms(4)]
  have "set (map entry_identity (plan_of env account source txs)) \<subseteq> set (identities L1)"
    by (simp add: one(2) set_add_new)
  from add_known [OF this] have "identities L2 = identities L1" using two(2) by simp
  then show ?thesis using one(4,5) two(3-5) by simp
qed

theorem repeated_import_adds_nothing_witness:
  "\<exists>r L1 r' L2. demo_bank_import (Timestamp 0) empty_bank_ledger = (Inr r, L1) \<and>
     demo_bank_import (Timestamp 5) L1 = (Inr r', L2) \<and> identities L2 = identities L1 \<and> ir_imported r' = 0"
proof -
  obtain r L1 where i: "demo_bank_import (Timestamp 0) empty_bank_ledger = (Inr r, L1)"
    using demo_import [OF empty_bank_facts(1)] .
  from import_effect(1) [OF i empty_bank_facts(1) demo_account(2)]
  obtain r' L2 where j: "demo_bank_import (Timestamp 5) L1 = (Inr r', L2)" by (rule demo_import)
  from repeated_import_adds_nothing [OF i j empty_bank_facts(1) demo_account(2)] i j show ?thesis by auto
qed

text \<open>
  An import also sets back every transaction it mentions to not started, those included whose
  reconciliation was already approved.
\<close>

theorem import_reopens_reconciled_transactions:
  assumes "import_transactions env txs account source filename fmt actor now L = (Inr r, L')"
    and "wf_table (bl_transactions L)" and "strip (import_account account) = import_account account"
    and "distinct (identities L)" and "(i, row) \<in> set (trows (bl_transactions L'))"
    and "row_identity row \<in> entry_identity ` set (plan_of env account source txs)"
  shows "bt_reconciliation row = ''not_started'' \<and> bt_status row = ''imported''"
  using import_effect(6) [OF assms(1-4)] assms(5,6) by (auto simp: reopened_def)

definition reconciled_row :: bank_row where
  "reconciled_row =
     (new_bank_row plain_ledger_env 1 (Timestamp 0)
        \<lparr>be_account = ''default'', be_id = ''t1'', be_date = Some ''0024-02-03'', be_amount = Some (Num 5), be_currency = ''EUR'',
         be_description = None, be_counterparty = None, be_fingerprint = ''f'', be_source = ''s'', be_generated = False,
         be_metadata = []\<rparr>)\<lparr>bt_reconciliation := ''reconciled''\<rparr>"

theorem import_reopens_reconciled_transactions_witness:
  "\<exists>r L' i row. demo_bank_import (Timestamp 9) (empty_bank_ledger\<lparr>bl_transactions := \<lparr>trows = [(1, reconciled_row)], tlast = 1\<rparr>\<rparr>)
     = (Inr r, L') \<and> (i, row) \<in> set (trows (bl_transactions L')) \<and> row_identity row = row_identity reconciled_row \<and>
     bt_reconciliation reconciled_row = ''reconciled'' \<and> bt_reconciliation row = ''not_started''"
proof -
  let ?L = "empty_bank_ledger\<lparr>bl_transactions := \<lparr>trows = [(1, reconciled_row)], tlast = 1\<rparr>\<rparr>"
  have w: "wf_table (bl_transactions ?L)" "distinct (identities ?L)"
    by (simp_all add: wf_table_def identities_def)
  have id: "row_identity reconciled_row = (''default'', ''t1'')" "bt_reconciliation reconciled_row = ''reconciled''"
    by (simp_all add: reconciled_row_def row_identity_def new_bank_row_def demo_fields)
  obtain r L' where i: "demo_bank_import (Timestamp 9) ?L = (Inr r, L')" using demo_import [OF w(1)] .
  have p: "entry_identity ` set (plan_of plain_ledger_env [] [] [PDict demo_transaction]) = {(''default'', ''t1'')}"
    using arg_cong [OF demo_plan, of set] by simp
  have "row_identity reconciled_row \<in> set (identities L')"
    using import_effect(2) [OF i w(1) demo_account(2)] by (simp add: set_add_new identities_def)
  then obtain k row where row: "(k, row) \<in> set (trows (bl_transactions L'))" "row_identity row = row_identity reconciled_row"
    by (force simp: identities_def)
  have "row_identity row \<in> entry_identity ` set (plan_of plain_ledger_env [] [] [PDict demo_transaction])"
    using row(2) id(1) p by simp
  from import_reopens_reconciled_transactions [OF i w(1) demo_account(2) w(2) row(1) this] i row id(2)
  show ?thesis by blast
qed

text \<open>
  The list of transactions to reconcile is cut to the limit before the finished ones are taken
  out: when the newest ones are finished, older open ones are not offered.
\<close>

theorem old_open_transactions_are_not_offered:
  "\<exists>L. transactions_for_reconciliation 1 L = [] \<and>
     (\<exists>(i, r) \<in> set (trows (bl_transactions L)). bt_reconciliation r = ''not_started'')"
proof -
  let ?old = "reconciled_row\<lparr>bt_transaction := ''t0'', bt_date := Some ''0023-01-01'', bt_reconciliation := ''not_started''\<rparr>"
  let ?L = "empty_bank_ledger\<lparr>bl_transactions := \<lparr>trows = [(1, reconciled_row), (2, ?old)], tlast = 2\<rparr>\<rparr>"
  have "bt_date reconciled_row = Some ''0024-02-03''" "bt_reconciliation reconciled_row = ''reconciled''"
    by (simp_all add: reconciled_row_def new_bank_row_def)
  then have "transactions_for_reconciliation 1 ?L = []"
    by (simp add: transactions_for_reconciliation_def newest_transactions_def FINAL_BANK_STATUSES_def bounded_limit_def
        insort_key_def less_list_code)
  then show ?thesis by (intro exI [of _ ?L]) simp
qed

end
