(* ===== verification/Bank_Statements.thy ===== *)
theory Bank_Statements
  imports Bank_Ledger
begin

text \<open>
  The statement formats of src/operations/local_bank_transactions.py: MT940 lines, CAMT trees,
  the header check of CSV files and the dispatch on the format. The CSV reader with its
  dialect sniffer, \<open>json.loads\<close> and the XML parser are ports.
\<close>

section \<open>MT940\<close>

definition MT940_LINE :: rx where
  "MT940_LINE =
     seqs [literal '':61:'', Group ''date'' (exactly 6 digit_rx), opt (exactly 4 digit_rx), Group ''mark'' (any_of ''CD''),
       opt (Chars (in_range CHR ''A'' CHR ''Z'')),
       Group ''amount'' (plus_rx (Chars (\<lambda>c. is_digit c \<or> c = CHR '','' \<or> c = CHR ''.'')))]"

definition mt940_date :: "string \<Rightarrow> string" where
  "mt940_date s =
     (case (nat_of_str (take 2 s), nat_of_str (take 2 (drop 2 s)), nat_of_str (take 2 (drop 4 s))) of
        (Some y, Some m, Some d) \<Rightarrow>
          (case make_date ((if y < 80 then 2000 else 1900) + y) m d of None \<Rightarrow> s | Some x \<Rightarrow> isoformat x)
      | _ \<Rightarrow> s)"

definition mt940_id :: "py_env \<Rightarrow> nat \<Rightarrow> nat \<Rightarrow> string \<Rightarrow> string" where
  "mt940_id env len sequence line = ''mt940:'' @ str_of_nat sequence @ '':'' @ take len (sha256_hex env line)"

definition minus_abs :: "pyfloat \<Rightarrow> pyfloat" where
  "minus_abs f = (case f of Num r \<Rightarrow> Num (- \<bar>r\<bar>) | Infty _ \<Rightarrow> Infty False | NaN \<Rightarrow> NaN)"

definition parse_mt940_61 :: "py_env \<Rightarrow> string \<Rightarrow> nat \<Rightarrow> pydict" where
  "parse_mt940_61 env line sequence =
     (case rx_search MT940_LINE line of
        None \<Rightarrow> [(''transactionId'', PStr (mt940_id env 16 sequence line)), (''description'', PStr line)]
      | Some st \<Rightarrow>
          (let g = (\<lambda>n. case group_text st n of None \<Rightarrow> [] | Some t \<Rightarrow> t);
               amount = parse_bank_number env (PStr (g ''amount''))
           in [(''transactionId'', PStr (mt940_id env 12 sequence line)),
               (''transactionDate'', PStr (mt940_date (g ''date''))),
               (''amount'', opt_float (if g ''mark'' = ''D'' then map_option minus_abs amount else amount)),
               (''currency'', PStr ''EUR''), (''description'', PStr line)]))"

text \<open>\<open>text.splitlines()\<close>: a carriage return followed by a line feed is one line end.\<close>

definition line_end :: "char \<Rightarrow> bool" where
  "line_end c = (let n = of_char c :: nat in (10 \<le> n \<and> n \<le> 13) \<or> (28 \<le> n \<and> n \<le> 30))"

fun split_lines :: "string \<Rightarrow> string \<Rightarrow> string list" where
  "split_lines cur [] = (if cur = [] then [] else [rev cur])"
| "split_lines cur (c # cs) =
     (if (of_char c :: nat) = 13 \<and> cs \<noteq> [] \<and> (of_char (hd cs) :: nat) = 10 then split_lines cur cs
      else if line_end c then rev cur # split_lines [] cs
      else split_lines (c # cur) cs)"

definition begins :: "string \<Rightarrow> string \<Rightarrow> bool" where
  "begins p s \<longleftrightarrow> take (length p) s = p"

definition add_description :: "string \<Rightarrow> pydict \<Rightarrow> pydict" where
  "add_description t d =
     dset ''description'' (PStr (join_with '' '' (filter (\<lambda>x. x \<noteq> [])
       [case dget d ''description'' of PStr s \<Rightarrow> s | _ \<Rightarrow> [], t]))) d"

fun mt940_lines :: "py_env \<Rightarrow> string list \<Rightarrow> pydict list \<Rightarrow> pydict option \<Rightarrow> pydict list" where
  "mt940_lines env [] txs cur = (case cur of None \<Rightarrow> txs | Some d \<Rightarrow> txs @ [d])"
| "mt940_lines env (raw # raws) txs cur =
     (let line = strip raw in
      if begins '':61:'' line then
        (let txs' = (case cur of None \<Rightarrow> txs | Some d \<Rightarrow> txs @ [d])
         in mt940_lines env raws txs' (Some (parse_mt940_61 env line (length txs' + 1))))
      else
        (case cur of
           None \<Rightarrow> mt940_lines env raws txs None
         | Some d \<Rightarrow>
             if begins '':86:'' line then mt940_lines env raws txs (Some (add_description (strip (drop 4 line)) d))
             else if line \<noteq> [] \<and> \<not> begins '':'' line then mt940_lines env raws txs (Some (add_description line d))
             else mt940_lines env raws txs (Some d)))"

definition parse_mt940_transactions :: "py_env \<Rightarrow> string \<Rightarrow> pydict list" where
  "parse_mt940_transactions env t = mt940_lines env (split_lines [] t) [] None"

section \<open>CAMT\<close>

datatype xml = Xml (x_tag: string) (x_attributes: "(string \<times> string) list") (x_text: "string option") (x_children: "xml list")

text \<open>\<open>root.iter()\<close>: the element itself and its descendants in document order.\<close>

primrec elements :: "xml \<Rightarrow> xml list" where
  "elements (Xml tag attrs t children) = Xml tag attrs t children # concat (map elements children)"

definition local_name :: "string \<Rightarrow> string" where
  "local_name s = last (split_at CHR ''}'' s)"

definition iter_local :: "xml \<Rightarrow> string \<Rightarrow> xml list" where
  "iter_local tree name = filter (\<lambda>e. local_name (x_tag e) = name) (elements tree)"

definition first_local_text :: "xml \<Rightarrow> string \<Rightarrow> string option" where
  "first_local_text tree name =
     (case filter (\<lambda>e. x_text e \<noteq> None \<and> x_text e \<noteq> Some []) (iter_local tree name) of
        [] \<Rightarrow> None | e # _ \<Rightarrow> map_option strip (x_text e))"

definition first_local_attribute :: "xml \<Rightarrow> string \<Rightarrow> string \<Rightarrow> string option" where
  "first_local_attribute tree name attr =
     (case filter (\<lambda>v. v \<noteq> None \<and> v \<noteq> Some []) (map (\<lambda>e. map_of (x_attributes e) attr) (iter_local tree name)) of
        [] \<Rightarrow> None | v # _ \<Rightarrow> v)"

fun first_path_text :: "xml \<Rightarrow> string list \<Rightarrow> string option" where
  "first_path_text cur [] = (if x_text cur = Some [] then None else map_option strip (x_text cur))"
| "first_path_text cur (name # names) =
     (case find (\<lambda>c. local_name (x_tag c) = name) (x_children cur) of
        None \<Rightarrow> None | Some c \<Rightarrow> first_path_text c names)"

definition or_text :: "string option \<Rightarrow> string option \<Rightarrow> string option" where
  "or_text a b = (if a = None \<or> a = Some [] then b else a)"

definition upper_char :: "char \<Rightarrow> char" where
  "upper_char c = (let n = of_char c :: nat in if 97 \<le> n \<and> n \<le> 122 then char_of (n - 32) else c)"

definition camt_transaction :: "py_env \<Rightarrow> xml \<Rightarrow> pydict" where
  "camt_transaction env entry =
     (let amount = parse_bank_number env (opt_str (first_local_text entry ''Amt''));
          mark = map upper_char (case first_local_text entry ''CdtDbtInd'' of None \<Rightarrow> [] | Some s \<Rightarrow> s)
      in [(''transactionDate'', opt_str (or_text (first_path_text entry [''BookgDt'', ''Dt'']) (first_path_text entry [''ValDt'', ''Dt'']))),
          (''amount'', opt_float (if begins ''DBIT'' mark then map_option minus_abs amount else amount)),
          (''currency'', opt_str (or_text (first_local_attribute entry ''Amt'' ''Ccy'') (Some ''EUR''))),
          (''description'', opt_str (or_text (first_local_text entry ''Ustrd'') (first_local_text entry ''AddtlNtryInf''))),
          (''counterparty'', opt_str (first_local_text entry ''Nm'')),
          (''transactionId'', opt_str (or_text (first_local_text entry ''AcctSvcrRef'')
             (or_text (first_local_text entry ''NtryRef'') (first_local_text entry ''EndToEndId''))))])"

definition parse_camt_transactions :: "py_env \<Rightarrow> xml \<Rightarrow> pydict list" where
  "parse_camt_transactions env tree = map (camt_transaction env) (iter_local tree ''Ntry'')"

section \<open>The dispatch\<close>

record statement_ports =
  sp_json :: "string \<Rightarrow> pyval option" \<comment> \<open>\<open>json.loads\<close>, or None when it raises\<close>
  sp_csv :: "string \<Rightarrow> string list \<times> pydict list" \<comment> \<open>\<open>csv.DictReader\<close> with the sniffed dialect: header and rows\<close>
  sp_xml :: "string \<Rightarrow> xml option" \<comment> \<open>\<open>ElementTree.fromstring\<close>, or None when it raises\<close>

definition CSV_DATE_FIELDS :: "string list" where
  "CSV_DATE_FIELDS =
     [''transactiondate'', ''date'', ''datum'', ''bookingdate'', ''boekingsdatum'', ''booked'', ''valuedate'', ''valutadatum'']"

definition CSV_AMOUNT_FIELDS :: "string list" where
  "CSV_AMOUNT_FIELDS =
     [''amount'', ''transactionamount'', ''bedrag'', ''value'', ''debit'', ''af'', ''withdrawal'', ''credit'', ''bij'', ''deposit'']"

definition parse_csv_transactions :: "statement_ports \<Rightarrow> string \<Rightarrow> pydict list result" where
  "parse_csv_transactions ports t =
     (let (header, rows) = sp_csv ports t; keys = map field_key (filter (\<lambda>f. f \<noteq> []) header) in
      if keys = [] \<or> set keys \<inter> set CSV_DATE_FIELDS = {} \<or> set keys \<inter> set CSV_AMOUNT_FIELDS = {} then Inl ValueError
      else Inr (filter (\<lambda>r. r \<noteq> []) rows))"

definition MAX_BANK_STATEMENT_BYTES :: nat where
  "MAX_BANK_STATEMENT_BYTES = 4 * 1024 * 1024"

definition statement_transactions ::
  "py_env \<Rightarrow> statement_ports \<Rightarrow> string \<Rightarrow> string \<Rightarrow> (pyval list \<times> string) result" where
  "statement_transactions env ports t fmt =
     (let f = lower (strip (if fmt = [] then ''csv'' else fmt)) in
      if strip t = [] \<or> MAX_BANK_STATEMENT_BYTES < length t then Inl ValueError
      else if f = ''json'' then
        (case sp_json ports t of
           None \<Rightarrow> Inl ValueError
         | Some v \<Rightarrow>
             (case (case v of PDict d \<Rightarrow> py_or (dget d ''bankTransactions'') (py_or (dget d ''transactions'') (PList [])) | _ \<Rightarrow> v) of
                PList xs \<Rightarrow> Inr (xs, ''json'') | _ \<Rightarrow> Inl ValueError))
      else if f = ''csv'' then map_sum id (\<lambda>ds. (map PDict ds, ''csv'')) (parse_csv_transactions ports t)
      else if f \<in> {''camt'', ''xml'', ''camt.053'', ''camt053''} then
        (case sp_xml ports t of None \<Rightarrow> Inl ValueError | Some tree \<Rightarrow> Inr (map PDict (parse_camt_transactions env tree), ''camt''))
      else if f \<in> {''mt940'', ''sta''} then Inr (map PDict (parse_mt940_transactions env t), ''mt940'')
      else Inl ValueError)"

definition import_statement_text ::
  "ledger_env \<Rightarrow> statement_ports \<Rightarrow> string \<Rightarrow> string \<Rightarrow> string \<Rightarrow> string \<Rightarrow> string option \<Rightarrow> string \<Rightarrow> timestamp \<Rightarrow> bank_ledger \<Rightarrow>
   import_reply result \<times> bank_ledger" where
  "import_statement_text env ports t fmt account source filename actor now L =
     (case statement_transactions (le_py env) ports t fmt of
        Inl e \<Rightarrow> (Inl e, L)
      | Inr (txs, f) \<Rightarrow> import_transactions env txs account source filename f actor now L)"

section \<open>Facts\<close>

lemma colon_free_number: "CHR '':'' \<notin> set (str_of_nat n)"
proof
  assume "CHR '':'' \<in> set (str_of_nat n)"
  then have "char_digit CHR '':'' \<noteq> None" by (rule str_of_nat_digits)
  moreover have "char_digit CHR '':'' = None" by code_simp
  ultimately show False by simp
qed

lemma mt940_id_position: "mt940_id env k m line = mt940_id env k n line \<longleftrightarrow> m = n"
proof
  assume "mt940_id env k m line = mt940_id env k n line"
  then have "str_of_nat m @ CHR '':'' # take k (sha256_hex env line) = str_of_nat n @ CHR '':'' # take k (sha256_hex env line)"
    by (simp add: mt940_id_def)
  then have "takeWhile (\<lambda>c. c \<noteq> CHR '':'') (str_of_nat m @ CHR '':'' # take k (sha256_hex env line)) =
      takeWhile (\<lambda>c. c \<noteq> CHR '':'') (str_of_nat n @ CHR '':'' # take k (sha256_hex env line))"
    by simp
  moreover have "takeWhile (\<lambda>c. c \<noteq> CHR '':'') (str_of_nat j @ CHR '':'' # r) = str_of_nat j" for j r
    using colon_free_number [of j] by (auto simp: takeWhile_append)
  ultimately show "m = n" by simp
qed simp

text \<open>
  The identity of an MT940 line contains its position in the statement: the same line at another
  position, as in a statement that overlaps an earlier one, has another identity.
\<close>

theorem overlapping_statement_lines_are_new:
  "dget (parse_mt940_61 env line m) ''transactionId'' = dget (parse_mt940_61 env line n) ''transactionId'' \<longleftrightarrow> m = n"
  by (simp add: parse_mt940_61_def mt940_id_position Let_def split: option.split)

end
