(* ===== verification/Duplicates.thy ===== *)
theory Duplicates
  imports Reconcile Py_Regex
begin

text \<open>
  Detection of duplicate documents (src/document_handling/duplicate_detector.py): the identity
  evidence of a document with the reference numbers read from its fields or its OCR text, the
  fingerprint, the weighted similarity, and the pass over the existing documents. Amounts are
  read as in the reconciliation, whose reader the code repeats.
\<close>

section \<open>Normalised values\<close>

definition normalize_value :: "py_env \<Rightarrow> pyval \<Rightarrow> string" where
  "normalize_value env v =
     (if v = PNone then [] else join_with '' '' (words_of word_char [] (lower (py_str env v))))"

definition normalize_reference :: "py_env \<Rightarrow> pyval \<Rightarrow> string" where
  "normalize_reference env v =
     (let s = filter word_char (normalize_value env v)
      in if length s < 4 \<or> \<not> (\<exists>c \<in> set s. is_digit c) then [] else s)"

text \<open>\<open>f"{amount:.2f}"\<close> of a decimal: a tie to the even neighbour.\<close>

definition format_cents :: "pyfloat \<Rightarrow> string" where
  "format_cents f =
     (case f of
        Num r \<Rightarrow>
          (let n = nat \<bar>round_half_even (r * 100)\<bar>
           in (if r < 0 then ''-'' else []) @ str_of_nat (n div 100) @ ''.'' @ digits2 (n mod 100))
      | Infty b \<Rightarrow> (if b then ''Infinity'' else ''-Infinity'')
      | NaN \<Rightarrow> ''NaN'')"

definition normalize_amount :: "py_env \<Rightarrow> pyval \<Rightarrow> string" where
  "normalize_amount env v = (case read_amount env v of None \<Rightarrow> [] | Some a \<Rightarrow> format_cents a)"

section \<open>References in OCR text\<close>

definition alnum_i :: "char \<Rightarrow> bool" where
  "alnum_i c \<longleftrightarrow> word_char (lower_char c)"

definition reference_tail :: "rx list" where
  "reference_tail =
     [Star space_rx, opt (any_of '':#-''), Star space_rx,
      Group ''ref'' (Seq (Chars alnum_i) (at_least 3 (Chars (\<lambda>c. alnum_i c \<or> c = CHR ''-'' \<or> c = CHR ''/''))))]"

definition no_or_number :: rx where
  "no_or_number = Alt (literal_i ''no'') (literal_i ''number'')"

definition nr_or_nummer :: rx where
  "nr_or_nummer = Alt (literal_i ''nr'') (literal_i ''nummer'')"

definition OCR_REFERENCE_PATTERNS :: "(string \<times> rx list) list" where
  "OCR_REFERENCE_PATTERNS =
     [(''invoice_number'',
       [seqs ([WordEdge, literal_i ''invoice'', plus_rx space_rx, no_or_number, WordEdge] @ reference_tail),
        seqs ([WordEdge, literal_i ''factuurnummer'', WordEdge] @ reference_tail)]),
      (''receipt_number'',
       [seqs ([WordEdge, literal_i ''receipt'', opt (Seq (plus_rx space_rx) no_or_number), WordEdge] @ reference_tail),
        seqs ([WordEdge, Alt (literal_i ''bon'') (literal_i ''kassabon''), opt (Seq (Star space_rx) nr_or_nummer), WordEdge] @
          reference_tail)]),
      (''order_number'',
       [seqs ([WordEdge, literal_i ''order'', plus_rx space_rx, no_or_number, WordEdge] @ reference_tail),
        seqs ([WordEdge, Alt (literal_i ''order'') (literal_i ''bestel''),
          Alt (literal_i ''nummer'') (Seq (Star space_rx) nr_or_nummer), WordEdge] @ reference_tail)]),
      (''transaction_reference'',
       [seqs ([WordEdge, Alt (literal_i ''transactie'') (literal_i ''transaction''),
          opt (Seq (Star space_rx) (alts (map literal_i [''nr'', ''no'', ''number'', ''nummer'', ''id'']))),
          opt (one CHR ''.'')] @ reference_tail),
        seqs ([WordEdge, literal_i ''merchant'', plus_rx space_rx, literal_i ''ref'', opt (one CHR ''.'')] @ reference_tail)])]"

fun first_nonempty :: "string list \<Rightarrow> string" where
  "first_nonempty [] = []"
| "first_nonempty (s # ss) = (if s = [] then first_nonempty ss else s)"

definition ocr_reference :: "py_env \<Rightarrow> pyval \<Rightarrow> string \<Rightarrow> string" where
  "ocr_reference env t field =
     (let s = py_str env (py_or t (PStr [])) in
      first_nonempty (concat (map (\<lambda>r.
        map (\<lambda>(_, _, st). normalize_reference env (case group_text st ''ref'' of None \<Rightarrow> PNone | Some g \<Rightarrow> PStr g)) (rx_finditer r s))
        (case map_of OCR_REFERENCE_PATTERNS field of None \<Rightarrow> [] | Some rs \<Rightarrow> rs))))"

section \<open>Evidence\<close>

definition REFERENCE_FIELDS :: "string list" where
  "REFERENCE_FIELDS = [''invoice_number'', ''receipt_number'', ''order_number'', ''transaction_reference'']"

definition extracted_or_self :: "pydict \<Rightarrow> pydict" where
  "extracted_or_self doc = (case dget doc ''extracted_data'' of PDict d \<Rightarrow> d | _ \<Rightarrow> doc)"

definition posting_polarity :: "py_env \<Rightarrow> pydict \<Rightarrow> string" where
  "posting_polarity env doc =
     (let ex = as_dict (dget doc ''extracted_data'');
          v = py_or (dget doc ''document_type'') (py_or (dget doc ''type'')
                (py_or (dget ex ''document_type'') (dget ex ''type'')))
      in if map (\<lambda>c. if c = CHR '' '' then CHR ''_'' else c) (normalize_value env v) = ''credit_note''
         then ''credit'' else ''standard'')"

definition document_reference :: "py_env \<Rightarrow> pydict \<Rightarrow> string \<Rightarrow> string" where
  "document_reference env doc field =
     first_nonempty [normalize_reference env (dget (extracted_or_self doc) field), ocr_reference env (dget doc ''ocr_text'') field]"

definition transaction_reference :: "py_env \<Rightarrow> pydict \<Rightarrow> string" where
  "transaction_reference env doc =
     first_nonempty
       [normalize_reference env (py_or (dget (extracted_or_self doc) ''transaction_reference'') (dget doc ''transaction_reference'')),
        ocr_reference env (dget doc ''ocr_text'') ''transaction_reference'']"

definition primary_reference :: "py_env \<Rightarrow> pydict \<Rightarrow> string" where
  "primary_reference env doc =
     first_nonempty (map (document_reference env doc) [''invoice_number'', ''receipt_number'', ''order_number''])"

text \<open>The dictionary of \<open>_identity_evidence\<close> as a function of its keys.\<close>

type_synonym evidence = "string \<Rightarrow> string"

definition identity_evidence :: "py_env \<Rightarrow> pydict \<Rightarrow> evidence" where
  "identity_evidence env doc key =
     (let ex = extracted_or_self doc in
      if key = ''posting_polarity'' then posting_polarity env doc
      else if key = ''vendor'' then normalize_value env (py_or (dget ex ''vendor_name'') (dget doc ''vendor_name''))
      else if key = ''date'' then normalize_value env (py_or (dget ex ''transaction_date'') (dget ex ''date''))
      else if key = ''amount'' then normalize_amount env (py_or (dget ex ''total_amount'') (dget ex ''amount''))
      else if key = ''tax'' then normalize_amount env (py_or (dget ex ''vat_amount'') (dget ex ''taxes''))
      else if key = ''transaction_reference'' then transaction_reference env doc
      else if key \<in> {''invoice_number'', ''receipt_number'', ''order_number''} then document_reference env doc key
      else [])"

definition build_fingerprint :: "py_env \<Rightarrow> pydict \<Rightarrow> string" where
  "build_fingerprint env doc =
     (let e = identity_evidence env doc;
          filename = normalize_value env (py_or (py_or (dget doc ''original_filename'') (dget doc ''filename'')) (PStr []))
      in sha256_hex env (join_with ''|''
           [posting_polarity env doc, e ''vendor'', e ''date'', e ''amount'', e ''tax'', e ''invoice_number'',
            e ''receipt_number'', e ''order_number'', e ''transaction_reference'', filename]))"

definition references_conflict :: "string \<Rightarrow> string \<Rightarrow> bool" where
  "references_conflict a b \<longleftrightarrow> a \<noteq> b \<and> length a = length b"

definition identity_conflicts :: "evidence \<Rightarrow> evidence \<Rightarrow> string list" where
  "identity_conflicts a b = filter (\<lambda>f. a f \<noteq> [] \<and> b f \<noteq> [] \<and> references_conflict (a f) (b f)) REFERENCE_FIELDS"

definition agrees :: "evidence \<Rightarrow> evidence \<Rightarrow> string \<Rightarrow> bool" where
  "agrees a b f \<longleftrightarrow> a f \<noteq> [] \<and> a f = b f"

definition matching_identity_fields :: "evidence \<Rightarrow> evidence \<Rightarrow> string list" where
  "matching_identity_fields a b = filter (agrees a b) ([''vendor'', ''date'', ''amount'', ''tax''] @ REFERENCE_FIELDS)"

definition supports_exact_match :: "evidence \<Rightarrow> evidence \<Rightarrow> bool" where
  "supports_exact_match a b \<longleftrightarrow>
     a ''posting_polarity'' = b ''posting_polarity'' \<and>
     ((\<exists>f \<in> set REFERENCE_FIELDS. a f \<noteq> [] \<and> b f \<noteq> []) \<or>
      (\<forall>f \<in> set [''vendor'', ''date'', ''amount'']. a f \<noteq> [] \<and> b f \<noteq> []))"

definition exact_evidence_match :: "evidence \<Rightarrow> evidence \<Rightarrow> bool" where
  "exact_evidence_match a b \<longleftrightarrow>
     a ''posting_polarity'' = b ''posting_polarity'' \<and> identity_conflicts a b = [] \<and>
     (filter (agrees a b) REFERENCE_FIELDS \<noteq> [] \<and> 2 \<le> length (filter (agrees a b) [''vendor'', ''date'', ''amount'']) \<or>
      list_all (agrees a b) [''vendor'', ''date'', ''amount''])"

section \<open>Similarity\<close>

record detector =
  dt_threshold :: pyfloat
  dt_tolerance :: pyfloat

text \<open>NaN is below no bound: it is kept.\<close>

definition bounded_float :: "pyval \<Rightarrow> pyfloat \<Rightarrow> pyfloat \<Rightarrow> pyfloat option \<Rightarrow> pyfloat" where
  "bounded_float v dflt low high =
     (case to_float v of
        Inl _ \<Rightarrow> dflt
      | Inr f \<Rightarrow> if flt_less f low \<or> (case high of None \<Rightarrow> False | Some h \<Rightarrow> flt_less h f) then dflt else f)"

definition init_detector :: "pydict \<Rightarrow> detector" where
  "init_detector config =
     \<lparr>dt_threshold = bounded_float (dget_or config ''duplicate_similarity_threshold'' (PFloat (Num (9 / 10))))
        (Num (9 / 10)) (Num 0) (Some (Num 1)),
      dt_tolerance = bounded_float (dget_or config ''duplicate_amount_tolerance'' (PFloat (Num (2 / 100))))
        (Num (2 / 100)) (Num 0) None\<rparr>"

type_synonym comparisons = "(rat \<times> rat) list"

definition compare_text :: "py_env \<Rightarrow> pyval \<Rightarrow> pyval \<Rightarrow> rat \<Rightarrow> comparisons" where
  "compare_text env a b w =
     (let x = normalize_value env a; y = normalize_value env b
      in if x \<noteq> [] \<and> y \<noteq> [] then [(similarity x y, w)] else [])"

definition compare_exact :: "py_env \<Rightarrow> pyval \<Rightarrow> pyval \<Rightarrow> rat \<Rightarrow> comparisons" where
  "compare_exact env a b w =
     (let x = normalize_value env a; y = normalize_value env b
      in if x \<noteq> [] \<and> y \<noteq> [] then [(if x = y then 1 else 0, w)] else [])"

definition compare_amounts :: "py_env \<Rightarrow> detector \<Rightarrow> pyval \<Rightarrow> pyval \<Rightarrow> rat \<Rightarrow> comparisons result" where
  "compare_amounts env dt a b w =
     (case (read_amount env a, read_amount env b) of
        (Some x, Some y) \<Rightarrow>
          rbind (decimal_minus x y) (\<lambda>d.
          rbind (decimal_greater (decimal_abs d) (dt_tolerance dt)) (\<lambda>far.
            Inr [(if far then 0 else 1, w)]))
      | _ \<Rightarrow> Inr [])"

definition compare_references :: "py_env \<Rightarrow> string \<Rightarrow> string \<Rightarrow> rat \<Rightarrow> comparisons" where
  "compare_references env a b w =
     (let x = normalize_reference env (PStr a); y = normalize_reference env (PStr b)
      in if x = [] \<or> y = [] then [] else if x = y then [(1, w)] else if references_conflict x y then [(0, w)] else [])"

definition similarity_details :: "py_env \<Rightarrow> detector \<Rightarrow> pydict \<Rightarrow> pydict \<Rightarrow> (rat \<times> nat) result" where
  "similarity_details env dt a b =
     (let x = extracted_or_self a; y = extracted_or_self b in
      rbind (compare_amounts env dt (py_or (dget x ''total_amount'') (dget x ''amount''))
               (py_or (dget y ''total_amount'') (dget y ''amount'')) (30 / 100)) (\<lambda>amounts.
        (let cs =
           compare_text env (py_or (dget x ''vendor_name'') (dget a ''vendor_name''))
             (py_or (dget y ''vendor_name'') (dget b ''vendor_name'')) (30 / 100) @
           compare_exact env (py_or (dget x ''transaction_date'') (dget x ''date''))
             (py_or (dget y ''transaction_date'') (dget y ''date'')) (25 / 100) @
           amounts @
           compare_references env (primary_reference env a) (primary_reference env b) (35 / 100) @
           compare_references env (transaction_reference env a) (transaction_reference env b) (40 / 100) @
           compare_text env (dget a ''ocr_text'') (dget b ''ocr_text'') (15 / 100);
           weight = sum_list (map snd cs)
         in Inr (if weight = 0 then (0, 0)
                 else (max 0 (min 1 (sum_list (map (\<lambda>(s, w). s * w) cs) / weight)), length cs)))))"

section \<open>The pass\<close>

record duplicate_result =
  du_duplicate :: bool
  du_score :: rat
  du_reason :: string
  du_matched :: pyval
  du_fields :: "string list"
  du_conflicts :: "(pyval \<times> string list) list"
  du_fingerprint :: "string option"

definition document_key :: "pydict \<Rightarrow> pyval" where
  "document_key doc = py_or (dget doc ''document_id'') (dget doc ''id'')"

definition found_duplicate :: "py_env \<Rightarrow> string \<Rightarrow> rat \<Rightarrow> pydict \<Rightarrow> pydict \<Rightarrow> duplicate_result" where
  "found_duplicate env reason score doc existing =
     \<lparr>du_duplicate = True, du_score = score, du_reason = reason, du_matched = document_key existing,
      du_fields = matching_identity_fields (identity_evidence env doc) (identity_evidence env existing), du_conflicts = [],
      du_fingerprint = None\<rparr>"

definition exact_match :: "py_env \<Rightarrow> pydict \<Rightarrow> pydict \<Rightarrow> bool" where
  "exact_match env doc existing \<longleftrightarrow>
     (let a = identity_evidence env doc; b = identity_evidence env existing; fp = build_fingerprint env doc
      in exact_evidence_match a b \<or>
         supports_exact_match a b \<and>
         (dget existing ''duplicate_fingerprint'' = PStr fp \<or> fp = build_fingerprint env existing))"

fun scan_duplicates ::
  "py_env \<Rightarrow> detector \<Rightarrow> pydict \<Rightarrow> pydict list \<Rightarrow> (pyval \<times> string list) list \<Rightarrow> duplicate_result result" where
  "scan_duplicates env dt doc [] conflicts =
     Inr \<lparr>du_duplicate = False, du_score = 0, du_reason = ''no_duplicate_found'', du_matched = PNone, du_fields = [],
          du_conflicts = take 10 conflicts, du_fingerprint = Some (build_fingerprint env doc)\<rparr>"
| "scan_duplicates env dt doc (existing # rest) conflicts =
     (if posting_polarity env doc \<noteq> posting_polarity env existing then scan_duplicates env dt doc rest conflicts
      else
        (let fs = identity_conflicts (identity_evidence env doc) (identity_evidence env existing) in
         if fs \<noteq> [] then scan_duplicates env dt doc rest (conflicts @ [(document_key existing, fs)])
         else if exact_match env doc existing then Inr (found_duplicate env ''exact_fingerprint_match'' 1 doc existing)
         else
           rbind (similarity_details env dt doc existing) (\<lambda>(score, comparable).
             if 3 \<le> comparable \<and> flt_le (dt_threshold dt) (Num score)
             then Inr (found_duplicate env ''fuzzy_document_match'' (round_score score) doc existing)
             else scan_duplicates env dt doc rest conflicts)))"

definition is_duplicate :: "py_env \<Rightarrow> detector \<Rightarrow> pydict \<Rightarrow> pydict list \<Rightarrow> duplicate_result result" where
  "is_duplicate env dt doc existing = scan_duplicates env dt doc existing []"

definition annotate :: "py_env \<Rightarrow> pydict \<Rightarrow> pydict" where
  "annotate env doc = dset ''duplicate_fingerprint'' (PStr (build_fingerprint env doc)) doc"

record evidence_comparison =
  ec_left :: evidence
  ec_right :: evidence
  ec_matched :: "string list"
  ec_conflicting :: "string list"
  ec_score :: rat
  ec_comparable :: nat

definition compare_identity_evidence :: "py_env \<Rightarrow> detector \<Rightarrow> pydict \<Rightarrow> pydict \<Rightarrow> evidence_comparison result" where
  "compare_identity_evidence env dt left right =
     (let a = identity_evidence env left; b = identity_evidence env right in
      map_sum id (\<lambda>(score, comparable).
        \<lparr>ec_left = a, ec_right = b, ec_matched = matching_identity_fields a b, ec_conflicting = identity_conflicts a b,
         ec_score = round_score score, ec_comparable = comparable\<rparr>)
        (similarity_details env dt left right))"

end
