(* ===== verification/Duplicate_Properties.thy ===== *)
theory Duplicate_Properties
  imports Duplicates
begin

text \<open>
  What the duplicate detector guarantees about the document it names, which resubmissions it
  cannot miss, and which different documents it takes for one.
\<close>

lemma scan_duplicates_found:
  "scan_duplicates env dt doc docs conflicts = Inr r \<Longrightarrow> du_duplicate r \<Longrightarrow>
     \<exists>old \<in> set docs. posting_polarity env doc = posting_polarity env old \<and>
       identity_conflicts (identity_evidence env doc) (identity_evidence env old) = [] \<and> du_matched r = document_key old \<and>
       (exact_match env doc old \<and> du_reason r = ''exact_fingerprint_match'' \<or>
        (\<exists>score n. similarity_details env dt doc old = Inr (score, n) \<and> 3 \<le> n \<and> flt_le (dt_threshold dt) (Num score) \<and>
           du_reason r = ''fuzzy_document_match''))"
proof (induction docs arbitrary: conflicts)
  case Nil
  then show ?case by auto
next
  case (Cons d ds)
  let ?goal = "\<lambda>old. posting_polarity env doc = posting_polarity env old \<and>
       identity_conflicts (identity_evidence env doc) (identity_evidence env old) = [] \<and> du_matched r = document_key old \<and>
       (exact_match env doc old \<and> du_reason r = ''exact_fingerprint_match'' \<or>
        (\<exists>score n. similarity_details env dt doc old = Inr (score, n) \<and> 3 \<le> n \<and> flt_le (dt_threshold dt) (Num score) \<and>
           du_reason r = ''fuzzy_document_match''))"
  show ?case
  proof (cases "posting_polarity env doc = posting_polarity env d \<and>
      identity_conflicts (identity_evidence env doc) (identity_evidence env d) = []")
    case False
    then obtain c where "scan_duplicates env dt doc ds c = Inr r"
      using Cons.prems(1) by (cases "posting_polarity env doc = posting_polarity env d") (auto simp: Let_def)
    from Cons.IH [OF this Cons.prems(2)] show ?thesis by auto
  next
    case same: True
    show ?thesis
    proof (cases "exact_match env doc d")
      case True
      then have "r = found_duplicate env ''exact_fingerprint_match'' 1 doc d" using Cons.prems(1) same by simp
      then have "?goal d" using same True by (auto simp: found_duplicate_def)
      then show ?thesis by auto
    next
      case False
      then obtain score n where sim: "similarity_details env dt doc d = Inr (score, n)"
          and r: "(if 3 \<le> n \<and> flt_le (dt_threshold dt) (Num score)
             then Inr (found_duplicate env ''fuzzy_document_match'' (round_score score) doc d)
             else scan_duplicates env dt doc ds conflicts) = Inr r"
        using Cons.prems(1) same by (cases "similarity_details env dt doc d") auto
      show ?thesis
      proof (cases "3 \<le> n \<and> flt_le (dt_threshold dt) (Num score)")
        case True
        then have "r = found_duplicate env ''fuzzy_document_match'' (round_score score) doc d" using r by simp
        then have "?goal d" using same sim True by (auto simp: found_duplicate_def)
        then show ?thesis by auto
      next
        case False
        then have "scan_duplicates env dt doc ds conflicts = Inr r" using r by (simp only: if_False)
        from Cons.IH [OF this Cons.prems(2)] show ?thesis by auto
      qed
    qed
  qed
qed

text \<open>
  C20: The document named as the original is one of the documents compared, books in the same
  direction, contradicts none of the reference numbers, and either matches exactly or has three
  comparable fields and a similarity at the threshold.
\<close>

theorem named_original_agrees:
  assumes "is_duplicate env dt doc docs = Inr r" and "du_duplicate r"
  shows "\<exists>old \<in> set docs. du_matched r = document_key old \<and> posting_polarity env doc = posting_polarity env old \<and>
     list_all (\<lambda>f. identity_evidence env doc f = [] \<or> identity_evidence env old f = [] \<or>
        identity_evidence env doc f = identity_evidence env old f \<or>
        length (identity_evidence env doc f) \<noteq> length (identity_evidence env old f)) REFERENCE_FIELDS \<and>
     (exact_match env doc old \<or>
      (\<exists>score n. similarity_details env dt doc old = Inr (score, n) \<and> 3 \<le> n \<and> flt_le (dt_threshold dt) (Num score)))"
proof -
  obtain old where old: "old \<in> set docs" "du_matched r = document_key old"
      "posting_polarity env doc = posting_polarity env old"
      "identity_conflicts (identity_evidence env doc) (identity_evidence env old) = []"
      "exact_match env doc old \<or>
       (\<exists>score n. similarity_details env dt doc old = Inr (score, n) \<and> 3 \<le> n \<and> flt_le (dt_threshold dt) (Num score))"
    using scan_duplicates_found [OF assms(1) [unfolded is_duplicate_def] assms(2)] by blast
  have "list_all (\<lambda>f. identity_evidence env doc f = [] \<or> identity_evidence env old f = [] \<or>
        identity_evidence env doc f = identity_evidence env old f \<or>
        length (identity_evidence env doc f) \<noteq> length (identity_evidence env old f)) REFERENCE_FIELDS"
    using old(4) by (auto simp: identity_conflicts_def filter_empty_conv list_all_iff references_conflict_def)
  with old show ?thesis by blast
qed

lemma scan_duplicates_complete:
  "old \<in> set docs \<Longrightarrow> posting_polarity env doc = posting_polarity env old \<Longrightarrow>
   identity_conflicts (identity_evidence env doc) (identity_evidence env old) = [] \<Longrightarrow> exact_match env doc old \<Longrightarrow>
   scan_duplicates env dt doc docs conflicts = Inr r \<Longrightarrow> du_duplicate r"
proof (induction docs arbitrary: conflicts)
  case (Cons d ds)
  show ?case
  proof (cases "old = d")
    case True
    then show ?thesis using Cons.prems by (auto simp: found_duplicate_def)
  next
    case False
    then have "old \<in> set ds" using Cons.prems(1) by simp
    note ih = Cons.IH [OF this Cons.prems(2-4)]
    show ?thesis
    proof (cases "posting_polarity env doc \<noteq> posting_polarity env d \<or>
        identity_conflicts (identity_evidence env doc) (identity_evidence env d) \<noteq> [] \<or> exact_match env doc d")
      case True
      then show ?thesis using Cons.prems(5) ih
        by (cases "posting_polarity env doc = posting_polarity env d") (auto simp: Let_def found_duplicate_def split: if_splits)
    next
      case False
      then obtain score n where sim: "similarity_details env dt doc d = Inr (score, n)"
          and r: "(if 3 \<le> n \<and> flt_le (dt_threshold dt) (Num score)
             then Inr (found_duplicate env ''fuzzy_document_match'' (round_score score) doc d)
             else scan_duplicates env dt doc ds conflicts) = Inr r"
        using Cons.prems(5) by (cases "similarity_details env dt doc d") auto
      then show ?thesis using ih by (auto simp: found_duplicate_def split: if_split_asm)
    qed
  qed
qed simp

text \<open>
  C19: A document that agrees with an earlier one in vendor, date and amount, books in the same
  direction and contradicts none of its reference numbers is always found to be a duplicate.
\<close>

theorem resubmission_is_found:
  assumes "is_duplicate env dt doc docs = Inr r" and "old \<in> set docs"
    and "posting_polarity env doc = posting_polarity env old"
    and "identity_conflicts (identity_evidence env doc) (identity_evidence env old) = []"
    and "list_all (agrees (identity_evidence env doc) (identity_evidence env old)) [''vendor'', ''date'', ''amount'']"
  shows "du_duplicate r"
proof (rule scan_duplicates_complete [OF assms(2-4)])
  have "identity_evidence env doc ''posting_polarity'' = identity_evidence env old ''posting_polarity''"
    using assms(3) by (simp add: identity_evidence_def)
  then show "exact_match env doc old" using assms(4,5) by (auto simp: exact_match_def exact_evidence_match_def Let_def)
  show "scan_duplicates env dt doc docs [] = Inr r" using assms(1) by (simp add: is_duplicate_def)
qed

definition receipt_copy :: "string \<Rightarrow> pydict" where
  "receipt_copy reference =
     [(''vendor_name'', PStr ''Shop''), (''transaction_date'', PStr ''2024-02-03''), (''total_amount'', PInt 5),
      (''receipt_number'', PStr reference)]"

definition detector_defaults :: detector where
  "detector_defaults = \<lparr>dt_threshold = Num (9 / 10), dt_tolerance = Num (2 / 100)\<rparr>"

lemma default_detector: "init_detector [] = detector_defaults"
  by (simp add: init_detector_def bounded_float_def detector_defaults_def)

lemma receipt_evidence:
  "identity_evidence plain_env (receipt_copy t) ''vendor'' = ''shop''"
  "identity_evidence plain_env (receipt_copy t) ''date'' = ''2024 02 03''"
  "identity_evidence plain_env (receipt_copy t) ''amount'' = ''5.00''"
  "posting_polarity plain_env (receipt_copy t) = ''standard''"
proof -
  have n: "normalize_value plain_env (PStr ''Shop'') = ''shop''"
    "normalize_value plain_env (PStr ''2024-02-03'') = ''2024 02 03''" "normalize_amount plain_env (PInt 5) = ''5.00''"
    "normalize_value plain_env PNone = []"
    by code_simp+
  show "identity_evidence plain_env (receipt_copy t) ''vendor'' = ''shop''"
    "identity_evidence plain_env (receipt_copy t) ''date'' = ''2024 02 03''"
    "identity_evidence plain_env (receipt_copy t) ''amount'' = ''5.00''"
    "posting_polarity plain_env (receipt_copy t) = ''standard''"
    using n by (simp_all add: identity_evidence_def receipt_copy_def extracted_or_self_def posting_polarity_def)
qed

text \<open>Every expression for a reference starts at a word edge, of which the empty text has none.\<close>

lemma no_edge_in_empty_text: "rx_finditer (seqs (WordEdge # rs)) [] = []"
  by (simp add: rx_finditer_def seqs_def first_run_def word_char_at_def first_char_def)

lemma ocr_patterns_start_at_edges:
  "map_of OCR_REFERENCE_PATTERNS f = Some rs \<Longrightarrow> r \<in> set rs \<Longrightarrow> \<exists>qs. r = seqs (WordEdge # qs)"
  by (auto simp: OCR_REFERENCE_PATTERNS_def split: if_splits)

lemma no_ocr_reference: "ocr_reference plain_env PNone f = []"
proof -
  have t: "py_str plain_env (py_or PNone (PStr [])) = []" by code_simp
  show ?thesis
  proof (cases "map_of OCR_REFERENCE_PATTERNS f")
    case (Some rs)
    have "\<forall>r \<in> set rs. rx_finditer r [] = []"
      using ocr_patterns_start_at_edges [OF Some] no_edge_in_empty_text by blast
    then have "map (\<lambda>r. map (\<lambda>(_, _, st). normalize_reference plain_env
          (case group_text st ''ref'' of None \<Rightarrow> PNone | Some g \<Rightarrow> PStr g)) (rx_finditer r [])) rs = map (\<lambda>_. []) rs"
      by simp
    then show ?thesis by (simp add: ocr_reference_def t Some Let_def map_replicate_const)
  qed (simp add: ocr_reference_def)
qed

lemma receipt_references:
  "document_reference plain_env (receipt_copy t) ''receipt_number'' = normalize_reference plain_env (PStr t)"
  "f \<in> {''invoice_number'', ''order_number''} \<Longrightarrow> document_reference plain_env (receipt_copy t) f = []"
  "transaction_reference plain_env (receipt_copy t) = []"
proof -
  have n: "normalize_reference plain_env PNone = []" by code_simp
  show "document_reference plain_env (receipt_copy t) ''receipt_number'' = normalize_reference plain_env (PStr t)"
    "f \<in> {''invoice_number'', ''order_number''} \<Longrightarrow> document_reference plain_env (receipt_copy t) f = []"
    "transaction_reference plain_env (receipt_copy t) = []"
    by (auto simp: document_reference_def transaction_reference_def receipt_copy_def extracted_or_self_def
        no_ocr_reference n py_or_def)
qed

lemma receipt_conflicts:
  "identity_conflicts (identity_evidence plain_env (receipt_copy s)) (identity_evidence plain_env (receipt_copy t)) =
     filter (\<lambda>_. normalize_reference plain_env (PStr s) \<noteq> [] \<and> normalize_reference plain_env (PStr t) \<noteq> [] \<and>
       references_conflict (normalize_reference plain_env (PStr s)) (normalize_reference plain_env (PStr t))) [''receipt_number'']"
  by (simp add: identity_conflicts_def REFERENCE_FIELDS_def identity_evidence_def receipt_references Let_def)

lemma receipts_agree:
  "list_all (agrees (identity_evidence plain_env (receipt_copy s)) (identity_evidence plain_env (receipt_copy t)))
     [''vendor'', ''date'', ''amount'']"
  by (simp add: agrees_def receipt_evidence)

lemma receipt_exact_match:
  assumes "identity_conflicts (identity_evidence plain_env (receipt_copy s)) (identity_evidence plain_env (receipt_copy t)) = []"
  shows "exact_match plain_env (receipt_copy s) (receipt_copy t)"
  using assms receipts_agree [of s t] receipt_evidence(4)
  by (simp add: exact_match_def exact_evidence_match_def identity_evidence_def [of _ _ "''posting_polarity''"] Let_def)

lemma receipts_scanned:
  assumes "identity_conflicts (identity_evidence plain_env (receipt_copy s)) (identity_evidence plain_env (receipt_copy t)) = []"
  shows "is_duplicate plain_env dt (receipt_copy s) [receipt_copy t] =
    Inr (found_duplicate plain_env ''exact_fingerprint_match'' 1 (receipt_copy s) (receipt_copy t))"
  using assms receipt_exact_match [OF assms] by (simp add: is_duplicate_def receipt_evidence)

lemma receipt_reference_texts:
  "normalize_reference plain_env (PStr ''A-1234'') = ''a1234''"
  "normalize_reference plain_env (PStr ''99-887766'') = ''99887766''"
  "normalize_reference plain_env (PStr ''A-5678'') = ''a5678''"
  by code_simp+

theorem resubmission_is_found_witness:
  "du_duplicate (found_duplicate plain_env ''exact_fingerprint_match'' 1 (receipt_copy ''A-1234'') (receipt_copy ''A-1234''))"
proof (rule resubmission_is_found)
  show "is_duplicate plain_env detector_defaults (receipt_copy ''A-1234'') [receipt_copy ''A-1234''] =
      Inr (found_duplicate plain_env ''exact_fingerprint_match'' 1 (receipt_copy ''A-1234'') (receipt_copy ''A-1234''))"
    by (rule receipts_scanned) (simp add: receipt_conflicts references_conflict_def)
  show "receipt_copy ''A-1234'' \<in> set [receipt_copy ''A-1234'']" by simp
  show "identity_conflicts (identity_evidence plain_env (receipt_copy ''A-1234''))
      (identity_evidence plain_env (receipt_copy ''A-1234'')) = []"
    by (simp add: receipt_conflicts references_conflict_def)
qed (rule receipts_agree refl)+

theorem named_original_agrees_witness:
  "\<exists>old \<in> set [receipt_copy ''A-1234'']. document_key (receipt_copy ''A-1234'') = document_key old"
proof -
  let ?d = "receipt_copy ''A-1234''"
  have "is_duplicate plain_env detector_defaults ?d [?d] = Inr (found_duplicate plain_env ''exact_fingerprint_match'' 1 ?d ?d)"
    by (rule receipts_scanned) (simp add: receipt_conflicts references_conflict_def)
  from named_original_agrees [OF this] show ?thesis by (auto simp: found_duplicate_def)
qed

text \<open>
  Two receipts of one shop, day and amount with the unrelated numbers A-1234 and 99-887766 are
  taken for one document, because numbers of different lengths never contradict each other; with
  the numbers A-1234 and A-5678 of one length they are kept apart.
\<close>

theorem unrelated_numbers_do_not_conflict:
  "(\<exists>r. is_duplicate plain_env detector_defaults (receipt_copy ''A-1234'') [receipt_copy ''99-887766''] = Inr r \<and>
      du_duplicate r \<and> du_reason r = ''exact_fingerprint_match'') \<and>
   (\<exists>r. is_duplicate plain_env detector_defaults (receipt_copy ''A-1234'') [receipt_copy ''A-5678''] = Inr r \<and>
      \<not> du_duplicate r \<and> du_conflicts r = [(PNone, [''receipt_number''])])"
proof
  show "\<exists>r. is_duplicate plain_env detector_defaults (receipt_copy ''A-1234'') [receipt_copy ''99-887766''] = Inr r \<and>
      du_duplicate r \<and> du_reason r = ''exact_fingerprint_match''"
    by (subst receipts_scanned) (simp_all add: receipt_conflicts receipt_reference_texts references_conflict_def found_duplicate_def)
  have "document_key (receipt_copy t) = PNone" for t by (simp add: document_key_def receipt_copy_def py_or_def)
  then show "\<exists>r. is_duplicate plain_env detector_defaults (receipt_copy ''A-1234'') [receipt_copy ''A-5678''] = Inr r \<and>
      \<not> du_duplicate r \<and> du_conflicts r = [(PNone, [''receipt_number''])]"
    by (simp add: is_duplicate_def receipt_evidence receipt_conflicts receipt_reference_texts references_conflict_def)
qed

text \<open>
  A threshold or tolerance that is not a number passes the bounds check: with such a threshold no
  similarity is enough.
\<close>

theorem undefined_threshold_is_kept:
  "dt_threshold (init_detector [(''duplicate_similarity_threshold'', PFloat NaN)]) = NaN \<and>
   \<not> flt_le (dt_threshold (init_detector [(''duplicate_similarity_threshold'', PFloat NaN)])) (Num score)"
  by (simp add: init_detector_def bounded_float_def)

end
