(* ===== verification/Book_Lines.thy ===== *)
theory Book_Lines
  imports Record_Checks
begin

text \<open>
  Line items of bookkeeping records (src/operations/local_bookkeeping_records.py): reading of
  numbers, normalisation of one extracted item, the choice between the extracted items and the
  document total, and the export readiness. A number is absent (None) or a Python float.
\<close>

section \<open>Arithmetic of floats\<close>

fun pf_neg :: "pyfloat \<Rightarrow> pyfloat" where
  "pf_neg (Num r) = Num (- r)"
| "pf_neg (Infty b) = Infty (\<not> b)"
| "pf_neg NaN = NaN"

fun pf_plus :: "pyfloat \<Rightarrow> pyfloat \<Rightarrow> pyfloat" where
  "pf_plus (Num r) (Num s) = Num (r + s)"
| "pf_plus (Num _) y = y"
| "pf_plus (Infty b) (Infty c) = (if b = c then Infty b else NaN)"
| "pf_plus (Infty b) (Num _) = Infty b"
| "pf_plus _ _ = NaN"

definition pf_minus :: "pyfloat \<Rightarrow> pyfloat \<Rightarrow> pyfloat" where
  "pf_minus a b = pf_plus a (pf_neg b)"

text \<open>The sign of an infinite product or quotient; zero times infinity is NaN.\<close>

fun pf_times :: "pyfloat \<Rightarrow> pyfloat \<Rightarrow> pyfloat" where
  "pf_times (Num r) (Num s) = Num (r * s)"
| "pf_times (Num r) (Infty b) = (if r = 0 then NaN else Infty ((0 < r) = b))"
| "pf_times (Infty b) (Num r) = (if r = 0 then NaN else Infty ((0 < r) = b))"
| "pf_times (Infty b) (Infty c) = Infty (b = c)"
| "pf_times _ _ = NaN"

text \<open>Division by a number that is not zero.\<close>

fun pf_over :: "pyfloat \<Rightarrow> pyfloat \<Rightarrow> pyfloat" where
  "pf_over (Num r) (Num s) = Num (r / s)"
| "pf_over (Num _) (Infty _) = Num 0"
| "pf_over (Infty b) (Num s) = Infty ((0 < s) = b)"
| "pf_over _ _ = NaN"

fun pf_abs :: "pyfloat \<Rightarrow> pyfloat" where
  "pf_abs (Num r) = Num \<bar>r\<bar>"
| "pf_abs (Infty _) = Infty True"
| "pf_abs NaN = NaN"

fun round2 :: "pyfloat \<Rightarrow> pyfloat" where
  "round2 (Num r) = Num (of_int (round_half_even (r * 100)) / 100)"
| "round2 x = x"

definition pf_sum :: "pyfloat list \<Rightarrow> pyfloat" where
  "pf_sum xs = foldl pf_plus (Num 0) xs"

text \<open>\<open>value not in (None, 0)\<close>\<close>

definition nonzero :: "pyfloat option \<Rightarrow> bool" where
  "nonzero v = (case v of None \<Rightarrow> False | Some f \<Rightarrow> \<not> flt_eq f (Num 0))"

section \<open>Reading values\<close>

fun first_present :: "pyval list \<Rightarrow> pyval" where
  "first_present [] = PNone"
| "first_present (v # vs) = (if is_blank v then first_present vs else v)"

text \<open>\<open>float(str(value).replace(",", "."))\<close>; the text of a flag or a container is no number.\<close>

fun book_float :: "pyval \<Rightarrow> pyfloat option" where
  "book_float (PInt i) = Some (Num (of_int i))"
| "book_float (PFloat f) = Some f"
| "book_float (PStr s) =
     (if s = [] then None else parse_float (map (\<lambda>c. if c = CHR '','' then CHR ''.'' else c) s))"
| "book_float _ = None"

definition blank_text :: "py_env \<Rightarrow> pyval \<Rightarrow> bool" where
  "blank_text env v \<longleftrightarrow> v = PNone \<or> strip (py_str env v) = []"

definition posting_amount :: "pyfloat option \<Rightarrow> string \<Rightarrow> pyfloat option" where
  "posting_amount v kind =
     (case v of None \<Rightarrow> None | Some f \<Rightarrow> Some (if kind = ''credit_note'' then pf_neg (pf_abs f) else f))"

text \<open>\<open>dict(value or {})\<close> of a value that holds a dictionary or nothing.\<close>

definition dict_of :: "pyval \<Rightarrow> pydict result" where
  "dict_of v = (if \<not> truthy v then Inr [] else case v of PDict d \<Rightarrow> Inr d | _ \<Rightarrow> Inl TypeError)"

fun rmap :: "('a \<Rightarrow> 'b result) \<Rightarrow> 'a list \<Rightarrow> 'b list result" where
  "rmap f [] = Inr []"
| "rmap f (x # xs) = rbind (f x) (\<lambda>y. rbind (rmap f xs) (\<lambda>ys. Inr (y # ys)))"

definition opt_number :: "pyfloat option \<Rightarrow> pyval" where
  "opt_number v = (case v of None \<Rightarrow> PNone | Some f \<Rightarrow> PFloat f)"

definition opt_rat :: "rat option \<Rightarrow> pyval" where
  "opt_rat v = (case v of None \<Rightarrow> PNone | Some r \<Rightarrow> PFloat (Num r))"

definition opt_text :: "string option \<Rightarrow> pyval" where
  "opt_text v = (case v of None \<Rightarrow> PNone | Some s \<Rightarrow> PStr s)"

definition vat_check_dict :: "vat_check \<Rightarrow> pydict" where
  "vat_check_dict c =
     [(''present'', PBool (vc_present c)), (''valid'', PBool (vc_valid c)), (''reason'', opt_text (vc_reason c)),
      (''vatAmount'', opt_rat (vc_vat c)), (''totalAmount'', opt_rat (vc_total c)),
      (''absoluteRatio'', opt_rat (vc_ratio c)), (''maxAbsoluteRatio'', PFloat (Num (vc_limit c)))]"

definition date_check_dict :: "date_check \<Rightarrow> pydict" where
  "date_check_dict c =
     [(''present'', PBool (dc_present c)), (''valid'', PBool (dc_valid c)), (''reason'', opt_text (dc_reason c)),
      (''evidenceValue'', opt_text (dc_evidence c)), (''normalizedValue'', opt_text (dc_normalized c))]"

section \<open>One line item\<close>

record line_item =
  li_name :: pyval
  li_description :: pyval
  li_quantity :: "pyfloat option"
  li_price :: "pyfloat option"
  li_amount :: "pyfloat option"
  li_tax :: "pyfloat option"
  li_rate :: "pyfloat option"
  li_code :: pyval
  li_category :: pyval
  li_account :: pyval
  li_source :: pyval
  li_confidence :: "pyfloat option"
  li_metadata :: pydict

text \<open>What an item lacks is taken from the document.\<close>

record line_fallback =
  lf_category :: pyval
  lf_account :: pyval
  lf_description :: pyval
  lf_confidence :: pyval
  lf_source :: string

definition present_of :: "pydict \<Rightarrow> string list \<Rightarrow> pyval list" where
  "present_of item keys = map (dget item) keys"

definition line_amounts :: "pydict \<Rightarrow> pyfloat option \<times> pyfloat option \<times> pyfloat option" where
  "line_amounts item =
     (let quantity = book_float (first_present (present_of item [''quantity'', ''qty'']));
          amount0 = book_float (first_present (present_of item [''amount'', ''total'', ''total_amount'', ''totalAmount'']));
          price0 = book_float (first_present (present_of item [''unit_price'', ''unitPrice'', ''price'']));
          amount = (case (amount0, price0, quantity) of
                      (None, Some p, Some q) \<Rightarrow> if nonzero quantity then Some (pf_times p q) else None
                    | _ \<Rightarrow> amount0);
          price = (case (price0, amount, quantity) of
                     (None, Some a, Some q) \<Rightarrow> if nonzero quantity then Some (pf_over a q) else None
                   | _ \<Rightarrow> price0)
      in (quantity, price, amount))"

definition line_rate :: "pyfloat option \<Rightarrow> pyfloat option \<Rightarrow> pyfloat option \<Rightarrow> pyfloat option" where
  "line_rate rate amount tax =
     (case (rate, amount, tax) of
        (None, Some a, Some t) \<Rightarrow>
          if nonzero amount \<and> nonzero tax \<and> nonzero (Some (pf_minus a t))
          then Some (round4 (pf_times (pf_over t (pf_minus a t)) (Num 100))) else None
      | _ \<Rightarrow> rate)"

definition tax_issue :: "pyfloat option \<Rightarrow> vat_check \<Rightarrow> pydict" where
  "tax_issue evidence check =
     [(''field'', PStr ''taxAmount''), (''reason'', opt_text (vc_reason check)),
      (''evidenceValue'', opt_number evidence), (''assessment'', PDict (vat_check_dict check))]"

definition normalize_line_item :: "line_fallback \<Rightarrow> pydict \<Rightarrow> line_item result" where
  "normalize_line_item fb item =
     (let (quantity, price, amount) = line_amounts item;
          evidence = book_float (first_present (present_of item [''tax_amount'', ''taxAmount'', ''vat_amount'', ''vatAmount'']));
          check = assess_vat_amount (opt_number evidence) (opt_number amount) (PFloat (Num (1 / 4)));
          tax = (if vc_valid check then evidence else None);
          rate = line_rate (book_float (first_present (present_of item [''tax_rate'', ''taxRate'', ''vat_rate'', ''vatRate''])))
            amount tax
      in rbind (dict_of (dget item ''metadata'')) (\<lambda>metadata.
           Inr \<lparr>li_name = first_present (present_of item [''item_name'', ''itemName'', ''name'', ''item'']),
                li_description = first_present [dget item ''description'', lf_description fb],
                li_quantity = quantity, li_price = price, li_amount = amount, li_tax = tax, li_rate = rate,
                li_code = first_present (present_of item [''tax_code'', ''taxCode'', ''sales_tax'', ''salesTax'', ''tax'']),
                li_category = first_present [dget item ''category'', lf_category fb],
                li_account = first_present (present_of item [''account_name'', ''accountName'', ''account'', ''target_account'',
                  ''targetAccount''] @ [lf_account fb]),
                li_source = py_or (dget item ''source'') (PStr (lf_source fb)),
                li_confidence = book_float (first_present [dget item ''confidence_score'', dget item ''confidenceScore'', lf_confidence fb]),
                li_metadata = (if vc_valid check then metadata
                               else dset ''financialFieldIssue'' (PDict (tax_issue evidence check)) metadata)\<rparr>))"

definition line_item_has_value :: "py_env \<Rightarrow> line_item \<Rightarrow> bool" where
  "line_item_has_value env li \<longleftrightarrow>
     (\<exists>v \<in> set [li_description li, li_name li, opt_number (li_amount li), li_category li, li_account li]. \<not> blank_text env v)"

section \<open>The lines of a document\<close>

definition line_total :: "line_item list \<Rightarrow> pyfloat" where
  "line_total ls = round2 (pf_sum (concat (map (\<lambda>li. case li_amount li of None \<Rightarrow> [] | Some a \<Rightarrow> [a]) ls)))"

definition line_tax_total :: "line_item list \<Rightarrow> pyfloat" where
  "line_tax_total ls = round2 (pf_sum (concat (map (\<lambda>li. case li_tax li of None \<Rightarrow> [] | Some a \<Rightarrow> [a]) ls)))"

definition book_tolerance :: "pyfloat option \<Rightarrow> pyfloat" where
  "book_tolerance t =
     (let x = pf_times (pf_abs (case t of None \<Rightarrow> Num 0 | Some f \<Rightarrow> if flt_eq f (Num 0) then Num 0 else f)) (Num (1 / 100))
      in if flt_less (Num (2 / 100)) x then x else Num (2 / 100))"

definition close_to :: "pyfloat \<Rightarrow> pyfloat \<Rightarrow> pyfloat \<Rightarrow> bool" where
  "close_to tol a b \<longleftrightarrow> flt_le (pf_abs (pf_minus a b)) tol"

definition reconciles_directly :: "pyfloat option \<Rightarrow> pyfloat \<Rightarrow> pyfloat \<Rightarrow> bool" where
  "reconciles_directly t net gross \<longleftrightarrow>
     (case t of None \<Rightarrow> True | Some f \<Rightarrow> close_to (book_tolerance t) net f \<or> close_to (book_tolerance t) gross f)"

definition reconciles_absolutely :: "pyfloat option \<Rightarrow> pyfloat \<Rightarrow> pyfloat \<Rightarrow> bool" where
  "reconciles_absolutely t net gross \<longleftrightarrow>
     (case t of None \<Rightarrow> False
      | Some f \<Rightarrow> close_to (book_tolerance t) (pf_abs net) (pf_abs f) \<or> close_to (book_tolerance t) (pf_abs gross) (pf_abs f))"

definition directed :: "pyfloat \<Rightarrow> pyfloat \<Rightarrow> pyfloat" where
  "directed t a = round2 (pf_times (pf_abs a) (Num (if flt_less t (Num 0) then - 1 else 1)))"

definition direct_line :: "pyfloat \<Rightarrow> line_item \<Rightarrow> line_item" where
  "direct_line t li =
     li\<lparr>li_amount := map_option (directed t) (li_amount li), li_tax := map_option (directed t) (li_tax li),
        li_metadata := dset ''postingDirectionNormalized'' (PBool True) (li_metadata li)\<rparr>"

fun fallback_issues :: "int \<Rightarrow> line_item list \<Rightarrow> pydict list" where
  "fallback_issues i [] = []"
| "fallback_issues i (li # ls) =
     (case dget (li_metadata li) ''financialFieldIssue'' of
        PDict d \<Rightarrow> dset ''evidenceLineItemIndex'' (PInt i) d # fallback_issues (i + 1) ls
      | _ \<Rightarrow> fallback_issues (i + 1) ls)"

definition fallback_item :: "pyval \<Rightarrow> pyfloat option \<Rightarrow> pyfloat option \<Rightarrow> line_item list \<Rightarrow> line_item list \<Rightarrow> pydict" where
  "fallback_item description amount vat all_lines priced =
     (let issues = fallback_issues 0 all_lines;
          seen = (\<lambda>f. if priced = [] then PNone else PFloat f)
      in [(''description'', description), (''amount'', opt_number amount),
          (''taxAmount'', if issues = [] then opt_number vat else PNone),
          (''metadata'', PDict
             [(''fallback'', PStr ''document_total''),
              (''fallbackReason'', PStr (if priced = [] then ''no_extracted_line_amounts'' else ''extracted_line_total_mismatch'')),
              (''evidenceLineItemCount'', PInt (int (length all_lines))),
              (''evidenceLineAmountCount'', PInt (int (length priced))),
              (''evidenceLineTotal'', seen (line_total priced)),
              (''evidenceLineTaxTotal'', seen (line_tax_total priced)),
              (''evidenceLineGrossTotal'', seen (round2 (pf_plus (line_total priced) (line_tax_total priced)))),
              (''documentTotal'', opt_number amount),
              (''financialFieldIssue'', case issues of [] \<Rightarrow> PNone | d # _ \<Rightarrow> PDict d),
              (''financialFieldIssues'', PList (map PDict issues))])])"

text \<open>The extracted items with a value, and of those the items with an amount.\<close>

definition extracted_items :: "py_env \<Rightarrow> line_fallback \<Rightarrow> pydict \<Rightarrow> line_item list result" where
  "extracted_items env fb extracted =
     (let raw = (case py_or (dget extracted ''line_items'') (py_or (dget extracted ''lineItems'') (PList [])) of
                   PList xs \<Rightarrow> concat (map (\<lambda>x. case x of PDict d \<Rightarrow> [d] | _ \<Rightarrow> []) xs) | _ \<Rightarrow> [])
      in map_sum id (filter (line_item_has_value env)) (rmap (normalize_line_item fb) raw))"

definition document_lines ::
  "py_env \<Rightarrow> pydict \<Rightarrow> pyval \<Rightarrow> pyval \<Rightarrow> pyfloat option \<Rightarrow> pyfloat option \<Rightarrow> pyval \<Rightarrow> pyfloat option \<Rightarrow>
   line_item list result" where
  "document_lines env extracted category account amount vat description confidence =
     (let fb = \<lparr>lf_category = category, lf_account = account, lf_description = description,
                lf_confidence = opt_number confidence, lf_source = ''extracted_line_item''\<rparr>
      in rbind (extracted_items env fb extracted) (\<lambda>all_lines.
           (let priced = filter (\<lambda>li. li_amount li \<noteq> None) all_lines;
                net = line_total priced; gross = round2 (pf_plus net (line_tax_total priced))
            in if priced \<noteq> [] \<and> reconciles_directly amount net gross then Inr priced
               else if priced \<noteq> [] \<and> reconciles_absolutely amount net gross then
                 Inr (map (direct_line (case amount of None \<Rightarrow> Num 0 | Some t \<Rightarrow> t)) priced)
               else map_sum id (\<lambda>li. [li])
                      (normalize_line_item (fb\<lparr>lf_source := ''document_total''\<rparr>)
                        (fallback_item description amount vat all_lines priced)))))"

section \<open>Export readiness\<close>

definition indices_where :: "('a \<Rightarrow> bool) \<Rightarrow> 'a list \<Rightarrow> pyval list" where
  "indices_where P xs = map (\<lambda>i. PInt (int i)) (filter (\<lambda>i. P (xs ! i)) [0..<length xs])"

definition line_item_export_readiness :: "py_env \<Rightarrow> line_item list \<Rightarrow> pyfloat option \<Rightarrow> pydict" where
  "line_item_export_readiness env ls vat =
     (let unmapped = indices_where (\<lambda>li. blank_text env (li_account li)) ls in
      [(''lineItemCount'', PInt (int (length ls))),
       (''hasTaxEvidence'', PBool (nonzero vat \<or> (\<exists>li \<in> set ls. nonzero (li_tax li)))),
       (''missingAccountMapping'', PList unmapped),
       (''missingTaxCode'', PList (indices_where (\<lambda>li. nonzero (li_tax li) \<and> blank_text env (li_code li)) ls)),
       (''readyForWaveDraft'', PBool (unmapped = []))])"

end
