(* ===== verification/Book_Line_Properties.thy ===== *)
theory Book_Line_Properties
  imports Book_Lines
begin

text \<open>
  When the lines of a bookkeeping record add up to the amount of its document: for amounts in
  whole cents without mixed signs always, for a credit note with a discount line not.
\<close>

section \<open>Amounts in cents\<close>

definition whole_cents :: "rat \<Rightarrow> bool" where
  "whole_cents r \<longleftrightarrow> of_int \<lfloor>r * 100\<rfloor> = r * 100"

definition cents :: "pyfloat option \<Rightarrow> bool" where
  "cents v = (case v of None \<Rightarrow> True | Some (Num r) \<Rightarrow> whole_cents r | Some _ \<Rightarrow> False)"

definition line_number :: "pyfloat option \<Rightarrow> rat" where
  "line_number v = (case v of Some (Num r) \<Rightarrow> r | _ \<Rightarrow> 0)"

lemma cents_cases:
  assumes "cents v"
  obtains "v = None" "line_number v = 0" | r where "v = Some (Num r)" "line_number v = r" "whole_cents r"
  using assms by (auto simp: cents_def line_number_def split: option.splits pyfloat.splits)

lemma whole_cents_iff: "whole_cents r \<longleftrightarrow> (\<exists>n. r = of_int n / 100)"
  by (auto simp: whole_cents_def field_simps)

lemma whole_cents_0 [simp]: "whole_cents 0"
  by (simp add: whole_cents_def)

lemma whole_cents_add:
  "whole_cents r \<Longrightarrow> whole_cents s \<Longrightarrow> whole_cents (r + s)"
  unfolding whole_cents_iff by (metis add_divide_distrib of_int_add)

lemma whole_cents_abs: "whole_cents r \<Longrightarrow> whole_cents \<bar>r\<bar>"
  unfolding whole_cents_iff by (metis abs_divide abs_numeral of_int_abs)

lemma whole_cents_minus: "whole_cents r \<Longrightarrow> whole_cents (- r)"
  unfolding whole_cents_iff by (metis minus_divide_left of_int_minus)

lemma round2_cents: "whole_cents r \<Longrightarrow> round2 (Num r) = Num r"
  by (auto simp: whole_cents_iff round_half_even_def)

lemma sum_cents:
  "\<forall>v \<in> set vs. cents v \<Longrightarrow>
     foldl pf_plus (Num x) (concat (map (\<lambda>v. case v of None \<Rightarrow> [] | Some a \<Rightarrow> [a]) vs)) = Num (x + sum_list (map line_number vs)) \<and>
     (whole_cents x \<longrightarrow>
        whole_cents (x + sum_list (map line_number vs)))"
proof (induction vs arbitrary: x)
  case (Cons v vs)
  from Cons.prems have "cents v" by simp
  then show ?case
  proof (cases rule: cents_cases)
    case 1
    then show ?thesis using Cons by simp
  next
    case (2 r)
    then show ?thesis using Cons.IH [of "x + r"] Cons.prems by (simp add: add.assoc whole_cents_add)
  qed
qed simp

definition net_of :: "line_item list \<Rightarrow> rat" where
  "net_of ls = sum_list (map (\<lambda>li. line_number (li_amount li)) ls)"

definition tax_of :: "line_item list \<Rightarrow> rat" where
  "tax_of ls = sum_list (map (\<lambda>li. line_number (li_tax li)) ls)"

definition in_cents :: "line_item list \<Rightarrow> bool" where
  "in_cents ls = list_all (\<lambda>li. cents (li_amount li) \<and> cents (li_tax li)) ls"

lemma line_total_cents:
  assumes "in_cents ls"
  shows "line_total ls = Num (net_of ls)" and "line_tax_total ls = Num (tax_of ls)"
    and "round2 (pf_plus (line_total ls) (line_tax_total ls)) = Num (net_of ls + tax_of ls)"
proof -
  have a: "pf_sum (concat (map (\<lambda>li. case li_amount li of None \<Rightarrow> [] | Some a \<Rightarrow> [a]) ls)) = Num (net_of ls) \<and>
      whole_cents (net_of ls)"
    using sum_cents [of "map li_amount ls" 0] assms
    by (auto simp: in_cents_def list_all_iff pf_sum_def net_of_def comp_def)
  have t: "pf_sum (concat (map (\<lambda>li. case li_tax li of None \<Rightarrow> [] | Some a \<Rightarrow> [a]) ls)) = Num (tax_of ls) \<and>
      whole_cents (tax_of ls)"
    using sum_cents [of "map li_tax ls" 0] assms
    by (auto simp: in_cents_def list_all_iff pf_sum_def tax_of_def comp_def)
  show n: "line_total ls = Num (net_of ls)" using a by (simp add: line_total_def round2_cents del: round2.simps)
  show x: "line_tax_total ls = Num (tax_of ls)" using t by (simp add: line_tax_total_def round2_cents del: round2.simps)
  have "whole_cents (net_of ls + tax_of ls)"
    using a t whole_cents_add by blast
  then show "round2 (pf_plus (line_total ls) (line_tax_total ls)) = Num (net_of ls + tax_of ls)"
    by (simp add: n x round2_cents del: round2.simps)
qed

section \<open>Direction\<close>

text \<open>All amounts, and all taxes, on one side of zero.\<close>

definition one_direction :: "line_item list \<Rightarrow> bool" where
  "one_direction ls \<longleftrightarrow>
     list_all (\<lambda>li. 0 \<le> line_number (li_amount li)) ls \<or> list_all (\<lambda>li. line_number (li_amount li) \<le> 0) ls"

lemma finite_opt_number: "finite_number (opt_number v) = (case v of Some (Num r) \<Rightarrow> Some r | _ \<Rightarrow> None)"
  by (auto simp: finite_number_def opt_number_def is_blank_def split: option.splits pyfloat.splits)

lemma valid_tax_sign:
  assumes "vc_valid (assess_vat_amount (opt_number tax) (opt_number amount) limit)"
  shows "line_number tax = 0 \<or> (line_number tax < 0 \<longleftrightarrow> line_number amount < 0) \<and> line_number amount \<noteq> 0"
  using assms
  by (auto simp: assess_vat_amount_def finite_opt_number line_number_def Let_def split: option.splits pyfloat.splits if_splits)

lemma normalized_tax_sign:
  assumes "normalize_line_item fb item = Inr li"
  shows "line_number (li_tax li) = 0 \<or>
    (line_number (li_tax li) < 0 \<longleftrightarrow> line_number (li_amount li) < 0) \<and> line_number (li_amount li) \<noteq> 0"
proof -
  obtain quantity price amount where l: "line_amounts item = (quantity, price, amount)" by (metis prod_cases3)
  let ?e = "book_float (first_present (present_of item [''tax_amount'', ''taxAmount'', ''vat_amount'', ''vatAmount'']))"
  let ?c = "assess_vat_amount (opt_number ?e) (opt_number amount) (PFloat (Num (1 / 4)))"
  have "li_amount li = amount" "li_tax li = (if vc_valid ?c then ?e else None)"
    using assms by (auto simp: normalize_line_item_def l Let_def dest!: rbind_eq_InrD)
  then show ?thesis using valid_tax_sign [of ?e amount] by (auto simp: line_number_def)
qed

lemma rmap_mem: "rmap f xs = Inr ys \<Longrightarrow> y \<in> set ys \<Longrightarrow> \<exists>x \<in> set xs. f x = Inr y"
proof (induction xs arbitrary: ys)
  case (Cons x xs)
  from Cons.prems(1) obtain z zs where "f x = Inr z" "rmap f xs = Inr zs" "ys = z # zs"
    by (auto dest!: rbind_eq_InrD)
  then show ?case using Cons by auto
qed simp

lemma extracted_tax_sign:
  assumes "extracted_items env fb extracted = Inr ls" and "li \<in> set ls"
  shows "line_number (li_tax li) = 0 \<or>
    (line_number (li_tax li) < 0 \<longleftrightarrow> line_number (li_amount li) < 0) \<and> line_number (li_amount li) \<noteq> 0"
proof -
  obtain raw ys where "rmap (normalize_line_item fb) raw = Inr ys" "ls = filter (line_item_has_value env) ys"
    using assms(1) unfolding extracted_items_def Let_def by (cases "rmap (normalize_line_item fb)
      (case py_or (dget extracted ''line_items'') (py_or (dget extracted ''lineItems'') (PList [])) of
         PList xs \<Rightarrow> concat (map (\<lambda>x. case x of PDict d \<Rightarrow> [d] | _ \<Rightarrow> []) xs) | _ \<Rightarrow> [])") auto
  then show ?thesis using rmap_mem [of "normalize_line_item fb" raw ys li] assms(2) normalized_tax_sign by auto
qed

lemma directed_cents:
  "cents v \<Longrightarrow> line_number (map_option (directed (Num t)) v) = \<bar>line_number v\<bar> * (if t < 0 then - 1 else 1) \<and>
     cents (map_option (directed (Num t)) v)"
proof (cases v)
  case (Some f)
  moreover assume "cents v"
  ultimately obtain r where 2: "v = Some (Num r)" "line_number v = r" "whole_cents r"
    by (auto simp: cents_def line_number_def split: pyfloat.splits)
  let ?d = "\<bar>r\<bar> * (if t < 0 then - 1 else 1)"
  have c: "whole_cents ?d"
    using whole_cents_abs [OF 2(3)] whole_cents_minus [OF whole_cents_abs [OF 2(3)]] by auto
  have "directed (Num t) (Num r) = round2 (Num ?d)" by (simp add: directed_def)
  also have "\<dots> = Num ?d" by (rule round2_cents [OF c])
  finally show ?thesis using c by (simp add: 2(1) cents_def line_number_def)
qed (auto simp: cents_def line_number_def)

lemma sum_one_direction:
  assumes "list_all (\<lambda>x. 0 \<le> f x) xs \<or> list_all (\<lambda>x. f x \<le> (0::rat)) xs"
  shows "sum_list (map (\<lambda>x. \<bar>f x\<bar>) xs) = \<bar>sum_list (map f xs)\<bar>"
  using assms
proof
  assume "list_all (\<lambda>x. 0 \<le> f x) xs"
  then have "sum_list (map (\<lambda>x. \<bar>f x\<bar>) xs) = sum_list (map f xs) \<and> 0 \<le> sum_list (map f xs)" by (induction xs) auto
  then show ?thesis by simp
next
  assume "list_all (\<lambda>x. f x \<le> 0) xs"
  then have "sum_list (map (\<lambda>x. \<bar>f x\<bar>) xs) = - sum_list (map f xs) \<and> sum_list (map f xs) \<le> 0" by (induction xs) auto
  then show ?thesis by simp
qed

lemma sum_scaled: "sum_list (map (\<lambda>x. f x * c) xs) = sum_list (map f xs) * (c::rat)"
  by (induction xs) (simp_all add: algebra_simps)

lemma direct_lines_cents:
  fixes t :: rat
  assumes "in_cents ls" and "one_direction ls"
    and tax: "\<forall>li \<in> set ls. line_number (li_tax li) = 0 \<or>
      (line_number (li_tax li) < 0 \<longleftrightarrow> line_number (li_amount li) < 0) \<and> line_number (li_amount li) \<noteq> 0"
  defines "c \<equiv> (if t < 0 then - 1 else 1 :: rat)"
  shows "net_of (map (direct_line (Num t)) ls) = \<bar>net_of ls\<bar> * c"
    and "net_of (map (direct_line (Num t)) ls) + tax_of (map (direct_line (Num t)) ls) = \<bar>net_of ls + tax_of ls\<bar> * c"
proof -
  let ?a = "\<lambda>li. line_number (li_amount li)" and ?x = "\<lambda>li. line_number (li_tax li)"
  have n: "net_of (map (direct_line (Num t)) ls) = sum_list (map (\<lambda>li. \<bar>?a li\<bar> * c) ls)"
    and x: "tax_of (map (direct_line (Num t)) ls) = sum_list (map (\<lambda>li. \<bar>?x li\<bar> * c) ls)"
    using assms(1) directed_cents [of _ t]
    by (auto simp: net_of_def tax_of_def direct_line_def c_def in_cents_def list_all_iff intro!: arg_cong [of _ _ sum_list])
  show "net_of (map (direct_line (Num t)) ls) = \<bar>net_of ls\<bar> * c"
    using sum_one_direction [of ?a ls] assms(2) by (simp add: n sum_scaled one_direction_def net_of_def [of ls])
  have both: "list_all (\<lambda>li. 0 \<le> ?a li + ?x li) ls \<or> list_all (\<lambda>li. ?a li + ?x li \<le> 0) ls"
  proof -
    have pos: "0 \<le> ?a li \<Longrightarrow> 0 \<le> ?a li + ?x li" and neg: "?a li \<le> 0 \<Longrightarrow> ?a li + ?x li \<le> 0" if "li \<in> set ls" for li
      using tax [rule_format, OF that] by linarith+
    show ?thesis using assms(2) pos neg by (auto simp: one_direction_def list_all_iff)
  qed
  have abs: "\<bar>?a li\<bar> + \<bar>?x li\<bar> = \<bar>?a li + ?x li\<bar>" if "li \<in> set ls" for li
    using tax [rule_format, OF that] by linarith
  have "net_of (map (direct_line (Num t)) ls) + tax_of (map (direct_line (Num t)) ls) =
      sum_list (map (\<lambda>li. (\<bar>?a li\<bar> + \<bar>?x li\<bar>) * c) ls)"
    by (simp add: n x sum_list_addf [symmetric] algebra_simps)
  also have "\<dots> = sum_list (map (\<lambda>li. \<bar>?a li + ?x li\<bar> * c) ls)"
    using abs by (auto intro!: arg_cong [of _ _ sum_list])
  also have "\<dots> = \<bar>sum_list (map (\<lambda>li. ?a li + ?x li) ls)\<bar> * c"
    using sum_one_direction [of "\<lambda>li. ?a li + ?x li" ls] both by (simp add: sum_scaled)
  also have "sum_list (map (\<lambda>li. ?a li + ?x li) ls) = net_of ls + tax_of ls"
    by (simp add: net_of_def tax_of_def sum_list_addf)
  finally show "net_of (map (direct_line (Num t)) ls) + tax_of (map (direct_line (Num t)) ls) = \<bar>net_of ls + tax_of ls\<bar> * c" .
qed

section \<open>Totals\<close>

lemma tolerance_num: "book_tolerance (Some (Num t)) = Num (max (2 / 100) (\<bar>t\<bar> / 100))"
  by (auto simp: book_tolerance_def max_def)

lemma close_num: "close_to (Num tol) (Num a) (Num b) \<longleftrightarrow> \<bar>a - b\<bar> \<le> tol"
  by (auto simp: close_to_def pf_minus_def flt_le_def)

lemma abs_directed: "\<bar>\<bar>x\<bar> - \<bar>t\<bar>\<bar> = \<bar>\<bar>x\<bar> * (if t < 0 then - 1 else 1) - (t::rat)\<bar>"
  by auto

lemma document_lines_cases:
  assumes "document_lines env extracted category account amount vat description confidence = Inr ls"
  obtains (direct) items where "extracted_items env \<lparr>lf_category = category, lf_account = account, lf_description = description,
          lf_confidence = opt_number confidence, lf_source = ''extracted_line_item''\<rparr> extracted = Inr items"
      "ls = filter (\<lambda>li. li_amount li \<noteq> None) items"
      "reconciles_directly amount (line_total ls) (round2 (pf_plus (line_total ls) (line_tax_total ls)))"
  | (absolute) items priced where "extracted_items env \<lparr>lf_category = category, lf_account = account, lf_description = description,
          lf_confidence = opt_number confidence, lf_source = ''extracted_line_item''\<rparr> extracted = Inr items"
      "priced = filter (\<lambda>li. li_amount li \<noteq> None) items"
      "reconciles_absolutely amount (line_total priced) (round2 (pf_plus (line_total priced) (line_tax_total priced)))"
      "ls = map (direct_line (case amount of None \<Rightarrow> Num 0 | Some t \<Rightarrow> t)) priced"
  | (total_line) fb item li where "normalize_line_item fb item = Inr li" "ls = [li]" "dget item ''amount'' = opt_number amount"
  using assms
  by (auto simp: document_lines_def Let_def fallback_item_def map_sum_def
      dest!: rbind_eq_InrD split: if_splits sum.splits)

lemma total_line_amount:
  assumes "normalize_line_item fb item = Inr li" and "dget item ''amount'' = opt_number (Some (Num t))"
  shows "li_amount li = Some (Num t)"
proof -
  obtain quantity price amount where l: "line_amounts item = (quantity, price, amount)" by (metis prod_cases3)
  have "first_present (present_of item [''amount'', ''total'', ''total_amount'', ''totalAmount'']) = PFloat (Num t)"
    using assms(2) by (simp add: present_of_def opt_number_def is_blank_def)
  then have "amount = Some (Num t)" using l by (auto simp: line_amounts_def Let_def)
  then show ?thesis using assms(1) by (auto simp: normalize_line_item_def l Let_def dest!: rbind_eq_InrD)
qed

text \<open>
  C16: The lines recorded for a document add up to its amount, net or with their taxes, within two
  cents or one percent, provided the extracted amounts are whole cents of one direction.
\<close>

theorem record_lines_add_up:
  assumes "document_lines env extracted category account (Some (Num t)) vat description confidence = Inr ls"
    and "extracted_items env \<lparr>lf_category = category, lf_account = account, lf_description = description,
           lf_confidence = opt_number confidence, lf_source = ''extracted_line_item''\<rparr> extracted = Inr items"
    and "in_cents items" and "one_direction items"
  shows "list_all (\<lambda>li. li_amount li \<noteq> None) ls \<and>
    (\<bar>net_of ls - t\<bar> \<le> max (2 / 100) (\<bar>t\<bar> / 100) \<or> \<bar>net_of ls + tax_of ls - t\<bar> \<le> max (2 / 100) (\<bar>t\<bar> / 100))"
  using assms(1)
proof (cases rule: document_lines_cases)
  case (direct its)
  have c: "in_cents ls" using direct(1,2) assms(2,3) by (auto simp: in_cents_def list_all_iff)
  then have "\<bar>net_of ls - t\<bar> \<le> max (2 / 100) (\<bar>t\<bar> / 100) \<or> \<bar>net_of ls + tax_of ls - t\<bar> \<le> max (2 / 100) (\<bar>t\<bar> / 100)"
    using direct(3) unfolding line_total_cents(3) [OF c] unfolding line_total_cents(1) [OF c]
    by (simp add: reconciles_directly_def tolerance_num close_num)
  then show ?thesis using direct(2) by (simp add: list_all_iff)
next
  case (absolute its priced)
  have p: "in_cents priced" "one_direction priced"
    using absolute(1,2) assms(2-4) by (auto simp: in_cents_def one_direction_def list_all_iff)
  have x: "\<forall>li \<in> set priced. line_number (li_tax li) = 0 \<or>
      (line_number (li_tax li) < 0 \<longleftrightarrow> line_number (li_amount li) < 0) \<and> line_number (li_amount li) \<noteq> 0"
    using extracted_tax_sign [OF absolute(1)] absolute(2) by auto
  have "\<bar>\<bar>net_of priced\<bar> - \<bar>t\<bar>\<bar> \<le> max (2 / 100) (\<bar>t\<bar> / 100) \<or>
      \<bar>\<bar>net_of priced + tax_of priced\<bar> - \<bar>t\<bar>\<bar> \<le> max (2 / 100) (\<bar>t\<bar> / 100)"
    using absolute(3) unfolding line_total_cents(3) [OF p(1)] unfolding line_total_cents(1) [OF p(1)]
    by (simp add: reconciles_absolutely_def tolerance_num close_num)
  then have "\<bar>net_of ls - t\<bar> \<le> max (2 / 100) (\<bar>t\<bar> / 100) \<or> \<bar>net_of ls + tax_of ls - t\<bar> \<le> max (2 / 100) (\<bar>t\<bar> / 100)"
    using direct_lines_cents [OF p x, of t] absolute(4) by (simp only: abs_directed option.case)
  moreover have "list_all (\<lambda>li. li_amount li \<noteq> None) ls"
    using absolute(2,4) by (auto simp: list_all_iff direct_line_def)
  ultimately show ?thesis by blast
next
  case (total_line fb item li)
  then show ?thesis using total_line_amount [of fb item li t] by (simp add: net_of_def line_number_def le_max_iff_disj)
qed

definition demo_line :: "int \<Rightarrow> pydict" where
  "demo_line n = [(''description'', PStr ''paper''), (''amount'', PInt n)]"

definition demo_lines :: "int list \<Rightarrow> pydict" where
  "demo_lines ns = [(''line_items'', PList (map (\<lambda>n. PDict (demo_line n)) ns))]"

definition demo_item :: "int \<Rightarrow> line_item" where
  "demo_item n =
     \<lparr>li_name = PNone, li_description = PStr ''paper'', li_quantity = None, li_price = None, li_amount = Some (Num (of_int n)),
      li_tax = None, li_rate = None, li_code = PNone, li_category = PStr ''Office'', li_account = PNone,
      li_source = PStr ''extracted_line_item'', li_confidence = None, li_metadata = []\<rparr>"

definition demo_fallback :: line_fallback where
  "demo_fallback = \<lparr>lf_category = PStr ''Office'', lf_account = PNone, lf_description = PNone,
     lf_confidence = opt_number None, lf_source = ''extracted_line_item''\<rparr>"

lemma demo_normalized: "normalize_line_item demo_fallback (demo_line n) = Inr (demo_item n)"
  by (simp add: normalize_line_item_def demo_fallback_def demo_line_def line_amounts_def present_of_def is_blank_def
      assess_vat_amount_def finite_number_def opt_number_def line_rate_def dict_of_def demo_item_def Let_def)

lemma demo_has_value: "line_item_has_value plain_env (demo_item n)"
proof -
  have "\<not> blank_text plain_env (PStr ''paper'')" by code_simp
  then show ?thesis by (auto simp: line_item_has_value_def demo_item_def)
qed

lemma demo_extracted: "extracted_items plain_env demo_fallback (demo_lines ns) = Inr (map demo_item ns)"
proof -
  have "rmap (normalize_line_item demo_fallback) (map demo_line ns) = Inr (map demo_item ns)"
    by (induction ns) (simp_all add: demo_normalized)
  moreover have "filter (line_item_has_value plain_env) (map demo_item ns) = map demo_item ns"
    by (simp add: filter_id_conv demo_has_value)
  moreover have "concat (map (\<lambda>x. case x of PDict d \<Rightarrow> [d] | _ \<Rightarrow> []) (map (\<lambda>n. PDict (demo_line n)) ns)) = map demo_line ns"
    by (induction ns) simp_all
  ultimately show ?thesis
    by (cases "ns = []") (simp_all add: extracted_items_def demo_lines_def comp_def)
qed

lemma demo_totals:
  "net_of (map demo_item ns) = of_int (sum_list ns)" "tax_of (map demo_item ns) = 0" "in_cents (map demo_item ns)"
proof -
  have f: "whole_cents (of_int n)" for n :: int
    unfolding whole_cents_iff by (rule exI [of _ "n * 100"]) simp
  show "net_of (map demo_item ns) = of_int (sum_list ns)" "tax_of (map demo_item ns) = 0"
    by (induction ns) (simp_all add: net_of_def tax_of_def demo_item_def line_number_def)
  show "in_cents (map demo_item ns)" by (simp add: in_cents_def list_all_iff cents_def demo_item_def f)
qed

lemma demo_document:
  "document_lines plain_env (demo_lines ns) (PStr ''Office'') PNone (Some (Num t)) None PNone None =
     (if ns \<noteq> [] \<and> \<bar>of_int (sum_list ns) - t\<bar> \<le> max (2 / 100) (\<bar>t\<bar> / 100) then Inr (map demo_item ns)
      else if ns \<noteq> [] \<and> \<bar>\<bar>of_int (sum_list ns)\<bar> - \<bar>t\<bar>\<bar> \<le> max (2 / 100) (\<bar>t\<bar> / 100)
      then Inr (map (direct_line (Num t)) (map demo_item ns))
      else map_sum id (\<lambda>li. [li]) (normalize_line_item (demo_fallback\<lparr>lf_source := ''document_total''\<rparr>)
             (fallback_item PNone (Some (Num t)) None (map demo_item ns) (map demo_item ns))))"
proof -
  have p: "filter (\<lambda>li. \<exists>y. li_amount li = Some y) (map demo_item ns) = map demo_item ns"
    by (simp add: filter_id_conv demo_item_def)
  have t: "line_total (map demo_item ns) = Num (of_int (sum_list ns))"
    "round2 (pf_plus (line_total (map demo_item ns)) (line_tax_total (map demo_item ns))) = Num (of_int (sum_list ns))"
    using line_total_cents [OF demo_totals(3), of ns] by (simp_all add: demo_totals(1,2) del: round2.simps)
  show ?thesis
    unfolding document_lines_def Let_def demo_fallback_def [symmetric]
    by (simp add: demo_extracted p t(2) reconciles_directly_def reconciles_absolutely_def tolerance_num close_num del: round2.simps)
      (simp add: t(1) close_num)
qed

theorem record_lines_add_up_witness:
  "\<bar>net_of (map demo_item [60, 40]) - 100\<bar> \<le> max (2 / 100) (\<bar>100\<bar> / 100)"
proof -
  have "document_lines plain_env (demo_lines [60, 40]) (PStr ''Office'') PNone (Some (Num 100)) None PNone None =
      Inr (map demo_item [60, 40])"
    by (subst demo_document) simp
  from record_lines_add_up [OF this demo_extracted [unfolded demo_fallback_def] demo_totals(3)]
  show ?thesis using demo_totals(2) [of "[60, 40]"]
    by (simp add: one_direction_def demo_item_def line_number_def)
qed

text \<open>
  A credit note over 100 with a line of 120 and a discount of 20: its amount is recorded as
  -100, but both lines become negative and the lines of the record add up to -140.
\<close>

theorem discount_of_a_credit_note_is_added:
  "posting_amount (Some (Num 100)) ''credit_note'' = Some (Num (- 100)) \<and>
   (\<exists>ls. document_lines plain_env (demo_lines [120, - 20]) (PStr ''Office'') PNone (Some (Num (- 100))) None PNone None = Inr ls \<and>
      net_of ls = - 140 \<and> net_of ls + tax_of ls = - 140)"
proof
  show "posting_amount (Some (Num 100)) ''credit_note'' = Some (Num (- 100))" by (simp add: posting_amount_def)
  let ?ls = "map (direct_line (Num (- 100))) (map demo_item [120, - 20])"
  have "document_lines plain_env (demo_lines [120, - 20]) (PStr ''Office'') PNone (Some (Num (- 100))) None PNone None = Inr ?ls"
    by (subst demo_document) simp
  moreover have "li_amount (direct_line (Num (- 100)) (demo_item n)) = Some (Num (- \<bar>of_int n\<bar>))"
      "li_tax (direct_line (Num (- 100)) (demo_item n)) = None" for n
    using directed_cents [of "Some (Num (of_int n))" "- 100"] demo_totals(3) [of "[n]"]
    by (auto simp: direct_line_def demo_item_def directed_def in_cents_def cents_def line_number_def split: pyfloat.splits)
  ultimately show "\<exists>ls. document_lines plain_env (demo_lines [120, - 20]) (PStr ''Office'') PNone (Some (Num (- 100))) None PNone None = Inr ls \<and>
      net_of ls = - 140 \<and> net_of ls + tax_of ls = - 140"
    by (intro exI [of _ ?ls]) (simp add: net_of_def tax_of_def line_number_def)
qed

end
