(* ===== verification/Book_Records.thy ===== *)
theory Book_Records
  imports Bank_Statements Book_Lines
begin

text \<open>
  \<open>LocalBookkeepingRecordService\<close> (src/operations/local_bookkeeping_records.py): the financial
  record of a document and of a bank transaction, its storage with its line items, and the
  resolution of a record by a person. The columns the export service does not read are the
  dictionary \<open>bk_columns\<close>; a column that is None is not written.
\<close>

section \<open>State\<close>

record vendor_rule =
  vr_norm :: string
  vr_vendor :: string
  vr_category :: string
  vr_target :: string
  vr_confidence :: "pyfloat option"
  vr_status :: string
  vr_updated :: timestamp

record book_ledger =
  bo_bank :: bank_ledger
  bo_lines :: "nat \<Rightarrow> line_item list"
  bo_rules :: "vendor_rule table"

record record_service =
  bs_env :: ledger_env
  bs_today :: pydate
  bs_threshold :: pyfloat
  bs_ratio :: pyfloat

abbreviation bo_core :: "book_ledger \<Rightarrow> export_ledger" where
  "bo_core B \<equiv> bl_core (bo_bank B)"

definition with_core :: "export_ledger \<Rightarrow> book_ledger \<Rightarrow> book_ledger" where
  "with_core L B = B\<lparr>bo_bank := (bo_bank B)\<lparr>bl_core := L\<rparr>\<rparr>"

definition with_records :: "book_row table \<Rightarrow> book_ledger \<Rightarrow> book_ledger" where
  "with_records t B = with_core ((bo_core B)\<lparr>xl_records := t\<rparr>) B"

definition book_audit :: "record_service \<Rightarrow> string \<Rightarrow> string \<Rightarrow> pyval \<Rightarrow> pydict \<Rightarrow> timestamp \<Rightarrow> book_ledger \<Rightarrow> book_ledger" where
  "book_audit bs action etype eid details now B =
     with_core (record_audit (bs_env bs) action etype eid details now (bo_core B)) B"

fun float_config :: "pydict \<Rightarrow> string list \<Rightarrow> rat \<Rightarrow> pyfloat" where
  "float_config config [] d = Num d"
| "float_config config (k # ks) d =
     (if is_blank (dget config k) then float_config config ks d
      else (case to_float (dget config k) of Inl _ \<Rightarrow> Num d | Inr f \<Rightarrow> f))"

definition init_record_service :: "ledger_env \<Rightarrow> pydate \<Rightarrow> pydict \<Rightarrow> record_service" where
  "init_record_service env today config =
     \<lparr>bs_env = env, bs_today = today,
      bs_threshold = float_config config
        [''fab_local_review_confidence_threshold'', ''operations_local_review_confidence_threshold'',
         ''categorization_review_confidence_threshold'', ''operations_categorization_review_confidence_threshold'',
         ''ml_confidence_threshold''] (7 / 10),
      bs_ratio = float_config config [''vat_max_total_ratio'', ''document_processing_vat_max_total_ratio''] (1 / 4)\<rparr>"

section \<open>Reading a document\<close>

definition NON_POSTING_DOCUMENT_TYPES :: "string list" where
  "NON_POSTING_DOCUMENT_TYPES =
     [''bank_statement'', ''estimate'', ''government_correspondence'', ''insurance_policy'', ''order_confirmation'',
      ''supporting_document'']"

definition is_non_posting_document_type :: "string \<Rightarrow> bool" where
  "is_non_posting_document_type kind \<longleftrightarrow> lower (strip kind) \<in> set NON_POSTING_DOCUMENT_TYPES"

definition text_or :: "py_env \<Rightarrow> pyval \<Rightarrow> string \<Rightarrow> string" where
  "text_or env v d = py_str env (py_or v (PStr d))"

definition document_kind :: "py_env \<Rightarrow> pydict \<Rightarrow> pydict \<Rightarrow> string" where
  "document_kind env doc ex =
     lower (text_or env (first_present [dget doc ''document_type'', dget ex ''document_type'']) [])"

fun first_target :: "py_env \<Rightarrow> pyval list \<Rightarrow> string \<Rightarrow> string" where
  "first_target env [] d = d"
| "first_target env (v # vs) d =
     (let s = strip (text_or env v []) in if lower s \<in> {[], ''none'', ''unknown''} then first_target env vs d else s)"

definition resolve_document_target_system :: "py_env \<Rightarrow> pydict \<Rightarrow> pydict \<Rightarrow> string \<Rightarrow> string" where
  "resolve_document_target_system env doc ex d =
     (let metadata = as_dict (dget doc ''metadata''); routing = as_dict (dget metadata ''routing'') in
      first_target env
        [dget doc ''targetSystem'', dget doc ''target_system'', dget metadata ''targetSystem'', dget metadata ''target_system'',
         dget routing ''targetSystem'', dget routing ''target_system'', dget ex ''targetSystem'', dget ex ''target_system'']
        (strip d))"

definition READY_DOCUMENT_STATUSES :: "string list" where
  "READY_DOCUMENT_STATUSES = [''processed'', ''reviewed'', ''validated'', ''ready_to_route'']"

definition MANUAL_REVIEW_CATEGORIES :: "string list" where
  "MANUAL_REVIEW_CATEGORIES = [[], ''manual review'', ''uncategorized'', ''unknown'']"

definition PRESERVED_RECORD_EXPORT_STATUSES :: "string list" where
  "PRESERVED_RECORD_EXPORT_STATUSES =
     [''draft_prepared'', ''needs_confirmation'', ''queued'', ''approved_not_submitted'', ''submitted'', ''confirmed'']"

definition manual_category :: "py_env \<Rightarrow> pyval \<Rightarrow> bool" where
  "manual_category env v \<longleftrightarrow> lower (strip (text_or env v [])) \<in> set MANUAL_REVIEW_CATEGORIES"

definition missing_document_fields ::
  "py_env \<Rightarrow> pyval \<Rightarrow> pyval \<Rightarrow> string option \<Rightarrow> pyfloat option \<Rightarrow> string list" where
  "missing_document_fields env vendor category day amount =
     (if blank_text env vendor then [''vendorName''] else []) @
     (if blank_text env category \<or> lower (strip (py_str env category)) \<in> set MANUAL_REVIEW_CATEGORIES
      then [''category''] else []) @
     (if blank_text env (opt_text day) then [''recordDate''] else []) @
     (if amount = None then [''amount''] else [])"

definition document_review_required ::
  "record_service \<Rightarrow> pydict \<Rightarrow> pyval \<Rightarrow> pyfloat option \<Rightarrow> bool \<Rightarrow> bool \<Rightarrow> bool" where
  "document_review_required bs doc category confidence open_reviews missing \<longleftrightarrow>
     truthy (dget doc ''duplicate_of_document_id'') \<or>
     text_or (le_py (bs_env bs)) (dget doc ''processing_status'') [] \<in> {''needs_review'', ''failed'', ''duplicate''} \<or>
     open_reviews \<or> missing \<or>
     (case confidence of None \<Rightarrow> False | Some c \<Rightarrow> flt_less c (bs_threshold bs)) \<or>
     manual_category (le_py (bs_env bs)) category"

definition record_status_for_document :: "string \<Rightarrow> bool \<Rightarrow> string" where
  "record_status_for_document processing review =
     (if processing \<in> {''export_draft_prepared'', ''routed'', ''duplicate'', ''failed''} then processing
      else if review \<or> processing = ''needs_review'' then ''needs_review''
      else if processing \<in> set READY_DOCUMENT_STATUSES then ''ready_to_route''
      else ''draft'')"

definition starts_blocked :: "string \<Rightarrow> bool" where
  "starts_blocked s \<longleftrightarrow> take 7 s = ''blocked''"

definition export_status_for_processing :: "string \<Rightarrow> bool \<Rightarrow> string" where
  "export_status_for_processing processing review =
     (if processing = ''export_draft_prepared'' then ''draft_prepared''
      else if processing = ''duplicate'' then ''blocked_duplicate''
      else if processing = ''failed'' then ''blocked_processing''
      else if review then ''blocked_by_review''
      else if processing \<in> set READY_DOCUMENT_STATUSES then ''ready''
      else ''not_started'')"

definition export_status_for_document :: "string \<Rightarrow> routing_row option \<Rightarrow> bool \<Rightarrow> string" where
  "export_status_for_document processing routing review =
     (case routing of
        Some r \<Rightarrow>
          if ro_status r \<in> {''draft_prepared'', ''needs_confirmation'', ''queued''} then ''draft_prepared''
          else if starts_blocked (ro_status r) then ro_status r
          else if ro_status r = ''needs_review'' then ''blocked_by_review''
          else export_status_for_processing processing review
      | None \<Rightarrow> export_status_for_processing processing review)"

definition record_type :: "string \<Rightarrow> string" where
  "record_type kind =
     (if kind \<in> {''invoice'', ''sales_invoice'', ''estimate''} then ''income''
      else if kind \<in> {''bill'', ''purchase_invoice'', ''vendor_invoice'', ''unpaid_purchase''} then ''bill''
      else ''expense'')"

text \<open>\<open>ORDER BY created_at DESC\<close>: rows of one time in their table order.\<close>

definition open_reviews_for :: "nat \<Rightarrow> export_ledger \<Rightarrow> nat list" where
  "open_reviews_for d L =
     map fst (sort_key (\<lambda>(i, v). - micros (lv_created v))
       (select_rows (\<lambda>v. lv_document v = Some d \<and> review_open v) (xl_reviews L)))"

definition latest_routing :: "nat \<Rightarrow> export_ledger \<Rightarrow> (nat \<times> routing_row) option" where
  "latest_routing d L =
     (case sort_key (\<lambda>(i, r). - micros (ro_created r)) (select_rows (\<lambda>r. ro_document r = Some d) (xl_routing L)) of
        [] \<Rightarrow> None | x # _ \<Rightarrow> Some x)"

section \<open>The record of a document\<close>

record book_payload =
  bp_document :: "nat option"
  bp_bank :: "nat option"
  bp_source_type :: string
  bp_record_type :: string
  bp_status :: string
  bp_target_system :: string
  bp_target_account :: pyval
  bp_vendor :: pyval
  bp_category :: pyval
  bp_date :: "string option"
  bp_amount :: "pyfloat option"
  bp_vat :: "pyfloat option"
  bp_currency :: string
  bp_description :: pyval
  bp_confidence :: "pyfloat option"
  bp_review :: bool
  bp_export :: string
  bp_reconciliation :: string
  bp_metadata :: pydict

definition floats_differ :: "pyfloat option \<Rightarrow> pyfloat option \<Rightarrow> bool" where
  "floats_differ a b =
     (case (a, b) of (None, None) \<Rightarrow> False | (Some x, Some y) \<Rightarrow> \<not> flt_eq x y | _ \<Rightarrow> True)"

definition issue_of :: "string \<Rightarrow> string option \<Rightarrow> pyval \<Rightarrow> pydict \<Rightarrow> pydict" where
  "issue_of field reason evidence assessment =
     [(''field'', PStr field), (''reason'', opt_text reason), (''evidenceValue'', evidence), (''assessment'', PDict assessment)]"

text \<open>The issues of the line items, with the position of the item they are about.\<close>

definition line_issues :: "py_env \<Rightarrow> int \<Rightarrow> line_item \<Rightarrow> pydict list" where
  "line_issues env i li =
     (let listed = (case py_or (dget (li_metadata li) ''financialFieldIssues'') (PList []) of PList xs \<Rightarrow> xs | _ \<Rightarrow> []);
          single = dget (li_metadata li) ''financialFieldIssue'';
          every = (case single of PDict d \<Rightarrow> if single \<in> set listed then listed else single # listed | _ \<Rightarrow> listed)
      in concat (map (\<lambda>v. case v of
           PDict d \<Rightarrow>
             (let at_index = dget_or d ''evidenceLineItemIndex'' (PInt i) in
              [dset ''lineItemIndex'' at_index
                 (dset ''field'' (PStr (''lineItems['' @ py_str env at_index @ ''].taxAmount'')) d)])
         | _ \<Rightarrow> []) every))"

fun all_line_issues :: "py_env \<Rightarrow> int \<Rightarrow> line_item list \<Rightarrow> pydict list" where
  "all_line_issues env i [] = []"
| "all_line_issues env i (li # ls) = line_issues env i li @ all_line_issues env (i + 1) ls"

text \<open>What is read of a document before anything is decided.\<close>

record document_facts =
  df_kind :: string
  df_non_posting :: bool
  df_vendor :: pyval
  df_category :: pyval
  df_date_evidence :: pyval
  df_date :: date_check
  df_amount_evidence :: "pyfloat option"
  df_amount :: "pyfloat option"
  df_vat_evidence :: "pyfloat option"
  df_vat :: "pyfloat option"
  df_vat_check :: vat_check
  df_currency :: string
  df_confidence :: "pyfloat option"
  df_account :: pyval
  df_description :: pyval

definition record_day :: "date_check \<Rightarrow> string option" where
  "record_day c = (if dc_valid c then dc_normalized c else None)"

definition read_document :: "record_service \<Rightarrow> pydict \<Rightarrow> pydict \<Rightarrow> pydict \<Rightarrow> document_facts" where
  "read_document bs doc ex metadata =
     (let env = le_py (bs_env bs);
          kind = document_kind env doc ex;
          day = first_present [dget doc ''transaction_date'', dget ex ''transaction_date''];
          evidence = book_float (first_present [dget doc ''total_amount'', dget ex ''total_amount'', dget ex ''amount'']);
          amount = posting_amount evidence kind;
          vat_evidence = book_float (first_present [dget doc ''vat_amount'', dget ex ''vat_amount'']);
          vat = posting_amount vat_evidence kind;
          check = assess_vat_amount (opt_number vat) (opt_number amount) (PFloat (bs_ratio bs))
      in \<lparr>df_kind = kind, df_non_posting = is_non_posting_document_type kind,
          df_vendor = first_present [dget doc ''vendor_name'', dget ex ''vendor_name''],
          df_category = first_present [dget doc ''category'', dget ex ''category''],
          df_date_evidence = day, df_date = assess_record_date env (bs_today bs) day,
          df_amount_evidence = evidence, df_amount = amount, df_vat_evidence = vat_evidence,
          df_vat = (if vc_valid check then vat else None), df_vat_check = check,
          df_currency = map upper_char (text_or env (first_present [dget ex ''currency'', dget metadata ''currency'', PStr ''EUR'']) ''EUR''),
          df_confidence = book_float (dget doc ''confidence_score''),
          df_account = first_present [dget metadata ''targetAccount'', dget metadata ''target_account'', dget ex ''target_account''],
          df_description = first_present [dget ex ''description'', dget doc ''original_filename'']\<rparr>)"

definition field_issues :: "document_facts \<Rightarrow> pydict list" where
  "field_issues f =
     (if \<not> df_non_posting f \<and> \<not> dc_valid (df_date f)
      then [issue_of ''recordDate'' (dc_reason (df_date f)) (df_date_evidence f) (date_check_dict (df_date f))] else []) @
     (if \<not> df_non_posting f \<and> \<not> vc_valid (df_vat_check f)
      then [issue_of ''vatAmount'' (vc_reason (df_vat_check f)) (opt_number (df_vat_evidence f)) (vat_check_dict (df_vat_check f))]
      else [])"

definition supporting_readiness :: pydict where
  "supporting_readiness =
     [(''lineItemCount'', PInt 0), (''hasTaxEvidence'', PBool False), (''missingAccountMapping'', PList []),
      (''missingTaxCode'', PList []), (''postingEligible'', PBool False), (''readyForWaveDraft'', PBool False)]"

definition document_metadata ::
  "record_service \<Rightarrow> pydict \<Rightarrow> pydict \<Rightarrow> document_facts \<Rightarrow> pydict list \<Rightarrow> string list \<Rightarrow> nat list \<Rightarrow> nat option \<Rightarrow> line_item list \<Rightarrow> pydict" where
  "document_metadata bs doc ex f issues missing reviews routing ls =
     [(''source'', dget doc ''source''), (''sourceDocumentId'', dget doc ''source_document_id''),
      (''originalFilename'', dget doc ''original_filename''), (''documentType'', dget doc ''document_type''),
      (''nonPostingDocumentType'', PBool (df_non_posting f)),
      (''postingDirection'', PStr (if df_kind f = ''credit_note'' then ''credit'' else ''standard'')),
      (''evidenceAmount'', if df_non_posting f \<or> floats_differ (df_amount_evidence f) (df_amount f)
         then opt_number (df_amount_evidence f) else PNone),
      (''evidenceVatAmount'', if df_non_posting f \<or> floats_differ (df_vat_evidence f) (df_vat f) \<or>
           (\<exists>i \<in> set issues. dget i ''field'' = PStr ''vatAmount'')
         then opt_number (df_vat_evidence f) else PNone),
      (''evidenceRecordDate'', if truthy (df_date_evidence f) \<and> df_date_evidence f \<noteq> opt_text (record_day (df_date f))
         then df_date_evidence f else PNone),
      (''financialFieldControls'', PDict [(''recordDate'', PDict (date_check_dict (df_date f))), (''vat'', PDict (vat_check_dict (df_vat_check f)))]),
      (''financialFieldIssues'', PList (map PDict issues)),
      (''documentProcessingStatus'', dget doc ''processing_status''),
      (''duplicateOfDocumentId'', dget doc ''duplicate_of_document_id''),
      (''missingFields'', PList (map PStr missing)),
      (''openReviewItemIds'', PList (map (\<lambda>i. PInt (int i)) reviews)),
      (''latestRoutingAttemptId'', opt_nat routing),
      (''extractedFieldKeys'', PList (map PStr (sort_key id (map fst ex)))),
      (''lineItemCount'', PInt (int (length ls))),
      (''exportReadiness'', PDict (if df_non_posting f then supporting_readiness
         else line_item_export_readiness (le_py (bs_env bs)) ls (df_vat f)))]"

text \<open>The payload, once the document is read and its line items are known.\<close>

definition payload_issues :: "record_service \<Rightarrow> document_facts \<Rightarrow> line_item list \<Rightarrow> pydict list" where
  "payload_issues bs f ls = field_issues f @ all_line_issues (le_py (bs_env bs)) 0 ls"

definition facts_missing :: "record_service \<Rightarrow> document_facts \<Rightarrow> string list" where
  "facts_missing bs f =
     (if df_non_posting f then []
      else missing_document_fields (le_py (bs_env bs)) (df_vendor f) (df_category f) (record_day (df_date f)) (df_amount f))"

definition payload_review :: "record_service \<Rightarrow> nat \<Rightarrow> pydict \<Rightarrow> document_facts \<Rightarrow> line_item list \<Rightarrow> export_ledger \<Rightarrow> bool" where
  "payload_review bs d doc f ls L \<longleftrightarrow>
     document_review_required bs doc (df_category f) (df_confidence f) (open_reviews_for d L \<noteq> []) (facts_missing bs f \<noteq> []) \<or>
     payload_issues bs f ls \<noteq> []"

definition payload_status ::
  "record_service \<Rightarrow> nat \<Rightarrow> pydict \<Rightarrow> document_facts \<Rightarrow> line_item list \<Rightarrow> export_ledger \<Rightarrow> string option \<Rightarrow> string" where
  "payload_status bs d doc f ls L status =
     (let given = (case status of None \<Rightarrow> [] | Some s \<Rightarrow> s); review = payload_review bs d doc f ls L in
      if payload_issues bs f ls \<noteq> [] then ''needs_review''
      else if given \<noteq> [] then given
      else if df_non_posting f \<and> \<not> review then ''supporting_evidence''
      else record_status_for_document (text_or (le_py (bs_env bs)) (dget doc ''processing_status'') ''draft'') review)"

definition payload_export :: "record_service \<Rightarrow> nat \<Rightarrow> pydict \<Rightarrow> document_facts \<Rightarrow> line_item list \<Rightarrow> export_ledger \<Rightarrow> string" where
  "payload_export bs d doc f ls L =
     (if payload_issues bs f ls \<noteq> [] then ''blocked_invalid_financial_fields''
      else if df_non_posting f then ''not_applicable''
      else export_status_for_document (text_or (le_py (bs_env bs)) (dget doc ''processing_status'') [])
             (map_option snd (latest_routing d L)) (payload_review bs d doc f ls L))"

definition document_payload ::
  "record_service \<Rightarrow> nat \<Rightarrow> pydict \<Rightarrow> pydict \<Rightarrow> pydict \<Rightarrow> document_facts \<Rightarrow> line_item list \<Rightarrow> export_ledger \<Rightarrow> string option \<Rightarrow> book_payload" where
  "document_payload bs d doc ex metadata f ls L status =
     \<lparr>bp_document = Some d, bp_bank = None, bp_source_type = ''document'',
      bp_record_type = (if df_non_posting f then ''supporting_document'' else record_type (df_kind f)),
      bp_status = payload_status bs d doc f ls L status,
      bp_target_system = resolve_document_target_system (le_py (bs_env bs)) doc ex ''waveapps'',
      bp_target_account = df_account f, bp_vendor = df_vendor f, bp_category = df_category f,
      bp_date = record_day (df_date f),
      bp_amount = (if df_non_posting f then None else df_amount f),
      bp_vat = (if df_non_posting f then None else df_vat f),
      bp_currency = df_currency f, bp_description = df_description f, bp_confidence = df_confidence f,
      bp_review = payload_review bs d doc f ls L, bp_export = payload_export bs d doc f ls L,
      bp_reconciliation = text_or (le_py (bs_env bs)) (dget doc ''reconciliation_status'') ''not_started'',
      bp_metadata = document_metadata bs doc ex f (payload_issues bs f ls) (facts_missing bs f) (open_reviews_for d L)
        (map_option fst (latest_routing d L)) ls\<rparr>"

definition facts_lines :: "record_service \<Rightarrow> pydict \<Rightarrow> document_facts \<Rightarrow> line_item list result" where
  "facts_lines bs ex f =
     (if df_non_posting f then Inr []
      else document_lines (le_py (bs_env bs)) ex (df_category f) (df_account f) (df_amount f) (df_vat f) (df_description f)
             (df_confidence f))"

definition document_record_payload ::
  "record_service \<Rightarrow> nat \<Rightarrow> pydict \<Rightarrow> export_ledger \<Rightarrow> string option \<Rightarrow> (book_payload \<times> line_item list) result" where
  "document_record_payload bs d doc L status =
     rbind (dict_of (dget doc ''extracted_data'')) (\<lambda>ex.
     rbind (dict_of (dget doc ''metadata'')) (\<lambda>metadata.
     rbind (facts_lines bs ex (read_document bs doc ex metadata)) (\<lambda>ls.
       Inr (document_payload bs d doc ex metadata (read_document bs doc ex metadata) ls L status, ls))))"

section \<open>Storage\<close>

definition stored_number :: "pyfloat option \<Rightarrow> pyval" where
  "stored_number v = opt_number (sql_real v)"

definition stored_text :: "record_service \<Rightarrow> pyval \<Rightarrow> pyval" where
  "stored_text bs v = opt_text (sql_text (le_py (bs_env bs)) v)"

text \<open>The columns a statement writes: those whose value is not None.\<close>

definition number_column :: "string \<Rightarrow> pyfloat option \<Rightarrow> pydict" where
  "number_column k v = (if v = None then [] else [(k, stored_number v)])"

definition text_column :: "record_service \<Rightarrow> string \<Rightarrow> pyval \<Rightarrow> pydict" where
  "text_column bs k v = (if v = PNone then [] else [(k, stored_text bs v)])"

definition payload_columns :: "record_service \<Rightarrow> book_payload \<Rightarrow> pydict" where
  "payload_columns bs p =
     (case bp_bank p of None \<Rightarrow> [] | Some b \<Rightarrow> [(''bank_transaction_id'', PInt (int b))]) @
     [(''source_type'', PStr (bp_source_type p)), (''record_type'', PStr (bp_record_type p)),
      (''target_system'', PStr (bp_target_system p))] @
     text_column bs ''vendor_name'' (bp_vendor p) @ text_column bs ''category'' (bp_category p) @
     text_column bs ''record_date'' (opt_text (bp_date p)) @
     number_column ''amount'' (bp_amount p) @ number_column ''vat_amount'' (bp_vat p) @
     [(''currency'', PStr (bp_currency p))] @ text_column bs ''description'' (bp_description p) @
     number_column ''confidence_score'' (bp_confidence p)"

definition write_payload :: "record_service \<Rightarrow> timestamp \<Rightarrow> book_payload \<Rightarrow> book_row \<Rightarrow> book_row" where
  "write_payload bs now p r =
     r\<lparr>bk_document := keep (bp_document p) (bk_document r), bk_status := bp_status p,
       bk_target_account := keep (sql_text (le_py (bs_env bs)) (bp_target_account p)) (bk_target_account r),
       bk_review_required := bp_review p, bk_export_status := bp_export p, bk_reconciliation := bp_reconciliation p,
       bk_metadata := redact_dict (bs_env bs) (bp_metadata p),
       bk_columns := dupdate (bk_columns r) (payload_columns bs p), bk_updated := whole_second now\<rparr>"

definition blank_record :: "timestamp \<Rightarrow> book_row" where
  "blank_record now =
     \<lparr>bk_document = None, bk_status = ''draft'', bk_target_account = None, bk_review_required = False,
      bk_export_status = ''not_started'', bk_reconciliation = ''not_started'', bk_metadata = [], bk_columns = [],
      bk_updated = whole_second now\<rparr>"

definition bank_record :: "nat \<Rightarrow> book_row \<Rightarrow> bool" where
  "bank_record b r \<longleftrightarrow> dget (bk_columns r) ''bank_transaction_id'' = PInt (int b)"

definition existing_record :: "book_payload \<Rightarrow> book_row table \<Rightarrow> (nat \<times> book_row) option" where
  "existing_record p t =
     (case (case bp_document p of None \<Rightarrow> None | Some d \<Rightarrow> find_row (\<lambda>r. bk_document r = Some d) t) of
        Some hit \<Rightarrow> Some hit
      | None \<Rightarrow> (case bp_bank p of None \<Rightarrow> None | Some b \<Rightarrow> find_row (bank_record b) t))"

definition upsert_bookkeeping_record ::
  "record_service \<Rightarrow> timestamp \<Rightarrow> book_payload \<Rightarrow> book_row table \<Rightarrow> book_row table \<times> nat" where
  "upsert_bookkeeping_record bs now p t =
     (case existing_record p t of
        Some (i, _) \<Rightarrow> (update_row i (write_payload bs now p) t, i)
      | None \<Rightarrow> insert_row (write_payload bs now p (blank_record now)) t)"

definition clear_columns :: "timestamp \<Rightarrow> string list \<Rightarrow> book_row \<Rightarrow> book_row" where
  "clear_columns now ks r =
     r\<lparr>bk_columns := foldl (\<lambda>c k. dset k PNone c) (bk_columns r) ks, bk_updated := whole_second now\<rparr>"

definition stored_line :: "record_service \<Rightarrow> line_item \<Rightarrow> line_item" where
  "stored_line bs li =
     li\<lparr>li_name := stored_text bs (li_name li), li_description := stored_text bs (li_description li),
        li_quantity := sql_real (li_quantity li), li_price := sql_real (li_price li), li_amount := sql_real (li_amount li),
        li_tax := sql_real (li_tax li), li_rate := sql_real (li_rate li), li_code := stored_text bs (li_code li),
        li_category := stored_text bs (li_category li), li_account := stored_text bs (li_account li),
        li_source := stored_text bs (li_source li), li_confidence := sql_real (li_confidence li),
        li_metadata := redact_dict (bs_env bs) (li_metadata li)\<rparr>"

definition replace_line_items :: "record_service \<Rightarrow> nat \<Rightarrow> line_item list \<Rightarrow> book_ledger \<Rightarrow> book_ledger" where
  "replace_line_items bs rid ls B = B\<lparr>bo_lines := (bo_lines B)(rid := map (stored_line bs) ls)\<rparr>"

end
