(* ===== verification/Book_Service.thy ===== *)
theory Book_Service
  imports Book_Records
begin

text \<open>
  Actions on the ledger. Every ledger call commits on its own, so an operation that raises keeps
  what it wrote before: an action returns its result or the exception together with the ledger.
\<close>

type_synonym 'a act = "book_ledger \<Rightarrow> 'a result \<times> book_ledger"

definition act_return :: "'a \<Rightarrow> 'a act" where
  "act_return x B = (Inr x, B)"

definition act_bind :: "'a act \<Rightarrow> ('a \<Rightarrow> 'b act) \<Rightarrow> 'b act" where
  "act_bind m f B = (case m B of (Inl e, B') \<Rightarrow> (Inl e, B') | (Inr x, B') \<Rightarrow> f x B')"

definition act_modify :: "(book_ledger \<Rightarrow> book_ledger) \<Rightarrow> unit act" where
  "act_modify f B = (Inr (), f B)"

definition act_result :: "(book_ledger \<Rightarrow> (book_ledger \<times> 'a) result) \<Rightarrow> 'a act" where
  "act_result f B = (case f B of Inl e \<Rightarrow> (Inl e, B) | Inr (B', x) \<Rightarrow> (Inr x, B'))"

fun act_all :: "('a \<Rightarrow> 'b act) \<Rightarrow> 'a list \<Rightarrow> 'b list act" where
  "act_all f [] = act_return []"
| "act_all f (x # xs) = act_bind (f x) (\<lambda>y. act_bind (act_all f xs) (\<lambda>ys. act_return (y # ys)))"

section \<open>Review items\<close>

text \<open>
  \<open>create_review_item\<close> with corrected data: an open item of the document and reason takes the new
  data, otherwise one is inserted; an item without a document is always inserted.
\<close>

definition create_review :: "nat option \<Rightarrow> string \<Rightarrow> string \<Rightarrow> pydict \<Rightarrow> timestamp \<Rightarrow> nat act" where
  "create_review doc reason details corrected now B =
     (let L = bo_core B; at_second = whole_second now;
          same = (case doc of None \<Rightarrow> []
                  | Some d \<Rightarrow> filter (\<lambda>(i, v). lv_document v = Some d \<and> lv_reason v = reason \<and> review_open v) (trows (xl_reviews L)))
      in case rev (sort_key fst same) of
           (i, _) # _ \<Rightarrow>
             (Inr i, with_core (L\<lparr>xl_reviews := update_row i (\<lambda>v. v\<lparr>lv_details := Some details,
                lv_corrected := dupdate (lv_corrected v) corrected, lv_updated := at_second\<rparr>) (xl_reviews L)\<rparr>) B)
         | [] \<Rightarrow>
             (let (t, i) = insert_row \<lparr>lv_document = doc, lv_reason = reason, lv_details = Some details, lv_status = ''pending'',
                    lv_corrected = corrected, lv_created = at_second, lv_updated = at_second\<rparr> (xl_reviews L)
              in (Inr i, with_core (L\<lparr>xl_reviews := t\<rparr>) B)))"

section \<open>Dictionaries\<close>

text \<open>\<open>d.setdefault(k, v)\<close>\<close>

definition set_default :: "string \<Rightarrow> pyval \<Rightarrow> pydict \<Rightarrow> pydict" where
  "set_default k v d = (if k \<in> fst ` set d then d else d @ [(k, v)])"

text \<open>
  The operations of \<open>LocalBookkeepingRecordService\<close>
  (src/operations/local_bookkeeping_records.py): recording a document or a bank transaction,
  resolving a record, and noting the state of its export or reconciliation.
\<close>

section \<open>Documents\<close>

record book_reply =
  br_record :: nat
  br_status :: string
  br_export :: string
  br_reconciliation :: string
  br_review :: bool
  br_lines :: nat
  br_issues :: "pyval list"

definition metadata_issues :: "pydict \<Rightarrow> pyval list" where
  "metadata_issues m = (case py_or (dget m ''financialFieldIssues'') (PList []) of PList xs \<Rightarrow> xs | _ \<Rightarrow> [])"

definition has_issue :: "string \<Rightarrow> pyval list \<Rightarrow> bool" where
  "has_issue field issues \<longleftrightarrow> (\<exists>v \<in> set issues. dget (as_dict v) ''field'' = PStr field)"

definition cleared_columns :: "book_payload \<Rightarrow> string list" where
  "cleared_columns p =
     (if bp_record_type p = ''supporting_document'' then [''amount'', ''vat_amount'']
      else (if has_issue ''vatAmount'' (metadata_issues (bp_metadata p)) then [''vat_amount''] else []) @
           (if has_issue ''recordDate'' (metadata_issues (bp_metadata p)) then [''record_date''] else []))"

definition store_payload ::
  "record_service \<Rightarrow> timestamp \<Rightarrow> book_payload \<Rightarrow> line_item list \<Rightarrow> book_ledger \<Rightarrow> book_ledger \<times> nat" where
  "store_payload bs now p ls B =
     (let (t, rid) = upsert_bookkeeping_record bs now p (xl_records (bo_core B));
          t' = (if cleared_columns p = [] then t else update_row rid (clear_columns now (cleared_columns p)) t)
      in (replace_line_items bs rid ls (with_records t' B), rid))"

definition upsert_from_document ::
  "record_service \<Rightarrow> nat \<Rightarrow> string option \<Rightarrow> timestamp \<Rightarrow> book_ledger \<Rightarrow> (book_ledger \<times> book_reply option) result" where
  "upsert_from_document bs d status now B =
     (case lookup_row (xl_documents (bo_core B)) d of
        None \<Rightarrow> Inr (B, None)
      | Some doc \<Rightarrow>
          rbind (document_record_payload bs d doc (bo_core B) status) (\<lambda>(p, ls).
            (let earlier = (case record_by_document d (bo_core B) of None \<Rightarrow> [] | Some (_, r) \<Rightarrow> metadata_issues (bk_metadata r));
                 (B', rid) = store_payload bs now p ls B;
                 issues = metadata_issues (bp_metadata p);
                 B'' = (if issues \<noteq> [] \<and> issues \<noteq> earlier
                        then book_audit bs ''local_bookkeeping_records.invalid_financial_fields_suppressed'' ''bookkeeping_record''
                               (PStr (str_of_nat rid))
                               [(''documentId'', PInt (int d)), (''issues'', PList issues),
                                (''externalSubmission'', PStr ''not_executed'')] now B'
                        else B')
             in Inr (B'', Some \<lparr>br_record = rid, br_status = bp_status p, br_export = bp_export p,
                  br_reconciliation = bp_reconciliation p, br_review = bp_review p, br_lines = length ls, br_issues = issues\<rparr>))))"

section \<open>Bank transactions\<close>

definition record_status_for_bank :: "string \<Rightarrow> string" where
  "record_status_for_bank status =
     (if status \<in> {''approved'', ''reconciled''} then ''reconciled''
      else if status = ''missing_receipt'' then ''missing_receipt''
      else if status \<in> {''candidate'', ''needs_review''} then ''needs_review''
      else if status \<in> {''ignored'', ''rejected'', ''resolved''} then status
      else ''draft'')"

definition bank_export_status :: "string \<Rightarrow> string" where
  "bank_export_status status =
     (if status = ''missing_receipt'' then ''blocked_missing_receipt''
      else if status \<in> {''candidate'', ''needs_review''} then ''blocked_by_review''
      else if status \<in> {''approved'', ''reconciled'', ''ignored'', ''rejected'', ''resolved''} then ''not_applicable''
      else ''not_started'')"

definition normalize_vendor :: "string \<Rightarrow> string" where
  "normalize_vendor s = join_with '' '' (words_of (\<lambda>c. \<not> is_space c) [] (lower (strip s)))"

text \<open>Approved rules of the vendor, newest first, at most 50; those for Wave before the universal ones.\<close>

definition approved_vendor_category_rule :: "bank_row \<Rightarrow> vendor_rule table \<Rightarrow> (nat \<times> vendor_rule) option" where
  "approved_vendor_category_rule r rules =
     (let pick = (\<lambda>v. case v of None \<Rightarrow> [] | Some s \<Rightarrow> s);
          vendor = strip (if pick (bt_counterparty r) \<noteq> [] then pick (bt_counterparty r) else pick (bt_description r));
          hits = take 50 (sort_key (\<lambda>(i, x). - micros (vr_updated x)) (rev (sort_key fst
            (select_rows (\<lambda>x. vr_norm x = normalize_vendor vendor \<and> vr_status x = ''approved'') rules))));
          target = (\<lambda>x. if vr_target x = [] then ''none'' else vr_target x);
          exact = filter (\<lambda>(i, x). target x = ''waveapps'') hits;
          universal = filter (\<lambda>(i, x). target x = ''none'') hits
      in if vendor = [] then None
         else (case exact @ universal of [] \<Rightarrow> None | x # _ \<Rightarrow> Some x))"

definition rule_summary :: "(nat \<times> vendor_rule) option \<Rightarrow> pyval" where
  "rule_summary rule =
     (case rule of
        None \<Rightarrow> PNone
      | Some (i, x) \<Rightarrow>
          PDict [(''ruleId'', PInt (int i)), (''vendorName'', PStr (vr_vendor x)), (''category'', PStr (vr_category x)),
                 (''targetSystem'', PStr (vr_target x)), (''status'', PStr (vr_status x))])"

definition bank_record_payload ::
  "nat \<Rightarrow> bank_row \<Rightarrow> vendor_rule table \<Rightarrow> string option \<Rightarrow> string option \<Rightarrow> book_payload" where
  "bank_record_payload b r rules status reconciliation =
     (let or_given = (\<lambda>v d. case v of None \<Rightarrow> d | Some s \<Rightarrow> if s = [] then d else s);
          applied = or_given reconciliation (if bt_reconciliation r = [] then ''not_started'' else bt_reconciliation r);
          rec_status = or_given status (record_status_for_bank applied);
          rule = approved_vendor_category_rule r rules;
          category = (case rule of None \<Rightarrow> PNone | Some (_, x) \<Rightarrow> PStr (vr_category x))
      in \<lparr>bp_document = None, bp_bank = Some b, bp_source_type = ''bank_transaction'',
          bp_record_type = (case bt_amount r of None \<Rightarrow> ''expense'' | Some a \<Rightarrow> if flt_less (Num 0) a then ''income'' else ''expense''),
          bp_status = rec_status, bp_target_system = ''waveapps'', bp_target_account = category,
          bp_vendor = opt_text (bt_counterparty r), bp_category = category, bp_date = bt_date r,
          bp_amount = bt_amount r, bp_vat = None, bp_currency = (if bt_currency r = [] then ''EUR'' else bt_currency r),
          bp_description = opt_text (bt_description r),
          bp_confidence = (case rule of None \<Rightarrow> None | Some (_, x) \<Rightarrow> vr_confidence x),
          bp_review = (rec_status \<in> {''needs_review'', ''missing_receipt''}),
          bp_export = bank_export_status applied, bp_reconciliation = applied,
          bp_metadata =
            [(''accountIdentifier'', PStr (bt_account r)), (''transactionId'', PStr (bt_transaction r)),
             (''source'', PStr (bt_source r)), (''transactionStatus'', PStr (bt_status r)),
             (''duplicateFingerprint'', PStr (bt_fingerprint r)), (''appliedVendorCategoryRule'', rule_summary rule)]\<rparr>)"

definition bank_line_items :: "bank_row \<Rightarrow> book_payload \<Rightarrow> line_item list result" where
  "bank_line_items r p =
     map_sum id (\<lambda>li. [li])
       (normalize_line_item
          \<lparr>lf_category = bp_category p, lf_account = bp_target_account p, lf_description = bp_description p,
           lf_confidence = PNone, lf_source = ''bank_transaction''\<rparr>
          [(''description'', bp_description p), (''amount'', opt_number (bp_amount p)),
           (''accountName'', py_or (bp_target_account p) (py_or (dget (bt_metadata r) ''accountName'') (PStr (bt_account r)))),
           (''metadata'', PDict [(''transactionId'', PStr (bt_transaction r)), (''accountIdentifier'', PStr (bt_account r)),
             (''appliedVendorCategoryRule'', dget (bp_metadata p) ''appliedVendorCategoryRule'')])])"

definition record_by_bank :: "nat \<Rightarrow> export_ledger \<Rightarrow> (nat \<times> book_row) option" where
  "record_by_bank b L = find_row (bank_record b) (xl_records L)"

definition upsert_from_bank_transaction ::
  "record_service \<Rightarrow> nat \<Rightarrow> string option \<Rightarrow> string option \<Rightarrow> timestamp \<Rightarrow> book_ledger \<Rightarrow> (book_ledger \<times> nat option) result" where
  "upsert_from_bank_transaction bs b status reconciliation now B =
     (case lookup_row (bl_transactions (bo_bank B)) b of
        None \<Rightarrow> Inr (B, None)
      | Some r \<Rightarrow>
          (let p = bank_record_payload b r (bo_rules B) status reconciliation;
               earlier = (case record_by_bank b (bo_core B) of None \<Rightarrow> PNone
                         | Some (_, x) \<Rightarrow> dget (bk_metadata x) ''appliedVendorCategoryRule'');
               rule = dget (bp_metadata p) ''appliedVendorCategoryRule'';
               (t, rid) = upsert_bookkeeping_record bs now p (xl_records (bo_core B))
           in rbind (bank_line_items r p) (\<lambda>ls.
                (let B' = replace_line_items bs rid ls (with_records t B)
                 in Inr (if truthy rule \<and> rule \<noteq> earlier
                         then book_audit bs ''local_bookkeeping_records.vendor_category_rule.applied'' ''bank_transaction''
                                (PStr (str_of_nat b))
                                [(''bookkeepingRecordId'', PInt (int rid)), (''vendorName'', bp_vendor p),
                                 (''category'', bp_category p), (''appliedVendorCategoryRule'', rule)] now B'
                         else B', Some rid)))))"

section \<open>Resolving a record\<close>

definition BOOKKEEPING_RECORD_RESOLUTION_STATUSES :: "string list" where
  "BOOKKEEPING_RECORD_RESOLUTION_STATUSES = [''approved'', ''rejected'', ''resolved'', ''ignored'', ''needs_review'']"

definition record_status_for_resolution :: "string \<Rightarrow> string" where
  "record_status_for_resolution status = (if status \<in> {''approved'', ''resolved''} then ''ready_to_route'' else status)"

definition export_status_for_resolution :: "string \<Rightarrow> string \<Rightarrow> string" where
  "export_status_for_resolution status current =
     (if status \<in> {''approved'', ''resolved''} then (if current \<in> set PRESERVED_RECORD_EXPORT_STATUSES then current else ''ready'')
      else if status = ''needs_review'' then ''blocked_by_review''
      else ''not_applicable'')"

definition CORRECTION_ALIASES :: "(string \<times> string list) list" where
  "CORRECTION_ALIASES =
     [(''vendorName'', [''vendorName'', ''vendor_name'']), (''category'', [''category'']),
      (''recordDate'', [''recordDate'', ''record_date'', ''transactionDate'', ''transaction_date'']),
      (''amount'', [''amount'', ''totalAmount'', ''total_amount'']), (''vatAmount'', [''vatAmount'', ''vat_amount'']),
      (''currency'', [''currency'']), (''description'', [''description'']),
      (''targetSystem'', [''targetSystem'', ''target_system'']), (''targetAccount'', [''targetAccount'', ''target_account'']),
      (''recordType'', [''recordType'', ''record_type'']), (''confidenceScore'', [''confidenceScore'', ''confidence_score''])]"

definition corrected_value :: "py_env \<Rightarrow> string \<Rightarrow> pyval \<Rightarrow> pyval" where
  "corrected_value env name v =
     (if name \<in> {''amount'', ''vatAmount'', ''confidenceScore''} then opt_number (book_float v)
      else if name = ''currency'' then PStr (map upper_char (py_str env v))
      else v)"

definition record_corrections :: "py_env \<Rightarrow> pydict \<Rightarrow> pydict" where
  "record_corrections env corrections =
     concat (map (\<lambda>(name, keys).
       (let v = first_present (present_of corrections keys) in
        if is_blank v \<or> corrected_value env name v = PNone then [] else [(name, corrected_value env name v)]))
       CORRECTION_ALIASES)"

text \<open>The columns of the corrected fields; the target account has its own field.\<close>

definition correction_columns :: "record_service \<Rightarrow> pydict \<Rightarrow> pydict" where
  "correction_columns bs c =
     concat (map (\<lambda>(name, column). text_column bs column (dget c name))
       [(''recordType'', ''record_type''), (''targetSystem'', ''target_system''), (''vendorName'', ''vendor_name''),
        (''category'', ''category'')]) @
     (if dget c ''recordDate'' = PNone then []
      else text_column bs ''record_date'' (PStr (py_str (le_py (bs_env bs)) (dget c ''recordDate'')))) @
     number_column ''amount'' (book_float (dget c ''amount'')) @
     number_column ''vat_amount'' (book_float (dget c ''vatAmount'')) @
     text_column bs ''currency'' (dget c ''currency'') @ text_column bs ''description'' (dget c ''description'') @
     number_column ''confidence_score'' (book_float (dget c ''confidenceScore''))"

definition corrected_keys :: "pydict \<Rightarrow> pyval" where
  "corrected_keys c = PList (map PStr (sort_key id (map fst c)))"

definition resolution_entry ::
  "string \<Rightarrow> book_row \<Rightarrow> pydict \<Rightarrow> pyval \<Rightarrow> string \<Rightarrow> string \<Rightarrow> pydict" where
  "resolution_entry status r c resolution actor resolved_at =
     [(''resolutionStatus'', PStr status), (''fromStatus'', PStr (bk_status r)),
      (''toStatus'', PStr (record_status_for_resolution status)), (''fromExportStatus'', PStr (bk_export_status r)),
      (''toExportStatus'', PStr (export_status_for_resolution status (bk_export_status r))),
      (''fromReviewRequired'', PBool (bk_review_required r)), (''toReviewRequired'', PBool (status = ''needs_review'')),
      (''correctedFields'', corrected_keys c), (''resolution'', resolution), (''actor'', PStr actor),
      (''resolvedAt'', PStr resolved_at)]"

definition resolved_metadata :: "pydict \<Rightarrow> pydict \<Rightarrow> pydict" where
  "resolved_metadata entry m =
     (let history = (case dget m ''resolutionHistory'' of PList xs \<Rightarrow> xs | _ \<Rightarrow> []) in
      dset ''externalSubmission'' (PStr ''not_executed'')
        (dset ''lastResolution'' (PDict entry) (dset ''resolutionHistory'' (PList (history @ [PDict entry])) m)))"

definition resolve_row ::
  "record_service \<Rightarrow> string \<Rightarrow> pydict \<Rightarrow> pydict \<Rightarrow> timestamp \<Rightarrow> book_row \<Rightarrow> book_row" where
  "resolve_row bs status c entry now r =
     r\<lparr>bk_status := record_status_for_resolution status, bk_review_required := (status = ''needs_review''),
       bk_export_status := export_status_for_resolution status (bk_export_status r),
       bk_metadata := redact_dict (bs_env bs) (resolved_metadata entry (bk_metadata r)),
       bk_target_account := keep (sql_text (le_py (bs_env bs)) (dget c ''targetAccount'')) (bk_target_account r),
       bk_columns := dupdate (bk_columns r) (correction_columns bs c), bk_updated := whole_second now\<rparr>"

definition patch_line :: "pydict \<Rightarrow> bool \<Rightarrow> string \<Rightarrow> line_item \<Rightarrow> line_item" where
  "patch_line c single resolved_at li =
     (let has = (\<lambda>k. k \<in> fst ` set c) in
      li\<lparr>li_category := (if has ''category'' then dget c ''category'' else li_category li),
         li_account := (if has ''targetAccount'' then dget c ''targetAccount'' else li_account li),
         li_description := (if has ''description'' then dget c ''description'' else li_description li),
         li_amount := (if single \<and> has ''amount'' then book_float (dget c ''amount'') else li_amount li),
         li_tax := (if single \<and> has ''vatAmount'' then book_float (dget c ''vatAmount'') else li_tax li),
         li_metadata := dset ''latestRecordResolution'' (PDict [(''correctedFields'', corrected_keys c),
           (''resolvedAt'', PStr resolved_at)]) (li_metadata li)\<rparr>)"

definition line_of_record :: "book_row \<Rightarrow> line_item" where
  "line_of_record r =
     \<lparr>li_name = PNone, li_description = dget (bk_columns r) ''description'', li_quantity = None, li_price = None,
      li_amount = book_float (dget (bk_columns r) ''amount''), li_tax = book_float (dget (bk_columns r) ''vat_amount''),
      li_rate = None, li_code = PNone, li_category = dget (bk_columns r) ''category'',
      li_account = opt_text (bk_target_account r), li_source = PStr ''record_resolution'', li_confidence = None,
      li_metadata = [(''fallback'', PStr ''record_resolution'')]\<rparr>"

definition refresh_line_items :: "record_service \<Rightarrow> nat \<Rightarrow> pydict \<Rightarrow> string \<Rightarrow> book_ledger \<Rightarrow> book_ledger" where
  "refresh_line_items bs rid c resolved_at B =
     (if c = [] then B
      else (let ls = (case bo_lines B rid of
                        [] \<Rightarrow> (case lookup_row (xl_records (bo_core B)) rid of None \<Rightarrow> [] | Some r \<Rightarrow> [line_of_record r])
                      | xs \<Rightarrow> xs)
            in replace_line_items bs rid (map (patch_line c (length ls = 1) resolved_at) ls) B))"

datatype resolve_reply = Record_not_found | Record_resolved string "string list"

definition resolve_record ::
  "record_service \<Rightarrow> nat \<Rightarrow> pyval \<Rightarrow> pyval \<Rightarrow> pydict \<Rightarrow> string \<Rightarrow> timestamp \<Rightarrow> book_ledger \<Rightarrow> (book_ledger \<times> resolve_reply) result" where
  "resolve_record bs rid status_value resolution corrections actor now B =
     (let env = bs_env bs; status = lower (strip (text_or (le_py env) status_value ''resolved'')) in
      if status \<notin> set BOOKKEEPING_RECORD_RESOLUTION_STATUSES then Inl ValueError
      else (case lookup_row (xl_records (bo_core B)) rid of
              None \<Rightarrow> Inr (B, Record_not_found)
            | Some r \<Rightarrow>
                (let c = record_corrections (le_py env) corrections;
                     resolved_at = le_iso env (whole_second now);
                     entry = resolution_entry status r c resolution actor resolved_at;
                     B1 = with_records (update_row rid (resolve_row bs status c entry now) (xl_records (bo_core B))) B;
                     B2 = refresh_line_items bs rid c resolved_at B1
                 in Inr (book_audit bs ''local_bookkeeping_records.record.resolve'' ''bookkeeping_record'' (PStr (str_of_nat rid))
                      [(''resolutionStatus'', PStr status), (''fromStatus'', PStr (bk_status r)),
                       (''toStatus'', PStr (record_status_for_resolution status)), (''fromExportStatus'', PStr (bk_export_status r)),
                       (''toExportStatus'', PStr (export_status_for_resolution status (bk_export_status r))),
                       (''correctedFields'', corrected_keys c), (''actor'', PStr actor), (''resolution'', resolution),
                       (''externalSubmission'', PStr ''not_executed'')] now B2,
                     Record_resolved (record_status_for_resolution status) (sort_key id (map fst c))))))"

section \<open>States of the reconciliation\<close>

definition latest_reconciliation :: "string \<Rightarrow> nat option \<Rightarrow> pydict \<Rightarrow> pydict" where
  "latest_reconciliation reconciliation match metadata =
     dset ''latestReconciliation'' (PDict [(''status'', PStr reconciliation), (''reconciliationMatchId'', opt_nat match)]) metadata"

definition record_reconciliation_state ::
  "record_service \<Rightarrow> nat \<Rightarrow> string \<Rightarrow> string option \<Rightarrow> nat option \<Rightarrow> timestamp \<Rightarrow> book_ledger \<Rightarrow> (book_ledger \<times> book_reply option) result" where
  "record_reconciliation_state bs d reconciliation status match now B =
     rbind (upsert_from_document bs d status now B) (\<lambda>(B', reply).
       case reply of
         None \<Rightarrow> Inr (B', None)
       | Some rp \<Rightarrow>
           (let write = (\<lambda>r. r\<lparr>bk_reconciliation := reconciliation,
                    bk_metadata := redact_dict (bs_env bs) (latest_reconciliation reconciliation match (bk_metadata r)),
                    bk_status := (case status of None \<Rightarrow> bk_status r | Some s \<Rightarrow> if s = [] then bk_status r else s),
                    bk_updated := whole_second now\<rparr>)
            in Inr (with_records (update_row (br_record rp) write (xl_records (bo_core B'))) B',
                    Some (rp\<lparr>br_reconciliation := reconciliation,
                            br_status := (case status of None \<Rightarrow> br_status rp | Some s \<Rightarrow> if s = [] then br_status rp else s)\<rparr>))))"

definition with_latest_export :: "string \<Rightarrow> nat option \<Rightarrow> pydict \<Rightarrow> pydict \<Rightarrow> pydict" where
  "with_latest_export export routing details metadata =
     dset ''latestExport'' (PDict [(''status'', PStr export), (''routingAttemptId'', opt_nat routing), (''details'', PDict details)])
       metadata"

definition export_state_row ::
  "record_service \<Rightarrow> string \<Rightarrow> string option \<Rightarrow> nat option \<Rightarrow> pydict \<Rightarrow> timestamp \<Rightarrow> book_row \<Rightarrow> book_row" where
  "export_state_row bs export status routing details now r =
     r\<lparr>bk_export_status := export,
       bk_metadata := redact_dict (bs_env bs) (with_latest_export export routing details (bk_metadata r)),
       bk_status := (case status of None \<Rightarrow> bk_status r | Some s \<Rightarrow> if s = [] then bk_status r else s),
       bk_updated := whole_second now\<rparr>"

definition record_export_state ::
  "record_service \<Rightarrow> nat \<Rightarrow> string \<Rightarrow> string option \<Rightarrow> nat option \<Rightarrow> pydict \<Rightarrow> timestamp \<Rightarrow> book_ledger \<Rightarrow> (book_ledger \<times> book_reply option) result" where
  "record_export_state bs d export status routing details now B =
     rbind (upsert_from_document bs d status now B) (\<lambda>(B', reply).
       case reply of
         None \<Rightarrow> Inr (B', None)
       | Some rp \<Rightarrow>
           Inr (with_records (update_row (br_record rp) (export_state_row bs export status routing details now)
                  (xl_records (bo_core B'))) B',
                Some (rp\<lparr>br_export := export,
                        br_status := (case status of None \<Rightarrow> br_status rp | Some s \<Rightarrow> if s = [] then br_status rp else s)\<rparr>)))"

section \<open>Refreshing many records\<close>

text \<open>
  The documents by the text of their last update, the newest first. The bank transactions come in
  the order of \<open>newest_transactions\<close>.
\<close>

definition newest_documents :: "record_service \<Rightarrow> int \<Rightarrow> book_ledger \<Rightarrow> nat list" where
  "newest_documents bs limit B =
     take (bounded_limit limit)
       (map fst (rev (sort_key (\<lambda>(d, doc). text_or (le_py (bs_env bs)) (dget doc ''updated_at'') [])
          (sort_key fst (trows (xl_documents (bo_core B)))))))"

record refresh_summary =
  fs_requested :: nat
  fs_updated :: nat
  fs_failed :: nat
  fs_noted :: nat

definition refresh_documents :: "record_service \<Rightarrow> int \<Rightarrow> timestamp \<Rightarrow> refresh_summary act" where
  "refresh_documents bs limit now B =
     (let ds = newest_documents bs limit B in
      act_bind (act_all (\<lambda>d. act_result (upsert_from_document bs d None now)) ds) (\<lambda>replies.
        act_return \<lparr>fs_requested = length ds, fs_updated = length (filter (\<lambda>r. r \<noteq> None) replies),
          fs_failed = length (filter (\<lambda>r. r = None) replies),
          fs_noted = sum_list (map (\<lambda>r. case r of None \<Rightarrow> 0 | Some rp \<Rightarrow> length (br_issues rp)) replies)\<rparr>) B)"

definition applied_rule :: "nat option \<Rightarrow> book_ledger \<Rightarrow> bool" where
  "applied_rule rid B =
     (case rid of None \<Rightarrow> False
      | Some i \<Rightarrow> (case lookup_row (xl_records (bo_core B)) i of None \<Rightarrow> False
                  | Some r \<Rightarrow> truthy (dget (bk_metadata r) ''appliedVendorCategoryRule'')))"

definition refresh_bank_transactions :: "record_service \<Rightarrow> int \<Rightarrow> timestamp \<Rightarrow> refresh_summary act" where
  "refresh_bank_transactions bs limit now B =
     (let ts = map fst (take (bounded_limit limit) (newest_transactions (bo_bank B))) in
      act_bind (act_all (\<lambda>t. act_bind (act_result (upsert_from_bank_transaction bs t None None now))
                    (\<lambda>rid B. (Inr (rid, applied_rule rid B), B))) ts) (\<lambda>replies.
        (let s = \<lparr>fs_requested = length ts, fs_updated = length (filter (\<lambda>(rid, _). rid \<noteq> None) replies),
                  fs_failed = length (filter (\<lambda>(rid, _). rid = None) replies), fs_noted = length (filter snd replies)\<rparr>
         in act_bind (act_modify (book_audit bs ''local_bookkeeping_records.bank_transactions_refreshed'' ''bookkeeping_record'' PNone
                [(''requested'', PInt (int (fs_requested s))), (''updated'', PInt (int (fs_updated s))),
                 (''failed'', PInt (int (fs_failed s))), (''ruleApplied'', PInt (int (fs_noted s))),
                 (''externalSubmission'', PStr ''not_executed'')] now)) (\<lambda>_. act_return s))) B)"

section \<open>What the export service uses\<close>

text \<open>
  What the export service asks of this service: the record table and the audit events after
  \<open>upsert_from_document\<close>, and the record's id.
\<close>

definition sync_record ::
  "record_service \<Rightarrow> timestamp \<Rightarrow> nat \<Rightarrow> string option \<Rightarrow> export_ledger \<Rightarrow> (book_row table \<times> ledger_event list) \<times> nat option" where
  "sync_record bs now d status L =
     (let B = \<lparr>bo_bank = \<lparr>bl_core = L, bl_imports = empty_table, bl_transactions = empty_table, bl_matches = empty_table\<rparr>,
               bo_lines = (\<lambda>_. []), bo_rules = empty_table\<rparr>
      in case upsert_from_document bs d status now B of
           Inr (B', Some rp) \<Rightarrow>
             ((xl_records (bo_core B'), drop (length (xl_events L)) (xl_events (bo_core B'))), Some (br_record rp))
         | _ \<Rightarrow> ((xl_records L, []), None))"

end
