(* ===== verification/Book_Properties.thy ===== *)
theory Book_Properties
  imports Book_Line_Properties Book_Service
begin

text \<open>
  What a bookkeeping record marked ready for export is known to have, what a person decides about
  a record, and what the next refresh of its document leaves of that decision.
\<close>

section \<open>When a document can be recorded\<close>

definition has_dict :: "pydict \<Rightarrow> string \<Rightarrow> bool" where
  "has_dict d k \<longleftrightarrow> (\<exists>m. dict_of (dget d k) = Inr m)"

lemma normalize_ok: "(\<exists>li. normalize_line_item fb item = Inr li) \<longleftrightarrow> has_dict item ''metadata''"
proof -
  obtain quantity price amount where l: "line_amounts item = (quantity, price, amount)" by (metis prod_cases3)
  show ?thesis
    by (cases "dict_of (dget item ''metadata'')") (simp_all add: normalize_line_item_def has_dict_def l Let_def)
qed

lemma rmap_ok: "(\<exists>ys. rmap f xs = Inr ys) \<longleftrightarrow> (\<forall>x \<in> set xs. \<exists>y. f x = Inr y)"
proof (induction xs)
  case (Cons x xs)
  show ?case using Cons by (cases "f x"; cases "rmap f xs") auto
qed simp

definition extracted_lines :: "pydict \<Rightarrow> pydict list" where
  "extracted_lines extracted =
     (case py_or (dget extracted ''line_items'') (py_or (dget extracted ''lineItems'') (PList [])) of
        PList xs \<Rightarrow> concat (map (\<lambda>x. case x of PDict d \<Rightarrow> [d] | _ \<Rightarrow> []) xs) | _ \<Rightarrow> [])"

lemma extracted_ok:
  "(\<exists>items. extracted_items env fb extracted = Inr items) \<longleftrightarrow> (\<forall>x \<in> set (extracted_lines extracted). has_dict x ''metadata'')"
proof -
  have "(\<exists>items. extracted_items env fb extracted = Inr items) \<longleftrightarrow>
      (\<exists>ys. rmap (normalize_line_item fb) (extracted_lines extracted) = Inr ys)"
    by (cases "rmap (normalize_line_item fb) (extracted_lines extracted)")
      (auto simp: extracted_items_def extracted_lines_def Let_def)
  then show ?thesis by (simp only: rmap_ok normalize_ok)
qed

lemma document_lines_ok:
  "(\<exists>ls. document_lines env extracted category account amount vat description confidence = Inr ls) \<longleftrightarrow>
     (\<forall>x \<in> set (extracted_lines extracted). has_dict x ''metadata'')"
proof -
  let ?fb = "\<lparr>lf_category = category, lf_account = account, lf_description = description,
                lf_confidence = opt_number confidence, lf_source = ''extracted_line_item''\<rparr>"
  have total: "\<exists>ls. map_sum id (\<lambda>li. [li]) (normalize_line_item fb (fallback_item description amount vat all_lines priced)) = Inr ls"
    for fb all_lines priced
  proof -
    have "\<exists>li. normalize_line_item fb (fallback_item description amount vat all_lines priced) = Inr li"
      unfolding normalize_ok by (simp add: has_dict_def fallback_item_def dict_of_def Let_def)
    then show ?thesis by auto
  qed
  have "(\<exists>ls. document_lines env extracted category account amount vat description confidence = Inr ls) \<longleftrightarrow>
      (\<exists>items. extracted_items env ?fb extracted = Inr items)"
  proof (cases "extracted_items env ?fb extracted")
    case (Inr items)
    then show ?thesis by (simp add: document_lines_def Let_def total)
  qed (simp add: document_lines_def Let_def)
  then show ?thesis by (simp only: extracted_ok)
qed

definition recordable :: "pydict \<Rightarrow> bool" where
  "recordable doc \<longleftrightarrow> has_dict doc ''extracted_data'' \<and> has_dict doc ''metadata'' \<and>
     (\<forall>x \<in> set (extracted_lines (as_dict (dget doc ''extracted_data''))). has_dict x ''metadata'')"

lemma dict_of_as_dict: "dict_of v = Inr m \<Longrightarrow> as_dict v = m"
  by (auto simp: dict_of_def split: if_splits pyval.splits) (cases v; auto)

text \<open>
  Recording a document raises only when the stored extraction, the metadata or the metadata of an
  extracted line is not a dictionary.
\<close>

lemma recordable_payload:
  assumes "recordable doc"
  shows "\<exists>p ls. document_record_payload bs d doc L status = Inr (p, ls)"
proof -
  obtain ex metadata where d: "dict_of (dget doc ''extracted_data'') = Inr ex" "dict_of (dget doc ''metadata'') = Inr metadata"
    using assms by (auto simp: recordable_def has_dict_def)
  let ?f = "read_document bs doc ex metadata"
  have "\<exists>ls. document_lines (le_py (bs_env bs)) ex (df_category ?f) (df_account ?f) (df_amount ?f) (df_vat ?f) (df_description ?f)
      (df_confidence ?f) = Inr ls"
    using assms dict_of_as_dict [OF d(1)] by (simp add: document_lines_ok recordable_def)
  then show ?thesis by (auto simp: document_record_payload_def d facts_lines_def)
qed

section \<open>Ready records\<close>

lemma payload_parts:
  assumes "document_record_payload bs d doc L status = Inr (p, ls)"
  obtains ex metadata f where "f = read_document bs doc ex metadata" "facts_lines bs ex f = Inr ls"
    "p = document_payload bs d doc ex metadata f ls L status"
  using assms by (auto simp: document_record_payload_def dest!: rbind_eq_InrD)

lemma issue_nonempty [simp]: "issue_of field reason evidence assessment \<noteq> []"
  by (simp add: issue_of_def)

lemma ready_export:
  "export_status_for_document processing routing review = ''ready'' \<Longrightarrow>
     \<not> review \<and> processing \<in> set READY_DOCUMENT_STATUSES"
  by (auto simp: export_status_for_document_def export_status_for_processing_def starts_blocked_def
      split: option.splits if_splits)

lemma all_lines_priced:
  assumes "document_lines env extracted category account (Some a) vat description confidence = Inr ls"
  shows "list_all (\<lambda>li. li_amount li \<noteq> None) ls"
  using assms
proof (cases rule: document_lines_cases)
  case (direct items)
  then show ?thesis by (auto simp: list_all_iff)
next
  case (absolute items priced)
  then show ?thesis by (auto simp: list_all_iff direct_line_def)
next
  case (total_line fb item li)
  obtain quantity price amount where l: "line_amounts item = (quantity, price, amount)" by (metis prod_cases3)
  have "first_present (present_of item [''amount'', ''total'', ''total_amount'', ''totalAmount'']) = PFloat a"
    using total_line(3) by (simp add: present_of_def opt_number_def is_blank_def)
  then have "amount \<noteq> None" using l by (auto simp: line_amounts_def Let_def)
  then show ?thesis using total_line(1,2) by (auto simp: normalize_line_item_def l Let_def dest!: rbind_eq_InrD)
qed

lemma blank_date [simp]: "\<not> blank_text env (opt_text day) \<longleftrightarrow> (\<exists>s. day = Some s \<and> strip s \<noteq> [])"
  by (cases day) (simp_all add: blank_text_def opt_text_def)

text \<open>
  C14: A document record that is ready for export has a vendor, a category that is not a request for
  review, a plausible date and an amount, a confidence that is not below the threshold, VAT that
  fits the amount, lines with amounts, no open review and no known duplicate.
\<close>

theorem ready_record_is_complete:
  assumes "document_record_payload bs d doc L status = Inr (p, ls)" and "bp_export p = ''ready''"
  shows "\<not> bp_review p \<and> \<not> blank_text (le_py (bs_env bs)) (bp_vendor p) \<and> \<not> manual_category (le_py (bs_env bs)) (bp_category p) \<and>
    (\<exists>day. bp_date p = Some day \<and> strip day \<noteq> []) \<and> (\<exists>a. bp_amount p = Some a) \<and>
    list_all (\<lambda>li. li_amount li \<noteq> None) ls \<and>
    vc_valid (assess_vat_amount (opt_number (bp_vat p)) (opt_number (bp_amount p)) (PFloat (bs_ratio bs))) \<and>
    (case bp_confidence p of None \<Rightarrow> True | Some c \<Rightarrow> \<not> flt_less c (bs_threshold bs)) \<and>
    open_reviews_for d L = [] \<and> \<not> truthy (dget doc ''duplicate_of_document_id'') \<and>
    text_or (le_py (bs_env bs)) (dget doc ''processing_status'') [] \<in> set READY_DOCUMENT_STATUSES"
proof -
  from assms(1) obtain ex metadata f where f: "f = read_document bs doc ex metadata" and
      lines: "facts_lines bs ex f = Inr ls" and p: "p = document_payload bs d doc ex metadata f ls L status"
    by (rule payload_parts)
  have "payload_export bs d doc f ls L = ''ready''" using assms(2) by (simp add: p document_payload_def)
  then have e: "payload_issues bs f ls = []" "\<not> df_non_posting f" "\<not> payload_review bs d doc f ls L"
      "text_or (le_py (bs_env bs)) (dget doc ''processing_status'') [] \<in> set READY_DOCUMENT_STATUSES"
    using ready_export [of _ "map_option snd (latest_routing d L)" "payload_review bs d doc f ls L"]
    by (auto simp: payload_export_def split: if_splits)
  have m: "missing_document_fields (le_py (bs_env bs)) (df_vendor f) (df_category f) (record_day (df_date f)) (df_amount f) = []"
    and r: "\<not> truthy (dget doc ''duplicate_of_document_id'')" "open_reviews_for d L = []"
      "case df_confidence f of None \<Rightarrow> True | Some c \<Rightarrow> \<not> flt_less c (bs_threshold bs)" "\<not> manual_category (le_py (bs_env bs)) (df_category f)"
    using e(2,3) by (auto simp: payload_review_def facts_missing_def document_review_required_def split: option.splits)
  have "vc_valid (df_vat_check f)" using e(1,2) by (auto simp: payload_issues_def field_issues_def split: if_splits)
  then have vat: "vc_valid (assess_vat_amount (opt_number (df_vat f)) (opt_number (df_amount f)) (PFloat (bs_ratio bs)))"
    by (simp add: f read_document_def Let_def split: if_splits)
  obtain a where a: "df_amount f = Some a" using m by (auto simp: missing_document_fields_def split: if_splits)
  have "list_all (\<lambda>li. li_amount li \<noteq> None) ls" using lines e(2) all_lines_priced a by (auto simp: facts_lines_def)
  moreover have "\<not> blank_text (le_py (bs_env bs)) (df_vendor f)" "\<exists>day. record_day (df_date f) = Some day \<and> strip day \<noteq> []"
    using m by (auto simp: missing_document_fields_def split: if_splits)
  ultimately show ?thesis using e r vat a by (simp add: p document_payload_def)
qed

definition demo_receipt :: pydict where
  "demo_receipt =
     [(''vendor_name'', PStr ''Shop''), (''category'', PStr ''Office''), (''transaction_date'', PStr ''2024-05-06''),
      (''total_amount'', PInt 100), (''processing_status'', PStr ''processed''), (''confidence_score'', PFloat (Num (9 / 10)))]"

definition demo_records :: record_service where
  "demo_records = init_record_service plain_ledger_env (PyDate 2024 6 1) []"

definition demo_payload :: "book_payload \<times> line_item list" where
  "demo_payload = projr (document_record_payload demo_records 1 demo_receipt empty_export_ledger None)"

lemma demo_receipt_payload:
  "document_record_payload demo_records 1 demo_receipt empty_export_ledger None = Inr (fst demo_payload, snd demo_payload)"
proof -
  have "isl (document_record_payload demo_records 1 demo_receipt empty_export_ledger None) = False" by code_simp
  then show ?thesis by (simp add: demo_payload_def)
qed

lemma demo_payload_ready: "bp_export (fst demo_payload) = ''ready''"
  by code_simp

theorem ready_record_is_complete_witness:
  "\<exists>a. bp_amount (fst demo_payload) = Some a"
  using ready_record_is_complete [OF demo_receipt_payload demo_payload_ready]
  by blast

section \<open>A refresh after a decision\<close>

lemma resolve_record_parts:
  assumes "resolve_record bs rid sv res corr actor now B = Inr (C, Record_resolved st ks)"
  obtains r status c entry where "lookup_row (xl_records (bo_core B)) rid = Some r"
    "xl_records (bo_core C) = update_row rid (resolve_row bs status c entry now) (xl_records (bo_core B))"
    "xl_documents (bo_core C) = xl_documents (bo_core B)" "xl_reviews (bo_core C) = xl_reviews (bo_core B)"
    "xl_routing (bo_core C) = xl_routing (bo_core B)"
  using assms
  by (auto simp: resolve_record_def Let_def refresh_line_items_def book_audit_def with_core_def with_records_def
      record_audit_def replace_line_items_def split: if_splits option.splits)

text \<open>The payload depends on the document, its reviews and its routing only.\<close>

lemma payload_cong:
  assumes "xl_reviews M = xl_reviews L" and "xl_routing M = xl_routing L"
  shows "document_record_payload bs d doc M status = document_record_payload bs d doc L status"
proof -
  have "open_reviews_for d M = open_reviews_for d L" "latest_routing d M = latest_routing d L"
    using assms by (simp_all add: open_reviews_for_def latest_routing_def)
  then show ?thesis
    by (simp only: document_record_payload_def document_payload_def payload_status_def payload_export_def payload_review_def)
qed

lemma payload_any:
  assumes "document_record_payload bs d doc L status = Inr (p, ls)"
  obtains q where "document_record_payload bs d doc M status' = Inr (q, ls)"
  using assms by (auto simp: document_record_payload_def dest!: rbind_eq_InrD)

lemma find_row_update:
  assumes "find_row P t = Some (i, r)" and "wf_table t" and "\<And>r. P (f r) \<longleftrightarrow> P r"
  shows "find_row P (update_row i f t) = Some (i, f r)"
proof -
  have "find (\<lambda>(j, r). P r) xs = Some (i, r) \<Longrightarrow> distinct (map fst xs) \<Longrightarrow>
      find (\<lambda>(j, r). P r) (map (\<lambda>(j, r). (j, if j = i then f r else r)) xs) = Some (i, f r)" for xs
    using assms(3) by (induction xs) (auto split: if_splits)
  then show ?thesis using assms(1,2) by (simp add: find_row_def update_row_def wf_table_def)
qed

definition recorded :: "record_service \<Rightarrow> book_payload \<Rightarrow> book_row \<Rightarrow> bool" where
  "recorded bs p r \<longleftrightarrow> bk_status r = bp_status p \<and> bk_export_status r = bp_export p \<and> bk_review_required r = bp_review p \<and>
     bk_metadata r = redact_dict (bs_env bs) (bp_metadata p)"

lemma upsert_record_writes:
  assumes "bp_document p = Some d" and "bp_bank p = None" and "wf_table t"
  obtains u rid x where "upsert_bookkeeping_record bs now p t = (u, rid)" "lookup_row u rid = Some x" "recorded bs p x"
    "bk_document x = Some d" "wf_table u" "\<forall>j r. find_row (\<lambda>b. bk_document b = Some d) t = Some (j, r) \<longrightarrow> rid = j"
proof -
  have e: "existing_record p t = find_row (\<lambda>b. bk_document b = Some d) t"
    by (simp add: existing_record_def assms(1,2) split: option.split)
  have w: "recorded bs p (write_payload bs now p r)" "bk_document (write_payload bs now p r) = Some d" for r
    by (simp_all add: recorded_def write_payload_def assms(1) keep_def)
  show thesis
  proof (cases "find_row (\<lambda>b. bk_document b = Some d) t")
    case None
    obtain u rid where ins: "insert_row (write_payload bs now p (blank_record now)) t = (u, rid)" by (rule prod.exhaust)
    have "lookup_row u rid = Some (write_payload bs now p (blank_record now))" "wf_table u"
      using lookup_insert_row [OF assms(3), of "write_payload bs now p (blank_record now)" rid]
        wf_insert_row [OF assms(3), of "write_payload bs now p (blank_record now)"] by (simp_all add: ins)
    then show ?thesis using that [of u rid] w by (simp add: upsert_bookkeeping_record_def e None ins)
  next
    case (Some jr)
    obtain j r where jr: "jr = (j, r)" by (cases jr)
    have "lookup_row t j = Some r" using Some assms(3) by (simp add: jr find_row_Some(1))
    then have "lookup_row (update_row j (write_payload bs now p) t) j = Some (write_payload bs now p r)"
      by (simp add: lookup_update_row)
    then show ?thesis
      by (rule that [of "update_row j (write_payload bs now p) t" j "write_payload bs now p r", rotated])
        (use w assms(3) in \<open>simp_all add: upsert_bookkeeping_record_def e Some jr\<close>)
  qed
qed

lemma store_payload_writes:
  assumes "bp_document p = Some d" and "bp_bank p = None" and "wf_table (xl_records (bo_core B))"
  shows "\<exists>C rid x. store_payload bs now p ls B = (C, rid) \<and> lookup_row (xl_records (bo_core C)) rid = Some x \<and>
    recorded bs p x \<and> bk_document x = Some d \<and> wf_table (xl_records (bo_core C)) \<and>
    (\<forall>j r. record_by_document d (bo_core B) = Some (j, r) \<longrightarrow> rid = j)"
proof -
  obtain u rid x where u: "upsert_bookkeeping_record bs now p (xl_records (bo_core B)) = (u, rid)" "lookup_row u rid = Some x"
      "recorded bs p x" "bk_document x = Some d" "wf_table u"
      "\<forall>j r. record_by_document d (bo_core B) = Some (j, r) \<longrightarrow> rid = j"
    unfolding record_by_document_def by (rule upsert_record_writes [OF assms]) blast
  have c: "recorded bs p (clear_columns now ks x)" "bk_document (clear_columns now ks x) = Some d" for ks
    using u(3,4) by (simp_all add: recorded_def clear_columns_def)
  show ?thesis using u c
    by (simp add: store_payload_def Let_def replace_line_items_def with_records_def with_core_def lookup_update_row)
qed

lemma upsert_writes:
  assumes "lookup_row (xl_documents (bo_core B)) d = Some doc" and "wf_table (xl_records (bo_core B))"
    and "document_record_payload bs d doc (bo_core B) status = Inr (p, ls)"
  shows "\<exists>C rp x. upsert_from_document bs d status now B = Inr (C, Some rp) \<and>
    lookup_row (xl_records (bo_core C)) (br_record rp) = Some x \<and> recorded bs p x \<and> bk_document x = Some d \<and>
    wf_table (xl_records (bo_core C)) \<and> (\<forall>j r. record_by_document d (bo_core B) = Some (j, r) \<longrightarrow> br_record rp = j)"
proof -
  have "bp_document p = Some d" "bp_bank p = None"
    using assms(3) by (rule payload_parts, simp add: document_payload_def)+
  from store_payload_writes [OF this assms(2), of bs now ls]
  show ?thesis
    by (auto simp: upsert_from_document_def assms(1,3) Let_def book_audit_def with_core_def record_audit_def)
qed

lemma refresh_writes:
  assumes "lookup_row (xl_documents (bo_core B)) d = Some doc" and "record_by_document d (bo_core B) = Some (rid, r)"
    and "wf_table (xl_records (bo_core B))" and "document_record_payload bs d doc (bo_core B) None = Inr (p, ls)"
  shows "\<exists>C rp x. upsert_from_document bs d None now B = Inr (C, Some rp) \<and> br_record rp = rid \<and>
    lookup_row (xl_records (bo_core C)) rid = Some x \<and> recorded bs p x"
  using upsert_writes [OF assms(1,3,4), of now] assms(2) by auto

text \<open>
  C40: A decision about the record of a document does not survive the next refresh of the document:
  the status, the export status, the review flag and the metadata with the history of decisions
  are again those computed from the document, as before the decision.
\<close>

theorem refresh_discards_resolutions:
  assumes "resolve_record bs rid sv res corr actor now B = Inr (C, Record_resolved st ks)"
    and "lookup_row (xl_documents (bo_core B)) d = Some doc" and "record_by_document d (bo_core B) = Some (rid, r)"
    and "wf_table (xl_records (bo_core B))" and "document_record_payload bs d doc (bo_core B) None = Inr (p, ls)"
  shows "\<exists>D rp x. upsert_from_document bs d None later C = Inr (D, Some rp) \<and>
    lookup_row (xl_records (bo_core D)) rid = Some x \<and> recorded bs p x"
proof -
  obtain r' status c entry where C:
    "xl_records (bo_core C) = update_row rid (resolve_row bs status c entry now) (xl_records (bo_core B))"
    "xl_documents (bo_core C) = xl_documents (bo_core B)" "xl_reviews (bo_core C) = xl_reviews (bo_core B)"
    "xl_routing (bo_core C) = xl_routing (bo_core B)"
    using assms(1) by (rule resolve_record_parts)
  have "record_by_document d (bo_core C) = Some (rid, resolve_row bs status c entry now r)"
    using assms(3,4) by (simp add: record_by_document_def C find_row_update resolve_row_def)
  moreover have "document_record_payload bs d doc (bo_core C) None = Inr (p, ls)"
    using assms(5) payload_cong [of "bo_core C" "bo_core B"] by (simp add: C)
  ultimately show ?thesis using assms(2,4) refresh_writes [of C d doc rid _ bs p ls later] by (auto simp: C)
qed

definition demo_books :: book_ledger where
  "demo_books =
     \<lparr>bo_bank = \<lparr>bl_core = empty_export_ledger\<lparr>xl_documents := \<lparr>trows = [(1, demo_receipt)], tlast = 1\<rparr>,
          xl_records := \<lparr>trows = [(1, (blank_record (Timestamp 0))\<lparr>bk_document := Some 1\<rparr>)], tlast = 1\<rparr>\<rparr>,
        bl_imports = empty_table, bl_transactions = empty_table, bl_matches = empty_table\<rparr>,
      bo_lines = (\<lambda>_. []), bo_rules = empty_table\<rparr>"

definition demo_rejected :: "book_ledger \<times> resolve_reply" where
  "demo_rejected = projr (resolve_record demo_records 1 (PStr ''rejected'') PNone [] ''u'' (Timestamp 0) demo_books)"

text \<open>A rejected record becomes ready for export again.\<close>

theorem refresh_discards_resolutions_witness:
  "\<exists>D rp x. upsert_from_document demo_records 1 None (Timestamp 1) (fst demo_rejected) = Inr (D, Some rp) \<and>
    lookup_row (xl_records (bo_core D)) 1 = Some x \<and> bk_export_status x = ''ready''"
proof -
  have "resolve_record demo_records 1 (PStr ''rejected'') PNone [] ''u'' (Timestamp 0) demo_books =
      Inr (fst demo_rejected, Record_resolved ''rejected'' [])"
  proof -
    have "map_sum id snd (resolve_record demo_records 1 (PStr ''rejected'') PNone [] ''u'' (Timestamp 0) demo_books) =
        Inr (Record_resolved ''rejected'' [])" by code_simp
    then show ?thesis
      by (cases "resolve_record demo_records 1 (PStr ''rejected'') PNone [] ''u'' (Timestamp 0) demo_books")
        (auto simp: demo_rejected_def)
  qed
  moreover have "document_record_payload demo_records 1 demo_receipt (bo_core demo_books) None = Inr (fst demo_payload, snd demo_payload)"
    using demo_receipt_payload payload_cong [of "bo_core demo_books" empty_export_ledger] by (simp add: demo_books_def)
  ultimately show ?thesis
    using refresh_discards_resolutions [of demo_records 1 "PStr ''rejected''" PNone "[]" "''u''" "Timestamp 0" demo_books
        "fst demo_rejected" "''rejected''" "[]" 1 demo_receipt "(blank_record (Timestamp 0))\<lparr>bk_document := Some 1\<rparr>"
        "fst demo_payload" "snd demo_payload" "Timestamp 1"] demo_payload_ready
    by (auto simp: demo_books_def record_by_document_def find_row_def wf_table_def lookup_row_def recorded_def)
qed

end
