(* ===== verification/Local_Reconcile.thy ===== *)
theory Local_Reconcile
  imports Book_Service Reconcile
begin

text \<open>
  \<open>LocalReconciliationService\<close> (src/operations/local_reconciliation.py): matching the documents of
  the ledger with bank transactions, recording what was found, and the decision of a person on a
  match.
\<close>

section \<open>Tables\<close>

definition with_matches :: "match_row table \<Rightarrow> book_ledger \<Rightarrow> book_ledger" where
  "with_matches t B = B\<lparr>bo_bank := (bo_bank B)\<lparr>bl_matches := t\<rparr>\<rparr>"

abbreviation bo_matches :: "book_ledger \<Rightarrow> match_row table" where
  "bo_matches B \<equiv> bl_matches (bo_bank B)"

text \<open>The newest match of the given document (any when none is given) and transaction.\<close>

definition of_pair :: "nat option \<Rightarrow> string \<Rightarrow> match_row \<Rightarrow> bool" where
  "of_pair doc bank r \<longleftrightarrow> (doc = None \<or> mr_document r = doc) \<and> (bank = [] \<or> mr_bank r = bank)"

definition existing_reconciliation :: "nat option \<Rightarrow> string \<Rightarrow> book_ledger \<Rightarrow> (nat \<times> match_row) option" where
  "existing_reconciliation doc bank B =
     (case sort_key (\<lambda>(i, r). - micros (mr_created r)) (rev (sort_key fst (select_rows (of_pair doc bank) (bo_matches B)))) of
        [] \<Rightarrow> None | x # _ \<Rightarrow> Some x)"

definition create_match :: "match_row \<Rightarrow> nat act" where
  "create_match r B = (let (t, i) = insert_row r (bo_matches B) in (Inr i, with_matches t B))"

definition update_match :: "nat \<Rightarrow> (match_row \<Rightarrow> match_row) \<Rightarrow> unit act" where
  "update_match i f = act_modify (\<lambda>B. with_matches (update_row i f (bo_matches B)) B)"

definition set_document_reconciliation :: "record_service \<Rightarrow> nat \<Rightarrow> string \<Rightarrow> timestamp \<Rightarrow> unit act" where
  "set_document_reconciliation bs d status now =
     act_modify (\<lambda>B. with_core ((bo_core B)\<lparr>xl_documents := update_row d
        (\<lambda>doc. dset ''updated_at'' (PStr (le_iso (bs_env bs) (whole_second now)))
                 (dset ''reconciliation_status'' (PStr status) doc)) (xl_documents (bo_core B))\<rparr>) B)"

text \<open>The open items of a document, newest first, at most 50.\<close>

definition open_items_of :: "nat \<Rightarrow> book_ledger \<Rightarrow> (nat \<times> ledger_review) list" where
  "open_items_of d B =
     take 50 (sort_key (\<lambda>(i, v). - micros (lv_created v)) (rev (sort_key fst
       (select_rows (\<lambda>v. review_open v \<and> lv_document v = Some d) (xl_reviews (bo_core B))))))"

definition queue_document_review :: "nat \<Rightarrow> string \<Rightarrow> string \<Rightarrow> pydict \<Rightarrow> timestamp \<Rightarrow> bool act" where
  "queue_document_review d reason details corrected now B =
     (if \<exists>(i, v) \<in> set (open_items_of d B). lv_reason v = reason then (Inr False, B)
      else act_bind (create_review (Some d) reason details corrected now) (\<lambda>_. act_return True) B)"

section \<open>Bank transactions\<close>

definition FINAL_RECONCILIATION_STATUSES :: "string list" where
  "FINAL_RECONCILIATION_STATUSES = [''approved'', ''reconciled'']"

definition RESOLUTION_STATUSES :: "string list" where
  "RESOLUTION_STATUSES = [''approved'', ''reconciled'', ''rejected'', ''resolved'', ''ignored'', ''needs_review'']"

definition document_reconciliation_status :: "string \<Rightarrow> string" where
  "document_reconciliation_status status =
     (if status \<in> set FINAL_RECONCILIATION_STATUSES then ''reconciled''
      else if status \<in> {''rejected'', ''ignored'', ''resolved''} then status
      else ''needs_review'')"

definition bank_reconciliation_status :: "string \<Rightarrow> string" where
  "bank_reconciliation_status status =
     (if status \<in> set FINAL_RECONCILIATION_STATUSES then ''reconciled''
      else if status \<in> {''rejected'', ''ignored'', ''resolved'', ''missing_receipt'', ''candidate''} then status
      else ''needs_review'')"

definition bank_transaction_id :: "py_env \<Rightarrow> pydict \<Rightarrow> string" where
  "bank_transaction_id env tx =
     (let v = py_or (dget tx ''id'') (dget tx ''transaction_id'') in
      if truthy v then py_str env v
      else ''bank:'' @ join_with ''|''
        [text_or env (py_or (dget tx ''date'') (dget tx ''transaction_date'')) [], text_or env (dget tx ''amount'') [],
         text_or env (py_or (dget tx ''description'') (dget tx ''counterparty'')) []])"

text \<open>\<open>_int_or_none\<close>: an infinite number raises.\<close>

definition int_or_none :: "pyval \<Rightarrow> int option result" where
  "int_or_none v =
     (case to_int v of Inr n \<Rightarrow> Inr (Some n) | Inl e \<Rightarrow> if e \<in> {TypeError, ValueError} then Inr None else Inl e)"

definition ledger_bank_id :: "pydict \<Rightarrow> nat option result" where
  "ledger_bank_id tx =
     map_sum id (\<lambda>v. case v of None \<Rightarrow> None | Some n \<Rightarrow> if n < 0 then None else Some (nat n))
       (int_or_none (py_or (dget tx ''ledgerBankTransactionId'') (py_or (dget tx ''ledger_bank_transaction_id'')
         (py_or (dget tx ''bankTransactionRecordId'') (dget tx ''bank_transaction_record_id'')))))"

definition mark_bank_row ::
  "record_service \<Rightarrow> string \<Rightarrow> nat \<Rightarrow> nat option \<Rightarrow> timestamp \<Rightarrow> bank_row \<Rightarrow> bank_row" where
  "mark_bank_row bs status match doc now r =
     r\<lparr>bt_reconciliation := (if status = [] then bt_reconciliation r else status),
       bt_metadata := redact_dict (bs_env bs) (dset ''latestReconciliation''
         (PDict [(''status'', PStr status), (''reconciliationMatchId'', PInt (int match)), (''documentId'', opt_nat doc),
                 (''bankTransactionId'', PStr (bt_transaction r)),
                 (''updatedAt'', PStr (le_iso (bs_env bs) (whole_second now)))]) (bt_metadata r)),
       bt_updated := whole_second now\<rparr>"

definition update_bank_reconciliation ::
  "record_service \<Rightarrow> pydict \<Rightarrow> string \<Rightarrow> nat \<Rightarrow> nat option \<Rightarrow> timestamp \<Rightarrow> unit act" where
  "update_bank_reconciliation bs tx status match doc now =
     act_bind (act_result (\<lambda>B. map_sum id (\<lambda>i. (B, i)) (ledger_bank_id tx))) (\<lambda>i.
       case i of
         None \<Rightarrow> act_return ()
       | Some b \<Rightarrow> (\<lambda>B. case lookup_row (bl_transactions (bo_bank B)) b of
             None \<Rightarrow> (Inr (), B)
           | Some _ \<Rightarrow>
               act_bind (act_modify (\<lambda>B. B\<lparr>bo_bank := (bo_bank B)\<lparr>bl_transactions :=
                   update_row b (mark_bank_row bs status match doc now) (bl_transactions (bo_bank B))\<rparr>\<rparr>)) (\<lambda>_.
               act_bind (act_result (upsert_from_bank_transaction bs b None (Some status) now)) (\<lambda>_. act_return ())) B))"

section \<open>Recording results\<close>

definition document_snapshot :: "pydict \<Rightarrow> pydict" where
  "document_snapshot doc =
     [(''id'', dget doc ''id''), (''source'', dget doc ''source''), (''sourceDocumentId'', dget doc ''source_document_id''),
      (''originalFilename'', dget doc ''original_filename''), (''vendorName'', dget doc ''vendor_name''),
      (''category'', dget doc ''category''), (''transactionDate'', dget doc ''transaction_date''),
      (''totalAmount'', dget doc ''total_amount''), (''reconciliationStatus'', dget doc ''reconciliation_status'')]"

record outcome =
  oc_status :: string
  oc_type :: string
  oc_recorded :: bool
  oc_review :: bool
  oc_match :: "nat option"

definition outcome :: "string \<Rightarrow> string \<Rightarrow> bool \<Rightarrow> bool \<Rightarrow> nat option \<Rightarrow> outcome" where
  "outcome status kind recorded review match =
     \<lparr>oc_status = status, oc_type = kind, oc_recorded = recorded, oc_review = review, oc_match = match\<rparr>"

definition candidate_match :: "record_service \<Rightarrow> nat \<Rightarrow> string \<Rightarrow> pydict \<Rightarrow> candidate \<Rightarrow> timestamp \<Rightarrow> match_row" where
  "candidate_match bs d bank tx c now =
     \<lparr>mr_document = Some d, mr_bank = bank, mr_status = ''candidate'', mr_confidence = Some (Num (cd_score c)),
      mr_difference = sql_real (Some (cd_difference c)), mr_matched_at = None,
      mr_metadata = [(''resultType'', PStr ''match''), (''bankTransaction'', PDict tx),
        (''document'', PDict (document_snapshot (snd (cd_doc c)))), (''requiresApproval'', PBool True),
        (''externalMutation'', PStr ''not_performed'')],
      mr_created = whole_second now\<rparr>"

text \<open>An update keeps the time of the creation and of an earlier decision.\<close>

definition rewrite_match :: "match_row \<Rightarrow> match_row \<Rightarrow> match_row" where
  "rewrite_match new old = new\<lparr>mr_created := mr_created old, mr_matched_at := mr_matched_at old\<rparr>"

definition decided :: "string \<Rightarrow> bool" where
  "decided status \<longleftrightarrow> status \<in> set (FINAL_RECONCILIATION_STATUSES @ [''rejected'', ''ignored''])"

definition match_reference :: "nat \<Rightarrow> string \<Rightarrow> pydict" where
  "match_reference i bank = [(''reconciliationMatchId'', PInt (int i)), (''bankTransactionId'', PStr bank)]"

definition note_reconciliation :: "record_service \<Rightarrow> nat \<Rightarrow> string \<Rightarrow> string option \<Rightarrow> nat \<Rightarrow> timestamp \<Rightarrow> unit act" where
  "note_reconciliation bs d reconciliation status match now =
     act_bind (act_result (record_reconciliation_state bs d reconciliation status (Some match) now)) (\<lambda>_. act_return ())"

text \<open>
  The steps after the match is stored. The text of the percentage is a function of the score.
\<close>

definition note_candidate ::
  "record_service \<Rightarrow> (rat \<Rightarrow> string) \<Rightarrow> pydict \<Rightarrow> candidate \<Rightarrow> nat \<Rightarrow> string \<Rightarrow> nat \<Rightarrow> bool \<Rightarrow> timestamp \<Rightarrow> outcome act" where
  "note_candidate bs percent tx c d bank i recorded now =
     act_bind (set_document_reconciliation bs d ''candidate'' now) (\<lambda>_.
     act_bind (update_bank_reconciliation bs tx ''candidate'' i (Some d) now) (\<lambda>_.
     act_bind (queue_document_review d ''reconciliation_candidate''
        (''Bank transaction '' @ bank @ '' matches document #'' @ str_of_nat d @ '' with '' @ percent (cd_score c) @
         ''% confidence. Confirm before final close.'') (match_reference i bank) now) (\<lambda>review.
     act_bind (note_reconciliation bs d ''candidate'' (Some ''needs_review'') i now) (\<lambda>_.
       act_return (outcome ''candidate'' ''match'' recorded review (Some i))))))"

definition record_candidate ::
  "record_service \<Rightarrow> (rat \<Rightarrow> string) \<Rightarrow> pydict \<Rightarrow> candidate \<Rightarrow> nat \<Rightarrow> timestamp \<Rightarrow> outcome act" where
  "record_candidate bs percent tx c d now B =
     (let bank = bank_transaction_id (le_py (bs_env bs)) tx; fresh = candidate_match bs d bank tx c now in
      case existing_reconciliation (Some d) bank B of
        Some (i, old) \<Rightarrow>
          if decided (mr_status old) then
            act_bind (update_bank_reconciliation bs tx (bank_reconciliation_status (mr_status old)) i (Some d) now) (\<lambda>_.
              act_return (outcome ''already_final'' ''match'' False False (Some i))) B
          else
            act_bind (update_match i (rewrite_match fresh)) (\<lambda>_. note_candidate bs percent tx c d bank i False now) B
      | None \<Rightarrow> act_bind (create_match fresh) (\<lambda>i. note_candidate bs percent tx c d bank i True now) B)"

definition missing_receipt_match :: "string \<Rightarrow> pydict \<Rightarrow> timestamp \<Rightarrow> match_row" where
  "missing_receipt_match bank tx now =
     \<lparr>mr_document = None, mr_bank = bank, mr_status = ''missing_receipt'', mr_confidence = Some (Num 0), mr_difference = None,
      mr_matched_at = None,
      mr_metadata = [(''resultType'', PStr ''unmatched_bank_transaction''), (''bankTransaction'', PDict tx),
        (''requiresReceiptReview'', PBool True), (''externalMutation'', PStr ''not_performed'')],
      mr_created = whole_second now\<rparr>"

definition record_missing_receipt :: "record_service \<Rightarrow> pydict \<Rightarrow> timestamp \<Rightarrow> outcome act" where
  "record_missing_receipt bs tx now B =
     (let bank = bank_transaction_id (le_py (bs_env bs)) tx; kind = ''unmatched_bank_transaction'' in
      case existing_reconciliation None bank B of
        Some (i, old) \<Rightarrow>
          act_bind (update_bank_reconciliation bs tx (if mr_status old = [] then ''missing_receipt'' else mr_status old) i None now) (\<lambda>_.
            act_return (outcome ''already_recorded'' kind False False (Some i))) B
      | None \<Rightarrow>
          act_bind (create_match (missing_receipt_match bank tx now)) (\<lambda>i.
          act_bind (update_bank_reconciliation bs tx ''missing_receipt'' i None now) (\<lambda>_.
          act_bind (create_review None ''missing_receipt''
             (''Bank transaction '' @ bank @ '' has no matching processed document.'')
             (match_reference i bank @ [(''bankTransaction'', PDict tx)]) now) (\<lambda>_.
          act_bind (act_result (\<lambda>B. map_sum id (\<lambda>b. (B, b)) (ledger_bank_id tx))) (\<lambda>b.
          act_bind (case b of None \<Rightarrow> act_return None
                    | Some n \<Rightarrow> act_result (upsert_from_bank_transaction bs n (Some ''missing_receipt'') (Some ''missing_receipt'') now)) (\<lambda>_.
            act_return (outcome ''missing_receipt'' kind True True (Some i))))))) B)"

definition unmatched_document_id :: "nat \<Rightarrow> string" where
  "unmatched_document_id d = ''unmatched_document:'' @ str_of_nat d"

definition unmatched_document_match :: "nat \<Rightarrow> pydict \<Rightarrow> timestamp \<Rightarrow> match_row" where
  "unmatched_document_match d doc now =
     \<lparr>mr_document = Some d, mr_bank = unmatched_document_id d, mr_status = ''unmatched_document'', mr_confidence = Some (Num 0),
      mr_difference = None, mr_matched_at = None,
      mr_metadata = [(''resultType'', PStr ''unmatched_document''), (''document'', PDict (document_snapshot doc)),
        (''requiresBankEvidenceReview'', PBool True), (''externalMutation'', PStr ''not_performed'')],
      mr_created = whole_second now\<rparr>"

definition record_unmatched_document :: "record_service \<Rightarrow> nat \<Rightarrow> pydict \<Rightarrow> timestamp \<Rightarrow> outcome act" where
  "record_unmatched_document bs d doc now B =
     (case existing_reconciliation (Some d) (unmatched_document_id d) B of
        Some (i, _) \<Rightarrow> (Inr (outcome ''already_recorded'' ''unmatched_document'' False False (Some i)), B)
      | None \<Rightarrow>
          act_bind (create_match (unmatched_document_match d doc now)) (\<lambda>i.
          act_bind (set_document_reconciliation bs d ''unmatched'' now) (\<lambda>_.
          act_bind (note_reconciliation bs d ''unmatched'' (Some ''needs_review'') i now) (\<lambda>_.
          act_bind (queue_document_review d ''unmatched_document''
             (''Document #'' @ str_of_nat d @ '' has no matching bank transaction in this reconciliation run.'')
             [(''reconciliationMatchId'', PInt (int i))] now) (\<lambda>review.
            act_return (outcome ''unmatched_document'' ''unmatched_document'' True review (Some i)))))) B)"

section \<open>A run\<close>

definition RECONCILIABLE_DOCUMENT_STATUSES :: "string list" where
  "RECONCILIABLE_DOCUMENT_STATUSES =
     [''processed'', ''reviewed'', ''validated'', ''ready_to_route'', ''export_draft_prepared'', ''routed'']"

text \<open>A row as the ledger returns it has its number under \<open>id\<close>.\<close>

definition document_row :: "nat \<Rightarrow> pydict \<Rightarrow> pydict" where
  "document_row d doc = dset ''id'' (PInt (int d)) doc"

text \<open>
  The documents named by the caller, or those whose status admits a reconciliation, ordered by
  the text of their last update, the newest first.
\<close>

definition candidate_documents :: "record_service \<Rightarrow> nat list \<Rightarrow> int \<Rightarrow> book_ledger \<Rightarrow> (nat \<times> pydict) list" where
  "candidate_documents bs ids limit B =
     (let docs = xl_documents (bo_core B) in
      take (bounded_limit limit)
        (if ids \<noteq> [] then concat (map (\<lambda>d. case lookup_row docs d of None \<Rightarrow> [] | Some doc \<Rightarrow> [(d, doc)]) ids)
         else rev (sort_key (\<lambda>(d, doc). text_or (le_py (bs_env bs)) (dget doc ''updated_at'') []) (sort_key fst
           (select_rows (\<lambda>doc. text_or (le_py (bs_env bs)) (dget doc ''processing_status'') [] \<in>
              set RECONCILIABLE_DOCUMENT_STATUSES) docs)))))"

definition document_for_reconciler :: "nat \<Rightarrow> pydict \<Rightarrow> pydict result" where
  "document_for_reconciler d doc =
     rbind (dict_of (dget doc ''extracted_data'')) (\<lambda>ex.
       (let ex' = set_default ''amount'' (dget doc ''total_amount'') (set_default ''total_amount'' (dget doc ''total_amount'')
              (set_default ''transaction_date'' (dget doc ''transaction_date'')
                (set_default ''vendor_name'' (dget doc ''vendor_name'') ex)))
        in Inr (dset ''extracted_data'' (PDict ex') (dset ''document_id'' (PStr (str_of_nat d)) (document_row d doc)))))"

text \<open>
  A document is given to the reconciler with its number as its address: the reconciler identifies
  it by the text of that number.
\<close>

definition source_documents :: "record_service \<Rightarrow> nat list \<Rightarrow> int \<Rightarrow> book_ledger \<Rightarrow> source_doc list result" where
  "source_documents bs ids limit B =
     rmap (\<lambda>(d, doc). map_sum id (\<lambda>x. (d, x)) (document_for_reconciler d doc)) (candidate_documents bs ids limit B)"

definition record_run_result :: "record_service \<Rightarrow> (rat \<Rightarrow> string) \<Rightarrow> timestamp \<Rightarrow> reconciliation \<Rightarrow> outcome act" where
  "record_run_result bs percent now r =
     (case r of
        Matched tx c \<Rightarrow> record_candidate bs percent tx c (fst (cd_doc c)) now
      | Unmatched_transaction tx \<Rightarrow> record_missing_receipt bs tx now
      | Unmatched_document sd \<Rightarrow> record_unmatched_document bs (fst sd) (snd sd) now)"

record run_summary =
  rn_transactions :: nat
  rn_documents :: nat
  rn_matched :: nat
  rn_missing :: nat
  rn_unmatched :: nat
  rn_recorded :: nat
  rn_reviews :: nat
  rn_results :: "outcome list"

definition count_where :: "('a \<Rightarrow> bool) \<Rightarrow> 'a list \<Rightarrow> nat" where
  "count_where P xs = length (filter P xs)"

definition run_summary_of :: "pydict list \<Rightarrow> source_doc list \<Rightarrow> reconciliation list \<Rightarrow> outcome list \<Rightarrow> run_summary" where
  "run_summary_of txs docs rs os =
     \<lparr>rn_transactions = length txs, rn_documents = length docs,
      rn_matched = count_where (\<lambda>r. case r of Matched _ _ \<Rightarrow> True | _ \<Rightarrow> False) rs,
      rn_missing = count_where (\<lambda>r. case r of Unmatched_transaction _ \<Rightarrow> True | _ \<Rightarrow> False) rs,
      rn_unmatched = count_where (\<lambda>r. case r of Unmatched_document _ \<Rightarrow> True | _ \<Rightarrow> False) rs,
      rn_recorded = count_where oc_recorded os, rn_reviews = count_where oc_review os, rn_results = os\<rparr>"

definition summary_details :: "run_summary \<Rightarrow> pydict" where
  "summary_details s =
     map (\<lambda>(k, n). (k, PInt (int n)))
       [(''requestedTransactions'', rn_transactions s), (''candidateDocuments'', rn_documents s),
        (''matchedCandidates'', rn_matched s), (''missingReceipts'', rn_missing s), (''unmatchedDocuments'', rn_unmatched s),
        (''matchesRecorded'', rn_recorded s), (''reviewItemsCreated'', rn_reviews s)]"

definition run_reconciliation ::
  "record_service \<Rightarrow> reconciler \<Rightarrow> (rat \<Rightarrow> string) \<Rightarrow> pydict list \<Rightarrow> nat list \<Rightarrow> int \<Rightarrow> timestamp \<Rightarrow> run_summary act" where
  "run_reconciliation bs rc percent txs ids limit now =
     act_bind (act_result (\<lambda>B. map_sum id (\<lambda>docs. (B, docs)) (source_documents bs ids limit B))) (\<lambda>docs.
     act_bind (act_result (\<lambda>B. map_sum id (\<lambda>rs. (B, rs)) (reconcile (le_py (bs_env bs)) rc txs docs))) (\<lambda>rs.
     act_bind (act_all (record_run_result bs percent now) rs) (\<lambda>os.
     act_bind (act_modify (book_audit bs ''local_reconciliation.run_completed'' ''reconciliation_run'' PNone
        (summary_details (run_summary_of txs docs rs os)) now)) (\<lambda>_.
       act_return (run_summary_of txs docs rs os)))))"

section \<open>The decision of a person\<close>

definition resolved_match :: "record_service \<Rightarrow> string \<Rightarrow> pyval \<Rightarrow> timestamp \<Rightarrow> match_row \<Rightarrow> match_row" where
  "resolved_match bs status resolution now r =
     r\<lparr>mr_status := status,
       mr_matched_at := (if status \<in> set FINAL_RECONCILIATION_STATUSES then Some (le_iso (bs_env bs) (whole_second now)) else mr_matched_at r),
       mr_metadata := dset ''resolution'' (PDict [(''status'', PStr status), (''note'', resolution),
         (''resolvedAt'', PStr (le_iso (bs_env bs) (whole_second now)))]) (mr_metadata r)\<rparr>"

definition resolve_linked_reviews :: "nat \<Rightarrow> string \<Rightarrow> timestamp \<Rightarrow> unit act" where
  "resolve_linked_reviews d resolution now =
     act_modify (\<lambda>B. fold (\<lambda>(i, v) B. with_core (resolve_review_item i ''resolved'' resolution (lv_corrected v) now (bo_core B)) B)
       (filter (\<lambda>(i, v). lv_reason v \<in> {''reconciliation_candidate'', ''unmatched_document''}) (open_items_of d B)) B)"

datatype match_reply = Invalid_status string | Match_not_found | Match_resolved string nat "nat option"

definition apply_resolution ::
  "record_service \<Rightarrow> nat \<Rightarrow> string \<Rightarrow> pyval \<Rightarrow> timestamp \<Rightarrow> match_row \<Rightarrow> match_reply act" where
  "apply_resolution bs i status resolution now r =
     act_bind (update_match i (resolved_match bs status resolution now)) (\<lambda>_.
     act_bind (case mr_document r of
        None \<Rightarrow> act_return ()
      | Some d \<Rightarrow>
          if d = 0 then act_return () else
          act_bind (set_document_reconciliation bs d (document_reconciliation_status status) now) (\<lambda>_.
          act_bind (note_reconciliation bs d (document_reconciliation_status status) None i now) (\<lambda>_.
            resolve_linked_reviews d
              (if truthy resolution then py_str (le_py (bs_env bs)) resolution
               else ''Reconciliation match #'' @ str_of_nat i @ '' marked '' @ status @ ''.'') now))) (\<lambda>_.
     act_bind (update_bank_reconciliation bs (as_dict (dget (mr_metadata r) ''bankTransaction''))
        (bank_reconciliation_status status) i (mr_document r) now) (\<lambda>_.
     act_bind (act_modify (book_audit bs ''local_reconciliation.match.resolve'' ''reconciliation_match'' (PStr (str_of_nat i))
        [(''status'', PStr status), (''documentId'', opt_nat (mr_document r)), (''bankTransactionId'', PStr (mr_bank r)),
         (''resolution'', resolution)] now)) (\<lambda>_.
       act_return (Match_resolved status i (mr_document r))))))"

definition resolve_match :: "record_service \<Rightarrow> nat \<Rightarrow> pyval \<Rightarrow> pyval \<Rightarrow> timestamp \<Rightarrow> match_reply act" where
  "resolve_match bs i status_value resolution now B =
     (let status = strip (text_or (le_py (bs_env bs)) status_value []) in
      if status \<notin> set RESOLUTION_STATUSES then (Inr (Invalid_status status), B)
      else (case lookup_row (bo_matches B) i of
              None \<Rightarrow> (Inr Match_not_found, B)
            | Some r \<Rightarrow> apply_resolution bs i status resolution now r B))"

end
