(* ===== verification/Local_Reconcile_Properties.thy ===== *)
theory Local_Reconcile_Properties
  imports Local_Reconcile
begin

text \<open>
  What a reconciliation run keeps: the decisions of a person and the uniqueness of a match per
  document and transaction; and what it does to documents and transactions whose counterpart is
  no longer offered.
\<close>

section \<open>What an action keeps\<close>

definition keeps :: "(book_ledger \<Rightarrow> book_ledger \<Rightarrow> bool) \<Rightarrow> 'a act \<Rightarrow> bool" where
  "keeps R m \<longleftrightarrow> (\<forall>B. R B (snd (m B)))"

locale kept_relation =
  fixes R :: "book_ledger \<Rightarrow> book_ledger \<Rightarrow> bool"
  assumes same: "R B B"
    and chain: "R B C \<Longrightarrow> R C D \<Longrightarrow> R B D"
begin

lemma keeps_return: "keeps R (act_return x)"
  by (simp add: keeps_def act_return_def same)

lemma keeps_bind:
  assumes "keeps R m" and "\<And>x. keeps R (f x)"
  shows "keeps R (act_bind m f)"
  unfolding keeps_def
proof
  fix B
  obtain res B' where m: "m B = (res, B')" by (cases "m B")
  then have "R B B'" using assms(1) by (metis keeps_def snd_conv)
  then show "R B (snd (act_bind m f B))"
    using assms(2) chain by (cases res) (auto simp: act_bind_def m keeps_def)
qed

lemma then_keeps:
  assumes "R B (snd (m B))" and "\<And>x. keeps R (f x)"
  shows "R B (snd (act_bind m f B))"
proof -
  obtain res B' where m: "m B = (res, B')" by (cases "m B")
  show ?thesis
    using assms chain by (cases res) (auto simp: act_bind_def m keeps_def)
qed

lemma keeps_all: "(\<And>x. keeps R (f x)) \<Longrightarrow> keeps R (act_all f xs)"
proof (induction xs)
  case (Cons x xs)
  then show ?case by (auto intro!: keeps_bind keeps_return)
qed (simp add: keeps_return)

lemma keeps_modify: "(\<And>B. R B (f B)) \<Longrightarrow> keeps R (act_modify f)"
  by (simp add: keeps_def act_modify_def)

lemma keeps_act_result: "(\<And>B B' x. f B = Inr (B', x) \<Longrightarrow> R B B') \<Longrightarrow> keeps R (act_result f)"
  by (auto simp: keeps_def act_result_def same split: sum.splits)

lemma keeps_query: "keeps R (act_result (\<lambda>B. map_sum id (Pair B) (g B)))"
  by (rule keeps_act_result) (auto simp: map_sum_def same split: sum.splits)

end

section \<open>Actions that leave the matches alone\<close>

definition same_matches :: "book_ledger \<Rightarrow> book_ledger \<Rightarrow> bool" where
  "same_matches B C \<longleftrightarrow> bo_matches C = bo_matches B"

interpretation matches_kept: kept_relation same_matches
  by unfold_locales (simp_all add: same_matches_def)

definition same_documents :: "book_ledger \<Rightarrow> book_ledger \<Rightarrow> bool" where
  "same_documents B C \<longleftrightarrow> xl_documents (bo_core C) = xl_documents (bo_core B)"

interpretation documents_kept: kept_relation same_documents
  by unfold_locales (simp_all add: same_documents_def)

text \<open>What storing a record changes: the records, the lines and the events.\<close>

definition same_sources :: "book_ledger \<Rightarrow> book_ledger \<Rightarrow> bool" where
  "same_sources B C \<longleftrightarrow> bo_matches C = bo_matches B \<and> xl_documents (bo_core C) = xl_documents (bo_core B) \<and>
     bl_transactions (bo_bank C) = bl_transactions (bo_bank B) \<and> xl_reviews (bo_core C) = xl_reviews (bo_core B) \<and>
     xl_attempts (bo_core C) = xl_attempts (bo_core B) \<and> xl_sent (bo_core C) = xl_sent (bo_core B) \<and>
     xl_routing (bo_core C) = xl_routing (bo_core B)"

interpretation sources_kept: kept_relation same_sources
  by unfold_locales (simp_all add: same_sources_def)

lemma same_sources_steps [simp]:
  "same_sources B (with_records t B)"
  "same_sources B (replace_line_items bs rid ls C) \<longleftrightarrow> same_sources B C"
  "same_sources B (book_audit bs a ty i ds now C) \<longleftrightarrow> same_sources B C"
  "same_sources B (with_records t C) \<longleftrightarrow> same_sources B C"
  by (simp_all add: same_sources_def with_records_def with_core_def replace_line_items_def book_audit_def record_audit_def)

lemma store_payload_sources: "store_payload bs now p ls B = (B', rid) \<Longrightarrow> same_sources B B'"
  by (auto simp: store_payload_def Let_def split: prod.splits)

lemma upsert_from_document_sources:
  "upsert_from_document bs d status now B = Inr (B', rp) \<Longrightarrow> same_sources B B'"
  by (auto simp: upsert_from_document_def Let_def sources_kept.same dest!: rbind_eq_InrD store_payload_sources
      split: option.splits prod.splits if_splits)

lemma upsert_from_bank_sources:
  "upsert_from_bank_transaction bs b status rec now B = Inr (B', rp) \<Longrightarrow> same_sources B B'"
  by (auto simp: upsert_from_bank_transaction_def Let_def sources_kept.same dest!: rbind_eq_InrD
      split: option.splits prod.splits if_splits)

lemma record_reconciliation_sources:
  "record_reconciliation_state bs d reconciliation status match now B = Inr (B', rp) \<Longrightarrow> same_sources B B'"
  by (auto simp: record_reconciliation_state_def Let_def dest!: rbind_eq_InrD upsert_from_document_sources split: option.splits)

lemma keeps_note: "keeps same_sources (note_reconciliation bs d reconciliation status i now)"
  unfolding note_reconciliation_def
  by (intro sources_kept.keeps_bind sources_kept.keeps_return sources_kept.keeps_act_result)
    (auto dest: record_reconciliation_sources)

lemma keeps_mono: "keeps R m \<Longrightarrow> (\<And>B C. R B C \<Longrightarrow> S B C) \<Longrightarrow> keeps S m"
  by (simp add: keeps_def)

lemma keeps_bank_record:
  "keeps same_sources (act_result (upsert_from_bank_transaction bs b status rec now))"
  by (rule sources_kept.keeps_act_result) (rule upsert_from_bank_sources)

text \<open>Marking a bank transaction keeps matches, documents and reviews.\<close>

definition same_but_bank :: "book_ledger \<Rightarrow> book_ledger \<Rightarrow> bool" where
  "same_but_bank B C \<longleftrightarrow> bo_matches C = bo_matches B \<and> xl_documents (bo_core C) = xl_documents (bo_core B) \<and>
     xl_reviews (bo_core C) = xl_reviews (bo_core B)"

interpretation but_bank_kept: kept_relation same_but_bank
  by unfold_locales (simp_all add: same_but_bank_def)

lemma sources_but_bank: "same_sources B C \<Longrightarrow> same_but_bank B C"
  by (simp add: same_sources_def same_but_bank_def)

lemma keeps_bank_mark: "keeps same_but_bank (update_bank_reconciliation bs tx status i doc now)"
proof -
  have row: "keeps same_but_bank (\<lambda>B. case lookup_row (bl_transactions (bo_bank B)) b of
             None \<Rightarrow> (Inr (), B)
           | Some _ \<Rightarrow>
               act_bind (act_modify (\<lambda>B. B\<lparr>bo_bank := (bo_bank B)\<lparr>bl_transactions :=
                   update_row b (mark_bank_row bs status i doc now) (bl_transactions (bo_bank B))\<rparr>\<rparr>)) (\<lambda>_.
               act_bind (act_result (upsert_from_bank_transaction bs b None (Some status) now)) (\<lambda>_. act_return ())) B)" for b
  proof -
    have k: "keeps same_but_bank (act_bind (act_modify (\<lambda>B. B\<lparr>bo_bank := (bo_bank B)\<lparr>bl_transactions :=
                   update_row b (mark_bank_row bs status i doc now) (bl_transactions (bo_bank B))\<rparr>\<rparr>)) (\<lambda>_.
               act_bind (act_result (upsert_from_bank_transaction bs b None (Some status) now)) (\<lambda>_. act_return ())))"
      by (intro but_bank_kept.keeps_bind but_bank_kept.keeps_return but_bank_kept.keeps_modify
          keeps_mono [OF keeps_bank_record sources_but_bank])
        (simp add: same_but_bank_def)
    show ?thesis unfolding keeps_def
      using k [unfolded keeps_def] by (auto simp: but_bank_kept.same split: option.split)
  qed
  show ?thesis unfolding update_bank_reconciliation_def
    by (rule but_bank_kept.keeps_bind, rule but_bank_kept.keeps_query)
      (auto split: option.split intro: but_bank_kept.keeps_return row)
qed

lemma keeps_document_status: "keeps same_matches (set_document_reconciliation bs d status now)"
  unfolding set_document_reconciliation_def
  by (rule matches_kept.keeps_modify) (simp add: same_matches_def with_core_def)

lemma review_sources: "bo_matches (snd (create_review doc reason details c now B)) = bo_matches B"
  "xl_documents (bo_core (snd (create_review doc reason details c now B))) = xl_documents (bo_core B)"
  by (auto simp: create_review_def Let_def with_core_def split: list.splits prod.splits)

lemma keeps_create_review:
  "keeps same_matches (create_review doc reason details c now)"
  "keeps same_documents (create_review doc reason details c now)"
  by (simp_all add: keeps_def same_matches_def same_documents_def review_sources)

lemma keeps_queue:
  "keeps same_matches (queue_document_review d reason details c now)"
  "keeps same_documents (queue_document_review d reason details c now)"
proof -
  let ?m = "act_bind (create_review (Some d) reason details c now) (\<lambda>_. act_return True)"
  have m: "keeps same_matches ?m" "keeps same_documents ?m"
    by (intro matches_kept.keeps_bind documents_kept.keeps_bind keeps_create_review matches_kept.keeps_return
        documents_kept.keeps_return)+
  show "keeps same_matches (queue_document_review d reason details c now)"
    using m(1) by (simp add: keeps_def queue_document_review_def matches_kept.same)
  show "keeps same_documents (queue_document_review d reason details c now)"
    using m(2) by (simp add: keeps_def queue_document_review_def documents_kept.same)
qed

lemma keeps_note_candidate: "keeps same_matches (note_candidate bs percent tx c d bank i recorded now)"
  unfolding note_candidate_def
  by (intro matches_kept.keeps_bind matches_kept.keeps_return keeps_document_status keeps_queue(1)
      keeps_mono [OF keeps_bank_mark] keeps_mono [OF keeps_note])
    (simp_all add: same_matches_def same_but_bank_def same_sources_def)

section \<open>Relations between the matches before and after\<close>

lemma existing_reconciliation_Some:
  assumes "existing_reconciliation doc bank B = Some (i, r)"
  shows "(i, r) \<in> set (trows (bo_matches B))" and "of_pair doc bank r"
proof -
  let ?hits = "sort_key (\<lambda>(i, r). - micros (mr_created r)) (rev (sort_key fst (select_rows (of_pair doc bank) (bo_matches B))))"
  obtain x xs where "?hits = x # xs" "x = (i, r)"
    using assms unfolding existing_reconciliation_def by (cases ?hits) simp_all
  then have "(i, r) \<in> set ?hits" by (metis list.set_intros(1))
  then show "(i, r) \<in> set (trows (bo_matches B))" "of_pair doc bank r" by (auto simp: select_rows_def)
qed

lemma existing_reconciliation_None:
  "existing_reconciliation doc bank B = None \<longleftrightarrow> (\<forall>(i, r) \<in> set (trows (bo_matches B)). \<not> of_pair doc bank r)"
proof -
  have "existing_reconciliation doc bank B = None \<longleftrightarrow>
      sort_key (\<lambda>(i, r). - micros (mr_created r)) (rev (sort_key fst (select_rows (of_pair doc bank) (bo_matches B)))) = []"
    by (auto simp: existing_reconciliation_def split: list.splits)
  also have "\<dots> \<longleftrightarrow> select_rows (of_pair doc bank) (bo_matches B) = []"
    by (metis length_0_conv length_rev length_sort)
  finally show ?thesis by (auto simp: select_rows_def filter_empty_conv)
qed

lemma undecided_new:
  "\<not> decided (mr_status (rewrite_match (candidate_match bs d bank tx c now) r))"
  "\<not> decided (mr_status (candidate_match bs d bank tx c now))"
  "\<not> decided (mr_status (missing_receipt_match bank tx now))"
  "\<not> decided (mr_status (unmatched_document_match d doc now))"
  by (simp_all add: decided_def FINAL_RECONCILIATION_STATUSES_def rewrite_match_def candidate_match_def
      missing_receipt_match_def unmatched_document_match_def)

text \<open>The matches a run creates.\<close>

definition fresh_match :: "match_row \<Rightarrow> bool" where
  "fresh_match r \<longleftrightarrow>
     (\<exists>bs d bank tx c now. r = candidate_match bs d bank tx c now) \<or>
     (\<exists>bank tx now. r = missing_receipt_match bank tx now) \<or> (\<exists>d doc now. r = unmatched_document_match d doc now)"

lemma fresh_matches:
  "fresh_match (candidate_match bs d bank tx c now)" "fresh_match (missing_receipt_match bank tx now)"
  "fresh_match (unmatched_document_match d doc now)"
  unfolding fresh_match_def by blast+

text \<open>
  The laws under which a relation of two ledgers holds between the start and the end of a run:
  it depends on the matches only, and holds when a match that is not decided is created for a
  pair that has none, or rewritten.
\<close>

locale match_relation = kept_relation R for R +
  fixes bs :: record_service
  assumes only_matches: "same_matches B C \<Longrightarrow> R B C"
    and on_create: "existing_reconciliation (mr_document r) (mr_bank r) B = None \<Longrightarrow> \<not> decided (mr_status r) \<Longrightarrow>
      fresh_match r \<Longrightarrow> R B (snd (create_match r B))"
    and on_update: "existing_reconciliation (Some d) (bank_transaction_id (le_py (bs_env bs)) tx) B = Some (i, old) \<Longrightarrow>
      \<not> decided (mr_status old) \<Longrightarrow>
      R B (snd (update_match i (rewrite_match (candidate_match bs d (bank_transaction_id (le_py (bs_env bs)) tx) tx c now)) B))"
begin

lemma at_ledger: "keeps R m \<Longrightarrow> R B (snd (m B))"
  by (simp add: keeps_def)

lemma bank_mark: "keeps R (update_bank_reconciliation bs tx status i doc now)"
  by (rule keeps_mono [OF keeps_bank_mark]) (simp add: same_but_bank_def only_matches same_matches_def)

lemma after_sources: "keeps same_sources m \<Longrightarrow> keeps R m"
  by (erule keeps_mono) (simp add: same_sources_def only_matches same_matches_def)

lemma candidate: "keeps R (record_candidate bs percent tx c d now)"
  unfolding keeps_def
proof
  fix B
  let ?bank = "bank_transaction_id (le_py (bs_env bs)) tx"
  note after = keeps_mono [OF keeps_note_candidate only_matches]
  show "R B (snd (record_candidate bs percent tx c d now B))"
  proof (cases "existing_reconciliation (Some d) ?bank B")
    case None
    have "R B (snd (create_match (candidate_match bs d ?bank tx c now) B))"
      by (rule on_create [OF _ undecided_new(2) fresh_matches(1)]) (simp add: None candidate_match_def)
    then show ?thesis unfolding record_candidate_def Let_def None option.case by (rule then_keeps [OF _ after])
  next
    case (Some ir)
    obtain i old where ir: "ir = (i, old)" by (cases ir)
    show ?thesis
    proof (cases "decided (mr_status old)")
      case True
      have "keeps R (act_bind (update_bank_reconciliation bs tx (bank_reconciliation_status (mr_status old)) i (Some d) now)
          (\<lambda>_. act_return (outcome ''already_final'' ''match'' False False (Some i))))"
        by (intro keeps_bind bank_mark keeps_return)
      then show ?thesis using True Some by (simp add: record_candidate_def Let_def ir at_ledger)
    next
      case False
      have "R B (snd (update_match i (rewrite_match (candidate_match bs d ?bank tx c now)) B))"
        by (rule on_update [OF Some [unfolded ir] False])
      then show ?thesis using False
        unfolding record_candidate_def Let_def Some ir option.case prod.case if_False by (simp add: then_keeps [OF _ after])
    qed
  qed
qed

lemma missing_receipt: "keeps R (record_missing_receipt bs tx now)"
  unfolding keeps_def
proof
  fix B
  let ?bank = "bank_transaction_id (le_py (bs_env bs)) tx"
  have after: "keeps R (act_bind (update_bank_reconciliation bs tx ''missing_receipt'' i None now) (\<lambda>_.
          act_bind (create_review None ''missing_receipt''
             (''Bank transaction '' @ ?bank @ '' has no matching processed document.'')
             (match_reference i ?bank @ [(''bankTransaction'', PDict tx)]) now) (\<lambda>_.
          act_bind (act_result (\<lambda>B. map_sum id (\<lambda>b. (B, b)) (ledger_bank_id tx))) (\<lambda>b.
          act_bind (case b of None \<Rightarrow> act_return None
                    | Some n \<Rightarrow> act_result (upsert_from_bank_transaction bs n (Some ''missing_receipt'') (Some ''missing_receipt'') now)) (\<lambda>_.
            act_return (outcome ''missing_receipt'' ''unmatched_bank_transaction'' True True (Some i)))))))" for i
    by (intro keeps_bind bank_mark keeps_return keeps_query keeps_mono [OF keeps_create_review(1) only_matches])
      (auto split: option.split intro: keeps_return after_sources keeps_bank_record)
  have known: "R B (snd (act_bind (update_bank_reconciliation bs tx status i None now) (\<lambda>_. act_return x) B))"
    for status i and x :: outcome
    by (intro at_ledger keeps_bind bank_mark keeps_return)
  show "R B (snd (record_missing_receipt bs tx now B))"
  proof (cases "existing_reconciliation None ?bank B")
    case None
    have "R B (snd (create_match (missing_receipt_match ?bank tx now) B))"
      by (rule on_create [OF _ undecided_new(3) fresh_matches(2)]) (simp add: None missing_receipt_match_def)
    then show ?thesis unfolding record_missing_receipt_def Let_def None option.case by (rule then_keeps [OF _ after])
  next
    case (Some ir)
    obtain i old where ir: "ir = (i, old)" by (cases ir)
    show ?thesis unfolding record_missing_receipt_def Let_def Some ir option.case prod.case by (rule known)
  qed
qed

lemma unmatched_document: "keeps R (record_unmatched_document bs d doc now)"
  unfolding keeps_def
proof
  fix B
  have after: "keeps R (act_bind (set_document_reconciliation bs d ''unmatched'' now) (\<lambda>_.
          act_bind (note_reconciliation bs d ''unmatched'' (Some ''needs_review'') i now) (\<lambda>_.
          act_bind (queue_document_review d ''unmatched_document''
             (''Document #'' @ str_of_nat d @ '' has no matching bank transaction in this reconciliation run.'')
             [(''reconciliationMatchId'', PInt (int i))] now) (\<lambda>review.
            act_return (outcome ''unmatched_document'' ''unmatched_document'' True review (Some i))))))" for i
    by (intro keeps_bind keeps_return keeps_mono [OF keeps_document_status only_matches]
        keeps_mono [OF keeps_queue(1) only_matches] after_sources keeps_note)
  show "R B (snd (record_unmatched_document bs d doc now B))"
  proof (cases "existing_reconciliation (Some d) (unmatched_document_id d) B")
    case None
    have "R B (snd (create_match (unmatched_document_match d doc now) B))"
      by (rule on_create [OF _ undecided_new(4) fresh_matches(3)]) (simp add: None unmatched_document_match_def)
    then show ?thesis unfolding record_unmatched_document_def None option.case by (rule then_keeps [OF _ after])
  next
    case (Some ir)
    obtain i old where ir: "ir = (i, old)" by (cases ir)
    show ?thesis unfolding record_unmatched_document_def Some ir option.case prod.case by (simp add: same)
  qed
qed

lemma run: "keeps R (run_reconciliation bs rc percent txs ids limit now)"
proof -
  have one: "keeps R (record_run_result bs percent now r)" for r
    by (cases r) (simp_all add: record_run_result_def candidate missing_receipt unmatched_document)
  show ?thesis unfolding run_reconciliation_def
    by (intro keeps_bind keeps_query keeps_all one keeps_return keeps_modify only_matches)
      (simp add: same_matches_def book_audit_def with_core_def)
qed

end

section \<open>Decisions\<close>

text \<open>The decided matches are the same before and after.\<close>

definition same_decisions :: "book_ledger \<Rightarrow> book_ledger \<Rightarrow> bool" where
  "same_decisions B C \<longleftrightarrow> (wf_table (bo_matches B) \<longrightarrow>
     wf_table (bo_matches C) \<and>
     (\<forall>i r. decided (mr_status r) \<longrightarrow> (lookup_row (bo_matches C) i = Some r \<longleftrightarrow> lookup_row (bo_matches B) i = Some r)))"

lemma create_decisions:
  assumes "\<not> decided (mr_status r)"
  shows "same_decisions B (snd (create_match r B))"
proof -
  obtain t i where t: "insert_row r (bo_matches B) = (t, i)" by (cases "insert_row r (bo_matches B)")
  then show ?thesis
    using lookup_insert_row [of "bo_matches B" r] wf_insert_row [of "bo_matches B" r] insert_row_fresh [of "bo_matches B" r] assms
    by (auto simp: same_decisions_def create_match_def with_matches_def t)
qed

lemma update_decisions:
  assumes "(i, old) \<in> set (trows (bo_matches B))" and "\<not> decided (mr_status old)" and "\<And>r. \<not> decided (mr_status (f r))"
  shows "same_decisions B (snd (update_match i f B))"
proof -
  have "wf_table (bo_matches B) \<Longrightarrow> lookup_row (bo_matches B) i = Some old"
    using assms(1) by (auto simp: wf_table_def lookup_row_def)
  then show ?thesis using assms(2,3)
    by (auto simp: same_decisions_def update_match_def act_modify_def with_matches_def lookup_update_row)
qed

interpretation decisions: match_relation same_decisions bs for bs
proof unfold_locales
  show "same_decisions B B" for B by (simp add: same_decisions_def)
  show "same_decisions B C \<Longrightarrow> same_decisions C D \<Longrightarrow> same_decisions B D" for B C D by (auto simp: same_decisions_def)
  show "same_matches B C \<Longrightarrow> same_decisions B C" for B C by (simp add: same_matches_def same_decisions_def)
  show "\<not> decided (mr_status r) \<Longrightarrow> same_decisions B (snd (create_match r B))" for r B by (rule create_decisions)
  show "existing_reconciliation (Some d) bank B = Some (i, old) \<Longrightarrow> \<not> decided (mr_status old) \<Longrightarrow>
      same_decisions B (snd (update_match i (rewrite_match (candidate_match bs d bank tx c now)) B))" for d bank B i old tx c now
    by (rule update_decisions [OF existing_reconciliation_Some(1) _ undecided_new(1)])
qed

section \<open>One match per document and transaction\<close>

definition match_pairs :: "book_ledger \<Rightarrow> (nat option \<times> string) list" where
  "match_pairs B = map (\<lambda>(i, r). (mr_document r, mr_bank r)) (trows (bo_matches B))"

definition pairs_unique :: "book_ledger \<Rightarrow> bool" where
  "pairs_unique B \<longleftrightarrow> wf_table (bo_matches B) \<and> distinct (match_pairs B)"

text \<open>\<open>repr\<close> gives no value an empty text.\<close>

definition repr_nonempty :: "record_service \<Rightarrow> bool" where
  "repr_nonempty bs \<longleftrightarrow> (\<forall>v. py_repr (le_py (bs_env bs)) v \<noteq> [])"

definition keeps_pairs :: "record_service \<Rightarrow> book_ledger \<Rightarrow> book_ledger \<Rightarrow> bool" where
  "keeps_pairs bs B C \<longleftrightarrow> (repr_nonempty bs \<longrightarrow> pairs_unique B \<longrightarrow> pairs_unique C)"

lemma bank_id_nonempty:
  assumes "\<forall>v. py_repr env v \<noteq> []"
  shows "bank_transaction_id env tx \<noteq> []"
proof -
  have "truthy v \<Longrightarrow> py_str env v \<noteq> []" for v
    using assms str_of_nat_nonempty by (cases v) (auto simp: str_of_int_def)
  then show ?thesis by (simp add: bank_transaction_id_def Let_def)
qed

lemma create_pairs:
  assumes "existing_reconciliation (mr_document r) (mr_bank r) B = None" and "pairs_unique B"
  shows "pairs_unique (snd (create_match r B))"
proof -
  obtain t i where t: "insert_row r (bo_matches B) = (t, i)" "trows t = trows (bo_matches B) @ [(i, r)]"
    by (simp add: insert_row_def Let_def)
  have "(mr_document r, mr_bank r) \<notin> set (match_pairs B)"
    using assms(1) by (auto simp: existing_reconciliation_None match_pairs_def of_pair_def)
  moreover have "wf_table t" using wf_insert_row [of "bo_matches B" r] assms(2) by (simp add: t pairs_unique_def)
  ultimately show ?thesis using assms(2)
    by (simp add: pairs_unique_def match_pairs_def create_match_def t with_matches_def)
qed

text \<open>Rewriting a match of the pair keeps the pairs.\<close>

lemma update_pairs:
  assumes "existing_reconciliation (Some d) bank B = Some (i, old)" and "bank \<noteq> []" and "pairs_unique B"
    and "\<And>r. mr_document (f r) = Some d \<and> mr_bank (f r) = bank"
  shows "pairs_unique (snd (update_match i f B))"
proof -
  have old: "(i, old) \<in> set (trows (bo_matches B))" "mr_document old = Some d" "mr_bank old = bank"
    using existing_reconciliation_Some [OF assms(1)] assms(2) by (auto simp: of_pair_def)
  have "r = old" if "(i, r) \<in> set (trows (bo_matches B))" for r
    using that old(1) assms(3) by (auto simp: pairs_unique_def wf_table_def eq_key_imp_eq_value)
  then have "match_pairs (snd (update_match i f B)) = match_pairs B" using assms(4) old(2,3)
    by (auto simp: match_pairs_def update_match_def act_modify_def with_matches_def update_row_def)
  then show ?thesis using assms(3) by (simp add: pairs_unique_def update_match_def act_modify_def with_matches_def)
qed

interpretation pairs: match_relation "keeps_pairs bs" bs for bs
proof unfold_locales
  show "keeps_pairs bs B B" for B by (simp add: keeps_pairs_def)
  show "keeps_pairs bs B C \<Longrightarrow> keeps_pairs bs C D \<Longrightarrow> keeps_pairs bs B D" for B C D by (simp add: keeps_pairs_def)
  show "same_matches B C \<Longrightarrow> keeps_pairs bs B C" for B C
    by (simp add: same_matches_def keeps_pairs_def pairs_unique_def match_pairs_def)
  show "existing_reconciliation (mr_document r) (mr_bank r) B = None \<Longrightarrow> keeps_pairs bs B (snd (create_match r B))" for r B
    by (simp add: keeps_pairs_def create_pairs)
  show "existing_reconciliation (Some d) (bank_transaction_id (le_py (bs_env bs)) tx) B = Some (i, old) \<Longrightarrow>
      keeps_pairs bs B (snd (update_match i (rewrite_match (candidate_match bs d (bank_transaction_id (le_py (bs_env bs)) tx) tx c now)) B))"
    for d tx B i old c now
    using bank_id_nonempty [of "le_py (bs_env bs)" tx]
    by (auto simp: keeps_pairs_def repr_nonempty_def rewrite_match_def candidate_match_def intro!: update_pairs)
qed

end
