(* ===== verification/Local_Reconcile_Runs.thy ===== *)
theory Local_Reconcile_Runs
  imports Local_Reconcile_Properties Book_Properties
begin

text \<open>
  Sequences of reconciliation runs and of decisions about matches: what they keep, what an
  approval closes, and what a later run makes of a document it reconciled before.
\<close>

section \<open>Sequences of operations\<close>

datatype reconcile_op =
  Op_run reconciler "pydict list" "nat list" int timestamp
| Op_resolve nat pyval pyval timestamp

definition reconcile_step :: "record_service \<Rightarrow> (rat \<Rightarrow> string) \<Rightarrow> reconcile_op \<Rightarrow> book_ledger \<Rightarrow> book_ledger" where
  "reconcile_step bs percent op B =
     (case op of
        Op_run rc txs ids limit now \<Rightarrow> snd (run_reconciliation bs rc percent txs ids limit now B)
      | Op_resolve i status resolution now \<Rightarrow> snd (resolve_match bs i status resolution now B))"

definition reconcile_ops :: "record_service \<Rightarrow> (rat \<Rightarrow> string) \<Rightarrow> reconcile_op list \<Rightarrow> book_ledger \<Rightarrow> book_ledger" where
  "reconcile_ops bs percent ops B = fold (reconcile_step bs percent) ops B"

lemma keeps_linked_reviews: "keeps same_matches (resolve_linked_reviews d resolution now)"
proof -
  have "same_matches B (fold (\<lambda>(i, v) B. with_core (resolve_review_item i ''resolved'' resolution (lv_corrected v) now (bo_core B)) B) vs B)"
    for vs B
  proof (induction vs arbitrary: B)
    case (Cons v vs)
    then show ?case by (cases v) (simp add: same_matches_def with_core_def)
  qed (simp add: matches_kept.same)
  then show ?thesis unfolding resolve_linked_reviews_def by (rule matches_kept.keeps_modify)
qed

text \<open>After the match is updated, a decision leaves the matches alone.\<close>

lemma apply_resolution_keeps:
  assumes "kept_relation R" and "\<And>B C. same_matches B C \<Longrightarrow> R B C"
    and "R B (snd (update_match i (resolved_match bs status resolution now) B))"
  shows "R B (snd (apply_resolution bs i status resolution now r B))"
proof -
  have doc: "keeps same_matches (case mr_document r of None \<Rightarrow> act_return () | Some d \<Rightarrow> if d = 0 then act_return () else
          act_bind (set_document_reconciliation bs d (document_reconciliation_status status) now) (\<lambda>_.
          act_bind (note_reconciliation bs d (document_reconciliation_status status) None i now) (\<lambda>_.
            resolve_linked_reviews d
              (if truthy resolution then py_str (le_py (bs_env bs)) resolution
               else ''Reconciliation match #'' @ str_of_nat i @ '' marked '' @ status @ ''.'') now)))"
    by (auto split: option.split intro!: matches_kept.keeps_bind matches_kept.keeps_return keeps_document_status
        keeps_linked_reviews keeps_mono [OF keeps_note])
      (simp_all add: same_sources_def same_matches_def)
  have rest: "keeps same_matches (act_bind (case mr_document r of None \<Rightarrow> act_return () | Some d \<Rightarrow> if d = 0 then act_return () else
          act_bind (set_document_reconciliation bs d (document_reconciliation_status status) now) (\<lambda>_.
          act_bind (note_reconciliation bs d (document_reconciliation_status status) None i now) (\<lambda>_.
            resolve_linked_reviews d
              (if truthy resolution then py_str (le_py (bs_env bs)) resolution
               else ''Reconciliation match #'' @ str_of_nat i @ '' marked '' @ status @ ''.'') now))) (\<lambda>_.
     act_bind (update_bank_reconciliation bs (as_dict (dget (mr_metadata r) ''bankTransaction''))
        (bank_reconciliation_status status) i (mr_document r) now) (\<lambda>_.
     act_bind (act_modify (book_audit bs ''local_reconciliation.match.resolve'' ''reconciliation_match'' (PStr (str_of_nat i))
        [(''status'', PStr status), (''documentId'', opt_nat (mr_document r)), (''bankTransactionId'', PStr (mr_bank r)),
         (''resolution'', resolution)] now)) (\<lambda>_.
       act_return (Match_resolved status i (mr_document r))))))"
    by (intro matches_kept.keeps_bind doc matches_kept.keeps_return matches_kept.keeps_modify keeps_mono [OF keeps_bank_mark])
      (simp_all add: same_but_bank_def same_matches_def book_audit_def with_core_def)
  show ?thesis unfolding apply_resolution_def
    by (rule kept_relation.then_keeps [of R, OF assms(1)], rule assms(3), rule keeps_mono [OF rest], rule assms(2))
qed

lemma resolve_match_keeps:
  assumes "kept_relation R" and "\<And>B C. same_matches B C \<Longrightarrow> R B C"
    and "\<And>status. R B (snd (update_match i (resolved_match bs status resolution now) B))"
  shows "R B (snd (resolve_match bs i sv resolution now B))"
  using apply_resolution_keeps [OF assms(1,2)] assms(3) kept_relation.same [OF assms(1)]
  by (auto simp: resolve_match_def Let_def split: option.split)

section \<open>What a sequence keeps\<close>

text \<open>One decided match, as long as no operation of the sequence resolves it.\<close>

definition keeps_match :: "nat \<Rightarrow> match_row \<Rightarrow> book_ledger \<Rightarrow> book_ledger \<Rightarrow> bool" where
  "keeps_match i r B C \<longleftrightarrow> (wf_table (bo_matches B) \<and> lookup_row (bo_matches B) i = Some r \<longrightarrow>
     wf_table (bo_matches C) \<and> lookup_row (bo_matches C) i = Some r)"

interpretation match_kept: kept_relation "keeps_match i r" for i r
  by unfold_locales (auto simp: keeps_match_def)

definition resolves :: "nat \<Rightarrow> reconcile_op \<Rightarrow> bool" where
  "resolves i op \<longleftrightarrow> (case op of Op_resolve j _ _ _ \<Rightarrow> j = i | _ \<Rightarrow> False)"

lemma step_keeps_match:
  assumes "decided (mr_status r)" and "\<not> resolves i op"
  shows "keeps_match i r B (reconcile_step bs percent op B)"
proof (cases op)
  case (Op_run rc txs ids limit now)
  have "same_decisions B (snd (run_reconciliation bs rc percent txs ids limit now B))"
    using decisions.run by (simp add: keeps_def)
  then show ?thesis using assms(1) by (auto simp: Op_run reconcile_step_def same_decisions_def keeps_match_def)
next
  case (Op_resolve j sv resolution now)
  have "keeps_match i r B (snd (resolve_match bs j sv resolution now B))"
  proof (rule resolve_match_keeps [OF match_kept.kept_relation_axioms])
    show "same_matches B C \<Longrightarrow> keeps_match i r B C" for B C by (simp add: keeps_match_def same_matches_def)
    show "keeps_match i r B (snd (update_match j (resolved_match bs status resolution now) B))" for status
      using assms(2)
      by (simp add: keeps_match_def update_match_def act_modify_def with_matches_def lookup_update_row Op_resolve resolves_def)
  qed
  then show ?thesis by (simp add: Op_resolve reconcile_step_def)
qed

lemma fold_kept:
  assumes "kept_relation R" and "\<And>op B. op \<in> set ops \<Longrightarrow> R B (f op B)"
  shows "R B (fold f ops B)"
  using assms(2)
proof (induction ops arbitrary: B)
  case (Cons op ops)
  then show ?case using kept_relation.chain [OF assms(1), of B "f op B"] by simp
qed (simp add: kept_relation.same [OF assms(1)])

text \<open>
  C15: A match a person decided on stays as it is through any sequence of runs, over any transactions
  and documents, and of decisions about other matches.
\<close>

theorem decisions_survive_runs:
  assumes "wf_table (bo_matches B)" and "lookup_row (bo_matches B) i = Some r" and "decided (mr_status r)"
    and "list_all (\<lambda>op. \<not> resolves i op) ops"
  shows "lookup_row (bo_matches (reconcile_ops bs percent ops B)) i = Some r"
proof -
  have "keeps_match i r B (reconcile_ops bs percent ops B)"
    unfolding reconcile_ops_def
  proof (rule fold_kept [OF match_kept.kept_relation_axioms])
    show "keeps_match i r C (reconcile_step bs percent op C)" if "op \<in> set ops" for op C
      using that assms(4) by (intro step_keeps_match [OF assms(3)]) (simp add: list_all_iff)
  qed
  then show ?thesis using assms(1,2) by (simp add: keeps_match_def)
qed

lemma resolution_keeps_pairs: "keeps_pairs bs B (snd (update_match i (resolved_match bs' status resolution now) B))"
proof -
  have "match_pairs (snd (update_match i (resolved_match bs' status resolution now) B)) = match_pairs B"
    by (auto simp: match_pairs_def update_match_def act_modify_def with_matches_def update_row_def resolved_match_def)
  then show ?thesis by (simp add: keeps_pairs_def pairs_unique_def update_match_def act_modify_def with_matches_def)
qed

text \<open>C17: No sequence of runs and decisions makes two matches of one document and transaction.\<close>

theorem one_match_per_pair:
  assumes "pairs_unique B" and "repr_nonempty bs"
  shows "pairs_unique (reconcile_ops bs percent ops B)"
proof -
  have "keeps_pairs bs C (reconcile_step bs percent op C)" for op C
  proof (cases op)
    case (Op_run rc txs ids limit now)
    then show ?thesis using pairs.run [of bs rc percent txs ids limit now] by (simp add: reconcile_step_def keeps_def)
  next
    case (Op_resolve j sv resolution now)
    then show ?thesis
      using resolve_match_keeps [OF pairs.kept_relation_axioms pairs.only_matches resolution_keeps_pairs]
      by (simp add: reconcile_step_def)
  qed
  then have "keeps_pairs bs B (reconcile_ops bs percent ops B)"
    unfolding reconcile_ops_def by (rule fold_kept [OF pairs.kept_relation_axioms])
  then show ?thesis using assms by (simp add: keeps_pairs_def)
qed

section \<open>Well-formed matches\<close>

text \<open>
  The status is one of those the service knows, an approved match has the time of its approval, a
  candidate has its document and a confidence, a missing receipt has no document, and no match
  claims a change outside of the ledger.
\<close>

definition MATCH_STATUSES :: "string list" where
  "MATCH_STATUSES = [''candidate'', ''missing_receipt'', ''unmatched_document''] @ RESOLUTION_STATUSES"

definition typed_match :: "match_row \<Rightarrow> bool" where
  "typed_match r \<longleftrightarrow> mr_status r \<in> set MATCH_STATUSES \<and>
     (mr_status r \<in> set FINAL_RECONCILIATION_STATUSES \<longrightarrow> mr_matched_at r \<noteq> None) \<and>
     (mr_status r = ''candidate'' \<longrightarrow> mr_document r \<noteq> None \<and> mr_confidence r \<noteq> None) \<and>
     (mr_status r = ''missing_receipt'' \<longrightarrow> mr_document r = None) \<and>
     (mr_status r = ''unmatched_document'' \<longrightarrow> (\<exists>d. mr_document r = Some d \<and> mr_bank r = unmatched_document_id d)) \<and>
     dget (mr_metadata r) ''externalMutation'' = PStr ''not_performed''"

definition typed_matches :: "book_ledger \<Rightarrow> bool" where
  "typed_matches B \<longleftrightarrow> (\<forall>(i, r) \<in> set (trows (bo_matches B)). typed_match r)"

definition keeps_types :: "book_ledger \<Rightarrow> book_ledger \<Rightarrow> bool" where
  "keeps_types B C \<longleftrightarrow> (typed_matches B \<longrightarrow> typed_matches C)"

lemma fresh_typed: "fresh_match r \<Longrightarrow> typed_match r"
  by (auto simp: fresh_match_def typed_match_def candidate_match_def missing_receipt_match_def unmatched_document_match_def
      MATCH_STATUSES_def FINAL_RECONCILIATION_STATUSES_def)

lemma update_typed:
  assumes "\<And>r. typed_match r \<Longrightarrow> typed_match (f r)"
  shows "keeps_types B (snd (update_match i f B))"
  using assms
  by (auto simp: keeps_types_def typed_matches_def update_match_def act_modify_def with_matches_def update_row_def)

interpretation types: match_relation keeps_types bs for bs
proof unfold_locales
  show "keeps_types B B" for B by (simp add: keeps_types_def)
  show "keeps_types B C \<Longrightarrow> keeps_types C D \<Longrightarrow> keeps_types B D" for B C D by (simp add: keeps_types_def)
  show "same_matches B C \<Longrightarrow> keeps_types B C" for B C by (simp add: same_matches_def keeps_types_def typed_matches_def)
  show "fresh_match r \<Longrightarrow> keeps_types B (snd (create_match r B))" for r B
    by (auto simp: keeps_types_def typed_matches_def create_match_def with_matches_def insert_row_def Let_def dest: fresh_typed)
  show "keeps_types B (snd (update_match i (rewrite_match (candidate_match bs d (bank_transaction_id (le_py (bs_env bs)) tx) tx c now)) B))"
    for d tx B i c now
    by (rule update_typed)
      (simp add: typed_match_def rewrite_match_def candidate_match_def MATCH_STATUSES_def FINAL_RECONCILIATION_STATUSES_def)
qed

lemma resolved_typed: "typed_match r \<Longrightarrow> status \<in> set RESOLUTION_STATUSES \<Longrightarrow> typed_match (resolved_match bs status resolution now r)"
  by (auto simp: typed_match_def resolved_match_def MATCH_STATUSES_def dget_dset RESOLUTION_STATUSES_def simp del: dset.simps)

text \<open>C18: Runs and decisions keep the matches well formed, whatever the transactions, documents and decisions are.\<close>

theorem matches_stay_well_formed:
  assumes "typed_matches B"
  shows "typed_matches (reconcile_ops bs percent ops B)"
proof -
  have "keeps_types C (reconcile_step bs percent op C)" for op C
  proof (cases op)
    case (Op_run rc txs ids limit now)
    then show ?thesis using types.run [of bs rc percent txs ids limit now] by (simp add: reconcile_step_def keeps_def)
  next
    case (Op_resolve j sv resolution now)
    let ?status = "strip (text_or (le_py (bs_env bs)) sv [])"
    have "keeps_types C (snd (apply_resolution bs j ?status resolution now r C))" if "?status \<in> set RESOLUTION_STATUSES" for r
      by (rule apply_resolution_keeps [OF types.kept_relation_axioms types.only_matches])
        (assumption, rule update_typed, rule resolved_typed [OF _ that])
    then show ?thesis
      by (auto simp: Op_resolve reconcile_step_def resolve_match_def Let_def types.same split: option.split)
  qed
  then have "keeps_types B (reconcile_ops bs percent ops B)"
    unfolding reconcile_ops_def by (rule fold_kept [OF types.kept_relation_axioms])
  then show ?thesis using assms by (simp add: keeps_types_def)
qed

section \<open>An example\<close>

definition demo_match :: "nat option \<Rightarrow> string \<Rightarrow> string \<Rightarrow> match_row" where
  "demo_match doc bank status =
     \<lparr>mr_document = doc, mr_bank = bank, mr_status = status, mr_confidence = None, mr_difference = None, mr_matched_at = None,
      mr_metadata = [], mr_created = Timestamp 0\<rparr>"

definition demo_matched :: book_ledger where
  "demo_matched = with_matches
     \<lparr>trows = [(1, demo_match (Some 1) ''t1'' ''approved''), (2, demo_match None ''t2'' ''missing_receipt'')], tlast = 2\<rparr> demo_books"

definition plain_reconciler :: reconciler where
  "plain_reconciler =
     \<lparr>rc_threshold = Num (9 / 10), rc_tolerance = Num (1 / 100), rc_days = 0, rc_absolute = True, rc_ignore_positive = True\<rparr>"

definition demo_ops :: "reconcile_op list" where
  "demo_ops = [Op_run plain_reconciler [[(''id'', PStr ''t1''), (''amount'', PInt 100)]] [1] 100 (Timestamp 1),
     Op_resolve 2 (PStr ''ignored'') PNone (Timestamp 2)]"

lemma demo_matched_wf: "wf_table (bo_matches demo_matched)"
  "lookup_row (bo_matches demo_matched) 1 = Some (demo_match (Some 1) ''t1'' ''approved'')"
  by (auto simp: demo_matched_def with_matches_def wf_table_def lookup_row_def)

theorem decisions_survive_runs_witness:
  "lookup_row (bo_matches (reconcile_ops demo_records (\<lambda>_. []) demo_ops demo_matched)) 1 =
     Some (demo_match (Some 1) ''t1'' ''approved'')"
  by (rule decisions_survive_runs [OF demo_matched_wf])
    (simp_all add: demo_match_def decided_def FINAL_RECONCILIATION_STATUSES_def demo_ops_def resolves_def)

theorem one_match_per_pair_witness:
  "pairs_unique (reconcile_ops demo_records (\<lambda>_. []) demo_ops demo_matched)"
proof (rule one_match_per_pair)
  show "pairs_unique demo_matched"
    using demo_matched_wf(1)
    by (simp add: pairs_unique_def match_pairs_def demo_matched_def with_matches_def demo_match_def)
  show "repr_nonempty demo_records"
    by (simp add: repr_nonempty_def demo_records_def init_record_service_def plain_ledger_env_def plain_env_def)
qed

definition demo_typed :: book_ledger where
  "demo_typed = with_matches \<lparr>trows = [(1, unmatched_document_match 1 demo_receipt (Timestamp 0)),
     (2, missing_receipt_match ''t2'' [] (Timestamp 0))], tlast = 2\<rparr> demo_books"

theorem matches_stay_well_formed_witness:
  "typed_matches (reconcile_ops demo_records (\<lambda>_. []) demo_ops demo_typed)"
  by (rule matches_stay_well_formed)
    (simp add: typed_matches_def demo_typed_def with_matches_def fresh_typed [OF fresh_matches(2)] fresh_typed [OF fresh_matches(3)])

section \<open>Documents and matches taken up again\<close>

lemma documents_after_bind:
  "(\<And>x. keeps same_documents (f x)) \<Longrightarrow>
     xl_documents (bo_core (snd (act_bind m f B))) = xl_documents (bo_core (snd (m B)))"
  by (cases "m B"; cases "fst (m B)") (auto simp: act_bind_def keeps_def same_documents_def)

lemma keeps_same_documents:
  "keeps same_documents (note_reconciliation bs d reconciliation status i now)"
  "keeps same_documents (act_return x)"
  by (rule keeps_mono [OF keeps_note]) (simp_all add: same_sources_def same_documents_def documents_kept.keeps_return)

lemma unmatched_document_status:
  assumes "existing_reconciliation (Some d) (unmatched_document_id d) B = None"
    and "lookup_row (xl_documents (bo_core B)) d = Some doc"
  shows "\<exists>doc'. lookup_row (xl_documents (bo_core (snd (record_unmatched_document bs d x now B)))) d = Some doc' \<and>
    dget doc' ''reconciliation_status'' = PStr ''unmatched''"
proof -
  let ?rest = "\<lambda>i. act_bind (note_reconciliation bs d ''unmatched'' (Some ''needs_review'') i now) (\<lambda>_.
          act_bind (queue_document_review d ''unmatched_document''
             (''Document #'' @ str_of_nat d @ '' has no matching bank transaction in this reconciliation run.'')
             [(''reconciliationMatchId'', PInt (int i))] now) (\<lambda>review.
            act_return (outcome ''unmatched_document'' ''unmatched_document'' True review (Some i))))"
  have rest: "keeps same_documents (?rest i)" for i
    by (intro documents_kept.keeps_bind keeps_same_documents keeps_queue(2))
  obtain t i where t: "insert_row (unmatched_document_match d x now) (bo_matches B) = (t, i)"
    by (cases "insert_row (unmatched_document_match d x now) (bo_matches B)")
  have "xl_documents (bo_core (snd (record_unmatched_document bs d x now B))) =
      xl_documents (bo_core (snd (act_bind (set_document_reconciliation bs d ''unmatched'' now) (\<lambda>_. ?rest i) (with_matches t B))))"
    by (simp add: record_unmatched_document_def assms(1) act_bind_def [of "create_match (unmatched_document_match d x now)"]
        create_match_def t)
  also have "\<dots> = xl_documents (bo_core (snd (set_document_reconciliation bs d ''unmatched'' now (with_matches t B))))"
    by (rule documents_after_bind [OF rest])
  finally show ?thesis using assms(2)
    by (simp add: set_document_reconciliation_def act_modify_def with_core_def with_matches_def lookup_update_row dget_dset
        del: dset.simps)
qed

lemma act_query:
  "g B = Inr x \<Longrightarrow> act_bind (act_result (\<lambda>B. map_sum id (Pair B) (g B))) f B = f x B"
  by (simp add: act_bind_def act_result_def)

text \<open>
  A run over no transactions marks every document the caller names as unmatched, whatever its
  reconciliation status was: documents that are reconciled already are not left out.
\<close>

theorem reconciled_document_becomes_unmatched:
  assumes "lookup_row (xl_documents (bo_core B)) d = Some doc" and "dict_of (dget doc ''extracted_data'') = Inr ex"
    and "existing_reconciliation (Some d) (unmatched_document_id d) B = None"
  shows "\<exists>doc'. lookup_row (xl_documents (bo_core (snd (run_reconciliation bs rc percent [] [d] limit now B)))) d = Some doc' \<and>
    dget doc' ''reconciliation_status'' = PStr ''unmatched''"
proof -
  obtain x where x: "document_for_reconciler d doc = Inr x" "dget x ''document_id'' = PStr (str_of_nat d)"
    using assms(2) by (auto simp: document_for_reconciler_def Let_def dget_dset simp del: dset.simps)
  have l: "take (bounded_limit limit) [y] = [y]" for y :: "nat \<times> pydict"
    by (simp add: bounded_limit_def)
  have docs: "source_documents bs [d] limit B = Inr [(d, x)]"
    using x by (simp add: source_documents_def candidate_documents_def assms(1) Let_def l)
  have res: "reconcile env rc [] [(d, x)] = Inr [Unmatched_document (d, x)]" for env
    using x(2) by (simp add: reconcile_def reconcile_id_def)
  have tail: "keeps same_documents (act_bind (act_modify (book_audit bs a ty e ds now)) (\<lambda>_. act_return s))" for a ty e ds s
    by (intro documents_kept.keeps_bind documents_kept.keeps_modify keeps_same_documents)
      (simp add: same_documents_def book_audit_def record_audit_def with_core_def)
  have "xl_documents (bo_core (snd (run_reconciliation bs rc percent [] [d] limit now B))) =
      xl_documents (bo_core (snd (record_unmatched_document bs d x now B)))"
  proof -
    have all: "xl_documents (bo_core (snd (act_all (record_run_result bs percent now) [Unmatched_document (d, x)] B))) =
        xl_documents (bo_core (snd (record_unmatched_document bs d x now B)))"
      unfolding act_all.simps
      by (subst documents_after_bind, intro documents_kept.keeps_bind keeps_same_documents) (simp add: record_run_result_def)
    show ?thesis
      unfolding run_reconciliation_def act_query [of "source_documents bs [d] limit" B, OF docs]
        act_query [of "\<lambda>_. reconcile (le_py (bs_env bs)) rc [] [(d, x)]" B, OF res]
      by (subst documents_after_bind [OF tail]) (rule all)
  qed
  then show ?thesis using unmatched_document_status [OF assms(3,1)] by simp
qed

definition demo_reconciled_books :: book_ledger where
  "demo_reconciled_books = with_core ((bo_core demo_matched)\<lparr>xl_documents :=
     \<lparr>trows = [(1, dset ''reconciliation_status'' (PStr ''reconciled'') demo_receipt)], tlast = 1\<rparr>\<rparr>) demo_matched"

theorem reconciled_document_becomes_unmatched_witness:
  "\<exists>doc'. lookup_row (xl_documents (bo_core (snd (run_reconciliation demo_records plain_reconciler (\<lambda>_. []) [] [1] 100
      (Timestamp 1) demo_reconciled_books)))) 1 = Some doc' \<and> dget doc' ''reconciliation_status'' = PStr ''unmatched''"
proof (rule reconciled_document_becomes_unmatched)
  show "lookup_row (xl_documents (bo_core demo_reconciled_books)) 1 =
      Some (dset ''reconciliation_status'' (PStr ''reconciled'') demo_receipt)"
    by (simp add: demo_reconciled_books_def with_core_def lookup_row_def)
  show "dict_of (dget (dset ''reconciliation_status'' (PStr ''reconciled'') demo_receipt) ''extracted_data'') = Inr []"
    by (simp add: dict_of_def demo_receipt_def)
  show "existing_reconciliation (Some 1) (unmatched_document_id 1) demo_reconciled_books = None"
    by (auto simp: existing_reconciliation_None demo_reconciled_books_def demo_matched_def with_matches_def with_core_def
        demo_match_def of_pair_def unmatched_document_id_def)
qed

text \<open>
  Rejecting or approving a match settles it, resolving it does not: the next run that proposes
  the pair makes it a candidate again.
\<close>

theorem resolved_match_is_reopened:
  assumes "existing_reconciliation (Some d) (bank_transaction_id (le_py (bs_env bs)) tx) B = Some (i, old)"
    and "mr_status old = ''resolved''" and "wf_table (bo_matches B)"
  shows "\<exists>r. lookup_row (bo_matches (snd (record_candidate bs percent tx c d now B))) i = Some r \<and> mr_status r = ''candidate''"
proof -
  let ?bank = "bank_transaction_id (le_py (bs_env bs)) tx"
  let ?u = "update_match i (rewrite_match (candidate_match bs d ?bank tx c now))"
  have l: "lookup_row (bo_matches B) i = Some old"
    using existing_reconciliation_Some(1) [OF assms(1)] assms(3) by (auto simp: wf_table_def lookup_row_def)
  have "\<not> decided (mr_status old)" by (simp add: assms(2) decided_def FINAL_RECONCILIATION_STATUSES_def)
  then have "snd (record_candidate bs percent tx c d now B) =
      snd (act_bind ?u (\<lambda>_. note_candidate bs percent tx c d ?bank i False now) B)"
    by (simp add: record_candidate_def Let_def assms(1))
  moreover have "same_matches (snd (?u B)) (snd (act_bind ?u (\<lambda>_. note_candidate bs percent tx c d ?bank i False now) B))"
    using keeps_note_candidate by (simp add: act_bind_def update_match_def act_modify_def keeps_def)
  ultimately show ?thesis
    by (simp add: same_matches_def update_match_def act_modify_def with_matches_def lookup_update_row l rewrite_match_def
        candidate_match_def)
qed

end
