(* ===== verification/Local_Routing.thy ===== *)
theory Local_Routing
  imports Local_Reconcile Mijngeldzaken Playbook
begin

text \<open>
  \<open>LocalRoutingService\<close> (src/operations/local_routing.py): a reviewed document or the record of a
  bank transaction becomes a routing attempt that holds the operation to approve, or an attempt that
  says why it is blocked. The Wave and the MijnGeldzaken route of the code differ in the target, the
  operator, the texts and the order of some checks; what they share is stated once over the
  \<open>routing_target\<close>.
\<close>

section \<open>The service\<close>

record routing_service =
  rs_records :: record_service
  rs_catalog :: wave_catalog
  rs_config :: pydict

abbreviation rs_env :: "routing_service \<Rightarrow> ledger_env" where
  "rs_env rs \<equiv> bs_env (rs_records rs)"

abbreviation rs_py :: "routing_service \<Rightarrow> py_env" where
  "rs_py rs \<equiv> le_py (rs_env rs)"

definition ROUTABLE_DOCUMENT_STATUSES :: "string list" where
  "ROUTABLE_DOCUMENT_STATUSES = [''processed'', ''reviewed'', ''validated'', ''ready_to_route'']"

definition PREPARED_ROUTE_STATUSES :: "string list" where
  "PREPARED_ROUTE_STATUSES = [''draft_prepared'', ''needs_confirmation'', ''queued'']"

definition WAVE_TARGET_SYSTEMS :: "string list" where
  "WAVE_TARGET_SYSTEMS = [''wave'', ''waveapps'', ''waveapps_business'', ''waveapps_personal'']"

definition MIJNGELDZAKEN_TARGET_SYSTEMS :: "string list" where
  "MIJNGELDZAKEN_TARGET_SYSTEMS = [''mijngeldzaken'', ''mijngeldzaken_nl'', ''mijngeldzaken.nl'', ''category_a'', ''personal'']"

definition ROUTABLE_BOOKKEEPING_RECORD_STATUSES :: "string list" where
  "ROUTABLE_BOOKKEEPING_RECORD_STATUSES = [''draft'', ''ready_to_route'', ''reviewed'', ''validated'']"

definition ROUTABLE_BOOKKEEPING_EXPORT_STATUSES :: "string list" where
  "ROUTABLE_BOOKKEEPING_EXPORT_STATUSES = [''not_started'', ''ready'']"

definition normalize_target_system :: "py_env \<Rightarrow> pyval \<Rightarrow> string" where
  "normalize_target_system env v =
     replace_char CHR '' '' CHR ''_'' (replace_char CHR ''-'' CHR ''_'' (lower (strip (text_or env v ''waveapps''))))"

text \<open>\<open>_config_value\<close>: the text of the first setting that is given.\<close>

fun config_text :: "py_env \<Rightarrow> pydict \<Rightarrow> string list \<Rightarrow> string \<Rightarrow> string" where
  "config_text env config [] d = d"
| "config_text env config (k # ks) d =
     (if is_blank (dget config k) then config_text env config ks d else py_str env (dget config k))"

section \<open>What is routed\<close>

definition wave_line_of_record_line :: "line_item \<Rightarrow> pydict" where
  "wave_line_of_record_line li =
     [(''description'', py_or (li_description li) (li_name li)), (''amount'', opt_number (li_amount li)),
      (''category'', li_category li), (''accountName'', li_account li), (''quantity'', opt_number (li_quantity li)),
      (''unitPrice'', opt_number (li_price li)), (''taxCode'', li_code li), (''taxAmount'', opt_number (li_tax li))]"

definition record_lines_of :: "nat \<Rightarrow> book_ledger \<Rightarrow> pyval list" where
  "record_lines_of d B =
     (case record_by_document d (bo_core B) of
        None \<Rightarrow> [] | Some (rid, _) \<Rightarrow> map (\<lambda>li. PDict (wave_line_of_record_line li)) (bo_lines B rid))"

definition routed_extraction :: "pydict \<Rightarrow> pyval list \<Rightarrow> pydict \<Rightarrow> pydict" where
  "routed_extraction doc ls ex =
     (let ex1 = (if ls = [] then ex else dset ''line_items'' (PList ls) ex) in
      set_default ''document_type'' (dget doc ''document_type'')
        (set_default ''vat_amount'' (dget doc ''vat_amount'')
        (set_default ''total_amount'' (dget doc ''total_amount'')
        (set_default ''transaction_date'' (dget doc ''transaction_date'')
        (set_default ''vendor_name'' (dget doc ''vendor_name'') ex1)))))"

definition document_data :: "nat \<Rightarrow> pydict \<Rightarrow> book_ledger \<Rightarrow> pydict result" where
  "document_data d doc B =
     rbind (dict_of (dget doc ''extracted_data'')) (\<lambda>ex0.
       (let ex = routed_extraction doc (record_lines_of d B) ex0 in
        Inr [(''id'', PInt (int d)), (''document_type'', dget doc ''document_type''), (''vendor_name'', dget doc ''vendor_name''),
             (''category'', dget doc ''category''), (''transaction_date'', dget doc ''transaction_date''),
             (''total_amount'', dget doc ''total_amount''), (''vat_amount'', dget doc ''vat_amount''),
             (''description'', dget doc ''original_filename''),
             (''line_items'', py_or (dget ex ''line_items'') (py_or (dget ex ''lineItems'') (PList []))),
             (''extracted_data'', PDict ex)]))"

text \<open>The amount of a bank record without its sign, or with a negative one for a credit note.\<close>

definition signed_amount :: "bool \<Rightarrow> pyval \<Rightarrow> pyval" where
  "signed_amount credit v =
     (case v of
        PNone \<Rightarrow> PNone
      | _ \<Rightarrow> (case to_float v of
                Inl _ \<Rightarrow> v
              | Inr f \<Rightarrow> PFloat (if credit then flt_neg (flt_abs f) else flt_abs f)))"

definition record_document_type :: "py_env \<Rightarrow> book_row \<Rightarrow> string" where
  "record_document_type env r = lower (strip (text_or env (dget (bk_metadata r) ''documentType'') ''receipt''))"

definition bookkeeping_record_data :: "py_env \<Rightarrow> nat \<Rightarrow> book_row \<Rightarrow> line_item list \<Rightarrow> pydict" where
  "bookkeeping_record_data env rid r ls =
     (let g = dget (bk_columns r); kind = record_document_type env r;
          amount = signed_amount (kind = ''credit_note'') (g ''amount'');
          items = PList (map (\<lambda>li. PDict (wave_line_of_record_line li)) ls)
      in [(''id'', PInt (int rid)), (''document_type'', PStr kind), (''vendor_name'', g ''vendor_name''),
          (''category'', g ''category''), (''transaction_date'', g ''record_date''), (''total_amount'', amount),
          (''vat_amount'', g ''vat_amount''), (''description'', g ''description''), (''line_items'', items),
          (''extracted_data'', PDict
             [(''vendor_name'', g ''vendor_name''), (''transaction_date'', g ''record_date''), (''total_amount'', amount),
              (''currency'', g ''currency''), (''description'', g ''description''), (''document_type'', PStr kind),
              (''line_items'', items)])])"

definition missing_source_fields :: "py_env \<Rightarrow> pydict \<Rightarrow> string \<Rightarrow> string list" where
  "missing_source_fields env data action =
     (let ex = as_dict (dget data ''extracted_data'');
          customer = py_or (dget ex ''customer_name'') (py_or (dget data ''customer_name'') (dget data ''vendor_name''))
      in (if blank_text env (dget data ''category'') then [''category''] else []) @
         (if blank_text env (dget data ''total_amount'') then [''totalAmount''] else []) @
         (if action \<in> {''transaction_add'', ''bill_create''} \<and> blank_text env (dget data ''transaction_date'')
          then [''transactionDate''] else []) @
         (if action = ''bill_create'' \<and> blank_text env (dget data ''vendor_name'') then [''vendorName''] else []) @
         (if action \<in> {''invoice_create'', ''estimate_create''} \<and> blank_text env customer then [''customer''] else []))"

definition missing_mijngeldzaken_source_fields :: "py_env \<Rightarrow> pydict \<Rightarrow> string \<Rightarrow> string list" where
  "missing_mijngeldzaken_source_fields env data action =
     (let ex = as_dict (dget data ''extracted_data'');
          description = py_or (dget ex ''description'') (py_or (dget data ''description'') (dget data ''vendor_name''))
      in if action = ''document_upload_prepare'' then
           (if blank_text env (dget data ''id'') then [''documentId''] else []) @
           (if blank_text env (dget data ''description'') then [''filename''] else [])
         else
           (if blank_text env (dget data ''category'') then [''category''] else []) @
           (if blank_text env (dget data ''transaction_date'') then [''transactionDate''] else []) @
           (if blank_text env (dget data ''total_amount'') then [''totalAmount''] else []) @
           (if blank_text env description then [''description''] else []))"

definition mijngeldzaken_category :: "py_env \<Rightarrow> pydict \<Rightarrow> pydict \<Rightarrow> string" where
  "mijngeldzaken_category env data config =
     (let category = strip (text_or env (dget data ''category'') []);
          other = (if category = [] then ''Overig'' else category)
      in case py_or (dget config ''mijngeldzaken_category_mapping'')
                (py_or (dget config ''fab_mijngeldzaken_category_mapping'') (PDict [])) of
           PDict mapping \<Rightarrow> text_or env (dget mapping category) other
         | _ \<Rightarrow> other)"

section \<open>Document types that are not posted\<close>

definition override_type :: "py_env \<Rightarrow> pydict \<Rightarrow> string" where
  "override_type env doc =
     (case dget (as_dict (dget (as_dict (dget doc ''metadata'')) ''review'')) ''documentTypeOverride'' of
        PDict o1 \<Rightarrow> lower (strip (text_or env (dget o1 ''documentType'') []))
      | _ \<Rightarrow> [])"

definition stored_type :: "py_env \<Rightarrow> pydict \<Rightarrow> string" where
  "stored_type env doc =
     lower (strip (text_or env (py_or (dget doc ''document_type'') (dget (as_dict (dget doc ''extracted_data'')) ''document_type'')) []))"

definition classified_type :: "py_env \<Rightarrow> pydict \<Rightarrow> string" where
  "classified_type env doc =
     lower (strip (text_or env (dget (as_dict (dget (as_dict (dget (as_dict (dget doc ''metadata'')) ''processing''))
       ''documentTypeClassification'')) ''documentType'') []))"

definition effective_type :: "py_env \<Rightarrow> pydict \<Rightarrow> string" where
  "effective_type env doc = (if override_type env doc = [] then stored_type env doc else override_type env doc)"

text \<open>A status, a message and the details of a blocked route.\<close>

type_synonym block = "string \<times> string \<times> pydict"

text \<open>The texts quote a type with \<open>repr\<close>.\<close>

definition quoted :: "py_env \<Rightarrow> string \<Rightarrow> string" where
  "quoted env s = py_repr env (PStr s)"

definition document_type_routing_block :: "py_env \<Rightarrow> pydict \<Rightarrow> string \<Rightarrow> block option" where
  "document_type_routing_block env doc target =
     (if is_non_posting_document_type (effective_type env doc) then
        Some (''blocked_non_posting_document_type'',
          ''Document type '' @ quoted env (effective_type env doc) @
            '' is supporting evidence and cannot be posted as a bookkeeping transaction.'',
          [(''targetSystem'', PStr target), (''documentType'', PStr (effective_type env doc)), (''postingEligible'', PBool False),
           (''manualDocumentTypeOverride'', PBool (override_type env doc \<noteq> []))])
      else if override_type env doc = [] \<and> is_non_posting_document_type (classified_type env doc) then
        Some (''blocked_document_type_conflict'',
          ''Stored document type '' @ quoted env (stored_type env doc) @ '' conflicts with non-posting classifier result '' @
            quoted env (classified_type env doc) @ ''; an explicit document-type review is required.'',
          [(''targetSystem'', PStr target), (''documentType'', PStr (stored_type env doc)),
           (''classifiedDocumentType'', PStr (classified_type env doc)), (''postingEligible'', PBool False),
           (''documentTypeConflict'', PBool True)])
      else None)"

definition blocked_export_status :: "string \<Rightarrow> string" where
  "blocked_export_status status =
     (if status \<in> {''blocked_document_type_conflict'', ''blocked_non_posting_document_type''} then ''not_applicable''
      else if status = ''needs_review'' then ''blocked_by_review''
      else if status = ''blocked_duplicate'' then ''blocked_duplicate''
      else if status = ''blocked_status'' then ''blocked_status''
      else if status = ''unsupported_target'' then ''blocked_unsupported_target''
      else ''blocked'')"

section \<open>Operations\<close>

definition mgz_plan_value :: "string \<Rightarrow> wave_plan \<Rightarrow> pydict" where
  "mgz_plan_value action p =
     (if wp_status p = Unsupported then
        [(''status'', PStr ''unsupported''), (''surface'', PStr (wp_surface p)), (''action_id'', PStr action),
         (''missing_fields'', PList []), (''can_run_autonomously'', PBool False), (''requires_confirmation'', PBool True),
         (''message'', PStr ''MijnGeldzaken action is not in the FAB action catalog.'')]
      else
        [(''status'', PStr (if wp_status p = Planned then ''planned'' else ''needs_fields'')),
         (''surface'', PStr (wp_surface p)), (''action_id'', PStr action),
         (''mode'', opt_text (wp_mode p)), (''safety'', opt_text (wp_safety p)),
         (''missing_fields'', PList (map PStr (wp_missing p))), (''can_run_autonomously'', PBool (wp_can_run p)),
         (''requires_confirmation'', PBool (wp_requires_confirmation p)),
         (''message'', PStr (if wp_can_run p then ''FAB can plan '' @ action @ '' against MijnGeldzaken '' @ wp_surface p @ ''.''
            else ''FAB can prepare '' @ action @ '', but execution requires review or confirmation.''))])"

definition mgz_operation_value :: "mgz_operation \<Rightarrow> string \<Rightarrow> string \<Rightarrow> pydict" where
  "mgz_operation_value op actor created_at =
     [(''operation_id'', PStr (mo_id op)), (''action_id'', PStr (mo_action op)), (''surface'', PStr (mo_surface op)),
      (''mode'', opt_text (mo_mode op)), (''safety'', PStr (mo_safety op)), (''payload'', PDict (mo_payload op)),
      (''plan'', PDict (mgz_plan_value (mo_action op) (mo_plan op))), (''actor'', PStr actor), (''created_at'', PStr created_at)]"

text \<open>
  A draft: where it goes, the action and the operation as the operator returns it. The payload is built
  only when no field is missing; a draft with missing fields has no operation.
\<close>

record route_draft =
  rd_destination :: destination
  rd_action :: string
  rd_missing :: "string list"
  rd_operation :: pydict

definition wave_draft :: "routing_service \<Rightarrow> pydict \<Rightarrow> timestamp \<Rightarrow> route_draft result" where
  "wave_draft rs data now =
     rbind (classify_wave_destination (rs_py rs) data) (\<lambda>dest.
       (let action = action_for_surface (ds_target dest); missing = missing_source_fields (rs_py rs) data action in
        if missing \<noteq> [] then Inr \<lparr>rd_destination = dest, rd_action = action, rd_missing = missing, rd_operation = []\<rparr>
        else
     rbind (build_wave_action_payload (rs_py rs) data (dget data ''category'')
              (PStr (config_text (rs_py rs) (rs_config rs)
                 [''fab_waveapps_default_account'', ''operations_waveapps_default_account'', ''waveapps_default_account'']
                 ''Uncategorized''))) (\<lambda>payload.
        Inr \<lparr>rd_destination = dest, rd_action = action, rd_missing = [],
             rd_operation = operation_value (prepare_operation (rs_py rs) (rs_catalog rs) action payload (Some (ds_target dest))
               None False None None None) ''fab_local_router'' (le_iso (rs_env rs) now)\<rparr>)))"

definition mgz_draft :: "routing_service \<Rightarrow> pydict \<Rightarrow> timestamp \<Rightarrow> route_draft result" where
  "mgz_draft rs data now =
     rbind (classify_mijngeldzaken_destination (rs_py rs) data) (\<lambda>dest.
       (let action = mgz_action_for_surface (ds_target dest); missing = missing_mijngeldzaken_source_fields (rs_py rs) data action in
        if missing \<noteq> [] then Inr \<lparr>rd_destination = dest, rd_action = action, rd_missing = missing, rd_operation = []\<rparr>
        else
     rbind (build_mijngeldzaken_action_payload (rs_py rs) data (PStr (mijngeldzaken_category (rs_py rs) data (rs_config rs)))
              (PStr (config_text (rs_py rs) (rs_config rs)
                 [''fab_mijngeldzaken_default_account'', ''operations_mijngeldzaken_default_account'', ''mijngeldzaken_default_account'']
                 ''Huishouden''))) (\<lambda>payload.
        Inr \<lparr>rd_destination = dest, rd_action = action, rd_missing = [],
             rd_operation = mgz_operation_value (prepare_mgz_operation (rs_py rs) action payload (Some (ds_target dest)) None False)
               ''fab_local_router'' (le_iso (rs_env rs) now)\<rparr>)))"

section \<open>Attempts\<close>

text \<open>What distinguishes the two targets: names, texts and the mark of the master ledger.\<close>

record routing_target =
  rt_name :: string
  rt_mark :: pydict
  rt_surface_key :: string
  rt_action_key :: string
  rt_blocked_document :: string
  rt_blocked_record :: string
  rt_prepared_document :: string
  rt_prepared_record :: string
  rt_document_message :: string
  rt_record_message :: string
  rt_missing_reason :: string
  rt_missing_text :: string
  rt_plan_reason :: "string option"
  rt_incomplete :: string
  rt_draft :: string

definition wave_target :: routing_target where
  "wave_target =
     \<lparr>rt_name = ''waveapps'', rt_mark = [], rt_surface_key = ''waveSurface'', rt_action_key = ''waveAction'',
      rt_blocked_document = ''local_routing.wave_draft_blocked'',
      rt_blocked_record = ''local_routing.bank_record_wave_draft_blocked'',
      rt_prepared_document = ''local_routing.wave_draft_prepared'',
      rt_prepared_record = ''local_routing.bank_record_wave_draft_prepared'',
      rt_document_message = ''Wave draft operation prepared; external submission remains approval-gated.'',
      rt_record_message = ''Wave bank transaction draft operation prepared; external submission remains approval-gated.'',
      rt_missing_reason = ''routing_fields_missing'',
      rt_missing_text = ''Missing fields for Wave draft preparation: '',
      rt_plan_reason = Some ''routing_plan_incomplete'',
      rt_incomplete = ''Wave routing plan is incomplete.'', rt_draft = ''export draft preparation.''\<rparr>"

definition mgz_target :: routing_target where
  "mgz_target =
     \<lparr>rt_name = ''mijngeldzaken'', rt_mark = [(''masterLedgerDownstream'', PBool True)],
      rt_surface_key = ''mijngeldzakenSurface'', rt_action_key = ''mijngeldzakenAction'',
      rt_blocked_document = ''local_routing.mijngeldzaken_draft_blocked'',
      rt_blocked_record = ''local_routing.bank_record_mijngeldzaken_draft_blocked'',
      rt_prepared_document = ''local_routing.mijngeldzaken_draft_prepared'',
      rt_prepared_record = ''local_routing.bank_record_mijngeldzaken_draft_prepared'',
      rt_document_message = ''MijnGeldzaken master-ledger draft prepared; external submission remains approval-gated.'',
      rt_record_message =
        ''MijnGeldzaken bank transaction master-ledger draft prepared; external submission remains approval-gated.'',
      rt_missing_reason = ''mijngeldzaken_routing_fields_missing'',
      rt_missing_text = ''Missing fields for MijnGeldzaken master-ledger draft: '',
      rt_plan_reason = None,
      rt_incomplete = ''MijnGeldzaken routing plan is incomplete.'', rt_draft = ''master-ledger draft preparation.''\<rparr>"

datatype route_reply =
  Route_not_found
| Route_blocked (blocked_as: string) (blocked_attempt_id: nat)
| Route_already nat string pyval
| Route_prepared (prepared_as: string) nat string pydict

definition create_routing_attempt ::
  "nat option \<Rightarrow> nat option \<Rightarrow> nat option \<Rightarrow> string \<Rightarrow> string \<Rightarrow> string \<Rightarrow> pydict \<Rightarrow> timestamp \<Rightarrow> nat act" where
  "create_routing_attempt doc rid run target status message metadata now B =
     (let (t, i) = insert_row \<lparr>ro_document = doc, ro_workflow = run, ro_target = target, ro_status = status,
             ro_message = Some message, ro_metadata = metadata, ro_created = whole_second now, ro_record = rid\<rparr>
           (xl_routing (bo_core B))
      in (Inr i, with_core ((bo_core B)\<lparr>xl_routing := t\<rparr>) B))"

definition routing_document_snapshot :: "nat \<Rightarrow> pydict \<Rightarrow> pydict" where
  "routing_document_snapshot d doc =
     [(''id'', PInt (int d)), (''source'', dget doc ''source''), (''sourceDocumentId'', dget doc ''source_document_id''),
      (''originalFilename'', dget doc ''original_filename''), (''documentType'', dget doc ''document_type''),
      (''processingStatus'', dget doc ''processing_status''), (''vendorName'', dget doc ''vendor_name''),
      (''category'', dget doc ''category''), (''transactionDate'', dget doc ''transaction_date''),
      (''totalAmount'', dget doc ''total_amount''), (''vatAmount'', dget doc ''vat_amount''),
      (''confidenceScore'', dget doc ''confidence_score'')]"

definition bookkeeping_record_snapshot :: "nat \<Rightarrow> book_row \<Rightarrow> pydict" where
  "bookkeeping_record_snapshot rid r =
     (let g = dget (bk_columns r) in
      [(''id'', PInt (int rid)), (''documentId'', opt_nat (bk_document r)), (''bankTransactionId'', g ''bank_transaction_id''),
       (''sourceType'', g ''source_type''), (''recordType'', g ''record_type''), (''status'', PStr (bk_status r)),
       (''targetSystem'', g ''target_system''), (''targetAccount'', opt_text (bk_target_account r)),
       (''vendorName'', g ''vendor_name''), (''category'', g ''category''), (''recordDate'', g ''record_date''),
       (''amount'', g ''amount''), (''vatAmount'', g ''vat_amount''), (''currency'', g ''currency''),
       (''confidenceScore'', g ''confidence_score''), (''reviewRequired'', PBool (bk_review_required r)),
       (''exportStatus'', PStr (bk_export_status r)), (''reconciliationStatus'', PStr (bk_reconciliation r))])"

text \<open>\<open>_merged_metadata\<close> and the update of the document with it.\<close>

definition mark_document :: "routing_service \<Rightarrow> nat \<Rightarrow> pydict \<Rightarrow> string \<Rightarrow> pydict \<Rightarrow> timestamp \<Rightarrow> unit act" where
  "mark_document rs d doc status routing now =
     act_bind (\<lambda>B. (dict_of (dget doc ''metadata''), B)) (\<lambda>metadata.
       act_modify (\<lambda>B. with_core ((bo_core B)\<lparr>xl_documents := update_row d
         (\<lambda>row. dset ''updated_at'' (PStr (le_iso (rs_env rs) (whole_second now)))
            (dset ''metadata'' (PDict (redact_dict (rs_env rs) (dset ''routing'' (PDict routing) metadata)))
              (dset ''processing_status'' (PStr status) row))) (xl_documents (bo_core B))\<rparr>) B))"

definition note_export ::
  "routing_service \<Rightarrow> nat \<Rightarrow> string \<Rightarrow> string option \<Rightarrow> nat \<Rightarrow> pydict \<Rightarrow> timestamp \<Rightarrow> unit act" where
  "note_export rs d export status routing details now =
     act_bind (act_result (record_export_state (rs_records rs) d export status (Some routing) details now)) (\<lambda>_. act_return ())"

definition review_status :: "string \<Rightarrow> string option" where
  "review_status status = (if status = ''needs_review'' then Some ''needs_review'' else None)"

definition record_blocked_attempt ::
  "routing_service \<Rightarrow> routing_target \<Rightarrow> nat \<Rightarrow> pydict \<Rightarrow> block \<Rightarrow> nat option \<Rightarrow> timestamp \<Rightarrow> route_reply act" where
  "record_blocked_attempt rs t d doc b run now =
     (case b of (status, message, metadata) \<Rightarrow>
      act_bind (create_routing_attempt (Some d) None run (rt_name t) status message
        (dupdate metadata ([(''documentSnapshot'', PDict (routing_document_snapshot d doc)),
           (''externalSubmission'', PStr ''not_executed'')] @ rt_mark t)) now) (\<lambda>i.
      act_bind (act_modify (book_audit (rs_records rs) (rt_blocked_document t) ''bookkeeping_document'' (PStr (str_of_nat d))
        (dupdate [(''routingAttemptId'', PInt (int i)), (''status'', PStr status), (''message'', PStr message)] metadata) now)) (\<lambda>_.
      act_bind (if status = ''needs_review''
                then mark_document rs d doc ''needs_review'' [(''status'', PStr status), (''routingAttemptId'', PInt (int i)),
                       (''message'', PStr message)] now
                else act_return ()) (\<lambda>_.
      act_bind (note_export rs d (blocked_export_status status) (review_status status) i
        [(''routingStatus'', PStr status), (''message'', PStr message)] now) (\<lambda>_.
        act_return (Route_blocked status i))))))"

definition queue_review_once :: "nat \<Rightarrow> string \<Rightarrow> string \<Rightarrow> pydict \<Rightarrow> timestamp \<Rightarrow> unit act" where
  "queue_review_once d reason details corrected now B =
     (if select_rows (\<lambda>v. lv_document v = Some d \<and> lv_reason v = reason \<and> review_open v) (xl_reviews (bo_core B)) \<noteq> []
      then (Inr (), B)
      else act_bind (create_review (Some d) reason details corrected now) (\<lambda>_. act_return ()) B)"

section \<open>The route of a document\<close>

definition document_block :: "py_env \<Rightarrow> routing_target \<Rightarrow> nat \<Rightarrow> pydict \<Rightarrow> book_ledger \<Rightarrow> block option" where
  "document_block env t d doc B =
     (let duplicate = dget doc ''duplicate_of_document_id''; status = dget doc ''processing_status'';
          reviews = open_reviews_for d (bo_core B)
      in if truthy duplicate then
           Some (''blocked_duplicate'',
             ''Document duplicates #'' @ py_str env duplicate @ ''; resolve duplicate review before routing.'',
             [(''duplicateOfDocumentId'', duplicate)])
         else if status \<notin> PStr ` set ROUTABLE_DOCUMENT_STATUSES then
           Some (''blocked_status'', ''Document status '' @ py_str env status @ '' is not ready for '' @ rt_draft t,
             [(''processingStatus'', status)])
         else if reviews \<noteq> [] then
           Some (''blocked_review'', ''Document still has open review items.'',
             [(''openReviewItemIds'', PList (map (\<lambda>i. PInt (int i)) reviews))])
         else None)"

definition destination_value :: "destination \<Rightarrow> pydict" where
  "destination_value dest =
     [(''document_type'', PStr (ds_type dest)), (''target_surface'', PStr (ds_target dest)),
      (''fallback_surface'', PStr (ds_fallback dest))]"

definition prepared_attempt :: "pyval \<Rightarrow> routing_row \<Rightarrow> bool" where
  "prepared_attempt op_id r \<longleftrightarrow>
     dget (as_dict (dget (ro_metadata r) ''operation'')) ''operation_id'' = op_id \<and> ro_status r \<in> set PREPARED_ROUTE_STATUSES"

definition find_existing_attempt :: "nat \<Rightarrow> pyval \<Rightarrow> book_ledger \<Rightarrow> (nat \<times> routing_row) option" where
  "find_existing_attempt d op_id B =
     find (\<lambda>(i, r). prepared_attempt op_id r)
       (sort_key (\<lambda>(i, r). - micros (ro_created r)) (select_rows (\<lambda>r. ro_document r = Some d) (xl_routing (bo_core B))))"

definition draft_plan :: "route_draft \<Rightarrow> pydict" where
  "draft_plan rd = as_dict (dget (rd_operation rd) ''plan'')"

definition plan_message :: "py_env \<Rightarrow> routing_target \<Rightarrow> route_draft \<Rightarrow> string" where
  "plan_message env t rd = text_or env (dget (draft_plan rd) ''message'') (rt_incomplete t)"

definition routed_status :: "route_draft \<Rightarrow> string" where
  "routed_status rd =
     (if dget (rd_operation rd) ''safety'' = PStr ''requires_confirmation'' then ''needs_confirmation'' else ''draft_prepared'')"

definition route_details :: "routing_target \<Rightarrow> string \<Rightarrow> route_draft \<Rightarrow> pydict" where
  "route_details t target rd =
     [(''targetSystem'', PStr target), (rt_surface_key t, PStr (ds_target (rd_destination rd))),
      (rt_action_key t, PStr (rd_action rd))]"

definition prepared_target :: "routing_target \<Rightarrow> route_draft \<Rightarrow> string" where
  "prepared_target t rd = rt_name t @ '':'' @ ds_target (rd_destination rd)"

definition finish_document_route ::
  "routing_service \<Rightarrow> routing_target \<Rightarrow> nat \<Rightarrow> pydict \<Rightarrow> string \<Rightarrow> route_draft \<Rightarrow> nat option \<Rightarrow> timestamp \<Rightarrow> route_reply act" where
  "finish_document_route rs t d doc target rd run now =
     (let op = rd_operation rd; status = routed_status rd in
      act_bind (create_routing_attempt (Some d) None run (prepared_target t rd) status (rt_document_message t)
        ([(''targetSystem'', PStr target), (''destination'', PDict (destination_value (rd_destination rd))), (''operation'', PDict op),
          (''documentSnapshot'', PDict (routing_document_snapshot d doc)), (''externalSubmission'', PStr ''not_executed''),
          (''approvalRequiredForSubmit'', PBool True)] @ rt_mark t) now) (\<lambda>i.
      act_bind (mark_document rs d doc ''export_draft_prepared''
        [(''targetSystem'', PStr target), (''routingAttemptId'', PInt (int i)),
         (rt_surface_key t, PStr (ds_target (rd_destination rd))), (rt_action_key t, PStr (rd_action rd)),
         (''status'', PStr status)] now) (\<lambda>_.
      act_bind (note_export rs d ''draft_prepared'' (Some ''export_draft_prepared'') i
        (route_details t target rd @ [(''operationId'', dget op ''operation_id'')]) now) (\<lambda>_.
      act_bind (act_modify (book_audit (rs_records rs) (rt_prepared_document t) ''bookkeeping_document'' (PStr (str_of_nat d))
        ([(''routingAttemptId'', PInt (int i)), (''targetSystem'', PStr target), (''surface'', PStr (ds_target (rd_destination rd))),
          (''actionId'', PStr (rd_action rd)), (''operationId'', dget op ''operation_id''), (''safety'', dget op ''safety''),
          (''externalSubmission'', PStr ''not_executed'')] @ rt_mark t) now)) (\<lambda>_.
        act_return (Route_prepared status i (prepared_target t rd) op))))))"

definition block_missing_fields ::
  "routing_service \<Rightarrow> routing_target \<Rightarrow> nat \<Rightarrow> pydict \<Rightarrow> string \<Rightarrow> route_draft \<Rightarrow> nat option \<Rightarrow> timestamp \<Rightarrow> route_reply act" where
  "block_missing_fields rs t d doc target rd run now =
     (let details = rt_missing_text t @ join_with '', '' (rd_missing rd); missing = PList (map PStr (rd_missing rd)) in
      act_bind (queue_review_once d (rt_missing_reason t) details (route_details t target rd @ [(''missingFields'', missing)]) now)
        (\<lambda>_. record_blocked_attempt rs t d doc (''needs_review'', details,
           [(''targetSystem'', PStr target), (''destination'', PDict (destination_value (rd_destination rd))),
            (''actionId'', PStr (rd_action rd)), (''missingFields'', missing)]) run now))"

definition block_incomplete_plan ::
  "routing_service \<Rightarrow> routing_target \<Rightarrow> nat \<Rightarrow> pydict \<Rightarrow> string \<Rightarrow> route_draft \<Rightarrow> nat option \<Rightarrow> timestamp \<Rightarrow> route_reply act" where
  "block_incomplete_plan rs t d doc target rd run now =
     (let message = plan_message (rs_py rs) t rd in
      act_bind (case rt_plan_reason t of
                  None \<Rightarrow> act_return ()
                | Some reason \<Rightarrow> queue_review_once d reason message
                    (route_details t target rd @ [(''missingFields'', dget_or (draft_plan rd) ''missing_fields'' (PList []))]) now)
        (\<lambda>_. record_blocked_attempt rs t d doc (''needs_review'', message,
           [(''targetSystem'', PStr target), (''destination'', PDict (destination_value (rd_destination rd))),
            (''operation'', PDict (rd_operation rd))]) run now))"

definition already_prepared_document :: "routing_service \<Rightarrow> nat \<Rightarrow> nat \<times> routing_row \<Rightarrow> timestamp \<Rightarrow> route_reply act" where
  "already_prepared_document rs d hit now =
     act_bind (note_export rs d ''draft_prepared'' (Some ''export_draft_prepared'') (fst hit)
       [(''status'', PStr ''already_prepared'')] now)
       (\<lambda>_. act_return (Route_already (fst hit) (ro_target (snd hit)) (dget (ro_metadata (snd hit)) ''operation'')))"

definition target_draft :: "routing_target \<Rightarrow> routing_service \<Rightarrow> pydict \<Rightarrow> timestamp \<Rightarrow> route_draft result" where
  "target_draft t = (if rt_name t = ''mijngeldzaken'' then mgz_draft else wave_draft)"

definition document_draft ::
  "routing_service \<Rightarrow> routing_target \<Rightarrow> nat \<Rightarrow> pydict \<Rightarrow> timestamp \<Rightarrow> book_ledger \<Rightarrow> route_draft result" where
  "document_draft rs t d doc now B = rbind (document_data d doc B) (\<lambda>data. target_draft t rs data now)"

definition use_document_draft ::
  "routing_service \<Rightarrow> routing_target \<Rightarrow> nat \<Rightarrow> pydict \<Rightarrow> string \<Rightarrow> route_draft \<Rightarrow> nat option \<Rightarrow> timestamp \<Rightarrow> route_reply act" where
  "use_document_draft rs t d doc target rd run now B =
     (if rd_missing rd \<noteq> [] then block_missing_fields rs t d doc target rd run now B
      else case find_existing_attempt d (dget (rd_operation rd) ''operation_id'') B of
             Some hit \<Rightarrow> already_prepared_document rs d hit now B
           | None \<Rightarrow>
               (if dget (draft_plan rd) ''status'' \<noteq> PStr ''planned'' then block_incomplete_plan rs t d doc target rd run now B
                else finish_document_route rs t d doc target rd run now B))"

definition draft_document_route ::
  "routing_service \<Rightarrow> routing_target \<Rightarrow> nat \<Rightarrow> pydict \<Rightarrow> string \<Rightarrow> nat option \<Rightarrow> timestamp \<Rightarrow> route_reply act" where
  "draft_document_route rs t d doc target run now B =
     (case document_draft rs t d doc now B of
        Inl e \<Rightarrow> (Inl e, B)
      | Inr rd \<Rightarrow> use_document_draft rs t d doc target rd run now B)"

definition unsupported_block :: "py_env \<Rightarrow> string \<Rightarrow> block" where
  "unsupported_block env target =
     (''unsupported_target'',
      ''Routing target '' @ quoted env target @ '' is not supported by the local Wave draft router.'',
      [(''targetSystem'', PStr target)])"

definition route_target_of :: "string \<Rightarrow> routing_target option" where
  "route_target_of target =
     (if target \<in> set MIJNGELDZAKEN_TARGET_SYSTEMS then Some mgz_target
      else if target \<in> set WAVE_TARGET_SYSTEMS then Some wave_target else None)"

definition document_target :: "py_env \<Rightarrow> pydict \<Rightarrow> string option \<Rightarrow> string" where
  "document_target env doc given =
     normalize_target_system env (PStr
       (case given of
          Some s \<Rightarrow> if s = [] then resolve_document_target_system env doc (as_dict (dget doc ''extracted_data'')) ''waveapps'' else s
        | None \<Rightarrow> resolve_document_target_system env doc (as_dict (dget doc ''extracted_data'')) ''waveapps''))"

definition prepare_document_route ::
  "routing_service \<Rightarrow> nat \<Rightarrow> string option \<Rightarrow> nat option \<Rightarrow> timestamp \<Rightarrow> route_reply act" where
  "prepare_document_route rs d given run now B =
     (case lookup_row (xl_documents (bo_core B)) d of
        None \<Rightarrow> (Inr Route_not_found, B)
      | Some doc \<Rightarrow>
          (let env = rs_py rs; target = document_target env doc given in
           (case route_target_of target of
              None \<Rightarrow> record_blocked_attempt rs wave_target d doc (unsupported_block env target) run now
            | Some t \<Rightarrow>
                (case document_type_routing_block env doc target of
                   Some b \<Rightarrow> record_blocked_attempt rs t d doc b run now
                 | None \<Rightarrow>
                     (case document_block env t d doc B of
                        Some b \<Rightarrow> record_blocked_attempt rs t d doc b run now
                      | None \<Rightarrow> draft_document_route rs t d doc target run now))) B))"

section \<open>The route of the record of a bank transaction\<close>

definition note_record_export ::
  "routing_service \<Rightarrow> nat \<Rightarrow> book_row \<Rightarrow> string \<Rightarrow> string option \<Rightarrow> nat \<Rightarrow> pydict \<Rightarrow> timestamp \<Rightarrow> unit act" where
  "note_record_export rs rid r export status routing details now =
     act_modify (\<lambda>B. with_records (update_row rid (\<lambda>row. row
        \<lparr>bk_export_status := export,
         bk_metadata := redact_dict (rs_env rs) (with_latest_export export (Some routing) details (bk_metadata r)),
         bk_status := (case status of None \<Rightarrow> bk_status row | Some s \<Rightarrow> s), bk_updated := whole_second now\<rparr>)
       (xl_records (bo_core B))) B)"

definition record_evidence :: "nat \<Rightarrow> book_row \<Rightarrow> pydict" where
  "record_evidence rid r =
     [(''bookkeepingRecordId'', PInt (int rid)), (''bankTransactionId'', dget (bk_columns r) ''bank_transaction_id''),
      (''sourceType'', dget (bk_columns r) ''source_type'')]"

definition record_blocked_record_attempt ::
  "routing_service \<Rightarrow> routing_target \<Rightarrow> nat \<Rightarrow> book_row \<Rightarrow> block \<Rightarrow> nat option \<Rightarrow> timestamp \<Rightarrow> route_reply act" where
  "record_blocked_record_attempt rs t rid r b run now =
     (case b of (status, message, metadata) \<Rightarrow>
      act_bind (create_routing_attempt None (Some rid) run (rt_name t) status message
        (dupdate metadata (record_evidence rid r @
          [(''bookkeepingRecordSnapshot'', PDict (bookkeeping_record_snapshot rid r)),
           (''externalSubmission'', PStr ''not_executed'')] @ rt_mark t)) now) (\<lambda>i.
      act_bind (note_record_export rs rid r (blocked_export_status status) (review_status status) i
        [(''routingStatus'', PStr status), (''message'', PStr message)] now) (\<lambda>_.
      act_bind (act_modify (book_audit (rs_records rs) (rt_blocked_record t) ''bookkeeping_record'' (PStr (str_of_nat rid))
        (dupdate [(''routingAttemptId'', PInt (int i)), (''bankTransactionId'', dget (bk_columns r) ''bank_transaction_id''),
           (''status'', PStr status), (''message'', PStr message)] metadata) now)) (\<lambda>_.
        act_return (Route_blocked status i)))))"

text \<open>
  Attempts by the newest first, at most 500, of the given statuses; one of the record, and of the
  operation when it is given.
\<close>

definition attempt_of_record :: "nat \<Rightarrow> pyval \<Rightarrow> routing_row \<Rightarrow> bool" where
  "attempt_of_record rid op_id r \<longleftrightarrow>
     py_or (opt_nat (ro_record r)) (dget (ro_metadata r) ''bookkeepingRecordId'') = PInt (int rid) \<and>
     (truthy op_id \<longrightarrow> dget (as_dict (dget (ro_metadata r) ''operation'')) ''operation_id'' = op_id)"

definition find_existing_record_attempt :: "nat \<Rightarrow> pyval \<Rightarrow> book_ledger \<Rightarrow> (nat \<times> routing_row) option" where
  "find_existing_record_attempt rid op_id B =
     find (\<lambda>(i, r). attempt_of_record rid op_id r)
       (take 500 (sort_key (\<lambda>(i, r). - micros (ro_created r)) (rev (sort_key fst
         (select_rows (\<lambda>r. ro_status r \<in> set PREPARED_ROUTE_STATUSES) (xl_routing (bo_core B)))))))"

definition record_block :: "routing_target \<Rightarrow> book_row \<Rightarrow> block option" where
  "record_block t r =
     (if bk_review_required r then
        Some (''blocked_review'', ''Bookkeeping record still requires manual review.'', [(''reviewRequired'', PBool True)])
      else if bk_status r \<notin> set ROUTABLE_BOOKKEEPING_RECORD_STATUSES then
        Some (''blocked_status'', ''Bookkeeping record status '' @ bk_status r @ '' is not ready for '' @ rt_draft t,
          [(''recordStatus'', PStr (bk_status r))])
      else if bk_export_status r \<notin> set ROUTABLE_BOOKKEEPING_EXPORT_STATUSES then
        Some (''blocked_export_status'',
          ''Bookkeeping record export status '' @ bk_export_status r @ '' is not ready for draft preparation.'',
          [(''exportStatus'', PStr (bk_export_status r))])
      else None)"

definition already_prepared_record ::
  "routing_service \<Rightarrow> nat \<Rightarrow> book_row \<Rightarrow> nat \<times> routing_row \<Rightarrow> timestamp \<Rightarrow> route_reply act" where
  "already_prepared_record rs rid r hit now =
     act_bind (note_record_export rs rid r ''draft_prepared'' (Some ''export_draft_prepared'') (fst hit)
       [(''status'', PStr ''already_prepared'')] now)
       (\<lambda>_. act_return (Route_already (fst hit) (ro_target (snd hit)) (dget (ro_metadata (snd hit)) ''operation'')))"

definition finish_record_route ::
  "routing_service \<Rightarrow> routing_target \<Rightarrow> nat \<Rightarrow> book_row \<Rightarrow> string \<Rightarrow> route_draft \<Rightarrow> nat option \<Rightarrow> timestamp \<Rightarrow> route_reply act" where
  "finish_record_route rs t rid r target rd run now =
     (let op = rd_operation rd; status = routed_status rd in
      act_bind (create_routing_attempt None (Some rid) run (prepared_target t rd) status (rt_record_message t)
        ([(''targetSystem'', PStr target)] @ record_evidence rid r @
         [(''destination'', PDict (destination_value (rd_destination rd))), (''operation'', PDict op),
          (''bookkeepingRecordSnapshot'', PDict (bookkeeping_record_snapshot rid r)),
          (''externalSubmission'', PStr ''not_executed''), (''approvalRequiredForSubmit'', PBool True)] @ rt_mark t) now) (\<lambda>i.
      act_bind (note_record_export rs rid r ''draft_prepared'' (Some ''export_draft_prepared'') i
        (route_details t target rd @ [(''operationId'', dget op ''operation_id'')]) now) (\<lambda>_.
      act_bind (act_modify (book_audit (rs_records rs) (rt_prepared_record t) ''bookkeeping_record'' (PStr (str_of_nat rid))
        ([(''routingAttemptId'', PInt (int i)), (''bankTransactionId'', dget (bk_columns r) ''bank_transaction_id''),
          (''targetSystem'', PStr target), (''surface'', PStr (ds_target (rd_destination rd))),
          (''actionId'', PStr (rd_action rd)), (''operationId'', dget op ''operation_id''), (''safety'', dget op ''safety''),
          (''externalSubmission'', PStr ''not_executed'')] @ rt_mark t) now)) (\<lambda>_.
        act_return (Route_prepared status i (prepared_target t rd) op)))))"

definition use_record_draft ::
  "routing_service \<Rightarrow> routing_target \<Rightarrow> nat \<Rightarrow> book_row \<Rightarrow> string \<Rightarrow> route_draft \<Rightarrow> nat option \<Rightarrow> timestamp \<Rightarrow> route_reply act" where
  "use_record_draft rs t rid r target rd run now B =
     (if rd_missing rd \<noteq> [] then
        record_blocked_record_attempt rs t rid r (''needs_review'', rt_missing_text t @ join_with '', '' (rd_missing rd),
          [(''targetSystem'', PStr target), (''destination'', PDict (destination_value (rd_destination rd))),
           (''actionId'', PStr (rd_action rd)), (''missingFields'', PList (map PStr (rd_missing rd)))]) run now B
      else case find_existing_record_attempt rid (dget (rd_operation rd) ''operation_id'') B of
             Some hit \<Rightarrow> already_prepared_record rs rid r hit now B
           | None \<Rightarrow>
               (if dget (draft_plan rd) ''status'' \<noteq> PStr ''planned'' then
                  record_blocked_record_attempt rs t rid r (''needs_review'', plan_message (rs_py rs) t rd,
                    [(''targetSystem'', PStr target), (''destination'', PDict (destination_value (rd_destination rd))),
                     (''operation'', PDict (rd_operation rd))]) run now B
                else finish_record_route rs t rid r target rd run now B))"

definition draft_record_route ::
  "routing_service \<Rightarrow> routing_target \<Rightarrow> nat \<Rightarrow> book_row \<Rightarrow> string \<Rightarrow> nat option \<Rightarrow> timestamp \<Rightarrow> route_reply act" where
  "draft_record_route rs t rid r target run now B =
     (case target_draft t rs (bookkeeping_record_data (rs_py rs) rid r (bo_lines B rid)) now of
        Inl e \<Rightarrow> (Inl e, B)
      | Inr rd \<Rightarrow> use_record_draft rs t rid r target rd run now B)"

text \<open>
  The Wave route first looks for any prepared attempt of the record; the MijnGeldzaken route does
  not.
\<close>

definition prepare_record_target ::
  "routing_service \<Rightarrow> routing_target \<Rightarrow> nat \<Rightarrow> book_row \<Rightarrow> string \<Rightarrow> nat option \<Rightarrow> timestamp \<Rightarrow> route_reply act" where
  "prepare_record_target rs t rid r target run now B =
     (case (if rt_name t = ''mijngeldzaken'' then None else find_existing_record_attempt rid PNone B) of
        Some hit \<Rightarrow> already_prepared_record rs rid r hit now B
      | None \<Rightarrow>
          (case record_block t r of
             Some b \<Rightarrow> record_blocked_record_attempt rs t rid r b run now
           | None \<Rightarrow> draft_record_route rs t rid r target run now) B)"

definition source_type_block :: "book_row \<Rightarrow> block" where
  "source_type_block r =
     (''blocked_source_type'', ''Document-backed records must be routed through their source document evidence.'',
      [(''sourceType'', dget (bk_columns r) ''source_type'')])"

definition record_target :: "py_env \<Rightarrow> book_row \<Rightarrow> string option \<Rightarrow> string" where
  "record_target env r given =
     normalize_target_system env
       (case given of
          Some s \<Rightarrow> if s = [] then dget (bk_columns r) ''target_system'' else PStr s
        | None \<Rightarrow> dget (bk_columns r) ''target_system'')"

definition prepare_bookkeeping_record_route ::
  "routing_service \<Rightarrow> nat \<Rightarrow> string option \<Rightarrow> nat option \<Rightarrow> timestamp \<Rightarrow> route_reply act" where
  "prepare_bookkeeping_record_route rs rid given run now B =
     (case lookup_row (xl_records (bo_core B)) rid of
        None \<Rightarrow> (Inr Route_not_found, B)
      | Some r \<Rightarrow>
          (if dget (bk_columns r) ''source_type'' \<noteq> PStr ''bank_transaction'' then
             record_blocked_record_attempt rs wave_target rid r (source_type_block r) run now
           else
             (let target = record_target (rs_py rs) r given in
              case route_target_of target of
                None \<Rightarrow> record_blocked_record_attempt rs wave_target rid r (unsupported_block (rs_py rs) target) run now
              | Some t \<Rightarrow> prepare_record_target rs t rid r target run now)) B)"

section \<open>Batches\<close>

record route_summary =
  rm_requested :: nat
  rm_prepared :: nat
  rm_already :: nat
  rm_review :: nat
  rm_blocked :: nat
  rm_replies :: "route_reply list"

fun reply_status :: "route_reply \<Rightarrow> string" where
  "reply_status Route_not_found = ''not_found''"
| "reply_status (Route_blocked s _) = s"
| "reply_status (Route_already _ _ _) = ''already_prepared''"
| "reply_status (Route_prepared s _ _ _) = s"

definition route_summary_of :: "route_reply list \<Rightarrow> route_summary" where
  "route_summary_of rs =
     \<lparr>rm_requested = length rs,
      rm_prepared = length (filter (\<lambda>r. reply_status r = ''draft_prepared'') rs),
      rm_already = length (filter (\<lambda>r. reply_status r = ''already_prepared'') rs),
      rm_review = length (filter (\<lambda>r. reply_status r = ''needs_review'') rs),
      rm_blocked = length (filter (\<lambda>r. reply_status r \<notin> {''draft_prepared'', ''already_prepared'', ''needs_review''}) rs),
      rm_replies = rs\<rparr>"

definition route_summary_details :: "route_summary \<Rightarrow> pydict" where
  "route_summary_details s =
     map (\<lambda>(k, n). (k, PInt (int n)))
       [(''requested'', rm_requested s), (''draftPrepared'', rm_prepared s), (''alreadyPrepared'', rm_already s),
        (''needsReview'', rm_review s), (''blocked'', rm_blocked s)]"

definition ready_documents :: "routing_service \<Rightarrow> int \<Rightarrow> book_ledger \<Rightarrow> nat list" where
  "ready_documents rs limit B =
     take (bounded_limit limit)
       (map fst (rev (sort_key (\<lambda>(d, doc). text_or (rs_py rs) (dget doc ''updated_at'') []) (sort_key fst
          (select_rows (\<lambda>doc. dget doc ''processing_status'' \<in> PStr ` set ROUTABLE_DOCUMENT_STATUSES) (xl_documents (bo_core B)))))))"

definition prepare_ready_documents :: "routing_service \<Rightarrow> int \<Rightarrow> timestamp \<Rightarrow> route_summary act" where
  "prepare_ready_documents rs limit now B =
     act_bind (act_all (\<lambda>d. prepare_document_route rs d None None now) (ready_documents rs limit B)) (\<lambda>replies.
     act_bind (act_modify (book_audit (rs_records rs) ''local_routing.batch_prepare_completed'' ''routing_attempt'' PNone
       (route_summary_details (route_summary_of replies)) now)) (\<lambda>_.
       act_return (route_summary_of replies))) B"

text \<open>The rows of the page are chosen before those of bank transactions.\<close>

definition ready_records :: "int \<Rightarrow> book_ledger \<Rightarrow> nat list" where
  "ready_records limit B =
     map fst (filter (\<lambda>(i, r). dget (bk_columns r) ''source_type'' = PStr ''bank_transaction'')
       (take (bounded_limit limit) (sort_key (\<lambda>(i, r). - micros (bk_updated r)) (rev (sort_key fst
          (select_rows (\<lambda>r. bk_status r \<in> set ROUTABLE_BOOKKEEPING_RECORD_STATUSES \<and>
             bk_export_status r \<in> set ROUTABLE_BOOKKEEPING_EXPORT_STATUSES) (xl_records (bo_core B))))))))"

definition prepare_ready_bookkeeping_records :: "routing_service \<Rightarrow> int \<Rightarrow> timestamp \<Rightarrow> route_summary act" where
  "prepare_ready_bookkeeping_records rs limit now B =
     act_bind (act_all (\<lambda>i. prepare_bookkeeping_record_route rs i None None now) (ready_records limit B)) (\<lambda>replies.
     act_bind (act_modify (book_audit (rs_records rs) ''local_routing.bank_record_batch_prepare_completed'' ''bookkeeping_record'' PNone
       (route_summary_details (route_summary_of replies)) now)) (\<lambda>_.
       act_return (route_summary_of replies))) B"

end
