(* ===== verification/Routing_Properties.thy ===== *)
theory Routing_Properties
  imports Local_Routing Local_Reconcile_Runs Wave_Properties
begin

text \<open>
  What a prepared route says about its document, what routing leaves alone, and what a second
  preparation does to a route that is prepared already.
\<close>

section \<open>What an action returns\<close>

definition returns :: "('a \<Rightarrow> bool) \<Rightarrow> 'a act \<Rightarrow> bool" where
  "returns P m \<longleftrightarrow> (\<forall>B x C. m B = (Inr x, C) \<longrightarrow> P x)"

lemma returns_return: "P x \<Longrightarrow> returns P (act_return x)"
  by (simp add: returns_def act_return_def)

lemma returns_bind: "(\<And>y. returns P (f y)) \<Longrightarrow> returns P (act_bind m f)"
  by (auto simp: returns_def act_bind_def split: prod.splits sum.splits)

lemma returnsD: "returns P m \<Longrightarrow> m B = (Inr x, C) \<Longrightarrow> P x"
  unfolding returns_def by blast

lemma returns_not: "returns P m \<Longrightarrow> \<not> P x \<Longrightarrow> m B \<noteq> (Inr x, C)"
  unfolding returns_def by blast

lemma blocked_returns: "returns (\<lambda>x. \<exists>i. x = Route_blocked (fst b) i) (record_blocked_attempt rs t d doc b run now)"
  by (cases b) (auto simp: record_blocked_attempt_def intro!: returns_bind returns_return)

lemma blocked_record_returns:
  "returns (\<lambda>x. \<exists>i. x = Route_blocked (fst b) i) (record_blocked_record_attempt rs t rid r b run now)"
  by (cases b) (auto simp: record_blocked_record_attempt_def intro!: returns_bind returns_return)

lemma not_prepared [simp]:
  "record_blocked_attempt rs t d doc b run now B \<noteq> (Inr (Route_prepared s i tg op), C)"
  "record_blocked_attempt rs t d doc b run now B \<noteq> (Inr (Route_already j tg v), C)"
  using returnsD [OF blocked_returns] by fastforce+

lemma finish_returns:
  "returns (\<lambda>x. \<exists>i. x = Route_prepared (routed_status rd) i (prepared_target t rd) (rd_operation rd))
     (finish_document_route rs t d doc target rd run now)"
  unfolding finish_document_route_def Let_def by (auto intro!: returns_bind returns_return)

lemma review_blocks_return:
  "returns (\<lambda>x. \<exists>i. x = Route_blocked ''needs_review'' i) (block_missing_fields rs t d doc target rd run now)"
  "returns (\<lambda>x. \<exists>i. x = Route_blocked ''needs_review'' i) (block_incomplete_plan rs t d doc target rd run now)"
  unfolding block_missing_fields_def block_incomplete_plan_def Let_def
  by (rule returns_bind, rule blocked_returns [of "(''needs_review'', _, _)", simplified])+

lemma already_returns: "returns (\<lambda>x. \<exists>i tg v. x = Route_already i tg v) (already_prepared_document rs d hit now)"
  unfolding already_prepared_document_def by (auto intro!: returns_bind returns_return)

section \<open>Prepared routes\<close>

lemma draft_prepared:
  assumes "draft_document_route rs t d doc target run now B = (Inr (Route_prepared s i tg op), C)"
  shows "\<exists>data rd. document_data d doc B = Inr data \<and> target_draft t rs data now = Inr rd \<and> rd_missing rd = [] \<and>
    op = rd_operation rd \<and> dget (draft_plan rd) ''status'' = PStr ''planned'' \<and> s = routed_status rd \<and>
    finish_document_route rs t d doc target rd run now B = (Inr (Route_prepared s i tg op), C)"
proof -
  from assms obtain rd where rd: "document_draft rs t d doc now B = Inr rd"
      and use: "use_document_draft rs t d doc target rd run now B = (Inr (Route_prepared s i tg op), C)"
    by (auto simp: draft_document_route_def split: sum.splits)
  have "block_missing_fields rs t d doc target rd run now B \<noteq> (Inr (Route_prepared s i tg op), C)"
      "block_incomplete_plan rs t d doc target rd run now B \<noteq> (Inr (Route_prepared s i tg op), C)"
      "already_prepared_document rs d hit now B \<noteq> (Inr (Route_prepared s i tg op), C)" for hit
    by (rule returns_not [OF review_blocks_return(1)], simp, rule returns_not [OF review_blocks_return(2)], simp,
        rule returns_not [OF already_returns], simp)
  with use have f: "rd_missing rd = []" "dget (draft_plan rd) ''status'' = PStr ''planned''"
      "finish_document_route rs t d doc target rd run now B = (Inr (Route_prepared s i tg op), C)"
    by (auto simp: use_document_draft_def split: if_splits option.splits)
  moreover obtain data where "document_data d doc B = Inr data" "target_draft t rs data now = Inr rd"
    using rd by (auto simp: document_draft_def dest: rbind_eq_InrD)
  ultimately show ?thesis using returnsD [OF finish_returns f(3)] by auto
qed

lemma document_block_None:
  "document_block env t d doc B = None \<longleftrightarrow>
     \<not> truthy (dget doc ''duplicate_of_document_id'') \<and> dget doc ''processing_status'' \<in> PStr ` set ROUTABLE_DOCUMENT_STATUSES \<and>
     open_reviews_for d (bo_core B) = []"
  by (simp add: document_block_def Let_def)

text \<open>
  C12: A route is prepared only for a document that is processed or reviewed, is no known duplicate, has
  no open review and is not of a type that is not posted; its operation has a complete plan, no
  field the action needs is missing.
\<close>

theorem prepared_route_is_postable:
  assumes "prepare_document_route rs d given run now B = (Inr (Route_prepared s i tg op), C)"
  shows "\<exists>doc t data rd. lookup_row (xl_documents (bo_core B)) d = Some doc \<and>
    route_target_of (document_target (rs_py rs) doc given) = Some t \<and>
    \<not> is_non_posting_document_type (effective_type (rs_py rs) doc) \<and>
    \<not> truthy (dget doc ''duplicate_of_document_id'') \<and> dget doc ''processing_status'' \<in> PStr ` set ROUTABLE_DOCUMENT_STATUSES \<and>
    open_reviews_for d (bo_core B) = [] \<and>
    document_data d doc B = Inr data \<and> target_draft t rs data now = Inr rd \<and> op = rd_operation rd \<and>
    rd_missing rd = [] \<and> dget (draft_plan rd) ''status'' = PStr ''planned'' \<and>
    (s = ''needs_confirmation'' \<longleftrightarrow> dget op ''safety'' = PStr ''requires_confirmation'')"
proof -
  from assms obtain doc t where doc: "lookup_row (xl_documents (bo_core B)) d = Some doc"
      and t: "route_target_of (document_target (rs_py rs) doc given) = Some t"
      and ty: "document_type_routing_block (rs_py rs) doc (document_target (rs_py rs) doc given) = None"
      and bl: "document_block (rs_py rs) t d doc B = None"
      and dr: "draft_document_route rs t d doc (document_target (rs_py rs) doc given) run now B =
        (Inr (Route_prepared s i tg op), C)"
    by (auto simp: prepare_document_route_def Let_def split: option.splits)
  show ?thesis
    using draft_prepared [OF dr] doc t ty bl
    by (auto simp: document_block_None document_type_routing_block_def routed_status_def split: if_splits)
qed

section \<open>What routing leaves alone\<close>

text \<open>
  Routing adds attempts and reviews, writes the record and the routed document, and nothing else:
  no export attempt, no request, no match, no bank transaction, no other document.
\<close>

definition routing_keeps :: "nat option \<Rightarrow> book_ledger \<Rightarrow> book_ledger \<Rightarrow> bool" where
  "routing_keeps doc B C \<longleftrightarrow>
     xl_sent (bo_core C) = xl_sent (bo_core B) \<and> xl_attempts (bo_core C) = xl_attempts (bo_core B) \<and>
     bo_matches C = bo_matches B \<and> bl_transactions (bo_bank C) = bl_transactions (bo_bank B) \<and>
     (\<forall>d. Some d \<noteq> doc \<longrightarrow> lookup_row (xl_documents (bo_core C)) d = lookup_row (xl_documents (bo_core B)) d)"

interpretation routing_kept: kept_relation "routing_keeps doc" for doc
  by unfold_locales (auto simp: routing_keeps_def)

lemma sources_routing: "same_sources B C \<Longrightarrow> routing_keeps doc B C"
  by (simp add: same_sources_def routing_keeps_def)

lemma keeps_create_routing: "keeps (routing_keeps doc) (create_routing_attempt d rid run tg status message md now)"
  by (simp add: keeps_def create_routing_attempt_def insert_row_def Let_def routing_keeps_def with_core_def)

lemma keeps_audit: "keeps (routing_keeps doc) (act_modify (book_audit bs a ty e ds now))"
  by (rule routing_kept.keeps_modify) (simp add: sources_routing sources_kept.same)

lemma keeps_mark_document: "keeps (routing_keeps (Some d)) (mark_document rs d doc status routing now)"
  unfolding mark_document_def
  by (intro routing_kept.keeps_bind routing_kept.keeps_modify)
    (simp_all add: keeps_def routing_kept.same routing_keeps_def with_core_def lookup_update_row)

lemma keeps_note_export: "keeps (routing_keeps doc) (note_export rs d export status i details now)"
proof -
  have "record_export_state bs d export status r details now B = Inr (B', rp) \<Longrightarrow> same_sources B B'" for bs r B B' rp
    by (auto simp: record_export_state_def dest!: rbind_eq_InrD upsert_from_document_sources split: option.splits)
  then show ?thesis unfolding note_export_def
    by (intro routing_kept.keeps_bind routing_kept.keeps_return routing_kept.keeps_act_result) (auto intro: sources_routing)
qed

lemma keeps_note_record: "keeps (routing_keeps doc) (note_record_export rs rid r export status i details now)"
  unfolding note_record_export_def
  by (rule routing_kept.keeps_modify) (simp add: routing_keeps_def with_records_def with_core_def)

lemma keeps_queue_once: "keeps (routing_keeps doc) (queue_review_once d reason details c now)"
proof -
  have "keeps (routing_keeps doc) (create_review dd reason details c now)" for dd
    by (auto simp: keeps_def create_review_def Let_def with_core_def routing_keeps_def split: list.splits prod.splits)
  then have "keeps (routing_keeps doc) (act_bind (create_review (Some d) reason details c now) (\<lambda>_. act_return ()))"
    by (intro routing_kept.keeps_bind routing_kept.keeps_return)
  then show ?thesis by (simp add: keeps_def queue_review_once_def routing_kept.same)
qed

lemmas routing_steps = routing_kept.keeps_bind routing_kept.keeps_return keeps_create_routing keeps_audit keeps_mark_document
  keeps_note_export keeps_note_record keeps_queue_once

lemma keeps_blocked: "keeps (routing_keeps (Some d)) (record_blocked_attempt rs t d doc b run now)"
  by (cases b) (auto simp: record_blocked_attempt_def intro!: routing_steps)

lemma keeps_draft_document: "routing_keeps (Some d) B (snd (draft_document_route rs t d doc target run now B))"
proof -
  have k: "keeps (routing_keeps (Some d)) (block_missing_fields rs t d doc target rd run now)"
      "keeps (routing_keeps (Some d)) (block_incomplete_plan rs t d doc target rd run now)"
      "keeps (routing_keeps (Some d)) (already_prepared_document rs d hit now)"
      "keeps (routing_keeps (Some d)) (finish_document_route rs t d doc target rd run now)" for rd hit
    unfolding block_missing_fields_def block_incomplete_plan_def already_prepared_document_def finish_document_route_def Let_def
    by (auto intro!: routing_steps keeps_blocked split: option.split)
  show ?thesis using k
    by (auto simp: draft_document_route_def use_document_draft_def keeps_def routing_kept.same split: sum.split option.split)
qed

lemma keeps_document_route: "keeps (routing_keeps (Some d)) (prepare_document_route rs d given run now)"
  using keeps_blocked keeps_draft_document
  by (auto simp: keeps_def prepare_document_route_def Let_def routing_kept.same split: option.split)

lemma keeps_blocked_record: "keeps (routing_keeps doc) (record_blocked_record_attempt rs t rid r b run now)"
  by (cases b) (auto simp: record_blocked_record_attempt_def intro!: routing_steps)

lemma keeps_record_draft: "routing_keeps doc B (snd (draft_record_route rs t rid r target run now B))"
proof -
  have k: "keeps (routing_keeps doc) (already_prepared_record rs rid r hit now)"
      "keeps (routing_keeps doc) (finish_record_route rs t rid r target rd run now)" for rd hit
    unfolding already_prepared_record_def finish_record_route_def Let_def by (auto intro!: routing_steps)
  show ?thesis using k keeps_blocked_record
    by (auto simp: draft_record_route_def use_record_draft_def keeps_def routing_kept.same split: sum.split option.split)
qed

lemma keeps_record_route: "keeps (routing_keeps doc) (prepare_bookkeeping_record_route rs rid given run now)"
proof -
  have "keeps (routing_keeps doc) (already_prepared_record rs rid r hit now)" for r hit
    unfolding already_prepared_record_def by (auto intro!: routing_steps)
  then show ?thesis using keeps_blocked_record keeps_record_draft
    by (auto simp: keeps_def prepare_bookkeeping_record_route_def prepare_record_target_def Let_def routing_kept.same split: option.split)
qed

definition sends_nothing :: "book_ledger \<Rightarrow> book_ledger \<Rightarrow> bool" where
  "sends_nothing B C \<longleftrightarrow> xl_sent (bo_core C) = xl_sent (bo_core B) \<and> xl_attempts (bo_core C) = xl_attempts (bo_core B)"

interpretation nothing_sent: kept_relation sends_nothing
  by unfold_locales (auto simp: sends_nothing_def)

lemma routing_sends_nothing: "routing_keeps doc B C \<Longrightarrow> sends_nothing B C"
  by (simp add: routing_keeps_def sends_nothing_def)

text \<open>
  C29: No routing operation, and no batch of them, sends a request or touches an export attempt: drafts
  stay behind the approval, whatever the documents and the settings.
\<close>

theorem routing_submits_nothing:
  "sends_nothing B (snd (prepare_document_route rs d given run now B)) \<and>
   sends_nothing B (snd (prepare_bookkeeping_record_route rs rid given run now B)) \<and>
   sends_nothing B (snd (prepare_ready_documents rs limit now B)) \<and>
   sends_nothing B (snd (prepare_ready_bookkeeping_records rs limit now B))"
proof -
  have doc: "keeps sends_nothing (prepare_document_route rs d given run now)" for d given run
    by (rule keeps_mono [OF keeps_document_route routing_sends_nothing])
  have rec: "keeps sends_nothing (prepare_bookkeeping_record_route rs rid given run now)" for rid given run
    by (rule keeps_mono [OF keeps_record_route [of None] routing_sends_nothing])
  have batch: "keeps sends_nothing (act_bind (act_all f xs) (\<lambda>replies. act_bind (act_modify
       (book_audit (rs_records rs) a ty PNone (route_summary_details (route_summary_of replies)) now))
       (\<lambda>_. act_return (route_summary_of replies))))" if "\<And>x. keeps sends_nothing (f x)" for f :: "nat \<Rightarrow> route_reply act" and xs a ty
    by (intro nothing_sent.keeps_bind nothing_sent.keeps_all that nothing_sent.keeps_return
        keeps_mono [OF keeps_audit [of None] routing_sends_nothing])
  show ?thesis
    using doc rec batch [OF doc] batch [OF rec]
    by (simp add: keeps_def prepare_ready_documents_def prepare_ready_bookkeeping_records_def)
qed

section \<open>Preparing a prepared route again\<close>

lemma note_export_writes:
  assumes "lookup_row (xl_documents (bo_core B)) d = Some doc" and "wf_table (xl_records (bo_core B))" and "recordable doc"
  shows "\<exists>C rid x. note_export rs d export status i details now B = (Inr (), C) \<and>
    lookup_row (xl_records (bo_core C)) rid = Some x \<and> bk_document x = Some d \<and> bk_export_status x = export \<and>
    xl_documents (bo_core C) = xl_documents (bo_core B) \<and> xl_routing (bo_core C) = xl_routing (bo_core B) \<and>
    (\<forall>j r. record_by_document d (bo_core B) = Some (j, r) \<longrightarrow> rid = j)"
proof -
  obtain p ls where q: "document_record_payload (rs_records rs) d doc (bo_core B) status = Inr (p, ls)"
    using recordable_payload [OF assms(3)] by blast
  obtain C rp x where C: "upsert_from_document (rs_records rs) d status now B = Inr (C, Some rp)"
      "lookup_row (xl_records (bo_core C)) (br_record rp) = Some x" "bk_document x = Some d"
      "\<forall>j r. record_by_document d (bo_core B) = Some (j, r) \<longrightarrow> br_record rp = j"
    using upsert_writes [OF assms(1,2) q] by blast
  define row where "row = export_state_row (rs_records rs) export status (Some i) details now"
  have "note_export rs d export status i details now B =
      (Inr (), with_records (update_row (br_record rp) row (xl_records (bo_core C))) C)"
    by (simp add: note_export_def record_export_state_def act_bind_def act_result_def act_return_def C(1) row_def)
  moreover have "same_sources B C" using C(1) by (rule upsert_from_document_sources)
  moreover have "bk_document (row x) = Some d" "bk_export_status (row x) = export"
    by (simp_all add: row_def export_state_row_def C(3))
  ultimately show ?thesis using C(2,4)
    by (intro exI [of _ "with_records (update_row (br_record rp) row (xl_records (bo_core C))) C"] exI [of _ "br_record rp"]
        exI [of _ "row x"]) (simp add: with_records_def with_core_def lookup_update_row same_sources_def)
qed

lemma recordable_marked:
  "recordable doc \<Longrightarrow> recordable (dset ''updated_at'' v (dset ''metadata'' (PDict m) (dset ''processing_status'' w doc)))"
  by (simp add: recordable_def has_dict_def dget_dset dict_of_def del: dset.simps)

lemma document_is_prepared:
  assumes "lookup_row (xl_documents (bo_core B)) d = Some doc"
    and "route_target_of (document_target (rs_py rs) doc given) = Some t"
    and "document_type_routing_block (rs_py rs) doc (document_target (rs_py rs) doc given) = None"
    and "document_block (rs_py rs) t d doc B = None"
    and "document_draft rs t d doc now B = Inr rd" and "rd_missing rd = []"
    and "find_existing_attempt d (dget (rd_operation rd) ''operation_id'') B = None"
    and "dget (draft_plan rd) ''status'' = PStr ''planned''"
    and "recordable doc" and "wf_table (xl_records (bo_core B))" and "wf_table (xl_routing (bo_core B))"
  shows "\<exists>C i row doc' rid x.
    prepare_document_route rs d given run now B = (Inr (Route_prepared (routed_status rd) i (prepared_target t rd) (rd_operation rd)), C) \<and>
    lookup_row (xl_routing (bo_core C)) i = Some row \<and> ro_status row = routed_status rd \<and> ro_document row = Some d \<and>
    dget (ro_metadata row) ''operation'' = PDict (rd_operation rd) \<and>
    lookup_row (xl_documents (bo_core C)) d = Some doc' \<and> dget doc' ''processing_status'' = PStr ''export_draft_prepared'' \<and>
    lookup_row (xl_records (bo_core C)) rid = Some x \<and> bk_document x = Some d \<and> bk_export_status x = ''draft_prepared''"
proof -
  let ?target = "document_target (rs_py rs) doc given" and ?op = "rd_operation rd"
  define md where "md = [(''targetSystem'', PStr ?target), (''destination'', PDict (destination_value (rd_destination rd))), (''operation'', PDict ?op),
          (''documentSnapshot'', PDict (routing_document_snapshot d doc)), (''externalSubmission'', PStr ''not_executed''),
          (''approvalRequiredForSubmit'', PBool True)] @ rt_mark t"
  define row where "row = \<lparr>ro_document = Some d, ro_workflow = run, ro_target = prepared_target t rd, ro_status = routed_status rd,
             ro_message = Some (rt_document_message t), ro_metadata = md, ro_created = whole_second now, ro_record = None\<rparr>"
  have row: "ro_status row = routed_status rd" "ro_document row = Some d" "dget (ro_metadata row) ''operation'' = PDict ?op"
    by (simp_all add: row_def md_def)
  have r: "prepare_document_route rs d given run now B = finish_document_route rs t d doc ?target rd run now B"
    using assms(1-8) by (simp add: prepare_document_route_def Let_def draft_document_route_def use_document_draft_def)
  obtain tab i where ins: "insert_row row (xl_routing (bo_core B)) = (tab, i)" by (rule prod.exhaust)
  have tab: "lookup_row tab i = Some row"
    using lookup_insert_row [OF assms(11), of row i] by (simp only: ins fst_conv snd_conv if_True refl)
  obtain metadata where metadata: "dict_of (dget doc ''metadata'') = Inr metadata"
    using assms(9) by (auto simp: recordable_def has_dict_def)
  define routing where "routing = [(''targetSystem'', PStr ?target), (''routingAttemptId'', PInt (int i)),
         (rt_surface_key t, PStr (ds_target (rd_destination rd))), (rt_action_key t, PStr (rd_action rd)),
         (''status'', PStr (routed_status rd))]"
  define mark where "mark = (\<lambda>row. dset ''updated_at'' (PStr (le_iso (rs_env rs) (whole_second now)))
            (dset ''metadata'' (PDict (redact_dict (rs_env rs) (dset ''routing'' (PDict routing) metadata)))
              (dset ''processing_status'' (PStr ''export_draft_prepared'') row)))"
  define D where "D = with_core ((bo_core B)\<lparr>xl_routing := tab, xl_documents := update_row d mark (xl_documents (bo_core B))\<rparr>) B"
  have D: "lookup_row (xl_documents (bo_core D)) d = Some (mark doc)" "xl_records (bo_core D) = xl_records (bo_core B)"
      "xl_routing (bo_core D) = tab" "wf_table (xl_records (bo_core D))"
    using assms(1,10) by (simp_all add: D_def with_core_def lookup_update_row)
  define details where "details = route_details t ?target rd @ [(''operationId'', dget ?op ''operation_id'')]"
  have "recordable (mark doc)" unfolding mark_def by (rule recordable_marked [OF assms(9)])
  from note_export_writes [OF D(1,4) this] obtain C rid x where
      C: "note_export rs d ''draft_prepared'' (Some ''export_draft_prepared'') i details now D = (Inr (), C)"
      "lookup_row (xl_records (bo_core C)) rid = Some x" "bk_document x = Some d" "bk_export_status x = ''draft_prepared''"
      "xl_documents (bo_core C) = xl_documents (bo_core D)" "xl_routing (bo_core C) = xl_routing (bo_core D)"
    by blast
  define E where "E = book_audit (rs_records rs) (rt_prepared_document t) ''bookkeeping_document'' (PStr (str_of_nat d))
        ([(''routingAttemptId'', PInt (int i)), (''targetSystem'', PStr ?target), (''surface'', PStr (ds_target (rd_destination rd))),
          (''actionId'', PStr (rd_action rd)), (''operationId'', dget ?op ''operation_id''), (''safety'', dget ?op ''safety''),
          (''externalSubmission'', PStr ''not_executed'')] @ rt_mark t) now C"
  have c: "create_routing_attempt (Some d) None run (prepared_target t rd) (routed_status rd) (rt_document_message t) md now B =
      (Inr i, with_core ((bo_core B)\<lparr>xl_routing := tab\<rparr>) B)"
    by (simp only: create_routing_attempt_def ins [unfolded row_def] prod.case Let_def)
  have m: "mark_document rs d doc ''export_draft_prepared'' routing now (with_core ((bo_core B)\<lparr>xl_routing := tab\<rparr>) B) = (Inr (), D)"
    by (simp add: mark_document_def act_bind_def metadata act_modify_def D_def mark_def with_core_def)
  have f: "finish_document_route rs t d doc ?target rd run now B = (Inr (Route_prepared (routed_status rd) i (prepared_target t rd) ?op), E)"
    unfolding finish_document_route_def Let_def md_def [symmetric]
    by (simp only: act_bind_def c prod.case sum.case routing_def [symmetric] m details_def [symmetric] C(1))
      (simp add: act_modify_def act_return_def E_def)
  have E: "xl_routing (bo_core E) = tab" "xl_documents (bo_core E) = xl_documents (bo_core D)"
      "xl_records (bo_core E) = xl_records (bo_core C)"
    using C(5,6) D(3) by (simp_all add: E_def book_audit_def record_audit_def with_core_def)
  have "dget (mark doc) ''processing_status'' = PStr ''export_draft_prepared''" by (simp add: mark_def dget_dset del: dset.simps)
  with r f tab row D(1) C(2-4) show ?thesis unfolding E(1) [symmetric] E(2) [symmetric] E(3) [symmetric] by metis
qed

text \<open>
  C21: A document that passes the checks and whose draft has every field and a complete plan is prepared:
  the attempt with the operation is stored, the document becomes a prepared draft and so does its
  bookkeeping record.
\<close>

theorem routable_document_is_prepared:
  assumes "lookup_row (xl_documents (bo_core B)) d = Some doc"
    and "route_target_of (document_target (rs_py rs) doc given) = Some t"
    and "document_type_routing_block (rs_py rs) doc (document_target (rs_py rs) doc given) = None"
    and "document_block (rs_py rs) t d doc B = None"
    and "document_draft rs t d doc now B = Inr rd" and "rd_missing rd = []"
    and "find_existing_attempt d (dget (rd_operation rd) ''operation_id'') B = None"
    and "dget (draft_plan rd) ''status'' = PStr ''planned''"
    and "recordable doc" and "wf_table (xl_records (bo_core B))" and "wf_table (xl_routing (bo_core B))"
  shows "\<exists>C i row doc' rid x.
    prepare_document_route rs d given run now B = (Inr (Route_prepared (routed_status rd) i (prepared_target t rd) (rd_operation rd)), C) \<and>
    lookup_row (xl_routing (bo_core C)) i = Some row \<and> ro_status row = routed_status rd \<and> ro_document row = Some d \<and>
    dget (ro_metadata row) ''operation'' = PDict (rd_operation rd) \<and>
    lookup_row (xl_documents (bo_core C)) d = Some doc' \<and> dget doc' ''processing_status'' = PStr ''export_draft_prepared'' \<and>
    lookup_row (xl_records (bo_core C)) rid = Some x \<and> bk_document x = Some d \<and> bk_export_status x = ''draft_prepared''"
  by (rule document_is_prepared [OF assms])

text \<open>
  C38: A document whose draft is prepared has a status that is not routable, so the check for a prepared
  attempt is never reached: preparing it again records a blocked attempt and sets the export status
  of its record to blocked, although the draft is still there.
\<close>

theorem second_preparation_blocks_the_record:
  assumes "lookup_row (xl_documents (bo_core B)) d = Some doc"
    and "dget doc ''processing_status'' = PStr ''export_draft_prepared''" and "\<not> truthy (dget doc ''duplicate_of_document_id'')"
    and "route_target_of (document_target (rs_py rs) doc given) = Some t"
    and "document_type_routing_block (rs_py rs) doc (document_target (rs_py rs) doc given) = None"
    and "record_by_document d (bo_core B) = Some (rid, r)" and "wf_table (xl_records (bo_core B))"
    and "recordable doc"
  shows "\<exists>C i x. prepare_document_route rs d given run now B = (Inr (Route_blocked ''blocked_status'' i), C) \<and>
    lookup_row (xl_records (bo_core C)) rid = Some x \<and> bk_export_status x = ''blocked_status''"
proof -
  obtain msg md where b: "document_block (rs_py rs) t d doc B = Some (''blocked_status'', msg, md)"
    using assms(2,3) by (simp add: document_block_def ROUTABLE_DOCUMENT_STATUSES_def)
  have r: "prepare_document_route rs d given run now B = record_blocked_attempt rs t d doc (''blocked_status'', msg, md) run now B"
    using assms(1,4,5) b by (simp add: prepare_document_route_def Let_def)
  obtain tab i where ins: "insert_row \<lparr>ro_document = Some d, ro_workflow = run, ro_target = rt_name t, ro_status = ''blocked_status'',
      ro_message = Some msg, ro_metadata = dupdate md ([(''documentSnapshot'', PDict (routing_document_snapshot d doc)),
           (''externalSubmission'', PStr ''not_executed'')] @ rt_mark t), ro_created = whole_second now, ro_record = None\<rparr>
      (xl_routing (bo_core B)) = (tab, i)" by (rule prod.exhaust)
  define D where "D = book_audit (rs_records rs) (rt_blocked_document t) ''bookkeeping_document'' (PStr (str_of_nat d))
        (dupdate [(''routingAttemptId'', PInt (int i)), (''status'', PStr ''blocked_status''), (''message'', PStr msg)] md) now
        (with_core ((bo_core B)\<lparr>xl_routing := tab\<rparr>) B)"
  have D: "xl_documents (bo_core D) = xl_documents (bo_core B)" "xl_records (bo_core D) = xl_records (bo_core B)"
    by (simp_all add: D_def book_audit_def record_audit_def with_core_def)
  have "record_by_document d (bo_core D) = Some (rid, r)" using assms(6) by (simp add: record_by_document_def D)
  then obtain C x where C: "note_export rs d ''blocked_status'' None i
        [(''routingStatus'', PStr ''blocked_status''), (''message'', PStr msg)] now D = (Inr (), C)"
      "lookup_row (xl_records (bo_core C)) rid = Some x" "bk_export_status x = ''blocked_status''"
    using note_export_writes [of D d doc rs "''blocked_status''" None] assms(1,7,8) by (simp add: D) blast
  have "record_blocked_attempt rs t d doc (''blocked_status'', msg, md) run now B = (Inr (Route_blocked ''blocked_status'' i), C)"
    using C(1) ins
    by (simp add: record_blocked_attempt_def act_bind_def create_routing_attempt_def act_modify_def act_return_def
        blocked_export_status_def review_status_def D_def)
  then show ?thesis using r C(2,3) by auto
qed

text \<open>
  The MijnGeldzaken route of a bank record does not look for a prepared attempt before it checks the
  status, which the first preparation changed: the second one blocks the record.
\<close>

lemma prepared_bank_record_is_blocked:
  assumes "lookup_row (xl_records (bo_core B)) rid = Some r"
    and "dget (bk_columns r) ''source_type'' = PStr ''bank_transaction''"
    and "route_target_of (record_target (rs_py rs) r given) = Some mgz_target"
    and "\<not> bk_review_required r" and "bk_status r = ''export_draft_prepared''"
  shows "\<exists>C i x. prepare_bookkeeping_record_route rs rid given run now B = (Inr (Route_blocked ''blocked_status'' i), C) \<and>
    lookup_row (xl_records (bo_core C)) rid = Some x \<and> bk_export_status x = ''blocked_status''"
  using assms
  by (simp add: prepare_bookkeeping_record_route_def Let_def prepare_record_target_def mgz_target_def record_block_def
      ROUTABLE_BOOKKEEPING_RECORD_STATUSES_def record_blocked_record_attempt_def act_bind_def create_routing_attempt_def
      insert_row_def note_record_export_def act_modify_def act_return_def blocked_export_status_def review_status_def
      with_core_def with_records_def book_audit_def record_audit_def lookup_update_row)

lemma confirmations_count_as_blocked:
  "rm_blocked (route_summary_of [Route_prepared ''needs_confirmation'' i tg op]) = 1"
  by (simp add: route_summary_of_def)

section \<open>An example\<close>

definition demo_routing :: routing_service where
  "demo_routing = \<lparr>rs_records = demo_records, rs_catalog = shop_catalog, rs_config = []\<rparr>"

definition demo_draft :: route_draft where
  "demo_draft = projr (document_draft demo_routing wave_target 1 demo_receipt (Timestamp 1) demo_books)"

lemma demo_target: "route_target_of (document_target (rs_py demo_routing) demo_receipt None) = Some wave_target"
  by code_simp

lemma demo_unblocked:
  "document_type_routing_block (rs_py demo_routing) demo_receipt (document_target (rs_py demo_routing) demo_receipt None) = None"
  "document_block (rs_py demo_routing) wave_target 1 demo_receipt demo_books = None"
  by code_simp+

lemma demo_drafted:
  "document_draft demo_routing wave_target 1 demo_receipt (Timestamp 1) demo_books = Inr demo_draft"
proof -
  have "isl (document_draft demo_routing wave_target 1 demo_receipt (Timestamp 1) demo_books) = False" by code_simp
  then show ?thesis by (simp add: demo_draft_def)
qed

lemma demo_draft_complete:
  "rd_missing demo_draft = []" "dget (draft_plan demo_draft) ''status'' = PStr ''planned''"
  by code_simp+

lemma demo_books_tables [simp]:
  "lookup_row (xl_documents (bo_core demo_books)) 1 = Some demo_receipt" "wf_table (xl_records (bo_core demo_books))"
  "wf_table (xl_routing (bo_core demo_books))" "find_existing_attempt 1 v demo_books = None"
  by (simp_all add: demo_books_def lookup_row_def wf_table_def empty_export_ledger_def find_existing_attempt_def select_rows_def
      empty_table_def)

lemma demo_recordable: "recordable demo_receipt"
  by (simp add: recordable_def has_dict_def demo_receipt_def dict_of_def extracted_lines_def)

theorem routable_document_is_prepared_witness:
  "\<exists>C i. prepare_document_route demo_routing 1 None None (Timestamp 1) demo_books =
     (Inr (Route_prepared ''draft_prepared'' i ''waveapps:transactions'' (rd_operation demo_draft)), C)"
proof -
  have "routed_status demo_draft = ''draft_prepared'' \<and> prepared_target wave_target demo_draft = ''waveapps:transactions''" by code_simp
  then show ?thesis
    using routable_document_is_prepared [OF demo_books_tables(1) demo_target demo_unblocked demo_drafted demo_draft_complete(1)
        demo_books_tables(4) demo_draft_complete(2) demo_recordable demo_books_tables(2,3), of None]
    by simp blast
qed

theorem prepared_route_is_postable_witness:
  "open_reviews_for 1 (bo_core demo_books) = []"
proof -
  obtain C i s tg op where "prepare_document_route demo_routing 1 None None (Timestamp 1) demo_books = (Inr (Route_prepared s i tg op), C)"
    using document_is_prepared [OF demo_books_tables(1) demo_target demo_unblocked demo_drafted demo_draft_complete(1)
        demo_books_tables(4) demo_draft_complete(2) demo_recordable demo_books_tables(2,3), of None] by blast
  from prepared_route_is_postable [OF this] show ?thesis by blast
qed

definition demo_prepared_receipt :: pydict where
  "demo_prepared_receipt = dset ''processing_status'' (PStr ''export_draft_prepared'') demo_receipt"

definition demo_prepared_books :: book_ledger where
  "demo_prepared_books = with_core ((bo_core demo_books)\<lparr>xl_documents := \<lparr>trows = [(1, demo_prepared_receipt)], tlast = 1\<rparr>\<rparr>) demo_books"

theorem second_preparation_blocks_the_record_witness:
  "\<exists>C i x. prepare_document_route demo_routing 1 None None (Timestamp 1) demo_prepared_books =
      (Inr (Route_blocked ''blocked_status'' i), C) \<and>
    lookup_row (xl_records (bo_core C)) 1 = Some x \<and> bk_export_status x = ''blocked_status''"
proof (rule second_preparation_blocks_the_record)
  show "lookup_row (xl_documents (bo_core demo_prepared_books)) 1 = Some demo_prepared_receipt"
    by (simp add: demo_prepared_books_def with_core_def lookup_row_def)
  show "dget demo_prepared_receipt ''processing_status'' = PStr ''export_draft_prepared''"
    "\<not> truthy (dget demo_prepared_receipt ''duplicate_of_document_id'')"
    by (simp_all add: demo_prepared_receipt_def demo_receipt_def)
  show "route_target_of (document_target (rs_py demo_routing) demo_prepared_receipt None) = Some wave_target" by code_simp
  show "document_type_routing_block (rs_py demo_routing) demo_prepared_receipt
      (document_target (rs_py demo_routing) demo_prepared_receipt None) = None" by code_simp
  show "record_by_document 1 (bo_core demo_prepared_books) = Some (1, (blank_record (Timestamp 0))\<lparr>bk_document := Some 1\<rparr>)"
    by (simp add: demo_prepared_books_def demo_books_def with_core_def record_by_document_def find_row_def)
  show "wf_table (xl_records (bo_core demo_prepared_books))"
    by (simp add: demo_prepared_books_def demo_books_def with_core_def wf_table_def)
  show "recordable demo_prepared_receipt"
    by (simp add: recordable_def has_dict_def demo_prepared_receipt_def demo_receipt_def dict_of_def extracted_lines_def)
qed

end
