(* ===== verification/Vendors.thy ===== *)
theory Vendors
  imports Py_Regex Text_Similarity Book_Lines
begin

text \<open>
  Vendors (src/vendor_management/vendor_manager.py): profiles by normalised name, aliases, the history
  of categories, and the categorizers over them (src/categorizers). The state of the manager is passed
  along: identifying a vendor may create one. Searching a configured pattern in the text of the items,
  and the trained model, are ports. Scores are exact numbers.
\<close>

section \<open>Names\<close>

definition COMPANY_FORMS :: rx where
  "COMPANY_FORMS = seqs [WordEdge,
     alts [literal ''bv'', literal ''b.v.'', literal ''vof'', literal ''v.o.f.'', literal ''ltd'', literal ''llc'', literal ''inc'',
       literal ''the''], WordEdge]"

definition lower_alnum :: "char \<Rightarrow> bool" where
  "lower_alnum c \<longleftrightarrow> in_range CHR ''a'' CHR ''z'' c \<or> in_range CHR ''0'' CHR ''9'' c"

definition normalize_name :: "string \<Rightarrow> string" where
  "normalize_name s =
     strip (rx_sub (plus_rx space_rx) '' '' (rx_sub (plus_rx (Chars (\<lambda>c. \<not> lower_alnum c))) '' ''
       (rx_sub COMPANY_FORMS '' '' (strip (lower s)))))"

text \<open>A false value is the empty name; only text has \<open>lower\<close>.\<close>

definition name_of_value :: "pyval \<Rightarrow> string result" where
  "name_of_value v =
     (if \<not> truthy v then Inr [] else case v of PStr s \<Rightarrow> Inr (normalize_name s) | _ \<Rightarrow> Inl AttributeError)"

fun py_iter :: "pyval \<Rightarrow> pyval list result" where
  "py_iter (PList xs) = Inr xs"
| "py_iter (PStr s) = Inr (map (\<lambda>c. PStr [c]) s)"
| "py_iter (PDict d) = Inr (map (\<lambda>(k, _). PStr k) d)"
| "py_iter _ = Inl TypeError"

fun py_items :: "pyval \<Rightarrow> pydict result" where
  "py_items (PDict d) = Inr d"
| "py_items _ = Inl AttributeError"

section \<open>The manager\<close>

record vendor_manager =
  vm_config :: pydict
  vm_threshold :: pyfloat
  vm_auto :: bool
  vm_vendors :: "(string \<times> pydict) list"
  vm_aliases :: "(string \<times> pyval) list"
  vm_history :: "(string \<times> (pyval \<times> nat) list) list"

text \<open>Updates of the tables keep the order of their keys.\<close>

fun put_aliases :: "pyval list \<Rightarrow> pyval \<Rightarrow> (string \<times> pyval) list \<Rightarrow> (string \<times> pyval) list result" where
  "put_aliases [] name t = Inr t"
| "put_aliases (a # as) name t = rbind (name_of_value a) (\<lambda>k. put_aliases as name (dset k name t))"

definition blank_profile :: "string \<Rightarrow> string \<Rightarrow> pydict" where
  "blank_profile name nm =
     [(''vendor_name'', PStr name), (''normalized_name'', PStr nm), (''category'', PNone), (''category_path'', PList []),
      (''aliases'', PList []), (''metadata'', PDict []), (''created_by'', PStr ''fab_vendor_manager''), (''is_auto_created'', PBool False)]"

definition vendor_profile :: "string \<Rightarrow> string \<Rightarrow> pydict \<Rightarrow> pydict" where
  "vendor_profile name nm profile =
     (let p = dupdate (blank_profile name nm) profile in
      dset ''normalized_name'' (PStr nm) (dset ''vendor_name'' (py_or (dget p ''vendor_name'') (PStr name)) p))"

definition create_vendor :: "string \<Rightarrow> pydict \<Rightarrow> bool \<Rightarrow> vendor_manager \<Rightarrow> (vendor_manager \<times> pydict) result" where
  "create_vendor name profile overwrite vm =
     (let canonical = strip name; nm = normalize_name canonical in
      if canonical = [] then Inl ValueError
      else case (if overwrite then None else map_of (vm_vendors vm) nm) of
             Some p \<Rightarrow> Inr (vm, p)
           | None \<Rightarrow>
               (let p = vendor_profile canonical nm profile in
                rbind (py_iter (dget_or p ''aliases'' (PList []))) (\<lambda>as.
                rbind (put_aliases as (dget p ''vendor_name'') (vm_aliases vm)) (\<lambda>t.
                  Inr (vm\<lparr>vm_aliases := t, vm_vendors := dset nm p (vm_vendors vm)\<rparr>, p)))))"

text \<open>\<open>Counter\<close>: a new key goes to the end; \<open>most_common(1)\<close> is the first key with the greatest count.\<close>

fun count_one :: "pyval \<Rightarrow> (pyval \<times> nat) list \<Rightarrow> (pyval \<times> nat) list" where
  "count_one k [] = [(k, 1)]"
| "count_one k ((k', n) # cs) = (if k' = k then (k, Suc n) # cs else (k', n) # count_one k cs)"

fun most_common :: "(pyval \<times> nat) list \<Rightarrow> (pyval \<times> nat) option" where
  "most_common [] = None"
| "most_common (c # cs) =
     (case most_common cs of None \<Rightarrow> Some c | Some b \<Rightarrow> if snd c < snd b then Some b else Some c)"

fun hashable :: "pyval \<Rightarrow> bool" where
  "hashable (PList _) = False"
| "hashable (PDict _) = False"
| "hashable _ = True"

definition record_vendor_usage :: "string \<Rightarrow> pyval \<Rightarrow> vendor_manager \<Rightarrow> vendor_manager result" where
  "record_vendor_usage name category vm =
     (let nm = normalize_name name in
      if nm = [] \<or> \<not> truthy category then Inr vm
      else if \<not> hashable category then Inl TypeError
      else Inr (vm\<lparr>vm_history := dset nm
        (count_one category (case map_of (vm_history vm) nm of None \<Rightarrow> [] | Some c \<Rightarrow> c)) (vm_history vm)\<rparr>))"

definition record_event :: "pyval \<Rightarrow> vendor_manager \<Rightarrow> vendor_manager result" where
  "record_event ev vm =
     rbind (attr_get ev ''vendor_name'' PNone) (\<lambda>vendor. rbind (attr_get ev ''category'' PNone) (\<lambda>category.
       if \<not> truthy vendor \<or> \<not> truthy category then Inr vm
       else case vendor of PStr v \<Rightarrow> record_vendor_usage v category vm | _ \<Rightarrow> Inl AttributeError))"

fun rfold :: "('x \<Rightarrow> 's \<Rightarrow> 's result) \<Rightarrow> 'x list \<Rightarrow> 's \<Rightarrow> 's result" where
  "rfold f [] s = Inr s"
| "rfold f (x # xs) s = rbind (f x s) (rfold f xs)"

definition configured_aliases :: "pydict \<Rightarrow> (string \<times> pyval) list" where
  "configured_aliases d = foldl (\<lambda>t (alias, canonical). dset (normalize_name alias) canonical t) [] d"

definition init_vendor_manager :: "pydict \<Rightarrow> vendor_manager result" where
  "init_vendor_manager config =
     rbind (to_float (dget_or config ''vendor_match_threshold'' (PFloat (Num (72 / 100))))) (\<lambda>threshold.
     rbind (py_items (dget_or config ''vendor_aliases'' (PDict []))) (\<lambda>aliases.
     rbind (py_items (dget_or config ''vendors'' (PDict []))) (\<lambda>vendors.
     rbind (rfold (\<lambda>(name, profile) vm. rbind (dict_of profile) (\<lambda>p. map_sum id fst (create_vendor name p True vm))) vendors
       \<lparr>vm_config = config, vm_threshold = threshold, vm_auto = truthy (dget_or config ''auto_create_vendors'' (PBool True)),
        vm_vendors = [], vm_aliases = configured_aliases aliases, vm_history = []\<rparr>) (\<lambda>vm.
     rbind (py_iter (dget_or config ''vendor_category_history'' (PList []))) (\<lambda>events.
       rfold record_event events vm)))))"

section \<open>Suggestions\<close>

definition get_vendor_profile :: "string \<Rightarrow> vendor_manager \<Rightarrow> pydict option result" where
  "get_vendor_profile name vm =
     (case map_of (vm_vendors vm) (normalize_name name) of
        Some p \<Rightarrow> Inr (Some p)
      | None \<Rightarrow>
          (case map_of (vm_aliases vm) (normalize_name name) of
             None \<Rightarrow> Inr None
           | Some canonical \<Rightarrow>
               if truthy canonical then map_sum id (map_of (vm_vendors vm)) (name_of_value canonical) else Inr None))"

text \<open>A profile looked up by a value, as its names are values of the configuration.\<close>

definition profile_of_value :: "pyval \<Rightarrow> vendor_manager \<Rightarrow> pydict option result" where
  "profile_of_value v vm =
     (case v of
        PStr s \<Rightarrow> get_vendor_profile s vm
      | _ \<Rightarrow> if truthy v then Inl AttributeError else get_vendor_profile [] vm)"

record suggestion =
  sg_name :: pyval
  sg_score :: rat
  sg_reason :: string

text \<open>\<open>get_close_matches\<close> with a cutoff of zero: the greatest pairs of ratio and text.\<close>

definition close_matches :: "string \<Rightarrow> string list \<Rightarrow> nat \<Rightarrow> string list" where
  "close_matches word candidates n =
     take n (map snd (rev (sort_key fst (sort_key snd (map (\<lambda>x. (similarity x word, x)) candidates)))))"

definition round_rat4 :: "rat \<Rightarrow> rat" where
  "round_rat4 r = of_int (round_half_even (r * 10000)) / 10000"

definition scored_matches :: "string \<Rightarrow> nat \<Rightarrow> vendor_manager \<Rightarrow> suggestion list" where
  "scored_matches nm limit vm =
     map (\<lambda>c. \<lparr>sg_name = (case map_of (vm_vendors vm) c of None \<Rightarrow> PNone | Some p \<Rightarrow> dget p ''vendor_name''),
              sg_score = round_rat4 (similarity nm c), sg_reason = ''fuzzy_name_match''\<rparr>)
       (filter (\<lambda>c. flt_le (vm_threshold vm) (Num (similarity nm c))) (close_matches nm (map fst (vm_vendors vm)) limit))"

fun add_suggestions :: "suggestion list \<Rightarrow> suggestion list \<Rightarrow> suggestion list" where
  "add_suggestions acc [] = acc"
| "add_suggestions acc (s # ss) = add_suggestions (if sg_name s \<in> sg_name ` set acc then acc else acc @ [s]) ss"

definition suggest_vendors :: "string \<Rightarrow> nat \<Rightarrow> vendor_manager \<Rightarrow> suggestion list result" where
  "suggest_vendors name limit vm =
     (let nm = normalize_name name in
      if nm = [] then Inr []
      else
        rbind (case map_of (vm_aliases vm) nm of
                 None \<Rightarrow> Inr None
               | Some a \<Rightarrow> if truthy a then profile_of_value a vm else Inr None) (\<lambda>alias.
          Inr (take limit (add_suggestions (case alias of None \<Rightarrow> [] | Some p \<Rightarrow>
                 [\<lparr>sg_name = dget p ''vendor_name'', sg_score = 1, sg_reason = ''alias''\<rparr>])
            (sort_key (\<lambda>s. - sg_score s) (scored_matches nm limit vm))))))"

section \<open>Categories\<close>

function find_category_path :: "string \<Rightarrow> pydict \<Rightarrow> string list \<Rightarrow> string list" where
  "find_category_path target [] path = []"
| "find_category_path target ((name, v) # tree) path =
     (if name = target then path @ [name]
      else (let found = (case v of PDict d \<Rightarrow> find_category_path target d (path @ [name]) | _ \<Rightarrow> []) in
        if found \<noteq> [] then found else find_category_path target tree path))"
  by pat_completeness auto

termination
  by (relation "measure (\<lambda>(_, tree, _). size (PDict tree))") auto

definition get_category_path :: "pyval \<Rightarrow> vendor_manager \<Rightarrow> pyval list result" where
  "get_category_path category vm =
     (if \<not> truthy category then Inr []
      else rbind (py_items (dget_or (vm_config vm) ''category_hierarchy'' (PDict []))) (\<lambda>tree.
        (case category of
           PStr c \<Rightarrow> (let path = find_category_path c tree [] in Inr (if path = [] then [category] else map PStr path))
         | _ \<Rightarrow> Inr [category])))"

text \<open>The path a profile names, or that of its category.\<close>

definition profile_path :: "pydict \<Rightarrow> vendor_manager \<Rightarrow> pyval result" where
  "profile_path p vm =
     (if truthy (dget p ''category_path'') then Inr (dget p ''category_path'')
      else map_sum id PList (get_category_path (dget p ''category'') vm))"

record category_result =
  cr_category :: pyval
  cr_path :: pyval
  cr_confidence :: rat
  cr_reason :: string

type_synonym search_port = "string \<Rightarrow> string \<Rightarrow> bool result"

fun any_pattern :: "search_port \<Rightarrow> string \<Rightarrow> pyval list \<Rightarrow> bool result" where
  "any_pattern search t [] = Inr False"
| "any_pattern search t (PStr p # ps) = rbind (search p t) (\<lambda>hit. if hit then Inr True else any_pattern search t ps)"
| "any_pattern search t (_ # ps) = Inl TypeError"

fun first_pattern :: "search_port \<Rightarrow> string \<Rightarrow> pydict \<Rightarrow> string option result" where
  "first_pattern search t [] = Inr None"
| "first_pattern search t ((category, v) # rules) =
     rbind (py_iter v) (\<lambda>ps. rbind (any_pattern search t ps) (\<lambda>hit.
       if hit then Inr (Some category) else first_pattern search t rules))"

definition history_confidence :: "nat \<Rightarrow> (pyval \<times> nat) list \<Rightarrow> rat" where
  "history_confidence n counter =
     round_rat4 (min (85 / 100) (55 / 100 + of_nat n / of_nat (max (sum_list (map snd counter)) 1) * (3 / 10)))"

definition history_of :: "string \<Rightarrow> vendor_manager \<Rightarrow> (pyval \<times> nat) list" where
  "history_of nm vm = (case map_of (vm_history vm) nm of None \<Rightarrow> [] | Some c \<Rightarrow> c)"

definition category_at :: "vendor_manager \<Rightarrow> pyval \<Rightarrow> rat \<Rightarrow> string \<Rightarrow> category_result result" where
  "category_at vm category confidence reason =
     rbind (get_category_path category vm) (\<lambda>path.
       Inr \<lparr>cr_category = category, cr_path = PList path, cr_confidence = confidence, cr_reason = reason\<rparr>)"

definition category_without_profile ::
  "py_env \<Rightarrow> search_port \<Rightarrow> string \<Rightarrow> pyval \<Rightarrow> string \<Rightarrow> vendor_manager \<Rightarrow> category_result result" where
  "category_without_profile env search name items fallback vm =
     (case most_common (history_of (normalize_name name) vm) of
        Some (category, n) \<Rightarrow>
          category_at vm category (history_confidence n (history_of (normalize_name name) vm)) ''vendor_history''
      | None \<Rightarrow>
          rbind (if truthy items then py_iter items else Inr []) (\<lambda>xs.
          rbind (py_items (dget_or (vm_config vm) ''purchase_pattern_rules'' (PDict []))) (\<lambda>rules.
          rbind (first_pattern search (join_with '' '' (map (py_str env) xs)) rules) (\<lambda>hit.
            case hit of
              Some category \<Rightarrow> category_at vm (PStr category) (75 / 100) ''purchase_pattern_rule''
            | None \<Rightarrow> category_at vm (PStr fallback) (1 / 10) ''fallback''))))"

definition assign_category ::
  "py_env \<Rightarrow> search_port \<Rightarrow> string \<Rightarrow> pyval \<Rightarrow> string \<Rightarrow> vendor_manager \<Rightarrow> category_result result" where
  "assign_category env search name items fallback vm =
     rbind (get_vendor_profile name vm) (\<lambda>profile.
       case profile of
         Some p \<Rightarrow>
           if truthy (dget p ''category'') then
             rbind (profile_path p vm) (\<lambda>path.
               Inr \<lparr>cr_category = dget p ''category'', cr_path = path, cr_confidence = 9 / 10, cr_reason = ''vendor_default_category''\<rparr>)
           else category_without_profile env search name items fallback vm
       | None \<Rightarrow> category_without_profile env search name items fallback vm)"

section \<open>Identification\<close>

record vendor_answer =
  va_name :: pyval
  va_existing :: bool
  va_suggestions :: "suggestion list"
  va_category :: pyval
  va_path :: pyval
  va_profile :: "pydict option"
  va_reason :: "string option"
  va_review :: bool

definition vendor_result :: "vendor_manager \<Rightarrow> pydict \<Rightarrow> bool \<Rightarrow> suggestion list \<Rightarrow> string \<Rightarrow> vendor_answer result" where
  "vendor_result vm p existing ss reason =
     rbind (profile_path p vm) (\<lambda>path.
       Inr \<lparr>va_name = dget p ''vendor_name'', va_existing = existing, va_suggestions = ss, va_category = dget p ''category'',
            va_path = path, va_profile = Some p, va_reason = Some reason, va_review = False\<rparr>)"

definition unknown_vendor :: "pyval \<Rightarrow> suggestion list \<Rightarrow> vendor_answer" where
  "unknown_vendor name ss =
     \<lparr>va_name = name, va_existing = False, va_suggestions = ss, va_category = PNone, va_path = PList [], va_profile = None,
      va_reason = None, va_review = True\<rparr>"

definition find_vendor_in_text :: "string \<Rightarrow> vendor_manager \<Rightarrow> pyval" where
  "find_vendor_in_text nm vm =
     (case find (\<lambda>(k, p). k \<noteq> [] \<and> contains k nm) (vm_vendors vm) of
        Some (_, p) \<Rightarrow> dget p ''vendor_name''
      | None \<Rightarrow> (case find (\<lambda>(a, c). a \<noteq> [] \<and> contains a nm) (vm_aliases vm) of Some (_, c) \<Rightarrow> c | None \<Rightarrow> PNone))"

text \<open>The profile of the first suggestion, when its score reaches the threshold.\<close>

definition suggested_profile :: "suggestion list \<Rightarrow> vendor_manager \<Rightarrow> (pydict \<times> string) option result" where
  "suggested_profile ss vm =
     (case ss of
        [] \<Rightarrow> Inr None
      | s # _ \<Rightarrow>
          if flt_le (vm_threshold vm) (Num (sg_score s))
          then map_sum id (map_option (\<lambda>p. (p, sg_reason s))) (profile_of_value (sg_name s) vm)
          else Inr None)"

definition AUTO_PROFILE :: pydict where
  "AUTO_PROFILE = [(''is_auto_created'', PBool True), (''metadata'', PDict [(''source'', PStr ''ocr_extracted_vendor'')])]"

definition identify_named :: "string \<Rightarrow> vendor_manager \<Rightarrow> (vendor_manager \<times> vendor_answer) result" where
  "identify_named name vm =
     rbind (get_vendor_profile name vm) (\<lambda>known.
       case known of
         Some p \<Rightarrow> map_sum id (Pair vm) (vendor_result vm p True [] ''exact_match'')
       | None \<Rightarrow>
           rbind (suggest_vendors name 3 vm) (\<lambda>ss.
           rbind (suggested_profile ss vm) (\<lambda>hit.
             case hit of
               Some (p, reason) \<Rightarrow> map_sum id (Pair vm) (vendor_result vm p True ss reason)
             | None \<Rightarrow>
                 if vm_auto vm then
                   rbind (create_vendor name AUTO_PROFILE False vm) (\<lambda>(vm', p).
                   map_sum id (Pair vm') (vendor_result vm' p False ss ''auto_created_from_ocr''))
                 else Inr (vm, unknown_vendor (PStr name) ss))))"

definition identify_in_text :: "pyval \<Rightarrow> vendor_manager \<Rightarrow> vendor_answer result" where
  "identify_in_text t vm =
     rbind (name_of_value t) (\<lambda>nm.
      let found = find_vendor_in_text nm vm in
      if \<not> truthy found then Inr (unknown_vendor PNone [])
      else rbind (profile_of_value found vm) (\<lambda>known.
        case known of
          Some p \<Rightarrow> vendor_result vm p True [] ''vendor_name_found_in_ocr_text''
        | None \<Rightarrow> Inr (unknown_vendor PNone [])))"

definition identify_vendor :: "pyval \<Rightarrow> pyval \<Rightarrow> vendor_manager \<Rightarrow> (vendor_manager \<times> vendor_answer) result" where
  "identify_vendor t extracted vm =
     rbind (if truthy extracted then (case extracted of PStr s \<Rightarrow> Inr (strip s) | _ \<Rightarrow> Inl AttributeError) else Inr []) (\<lambda>name.
       if name \<noteq> [] then identify_named name vm else map_sum id (Pair vm) (identify_in_text t vm))"

section \<open>Categorizers\<close>

record category_answer =
  ca_category :: pyval
  ca_confidence :: rat
  ca_path :: pyval
  ca_why :: string

text \<open>The texts of a rule in lower case.\<close>

definition rule_texts :: "pyval \<Rightarrow> string \<Rightarrow> string list result" where
  "rule_texts rule key =
     rbind (attr_get rule key (PList [])) (\<lambda>v. rbind (py_iter v) (\<lambda>xs.
       rmap (\<lambda>x. case x of PStr s \<Rightarrow> Inr (lower s) | _ \<Rightarrow> Inl AttributeError) xs))"

text \<open>The first rule with the vendor, or with a keyword in the text: its category, and whether by vendor.\<close>

fun first_rule :: "string \<Rightarrow> string \<Rightarrow> pydict \<Rightarrow> (string \<times> bool) option result" where
  "first_rule vendor t [] = Inr None"
| "first_rule vendor t ((category, rule) # rules) =
     rbind (rule_texts rule ''keywords'') (\<lambda>keywords. rbind (rule_texts rule ''vendors'') (\<lambda>vendors.
       if vendor \<noteq> [] \<and> vendor \<in> set vendors then Inr (Some (category, True))
       else if \<exists>k \<in> set keywords. contains k t then Inr (Some (category, False))
       else first_rule vendor t rules))"

definition text_field :: "pydict \<Rightarrow> string \<Rightarrow> string result" where
  "text_field d key = (case dget_or d key (PStr []) of PStr s \<Rightarrow> Inr s | _ \<Rightarrow> Inl AttributeError)"

definition rule_based :: "py_env \<Rightarrow> pydict \<Rightarrow> pydict \<Rightarrow> (pyval \<times> pyfloat) result" where
  "rule_based env config processed =
     rbind (text_field processed ''ocr_text'') (\<lambda>t.
     rbind (attr_get (dget_or processed ''extracted_data'' (PDict [])) ''vendor_name'' PNone) (\<lambda>v.
     rbind (py_items (dget_or config ''categorization_rules'' (PDict []))) (\<lambda>rules.
     rbind (first_rule (lower (py_str env (py_or v (PStr [])))) (lower t) rules) (\<lambda>hit.
       Inr (case hit of
              None \<Rightarrow> (PStr ''Uncategorized'', Num 0)
            | Some (c, by_vendor) \<Rightarrow> (PStr c, Num (if by_vendor then 9 / 10 else 8 / 10)))))))"

definition fallback_category :: "pydict \<Rightarrow> pyval \<times> pyfloat" where
  "fallback_category config = (dget_or config ''default_fallback_category'' (PStr ''Manual Review''), Num (1 / 10))"

definition ml_threshold :: "pydict \<Rightarrow> pyfloat" where
  "ml_threshold config =
     (case to_float (dget_or config ''ml_confidence_threshold'' (PFloat (Num (7 / 10)))) of Inl _ \<Rightarrow> Num (7 / 10) | Inr f \<Rightarrow> f)"

text \<open>The trained model, when there is one: the category and the confidence it predicts for a text.\<close>

definition ml_category :: "(string \<Rightarrow> pyval \<times> pyfloat) option \<Rightarrow> pydict \<Rightarrow> (pyval \<times> pyfloat) result" where
  "ml_category model processed =
     (case model of
        None \<Rightarrow> Inr (PStr ''Uncategorized'', Num 0)
      | Some f \<Rightarrow>
          (case dget_or processed ''ocr_text'' (PStr []) of
             PStr s \<Rightarrow> Inr (if s = [] then (PStr ''Uncategorized'', Num 0) else f s)
           | v \<Rightarrow> if truthy v then Inl AttributeError else Inr (PStr ''Uncategorized'', Num 0)))"

definition hybrid_category ::
  "py_env \<Rightarrow> (string \<Rightarrow> pyval \<times> pyfloat) option \<Rightarrow> pydict \<Rightarrow> pydict \<Rightarrow> (pyval \<times> pyfloat) result" where
  "hybrid_category env model config processed =
     rbind (rule_based env config processed) (\<lambda>r.
       if fst r \<noteq> PStr ''Uncategorized'' then Inr r
       else rbind (ml_category model processed) (\<lambda>m.
         Inr (if flt_le (ml_threshold config) (snd m) then m else fallback_category config)))"

definition answer_at :: "vendor_manager \<Rightarrow> string \<Rightarrow> rat \<Rightarrow> string \<Rightarrow> category_answer result" where
  "answer_at vm category confidence reason =
     rbind (get_category_path (PStr category) vm) (\<lambda>path.
       Inr \<lparr>ca_category = PStr category, ca_confidence = confidence, ca_path = PList path, ca_why = reason\<rparr>)"

definition answer_by_rules :: "string \<Rightarrow> pyval \<Rightarrow> vendor_manager \<Rightarrow> category_answer result" where
  "answer_by_rules vendor t vm =
     rbind (case t of PStr s \<Rightarrow> Inr (lower s) | _ \<Rightarrow> Inl AttributeError) (\<lambda>low.
     rbind (py_items (dget_or (vm_config vm) ''categorization_rules'' (PDict []))) (\<lambda>rules.
     rbind (first_rule (lower vendor) low rules) (\<lambda>hit.
       case hit of
         None \<Rightarrow> answer_at vm ''Uncategorized'' 0 ''no_match''
       | Some (c, True) \<Rightarrow> answer_at vm c (9 / 10) ''configured_vendor_rule''
       | Some (c, False) \<Rightarrow> answer_at vm c (8 / 10) ''configured_keyword_rule'')))"

text \<open>The name of the identified vendor, else the extracted one.\<close>

definition matched_name :: "vendor_answer \<Rightarrow> pyval \<Rightarrow> string result" where
  "matched_name a extracted =
     (case py_or (va_name a) extracted of
        PStr s \<Rightarrow> Inr s
      | v \<Rightarrow> if truthy v then Inl AttributeError else Inr [])"

definition vendor_aware_category ::
  "py_env \<Rightarrow> search_port \<Rightarrow> pydict \<Rightarrow> vendor_manager \<Rightarrow> (vendor_manager \<times> category_answer \<times> vendor_answer) result" where
  "vendor_aware_category env search processed vm =
     (let t = dget_or processed ''ocr_text'' (PStr []) in
     rbind (py_items (dget_or processed ''extracted_data'' (PDict []))) (\<lambda>ex.
     rbind (identify_vendor t (dget_or ex ''vendor_name'' (PStr [])) vm) (\<lambda>(vm', va).
     rbind (matched_name va (dget_or ex ''vendor_name'' (PStr []))) (\<lambda>vendor.
     rbind (assign_category env search vendor (dget_or ex ''line_items'' (PList [])) ''Uncategorized'' vm') (\<lambda>cr.
     rbind (if cr_category cr \<noteq> PStr ''Uncategorized'' \<and> 75 / 100 \<le> cr_confidence cr
            then Inr \<lparr>ca_category = cr_category cr, ca_confidence = cr_confidence cr, ca_path = cr_path cr, ca_why = cr_reason cr\<rparr>
            else answer_by_rules vendor t vm') (\<lambda>answer.
       Inr (vm', answer, va)))))))"

section \<open>Recognition\<close>

lemma dropWhile_idem [simp]: "dropWhile P (dropWhile P xs) = dropWhile P xs"
  by (induction xs) auto

lemma strip_idem [simp]: "strip (strip s) = strip s"
proof -
  let ?d = "dropWhile is_space"
  have "?d (rev (?d (rev t))) = rev (?d (rev t))" if "?d t = t" for t
  proof (cases t)
    case (Cons c cs)
    with that have c: "\<not> is_space c" by (auto split: if_splits) (metis dropWhile_eq_self_iff list.distinct(1) list.sel(1) that)
    then have "?d (rev cs @ [c]) = ?d (rev cs) @ [c]"
      by (cases "\<forall>x \<in> set (rev cs). is_space x") (auto simp: dropWhile_append)
    then show ?thesis using Cons c by simp
  qed simp
  from this [of "?d s"] show ?thesis by (simp add: strip_def)
qed

lemma map_sum_eq_InrD: "map_sum id f m = Inr y \<Longrightarrow> \<exists>x. m = Inr x \<and> y = f x"
  by (cases m) auto

lemma map_of_dset_same [simp]: "map_of (dset k v d) k = Some v"
  by (simp add: map_of_dset)

text \<open>What an identification of a named vendor ends with.\<close>

lemma identify_named_cases:
  assumes "identify_named name vm = Inr (vm', a)"
  obtains
    (exact) p where "get_vendor_profile name vm = Inr (Some p)" "vm' = vm" "vendor_result vm p True [] ''exact_match'' = Inr a"
  | (similar) p reason ss where "get_vendor_profile name vm = Inr None" "suggest_vendors name 3 vm = Inr ss"
      "suggested_profile ss vm = Inr (Some (p, reason))" "vm' = vm" "vendor_result vm p True ss reason = Inr a"
  | (created) p ss where "get_vendor_profile name vm = Inr None" "vm_auto vm"
      "create_vendor name AUTO_PROFILE False vm = Inr (vm', p)" "vendor_result vm' p False ss ''auto_created_from_ocr'' = Inr a"
  | (unknown) ss where "get_vendor_profile name vm = Inr None" "\<not> vm_auto vm" "vm' = vm" "a = unknown_vendor (PStr name) ss"
proof -
  obtain known where known: "get_vendor_profile name vm = Inr known"
    using assms by (cases "get_vendor_profile name vm") (simp_all add: identify_named_def)
  show thesis
  proof (cases known)
    case (Some p)
    then show ?thesis using assms known exact [of p] by (auto simp: identify_named_def dest!: map_sum_eq_InrD)
  next
    case None
    then obtain ss hit where ss: "suggest_vendors name 3 vm = Inr ss" and hit: "suggested_profile ss vm = Inr hit"
      using assms known unfolding identify_named_def by (auto dest!: rbind_eq_InrD)
    show ?thesis
    proof (cases hit)
      case (Some h)
      obtain p reason where "h = (p, reason)" by (cases h)
      then show ?thesis using Some assms known None ss hit similar [of ss p reason]
        by (auto simp: identify_named_def dest!: map_sum_eq_InrD)
    next
      case n: None
      show ?thesis
      proof (cases "vm_auto vm")
        case True
        then have b: "rbind (create_vendor name AUTO_PROFILE False vm)
            (\<lambda>(m, p). map_sum id (Pair m) (vendor_result m p False ss ''auto_created_from_ocr'')) = Inr (vm', a)"
          using assms known None ss hit n by (simp add: identify_named_def)
        obtain m p where c: "create_vendor name AUTO_PROFILE False vm = Inr (m, p)"
          using rbind_eq_InrD [OF b] by auto
        then have "map_sum id (Pair m) (vendor_result m p False ss ''auto_created_from_ocr'') = Inr (vm', a)" using b by simp
        then have "m = vm'" "vendor_result m p False ss ''auto_created_from_ocr'' = Inr a"
          by (cases "vendor_result m p False ss ''auto_created_from_ocr''"; simp)+
        then show ?thesis using created [of p ss] known None True c by simp
      next
        case False
        then have "(vm, unknown_vendor (PStr name) ss) = (vm', a)"
          using assms known None ss hit n by (simp add: identify_named_def)
        then have "vm' = vm" "a = unknown_vendor (PStr name) ss" by simp_all
        with known None False show ?thesis by (intro unknown) simp_all
      qed
    qed
  qed
qed

lemma vendor_result_Inr:
  "vendor_result vm p existing ss reason = Inr a \<longleftrightarrow>
     (\<exists>path. profile_path p vm = Inr path \<and>
       a = \<lparr>va_name = dget p ''vendor_name'', va_existing = existing, va_suggestions = ss, va_category = dget p ''category'',
            va_path = path, va_profile = Some p, va_reason = Some reason, va_review = False\<rparr>)"
  by (cases "profile_path p vm") (simp_all add: vendor_result_def eq_commute [of _ a])

lemma create_auto_vendor:
  assumes "create_vendor name AUTO_PROFILE False vm = Inr (vm', p)"
  shows "map_of (vm_vendors vm') (normalize_name (strip name)) = Some p"
  using assms
  by (auto simp: create_vendor_def Let_def split: if_splits option.splits dest!: rbind_eq_InrD)

lemma identify_vendor_text:
  "identify_vendor t (PStr s) vm =
     (if strip s \<noteq> [] then identify_named (strip s) vm else map_sum id (Pair vm) (identify_in_text t vm))"
proof (cases "s = []")
  case True
  then show ?thesis by (simp add: identify_vendor_def strip_def)
next
  case False
  then show ?thesis by (simp add: identify_vendor_def)
qed

lemma reasons_added: "sg_reason ` set (add_suggestions acc ss) \<subseteq> sg_reason ` set acc \<union> sg_reason ` set ss"
  by (induction acc ss rule: add_suggestions.induct) (auto split: if_splits)

lemma suggestion_reasons:
  assumes "suggest_vendors name n vm = Inr ss" and "suggested_profile ss vm = Inr (Some (p, reason))"
  shows "reason \<in> {''alias'', ''fuzzy_name_match''}"
proof -
  obtain s where s: "s \<in> set ss" "reason = sg_reason s"
    using assms(2) by (cases ss) (auto simp: suggested_profile_def split: if_splits dest!: map_sum_eq_InrD sym [of "Some (p, reason)"])
  have "sg_reason ` set ss \<subseteq> {''alias'', ''fuzzy_name_match''}"
  proof (cases "normalize_name name = []")
    case True
    then show ?thesis using assms(1) by (simp add: suggest_vendors_def)
  next
    case False
    obtain hit where al: "ss = take n (add_suggestions (case hit of None \<Rightarrow> [] | Some p \<Rightarrow>
                 [\<lparr>sg_name = dget p ''vendor_name'', sg_score = 1, sg_reason = ''alias''\<rparr>])
            (sort_key (\<lambda>s. - sg_score s) (scored_matches (normalize_name name) n vm)))"
      using assms(1) False by (auto simp: suggest_vendors_def Let_def dest!: rbind_eq_InrD)
    define acc where "acc = (case hit of None \<Rightarrow> [] | Some p \<Rightarrow>
                 [\<lparr>sg_name = dget p ''vendor_name'', sg_score = 1, sg_reason = ''alias''\<rparr>])"
    have ss: "ss = take n (add_suggestions acc (sort_key (\<lambda>s. - sg_score s) (scored_matches (normalize_name name) n vm)))"
      using al by (simp add: acc_def)
    have acc: "sg_reason ` set acc \<subseteq> {''alias''}" by (cases hit) (simp_all add: acc_def)
    have "sg_reason ` set ss \<subseteq> sg_reason ` set (add_suggestions acc (sort_key (\<lambda>s. - sg_score s) (scored_matches (normalize_name name) n vm)))"
      unfolding ss by (intro image_mono set_take_subset)
    also have "\<dots> \<subseteq> {''alias'', ''fuzzy_name_match''}"
    proof -
      have "sg_reason ` set (sort_key (\<lambda>s. - sg_score s) (scored_matches (normalize_name name) n vm)) \<subseteq> {''fuzzy_name_match''}"
        by (auto simp: scored_matches_def)
      with reasons_added [of acc "sort_key (\<lambda>s. - sg_score s) (scored_matches (normalize_name name) n vm)"] acc
      show ?thesis by blast
    qed
    finally show ?thesis .
  qed
  with s show ?thesis by blast
qed

text \<open>
  C37: A vendor that was created from a document is found again under every name with the same normal
  form, as an exact match and with the same profile, whatever else the document says.
\<close>

theorem created_vendor_is_recognised:
  assumes "identify_vendor t (PStr s) vm = Inr (vm', a)" and "va_reason a = Some ''auto_created_from_ocr''"
    and "normalize_name (strip s') = normalize_name (strip s)" and "strip s' \<noteq> []"
  shows "identify_vendor t' (PStr s') vm' =
    Inr (vm', a\<lparr>va_existing := True, va_suggestions := [], va_reason := Some ''exact_match''\<rparr>)"
proof (cases "strip s = []")
  case True
  then have "identify_in_text t vm = Inr a" using assms(1) by (auto simp: identify_vendor_text dest: map_sum_eq_InrD)
  then show ?thesis using assms(2)
    by (auto simp: identify_in_text_def Let_def vendor_result_Inr unknown_vendor_def split: if_splits option.splits dest!: rbind_eq_InrD)
next
  case False
  then have "identify_named (strip s) vm = Inr (vm', a)" using assms(1) by (simp add: identify_vendor_text)
  then show ?thesis
  proof (cases rule: identify_named_cases)
    case (created p ss)
    have "get_vendor_profile (strip s') vm' = Inr (Some p)"
      using create_auto_vendor [OF created(3)] assms(3) by (simp add: get_vendor_profile_def)
    then show ?thesis using created(4) assms(4)
      by (auto simp: identify_vendor_text identify_named_def vendor_result_def dest!: rbind_eq_InrD)
  next
    case (similar p reason ss)
    have "reason \<in> {''alias'', ''fuzzy_name_match''}" using suggestion_reasons similar(2,3) by simp
    then show ?thesis using similar assms(2) by (auto simp: vendor_result_Inr)
  qed (use assms(2) in \<open>auto simp: vendor_result_Inr unknown_vendor_def\<close>)
qed

lemma profile_stored: "get_vendor_profile n vm = Inr (Some p) \<Longrightarrow> \<exists>k. map_of (vm_vendors vm) k = Some p"
  by (auto simp: get_vendor_profile_def split: option.splits if_splits dest!: map_sum_eq_InrD intro: sym)

lemma profile_of_value_stored: "profile_of_value v vm = Inr (Some p) \<Longrightarrow> \<exists>k. map_of (vm_vendors vm) k = Some p"
  by (auto simp: profile_of_value_def split: pyval.splits if_splits dest: profile_stored)

lemma add_new_members: "s \<in> set (add_suggestions acc ss) \<Longrightarrow> s \<in> set acc \<or> s \<in> set ss"
  by (induction acc ss rule: add_suggestions.induct) (auto split: if_splits)

text \<open>A suggestion by similarity names a stored vendor whose name is similar enough.\<close>

lemma fuzzy_suggestion:
  assumes "suggest_vendors name n vm = Inr ss" and "s \<in> set ss" and "sg_reason s = ''fuzzy_name_match''"
  shows "\<exists>k q. map_of (vm_vendors vm) k = Some q \<and> sg_name s = dget q ''vendor_name'' \<and>
    flt_le (vm_threshold vm) (Num (similarity (normalize_name name) k))"
proof (cases "normalize_name name = []")
  case True
  then show ?thesis using assms(1,2) by (simp add: suggest_vendors_def)
next
  case False
  let ?L = "scored_matches (normalize_name name) n vm"
  obtain hit where "ss = take n (add_suggestions (case hit of None \<Rightarrow> [] | Some p \<Rightarrow>
                 [\<lparr>sg_name = dget p ''vendor_name'', sg_score = 1, sg_reason = ''alias''\<rparr>])
            (sort_key (\<lambda>s. - sg_score s) ?L))"
    using assms(1) False by (auto simp: suggest_vendors_def Let_def dest!: rbind_eq_InrD)
  then have "s \<in> set ?L"
    using assms(2,3) by (auto dest!: in_set_takeD add_new_members split: option.splits)
  then obtain k where k: "k \<in> set (close_matches (normalize_name name) (map fst (vm_vendors vm)) n)"
      "flt_le (vm_threshold vm) (Num (similarity (normalize_name name) k))"
      "sg_name s = (case map_of (vm_vendors vm) k of None \<Rightarrow> PNone | Some p \<Rightarrow> dget p ''vendor_name'')"
    by (auto simp: scored_matches_def)
  have "k \<in> fst ` set (vm_vendors vm)"
    using k(1) by (auto simp: close_matches_def dest!: in_set_takeD) force
  then obtain q where "map_of (vm_vendors vm) k = Some q" by (metis map_of_eq_None_iff option.exhaust)
  with k show ?thesis by auto
qed

text \<open>
  An identified vendor is one of the stored ones, and one identified by similarity has a name similar
  to that of a stored vendor; identifying changes the vendors only when it creates one, and a vendor
  that is neither known nor created is handed to a person.
\<close>

theorem identified_vendor_is_known:
  assumes "identify_vendor t v vm = Inr (vm', a)"
  shows "(va_existing a \<longrightarrow> vm' = vm \<and> (\<exists>k p. map_of (vm_vendors vm) k = Some p \<and> va_profile a = Some p)) \<and>
    (va_reason a = Some ''fuzzy_name_match'' \<longrightarrow>
       (\<exists>s k q. v = PStr s \<and> map_of (vm_vendors vm) k = Some q \<and>
          flt_le (vm_threshold vm) (Num (similarity (normalize_name (strip s)) k)))) \<and>
    (va_profile a = None \<longrightarrow> vm' = vm \<and> va_review a)"
proof -
  have intext: "?thesis" if "map_sum id (Pair vm) (identify_in_text t vm) = Inr (vm', a)"
  proof -
    have i: "identify_in_text t vm = Inr a" "vm' = vm" using map_sum_eq_InrD [OF that] by auto
    then show ?thesis
      by (auto simp: identify_in_text_def Let_def vendor_result_Inr unknown_vendor_def split: if_splits option.splits
        dest!: rbind_eq_InrD) (erule profile_of_value_stored)
  qed
  show ?thesis
  proof (cases "\<exists>s. v = PStr s \<and> strip s \<noteq> []")
    case False
    then have "map_sum id (Pair vm) (identify_in_text t vm) = Inr (vm', a)"
      using assms by (cases v) (auto simp: identify_vendor_text identify_vendor_def split: if_splits)
    then show ?thesis by (rule intext)
  next
    case True
    then obtain s where s: "v = PStr s" "strip s \<noteq> []" by blast
    then have "identify_named (strip s) vm = Inr (vm', a)" using assms by (simp add: identify_vendor_text)
    then show ?thesis
    proof (cases rule: identify_named_cases)
      case (exact p)
      then show ?thesis using profile_stored [OF exact(1)] by (auto simp: vendor_result_Inr)
    next
      case (similar p reason ss)
      then obtain x where x: "x \<in> set ss" "reason = sg_reason x" "profile_of_value (sg_name x) vm = Inr (Some p)"
        by (cases ss) (auto simp: suggested_profile_def split: if_splits dest!: map_sum_eq_InrD sym [of "Some (p, reason)"])
      then show ?thesis
        using fuzzy_suggestion [OF similar(2) x(1)] profile_of_value_stored [OF x(3)] similar(4,5) s(1)
        by (auto simp: vendor_result_Inr) blast
    next
      case (created p ss)
      then show ?thesis by (auto simp: vendor_result_Inr)
    next
      case (unknown ss)
      then show ?thesis by (simp add: unknown_vendor_def)
    qed
  qed
qed

section \<open>Categories\<close>

text \<open>A path through the hierarchy from its top.\<close>

fun tree_path :: "pydict \<Rightarrow> string list \<Rightarrow> bool" where
  "tree_path tree [] \<longleftrightarrow> False"
| "tree_path tree [n] \<longleftrightarrow> n \<in> fst ` set tree"
| "tree_path tree (n # m # ns) \<longleftrightarrow> (\<exists>d. (n, PDict d) \<in> set tree \<and> tree_path d (m # ns))"

lemma tree_path_later: "tree_path tree ns \<Longrightarrow> tree_path (kv # tree) ns"
  by (cases "(tree, ns)" rule: tree_path.cases) auto

lemma found_path:
  "find_category_path c tree path = ps \<Longrightarrow> ps \<noteq> [] \<Longrightarrow> \<exists>ns. ps = path @ ns \<and> tree_path tree ns \<and> last ns = c"
proof (induction c tree path arbitrary: ps rule: find_category_path.induct)
  case (2 c name v tree path)
  show ?case
  proof (cases "name = c")
    case True
    then have "ps = path @ [name]" using "2.prems"(1) by simp
    then show ?thesis using True by (intro exI [of _ "[name]"]) auto
  next
    case False
    show ?thesis
    proof (cases "\<exists>d. v = PDict d \<and> find_category_path c d (path @ [name]) \<noteq> []")
      case True
      then obtain d where d: "v = PDict d" "find_category_path c d (path @ [name]) \<noteq> []" by blast
      with "2.IH"(1) [OF False d(1) refl d(2)] obtain ns where
          ns: "find_category_path c d (path @ [name]) = path @ name # ns" "tree_path d ns" "last ns = c" by auto
      then obtain m ms where "ns = m # ms" by (cases ns) auto
      moreover have "ps = find_category_path c d (path @ [name])" using "2.prems"(1) False d by simp
      ultimately show ?thesis using d ns by (intro exI [of _ "name # ns"]) auto
    next
      case n: False
      then have "ps = find_category_path c tree path" using "2.prems"(1) False by (cases v) auto
      moreover have "\<exists>ns. find_category_path c tree path = path @ ns \<and> tree_path tree ns \<and> last ns = c"
        using "2.IH"(2) [OF False refl _ refl] n "2.prems"(2) calculation by (cases v) auto
      ultimately show ?thesis by (auto intro: tree_path_later)
    qed
  qed
qed simp

text \<open>
  The path of a category ends in it, and it is the category alone or a path of the configured
  hierarchy.
\<close>

theorem category_path_is_real:
  assumes "get_category_path (PStr c) vm = Inr path" and "c \<noteq> []"
  shows "\<exists>ps tree. path = map PStr ps \<and> ps \<noteq> [] \<and> last ps = c \<and>
    dget_or (vm_config vm) ''category_hierarchy'' (PDict []) = PDict tree \<and> (ps = [c] \<or> tree_path tree ps)"
proof -
  obtain tree where tree: "py_items (dget_or (vm_config vm) ''category_hierarchy'' (PDict [])) = Inr tree"
      and path: "path = (let p = find_category_path c tree [] in if p = [] then [PStr c] else map PStr p)"
    using assms by (auto simp: get_category_path_def Let_def dest!: rbind_eq_InrD)
  have "dget_or (vm_config vm) ''category_hierarchy'' (PDict []) = PDict tree"
    using tree by (cases "dget_or (vm_config vm) ''category_hierarchy'' (PDict [])") simp_all
  moreover have "\<exists>ps. path = map PStr ps \<and> ps \<noteq> [] \<and> last ps = c \<and> (ps = [c] \<or> tree_path tree ps)"
  proof (cases "find_category_path c tree [] = []")
    case True
    then show ?thesis using path by (intro exI [of _ "[c]"]) simp
  next
    case False
    then show ?thesis using path found_path [OF refl False] by (auto simp: Let_def)
  qed
  ultimately show ?thesis by blast
qed

text \<open>Rounding a confidence to four decimals.\<close>

lemma round_even_le: "r \<le> of_int k \<Longrightarrow> round_half_even r \<le> k"
  by (auto simp: round_half_even_def Let_def) linarith+

lemma round_even_lt:
  assumes "r < of_int k - 1 / 2"
  shows "round_half_even r < k"
  using assms by (auto simp: round_half_even_def Let_def) linarith+

lemma history_confidence_le: "history_confidence n H \<le> 85 / 100"
proof -
  have "round_half_even (min (85 / 100) x * 10000) \<le> 8500" for x :: rat
    by (rule round_even_le) (simp add: min_def)
  then have "of_int (round_half_even (min (85 / 100) x * 10000)) \<le> (8500 :: rat)" for x :: rat
    by (metis of_int_le_iff of_int_numeral)
  then show ?thesis by (simp add: history_confidence_def round_rat4_def)
qed

lemma history_confidence_majority:
  assumes "75 / 100 \<le> history_confidence n H"
  shows "sum_list (map snd H) < 2 * n"
proof -
  let ?t = "sum_list (map snd H)" and ?m = "max (sum_list (map snd H)) 1"
  define q :: rat where "q = of_nat n / of_nat ?m"
  define x where "x = 55 / 100 + q * (3 / 10)"
  have "7500 \<le> round_half_even (min (85 / 100) x * 10000)"
    using assms by (simp add: history_confidence_def round_rat4_def x_def q_def)
  then have "\<not> min (85 / 100) x * 10000 < 7500 - 1 / 2"
    using round_even_lt [of "min (85 / 100) x * 10000" 7500] by fastforce
  then have "7499 / 10000 \<le> x" by (simp add: min_def split: if_splits)
  then have "1999 / 3000 \<le> q" unfolding x_def by linarith
  then have q: "1999 / 3000 \<le> of_nat n / (of_nat ?m :: rat)" by (simp only: q_def)
  have m: "0 < (of_nat ?m :: rat)" by simp
  from q have "1999 / 3000 * of_nat ?m \<le> (of_nat n :: rat)" by (simp only: pos_le_divide_eq [OF m])
  with m have "(of_nat ?m :: rat) < of_nat (2 * n)" by (simp only: of_nat_mult of_nat_numeral)
  then have "?m < 2 * n" by (simp only: of_nat_less_iff)
  then show ?thesis by simp
qed

lemma category_at_Inr:
  "category_at vm c conf reason = Inr cr \<Longrightarrow> cr_category cr = c \<and> cr_confidence cr = conf \<and> cr_reason cr = reason"
  by (auto simp: category_at_def dest!: rbind_eq_InrD)

lemma without_profile_cases:
  assumes "category_without_profile env search name items fallback vm = Inr cr"
  shows "(\<exists>c n. most_common (history_of (normalize_name name) vm) = Some (c, n) \<and> cr_category cr = c \<and>
      cr_confidence cr = history_confidence n (history_of (normalize_name name) vm) \<and> cr_reason cr = ''vendor_history'') \<or>
    (cr_reason cr = ''purchase_pattern_rule'' \<and> cr_confidence cr = 75 / 100) \<or> (cr_reason cr = ''fallback'' \<and> cr_confidence cr = 1 / 10)"
  using assms
  by (auto simp: category_without_profile_def split: option.splits if_splits dest!: rbind_eq_InrD category_at_Inr)

lemma assigned_cases:
  assumes "assign_category env search name items fallback vm = Inr cr"
  shows "cr_reason cr = ''vendor_default_category'' \<and> cr_confidence cr = 9 / 10 \<or>
    category_without_profile env search name items fallback vm = Inr cr"
  using assms by (auto simp: assign_category_def split: option.splits if_splits dest!: rbind_eq_InrD)

lemma rule_answers:
  assumes "answer_by_rules vendor t vm = Inr ans"
  shows "(ca_category ans = PStr ''Uncategorized'' \<and> ca_confidence ans = 0 \<or> ca_confidence ans \<in> {8 / 10, 9 / 10}) \<and>
    ca_why ans \<noteq> ''vendor_history''"
  using assms
  by (auto simp: answer_by_rules_def answer_at_def split: option.splits bool.splits pyval.splits dest!: rbind_eq_InrD)

text \<open>
  C32: A document is left uncategorized or categorized with a confidence of at least three quarters; the
  history of its vendor decides only when more than half of the recorded uses have the category.
\<close>

theorem confident_category:
  assumes "vendor_aware_category env search processed vm = Inr (vm', ans, va)"
  shows "(ca_category ans = PStr ''Uncategorized'' \<and> ca_confidence ans = 0 \<or>
      3 / 4 \<le> ca_confidence ans \<and> ca_confidence ans \<le> 9 / 10) \<and>
    (ca_why ans = ''vendor_history'' \<longrightarrow>
      (\<exists>name c n. most_common (history_of name vm') = Some (c, n) \<and> ca_category ans = c \<and>
         sum_list (map snd (history_of name vm')) < 2 * n))"
proof -
  obtain ex vendor cr where "assign_category env search vendor (dget_or ex ''line_items'' (PList [])) ''Uncategorized'' vm' = Inr cr"
      and ans: "(if cr_category cr \<noteq> PStr ''Uncategorized'' \<and> 75 / 100 \<le> cr_confidence cr
            then Inr \<lparr>ca_category = cr_category cr, ca_confidence = cr_confidence cr, ca_path = cr_path cr, ca_why = cr_reason cr\<rparr>
            else answer_by_rules vendor (dget_or processed ''ocr_text'' (PStr [])) vm') = Inr ans"
    using assms by (auto simp: vendor_aware_category_def Let_def dest!: rbind_eq_InrD)
  note cr = assigned_cases [OF this(1)] and wp = without_profile_cases [of env search vendor _ _ vm' cr]
  show ?thesis
  proof (cases "cr_category cr \<noteq> PStr ''Uncategorized'' \<and> 75 / 100 \<le> cr_confidence cr")
    case True
    then have a: "ca_category ans = cr_category cr" "ca_confidence ans = cr_confidence cr" "ca_why ans = cr_reason cr"
      using ans by auto
    have "cr_reason cr = ''vendor_default_category'' \<and> cr_confidence cr = 9 / 10 \<or>
        (\<exists>c n. most_common (history_of (normalize_name vendor) vm') = Some (c, n) \<and> cr_category cr = c \<and>
          cr_confidence cr = history_confidence n (history_of (normalize_name vendor) vm') \<and> cr_reason cr = ''vendor_history'') \<or>
        cr_reason cr = ''purchase_pattern_rule'' \<and> cr_confidence cr = 75 / 100"
      using cr wp True by auto
    then show ?thesis
    proof (elim disjE exE conjE)
      fix c n
      let ?H = "history_of (normalize_name vendor) vm'"
      assume h: "most_common ?H = Some (c, n)" "cr_category cr = c" "cr_confidence cr = history_confidence n ?H"
      have "sum_list (map snd ?H) < 2 * n" using True h(3) by (simp add: history_confidence_majority)
      moreover have "history_confidence n ?H \<le> 9 / 10" using history_confidence_le [of n ?H] by linarith
      ultimately show ?thesis using True a h by auto
    qed (use a in simp_all)
  next
    case False
    have "answer_by_rules vendor (dget_or processed ''ocr_text'' (PStr [])) vm' = Inr ans"
      using ans unfolding if_not_P [OF False] .
    from rule_answers [OF this] show ?thesis by auto
  qed
qed

section \<open>Names that collide\<close>

text \<open>
  The dots of a company form end in no word edge before a space, so \<open>B.V.\<close> stays in the name and
  another profile is made; a name of forms and signs only has the empty normal form, the same for
  all of them.
\<close>

lemma dotted_form_is_kept: "normalize_name ''Jansen B.V.'' = ''jansen b v''" "normalize_name ''Jansen BV'' = ''jansen''"
  by code_simp+

lemma nameless_vendors_collide:
  assumes "identify_vendor t (PStr ''The BV'') vm = Inr (vm', a)" and "va_reason a = Some ''auto_created_from_ocr''"
  shows "\<exists>b. identify_vendor t' (PStr ''Inc.'') vm' = Inr (vm', b) \<and> va_name b = va_name a \<and> va_existing b"
proof -
  have n: "normalize_name (strip ''Inc.'') = normalize_name (strip ''The BV'')" "strip ''Inc.'' \<noteq> []" by code_simp+
  show ?thesis using created_vendor_is_recognised [OF assms n] by simp
qed

section \<open>Examples\<close>

definition shop_vendors :: vendor_manager where
  "shop_vendors =
     \<lparr>vm_config = [(''category_hierarchy'', PDict [(''Office'', PDict [(''Software'', PNone)])])], vm_threshold = Num (72 / 100),
      vm_auto = True, vm_vendors = [(''acme'', vendor_profile ''Acme'' ''acme'' [(''category'', PStr ''Software'')])],
      vm_aliases = [], vm_history = [(''globex'', [(PStr ''Travel'', 4), (PStr ''Food'', 1)])]\<rparr>"

definition globex_document :: pydict where
  "globex_document = [(''ocr_text'', PStr ''Total 12''), (''extracted_data'', PDict [(''vendor_name'', PStr ''Globex'')])]"

definition globex_answer :: "vendor_manager \<times> category_answer \<times> vendor_answer" where
  "globex_answer = projr (vendor_aware_category plain_env (\<lambda>_ _. Inr False) globex_document shop_vendors)"

theorem confident_category_witness:
  "3 / 4 \<le> ca_confidence (fst (snd globex_answer)) \<and> ca_why (fst (snd globex_answer)) = ''vendor_history''"
proof -
  obtain vm' ans va where g: "globex_answer = (vm', ans, va)" by (metis prod_cases3)
  have "isl (vendor_aware_category plain_env (\<lambda>_ _. Inr False) globex_document shop_vendors) = False" by code_simp
  then have e: "vendor_aware_category plain_env (\<lambda>_ _. Inr False) globex_document shop_vendors = Inr (vm', ans, va)"
    using g by (cases "vendor_aware_category plain_env (\<lambda>_ _. Inr False) globex_document shop_vendors") (simp_all add: globex_answer_def)
  have w: "ca_why (fst (snd globex_answer)) = ''vendor_history''" by code_simp
  have "ca_category (fst (snd globex_answer)) \<noteq> PStr ''Uncategorized''" by code_simp
  with w have "ca_category ans \<noteq> PStr ''Uncategorized''" "ca_why ans = ''vendor_history''" by (simp_all add: g)
  then show ?thesis using confident_category [OF e] by (simp only: g fst_conv snd_conv) blast
qed

definition new_vendor_answer :: "vendor_manager \<times> vendor_answer" where
  "new_vendor_answer = projr (identify_vendor PNone (PStr ''Initech BV'') shop_vendors)"

lemma new_vendor: "identify_vendor PNone (PStr ''Initech BV'') shop_vendors = Inr (fst new_vendor_answer, snd new_vendor_answer)"
proof -
  have "isl (identify_vendor PNone (PStr ''Initech BV'') shop_vendors) = False" by code_simp
  then show ?thesis
    by (cases "identify_vendor PNone (PStr ''Initech BV'') shop_vendors") (simp_all add: new_vendor_answer_def)
qed

theorem created_vendor_is_recognised_witness:
  "va_existing (snd (projr (identify_vendor PNone (PStr ''The  initech'') (fst new_vendor_answer))))"
proof -
  have n: "normalize_name (strip ''The  initech'') = normalize_name (strip ''Initech BV'')" "strip ''The  initech'' \<noteq> []" by code_simp+
  have "va_reason (snd new_vendor_answer) = Some ''auto_created_from_ocr''" by code_simp
  from created_vendor_is_recognised [OF new_vendor this n] show ?thesis by simp
qed

theorem identified_vendor_is_known_witness:
  "va_profile (snd new_vendor_answer) = None \<longrightarrow> va_review (snd new_vendor_answer)"
  using identified_vendor_is_known [OF new_vendor] by blast

theorem category_path_is_real_witness: "tree_path [(''Office'', PDict [(''Software'', PNone)])] [''Office'', ''Software'']"
proof -
  have "get_category_path (PStr ''Software'') shop_vendors = Inr (map PStr [''Office'', ''Software''])" by code_simp
  from category_path_is_real [OF this] show ?thesis by (auto simp: shop_vendors_def)
qed

end
