(* ===== verification/Spec2Isabelle.thy ===== *)
theory Spec2Isabelle
  imports Posting_Flows Posting_Races Rate_Service Rate_Waiting Rate_Refinement Runtime_Safety Export_Properties
    Wave_Properties Playbook_Plans Mgz_Properties Reconcile_Properties
    Record_Properties Bank_Properties Bank_Statements Duplicate_Properties
    Book_Properties Local_Reconcile_Runs Routing_Properties Vendors
begin

text \<open>
  Verification of FAB, a bookkeeping automation that reads receipts and bank statements, keeps them in
  a local ledger, and prepares entries for Wave and MijnGeldzaken which a person approves before
  anything leaves the machine. The Python sources are under src/src; every definition keeps the name
  of the function, method or table it translates where Isabelle allows it.

  \<^bold>\<open>The program and its parts.\<close> Documents and bank transactions enter the ledger
  (operations/local_ledger.py). The record service derives a bookkeeping record from each of them, the
  reconciliation proposes matches between them, routing turns a reviewed document into a draft
  operation, the export service makes it an export attempt that waits for approval, and an
  approved attempt is executed by the Wave or MijnGeldzaken handlers, which spend calls of a rate
  limiter. An older pipeline (workflow, queue, storage, data_entry) posts documents through its own
  store. Leases keep two cycles from running at once and an emergency stop keeps all of them from
  running.

  \<^bold>\<open>Values and state.\<close> Python values are the datatype \<open>pyval\<close>, a dictionary an association list in
  insertion order, a number an exact rational with NaN and infinities beside it (Py_Values): a
  difference to the program is that products and sums are not rounded to binary fractions.
  An exception is the left side of \<open>'a result\<close>. A table is the list of its rows with the last
  row identifier (Tables). The ledger is a record of tables: \<open>export_ledger\<close> (Export_Store) has
  the attempts, records, reviews, routes, documents, audit events and the log of requests sent;
  \<open>bank_ledger\<close> (Bank_Ledger) adds transactions and imports, \<open>book_ledger\<close> (Book_Records) adds line items and
  matches. A service method is a function from the ledger to the result and the ledger it leaves, also when
  it raises (Book_Service, \<open>'a act\<close>); every call of the ledger commits by itself, so what was
  written before an exception stays. The clock is an argument.

  \<^bold>\<open>Ports.\<close> What the code calls outside the repository is a parameter: \<open>py_env\<close> (SHA-256 and \<open>repr\<close>
  of floats and containers), \<open>ledger_env\<close> (time stamps as text and back, the substitutions of the
  secret redaction), the HTTP client with the answers of Wave, the file system, the XML and CSV
  readers, JSON decoding of provider answers. The records \<open>export_ports\<close> and \<open>exec_config\<close> bundle those of
  the export service and of the old executor, with the handlers, the backup and the builder of the master
  ledger package. Theorems hold for every port; where a law of one is needed (\<open>repr_nonempty\<close>, a hash that
  does not collide, the text of a float that reads back) it is a hypothesis of the theorem and has a witness.

  \<^bold>\<open>Theories.\<close>
  \<^item> Foundations: Prelude, Tables, Py_Values, Py_Text, Py_Dates, Py_Datetimes, Py_Regex (the ordered
    backtracking of \<open>re\<close> for the patterns used), Text_Similarity (\<open>difflib\<close>), Json_Read and Csv_Text (readers
    for what the program writes, for the round trips), Claims (the read, decide, update protocol of
    the two executors as a locale).
  \<^item> workflow/state_machine.py, workflow/safety_engine.py: Doc_States, Safety_Engine.
  \<^item> queue/retry_manager.py and the posting pipeline (storage/database.py, data_entry/safe_posting.py,
    posting_approval.py, posting_executor.py): Retry_Queue, Posting_Store, Posting, Posting_Executor; what they
    guarantee is in Posting_Safety (reachable states and the authority invariant), Posting_Properties,
    Posting_Races and Posting_Flows.
  \<^item> utils/rate_limiter.py: Rate_Limiter, Rate_Service; Rate_Limits (the windows are respected), Rate_Waiting,
    and Rate_Refinement (the limiter refines one that keeps the whole history).
  \<^item> Leases and the emergency stop (operations/local_ledger.py, local_autonomy_control.py):
    Runtime_Control, Runtime_Safety (exclusion from the laws of a lease store).
  \<^item> data_entry/waveapps_surface.py: Wave_Catalog (all 265 actions), Wave_Documents, Wave_Lookups;
    waveapps_autonomous_operator.py: Wave_Operator; waveapps_transaction.py: Wave_Transaction;
    waveapps_business_handler.py, waveapps_personal_handler.py, base.py, waveapps_api_executor.py: Wave_Handlers,
    Wave_Posting, Wave_Properties. workflow/autonomous_playbook.py: Playbook, Playbook_Plans.
  \<^item> data_entry/mijngeldzaken_*.py: Mijngeldzaken, Mgz_Handler, Mgz_Properties.
  \<^item> operations/local_exports.py: Export_Store, Export_Attempts, Export_Drafts, Export_Results, Export_Execution,
    Export_Run; Export_Facts, Export_Safety, Export_Audit, Export_Effects, Export_Closed, Export_Gates,
    Export_Reviews and Export_Properties prove the invariants of its reachable ledgers.
  \<^item> operations/local_bank_transactions.py: Bank_Ledger, Bank_Import, Bank_Statements, Bank_Properties.
  \<^item> operations/local_bookkeeping_records.py: Book_Lines, Book_Records, Book_Service, Book_Line_Properties,
    Book_Properties.
  \<^item> reconciliation/automated_reconciliation.py: Reconcile, Reconcile_Properties;
    operations/local_reconciliation.py: Local_Reconcile, Local_Reconcile_Properties (a locale of the relations
    a run keeps), Local_Reconcile_Runs (sequences of runs and decisions).
  \<^item> operations/local_routing.py: Local_Routing, Routing_Properties.
  \<^item> vendor_management/vendor_manager.py and categorizers/: Vendors (profiles, aliases, suggestions by similarity, the
    history of categories, the four categorizers), with what an identification and a category guarantee.
  \<^item> document_handling/duplicate_detector.py: Duplicates, Duplicate_Properties. validation/ and
    compliance/: Record_Checks, Record_Properties.

  \<^bold>\<open>What is proved.\<close> Nothing is sent without an approval in the audit trail, by either executor, in any
  reachable state; one approval sends at most once under competing workers; a transaction posted with a
  number as its amount is balanced and agrees with the document; imports, matches and reconciliations keep identities unique and decisions
  as they are; a prepared route and a record ready for export have what they need; the limiter respects and
  refines its specification; leases exclude; texts written are read back. The lemmas of error kind state where the
  code does something else than it means to: each is a theorem about the definitions, with a concrete instance.

  \<^bold>\<open>Interfaces.\<close> The locales are \<open>row_store\<close> (tables), \<open>claim_protocol\<close> (interpreted on both executors),
  \<open>lease_store\<close>, \<open>kept_relation\<close> and \<open>match_relation\<close> (what an action on the ledger keeps, interpreted once per
  relation) and \<open>simulation\<close> (refinement of a machine that answers). Each is interpreted on the model's own definitions.

  \<^bold>\<open>Loops.\<close> Recursion is structural or has a measure. The waiting loop of the limiter consumes one tick per
  iteration; a list of ticks stands for the clock readings of one call, and \<open>Still_waiting\<close> is the outcome when
  they end. The other loops run over finite lists of rows.

  \<^bold>\<open>Not modelled.\<close> The HTTP API and dashboards, OCR and field extraction from images, the fetchers of mail and
  cloud storage, OAuth, backups on disk and key storage, start-up code: input and output around the services above.
  The review service, the learning of corrections and the orchestration of the cycle are not modelled yet, nor is the training of
  the category model. Read-only reports have no state of their own. Concurrency inside SQLite is not modelled: a ledger call is atomic,
  and the interleaving of calls of several workers is explicit where the code depends on it (claims and leases).
\<close>

end
